(* ===== verification/Prelude.thy ===== *)
theory Prelude
  imports Main "HOL-Library.Word"
begin

section \<open>Shared vocabulary of the swtpm development\<close>

text \<open>
  Machine integers, byte buffers, big and little endian encodings, the C library's memory
  primitives and the TPM result codes, with the lemmas the component theories share.
  \<^item> \<open>bytes\<close> is the content of a C buffer; \<open>mem_read\<close> and \<open>mem_write\<close> are
    \<open>memcpy\<close> from and to an offset of a buffer.
  \<^item> \<open>htobe16\<close>, \<open>be16toh\<close>, and so on convert between a word and its bytes in
    memory (the conversion to wire order and the store to memory are one operation here).
  \<^item> the collection \<open>codec\<close> holds the round trips of the encodings, \<open>mem\<close> the
    rewriting of buffer reads after writes.
\<close>

unbundle bit_operations_syntax

type_synonym byte = "8 word"
type_synonym u16 = "16 word"
type_synonym u32 = "32 word"
type_synonym u64 = "64 word"
type_synonym bytes = "byte list"

named_theorems codec \<open>round trips of integer encodings\<close>
named_theorems mem \<open>reads and lengths of updated buffers\<close>

subsection \<open>Result codes\<close>

text \<open>
  \<open>TPM_RESULT\<close> is a 32 bit integer; 0 is success. The codes are those of the TPM Main
  Specification, Part 2, as libtpms defines them, plus the TPM 2 codes of \<open>tpmlib.h\<close>.
\<close>

type_synonym TPM_RESULT = u32

abbreviation TPM_SUCCESS :: TPM_RESULT where "TPM_SUCCESS \<equiv> 0"
abbreviation TPM_BAD_PARAMETER :: TPM_RESULT where "TPM_BAD_PARAMETER \<equiv> 3"
abbreviation TPM_FAIL :: TPM_RESULT where "TPM_FAIL \<equiv> 9"
abbreviation TPM_BAD_ORDINAL :: TPM_RESULT where "TPM_BAD_ORDINAL \<equiv> 10"
abbreviation TPM_KEYNOTFOUND :: TPM_RESULT where "TPM_KEYNOTFOUND \<equiv> 13"
abbreviation TPM_SIZE :: TPM_RESULT where "TPM_SIZE \<equiv> 17"
abbreviation TPM_BAD_PARAM_SIZE :: TPM_RESULT where "TPM_BAD_PARAM_SIZE \<equiv> 25"
abbreviation TPM_IOERROR :: TPM_RESULT where "TPM_IOERROR \<equiv> 31"
abbreviation TPM_ENCRYPT_ERROR :: TPM_RESULT where "TPM_ENCRYPT_ERROR \<equiv> 32"
abbreviation TPM_DECRYPT_ERROR :: TPM_RESULT where "TPM_DECRYPT_ERROR \<equiv> 33"
abbreviation TPM_BAD_KEY_PROPERTY :: TPM_RESULT where "TPM_BAD_KEY_PROPERTY \<equiv> 40"
abbreviation TPM_BAD_DATASIZE :: TPM_RESULT where "TPM_BAD_DATASIZE \<equiv> 43"
abbreviation TPM_BAD_MODE :: TPM_RESULT where "TPM_BAD_MODE \<equiv> 44"
abbreviation TPM_BAD_VERSION :: TPM_RESULT where "TPM_BAD_VERSION \<equiv> 46"
abbreviation TPM_BAD_LOCALITY :: TPM_RESULT where "TPM_BAD_LOCALITY \<equiv> 61"
abbreviation TPM_RETRY :: TPM_RESULT where "TPM_RETRY \<equiv> 2048"

subsection \<open>Integers in memory\<close>

fun le_bytes :: "nat \<Rightarrow> 'a::len word \<Rightarrow> bytes" where
  "le_bytes 0 w = []"
| "le_bytes (Suc n) w = ucast w # le_bytes n (drop_bit 8 w)"

fun of_le :: "bytes \<Rightarrow> 'a::len word" where
  "of_le [] = 0"
| "of_le (b # bs) = ucast b OR push_bit 8 (of_le bs)"

lemma length_le_bytes [simp]: "length (le_bytes n w) = n"
  by (induction n arbitrary: w) auto

lemma of_le_le_bytes: "of_le (le_bytes n w) = take_bit (8 * n) (w :: 'a::len word)"
proof (induction n arbitrary: w)
  case (Suc n)
  have "of_le (le_bytes (Suc n) w) =
      ucast (ucast w :: byte) OR push_bit 8 (take_bit (8 * n) (drop_bit 8 w))"
    by (simp add: Suc.IH)
  also have "\<dots> = take_bit (8 * Suc n) w"
    by (rule bit_word_eqI) (auto simp: bit_simps)
  finally show ?case .
qed simp

lemma le_bytes_of_le:
  "8 * length bs \<le> LENGTH('a) \<Longrightarrow> le_bytes (length bs) (of_le bs :: 'a::len word) = bs"
proof (induction bs)
  case (Cons b bs)
  have hd: "ucast (ucast b OR push_bit 8 (of_le bs) :: 'a word) = b"
    using Cons.prems by (intro bit_word_eqI) (auto simp: bit_simps)
  have fit: "bit (of_le bs :: 'a word) i \<Longrightarrow> i + 8 < LENGTH('a)" for i
  proof -
    assume "bit (of_le bs :: 'a word) i"
    moreover have "take_bit (8 * length bs) (of_le bs :: 'a word) = of_le bs"
      using Cons of_le_le_bytes [of "length bs" "of_le bs :: 'a word"] by simp
    ultimately have "i < 8 * length bs"
      by (metis bit_take_bit_iff)
    with Cons.prems show ?thesis by simp
  qed
  have tl: "drop_bit 8 (ucast b OR push_bit 8 (of_le bs) :: 'a word) = of_le bs"
    by (rule bit_word_eqI) (auto simp: bit_simps dest: fit bit_imp_le_length)
  show ?case using Cons by (simp add: hd tl del: drop_bit_or)
qed simp

definition htole16 :: "u16 \<Rightarrow> bytes" where "htole16 w = le_bytes 2 w"
definition htole32 :: "u32 \<Rightarrow> bytes" where "htole32 w = le_bytes 4 w"
definition htole64 :: "u64 \<Rightarrow> bytes" where "htole64 w = le_bytes 8 w"
definition le16toh :: "bytes \<Rightarrow> u16" where "le16toh bs = of_le (take 2 bs)"
definition le32toh :: "bytes \<Rightarrow> u32" where "le32toh bs = of_le (take 4 bs)"
definition le64toh :: "bytes \<Rightarrow> u64" where "le64toh bs = of_le (take 8 bs)"

definition htobe16 :: "u16 \<Rightarrow> bytes" where "htobe16 w = rev (le_bytes 2 w)"
definition htobe32 :: "u32 \<Rightarrow> bytes" where "htobe32 w = rev (le_bytes 4 w)"
definition htobe64 :: "u64 \<Rightarrow> bytes" where "htobe64 w = rev (le_bytes 8 w)"
definition be16toh :: "bytes \<Rightarrow> u16" where "be16toh bs = of_le (rev (take 2 bs))"
definition be32toh :: "bytes \<Rightarrow> u32" where "be32toh bs = of_le (rev (take 4 bs))"
definition be64toh :: "bytes \<Rightarrow> u64" where "be64toh bs = of_le (rev (take 8 bs))"

lemmas endian_defs = htole16_def htole32_def htole64_def le16toh_def le32toh_def le64toh_def
  htobe16_def htobe32_def htobe64_def be16toh_def be32toh_def be64toh_def

lemma length_endian [simp]:
  "length (htole16 a) = 2" "length (htole32 b) = 4" "length (htole64 c) = 8"
  "length (htobe16 a) = 2" "length (htobe32 b) = 4" "length (htobe64 c) = 8"
  by (simp_all add: endian_defs)

lemma take_bit_full [simp]:
  "take_bit 16 (a :: u16) = a" "take_bit 32 (b :: u32) = b" "take_bit 64 (c :: u64) = c"
  by (simp_all add: take_bit_word_eq_self)

lemma endian_roundtrip [simp, codec]:
  "le16toh (htole16 a @ r) = a" "le32toh (htole32 b @ r) = b" "le64toh (htole64 c @ r) = c"
  "be16toh (htobe16 a @ r) = a" "be32toh (htobe32 b @ r) = b" "be64toh (htobe64 c @ r) = c"
  by (simp_all add: endian_defs of_le_le_bytes)

lemma endian_roundtrip0 [simp, codec]:
  "le16toh (htole16 a) = a" "le32toh (htole32 b) = b" "le64toh (htole64 c) = c"
  "be16toh (htobe16 a) = a" "be32toh (htobe32 b) = b" "be64toh (htobe64 c) = c"
  by (simp_all add: endian_defs of_le_le_bytes)

lemma htobe_be32toh [codec]: "length bs = 4 \<Longrightarrow> htobe32 (be32toh bs) = bs"
proof -
  assume l: "length bs = 4"
  have "le_bytes (length (rev bs)) (of_le (rev bs) :: u32) = rev bs"
    by (rule le_bytes_of_le) (simp add: l)
  with l show ?thesis by (simp add: endian_defs)
qed

lemma htobe_be16toh [codec]: "length bs = 2 \<Longrightarrow> htobe16 (be16toh bs) = bs"
proof -
  assume l: "length bs = 2"
  have "le_bytes (length (rev bs)) (of_le (rev bs) :: u16) = rev bs"
    by (rule le_bytes_of_le) (simp add: l)
  with l show ?thesis by (simp add: endian_defs)
qed

lemma endian_take [simp]:
  "le16toh (take 2 bs) = le16toh bs" "le32toh (take 4 bs) = le32toh bs"
  "be16toh (take 2 bs) = be16toh bs" "be32toh (take 4 bs) = be32toh bs"
  by (simp_all add: endian_defs)

subsection \<open>Buffers\<close>

text \<open>\<open>mem_read d off n\<close> is the \<open>n\<close> bytes at \<open>d + off\<close>; \<open>mem_write d off src\<close> is
  \<open>memcpy(d + off, src, length src)\<close>.\<close>

definition mem_read :: "bytes \<Rightarrow> nat \<Rightarrow> nat \<Rightarrow> bytes" where
  "mem_read d off n = take n (drop off d)"

definition mem_write :: "bytes \<Rightarrow> nat \<Rightarrow> bytes \<Rightarrow> bytes" where
  "mem_write d off src = take off d @ src @ drop (off + length src) d"

lemma length_mem_read [simp, mem]: "off + n \<le> length d \<Longrightarrow> length (mem_read d off n) = n"
  by (simp add: mem_read_def)

lemma length_mem_write [simp, mem]:
  "off + length src \<le> length d \<Longrightarrow> length (mem_write d off src) = length d"
  by (simp add: mem_write_def)

lemma mem_read_write_same [simp, mem]:
  "off \<le> length d \<Longrightarrow> mem_read (mem_write d off src) off (length src) = src"
  by (simp add: mem_read_def mem_write_def)

lemma mem_read_write_prefix [mem]:
  "off \<le> length d \<Longrightarrow> n \<le> length src \<Longrightarrow> mem_read (mem_write d off src) off n = take n src"
  by (simp add: mem_read_def mem_write_def)

lemma mem_read_write_before [mem]:
  assumes "o2 + n \<le> off" "off \<le> length d"
  shows "mem_read (mem_write d off src) o2 n = mem_read d o2 n"
proof -
  have "take n (drop o2 (take off d @ r)) = take n (drop o2 (take off d))" for r
    using assms by simp
  also have "take n (drop o2 (take off d)) = take n (drop o2 d)"
    using assms by (simp add: drop_take min_def)
  finally show ?thesis by (simp only: mem_read_def mem_write_def)
qed

lemma mem_read_write_after [mem]:
  assumes "off + length src \<le> o2" "off \<le> length d"
  shows "mem_read (mem_write d off src) o2 n = mem_read d o2 n"
  using assms by (simp add: mem_read_def mem_write_def)

lemma mem_read_write_other:
  assumes "o2 + n \<le> off \<or> off + length src \<le> o2" "off \<le> length d"
  shows "mem_read (mem_write d off src) o2 n = mem_read d o2 n"
  using assms mem_read_write_before mem_read_write_after by metis

lemma mem_read_append1: "off + n \<le> length d \<Longrightarrow> mem_read (d @ r) off n = mem_read d off n"
  by (simp add: mem_read_def)

lemma mem_read_take: "off + n \<le> k \<Longrightarrow> mem_read (take k d) off n = mem_read d off n"
  by (simp add: mem_read_def drop_take min_def)

lemma mem_read_mem_read:
  "o2 + n \<le> m \<Longrightarrow> mem_read (mem_read d off m) o2 n = mem_read d (off + o2) n"
  by (simp add: mem_read_def drop_take min_def add.commute)

lemma mem_read_0 [simp]: "mem_read d 0 n = take n d"
  by (simp add: mem_read_def)

subsection \<open>Words and natural numbers\<close>

lemma unat_of_nat_u32 [simp]: "n < 2 ^ 32 \<Longrightarrow> unat (of_nat n :: u32) = n"
  by (simp add: unat_of_nat take_bit_nat_eq_self)

lemma unat_u32_bound: "unat (w :: u32) < 4294967296"
  using unsigned_less [of w] by simp

lemma unat_add_u32: "unat (a :: u32) + unat b < 2 ^ 32 \<Longrightarrow> unat (a + b) = unat a + unat b"
  by (simp add: unat_word_ariths)

lemma unat_sub_u32: "(b :: u32) \<le> a \<Longrightarrow> unat (a - b) = unat a - unat b"
  by (simp add: unat_sub)

subsection \<open>Numbers in text\<close>

text \<open>The decimal digits of a number, as \<open>%u\<close> prints them.\<close>

fun dec :: "nat \<Rightarrow> string" where
  "dec n = (if n < 10 then [''0123456789'' ! n] else dec (n div 10) @ [''0123456789'' ! (n mod 10)])"

declare dec.simps [simp del]

end
