(* ===== verification/Tlv.thy ===== *)
theory Tlv
  imports Prelude
begin

section \<open>Tag-length-value streams (src/src/swtpm/tlv.c, tlv.h)\<close>

text \<open>
  State blobs are a header followed by a stream of tagged records: a packed 6 byte header
  (big endian 16 bit tag, 32 bit length) and the data. \<open>tlv_data\<close> is the C struct; its
  pointer is the list of bytes reachable through it, of which the first \<open>tlv_length\<close>
  belong to the record. Allocation is a parameter \<open>malloc_ok\<close>: whether a request of the
  given size succeeds.

  Shown here: appending writes exactly the encoding of the records or leaves the buffer as it
  was, searching never reads outside the buffer it is given, whatever the bytes are, and
  searching what was appended finds the first record with the tag.
\<close>

record tlv_data =
  tlv_tag :: u16
  tlv_length :: u32
  is_const_ptr :: bool
  tlv_ptr :: bytes

abbreviation sizeof_tlv_header :: nat where "sizeof_tlv_header \<equiv> 6"

abbreviation TAG_DATA :: u16 where "TAG_DATA \<equiv> 1"
abbreviation TAG_ENCRYPTED_DATA :: u16 where "TAG_ENCRYPTED_DATA \<equiv> 2"
abbreviation TAG_HMAC :: u16 where "TAG_HMAC \<equiv> 3"
abbreviation TAG_MIGRATION_DATA :: u16 where "TAG_MIGRATION_DATA \<equiv> 4"
abbreviation TAG_ENCRYPTED_MIGRATION_DATA :: u16 where "TAG_ENCRYPTED_MIGRATION_DATA \<equiv> 5"
abbreviation TAG_IVEC_ENCRYPTED_DATA :: u16 where "TAG_IVEC_ENCRYPTED_DATA \<equiv> 6"
abbreviation TAG_IVEC_ENCRYPTED_MIGRATION_DATA :: u16 where
  "TAG_IVEC_ENCRYPTED_MIGRATION_DATA \<equiv> 7"

definition TLV_DATA :: "u16 \<Rightarrow> u32 \<Rightarrow> bytes \<Rightarrow> tlv_data" where
  "TLV_DATA t n p = \<lparr>tlv_tag = t, tlv_length = n, is_const_ptr = False, tlv_ptr = p\<rparr>"

definition TLV_DATA_CONST :: "u16 \<Rightarrow> u32 \<Rightarrow> bytes \<Rightarrow> tlv_data" where
  "TLV_DATA_CONST t n p = \<lparr>tlv_tag = t, tlv_length = n, is_const_ptr = True, tlv_ptr = p\<rparr>"

text \<open>The bytes a record stands for, and the bytes one round of the copy loop writes.\<close>

definition tlv_payload :: "tlv_data \<Rightarrow> bytes" where
  "tlv_payload td = take (unat (tlv_length td)) (tlv_ptr td)"

definition tlv_encode :: "tlv_data \<Rightarrow> bytes" where
  "tlv_encode td = htobe16 (tlv_tag td) @ htobe32 (tlv_length td) @ tlv_payload td"

text \<open>The first loop of \<open>tlv_data_append\<close>, in 64 bit arithmetic.\<close>

fun tlv_addlen :: "tlv_data list \<Rightarrow> u64 \<Rightarrow> u64" where
  "tlv_addlen [] addlen = addlen"
| "tlv_addlen (td # tds) addlen =
     tlv_addlen tds (addlen + (of_nat sizeof_tlv_header + ucast (tlv_length td)))"

text \<open>
  \<open>buffer\<close> is \<open>*buffer\<close> (\<open>None\<close> for NULL, then \<open>buffer_len\<close> is 0 at every call); the
  result is the return code with the new \<open>*buffer\<close> and \<open>*buffer_len\<close>.
\<close>

definition tlv_data_append ::
  "(nat \<Rightarrow> bool) \<Rightarrow> bytes option \<Rightarrow> u32 \<Rightarrow> tlv_data list \<Rightarrow> TPM_RESULT \<times> bytes option \<times> u32"
where
  "tlv_data_append malloc_ok buffer buffer_len td =
     (let addlen = tlv_addlen td 0;
          totlen = (case buffer of Some _ \<Rightarrow> ucast buffer_len + addlen | None \<Rightarrow> addlen)
      in if totlen > 0xffffffff then (TPM_FAIL, buffer, buffer_len)
         else if \<not> malloc_ok (unat totlen) then (TPM_FAIL, buffer, buffer_len)
         else (TPM_SUCCESS,
               Some (take (unat buffer_len) (case buffer of Some b \<Rightarrow> b | None \<Rightarrow> [])
                     @ concat (map tlv_encode td)),
               ucast totlen))"

text \<open>
  The search loop. The offset is a \<open>uint64_t\<close> that stays below \<open>2 ^ 33 + 6\<close>, so a natural
  number counts the same.
\<close>

function tlv_find_from :: "bytes \<Rightarrow> u32 \<Rightarrow> u16 \<Rightarrow> nat \<Rightarrow> tlv_data option" where
  "tlv_find_from buffer buffer_len tag offset =
     (if offset < unat buffer_len then
        if offset + sizeof_tlv_header > unat buffer_len then None
        else
          let hdr = mem_read buffer offset sizeof_tlv_header;
              offset1 = offset + sizeof_tlv_header;
              len = be32toh (drop 2 hdr)
          in if offset1 + unat len > unat buffer_len then None
             else if be16toh hdr = tag
             then Some \<lparr>tlv_tag = tag, tlv_length = len, is_const_ptr = True,
                        tlv_ptr = drop offset1 buffer\<rparr>
             else tlv_find_from buffer buffer_len tag (offset1 + unat len)
      else None)"
  by pat_completeness auto
termination
  by (relation "measure (\<lambda>(b, n, t, i). unat n - i)") auto

declare tlv_find_from.simps [simp del]

definition tlv_data_find_tag :: "bytes \<Rightarrow> u32 \<Rightarrow> u16 \<Rightarrow> tlv_data option" where
  "tlv_data_find_tag buffer buffer_len tag = tlv_find_from buffer buffer_len tag 0"

subsection \<open>Well-formed records\<close>

definition tlv_wf :: "tlv_data \<Rightarrow> bool" where
  "tlv_wf td \<longleftrightarrow> unat (tlv_length td) \<le> length (tlv_ptr td)"

lemma tlv_wf_TLV_DATA [simp]:
  "length p < 2 ^ 32 \<Longrightarrow> tlv_wf (TLV_DATA t (of_nat (length p)) p)"
  "length p < 2 ^ 32 \<Longrightarrow> tlv_wf (TLV_DATA_CONST t (of_nat (length p)) p)"
  by (simp_all add: tlv_wf_def TLV_DATA_def TLV_DATA_CONST_def)

lemma tlv_payload_TLV_DATA [simp]:
  "length p < 2 ^ 32 \<Longrightarrow> tlv_payload (TLV_DATA t (of_nat (length p)) p) = p"
  "length p < 2 ^ 32 \<Longrightarrow> tlv_payload (TLV_DATA_CONST t (of_nat (length p)) p) = p"
  by (simp_all add: tlv_payload_def TLV_DATA_def TLV_DATA_CONST_def)

lemma tlv_tag_TLV_DATA [simp]:
  "tlv_tag (TLV_DATA t n p) = t" "tlv_tag (TLV_DATA_CONST t n p) = t"
  "tlv_length (TLV_DATA t n p) = n" "tlv_length (TLV_DATA_CONST t n p) = n"
  "tlv_ptr (TLV_DATA t n p) = p" "tlv_ptr (TLV_DATA_CONST t n p) = p"
  by (simp_all add: TLV_DATA_def TLV_DATA_CONST_def)

lemma length_tlv_payload: "tlv_wf td \<Longrightarrow> length (tlv_payload td) = unat (tlv_length td)"
  by (simp add: tlv_wf_def tlv_payload_def)

lemma length_tlv_encode:
  "tlv_wf td \<Longrightarrow> length (tlv_encode td) = sizeof_tlv_header + unat (tlv_length td)"
  by (simp add: tlv_encode_def length_tlv_payload)

subsection \<open>The length computation\<close>

definition tlv_size :: "tlv_data list \<Rightarrow> nat" where
  "tlv_size td = (\<Sum>t\<leftarrow>td. sizeof_tlv_header + unat (tlv_length t))"

lemma tlv_size_simps [simp]:
  "tlv_size [] = 0"
  "tlv_size (t # td) = sizeof_tlv_header + unat (tlv_length t) + tlv_size td"
  "tlv_size (td @ td') = tlv_size td + tlv_size td'"
  by (simp_all add: tlv_size_def)

lemma tlv_addlen_eq: "tlv_addlen td a = a + of_nat (tlv_size td)"
  by (induction td arbitrary: a) (simp_all add: unsigned_ucast_eq add.assoc)

lemma tlv_size_bound: "tlv_size td \<le> length td * (2 ^ 32 + 5)"
proof (induction td)
  case (Cons t td)
  then show ?case using unat_u32_bound [of "tlv_length t"] by (simp add: algebra_simps)
qed simp

lemma length_concat_tlv_encode:
  "list_all tlv_wf td \<Longrightarrow> length (concat (map tlv_encode td)) = tlv_size td"
  by (induction td) (auto simp: length_tlv_encode)

lemma unat_tlv_addlen:
  assumes "length td < 2 ^ 31"
  shows "unat (tlv_addlen td 0) = tlv_size td"
proof -
  have "tlv_size td \<le> 2 ^ 31 * (2 ^ 32 + 5)"
    using tlv_size_bound [of td] assms by (meson le_trans less_imp_le mult_le_mono1)
  then have "tlv_size td < 2 ^ 64" by simp
  then show ?thesis by (simp add: tlv_addlen_eq unat_of_nat take_bit_nat_eq_self)
qed

subsection \<open>Appending\<close>

lemma tlv_data_append_eq:
  assumes "length td < 2 ^ 31"
    and "case buffer of None \<Rightarrow> buffer_len = 0 | Some b \<Rightarrow> length b = unat buffer_len"
  shows "tlv_data_append malloc_ok buffer buffer_len td =
    (if unat buffer_len + tlv_size td < 2 ^ 32 \<and> malloc_ok (unat buffer_len + tlv_size td)
     then (TPM_SUCCESS,
           Some ((case buffer of None \<Rightarrow> [] | Some b \<Rightarrow> b) @ concat (map tlv_encode td)),
           of_nat (unat buffer_len + tlv_size td))
     else (TPM_FAIL, buffer, buffer_len))"
proof -
  let ?tot = "case buffer of Some _ \<Rightarrow> ucast buffer_len + tlv_addlen td 0 | None \<Rightarrow> tlv_addlen td 0"
  have small: "tlv_size td < 2 ^ 63 + 2 ^ 34"
    using tlv_size_bound [of td] assms(1) by simp
  have tot: "unat ?tot = unat buffer_len + tlv_size td"
  proof (cases buffer)
    case None
    then show ?thesis using assms by (simp add: unat_tlv_addlen)
  next
    case (Some b)
    have "unat (ucast buffer_len + tlv_addlen td 0 :: u64) =
        (unat buffer_len + tlv_size td) mod 2 ^ 64"
      using assms(1) unat_u32_bound [of buffer_len]
      by (simp add: unat_word_ariths unat_tlv_addlen unsigned_ucast_eq take_bit_nat_eq_self)
    also have "\<dots> = unat buffer_len + tlv_size td"
      using small unat_u32_bound [of buffer_len] by simp
    finally show ?thesis using Some by simp
  qed
  have gt: "?tot > 0xffffffff \<longleftrightarrow> \<not> unat buffer_len + tlv_size td < 2 ^ 32"
    using tot by (auto simp: word_less_nat_alt)
  have uc: "(ucast ?tot :: u32) = of_nat (unat buffer_len + tlv_size td)"
    by (simp add: tot [symmetric] unsigned_of_nat)
  have tk: "take (unat buffer_len) (case buffer of None \<Rightarrow> [] | Some b \<Rightarrow> b) =
      (case buffer of None \<Rightarrow> [] | Some b \<Rightarrow> b)"
    using assms(2) by (auto split: option.splits)
  show ?thesis
    unfolding tlv_data_append_def Let_def gt uc tot tk by simp
qed

subsection \<open>Searching\<close>

text \<open>What a caller reads of a record that was found.\<close>

definition tlv_view :: "tlv_data \<Rightarrow> u16 \<times> u32 \<times> bytes" where
  "tlv_view td = (tlv_tag td, tlv_length td, tlv_payload td)"

lemma tlv_find_from_step:
  assumes "mem_read buffer offset 6 = htobe16 t @ htobe32 l"
    and "offset + 6 + unat l \<le> unat n"
  shows "tlv_find_from buffer n tag offset =
    (if t = tag
     then Some \<lparr>tlv_tag = tag, tlv_length = l, is_const_ptr = True, tlv_ptr = drop (offset + 6) buffer\<rparr>
     else tlv_find_from buffer n tag (offset + 6 + unat l))"
  using assms by (subst tlv_find_from.simps) (simp add: Let_def)

lemma tlv_find_from_concat:
  assumes "list_all tlv_wf td" "length (pre @ concat (map tlv_encode td)) < 2 ^ 32"
  shows "map_option tlv_view (tlv_find_from (pre @ concat (map tlv_encode td))
           (of_nat (length (pre @ concat (map tlv_encode td)))) tag (length pre)) =
         map_option tlv_view (find (\<lambda>t. tlv_tag t = tag) td)"
  using assms
proof (induction td arbitrary: pre)
  case Nil
  then show ?case by (subst tlv_find_from.simps) simp
next
  case (Cons t td)
  let ?rest = "concat (map tlv_encode td)"
  let ?buf = "pre @ tlv_encode t @ ?rest"
  have wf: "tlv_wf t" and len: "length ?buf < 2 ^ 32" using Cons.prems by auto
  have le: "length (tlv_encode t) = 6 + unat (tlv_length t)"
    using wf by (simp add: length_tlv_encode)
  have lb: "unat (of_nat (length ?buf) :: u32) = length ?buf"
    by (rule unat_of_nat_u32) (rule len)
  have hdr: "mem_read ?buf (length pre) 6 = htobe16 (tlv_tag t) @ htobe32 (tlv_length t)"
    by (simp add: mem_read_def tlv_encode_def)
  have IH: "map_option tlv_view (tlv_find_from ?buf (of_nat (length ?buf)) tag
      (length pre + 6 + unat (tlv_length t))) = map_option tlv_view (find (\<lambda>t. tlv_tag t = tag) td)"
    using Cons.IH [of "pre @ tlv_encode t"] Cons.prems le by (simp add: add.assoc)
  have pay: "take (unat (tlv_length t)) (drop (length pre + 6) ?buf) = tlv_payload t"
    using length_tlv_payload [OF wf] by (simp add: tlv_encode_def)
  have "tlv_find_from ?buf (of_nat (length ?buf)) tag (length pre) =
    (if tlv_tag t = tag
     then Some \<lparr>tlv_tag = tag, tlv_length = tlv_length t, is_const_ptr = True,
                 tlv_ptr = drop (length pre + 6) ?buf\<rparr>
     else tlv_find_from ?buf (of_nat (length ?buf)) tag (length pre + 6 + unat (tlv_length t)))"
    by (rule tlv_find_from_step [OF hdr]) (simp only: lb, simp add: le)
  moreover have "tlv_tag t = tag \<Longrightarrow> tlv_view \<lparr>tlv_tag = tag, tlv_length = tlv_length t,
      is_const_ptr = True, tlv_ptr = drop (length pre + 6) ?buf\<rparr> = tlv_view t"
    using pay by (simp add: tlv_payload_def tlv_view_def)
  ultimately show ?case
    using IH by (auto simp del: length_append drop_append)
qed

lemma tlv_find_from_in_bounds:
  assumes "tlv_find_from buffer buffer_len tag offset = Some td"
  shows "\<exists>i. offset \<le> i \<and> i + 6 + unat (tlv_length td) \<le> unat buffer_len
           \<and> tlv_ptr td = drop (i + 6) buffer
           \<and> be16toh (mem_read buffer i 6) = tag \<and> tlv_tag td = tag"
  using assms
proof (induction buffer buffer_len tag offset rule: tlv_find_from.induct)
  case (1 buffer buffer_len tag offset)
  let ?hdr = "mem_read buffer offset 6"
  let ?next = "offset + 6 + unat (be32toh (drop 2 ?hdr))"
  from "1.prems" have c: "offset < unat buffer_len" "\<not> offset + 6 > unat buffer_len"
      "\<not> ?next > unat buffer_len"
    by (auto simp: tlv_find_from.simps [of buffer buffer_len tag offset] Let_def
        split: if_splits)
  show ?case
  proof (cases "be16toh ?hdr = tag")
    case True
    then have "td = \<lparr>tlv_tag = tag, tlv_length = be32toh (drop 2 ?hdr), is_const_ptr = True,
                  tlv_ptr = drop (offset + 6) buffer\<rparr>"
      using "1.prems" c
      by (simp add: tlv_find_from.simps [of buffer buffer_len tag offset] Let_def)
    then show ?thesis using True c by auto
  next
    case False
    then have "tlv_find_from buffer buffer_len tag ?next = Some td"
      using "1.prems" c
      by (simp add: tlv_find_from.simps [of buffer buffer_len tag offset] Let_def)
    from "1.IH" [OF c(1,2) refl refl refl c(3) False this] obtain i
      where "?next \<le> i" "i + 6 + unat (tlv_length td) \<le> unat buffer_len"
        "tlv_ptr td = drop (i + 6) buffer" "be16toh (mem_read buffer i 6) = tag"
        "tlv_tag td = tag"
      by blast
    then show ?thesis by (intro exI [of _ i]) simp
  qed
qed

lemma tlv_find_tag_length:
  assumes "tlv_data_find_tag buffer buffer_len tag = Some td" "length buffer = unat buffer_len"
  shows "length (tlv_payload td) = unat (tlv_length td)"
  using tlv_find_from_in_bounds [OF assms(1) [unfolded tlv_data_find_tag_def]] assms(2)
  by (auto simp: tlv_payload_def)

lemma tlv_find_concat:
  assumes "list_all tlv_wf td" "length (concat (map tlv_encode td)) < 2 ^ 32"
    and "n = of_nat (length (concat (map tlv_encode td)))"
  shows "map_option tlv_view (tlv_data_find_tag (concat (map tlv_encode td)) n tag) =
         map_option tlv_view (find (\<lambda>t. tlv_tag t = tag) td)"
  using tlv_find_from_concat [of td "[]" tag] assms by (simp add: tlv_data_find_tag_def)

lemma tlv_find_concatE:
  assumes "list_all tlv_wf td" "length (concat (map tlv_encode td)) < 2 ^ 32"
    and "find (\<lambda>t. tlv_tag t = tag) td = Some t"
  obtains t' where "tlv_data_find_tag (concat (map tlv_encode td))
      (of_nat (length (concat (map tlv_encode td)))) tag = Some t'"
    "tlv_payload t' = tlv_payload t" "tlv_length t' = tlv_length t"
  using tlv_find_concat [OF assms(1,2) refl, of tag] assms(3)
  by (auto simp: tlv_view_def)

subsection \<open>Properties\<close>



text \<open>
  C29. TLV round trip: appending records to an empty buffer and looking a tag up in the result
  gives the first record with that tag, its length and its bytes, or nothing when no record
  has the tag.
\<close>

theorem tlv_append_find:
  assumes "list_all tlv_wf td" "length td < 2 ^ 31" "tlv_size td < 2 ^ 32"
    and "tlv_data_append malloc None 0 td = (0, Some buf, n)"
  shows "length buf = unat n \<and>
    map_option tlv_view (tlv_data_find_tag buf n tag) =
      map_option tlv_view (find (\<lambda>t. tlv_tag t = tag) td)"
proof -
  have "buf = concat (map tlv_encode td)" "n = of_nat (tlv_size td)"
    using assms tlv_data_append_eq [OF assms(2), where buffer = None and buffer_len = 0 and malloc_ok = malloc] by (auto split: if_splits)
  moreover have l: "length (concat (map tlv_encode td)) = tlv_size td"
    using length_concat_tlv_encode [OF assms(1)] .
  ultimately show ?thesis
    using tlv_find_concat [OF assms(1), of n tag] assms(3) by (simp add: unat_of_nat_u32)
qed

theorem tlv_append_find_witness:
  "let td = [TLV_DATA TAG_DATA 2 [7, 8], TLV_DATA TAG_HMAC 1 [9], TLV_DATA TAG_DATA 1 [5]];
       r = tlv_data_append (\<lambda>n. True) None 0 td
   in map_option tlv_view (tlv_data_find_tag (the (fst (snd r))) (snd (snd r)) TAG_HMAC) =
      Some (TAG_HMAC, 1, [9])"
proof -
  let ?td = "[TLV_DATA TAG_DATA 2 [7, 8], TLV_DATA TAG_HMAC 1 [9], TLV_DATA TAG_DATA 1 [5]]"
  let ?r = "tlv_data_append (\<lambda>n. True) None 0 ?td"
  have r: "?r = (0, Some (the (fst (snd ?r))), snd (snd ?r))" by code_simp
  have w: "list_all tlv_wf ?td" by (simp add: tlv_wf_def)
  from tlv_append_find [OF w _ _ r, of TAG_HMAC] show ?thesis
    unfolding Let_def by (simp add: tlv_view_def tlv_payload_def)
qed

text \<open>
  Looking a tag up never reads outside the buffer: a record that is found has its header and
  all its bytes inside the given length, whatever lengths the buffer's headers claim.
\<close>

theorem tlv_find_in_bounds:
  assumes "tlv_data_find_tag buffer buffer_len tag = Some td"
  shows "\<exists>i. i + sizeof_tlv_header + unat (tlv_length td) \<le> unat buffer_len \<and>
    tlv_ptr td = drop (i + sizeof_tlv_header) buffer \<and> be16toh (mem_read buffer i 6) = tag"
  using tlv_find_from_in_bounds [of buffer buffer_len tag 0 td] assms
  by (auto simp: tlv_data_find_tag_def)

theorem tlv_find_in_bounds_witness:
  "tlv_data_find_tag [0, 3, 0, 0, 0, 9, 1] 7 3 = None \<and>
   (\<exists>td. tlv_data_find_tag [0, 3, 0, 0, 0, 1, 1] 7 3 = Some td \<and>
      (\<exists>i. i + sizeof_tlv_header + unat (tlv_length td) \<le> 7))"
proof -
  have n: "tlv_data_find_tag [0, 3, 0, 0, 0, 9, 1] 7 3 = None" by code_simp
  have "map_option tlv_tag (tlv_data_find_tag [0, 3, 0, 0, 0, 1, 1] 7 3) = Some 3" by code_simp
  then obtain td where t: "tlv_data_find_tag [0, 3, 0, 0, 0, 1, 1] 7 3 = Some td" by auto
  from tlv_find_in_bounds [OF t] n t show ?thesis by (auto simp del: mem_read_0)
qed

end
