(* ===== verification/Aes.thy ===== *)
theory Aes
  imports Prelude
begin

section \<open>Symmetric encryption of state blobs (src/src/swtpm/swtpm_aes.c)\<close>

text \<open>
  OpenSSL is not part of the program: the record \<open>crypto\<close> holds the primitives the code
  calls, as parameters of everything that uses them.
  \<^item> \<open>evp_encrypt bits key iv inl data\<close> is one run of \<open>EVP_EncryptInit_ex\<close>,
    \<open>EVP_CIPHER_CTX_set_padding(ctx, 0)\<close>, \<open>EVP_EncryptUpdate\<close> and
    \<open>EVP_EncryptFinal_ex\<close> of AES-CBC with a key of \<open>bits\<close> bits; \<open>None\<close> when any of
    the calls fails. \<open>inl\<close> is the length as the \<open>int\<close> these functions take: the code passes its \<open>uint32_t\<close>, which is
    negative from \<open>2 ^ 31\<close> on. \<open>evp_decrypt\<close> is its counterpart.
  \<^item> \<open>hmac_sha256 key message\<close> is the HMAC, \<open>None\<close> on failure; \<open>sha256\<close> the hash.
  \<^item> \<open>rand_bytes k n\<close> is the \<open>k\<close>-th call of \<open>RAND_bytes\<close>, for \<open>n\<close> bytes, \<open>None\<close>
    when it fails; \<open>stack_bytes k\<close> is the content of the 16 byte array the code leaves
    uninitialised on purpose as a fallback source of randomness.
  A pair of a C buffer and its length is a list of bytes; a pointer that may be NULL is an
  option. \<open>malloc_ok n\<close> says whether an allocation of \<open>n\<close> bytes succeeds.

  Shown here: the PKCS#7-style padding to a multiple of the key size, decryption as the
  inverse of encryption, and that decryption accepts nothing but correctly padded plaintext.
\<close>

record crypto =
  evp_encrypt :: "nat \<Rightarrow> bytes \<Rightarrow> bytes \<Rightarrow> int \<Rightarrow> bytes \<Rightarrow> bytes option"
  evp_decrypt :: "nat \<Rightarrow> bytes \<Rightarrow> bytes \<Rightarrow> int \<Rightarrow> bytes \<Rightarrow> bytes option"
  hmac_sha256 :: "bytes \<Rightarrow> bytes \<Rightarrow> bytes option"
  sha256 :: "bytes \<Rightarrow> bytes"
  rand_bytes :: "nat \<Rightarrow> nat \<Rightarrow> bytes option"
  stack_bytes :: "nat \<Rightarrow> bytes"
  malloc_ok :: "nat \<Rightarrow> bool"

record TPM_SYMMETRIC_KEY_DATA =
  userKey :: bytes
  userKeyLength :: nat

abbreviation SWTPM_AES_BLOCK_SIZE :: nat where "SWTPM_AES_BLOCK_SIZE \<equiv> 16"
abbreviation SWTPM_AES128_KEY_SIZE :: nat where "SWTPM_AES128_KEY_SIZE \<equiv> 16"
abbreviation SWTPM_AES256_KEY_SIZE :: nat where "SWTPM_AES256_KEY_SIZE \<equiv> 32"

text \<open>The key size in bits of the cipher, \<open>None\<close> for the NULL function pointer.\<close>

definition SWTPM_Get_AES_EVPFn :: "nat \<Rightarrow> nat option" where
  "SWTPM_Get_AES_EVPFn bits =
     (if bits = 128 then Some 128 else if bits = 256 then Some 256 else None)"

text \<open>The initial chaining vector both functions set up; \<open>None\<close> for one that is too short.\<close>

definition setup_ivec :: "bytes option \<Rightarrow> bytes option" where
  "setup_ivec u_ivec =
     (case u_ivec of
        None \<Rightarrow> Some (replicate SWTPM_AES_BLOCK_SIZE 0)
      | Some iv \<Rightarrow> if length iv < SWTPM_AES_BLOCK_SIZE then None
                   else Some (take SWTPM_AES_BLOCK_SIZE iv))"

definition SWTPM_SymmetricKeyData_Encrypt ::
  "crypto \<Rightarrow> bytes \<Rightarrow> TPM_SYMMETRIC_KEY_DATA \<Rightarrow> bytes option \<Rightarrow> TPM_RESULT + bytes"
where
  "SWTPM_SymmetricKeyData_Encrypt cr decrypt_data key u_ivec =
     (case setup_ivec u_ivec of
        None \<Rightarrow> Inl TPM_ENCRYPT_ERROR
      | Some ivec \<Rightarrow>
          (let decrypt_length = length decrypt_data;
               pad_length = of_nat (userKeyLength key - decrypt_length mod userKeyLength key) :: u32;
               encrypt_length = of_nat decrypt_length + pad_length :: u32
           in if \<not> malloc_ok cr (unat encrypt_length) then Inl TPM_SIZE
              else
                let decrypt_data_pad = decrypt_data @ replicate (unat pad_length) (ucast pad_length)
                in case SWTPM_Get_AES_EVPFn (userKeyLength key * 8) of
                     None \<Rightarrow> Inl TPM_FAIL
                   | Some bits \<Rightarrow>
                       (case evp_encrypt cr bits (take (bits div 8) (userKey key)) ivec (sint encrypt_length)
                               (take (unat encrypt_length) decrypt_data_pad) of
                          None \<Rightarrow> Inl TPM_FAIL
                        | Some encrypt_data \<Rightarrow>
                            if length encrypt_data \<noteq> unat encrypt_length then Inl TPM_FAIL
                            else Inr encrypt_data)))"

definition SWTPM_SymmetricKeyData_Decrypt ::
  "crypto \<Rightarrow> bytes \<Rightarrow> TPM_SYMMETRIC_KEY_DATA \<Rightarrow> bytes option \<Rightarrow> TPM_RESULT + bytes"
where
  "SWTPM_SymmetricKeyData_Decrypt cr encrypt_data key u_ivec =
     (let encrypt_length = length encrypt_data in
      if encrypt_length < userKeyLength key then Inl TPM_DECRYPT_ERROR
      else case setup_ivec u_ivec of
        None \<Rightarrow> Inl TPM_DECRYPT_ERROR
      | Some ivec \<Rightarrow>
          if \<not> malloc_ok cr encrypt_length then Inl TPM_SIZE
          else case SWTPM_Get_AES_EVPFn (userKeyLength key * 8) of
            None \<Rightarrow> Inl TPM_FAIL
          | Some bits \<Rightarrow>
              (case evp_decrypt cr bits (take (bits div 8) (userKey key)) ivec
                      (sint (of_nat encrypt_length :: u32)) encrypt_data of
                 None \<Rightarrow> Inl TPM_FAIL
               | Some decrypt_data \<Rightarrow>
                   if length decrypt_data \<noteq> encrypt_length then Inl TPM_FAIL
                   else
                     let pad_length = unat (decrypt_data ! (encrypt_length - 1))
                     in if pad_length = 0 \<or> pad_length > userKeyLength key
                        then Inl TPM_DECRYPT_ERROR
                        else
                          let decrypt_length = encrypt_length - pad_length
                          in if list_all (\<lambda>b. unat b = pad_length)
                                  (take pad_length (drop decrypt_length decrypt_data))
                             then Inr (take decrypt_length decrypt_data)
                             else Inl TPM_DECRYPT_ERROR))"

subsection \<open>What is relied on of the cipher\<close>

text \<open>
  AES-CBC without padding: on whole blocks whose length is a non-negative \<open>int\<close> it succeeds, keeps the length, and
  decrypting with the same key and initial vector gives the plaintext back.
\<close>

definition cipher_ok :: "crypto \<Rightarrow> bool" where
  "cipher_ok cr \<longleftrightarrow>
     (\<forall>bits key iv d. bits \<in> {128, 256} \<and> length key = bits div 8 \<and> length iv = 16 \<and>
        16 dvd length d \<and> length d < 2 ^ 31 \<longrightarrow>
        (\<exists>c. evp_encrypt cr bits key iv (int (length d)) d = Some c \<and> length c = length d \<and>
             evp_decrypt cr bits key iv (int (length d)) c = Some d))"

lemma sint_of_nat_u32: "n < 2 ^ 31 \<Longrightarrow> sint (of_nat n :: u32) = int n"
  by (simp add: sint_uint uint_nat signed_take_bit_int_eq_self unat_of_nat take_bit_nat_eq_self)

definition key_ok :: "TPM_SYMMETRIC_KEY_DATA \<Rightarrow> bool" where
  "key_ok key \<longleftrightarrow> userKeyLength key \<in> {16, 32} \<and> length (userKey key) = 32"

definition ivec_ok :: "bytes option \<Rightarrow> bool" where
  "ivec_ok iv \<longleftrightarrow> (case iv of None \<Rightarrow> True | Some v \<Rightarrow> 16 \<le> length v)"

lemma setup_ivec_ok: "ivec_ok iv \<Longrightarrow> \<exists>v. setup_ivec iv = Some v \<and> length v = 16"
  by (auto simp: ivec_ok_def setup_ivec_def split: option.splits)

lemma setup_ivec_length: "setup_ivec iv = Some v \<Longrightarrow> length v = 16"
  by (auto simp: setup_ivec_def split: option.splits if_splits)

subsection \<open>Padding\<close>

definition pad_len :: "nat \<Rightarrow> nat \<Rightarrow> nat" where
  "pad_len k n = k - n mod k"

lemma pad_len_bounds: "0 < k \<Longrightarrow> 1 \<le> pad_len k n \<and> pad_len k n \<le> k"
  by (simp add: pad_len_def less_imp_le Suc_leI)

lemma pad_len_dvd: "0 < k \<Longrightarrow> k dvd n + pad_len k n"
proof -
  assume "0 < k"
  then have "n + (k - n mod k) = k * (n div k) + k"
    using mult_div_mod_eq [of k n] mod_less_divisor [of k n] by linarith
  then show ?thesis by (simp add: pad_len_def)
qed

definition padded :: "nat \<Rightarrow> bytes \<Rightarrow> bytes" where
  "padded k d = d @ replicate (pad_len k (length d)) (of_nat (pad_len k (length d)))"

lemma length_padded: "length (padded k d) = length d + pad_len k (length d)"
  by (simp add: padded_def)

lemma Encrypt_eq:
  assumes key: "key_ok key" and len: "length d + userKeyLength key < 2 ^ 31"
    and iv: "setup_ivec iv = Some v"
  shows "SWTPM_SymmetricKeyData_Encrypt cr d key iv =
    (if \<not> malloc_ok cr (length (padded (userKeyLength key) d)) then Inl TPM_SIZE
     else case evp_encrypt cr (userKeyLength key * 8) (take (userKeyLength key) (userKey key)) v
                 (int (length (padded (userKeyLength key) d))) (padded (userKeyLength key) d) of
            None \<Rightarrow> Inl TPM_FAIL
          | Some c \<Rightarrow> if length c \<noteq> length (padded (userKeyLength key) d) then Inl TPM_FAIL
                       else Inr c)"
proof -
  let ?k = "userKeyLength key"
  let ?p = "pad_len ?k (length d)"
  have k: "?k = 16 \<or> ?k = 32" using key by (simp add: key_ok_def)
  then have p: "?p \<le> ?k" using pad_len_bounds [of ?k "length d"] by auto
  then have small: "?p \<le> 32" using k by auto
  have up: "unat (of_nat ?p :: u32) = ?p" using small by simp
  have ue: "unat (of_nat (length d) + of_nat ?p :: u32) = length d + ?p"
    using len p unat_of_nat_u32 [of "length d + ?p"] by simp
  have si: "sint (of_nat (length d) + of_nat ?p :: u32) = int (length (padded ?k d))"
    using len p sint_of_nat_u32 [of "length d + ?p"] by (simp add: length_padded)
  have byte: "ucast (of_nat ?p :: u32) = (of_nat ?p :: byte)"
    using small by (simp add: unsigned_of_nat take_bit_nat_eq_self)
  have fn: "SWTPM_Get_AES_EVPFn (?k * 8) = Some (?k * 8)" using k
    by (auto simp: SWTPM_Get_AES_EVPFn_def)
  show ?thesis
    unfolding SWTPM_SymmetricKeyData_Encrypt_def iv option.case Let_def
      pad_len_def [symmetric] up ue si byte fn
    by (simp add: padded_def length_padded split: option.split)
qed

lemma Encrypt_succeeds:
  assumes "cipher_ok cr" and key: "key_ok key" and len: "length d + userKeyLength key < 2 ^ 31"
    and iv: "setup_ivec iv = Some v" and "\<forall>n. malloc_ok cr n"
  obtains c where "SWTPM_SymmetricKeyData_Encrypt cr d key iv = Inr c"
    and "length c = length (padded (userKeyLength key) d)"
    and "evp_decrypt cr (userKeyLength key * 8) (take (userKeyLength key) (userKey key)) v (int (length c)) c =
         Some (padded (userKeyLength key) d)"
proof -
  let ?k = "userKeyLength key"
  have k: "?k = 16 \<or> ?k = 32" and ul: "length (userKey key) = 32"
    using key by (auto simp: key_ok_def)
  have "?k dvd length (padded ?k d)"
    using k by (auto simp: length_padded intro!: pad_len_dvd)
  then have blocks: "16 dvd length (padded ?k d)"
    using k by (auto intro: dvd_trans [of 16 32])
  have "?k * 8 \<in> {128, 256}" "length (take ?k (userKey key)) = ?k * 8 div 8"
    using k ul by auto
  moreover have "length (padded ?k d) < 2 ^ 31"
    using len k pad_len_bounds [of ?k "length d"] by (auto simp: length_padded)
  ultimately obtain c where
    "evp_encrypt cr (?k * 8) (take ?k (userKey key)) v (int (length (padded ?k d))) (padded ?k d) = Some c"
    "length c = length (padded ?k d)"
    "evp_decrypt cr (?k * 8) (take ?k (userKey key)) v (int (length (padded ?k d))) c = Some (padded ?k d)"
    using assms(1) blocks setup_ivec_length [OF iv] unfolding cipher_ok_def by blast
  then show ?thesis
    using that [of c] assms(5) by (simp add: Encrypt_eq [OF key len iv])
qed

subsection \<open>Decryption\<close>

lemma Decrypt_padded:
  assumes key: "key_ok key" and iv: "setup_ivec iv = Some v" and "\<forall>n. malloc_ok cr n"
    and len: "length c = length (padded (userKeyLength key) d)" "length c < 2 ^ 31"
    and dec: "evp_decrypt cr (userKeyLength key * 8) (take (userKeyLength key) (userKey key)) v (int (length c)) c
              = Some (padded (userKeyLength key) d)"
  shows "SWTPM_SymmetricKeyData_Decrypt cr c key iv = Inr d"
proof -
  let ?k = "userKeyLength key"
  let ?p = "pad_len ?k (length d)"
  have k: "?k = 16 \<or> ?k = 32" using key by (simp add: key_ok_def)
  then have p: "1 \<le> ?p" "?p \<le> ?k" using pad_len_bounds [of ?k "length d"] by auto
  have ge: "\<not> length c < ?k"
  proof -
    have "?k dvd length d + ?p" using pad_len_dvd [of ?k "length d"] k by auto
    then show ?thesis using len(1) p(1) by (auto simp: length_padded dest: dvd_imp_le)
  qed
  have fn: "SWTPM_Get_AES_EVPFn (?k * 8) = Some (?k * 8)"
    using k by (auto simp: SWTPM_Get_AES_EVPFn_def)
  have ub: "unat (of_nat ?p :: byte) = ?p"
    using p k by (auto simp: unat_of_nat take_bit_nat_eq_self)
  have last: "padded ?k d ! (length c - 1) = of_nat ?p"
    using p(1) len(1) by (auto simp add: padded_def nth_append length_padded)
  have dl: "length c - ?p = length d" using len(1) by (simp add: length_padded)
  have tail: "take ?p (drop (length d) (padded ?k d)) = replicate ?p (of_nat ?p)"
    by (simp add: padded_def)
  have pre: "take (length d) (padded ?k d) = d" by (simp add: padded_def)
  have mo: "\<And>n. malloc_ok cr n" using assms(3) by simp
  have e8: "?k * 8 div 8 = ?k" by simp
  show ?thesis
    using p(1) p(2) ge
    unfolding SWTPM_SymmetricKeyData_Decrypt_def Let_def iv option.case fn e8 sint_of_nat_u32 [OF len(2)] dec last ub dl tail pre
    by (simp add: mo len(1) ub list_all_length)
qed

lemma Decrypt_SomeD:
  assumes "SWTPM_SymmetricKeyData_Decrypt cr c key iv = Inr d" and "0 < userKeyLength key"
  shows "\<exists>bits v p. SWTPM_Get_AES_EVPFn (userKeyLength key * 8) = Some bits
    \<and> setup_ivec iv = Some v \<and> 1 \<le> p \<and> p \<le> userKeyLength key \<and> length c = length d + p
    \<and> evp_decrypt cr bits (take (bits div 8) (userKey key)) v (sint (of_nat (length c) :: u32)) c
      = Some (d @ replicate p (of_nat p))"
proof -
  let ?k = "userKeyLength key"
  have mo: "malloc_ok cr (length c)"
    using assms(1) unfolding SWTPM_SymmetricKeyData_Decrypt_def
    by (auto simp: Let_def split: if_splits option.splits)
  obtain bits v pt where fn: "SWTPM_Get_AES_EVPFn (?k * 8) = Some bits"
    and iv: "setup_ivec iv = Some v" and ge: "?k \<le> length c"
    and dec: "evp_decrypt cr bits (take (bits div 8) (userKey key)) v (sint (of_nat (length c) :: u32)) c = Some pt"
    and len: "length pt = length c"
    using assms(1) unfolding SWTPM_SymmetricKeyData_Decrypt_def
    by (auto simp: Let_def split: if_splits option.splits)
  define p where "p = unat (pt ! (length c - 1))"
  from assms(1) have "(if p = 0 \<or> p > ?k then Inl TPM_DECRYPT_ERROR
      else if list_all (\<lambda>b. unat b = p) (take p (drop (length c - p) pt))
        then Inr (take (length c - p) pt) else Inl TPM_DECRYPT_ERROR) = Inr d"
    unfolding SWTPM_SymmetricKeyData_Decrypt_def Let_def fn iv option.case dec len p_def
    using ge mo by simp
  then have p: "p \<noteq> 0" "p \<le> ?k"
    and pad: "list_all (\<lambda>b. unat b = p) (take p (drop (length c - p) pt))"
    and d: "d = take (length c - p) pt"
    by (auto split: if_splits)
  have ld: "length (drop (length c - p) pt) = p" using len p ge by simp
  then have "take p (drop (length c - p) pt) = drop (length c - p) pt" by simp
  with pad have all: "list_all (\<lambda>b. unat b = p) (drop (length c - p) pt)" by simp
  have rep: "drop (length c - p) pt = replicate p (of_nat p)"
  proof (rule replicate_eqI)
    show "length (drop (length c - p) pt) = p" by (rule ld)
  next
    fix y assume "y \<in> set (drop (length c - p) pt)"
    with all have "unat y = p" by (auto simp: list_all_iff)
    moreover have "of_nat (unat y) = y" by simp
    ultimately show "y = of_nat p" by simp
  qed
  have "pt = d @ replicate p (of_nat p)"
    unfolding d rep [symmetric] by simp
  moreover have "length c = length d + p" using d len p ge by simp
  ultimately show ?thesis
    using fn iv dec p by (intro exI [of _ bits] exI [of _ v] exI [of _ p]) simp
qed

lemma SymmetricKeyData_roundtrip:
  assumes "cipher_ok cr" "key_ok key" "length d + userKeyLength key < 2 ^ 31"
    and "ivec_ok iv" "\<forall>n. malloc_ok cr n"
  obtains c where "SWTPM_SymmetricKeyData_Encrypt cr d key iv = Inr c"
    and "length c = length (padded (userKeyLength key) d)"
    and "SWTPM_SymmetricKeyData_Decrypt cr c key iv = Inr d"
proof -
  obtain v where v: "setup_ivec iv = Some v" using setup_ivec_ok [OF assms(4)] by blast
  obtain c where c: "SWTPM_SymmetricKeyData_Encrypt cr d key iv = Inr c"
    "length c = length (padded (userKeyLength key) d)"
    "evp_decrypt cr (userKeyLength key * 8) (take (userKeyLength key) (userKey key)) v (int (length c)) c =
         Some (padded (userKeyLength key) d)"
    using Encrypt_succeeds [OF assms(1-3) v assms(5)] by metis
  have "0 < userKeyLength key" using assms(2) by (auto simp: key_ok_def)
  then have "length c < 2 ^ 31" using c(2) assms(3) pad_len_bounds [of "userKeyLength key" "length d"] by (simp add: length_padded)
  then show ?thesis using that [OF c(1,2)] Decrypt_padded [OF assms(2) v assms(5) c(2) _ c(3)] by blast
qed

end
