(* ===== verification/Blob.thy ===== *)
theory Blob
  imports Tlv Aes
begin

section \<open>The state blob format (src/src/swtpm/swtpm_nvstore.c, lines 99-136 and 505-1158)\<close>

text \<open>
  A blob is a packed 10 byte header (version, minimum version, header size, flags, total
  length; multi-byte fields big endian) and a TLV stream: one data record, or an encrypted
  record with its HMAC and initial vector. The globals of the file (the two keys and the
  initial vector buffer) are the record \<open>nvram_globals\<close>; the number of calls of
  \<open>RAND_bytes\<close> so far is part of it, so that successive calls may differ.

  Shown here: the header round trip and that the check accepts nothing else, the initial
  vector buffer, encryption followed by decryption, and that no data leave decryption unless
  their HMAC is the one stored with them.
\<close>

datatype encryption_mode = ENCRYPTION_MODE_UNKNOWN | ENCRYPTION_MODE_AES_CBC

record encryptionkey =
  data_encmode :: encryption_mode
  symkey :: TPM_SYMMETRIC_KEY_DATA

record nvram_globals =
  filekey :: encryptionkey
  migrationkey :: encryptionkey
  g_ivec_length :: nat
  g_ivec :: bytes
  rand_calls :: nat

record blobheader =
  bh_version :: byte
  bh_min_version :: byte
  bh_hdrsize :: u16
  bh_flags :: u16
  bh_totlen :: u32

abbreviation sizeof_blobheader :: nat where "sizeof_blobheader \<equiv> 10"
abbreviation BLOB_HEADER_VERSION :: byte where "BLOB_HEADER_VERSION \<equiv> 2"
abbreviation BLOB_FLAG_ENCRYPTED :: u16 where "BLOB_FLAG_ENCRYPTED \<equiv> 0x01"
abbreviation BLOB_FLAG_MIGRATION_ENCRYPTED :: u16 where "BLOB_FLAG_MIGRATION_ENCRYPTED \<equiv> 0x02"
abbreviation BLOB_FLAG_MIGRATION_DATA :: u16 where "BLOB_FLAG_MIGRATION_DATA \<equiv> 0x04"
abbreviation BLOB_FLAG_ENCRYPTED_256BIT_KEY :: u16 where
  "BLOB_FLAG_ENCRYPTED_256BIT_KEY \<equiv> 0x08"
abbreviation BLOB_FLAG_MIGRATION_256BIT_KEY :: u16 where
  "BLOB_FLAG_MIGRATION_256BIT_KEY \<equiv> 0x10"
abbreviation SHA256_DIGEST_LENGTH :: nat where "SHA256_DIGEST_LENGTH \<equiv> 32"

subsection \<open>Keys\<close>

definition SWTPM_NVRAM_KeyParamCheck :: "nat \<Rightarrow> encryption_mode \<Rightarrow> TPM_RESULT" where
  "SWTPM_NVRAM_KeyParamCheck keylen encmode =
     (let rc = (if keylen \<noteq> SWTPM_AES128_KEY_SIZE \<and> keylen \<noteq> SWTPM_AES256_KEY_SIZE
                then TPM_BAD_KEY_PROPERTY else 0)
      in case encmode of
           ENCRYPTION_MODE_AES_CBC \<Rightarrow> rc
         | ENCRYPTION_MODE_UNKNOWN \<Rightarrow> TPM_BAD_MODE)"

text \<open>
  \<open>memcpy(userKey, key, keylen)\<close> overwrites the first \<open>keylen\<close> bytes of the array of 32.
\<close>

definition set_key :: "encryptionkey \<Rightarrow> bytes \<Rightarrow> nat \<Rightarrow> encryption_mode \<Rightarrow> encryptionkey" where
  "set_key k key keylen encmode =
     k\<lparr>symkey := \<lparr>userKey = mem_write (userKey (symkey k)) 0 (take keylen key),
                 userKeyLength = keylen\<rparr>,
       data_encmode := encmode\<rparr>"

definition SWTPM_NVRAM_Set_FileKey ::
  "nvram_globals \<Rightarrow> bytes \<Rightarrow> nat \<Rightarrow> encryption_mode \<Rightarrow> TPM_RESULT \<times> nvram_globals"
where
  "SWTPM_NVRAM_Set_FileKey g key keylen encmode =
     (let rc = SWTPM_NVRAM_KeyParamCheck keylen encmode
      in if rc = 0 then (rc, g\<lparr>filekey := set_key (filekey g) key keylen encmode\<rparr>) else (rc, g))"

definition SWTPM_NVRAM_Set_MigrationKey ::
  "nvram_globals \<Rightarrow> bytes \<Rightarrow> nat \<Rightarrow> encryption_mode \<Rightarrow> TPM_RESULT \<times> nvram_globals"
where
  "SWTPM_NVRAM_Set_MigrationKey g key keylen encmode =
     (let rc = SWTPM_NVRAM_KeyParamCheck keylen encmode
      in if rc = 0 then (rc, g\<lparr>migrationkey := set_key (migrationkey g) key keylen encmode\<rparr>)
         else (rc, g))"

definition SWTPM_NVRAM_FileKey_Size :: "nvram_globals \<Rightarrow> nat" where
  "SWTPM_NVRAM_FileKey_Size g = userKeyLength (symkey (filekey g))"

definition SWTPM_NVRAM_MigrationKey_Size :: "nvram_globals \<Rightarrow> nat" where
  "SWTPM_NVRAM_MigrationKey_Size g = userKeyLength (symkey (migrationkey g))"

definition SWTPM_NVRAM_Has_FileKey :: "nvram_globals \<Rightarrow> bool" where
  "SWTPM_NVRAM_Has_FileKey g = (SWTPM_NVRAM_FileKey_Size g > 0)"

definition SWTPM_NVRAM_Has_MigrationKey :: "nvram_globals \<Rightarrow> bool" where
  "SWTPM_NVRAM_Has_MigrationKey g = (SWTPM_NVRAM_MigrationKey_Size g > 0)"

subsection \<open>HMAC and hash\<close>

text \<open>
  \<open>SWTPM_HMAC\<close> feeds the input and then, when there is one, the initial vector; \<open>None\<close> is
  the return value 0. Both versions of the function (OpenSSL 3 and older) do this.
\<close>

definition SWTPM_HMAC :: "crypto \<Rightarrow> bytes \<Rightarrow> bytes \<Rightarrow> bytes option \<Rightarrow> bytes option" where
  "SWTPM_HMAC cr key inp ivec =
     hmac_sha256 cr key (inp @ (case ivec of None \<Rightarrow> [] | Some iv \<Rightarrow> iv))"

definition SWTPM_RollAndSetGlobalIvec ::
  "crypto \<Rightarrow> nvram_globals \<Rightarrow> u16 \<Rightarrow> nat \<Rightarrow> TPM_RESULT \<times> tlv_data \<times> nvram_globals"
where
  "SWTPM_RollAndSetGlobalIvec cr g tag_ivec ivec_length =
     (if g_ivec_length g < ivec_length \<and> \<not> malloc_ok cr ivec_length
      then (TPM_FAIL, TLV_DATA_CONST tag_ivec 0 [], g)
      else
        let n = max (g_ivec_length g) ivec_length;
            old = g_ivec g @ replicate (n - length (g_ivec g)) 0;
            iv = (case rand_bytes cr (rand_calls g) n of
                    Some r \<Rightarrow> r
                  | None \<Rightarrow> mem_write old 0
                      (take (min n SHA256_DIGEST_LENGTH) (sha256 cr (stack_bytes cr (rand_calls g)))))
        in (TPM_SUCCESS, TLV_DATA_CONST tag_ivec (of_nat n) iv,
            g\<lparr>g_ivec_length := n, g_ivec := iv, rand_calls := Suc (rand_calls g)\<rparr>))"

text \<open>\<open>None\<close> for the NULL pointer set when no record is found.\<close>

definition SWTPM_GetIvec :: "bytes \<Rightarrow> u16 \<Rightarrow> bytes option" where
  "SWTPM_GetIvec data tag =
     (case tlv_data_find_tag data (of_nat (length data)) tag of
        None \<Rightarrow> None
      | Some td \<Rightarrow> Some (tlv_payload td))"

definition SWTPM_CalcHMAC ::
  "crypto \<Rightarrow> bytes \<Rightarrow> TPM_SYMMETRIC_KEY_DATA \<Rightarrow> bytes option \<Rightarrow> TPM_RESULT + tlv_data"
where
  "SWTPM_CalcHMAC cr inp key ivec =
     (case SWTPM_HMAC cr (take (userKeyLength key) (userKey key)) inp ivec of
        None \<Rightarrow> Inl TPM_FAIL
      | Some md \<Rightarrow> if malloc_ok cr (length md)
                   then Inr (TLV_DATA TAG_HMAC (of_nat (length md)) md)
                   else Inl TPM_FAIL)"

definition SWTPM_CheckHMAC ::
  "crypto \<Rightarrow> tlv_data \<Rightarrow> tlv_data \<Rightarrow> TPM_SYMMETRIC_KEY_DATA \<Rightarrow> bytes option \<Rightarrow> TPM_RESULT"
where
  "SWTPM_CheckHMAC cr hmac encrypted_data key ivec =
     (if SHA256_DIGEST_LENGTH > unat (tlv_length hmac) then TPM_FAIL
      else case SWTPM_HMAC cr (take (userKeyLength key) (userKey key))
                  (tlv_payload encrypted_data) ivec of
             None \<Rightarrow> TPM_FAIL
           | Some md \<Rightarrow> if take (length md) (tlv_ptr hmac) \<noteq> md then TPM_DECRYPT_ERROR
                        else TPM_SUCCESS)"

definition SWTPM_CheckHash :: "crypto \<Rightarrow> bytes \<Rightarrow> TPM_RESULT + bytes" where
  "SWTPM_CheckHash cr inp =
     (let data = drop SHA256_DIGEST_LENGTH inp
      in if length inp < SHA256_DIGEST_LENGTH then Inl TPM_FAIL
         else if take SHA256_DIGEST_LENGTH inp \<noteq> sha256 cr data then Inl TPM_FAIL
         else if \<not> malloc_ok cr (length data) then Inl TPM_FAIL
         else Inr data)"

subsection \<open>Encryption and decryption of a payload\<close>

text \<open>
  The records are \<open>td[0]\<close> (encrypted data), \<open>td[1]\<close> (HMAC) and, unless the buffer for the
  initial vector could not be allocated, \<open>td[2]\<close> (initial vector). \<open>*td_len\<close> is their
  number.
\<close>

definition SWTPM_NVRAM_EncryptData ::
  "crypto \<Rightarrow> nvram_globals \<Rightarrow> encryptionkey \<Rightarrow> u16 \<Rightarrow> bytes \<Rightarrow> u16
     \<Rightarrow> (TPM_RESULT + tlv_data list) \<times> nvram_globals"
where
  "SWTPM_NVRAM_EncryptData cr g key tag_encrypted_data data tag_ivec =
     (if userKeyLength (symkey key) > 0 then
        (case data_encmode key of
           ENCRYPTION_MODE_UNKNOWN \<Rightarrow> (Inl TPM_BAD_MODE, g)
         | ENCRYPTION_MODE_AES_CBC \<Rightarrow>
             (case SWTPM_RollAndSetGlobalIvec cr g tag_ivec (userKeyLength (symkey key)) of
                (irc, td2, g') \<Rightarrow>
                  let ivec = (if irc = 0 then Some (tlv_payload td2) else None)
                  in case SWTPM_SymmetricKeyData_Encrypt cr data (symkey key) ivec of
                       Inl rc \<Rightarrow> (Inl rc, g')
                     | Inr tmp_data \<Rightarrow>
                         (case SWTPM_CalcHMAC cr tmp_data (symkey key) ivec of
                            Inl rc \<Rightarrow> (Inl rc, g')
                          | Inr td1 \<Rightarrow>
                              let td0 = TLV_DATA tag_encrypted_data (of_nat (length tmp_data)) tmp_data
                              in (Inr (if irc = 0 then [td0, td1, td2] else [td0, td1]), g'))))
      else (Inr [], g))"

definition SWTPM_NVRAM_DecryptData ::
  "crypto \<Rightarrow> encryptionkey \<Rightarrow> bytes \<Rightarrow> u16 \<Rightarrow> byte \<Rightarrow> u16 \<Rightarrow> u16 \<Rightarrow> u16 \<Rightarrow> TPM_RESULT + bytes"
where
  "SWTPM_NVRAM_DecryptData cr key data tag_encrypted_data hdrversion tag_ivec hdrflags
      flag_256bitkey =
     (if userKeyLength (symkey key) = 0 then Inl TPM_FAIL
      else case data_encmode key of
        ENCRYPTION_MODE_UNKNOWN \<Rightarrow> Inl TPM_BAD_MODE
      | ENCRYPTION_MODE_AES_CBC \<Rightarrow>
          if hdrversion = 1 then
            (case SWTPM_SymmetricKeyData_Decrypt cr data (symkey key) None of
               Inl rc \<Rightarrow> Inl rc
             | Inr tmp_data \<Rightarrow> SWTPM_CheckHash cr tmp_data)
          else if hdrversion = 2 then
            (let keylen = (if hdrflags AND flag_256bitkey \<noteq> 0 then SWTPM_AES256_KEY_SIZE
                           else SWTPM_AES128_KEY_SIZE);
                 length32 = of_nat (length data)
             in if keylen \<noteq> userKeyLength (symkey key) then Inl TPM_BAD_KEY_PROPERTY
                else case (tlv_data_find_tag data length32 TAG_HMAC,
                           tlv_data_find_tag data length32 tag_encrypted_data) of
                       (Some td0, Some td1) \<Rightarrow>
                         (let ivec = SWTPM_GetIvec data tag_ivec;
                              rc = SWTPM_CheckHMAC cr td0 td1 (symkey key) ivec
                          in if rc = 0
                             then SWTPM_SymmetricKeyData_Decrypt cr (tlv_payload td1) (symkey key) ivec
                             else Inl rc)
                     | _ \<Rightarrow> Inl TPM_FAIL)
          else Inl TPM_FAIL)"

definition SWTPM_NVRAM_GetPlainData ::
  "crypto \<Rightarrow> bytes \<Rightarrow> u16 \<Rightarrow> byte \<Rightarrow> TPM_RESULT + bytes"
where
  "SWTPM_NVRAM_GetPlainData cr data tag_data hdrversion =
     (if hdrversion = 1 then
        (if malloc_ok cr (length data) then Inr data else Inl TPM_FAIL)
      else if hdrversion = 2 then
        (case tlv_data_find_tag data (of_nat (length data)) tag_data of
           None \<Rightarrow> Inl TPM_FAIL
         | Some td \<Rightarrow> if malloc_ok cr (unat (tlv_length td)) then Inr (tlv_payload td)
                      else Inl TPM_FAIL)
      else Inl TPM_FAIL)"

definition SWTPM_NVRAM_GetDecryptedData ::
  "crypto \<Rightarrow> encryptionkey \<Rightarrow> bytes \<Rightarrow> u16 \<Rightarrow> u16 \<Rightarrow> byte \<Rightarrow> u16 \<Rightarrow> u16 \<Rightarrow> u16
     \<Rightarrow> TPM_RESULT + bytes"
where
  "SWTPM_NVRAM_GetDecryptedData cr key data tag_encrypted_data tag_data hdrversion tag_ivec
      hdrflags flag_256bitkey =
     (if userKeyLength (symkey key) > 0
      then SWTPM_NVRAM_DecryptData cr key data tag_encrypted_data hdrversion tag_ivec hdrflags
             flag_256bitkey
      else SWTPM_NVRAM_GetPlainData cr data tag_data hdrversion)"

subsection \<open>The blob header\<close>

definition encode_blobheader :: "blobheader \<Rightarrow> bytes" where
  "encode_blobheader bh =
     [bh_version bh, bh_min_version bh] @ htobe16 (bh_hdrsize bh) @ htobe16 (bh_flags bh)
     @ htobe32 (bh_totlen bh)"

definition decode_blobheader :: "bytes \<Rightarrow> blobheader" where
  "decode_blobheader d =
     \<lparr>bh_version = d ! 0, bh_min_version = d ! 1, bh_hdrsize = be16toh (drop 2 d),
      bh_flags = be16toh (drop 4 d), bh_totlen = be32toh (drop 6 d)\<rparr>"

definition SWTPM_NVRAM_PrependHeader :: "crypto \<Rightarrow> bytes \<Rightarrow> u16 \<Rightarrow> TPM_RESULT + bytes" where
  "SWTPM_NVRAM_PrependHeader cr data flags =
     (let out_len = of_nat sizeof_blobheader + of_nat (length data) :: u32;
          bh = \<lparr>bh_version = BLOB_HEADER_VERSION, bh_min_version = 1,
                bh_hdrsize = of_nat sizeof_blobheader, bh_flags = flags, bh_totlen = out_len\<rparr>
      in if \<not> malloc_ok cr (unat out_len) then Inl TPM_FAIL
         else Inr (encode_blobheader bh @ data))"

text \<open>The result is \<open>*dataoffset\<close>, \<open>*hdrflags\<close> and \<open>*hdrversion\<close>.\<close>

definition SWTPM_NVRAM_CheckHeader :: "bytes \<Rightarrow> TPM_RESULT + (nat \<times> u16 \<times> byte)" where
  "SWTPM_NVRAM_CheckHeader data =
     (let bh = decode_blobheader data; length32 = of_nat (length data)
      in if length data < sizeof_blobheader then Inl TPM_BAD_PARAMETER
         else if bh_totlen bh \<noteq> length32 then Inl TPM_BAD_PARAMETER
         else if bh_min_version bh > BLOB_HEADER_VERSION then Inl TPM_BAD_VERSION
         else if unat (bh_hdrsize bh) \<noteq> sizeof_blobheader then Inl TPM_BAD_DATASIZE
         else Inr (unat (bh_hdrsize bh), bh_flags bh, bh_version bh))"

subsection \<open>What is relied on of the library, and the invariant of the globals\<close>

definition crypto_ok :: "crypto \<Rightarrow> bool" where
  "crypto_ok cr \<longleftrightarrow> cipher_ok cr
     \<and> (\<forall>k m. \<exists>md. hmac_sha256 cr k m = Some md \<and> length md = SHA256_DIGEST_LENGTH)
     \<and> (\<forall>k n r. rand_bytes cr k n = Some r \<longrightarrow> length r = n)
     \<and> (\<forall>m. length (sha256 cr m) = SHA256_DIGEST_LENGTH)
     \<and> (\<forall>n. malloc_ok cr n)"

definition enckey_wf :: "encryptionkey \<Rightarrow> bool" where
  "enckey_wf k \<longleftrightarrow> length (userKey (symkey k)) = 32
     \<and> userKeyLength (symkey k) \<in> {0, SWTPM_AES128_KEY_SIZE, SWTPM_AES256_KEY_SIZE}
     \<and> (userKeyLength (symkey k) > 0 \<longrightarrow> data_encmode k = ENCRYPTION_MODE_AES_CBC)"

definition globals_wf :: "nvram_globals \<Rightarrow> bool" where
  "globals_wf g \<longleftrightarrow> enckey_wf (filekey g) \<and> enckey_wf (migrationkey g)
     \<and> length (g_ivec g) = g_ivec_length g \<and> g_ivec_length g \<le> 32"

lemma enckey_wf_key_ok:
  "enckey_wf k \<Longrightarrow> userKeyLength (symkey k) > 0 \<Longrightarrow>
     key_ok (symkey k) \<and> data_encmode k = ENCRYPTION_MODE_AES_CBC"
  by (auto simp: enckey_wf_def key_ok_def)

lemma enckey_wf_le32: "enckey_wf k \<Longrightarrow> userKeyLength (symkey k) \<le> 32"
  by (auto simp: enckey_wf_def)

lemma set_key_wf:
  assumes "enckey_wf k" "SWTPM_NVRAM_KeyParamCheck keylen m = 0" "keylen \<le> length key"
  shows "enckey_wf (set_key k key keylen m)"
proof -
  have kl: "keylen = 16 \<or> keylen = 32" and m: "m = ENCRYPTION_MODE_AES_CBC"
    using assms(2) by (auto simp: SWTPM_NVRAM_KeyParamCheck_def Let_def
        split: if_splits encryption_mode.splits)
  moreover have "length (mem_write (userKey (symkey k)) 0 (take keylen key)) = 32"
    using assms kl by (subst length_mem_write) (auto simp: enckey_wf_def)
  ultimately show ?thesis by (auto simp: enckey_wf_def set_key_def)
qed

subsection \<open>Header lemmas\<close>

lemma length_encode_blobheader [simp]: "length (encode_blobheader bh) = sizeof_blobheader"
  by (simp add: encode_blobheader_def)

lemma decode_encode_blobheader [simp]:
  "decode_blobheader (encode_blobheader bh @ d) = bh"
  by (simp add: decode_blobheader_def encode_blobheader_def)

lemma PrependHeader_eq:
  assumes "\<forall>n. malloc_ok cr n"
  shows "SWTPM_NVRAM_PrependHeader cr data flags =
    Inr (encode_blobheader \<lparr>bh_version = BLOB_HEADER_VERSION, bh_min_version = 1, bh_hdrsize = 10,
      bh_flags = flags, bh_totlen = of_nat (10 + length data)\<rparr> @ data)"
  using assms by (simp add: SWTPM_NVRAM_PrependHeader_def Let_def)

lemma CheckHeader_encode:
  assumes "bh_min_version bh \<le> BLOB_HEADER_VERSION" "bh_hdrsize bh = 10"
    and "bh_totlen bh = of_nat (10 + length data)"
  shows "SWTPM_NVRAM_CheckHeader (encode_blobheader bh @ data) =
         Inr (10, bh_flags bh, bh_version bh)"
  using assms by (simp add: SWTPM_NVRAM_CheckHeader_def Let_def not_less)

lemma CheckHeader_Prepend:
  assumes "SWTPM_NVRAM_PrependHeader cr data flags = Inr out"
  shows "SWTPM_NVRAM_CheckHeader out = Inr (10, flags, BLOB_HEADER_VERSION)"
    and "drop 10 out = data" and "length out = 10 + length data"
proof -
  have out: "out = encode_blobheader \<lparr>bh_version = BLOB_HEADER_VERSION, bh_min_version = 1,
      bh_hdrsize = 10, bh_flags = flags, bh_totlen = of_nat (10 + length data)\<rparr> @ data"
    using assms by (auto simp: SWTPM_NVRAM_PrependHeader_def Let_def split: if_splits)
  show "SWTPM_NVRAM_CheckHeader out = Inr (10, flags, BLOB_HEADER_VERSION)"
    unfolding out by (subst CheckHeader_encode) (simp_all add: word_le_nat_alt)
  show "drop 10 out = data" "length out = 10 + length data" by (simp_all add: out)
qed

lemma CheckHeader_InrD:
  assumes "SWTPM_NVRAM_CheckHeader data = Inr (off, flags, version)"
  shows "off = 10" "10 \<le> length data" "be32toh (drop 6 data) = of_nat (length data)"
    "data ! 1 \<le> BLOB_HEADER_VERSION" "version = data ! 0" "flags = be16toh (drop 4 data)"
  using assms
  by (auto simp: SWTPM_NVRAM_CheckHeader_def Let_def decode_blobheader_def not_less
      split: if_splits)

subsection \<open>The initial vector\<close>

lemma RollIvec_ok:
  assumes "crypto_ok cr" "globals_wf g" "n \<in> {16, 32}"
  obtains iv g' where "SWTPM_RollAndSetGlobalIvec cr g tag n =
      (TPM_SUCCESS, TLV_DATA_CONST tag (of_nat (length iv)) iv, g')"
    and "n \<le> length iv" "length iv \<le> 32" "globals_wf g'"
    and "filekey g' = filekey g" "migrationkey g' = migrationkey g"
proof -
  let ?n = "max (g_ivec_length g) n"
  have n32: "?n \<le> 32" using assms by (auto simp: globals_wf_def)
  define iv where "iv = (case rand_bytes cr (rand_calls g) ?n of Some r \<Rightarrow> r
      | None \<Rightarrow> mem_write (g_ivec g @ replicate (?n - length (g_ivec g)) 0) 0
          (take (min ?n SHA256_DIGEST_LENGTH) (sha256 cr (stack_bytes cr (rand_calls g)))))"
  have len: "length iv = ?n"
  proof (cases "rand_bytes cr (rand_calls g) ?n")
    case None
    then show ?thesis using assms n32 unfolding iv_def
      by (simp add: mem_write_def crypto_ok_def globals_wf_def)
  next
    case (Some r)
    then show ?thesis using assms(1) unfolding iv_def by (simp add: crypto_ok_def)
  qed
  let ?g = "g\<lparr>g_ivec_length := ?n, g_ivec := iv, rand_calls := Suc (rand_calls g)\<rparr>"
  have "malloc_ok cr n" using assms(1) by (simp add: crypto_ok_def)
  then have "SWTPM_RollAndSetGlobalIvec cr g tag n =
      (TPM_SUCCESS, TLV_DATA_CONST tag (of_nat (length iv)) iv, ?g)"
    unfolding SWTPM_RollAndSetGlobalIvec_def Let_def len by (simp add: iv_def)
  moreover have "globals_wf ?g" using assms(2) len n32 by (simp add: globals_wf_def)
  ultimately show ?thesis using that [of iv ?g] len n32 by simp
qed

subsection \<open>Encryption followed by decryption\<close>

lemma CalcHMAC_ok:
  assumes "crypto_ok cr"
  obtains md where "SWTPM_HMAC cr (take (userKeyLength key) (userKey key)) inp iv = Some md"
    and "SWTPM_CalcHMAC cr inp key iv = Inr (TLV_DATA TAG_HMAC 32 md)" and "length md = 32"
proof -
  obtain md where md: "SWTPM_HMAC cr (take (userKeyLength key) (userKey key)) inp iv = Some md"
    "length md = 32"
    using assms unfolding crypto_ok_def SWTPM_HMAC_def by blast
  then show ?thesis
    using that [of md] assms by (simp add: SWTPM_CalcHMAC_def crypto_ok_def)
qed

lemma EncryptData_ok:
  assumes "crypto_ok cr" "globals_wf g" "enckey_wf key" "userKeyLength (symkey key) > 0"
    and "length data + 32 < 2 ^ 31"
  obtains c md iv g' where
    "SWTPM_NVRAM_EncryptData cr g key tag_enc data tag_iv =
       (Inr [TLV_DATA tag_enc (of_nat (length c)) c, TLV_DATA TAG_HMAC 32 md,
             TLV_DATA_CONST tag_iv (of_nat (length iv)) iv], g')"
    and "SWTPM_SymmetricKeyData_Decrypt cr c (symkey key) (Some iv) = Inr data"
    and "SWTPM_HMAC cr (take (userKeyLength (symkey key)) (userKey (symkey key))) c (Some iv)
         = Some md"
    and "length md = 32" "length c \<le> length data + 32" "length iv \<le> 32"
    and "globals_wf g'" "filekey g' = filekey g" "migrationkey g' = migrationkey g"
proof -
  let ?k = "userKeyLength (symkey key)"
  have key: "key_ok (symkey key)" and mode: "data_encmode key = ENCRYPTION_MODE_AES_CBC"
    using enckey_wf_key_ok [OF assms(3,4)] by auto
  then have k: "?k = 16 \<or> ?k = 32" by (simp add: key_ok_def)
  obtain iv g' where roll: "SWTPM_RollAndSetGlobalIvec cr g tag_iv ?k =
      (TPM_SUCCESS, TLV_DATA_CONST tag_iv (of_nat (length iv)) iv, g')"
    and iv: "?k \<le> length iv" "length iv \<le> 32" and g': "globals_wf g'"
      "filekey g' = filekey g" "migrationkey g' = migrationkey g"
    using RollIvec_ok [OF assms(1,2), of ?k tag_iv] k by blast
  have ivl: "length iv < 2 ^ 32" using iv by simp
  have ivok: "ivec_ok (Some iv)" using iv k by (auto simp: ivec_ok_def)
  have lim: "length data + ?k < 2 ^ 31" using assms(5) k by auto
  obtain c where c: "SWTPM_SymmetricKeyData_Encrypt cr data (symkey key) (Some iv) = Inr c"
    "length c = length (padded ?k data)"
    "SWTPM_SymmetricKeyData_Decrypt cr c (symkey key) (Some iv) = Inr data"
    using SymmetricKeyData_roundtrip [OF _ key lim ivok, of cr] assms(1)
    unfolding crypto_ok_def by metis
  have lc: "length c \<le> length data + 32"
    using c(2) pad_len_bounds [of ?k "length data"] k by (auto simp: length_padded)
  obtain md where md: "SWTPM_HMAC cr (take ?k (userKey (symkey key))) c (Some iv) = Some md"
    "SWTPM_CalcHMAC cr c (symkey key) (Some iv) = Inr (TLV_DATA TAG_HMAC 32 md)" "length md = 32"
    using CalcHMAC_ok [OF assms(1)] by metis
  have "SWTPM_NVRAM_EncryptData cr g key tag_enc data tag_iv =
       (Inr [TLV_DATA tag_enc (of_nat (length c)) c, TLV_DATA TAG_HMAC 32 md,
             TLV_DATA_CONST tag_iv (of_nat (length iv)) iv], g')"
    using assms(4) mode roll c(1) md(2) ivl
    by (simp add: SWTPM_NVRAM_EncryptData_def Let_def)
  then show ?thesis using that c(3) md(1,3) lc iv(2) g' by blast
qed

text \<open>The records of an encrypted payload, written to a stream and read back.\<close>

lemma DecryptData_stream:
  assumes "crypto_ok cr" "enckey_wf key" "userKeyLength (symkey key) > 0"
    and "SWTPM_SymmetricKeyData_Decrypt cr c (symkey key) (Some iv) = r"
    and md: "SWTPM_HMAC cr (take (userKeyLength (symkey key)) (userKey (symkey key))) c (Some iv)
         = Some md" "length md = 32"
    and lens: "length c + 1000 < 2 ^ 32" "length iv \<le> 32"
    and tags: "tag_enc \<noteq> TAG_HMAC" "tag_iv \<noteq> TAG_HMAC" "tag_iv \<noteq> tag_enc"
    and flag: "(hdrflags AND flag256 \<noteq> 0) = (userKeyLength (symkey key) = 32)"
    and stream: "stream = concat (map tlv_encode [TLV_DATA tag_enc (of_nat (length c)) c,
         TLV_DATA TAG_HMAC 32 md, TLV_DATA_CONST tag_iv (of_nat (length iv)) iv])"
  shows "SWTPM_NVRAM_DecryptData cr key stream tag_enc BLOB_HEADER_VERSION tag_iv hdrflags flag256
         = r"
proof -
  let ?td = "[TLV_DATA tag_enc (of_nat (length c)) c,
         TLV_DATA TAG_HMAC 32 md, TLV_DATA_CONST tag_iv (of_nat (length iv)) iv]"
  have bounds: "length c < 2 ^ 32" "length md < 2 ^ 32" "length iv < 2 ^ 32"
    using lens md(2) by simp_all
  have w32: "(32 :: u32) = of_nat (length md)" using md(2) by simp
  have wf: "list_all tlv_wf ?td"
    unfolding w32 using bounds by simp
  have len: "length (concat (map tlv_encode ?td)) < 2 ^ 32"
    unfolding length_concat_tlv_encode [OF wf] using bounds lens md(2) by simp
  have paymd: "tlv_payload (TLV_DATA TAG_HMAC 32 md) = md"
    by (simp add: tlv_payload_def md(2))
  note find = tlv_find_concatE [OF wf len, folded stream]
  obtain t0 where t0: "tlv_data_find_tag stream (of_nat (length stream)) TAG_HMAC = Some t0"
    "tlv_payload t0 = md" "tlv_length t0 = 32"
    using find [of TAG_HMAC "TLV_DATA TAG_HMAC 32 md"] tags paymd by auto
  obtain t1 where t1: "tlv_data_find_tag stream (of_nat (length stream)) tag_enc = Some t1"
    "tlv_payload t1 = c"
    using find [of tag_enc "TLV_DATA tag_enc (of_nat (length c)) c"] bounds by auto
  obtain t2 where t2: "tlv_data_find_tag stream (of_nat (length stream)) tag_iv = Some t2"
    "tlv_payload t2 = iv"
    using find [of tag_iv "TLV_DATA_CONST tag_iv (of_nat (length iv)) iv"] tags bounds by auto
  have mode: "data_encmode key = ENCRYPTION_MODE_AES_CBC"
    and k: "userKeyLength (symkey key) = 16 \<or> userKeyLength (symkey key) = 32"
    using assms(2,3) by (auto simp: enckey_wf_def)
  have "SWTPM_CheckHMAC cr t0 t1 (symkey key) (Some iv) = 0"
    using md t0 t1 by (simp add: SWTPM_CheckHMAC_def tlv_payload_def)
  then show ?thesis
    using assms(3,4) mode k flag t0(1) t1 t2
    by (auto simp: SWTPM_NVRAM_DecryptData_def Let_def SWTPM_GetIvec_def)
qed

text \<open>Nothing leaves a version 2 decryption whose stored HMAC does not match.\<close>

lemma DecryptData_InrD:
  assumes "SWTPM_NVRAM_DecryptData cr key data tag_enc hdrversion tag_iv hdrflags flag = Inr d"
    and "hdrversion = 2"
  obtains td0 td1 md where
    "tlv_data_find_tag data (of_nat (length data)) TAG_HMAC = Some td0"
    and "tlv_data_find_tag data (of_nat (length data)) tag_enc = Some td1"
    and "SWTPM_HMAC cr (take (userKeyLength (symkey key)) (userKey (symkey key)))
           (tlv_payload td1) (SWTPM_GetIvec data tag_iv) = Some md"
    and "take (length md) (tlv_ptr td0) = md"
    and "32 \<le> unat (tlv_length td0)"
    and "SWTPM_SymmetricKeyData_Decrypt cr (tlv_payload td1) (symkey key)
           (SWTPM_GetIvec data tag_iv) = Inr d"
  using assms
  by (auto simp: SWTPM_NVRAM_DecryptData_def SWTPM_CheckHMAC_def Let_def not_less
      split: if_splits encryption_mode.splits option.splits)


subsection \<open>A concrete library\<close>

text \<open>
  A toy cipher and checksum that have what is relied on of OpenSSL; the theorems about sealed
  blobs are instantiated with it, so their hypotheses can hold.
\<close>

definition example_crypto :: crypto where
  "example_crypto =
     \<lparr>evp_encrypt = (\<lambda>bits key iv inl d. Some (map (\<lambda>b. b XOR (key ! 0 XOR iv ! 0)) d)),
      evp_decrypt = (\<lambda>bits key iv inl d. Some (map (\<lambda>b. b XOR (key ! 0 XOR iv ! 0)) d)),
      hmac_sha256 = (\<lambda>k m. Some (replicate 32 (foldr (+) k 1 + foldr (+) m 0))),
      sha256 = (\<lambda>m. replicate 32 (foldr (+) m 0)),
      rand_bytes = (\<lambda>k n. Some (replicate n (of_nat k))),
      stack_bytes = (\<lambda>n. replicate n 0),
      malloc_ok = (\<lambda>n. True)\<rparr>"

lemma example_crypto_ok: "crypto_ok example_crypto"
  by (simp add: crypto_ok_def cipher_ok_def example_crypto_def xor.assoc o_def)

definition example_globals :: "nat \<Rightarrow> nat \<Rightarrow> nvram_globals" where
  "example_globals flen mlen =
     \<lparr>filekey = \<lparr>data_encmode = ENCRYPTION_MODE_AES_CBC,
                 symkey = \<lparr>userKey = replicate 32 0x21, userKeyLength = flen\<rparr>\<rparr>,
      migrationkey = \<lparr>data_encmode = ENCRYPTION_MODE_AES_CBC,
                 symkey = \<lparr>userKey = replicate 32 0x43, userKeyLength = mlen\<rparr>\<rparr>,
      g_ivec_length = 0, g_ivec = [], rand_calls = 0\<rparr>"

lemma example_globals_wf:
  "flen \<in> {0, 16, 32} \<Longrightarrow> mlen \<in> {0, 16, 32} \<Longrightarrow> globals_wf (example_globals flen mlen)"
  by (auto simp: globals_wf_def enckey_wf_def example_globals_def)

end
