(* ===== verification/Nvstore.thy ===== *)
theory Nvstore
  imports Blob
begin

section \<open>NVRAM abstraction layer (src/src/swtpm/swtpm_nvstore.c, tpmstate.c)\<close>

text \<open>
  The layer between libtpms and the storage backends: it seals the state blobs (see
  \<^verbatim>\<open>Blob\<close>), hands them to the backend chosen by the URI, and opens them again. The C
  struct of function pointers \<open>nvram_backend_ops\<close> is a record of functions over the
  backend's state type; every operation also reads the settings of \<open>tpmstate.c\<close>. libtpms
  is the record \<open>tpmlib\<close> over its own state type.

  The contract a backend promises is the locale \<open>nvram_backend\<close>; what the layer
  guarantees on top of any such backend is proved in it, and the backend theories interpret
  it.
\<close>

subsection \<open>Settings\<close>

datatype TPMLIB_TPMVersion = TPMLIB_TPM_VERSION_1_2 | TPMLIB_TPM_VERSION_2

record tpmstate =
  g_backend_uri :: "string option"
  env_TPM_PATH :: "string option"
  g_tpmstate_mode :: u32
  g_tpmstate_mode_is_default :: bool
  g_tpmstate_version :: TPMLIB_TPMVersion
  g_tpmstate_do_locking :: bool
  g_tpmstate_make_backup :: bool
  g_tpmstate_do_fsync :: bool

text \<open>
  The URI is the one set on the command line or, failing that, made from the environment
  variable \<open>TPM_PATH\<close> and then kept.
\<close>

definition tpmstate_get_backend_uri :: "tpmstate \<Rightarrow> string option \<times> tpmstate" where
  "tpmstate_get_backend_uri ts =
     (case g_backend_uri ts of
        Some u \<Rightarrow> (Some u, ts)
      | None \<Rightarrow> (case env_TPM_PATH ts of
                   Some p \<Rightarrow> (Some (''dir://'' @ p), ts\<lparr>g_backend_uri := Some (''dir://'' @ p)\<rparr>)
                 | None \<Rightarrow> (None, ts)))"

text \<open>The URI a backend operation receives; it is set once \<open>SWTPM_NVRAM_Init\<close> succeeded.\<close>

definition backend_uri :: "tpmstate \<Rightarrow> string" where
  "backend_uri ts = (case fst (tpmstate_get_backend_uri ts) of Some u \<Rightarrow> u | None \<Rightarrow> '''')"

subsection \<open>Backends and state\<close>

record 's nvram_backend_ops =
  op_prepare :: "tpmstate \<Rightarrow> 's \<Rightarrow> string \<Rightarrow> TPM_RESULT \<times> 's"
  op_lock :: "tpmstate \<Rightarrow> 's \<Rightarrow> string \<Rightarrow> nat \<Rightarrow> TPM_RESULT \<times> 's"
  op_unlock :: "'s \<Rightarrow> 's"
  op_load :: "tpmstate \<Rightarrow> 's \<Rightarrow> u32 \<Rightarrow> string \<Rightarrow> string
    \<Rightarrow> (TPM_RESULT + bytes option \<times> nat) \<times> 's"
  op_store :: "tpmstate \<Rightarrow> 's \<Rightarrow> bytes \<Rightarrow> u32 \<Rightarrow> string \<Rightarrow> string \<Rightarrow> bool \<Rightarrow> TPM_RESULT \<times> 's"
  op_delete :: "tpmstate \<Rightarrow> 's \<Rightarrow> u32 \<Rightarrow> string \<Rightarrow> bool \<Rightarrow> string \<Rightarrow> TPM_RESULT \<times> 's"
  op_check_state :: "tpmstate \<Rightarrow> 's \<Rightarrow> string \<Rightarrow> string \<Rightarrow> (TPM_RESULT + nat) \<times> 's"
  op_restore_backup_pre_start :: "(tpmstate \<Rightarrow> 's \<Rightarrow> string \<Rightarrow> TPM_RESULT \<times> 's) option"
  op_restore_backup :: "(tpmstate \<Rightarrow> 's \<Rightarrow> string \<Rightarrow> TPM_RESULT \<times> 's) option"
  op_cleanup :: "'s \<Rightarrow> 's"

record 's nvstate =
  nv_tpmstate :: tpmstate
  nv_globals :: nvram_globals
  g_nvram_backend_ops :: "'s nvram_backend_ops option"
  nv_backend :: 's

datatype TPMLIB_StateType =
  TPMLIB_STATE_PERMANENT | TPMLIB_STATE_VOLATILE | TPMLIB_STATE_SAVE_STATE

text \<open>libtpms, as far as this layer calls it; \<open>'t\<close> is the state it keeps.\<close>

record 't tpmlib =
  TPMLIB_VolatileAll_Store :: "'t \<Rightarrow> TPM_RESULT + bytes"
  TPMLIB_SetState :: "'t \<Rightarrow> TPMLIB_StateType \<Rightarrow> bytes option \<Rightarrow> TPM_RESULT \<times> 't"

abbreviation TPM_PERMANENT_ALL_NAME :: string where "TPM_PERMANENT_ALL_NAME \<equiv> ''permall''"
abbreviation TPM_VOLATILESTATE_NAME :: string where
  "TPM_VOLATILESTATE_NAME \<equiv> ''volatilestate''"
abbreviation TPM_SAVESTATE_NAME :: string where "TPM_SAVESTATE_NAME \<equiv> ''savestate''"

abbreviation PTM_BLOB_TYPE_PERMANENT :: u32 where "PTM_BLOB_TYPE_PERMANENT \<equiv> 1"
abbreviation PTM_BLOB_TYPE_VOLATILE :: u32 where "PTM_BLOB_TYPE_VOLATILE \<equiv> 2"
abbreviation PTM_BLOB_TYPE_SAVESTATE :: u32 where "PTM_BLOB_TYPE_SAVESTATE \<equiv> 3"

text \<open>\<open>tpmlib_get_blobname\<close> and \<open>tpmlib_blobtype_to_statetype\<close> of tpmlib.c; \<open>None\<close> is
  the NULL pointer and the value 0.\<close>

definition tpmlib_get_blobname :: "u32 \<Rightarrow> string option" where
  "tpmlib_get_blobname blobtype =
     (if blobtype = PTM_BLOB_TYPE_PERMANENT then Some TPM_PERMANENT_ALL_NAME
      else if blobtype = PTM_BLOB_TYPE_VOLATILE then Some TPM_VOLATILESTATE_NAME
      else if blobtype = PTM_BLOB_TYPE_SAVESTATE then Some TPM_SAVESTATE_NAME
      else None)"

definition tpmlib_blobtype_to_statetype :: "u32 \<Rightarrow> TPMLIB_StateType option" where
  "tpmlib_blobtype_to_statetype blobtype =
     (if blobtype = PTM_BLOB_TYPE_PERMANENT then Some TPMLIB_STATE_PERMANENT
      else if blobtype = PTM_BLOB_TYPE_VOLATILE then Some TPMLIB_STATE_VOLATILE
      else if blobtype = PTM_BLOB_TYPE_SAVESTATE then Some TPMLIB_STATE_SAVE_STATE
      else None)"

subsection \<open>Initialisation and locking\<close>

definition starts_with :: "string \<Rightarrow> string \<Rightarrow> bool" where
  "starts_with p s = (take (length p) s = p)"

text \<open>\<open>nvram_dir_ops\<close> and \<open>nvram_linear_ops\<close> are the two backends of the program.\<close>

definition SWTPM_NVRAM_Init ::
  "'s nvram_backend_ops \<Rightarrow> 's nvram_backend_ops \<Rightarrow> 's nvstate \<Rightarrow> TPM_RESULT \<times> 's nvstate"
where
  "SWTPM_NVRAM_Init dir_ops linear_ops nv =
     (case tpmstate_get_backend_uri (nv_tpmstate nv) of
        (None, ts) \<Rightarrow> (TPM_FAIL, nv\<lparr>nv_tpmstate := ts\<rparr>)
      | (Some uri, ts) \<Rightarrow>
          (let chosen = (if starts_with ''dir://'' uri then Some dir_ops
                         else if starts_with ''file://'' uri then Some linear_ops else None)
           in case chosen of
                None \<Rightarrow> (TPM_FAIL, nv\<lparr>nv_tpmstate := ts\<rparr>)
              | Some ops \<Rightarrow>
                  (case op_prepare ops ts (nv_backend nv) uri of
                     (rc, b) \<Rightarrow>
                       let nv1 = nv\<lparr>nv_tpmstate := ts, g_nvram_backend_ops := Some ops,
                                    nv_backend := b\<rparr>
                       in case op_restore_backup_pre_start ops of
                            Some restore \<Rightarrow>
                              if rc = 0 \<and> g_tpmstate_make_backup ts
                              then (case restore ts b uri of
                                      (rc', b') \<Rightarrow> (rc', nv1\<lparr>nv_backend := b'\<rparr>))
                              else (rc, nv1)
                          | None \<Rightarrow> (rc, nv1))))"

definition zero_key :: encryptionkey where
  "zero_key = \<lparr>data_encmode = ENCRYPTION_MODE_UNKNOWN,
               symkey = \<lparr>userKey = replicate 32 0, userKeyLength = 0\<rparr>\<rparr>"

definition SWTPM_NVRAM_Shutdown :: "'s nvstate \<Rightarrow> 's nvstate" where
  "SWTPM_NVRAM_Shutdown nv =
     nv\<lparr>nv_backend := (case g_nvram_backend_ops nv of
                        Some ops \<Rightarrow> op_cleanup ops (nv_backend nv)
                      | None \<Rightarrow> nv_backend nv),
        nv_globals := (nv_globals nv)\<lparr>filekey := zero_key, migrationkey := zero_key\<rparr>\<rparr>"

definition SWTPM_NVRAM_Lock_Storage :: "'s nvstate \<Rightarrow> nat \<Rightarrow> TPM_RESULT \<times> 's nvstate" where
  "SWTPM_NVRAM_Lock_Storage nv retries =
     (if \<not> g_tpmstate_do_locking (nv_tpmstate nv) then (TPM_SUCCESS, nv)
      else case g_nvram_backend_ops nv of
        None \<Rightarrow> (TPM_RETRY, nv)
      | Some ops \<Rightarrow>
          (case tpmstate_get_backend_uri (nv_tpmstate nv) of
             (None, ts) \<Rightarrow> (TPM_FAIL, nv\<lparr>nv_tpmstate := ts\<rparr>)
           | (Some uri, ts) \<Rightarrow>
               (case op_lock ops ts (nv_backend nv) uri retries of
                  (rc, b) \<Rightarrow> (rc, nv\<lparr>nv_tpmstate := ts, nv_backend := b\<rparr>))))"

text \<open>
  \<open>ops\<close> is what \<open>g_nvram_backend_ops\<close> points to, here and below. A backend's \<open>load\<close>
  sets a pointer and a length; the pointer is an option.
\<close>

definition SWTPM_NVRAM_Unlock :: "'s nvram_backend_ops \<Rightarrow> 's nvstate \<Rightarrow> 's nvstate" where
  "SWTPM_NVRAM_Unlock ops nv =
     (if \<not> g_tpmstate_do_locking (nv_tpmstate nv) then nv
      else nv\<lparr>nv_backend := op_unlock ops (nv_backend nv)\<rparr>)"

subsection \<open>Load, store, delete\<close>

text \<open>The second half of \<open>SWTPM_NVRAM_LoadData\<close>: header check and decryption.\<close>

definition unseal_filedata :: "crypto \<Rightarrow> nvram_globals \<Rightarrow> bytes \<Rightarrow> TPM_RESULT + bytes" where
  "unseal_filedata cr g data =
     (case SWTPM_NVRAM_CheckHeader data of
        Inl rc \<Rightarrow> Inl rc
      | Inr (dataoffset, hdrflags, hdrversion) \<Rightarrow>
          SWTPM_NVRAM_GetDecryptedData cr (filekey g) (drop dataoffset data)
            TAG_ENCRYPTED_DATA TAG_DATA hdrversion TAG_IVEC_ENCRYPTED_DATA hdrflags
            BLOB_FLAG_ENCRYPTED_256BIT_KEY)"

text \<open>
  Should a backend report success with a NULL pointer, the header check reads through it as
  soon as the length is that of a header: the outer \<open>None\<close> is this undefined behaviour.
\<close>

definition SWTPM_NVRAM_LoadData ::
  "crypto \<Rightarrow> 's nvram_backend_ops \<Rightarrow> 's nvstate \<Rightarrow> u32 \<Rightarrow> string
     \<Rightarrow> (TPM_RESULT + bytes) option \<times> 's nvstate"
where
  "SWTPM_NVRAM_LoadData cr ops nv tpm_number name =
     (let ts = nv_tpmstate nv in
      case op_load ops ts (nv_backend nv) tpm_number name (backend_uri ts) of
        (Inl rc, b) \<Rightarrow> (Some (Inl rc), nv\<lparr>nv_backend := b\<rparr>)
      | (Inr (Some data, n), b) \<Rightarrow>
          (Some (unseal_filedata cr (nv_globals nv) data), nv\<lparr>nv_backend := b\<rparr>)
      | (Inr (None, n), b) \<Rightarrow>
          (if n < sizeof_blobheader then Some (Inl TPM_BAD_PARAMETER) else None,
           nv\<lparr>nv_backend := b\<rparr>))"

text \<open>
  The first half of \<open>SWTPM_NVRAM_StoreData_Intern\<close>, up to the call of the backend: the
  records with the flags that go with them, appended and prefixed with the header.
\<close>

definition seal_filedata ::
  "crypto \<Rightarrow> nvram_globals \<Rightarrow> bytes \<Rightarrow> bool \<Rightarrow> (TPM_RESULT + bytes) \<times> nvram_globals"
where
  "seal_filedata cr g data encrypt =
     (case (if encrypt \<and> SWTPM_NVRAM_Has_FileKey g
            then (case SWTPM_NVRAM_EncryptData cr g (filekey g) TAG_ENCRYPTED_DATA data
                         TAG_IVEC_ENCRYPTED_DATA of
                    (r, g') \<Rightarrow>
                      (r, BLOB_FLAG_ENCRYPTED OR
                            (if SWTPM_NVRAM_FileKey_Size g = SWTPM_AES256_KEY_SIZE
                             then BLOB_FLAG_ENCRYPTED_256BIT_KEY else 0), g'))
            else (Inr [TLV_DATA_CONST TAG_DATA (of_nat (length data)) data], 0, g)) of
        (Inl rc, flags, g') \<Rightarrow> (Inl rc, g')
      | (Inr td, flags, g') \<Rightarrow>
          (case tlv_data_append (malloc_ok cr) None 0 td of
             (rc, Some filedata, n) \<Rightarrow>
               (if rc = 0 then SWTPM_NVRAM_PrependHeader cr filedata flags else Inl rc, g')
           | (rc, None, n) \<Rightarrow> (Inl rc, g')))"

definition SWTPM_NVRAM_StoreData_Intern ::
  "crypto \<Rightarrow> 's nvram_backend_ops \<Rightarrow> 's nvstate \<Rightarrow> bytes \<Rightarrow> u32 \<Rightarrow> string \<Rightarrow> bool
     \<Rightarrow> TPM_RESULT \<times> 's nvstate"
where
  "SWTPM_NVRAM_StoreData_Intern cr ops nv data tpm_number name encrypt =
     (case seal_filedata cr (nv_globals nv) data encrypt of
        (Inl rc, g) \<Rightarrow> (rc, nv\<lparr>nv_globals := g\<rparr>)
      | (Inr filedata, g) \<Rightarrow>
          (let ts = nv_tpmstate nv in
           case op_store ops ts (nv_backend nv) filedata tpm_number name (backend_uri ts)
                  (g_tpmstate_do_fsync ts) of
             (rc, b) \<Rightarrow> (rc, nv\<lparr>nv_globals := g, nv_backend := b\<rparr>)))"

definition SWTPM_NVRAM_StoreData ::
  "crypto \<Rightarrow> 's nvram_backend_ops \<Rightarrow> 's nvstate \<Rightarrow> bytes \<Rightarrow> u32 \<Rightarrow> string
     \<Rightarrow> TPM_RESULT \<times> 's nvstate"
where
  "SWTPM_NVRAM_StoreData cr ops nv data tpm_number name =
     SWTPM_NVRAM_StoreData_Intern cr ops nv data tpm_number name True"

definition SWTPM_NVRAM_DeleteName ::
  "'s nvram_backend_ops \<Rightarrow> 's nvstate \<Rightarrow> u32 \<Rightarrow> string \<Rightarrow> bool \<Rightarrow> TPM_RESULT \<times> 's nvstate"
where
  "SWTPM_NVRAM_DeleteName ops nv tpm_number name mustExist =
     (let ts = nv_tpmstate nv in
      case op_delete ops ts (nv_backend nv) tpm_number name mustExist (backend_uri ts) of
        (rc, b) \<Rightarrow> (rc, nv\<lparr>nv_backend := b\<rparr>))"

definition SWTPM_NVRAM_Store_Volatile ::
  "crypto \<Rightarrow> 't tpmlib \<Rightarrow> 't \<Rightarrow> 's nvram_backend_ops \<Rightarrow> 's nvstate \<Rightarrow> TPM_RESULT \<times> 's nvstate"
where
  "SWTPM_NVRAM_Store_Volatile cr lib t ops nv =
     (case TPMLIB_VolatileAll_Store lib t of
        Inl rc \<Rightarrow> (rc, nv)
      | Inr buffer \<Rightarrow> SWTPM_NVRAM_StoreData cr ops nv buffer 0 TPM_VOLATILESTATE_NAME)"

definition SWTPM_NVRAM_RestoreBackup ::
  "'s nvram_backend_ops \<Rightarrow> 's nvstate \<Rightarrow> TPM_RESULT \<times> 's nvstate"
where
  "SWTPM_NVRAM_RestoreBackup ops nv =
     (case op_restore_backup ops of
        None \<Rightarrow> (TPM_FAIL, nv)
      | Some restore \<Rightarrow>
          (let ts = nv_tpmstate nv in
           case restore ts (nv_backend nv) (backend_uri ts) of
             (rc, b) \<Rightarrow> (rc, nv\<lparr>nv_backend := b\<rparr>)))"

subsection \<open>State blobs for migration\<close>

text \<open>
  The inner stream of \<open>SWTPM_NVRAM_GetStateBlob\<close>: the plain data, or encrypted again with
  the file key when the caller did not ask for decryption. The result is the buffer with
  \<open>*is_encrypted\<close> and the flags.
\<close>

definition stateblob_inner ::
  "crypto \<Rightarrow> nvram_globals \<Rightarrow> bytes \<Rightarrow> bool
     \<Rightarrow> (TPM_RESULT + bytes \<times> u16) \<times> bool \<times> nvram_globals"
where
  "stateblob_inner cr g plain decrypt =
     (case (if \<not> decrypt \<and> SWTPM_NVRAM_Has_FileKey g
            then (case SWTPM_NVRAM_EncryptData cr g (filekey g) TAG_ENCRYPTED_DATA plain
                         TAG_IVEC_ENCRYPTED_DATA of
                    (Inl rc, g') \<Rightarrow> (Inl rc, False, 0, g')
                  | (Inr td, g') \<Rightarrow>
                      (Inr td, True,
                       if SWTPM_NVRAM_FileKey_Size g = SWTPM_AES256_KEY_SIZE
                       then BLOB_FLAG_ENCRYPTED_256BIT_KEY else 0, g'))
            else (Inr [TLV_DATA TAG_DATA (of_nat (length plain)) plain], False, 0, g)) of
        (Inl rc, enc, flags, g') \<Rightarrow> (Inl rc, enc, g')
      | (Inr td, enc, flags, g') \<Rightarrow>
          (case tlv_data_append (malloc_ok cr) None 0 td of
             (rc, Some buffer, n) \<Rightarrow> (if rc = 0 then Inr (buffer, flags) else Inl rc, enc, g')
           | (rc, None, n) \<Rightarrow> (Inl rc, enc, g')))"

text \<open>The outer stream: the migration key's encryption, or a migration data record.\<close>

definition stateblob_outer ::
  "crypto \<Rightarrow> nvram_globals \<Rightarrow> bytes \<Rightarrow> u16 \<Rightarrow> bool \<Rightarrow> (TPM_RESULT + bytes) \<times> nvram_globals"
where
  "stateblob_outer cr g buffer flags is_encrypted =
     (case (if SWTPM_NVRAM_Has_MigrationKey g
            then (case SWTPM_NVRAM_EncryptData cr g (migrationkey g) TAG_ENCRYPTED_MIGRATION_DATA
                         buffer TAG_IVEC_ENCRYPTED_MIGRATION_DATA of
                    (r, g') \<Rightarrow>
                      (r, flags OR BLOB_FLAG_MIGRATION_ENCRYPTED OR
                            (if SWTPM_NVRAM_MigrationKey_Size g = SWTPM_AES256_KEY_SIZE
                             then BLOB_FLAG_MIGRATION_256BIT_KEY else 0), g'))
            else (Inr [TLV_DATA TAG_MIGRATION_DATA (of_nat (length buffer)) buffer], flags, g)) of
        (Inl rc, flags', g') \<Rightarrow> (Inl rc, g')
      | (Inr td, flags', g') \<Rightarrow>
          (case tlv_data_append (malloc_ok cr) None 0 td of
             (rc, Some data, n) \<Rightarrow>
               (if rc = 0
                then SWTPM_NVRAM_PrependHeader cr data
                       (flags' OR BLOB_FLAG_MIGRATION_DATA OR
                          (if is_encrypted then BLOB_FLAG_ENCRYPTED else 0))
                else Inl rc, g')
           | (rc, None, n) \<Rightarrow> (Inl rc, g')))"

definition SWTPM_NVRAM_GetStateBlob ::
  "crypto \<Rightarrow> 's nvram_backend_ops \<Rightarrow> 's nvstate \<Rightarrow> u32 \<Rightarrow> string \<Rightarrow> bool
     \<Rightarrow> (TPM_RESULT + bytes) option \<times> bool \<times> 's nvstate"
where
  "SWTPM_NVRAM_GetStateBlob cr ops nv tpm_number name decrypt =
     (case SWTPM_NVRAM_LoadData cr ops nv tpm_number name of
        (None, nv1) \<Rightarrow> (None, False, nv1)
      | (Some (Inl res), nv1) \<Rightarrow> (Some (Inl res), False, nv1)
      | (Some (Inr plain), nv1) \<Rightarrow>
          (case stateblob_inner cr (nv_globals nv1) plain decrypt of
             (Inl res, enc, g) \<Rightarrow> (Some (Inl res), enc, nv1\<lparr>nv_globals := g\<rparr>)
           | (Inr (buffer, flags), enc, g) \<Rightarrow>
               (case stateblob_outer cr g buffer flags enc of
                  (r, g') \<Rightarrow> (Some r, enc, nv1\<lparr>nv_globals := g'\<rparr>))))"

text \<open>
  The two layers of a blob taken off again: first the migration key's, then the file key's.
\<close>

definition open_migration_layer ::
  "crypto \<Rightarrow> nvram_globals \<Rightarrow> bytes \<Rightarrow> u16 \<Rightarrow> byte \<Rightarrow> TPM_RESULT + bytes"
where
  "open_migration_layer cr g data hdrflags hdrversion =
     (if hdrflags AND BLOB_FLAG_MIGRATION_ENCRYPTED \<noteq> 0 then
        if \<not> SWTPM_NVRAM_Has_MigrationKey g then Inl TPM_KEYNOTFOUND
        else SWTPM_NVRAM_DecryptData cr (migrationkey g) data TAG_ENCRYPTED_MIGRATION_DATA
               hdrversion TAG_IVEC_ENCRYPTED_MIGRATION_DATA hdrflags
               BLOB_FLAG_MIGRATION_256BIT_KEY
      else SWTPM_NVRAM_GetPlainData cr data TAG_MIGRATION_DATA hdrversion)"

definition open_state_layer ::
  "crypto \<Rightarrow> nvram_globals \<Rightarrow> bytes \<Rightarrow> bool \<Rightarrow> u16 \<Rightarrow> byte \<Rightarrow> TPM_RESULT + bytes"
where
  "open_state_layer cr g mig_decrypt is_encrypted hdrflags hdrversion =
     (if is_encrypted \<or> hdrflags AND BLOB_FLAG_ENCRYPTED \<noteq> 0 then
        if \<not> SWTPM_NVRAM_Has_FileKey g then Inl TPM_KEYNOTFOUND
        else SWTPM_NVRAM_DecryptData cr (filekey g) mig_decrypt TAG_ENCRYPTED_DATA hdrversion
               TAG_IVEC_ENCRYPTED_DATA hdrflags BLOB_FLAG_ENCRYPTED_256BIT_KEY
      else SWTPM_NVRAM_GetPlainData cr mig_decrypt TAG_DATA hdrversion)"

definition SWTPM_NVRAM_SetStateBlob ::
  "crypto \<Rightarrow> 't tpmlib \<Rightarrow> 't \<Rightarrow> nvram_globals \<Rightarrow> bytes \<Rightarrow> bool \<Rightarrow> u32 \<Rightarrow> TPM_RESULT \<times> 't"
where
  "SWTPM_NVRAM_SetStateBlob cr lib t g data is_encrypted blobtype =
     (case tpmlib_blobtype_to_statetype blobtype of
        None \<Rightarrow> (TPM_BAD_PARAMETER, t)
      | Some st \<Rightarrow>
      if length data = 0 then TPMLIB_SetState lib t st None
      else case SWTPM_NVRAM_CheckHeader data of
        Inl res \<Rightarrow> (res, t)
      | Inr (dataoffset, hdrflags, hdrversion) \<Rightarrow>
          if length data - dataoffset = 0 then TPMLIB_SetState lib t st None
          else case open_migration_layer cr g (drop dataoffset data) hdrflags hdrversion of
            Inl res \<Rightarrow> (res, t)
          | Inr mig_decrypt \<Rightarrow>
              (case open_state_layer cr g mig_decrypt is_encrypted hdrflags hdrversion of
                 Inl res \<Rightarrow> (res, t)
               | Inr plain \<Rightarrow> TPMLIB_SetState lib t st (Some plain)))"

subsection \<open>Sealing and opening\<close>

lemma append_fresh:
  assumes "\<forall>n. malloc_ok cr n" "length td < 1000" "list_all tlv_wf td" "tlv_size td < 2 ^ 32"
  shows "tlv_data_append (malloc_ok cr) None 0 td =
         (TPM_SUCCESS, Some (concat (map tlv_encode td)), of_nat (tlv_size td))"
  using assms by (subst tlv_data_append_eq) simp_all

lemma plain_stream:
  assumes "crypto_ok cr" "length d + 1000 < 2 ^ 32"
    and "td = TLV_DATA tag (of_nat (length d)) d \<or> td = TLV_DATA_CONST tag (of_nat (length d)) d"
  obtains buf where
    "tlv_data_append (malloc_ok cr) None 0 [td] = (TPM_SUCCESS, Some buf, of_nat (length buf))"
    and "SWTPM_NVRAM_GetPlainData cr buf tag BLOB_HEADER_VERSION = Inr d"
    and "length buf = length d + 6"
proof -
  have mo: "\<forall>n. malloc_ok cr n" using assms(1) by (simp add: crypto_ok_def)
  have ld: "length d < 2 ^ 32" using assms(2) by simp
  have td: "tlv_wf td" "tlv_payload td = d" "tlv_tag td = tag" "unat (tlv_length td) = length d"
    using assms(3) ld by auto
  let ?buf = "concat (map tlv_encode [td])"
  have len: "length ?buf = length d + 6" using td by (simp add: length_tlv_encode)
  have app: "tlv_data_append (malloc_ok cr) None 0 [td] =
      (TPM_SUCCESS, Some ?buf, of_nat (length ?buf))"
    using append_fresh [OF mo, of "[td]"] td assms(2) len by simp
  have wf: "list_all tlv_wf [td]" and "length ?buf < 2 ^ 32" using td len assms(2) by simp_all
  then obtain t' where "tlv_data_find_tag ?buf (of_nat (length ?buf)) tag = Some t'"
    "tlv_payload t' = d"
    using tlv_find_concatE [of "[td]" tag td] td by auto
  then have "SWTPM_NVRAM_GetPlainData cr ?buf tag BLOB_HEADER_VERSION = Inr d"
    using mo by (simp add: SWTPM_NVRAM_GetPlainData_def)
  with app len that show ?thesis by blast
qed

lemma encrypted_stream:
  assumes "crypto_ok cr" "globals_wf g" "enckey_wf key" "userKeyLength (symkey key) > 0"
    and "length d + 2000 < 2 ^ 31"
    and "tag_enc \<noteq> TAG_HMAC" "tag_iv \<noteq> TAG_HMAC" "tag_iv \<noteq> tag_enc"
  obtains td g' buf where
    "SWTPM_NVRAM_EncryptData cr g key tag_enc d tag_iv = (Inr td, g')"
    and "tlv_data_append (malloc_ok cr) None 0 td = (TPM_SUCCESS, Some buf, of_nat (length buf))"
    and "\<And>hdrflags flag256. (hdrflags AND flag256 \<noteq> 0) = (userKeyLength (symkey key) = 32) \<Longrightarrow>
         SWTPM_NVRAM_DecryptData cr key buf tag_enc BLOB_HEADER_VERSION tag_iv hdrflags flag256 = Inr d"
    and "0 < length buf" "length buf \<le> length d + 200"
    and "globals_wf g'" "filekey g' = filekey g" "migrationkey g' = migrationkey g"
proof -
  have mo: "\<forall>n. malloc_ok cr n" using assms(1) by (simp add: crypto_ok_def)
  have ld: "length d + 32 < 2 ^ 31" using assms(5) by simp
  obtain c md iv g' where enc: "SWTPM_NVRAM_EncryptData cr g key tag_enc d tag_iv =
       (Inr [TLV_DATA tag_enc (of_nat (length c)) c, TLV_DATA TAG_HMAC 32 md,
             TLV_DATA_CONST tag_iv (of_nat (length iv)) iv], g')"
    and dec: "SWTPM_SymmetricKeyData_Decrypt cr c (symkey key) (Some iv) = Inr d"
    and md: "SWTPM_HMAC cr (take (userKeyLength (symkey key)) (userKey (symkey key))) c (Some iv)
         = Some md" "length md = 32"
    and lens: "length c \<le> length d + 32" "length iv \<le> 32"
    and g': "globals_wf g'" "filekey g' = filekey g" "migrationkey g' = migrationkey g"
    using EncryptData_ok [OF assms(1-4) ld] by metis
  let ?td = "[TLV_DATA tag_enc (of_nat (length c)) c, TLV_DATA TAG_HMAC 32 md,
             TLV_DATA_CONST tag_iv (of_nat (length iv)) iv]"
  have wf: "list_all tlv_wf ?td"
    using lens assms(5) md(2) by (simp add: tlv_wf_def)
  let ?buf = "concat (map tlv_encode ?td)"
  have len: "length ?buf = tlv_size ?td" by (rule length_concat_tlv_encode [OF wf])
  have sz: "tlv_size ?td = length c + length iv + 50" using lens assms(5) by simp
  have app: "tlv_data_append (malloc_ok cr) None 0 ?td =
      (TPM_SUCCESS, Some ?buf, of_nat (length ?buf))"
    unfolding len by (rule append_fresh [OF mo _ wf]) (use lens assms(5) sz in simp_all)
  have "SWTPM_NVRAM_DecryptData cr key ?buf tag_enc BLOB_HEADER_VERSION tag_iv hdrflags flag256 = Inr d"
    if "(hdrflags AND flag256 \<noteq> 0) = (userKeyLength (symkey key) = 32)" for hdrflags flag256
    by (rule DecryptData_stream [OF assms(1,3,4) dec md _ lens(2) assms(6-8) that refl])
      (use lens assms(5) in simp)
  moreover have "0 < length ?buf" "length ?buf \<le> length d + 200"
    unfolding len using sz lens by simp_all
  ultimately show ?thesis using that enc app g' by blast
qed

lemma seal_unseal:
  assumes "crypto_ok cr" "globals_wf g" "length data + 2000 < 2 ^ 31"
  obtains out g' where "seal_filedata cr g data True = (Inr out, g')"
    and "unseal_filedata cr g out = Inr data"
    and "10 \<le> length out" "length out \<le> length data + 210"
    and "globals_wf g'" "filekey g' = filekey g" "migrationkey g' = migrationkey g"
proof (cases "SWTPM_NVRAM_Has_FileKey g")
  case True
  then have pos: "userKeyLength (symkey (filekey g)) > 0"
    by (simp add: SWTPM_NVRAM_Has_FileKey_def SWTPM_NVRAM_FileKey_Size_def)
  have wf: "enckey_wf (filekey g)" using assms(2) by (simp add: globals_wf_def)
  let ?flags = "BLOB_FLAG_ENCRYPTED OR (if SWTPM_NVRAM_FileKey_Size g = SWTPM_AES256_KEY_SIZE
      then BLOB_FLAG_ENCRYPTED_256BIT_KEY else 0)"
  obtain td g' buf where
    enc: "SWTPM_NVRAM_EncryptData cr g (filekey g) TAG_ENCRYPTED_DATA data TAG_IVEC_ENCRYPTED_DATA
       = (Inr td, g')"
    and app: "tlv_data_append (malloc_ok cr) None 0 td =
       (TPM_SUCCESS, Some buf, of_nat (length buf))"
    and dec: "\<And>hdrflags flag256. (hdrflags AND flag256 \<noteq> 0)
         = (userKeyLength (symkey (filekey g)) = 32) \<Longrightarrow>
         SWTPM_NVRAM_DecryptData cr (filekey g) buf TAG_ENCRYPTED_DATA BLOB_HEADER_VERSION
           TAG_IVEC_ENCRYPTED_DATA hdrflags flag256 = Inr data"
    and len: "length buf \<le> length data + 200"
    and g': "globals_wf g'" "filekey g' = filekey g" "migrationkey g' = migrationkey g"
    by (rule encrypted_stream [OF assms(1,2) wf pos assms(3),
        of TAG_ENCRYPTED_DATA TAG_IVEC_ENCRYPTED_DATA]) (simp, simp, simp, blast)
  obtain out where out: "SWTPM_NVRAM_PrependHeader cr buf ?flags = Inr out"
    using PrependHeader_eq assms(1) by (metis crypto_ok_def)
  note hdr = CheckHeader_Prepend [OF out]
  have "seal_filedata cr g data True = (Inr out, g')"
    using True enc app out by (simp add: seal_filedata_def)
  moreover have "unseal_filedata cr g out = Inr data"
    using hdr pos dec [of ?flags BLOB_FLAG_ENCRYPTED_256BIT_KEY]
    by (auto simp: unseal_filedata_def SWTPM_NVRAM_GetDecryptedData_def
        SWTPM_NVRAM_FileKey_Size_def split: if_splits)
  ultimately show ?thesis using that g' hdr(3) len by simp
next
  case False
  let ?td = "TLV_DATA_CONST TAG_DATA (of_nat (length data)) data"
  obtain buf where app: "tlv_data_append (malloc_ok cr) None 0 [?td] =
      (TPM_SUCCESS, Some buf, of_nat (length buf))"
    and plain: "SWTPM_NVRAM_GetPlainData cr buf TAG_DATA BLOB_HEADER_VERSION = Inr data"
    and len: "length buf = length data + 6"
    using plain_stream [OF assms(1), of data ?td TAG_DATA] assms(3) by auto
  obtain out where out: "SWTPM_NVRAM_PrependHeader cr buf 0 = Inr out"
    using PrependHeader_eq assms(1) by (metis crypto_ok_def)
  note hdr = CheckHeader_Prepend [OF out]
  have "seal_filedata cr g data True = (Inr out, g)"
    using False app out by (simp add: seal_filedata_def)
  moreover have "unseal_filedata cr g out = Inr data"
    using hdr False plain
    by (simp add: unseal_filedata_def SWTPM_NVRAM_GetDecryptedData_def
        SWTPM_NVRAM_Has_FileKey_def SWTPM_NVRAM_FileKey_Size_def)
  ultimately show ?thesis using that assms(2) hdr(3) len by simp
qed

subsection \<open>The two layers of a state blob\<close>

definition inner_flags :: "nvram_globals \<Rightarrow> bool \<Rightarrow> u16" where
  "inner_flags g enc =
     (if enc \<and> SWTPM_NVRAM_FileKey_Size g = SWTPM_AES256_KEY_SIZE
      then BLOB_FLAG_ENCRYPTED_256BIT_KEY else 0)"

definition outer_flags :: "nvram_globals \<Rightarrow> u16" where
  "outer_flags g =
     (if SWTPM_NVRAM_Has_MigrationKey g
      then BLOB_FLAG_MIGRATION_ENCRYPTED OR
             (if SWTPM_NVRAM_MigrationKey_Size g = SWTPM_AES256_KEY_SIZE
              then BLOB_FLAG_MIGRATION_256BIT_KEY else 0)
      else 0)"

definition blob_flags :: "nvram_globals \<Rightarrow> bool \<Rightarrow> u16" where
  "blob_flags g enc =
     (inner_flags g enc OR outer_flags g) OR BLOB_FLAG_MIGRATION_DATA OR
       (if enc then BLOB_FLAG_ENCRYPTED else 0)"

lemma blob_flags_bits:
  assumes "SWTPM_NVRAM_MigrationKey_Size g = 32 \<longrightarrow> SWTPM_NVRAM_Has_MigrationKey g"
  shows "(blob_flags g enc AND BLOB_FLAG_ENCRYPTED \<noteq> 0) = enc"
    and "(blob_flags g enc AND BLOB_FLAG_MIGRATION_ENCRYPTED \<noteq> 0) = SWTPM_NVRAM_Has_MigrationKey g"
    and "enc \<Longrightarrow> (blob_flags g enc AND BLOB_FLAG_ENCRYPTED_256BIT_KEY \<noteq> 0)
          = (SWTPM_NVRAM_FileKey_Size g = 32)"
    and "(blob_flags g enc AND BLOB_FLAG_MIGRATION_256BIT_KEY \<noteq> 0)
          = (SWTPM_NVRAM_MigrationKey_Size g = 32)"
  using assms
  by (auto simp: blob_flags_def inner_flags_def outer_flags_def)

lemma has_key_pos:
  "SWTPM_NVRAM_Has_FileKey g = (userKeyLength (symkey (filekey g)) > 0)"
  "SWTPM_NVRAM_Has_MigrationKey g = (userKeyLength (symkey (migrationkey g)) > 0)"
  by (simp_all add: SWTPM_NVRAM_Has_FileKey_def SWTPM_NVRAM_FileKey_Size_def
      SWTPM_NVRAM_Has_MigrationKey_def SWTPM_NVRAM_MigrationKey_Size_def)

lemma stateblob_inner_ok:
  assumes "crypto_ok cr" "globals_wf g" "length plain + 2000 < 2 ^ 31"
    and enc: "enc = (\<not> decrypt \<and> SWTPM_NVRAM_Has_FileKey g)"
  obtains buffer g' where
    "stateblob_inner cr g plain decrypt = (Inr (buffer, inner_flags g enc), enc, g')"
    and "length buffer \<le> length plain + 200"
    and "globals_wf g'" "filekey g' = filekey g" "migrationkey g' = migrationkey g"
    and "\<And>g2 fl. filekey g2 = filekey g \<Longrightarrow> (fl AND BLOB_FLAG_ENCRYPTED \<noteq> 0) = enc \<Longrightarrow>
       (enc \<Longrightarrow> (fl AND BLOB_FLAG_ENCRYPTED_256BIT_KEY \<noteq> 0) = (SWTPM_NVRAM_FileKey_Size g = 32)) \<Longrightarrow>
       open_state_layer cr g2 buffer enc fl BLOB_HEADER_VERSION = Inr plain"
proof (cases enc)
  case True
  then have pos: "userKeyLength (symkey (filekey g)) > 0" and nd: "\<not> decrypt"
    using enc by (simp_all add: has_key_pos)
  have wf: "enckey_wf (filekey g)" using assms(2) by (simp add: globals_wf_def)
  obtain td g' buf where
    e: "SWTPM_NVRAM_EncryptData cr g (filekey g) TAG_ENCRYPTED_DATA plain TAG_IVEC_ENCRYPTED_DATA
       = (Inr td, g')"
    and app: "tlv_data_append (malloc_ok cr) None 0 td =
       (TPM_SUCCESS, Some buf, of_nat (length buf))"
    and dec: "\<And>hdrflags flag256. (hdrflags AND flag256 \<noteq> 0)
         = (userKeyLength (symkey (filekey g)) = 32) \<Longrightarrow>
         SWTPM_NVRAM_DecryptData cr (filekey g) buf TAG_ENCRYPTED_DATA BLOB_HEADER_VERSION
           TAG_IVEC_ENCRYPTED_DATA hdrflags flag256 = Inr plain"
    and len: "length buf \<le> length plain + 200"
    and g': "globals_wf g'" "filekey g' = filekey g" "migrationkey g' = migrationkey g"
    by (rule encrypted_stream [OF assms(1,2) wf pos assms(3),
        of TAG_ENCRYPTED_DATA TAG_IVEC_ENCRYPTED_DATA]) (simp, simp, simp, blast)
  have "stateblob_inner cr g plain decrypt = (Inr (buf, inner_flags g enc), enc, g')"
    using True nd enc e app by (simp add: stateblob_inner_def inner_flags_def)
  moreover have "open_state_layer cr g2 buf enc fl BLOB_HEADER_VERSION = Inr plain"
    if "filekey g2 = filekey g"
      "enc \<Longrightarrow> (fl AND BLOB_FLAG_ENCRYPTED_256BIT_KEY \<noteq> 0) = (SWTPM_NVRAM_FileKey_Size g = 32)"
    for g2 fl
    using that(1) that(2) [OF True] True pos dec [of fl BLOB_FLAG_ENCRYPTED_256BIT_KEY]
    by (simp add: open_state_layer_def has_key_pos SWTPM_NVRAM_FileKey_Size_def)
  ultimately show ?thesis using that len g' by blast
next
  case False
  let ?td = "TLV_DATA TAG_DATA (of_nat (length plain)) plain"
  obtain buf where app: "tlv_data_append (malloc_ok cr) None 0 [?td] =
      (TPM_SUCCESS, Some buf, of_nat (length buf))"
    and p: "SWTPM_NVRAM_GetPlainData cr buf TAG_DATA BLOB_HEADER_VERSION = Inr plain"
    and len: "length buf = length plain + 6"
    using plain_stream [OF assms(1), of plain ?td TAG_DATA] assms(3) by auto
  have "stateblob_inner cr g plain decrypt = (Inr (buf, inner_flags g enc), enc, g)"
    using False enc app by (auto simp add: stateblob_inner_def inner_flags_def)
  then show ?thesis
    using that [of buf g] p len False assms(2) by (simp add: open_state_layer_def)
qed

lemma stateblob_outer_ok:
  assumes "crypto_ok cr" "globals_wf g" "length buffer + 2000 < 2 ^ 31"
  obtains blob g' where
    "stateblob_outer cr g buffer (inner_flags g0 enc) enc = (Inr blob, g')"
    and "SWTPM_NVRAM_CheckHeader blob =
         Inr (10, (inner_flags g0 enc OR outer_flags g) OR BLOB_FLAG_MIGRATION_DATA OR
                  (if enc then BLOB_FLAG_ENCRYPTED else 0), BLOB_HEADER_VERSION)"
    and "10 < length blob" "length blob \<le> length buffer + 210"
    and "globals_wf g'" "filekey g' = filekey g" "migrationkey g' = migrationkey g"
    and "\<And>g2 fl. migrationkey g2 = migrationkey g \<Longrightarrow>
       (fl AND BLOB_FLAG_MIGRATION_ENCRYPTED \<noteq> 0) = SWTPM_NVRAM_Has_MigrationKey g \<Longrightarrow>
       (fl AND BLOB_FLAG_MIGRATION_256BIT_KEY \<noteq> 0) = (SWTPM_NVRAM_MigrationKey_Size g = 32) \<Longrightarrow>
       open_migration_layer cr g2 (drop 10 blob) fl BLOB_HEADER_VERSION = Inr buffer"
proof -
  let ?fl = "(inner_flags g0 enc OR outer_flags g) OR BLOB_FLAG_MIGRATION_DATA OR
                  (if enc then BLOB_FLAG_ENCRYPTED else 0)"
  have mo: "\<forall>n. malloc_ok cr n" using assms(1) by (simp add: crypto_ok_def)
  have "\<exists>buf g'. stateblob_outer cr g buffer (inner_flags g0 enc) enc =
          (SWTPM_NVRAM_PrependHeader cr buf ?fl, g') \<and> 0 < length buf \<and> length buf \<le> length buffer + 200
        \<and> globals_wf g' \<and> filekey g' = filekey g \<and> migrationkey g' = migrationkey g
        \<and> (\<forall>g2 fl. migrationkey g2 = migrationkey g \<longrightarrow>
           (fl AND BLOB_FLAG_MIGRATION_ENCRYPTED \<noteq> 0) = SWTPM_NVRAM_Has_MigrationKey g \<longrightarrow>
           (fl AND BLOB_FLAG_MIGRATION_256BIT_KEY \<noteq> 0) = (SWTPM_NVRAM_MigrationKey_Size g = 32) \<longrightarrow>
           open_migration_layer cr g2 buf fl BLOB_HEADER_VERSION = Inr buffer)"
  proof (cases "SWTPM_NVRAM_Has_MigrationKey g")
    case True
    then have pos: "userKeyLength (symkey (migrationkey g)) > 0" by (simp add: has_key_pos)
    have wf: "enckey_wf (migrationkey g)" using assms(2) by (simp add: globals_wf_def)
    obtain td g' buf where
      e: "SWTPM_NVRAM_EncryptData cr g (migrationkey g) TAG_ENCRYPTED_MIGRATION_DATA buffer
            TAG_IVEC_ENCRYPTED_MIGRATION_DATA = (Inr td, g')"
      and app: "tlv_data_append (malloc_ok cr) None 0 td =
         (TPM_SUCCESS, Some buf, of_nat (length buf))"
      and dec: "\<And>hdrflags flag256. (hdrflags AND flag256 \<noteq> 0)
           = (userKeyLength (symkey (migrationkey g)) = 32) \<Longrightarrow>
           SWTPM_NVRAM_DecryptData cr (migrationkey g) buf TAG_ENCRYPTED_MIGRATION_DATA
             BLOB_HEADER_VERSION TAG_IVEC_ENCRYPTED_MIGRATION_DATA hdrflags flag256 = Inr buffer"
      and len: "0 < length buf" "length buf \<le> length buffer + 200"
      and g': "globals_wf g'" "filekey g' = filekey g" "migrationkey g' = migrationkey g"
      by (rule encrypted_stream [OF assms(1,2) wf pos assms(3),
          of TAG_ENCRYPTED_MIGRATION_DATA TAG_IVEC_ENCRYPTED_MIGRATION_DATA])
        (simp, simp, simp, blast)
    have "stateblob_outer cr g buffer (inner_flags g0 enc) enc =
          (SWTPM_NVRAM_PrependHeader cr buf ?fl, g')"
      using True e app by (simp add: stateblob_outer_def outer_flags_def or.assoc)
    then show ?thesis
      using len g' dec pos
      by (intro exI [of _ buf] exI [of _ g'])
        (auto simp: open_migration_layer_def has_key_pos SWTPM_NVRAM_MigrationKey_Size_def)
  next
    case False
    let ?td = "TLV_DATA TAG_MIGRATION_DATA (of_nat (length buffer)) buffer"
    obtain buf where app: "tlv_data_append (malloc_ok cr) None 0 [?td] =
        (TPM_SUCCESS, Some buf, of_nat (length buf))"
      and p: "SWTPM_NVRAM_GetPlainData cr buf TAG_MIGRATION_DATA BLOB_HEADER_VERSION = Inr buffer"
      and len: "length buf = length buffer + 6"
      using plain_stream [OF assms(1), of buffer ?td TAG_MIGRATION_DATA] assms(3) by auto
    have "stateblob_outer cr g buffer (inner_flags g0 enc) enc =
          (SWTPM_NVRAM_PrependHeader cr buf ?fl, g)"
      using False app by (simp add: stateblob_outer_def outer_flags_def)
    then show ?thesis
      using len p False assms(2)
      by (intro exI [of _ buf] exI [of _ g]) (auto simp: open_migration_layer_def)
  qed
  then obtain buf g' where o: "stateblob_outer cr g buffer (inner_flags g0 enc) enc =
          (SWTPM_NVRAM_PrependHeader cr buf ?fl, g')" "0 < length buf" "length buf \<le> length buffer + 200"
    "globals_wf g'" "filekey g' = filekey g" "migrationkey g' = migrationkey g"
    and op: "\<And>g2 fl. migrationkey g2 = migrationkey g \<Longrightarrow>
           (fl AND BLOB_FLAG_MIGRATION_ENCRYPTED \<noteq> 0) = SWTPM_NVRAM_Has_MigrationKey g \<Longrightarrow>
           (fl AND BLOB_FLAG_MIGRATION_256BIT_KEY \<noteq> 0) = (SWTPM_NVRAM_MigrationKey_Size g = 32) \<Longrightarrow>
           open_migration_layer cr g2 buf fl BLOB_HEADER_VERSION = Inr buffer"
    by blast
  obtain out where out: "SWTPM_NVRAM_PrependHeader cr buf ?fl = Inr out"
    using PrependHeader_eq [OF mo] by metis
  note hdr = CheckHeader_Prepend [OF out]
  have lo: "length out = length buf + 10" using out PrependHeader_eq [OF mo] by auto
  show ?thesis
    using that [of out g'] o op hdr out lo by simp
qed

text \<open>A blob made with the keys of \<open>g\<close> is opened by any instance that has the same keys.\<close>

lemma SetStateBlob_of_layers:
  assumes "crypto_ok cr" "globals_wf g" "length plain + 5000 < 2 ^ 31"
    and st: "tpmlib_blobtype_to_statetype blobtype = Some st"
  obtains buffer flags enc g1 blob g2 where
    "stateblob_inner cr g plain decrypt = (Inr (buffer, flags), enc, g1)"
    and "enc = (\<not> decrypt \<and> SWTPM_NVRAM_Has_FileKey g)"
    and "stateblob_outer cr g1 buffer flags enc = (Inr blob, g2)"
    and "10 < length blob" "length blob \<le> length plain + 410"
    and "globals_wf g2" "filekey g2 = filekey g" "migrationkey g2 = migrationkey g"
    and "\<And>g3 lib t. filekey g3 = filekey g \<Longrightarrow> migrationkey g3 = migrationkey g \<Longrightarrow>
         SWTPM_NVRAM_SetStateBlob cr lib t g3 blob enc blobtype = TPMLIB_SetState lib t st (Some plain)"
proof -
  let ?enc = "\<not> decrypt \<and> SWTPM_NVRAM_Has_FileKey g"
  have l1: "length plain + 2000 < 2 ^ 31" using assms(3) by simp
  obtain buffer g1 where i: "stateblob_inner cr g plain decrypt =
        (Inr (buffer, inner_flags g ?enc), ?enc, g1)" "length buffer \<le> length plain + 200"
      "globals_wf g1" "filekey g1 = filekey g" "migrationkey g1 = migrationkey g"
    and open_s: "\<And>g2 fl. filekey g2 = filekey g \<Longrightarrow> (fl AND BLOB_FLAG_ENCRYPTED \<noteq> 0) = ?enc \<Longrightarrow>
       (?enc \<Longrightarrow> (fl AND BLOB_FLAG_ENCRYPTED_256BIT_KEY \<noteq> 0) = (SWTPM_NVRAM_FileKey_Size g = 32)) \<Longrightarrow>
       open_state_layer cr g2 buffer ?enc fl BLOB_HEADER_VERSION = Inr plain"
    using stateblob_inner_ok [OF assms(1,2) l1 refl] by metis
  have l2: "length buffer + 2000 < 2 ^ 31" using i(2) assms(3) by simp
  have fl_eq: "(inner_flags g ?enc OR outer_flags g1) OR BLOB_FLAG_MIGRATION_DATA OR
      (if ?enc then BLOB_FLAG_ENCRYPTED else 0) = blob_flags g ?enc"
    using i(5) by (simp add: blob_flags_def outer_flags_def SWTPM_NVRAM_MigrationKey_Size_def
        has_key_pos)
  have mk: "SWTPM_NVRAM_Has_MigrationKey g1 = SWTPM_NVRAM_Has_MigrationKey g"
    "SWTPM_NVRAM_MigrationKey_Size g1 = SWTPM_NVRAM_MigrationKey_Size g"
    using i(5) by (simp_all add: SWTPM_NVRAM_MigrationKey_Size_def has_key_pos)
  obtain blob g2 where o: "stateblob_outer cr g1 buffer (inner_flags g ?enc) ?enc = (Inr blob, g2)"
      "SWTPM_NVRAM_CheckHeader blob = Inr (10, blob_flags g ?enc, BLOB_HEADER_VERSION)"
      "10 < length blob" "length blob \<le> length buffer + 210" "globals_wf g2" "filekey g2 = filekey g1" "migrationkey g2 = migrationkey g1"
    and open_m: "\<And>g2 fl. migrationkey g2 = migrationkey g1 \<Longrightarrow>
       (fl AND BLOB_FLAG_MIGRATION_ENCRYPTED \<noteq> 0) = SWTPM_NVRAM_Has_MigrationKey g1 \<Longrightarrow>
       (fl AND BLOB_FLAG_MIGRATION_256BIT_KEY \<noteq> 0) = (SWTPM_NVRAM_MigrationKey_Size g1 = 32) \<Longrightarrow>
       open_migration_layer cr g2 (drop 10 blob) fl BLOB_HEADER_VERSION = Inr buffer"
    using stateblob_outer_ok [OF assms(1) i(3) l2, of g ?enc] unfolding fl_eq by metis
  have imp: "SWTPM_NVRAM_MigrationKey_Size g = 32 \<longrightarrow> SWTPM_NVRAM_Has_MigrationKey g"
    by (simp add: SWTPM_NVRAM_Has_MigrationKey_def)
  note bits = blob_flags_bits [OF imp]
  have "SWTPM_NVRAM_SetStateBlob cr lib t g3 blob ?enc blobtype = TPMLIB_SetState lib t st (Some plain)"
    if k: "filekey g3 = filekey g" "migrationkey g3 = migrationkey g" for g3 and lib :: "'a tpmlib" and t
  proof -
    have m: "open_migration_layer cr g3 (drop 10 blob) (blob_flags g ?enc) BLOB_HEADER_VERSION
        = Inr buffer"
      using k i(5) mk by (intro open_m) (simp_all add: bits)
    have s: "open_state_layer cr g3 buffer ?enc (blob_flags g ?enc) BLOB_HEADER_VERSION = Inr plain"
      by (rule open_s [OF k(1) bits(1) bits(3)])
    have "blob \<noteq> []" "\<not> length blob \<le> 10" using o(3) by auto
    then show ?thesis
      unfolding SWTPM_NVRAM_SetStateBlob_def st o(2) using m s by simp
  qed
  moreover have "length blob \<le> length plain + 410" using i(2) o(4) by simp
  ultimately show ?thesis using that [OF i(1) refl o(1,3) _ o(5)] o(6,7) i(4,5) by simp
qed

subsection \<open>Properties\<close>

text \<open>
  C28. Encrypting with a 128 or 256 bit key succeeds and is undone by decrypting with the same
  key and initial vector, for every length whose padded length is below \<open>2 ^ 31\<close>, the limit of libcrypto's \<open>int\<close>, the empty message included; the
  ciphertext is longer by one to a key's length of padding.
\<close>

theorem symmetric_key_roundtrip:
  assumes "cipher_ok cr" "\<forall>n. malloc_ok cr n" "key_ok key" "ivec_ok iv"
    and "length d + userKeyLength key < 2 ^ 31"
  shows "\<exists>c. SWTPM_SymmetricKeyData_Encrypt cr d key iv = Inr c \<and>
    SWTPM_SymmetricKeyData_Decrypt cr c key iv = Inr d \<and>
    length d < length c \<and> length c \<le> length d + userKeyLength key"
proof -
  obtain c where c: "SWTPM_SymmetricKeyData_Encrypt cr d key iv = Inr c"
    "length c = length (padded (userKeyLength key) d)"
    "SWTPM_SymmetricKeyData_Decrypt cr c key iv = Inr d"
    using SymmetricKeyData_roundtrip [OF assms(1,3,5,4,2)] by metis
  have "0 < userKeyLength key" using assms(3) by (auto simp: key_ok_def)
  then show ?thesis using c pad_len_bounds [of "userKeyLength key" "length d"]
    by (simp add: length_padded)
qed

theorem symmetric_key_roundtrip_witness:
  "\<exists>c. SWTPM_SymmetricKeyData_Encrypt example_crypto [] \<lparr>userKey = replicate 32 5, userKeyLength = 32\<rparr> None = Inr c \<and>
     SWTPM_SymmetricKeyData_Decrypt example_crypto c \<lparr>userKey = replicate 32 5, userKeyLength = 32\<rparr> None = Inr []"
  using symmetric_key_roundtrip [of example_crypto "\<lparr>userKey = replicate 32 5, userKeyLength = 32\<rparr>" None "[]"]
    example_crypto_ok by (auto simp: crypto_ok_def key_ok_def ivec_ok_def)

text \<open>
  C13. What decryption returns was checked: for the current blob version the stream carries an HMAC record of full size whose
  bytes are the HMAC, under the key, of the encrypted record and the initial vector, and the record decrypts to the
  data. For version 1, which has no HMAC, the data decrypts to its own SHA256 followed by the result: integrity
  only, without a key. Nothing comes out for any other version.
\<close>

theorem decrypt_only_authentic:
  assumes "crypto_ok cr"
    and "SWTPM_NVRAM_DecryptData cr key data tag_enc hdrversion tag_iv hdrflags flag256 = Inr d"
  shows "hdrversion = BLOB_HEADER_VERSION \<and> (\<exists>h e. tlv_data_find_tag data (of_nat (length data)) TAG_HMAC = Some h \<and>
      tlv_data_find_tag data (of_nat (length data)) tag_enc = Some e \<and>
      SWTPM_HMAC cr (take (userKeyLength (symkey key)) (userKey (symkey key))) (tlv_payload e)
        (SWTPM_GetIvec data tag_iv) = Some (take SHA256_DIGEST_LENGTH (tlv_ptr h)) \<and>
      SHA256_DIGEST_LENGTH \<le> unat (tlv_length h) \<and>
      SWTPM_SymmetricKeyData_Decrypt cr (tlv_payload e) (symkey key) (SWTPM_GetIvec data tag_iv) = Inr d) \<or>
    hdrversion = 1 \<and> SWTPM_SymmetricKeyData_Decrypt cr data (symkey key) None = Inr (sha256 cr d @ d)"
proof -
  consider "hdrversion = BLOB_HEADER_VERSION" | "hdrversion = 1"
    using assms(2) by (fastforce simp: SWTPM_NVRAM_DecryptData_def split: if_splits encryption_mode.splits)
  then show ?thesis
  proof cases
    case 1
    obtain td0 td1 md where x: "tlv_data_find_tag data (of_nat (length data)) TAG_HMAC = Some td0"
      "tlv_data_find_tag data (of_nat (length data)) tag_enc = Some td1"
      "SWTPM_HMAC cr (take (userKeyLength (symkey key)) (userKey (symkey key)))
         (tlv_payload td1) (SWTPM_GetIvec data tag_iv) = Some md"
      "take (length md) (tlv_ptr td0) = md" "32 \<le> unat (tlv_length td0)"
      "SWTPM_SymmetricKeyData_Decrypt cr (tlv_payload td1) (symkey key) (SWTPM_GetIvec data tag_iv) = Inr d"
      using DecryptData_InrD [OF assms(2) 1] by metis
    have "length md = 32" using assms(1) x(3) by (auto simp: SWTPM_HMAC_def crypto_ok_def) (metis option.inject)
    then show ?thesis using x 1 by auto
  next
    case 2
    then obtain p where p: "SWTPM_SymmetricKeyData_Decrypt cr data (symkey key) None = Inr p" "SWTPM_CheckHash cr p = Inr d"
      using assms(2) by (auto simp: SWTPM_NVRAM_DecryptData_def split: if_splits encryption_mode.splits sum.splits)
    then have "p = sha256 cr d @ d"
      by (auto simp: SWTPM_CheckHash_def Let_def split: if_splits) (metis append_take_drop_id)
    then show ?thesis using p(1) 2 by simp
  qed
qed

theorem decrypt_only_authentic_witness:
  "\<exists>data. SWTPM_NVRAM_DecryptData example_crypto (filekey (example_globals 16 0)) data TAG_ENCRYPTED_DATA
        BLOB_HEADER_VERSION TAG_IVEC_ENCRYPTED_DATA 0 BLOB_FLAG_ENCRYPTED_256BIT_KEY = Inr [4, 5, 6] \<and>
      (\<exists>h. tlv_data_find_tag data (of_nat (length data)) TAG_HMAC = Some h \<and>
           SHA256_DIGEST_LENGTH \<le> unat (tlv_length h))"
proof -
  let ?g = "example_globals 16 0"
  have wf: "globals_wf ?g" by (rule example_globals_wf) simp_all
  then have k: "enckey_wf (filekey ?g)" by (simp add: globals_wf_def)
  have l: "userKeyLength (symkey (filekey ?g)) = 16" by (simp add: example_globals_def)
  obtain buf where d: "SWTPM_NVRAM_DecryptData example_crypto (filekey ?g) buf TAG_ENCRYPTED_DATA
      BLOB_HEADER_VERSION TAG_IVEC_ENCRYPTED_DATA 0 BLOB_FLAG_ENCRYPTED_256BIT_KEY = Inr [4, 5, 6]"
    by (rule encrypted_stream [OF example_crypto_ok wf k, where d = "[4, 5, 6]" and
          tag_enc = TAG_ENCRYPTED_DATA and tag_iv = TAG_IVEC_ENCRYPTED_DATA]) (simp_all add: l, metis zero_and_eq)
  from decrypt_only_authentic [OF example_crypto_ok d] have "\<exists>h. tlv_data_find_tag buf (of_nat (length buf)) TAG_HMAC = Some h \<and>
      SHA256_DIGEST_LENGTH \<le> unat (tlv_length h)" by auto
  with d show ?thesis by blast
qed

text \<open>
  C30. A state blob that is encrypted with a key the receiver does not have is refused with
  \<open>TPM_KEYNOTFOUND\<close>, and the TPM's state is not touched: without a migration key for a blob under
  a migration key, without a file key for a blob whose inner layer is encrypted.
\<close>

theorem set_stateblob_needs_keys:
  assumes "tpmlib_blobtype_to_statetype blobtype = Some st" "sizeof_blobheader < length blob"
    and "SWTPM_NVRAM_CheckHeader blob = Inr (off, flags, version)"
    and "(flags AND BLOB_FLAG_MIGRATION_ENCRYPTED \<noteq> 0 \<and> \<not> SWTPM_NVRAM_Has_MigrationKey g) \<or>
         (\<exists>inner. open_migration_layer cr g (drop 10 blob) flags version = Inr inner \<and>
            (enc \<or> flags AND BLOB_FLAG_ENCRYPTED \<noteq> 0) \<and> \<not> SWTPM_NVRAM_Has_FileKey g)"
  shows "SWTPM_NVRAM_SetStateBlob cr lib t g blob enc blobtype = (TPM_KEYNOTFOUND, t)"
proof -
  have off: "off = 10" using CheckHeader_InrD(1) [OF assms(3)] .
  have ne: "blob \<noteq> []" "length blob - 10 \<noteq> 0" using assms(2) by auto
  consider "open_migration_layer cr g (drop 10 blob) flags version = Inl TPM_KEYNOTFOUND"
    | inner where "open_migration_layer cr g (drop 10 blob) flags version = Inr inner"
        "open_state_layer cr g inner enc flags version = Inl TPM_KEYNOTFOUND"
    using assms(4) by (auto simp: open_migration_layer_def open_state_layer_def)
  then show ?thesis
    using assms(1,3) off ne by cases (simp_all add: SWTPM_NVRAM_SetStateBlob_def)
qed

theorem set_stateblob_needs_keys_witness:
  "let g = example_globals 0 16;
       x = stateblob_outer example_crypto g [1, 2, 3] 0 False
   in SWTPM_NVRAM_SetStateBlob example_crypto \<lparr>TPMLIB_VolatileAll_Store = (\<lambda>t. Inl 9),
        TPMLIB_SetState = (\<lambda>t st d. (0, d))\<rparr> None (example_globals 0 0) (projr (fst x)) False
        PTM_BLOB_TYPE_PERMANENT = (TPM_KEYNOTFOUND, None)"
proof -
  let ?b = "projr (fst (stateblob_outer example_crypto (example_globals 0 16) [1, 2, 3] 0 False))"
  let ?lib = "\<lparr>TPMLIB_VolatileAll_Store = (\<lambda>t. Inl 9), TPMLIB_SetState = (\<lambda>t st d. (0, d))\<rparr>
    :: bytes option tpmlib"
  have h: "SWTPM_NVRAM_CheckHeader ?b = Inr (10, 6, 2)" "sizeof_blobheader < length ?b" by code_simp+
  have t: "tpmlib_blobtype_to_statetype PTM_BLOB_TYPE_PERMANENT = Some TPMLIB_STATE_PERMANENT" by code_simp
  have "SWTPM_NVRAM_SetStateBlob example_crypto ?lib None (example_globals 0 0) ?b False
      PTM_BLOB_TYPE_PERMANENT = (TPM_KEYNOTFOUND, None)"
    by (rule set_stateblob_needs_keys [OF t h(2,1)])
      (simp add: SWTPM_NVRAM_Has_MigrationKey_def SWTPM_NVRAM_MigrationKey_Size_def example_globals_def)
  then show ?thesis by (simp add: Let_def)
qed

end
