(* ===== verification/TpmLib.thy ===== *)
theory TpmLib
  imports Nvstore
begin

section \<open>The layer above libtpms (src/src/swtpm/tpmlib.c)\<close>

text \<open>
  Starting and stopping the TPM, the commands swtpm answers itself, and the headers it reads.
  libtpms is a parameter: \<open>libtpms\<close> extends the record of \<^verbatim>\<open>Nvstore\<close> by the functions called
  here. \<open>TPMLIB_MainInit\<close> calls back into the NVRAM layer, so it acts on the whole
  \<open>world\<close>: the state of libtpms and of the NVRAM layer. The build with \<open>WITH_VTPM_PROXY\<close> is
  modelled.
\<close>

abbreviation TPM_RC_INSUFFICIENT :: TPM_RESULT where "TPM_RC_INSUFFICIENT \<equiv> 0x09a"
abbreviation TPM_RC_INITIALIZE :: TPM_RESULT where "TPM_RC_INITIALIZE \<equiv> 0x100"
abbreviation TPM_RC_FAILURE :: TPM_RESULT where "TPM_RC_FAILURE \<equiv> 0x101"
abbreviation TPM_RC_LOCALITY :: TPM_RESULT where "TPM_RC_LOCALITY \<equiv> 0x107"

abbreviation TPMLIB_TPM2_CC_CreatePrimary :: u32 where "TPMLIB_TPM2_CC_CreatePrimary \<equiv> 0x131"
abbreviation TPMLIB_TPM2_CC_Startup :: u32 where "TPMLIB_TPM2_CC_Startup \<equiv> 0x144"
abbreviation TPMLIB_TPM2_CC_Shutdown :: u32 where "TPMLIB_TPM2_CC_Shutdown \<equiv> 0x145"
abbreviation TPMLIB_TPM2_CC_Create :: u32 where "TPMLIB_TPM2_CC_Create \<equiv> 0x153"
abbreviation TPMLIB_TPM_ORD_TakeOwnership :: u32 where "TPMLIB_TPM_ORD_TakeOwnership \<equiv> 0x0d"
abbreviation TPMLIB_TPM_ORD_CreateWrapKey :: u32 where "TPMLIB_TPM_ORD_CreateWrapKey \<equiv> 0x1f"
abbreviation TPMLIB_TPM_ORD_Startup :: u32 where "TPMLIB_TPM_ORD_Startup \<equiv> 0x99"
abbreviation TPM_ORDINAL_NONE :: u32 where "TPM_ORDINAL_NONE \<equiv> 0"
abbreviation TPM_CC_SET_LOCALITY :: u32 where "TPM_CC_SET_LOCALITY \<equiv> 0x20001000"
abbreviation TPM2_CC_SET_LOCALITY :: u32 where "TPM2_CC_SET_LOCALITY \<equiv> 0x20001000"
abbreviation TPM2_ST_NO_SESSION :: u16 where "TPM2_ST_NO_SESSION \<equiv> 0x8001"
abbreviation TPM2_ST_SESSIONS :: u16 where "TPM2_ST_SESSIONS \<equiv> 0x8002"
abbreviation TPM_TAG_RQU_COMMAND :: u16 where "TPM_TAG_RQU_COMMAND \<equiv> 0x00C1"
abbreviation TPM2_SEND_COMMAND :: u32 where "TPM2_SEND_COMMAND \<equiv> 8"
abbreviation TPM_ST_CLEAR :: u16 where "TPM_ST_CLEAR \<equiv> 1"
abbreviation TPM_ST_STATE :: u16 where "TPM_ST_STATE \<equiv> 2"
abbreviation TPM_ST_DEACTIVATED :: u16 where "TPM_ST_DEACTIVATED \<equiv> 3"
abbreviation TPM2_SU_CLEAR :: u16 where "TPM2_SU_CLEAR \<equiv> 0"
abbreviation TPM2_SU_STATE :: u16 where "TPM2_SU_STATE \<equiv> 1"
abbreviation LOCALITY_FLAG_REJECT_LOCALITY_4 :: u32 where "LOCALITY_FLAG_REJECT_LOCALITY_4 \<equiv> 1"
abbreviation LOCALITY_FLAG_ALLOW_SETLOCALITY :: u32 where "LOCALITY_FLAG_ALLOW_SETLOCALITY \<equiv> 2"
abbreviation PTM_INIT_FLAG_DELETE_VOLATILE :: u32 where "PTM_INIT_FLAG_DELETE_VOLATILE \<equiv> 1"
abbreviation sizeof_tpm_req_header :: nat where "sizeof_tpm_req_header \<equiv> 10"

subsection \<open>Command headers\<close>

text \<open>\<open>struct tpm_req_header\<close>: tag at 0, size at 2, ordinal at 6, big-endian.\<close>

definition tpmlib_get_cmd_ordinal :: "bytes \<Rightarrow> u32" where
  "tpmlib_get_cmd_ordinal request =
     (if length request < sizeof_tpm_req_header then TPM_ORDINAL_NONE
      else be32toh (mem_read request 6 4))"

definition tpmlib_is_request_cancelable :: "TPMLIB_TPMVersion \<Rightarrow> bytes \<Rightarrow> bool" where
  "tpmlib_is_request_cancelable tpmversion request =
     (let ordinal = tpmlib_get_cmd_ordinal request in
      if ordinal = TPM_ORDINAL_NONE then False
      else if tpmversion = TPMLIB_TPM_VERSION_2
      then ordinal = TPMLIB_TPM2_CC_CreatePrimary \<or> ordinal = TPMLIB_TPM2_CC_Create
      else ordinal = TPMLIB_TPM_ORD_TakeOwnership \<or> ordinal = TPMLIB_TPM_ORD_CreateWrapKey)"

text \<open>
  The offset behind a \<open>tpm2_send_command_prefix\<close> (command at 0, locality at 4, size at 5; 9
  bytes), or 0, with the locality, which the prefix replaces.
\<close>

definition tpmlib_handle_tcg_tpm2_cmd_header :: "bytes \<Rightarrow> byte \<Rightarrow> nat \<times> byte" where
  "tpmlib_handle_tcg_tpm2_cmd_header command locality =
     (if length command < sizeof_tpm_req_header \<or>
         be16toh (mem_read command 0 2) = TPM2_ST_NO_SESSION \<or>
         be16toh (mem_read command 0 2) = TPM2_ST_SESSIONS \<or>
         length command < 9
      then (0, locality)
      else if be32toh (mem_read command 0 4) = TPM2_SEND_COMMAND
      then (9, command ! 4)
      else (0, locality))"

text \<open>Tag, ordinal and startup type of the Startup command; \<open>None\<close> for a type a TPM 2 has not.\<close>

definition startup_fields :: "u16 \<Rightarrow> TPMLIB_TPMVersion \<Rightarrow> (u16 \<times> u32 \<times> u16) option" where
  "startup_fields st version =
     (case version of
        TPMLIB_TPM_VERSION_1_2 \<Rightarrow> Some (TPM_TAG_RQU_COMMAND, TPMLIB_TPM_ORD_Startup, st)
      | TPMLIB_TPM_VERSION_2 \<Rightarrow>
          if st = TPM_ST_CLEAR then Some (TPM2_ST_NO_SESSION, TPMLIB_TPM2_CC_Startup, TPM2_SU_CLEAR)
          else if st = TPM_ST_STATE
          then Some (TPM2_ST_NO_SESSION, TPMLIB_TPM2_CC_Startup, TPM2_SU_STATE)
          else None)"

definition tpmlib_create_startup_cmd :: "u16 \<Rightarrow> TPMLIB_TPMVersion \<Rightarrow> bytes \<Rightarrow> bytes \<times> nat" where
  "tpmlib_create_startup_cmd startupType tpmversion buffer =
     (case startup_fields startupType tpmversion of
        None \<Rightarrow> (buffer, 0)
      | Some (tag, ordinal, st) \<Rightarrow>
          let ts = htobe16 tag @ htobe32 12 @ htobe32 ordinal @ htobe16 st;
              tocopy = min (length ts) (length buffer)
          in (mem_write buffer 0 (take tocopy ts), tocopy))"

subsection \<open>Responses\<close>

text \<open>The response buffer: \<open>*rbuffer\<close> (of \<open>*rTotal\<close> bytes) and \<open>*rlength\<close>.\<close>

record response =
  rbuffer :: "bytes option"
  rlength :: u32
  rTotal :: u32

definition tpmlib_write_error_response ::
  "(nat \<Rightarrow> bool) \<Rightarrow> response \<Rightarrow> TPM_RESULT \<Rightarrow> TPMLIB_TPMVersion \<Rightarrow> response"
where
  "tpmlib_write_error_response malloc r errcode tpmversion =
     (let errresp = htobe16 (if tpmversion = TPMLIB_TPM_VERSION_2 then 0x8001 else 0xc4) @
                    htobe32 10 @ htobe32 errcode
      in case rbuffer r of
           Some b \<Rightarrow>
             if rTotal r < 10
             then (if malloc 10 then \<lparr>rbuffer = Some errresp, rlength = 10, rTotal = 10\<rparr>
                   else r\<lparr>rbuffer := None, rTotal := 0\<rparr>)
             else r\<lparr>rbuffer := Some (mem_write b 0 errresp), rlength := 10\<rparr>
         | None \<Rightarrow>
             if malloc 10 then \<lparr>rbuffer = Some errresp, rlength = 10, rTotal = 10\<rparr>
             else r\<lparr>rbuffer := None, rTotal := 0\<rparr>)"

definition tpmlib_write_fatal_error_response ::
  "(nat \<Rightarrow> bool) \<Rightarrow> response \<Rightarrow> TPMLIB_TPMVersion \<Rightarrow> response"
where
  "tpmlib_write_fatal_error_response malloc r tpmversion =
     tpmlib_write_error_response malloc r
       (if tpmversion = TPMLIB_TPM_VERSION_2 then TPM_RC_FAILURE else TPM_FAIL) tpmversion"

definition tpmlib_write_locality_error_response ::
  "(nat \<Rightarrow> bool) \<Rightarrow> response \<Rightarrow> TPMLIB_TPMVersion \<Rightarrow> response"
where
  "tpmlib_write_locality_error_response malloc r tpmversion =
     tpmlib_write_error_response malloc r
       (if tpmversion = TPMLIB_TPM_VERSION_2 then TPM_RC_LOCALITY else TPM_BAD_LOCALITY) tpmversion"

definition tpmlib_write_success_response ::
  "(nat \<Rightarrow> bool) \<Rightarrow> response \<Rightarrow> TPMLIB_TPMVersion \<Rightarrow> response"
where
  "tpmlib_write_success_response malloc r tpmversion =
     tpmlib_write_error_response malloc r 0 tpmversion"

definition tpmlib_write_shortmsg_error_response ::
  "(nat \<Rightarrow> bool) \<Rightarrow> response \<Rightarrow> TPMLIB_TPMVersion \<Rightarrow> response"
where
  "tpmlib_write_shortmsg_error_response malloc r tpmversion =
     tpmlib_write_error_response malloc r
       (if tpmversion = TPMLIB_TPM_VERSION_2 then TPM_RC_INSUFFICIENT else TPM_BAD_PARAM_SIZE)
       tpmversion"

definition tpmlib_process_setlocality ::
  "(nat \<Rightarrow> bool) \<Rightarrow> response \<Rightarrow> bytes \<Rightarrow> TPMLIB_TPMVersion \<Rightarrow> u32 \<Rightarrow> byte
     \<Rightarrow> TPM_RESULT \<times> response \<times> byte"
where
  "tpmlib_process_setlocality malloc r command tpmversion locality_flags locality =
     (if length command \<ge> sizeof_tpm_req_header + 1 then
        (if locality_flags AND LOCALITY_FLAG_ALLOW_SETLOCALITY = 0
         then (TPM_SUCCESS, tpmlib_write_fatal_error_response malloc r tpmversion, locality)
         else
           let new_locality = command ! sizeof_tpm_req_header in
           if new_locality \<ge> 5 \<or>
              (new_locality = 4 \<and> locality_flags AND LOCALITY_FLAG_REJECT_LOCALITY_4 \<noteq> 0)
           then (TPM_SUCCESS, tpmlib_write_locality_error_response malloc r tpmversion, locality)
           else (TPM_SUCCESS, tpmlib_write_success_response malloc r tpmversion, new_locality))
      else (TPM_SUCCESS, tpmlib_write_shortmsg_error_response malloc r tpmversion, locality))"

definition tpmlib_process ::
  "(nat \<Rightarrow> bool) \<Rightarrow> response \<Rightarrow> bytes \<Rightarrow> u32 \<Rightarrow> byte \<Rightarrow> TPMLIB_TPMVersion
     \<Rightarrow> TPM_RESULT \<times> response \<times> byte"
where
  "tpmlib_process malloc r command locality_flags locality tpmversion =
     (if length command < sizeof_tpm_req_header
      then (TPM_SUCCESS, tpmlib_write_shortmsg_error_response malloc r tpmversion, locality)
      else
        let ordinal = be32toh (mem_read command 6 4) in
        case tpmversion of
          TPMLIB_TPM_VERSION_1_2 \<Rightarrow>
            if ordinal = TPM_CC_SET_LOCALITY
            then tpmlib_process_setlocality malloc r command tpmversion locality_flags locality
            else (TPM_SUCCESS, r, locality)
        | TPMLIB_TPM_VERSION_2 \<Rightarrow>
            if ordinal = TPM2_CC_SET_LOCALITY
            then tpmlib_process_setlocality malloc r command tpmversion locality_flags locality
            else (TPM_SUCCESS, r, locality))"

subsection \<open>libtpms\<close>

record ('t, 's) world =
  w_lib :: 't
  w_nv :: "'s nvstate"

text \<open>
  \<open>lt_Process\<close> gives the return code and the response; \<open>lt_MainInit\<close> and \<open>lt_Process\<close> may
  load and store state through the callbacks of swtpm.
\<close>

record ('t, 's) libtpms = "'t tpmlib" +
  lt_ChooseTPMVersion :: "'t \<Rightarrow> TPMLIB_TPMVersion \<Rightarrow> TPM_RESULT \<times> 't"
  lt_SetProfile :: "'t \<Rightarrow> string \<Rightarrow> TPM_RESULT \<times> 't"
  lt_MainInit :: "('t, 's) world \<Rightarrow> TPM_RESULT \<times> ('t, 's) world"
  lt_Terminate :: "'t \<Rightarrow> 't"
  lt_WasManufactured :: "'t \<Rightarrow> bool"
  lt_Process :: "('t, 's) world \<Rightarrow> bytes \<Rightarrow> (TPM_RESULT \<times> bytes) \<times> ('t, 's) world"

subsection \<open>Shutdown\<close>

definition tpm2_shutdown :: "u16 \<Rightarrow> bytes" where
  "tpm2_shutdown shutdownType =
     htobe16 TPM2_ST_NO_SESSION @ htobe32 12 @ htobe32 TPMLIB_TPM2_CC_Shutdown @ htobe16 shutdownType"

text \<open>
  The loop over the shutdown types; the result is the world, \<open>*lastCommand\<close> and the
  commands that were sent. (The packet capture has no influence.)
\<close>

fun shutdown_loop ::
  "('t, 's) libtpms \<Rightarrow> u16 list \<Rightarrow> ('t, 's) world \<Rightarrow> u32 \<Rightarrow> ('t, 's) world \<times> u32 \<times> bytes list"
where
  "shutdown_loop lib [] w lastCommand = (w, lastCommand, [])"
| "shutdown_loop lib (st # sts) w lastCommand =
     (case lt_Process lib w (tpm2_shutdown st) of ((res, rsp), w1) \<Rightarrow>
        let more = (case shutdown_loop lib sts w1 lastCommand of
                      (w2, lc, sent) \<Rightarrow> (w2, lc, tpm2_shutdown st # sent))
        in if res \<noteq> 0 \<or> length rsp < 10 then more
           else
             let errcode = be32toh (mem_read rsp 6 4) in
             if errcode = TPM_SUCCESS then (w1, TPMLIB_TPM2_CC_Shutdown, [tpm2_shutdown st])
             else if errcode = TPM_RC_INITIALIZE then (w1, lastCommand, [tpm2_shutdown st])
             else more)"

definition tpmlib_maybe_send_tpm2_shutdown ::
  "('t, 's) libtpms \<Rightarrow> TPMLIB_TPMVersion \<Rightarrow> ('t, 's) world \<Rightarrow> u32
     \<Rightarrow> ('t, 's) world \<times> u32 \<times> bytes list"
where
  "tpmlib_maybe_send_tpm2_shutdown lib tpmversion w lastCommand =
     (if tpmversion \<noteq> TPMLIB_TPM_VERSION_2 \<or> lastCommand = TPMLIB_TPM2_CC_Shutdown
      then (w, lastCommand, [])
      else shutdown_loop lib [TPM2_SU_STATE, TPM2_SU_CLEAR] w lastCommand)"

subsection \<open>OpenSSL configuration\<close>

text \<open>
  What the crypto library and the environment answer: FIPS mode, the lists of enabled
  algorithms and attributes of the chosen profile (\<open>None\<close> when the JSON lookup fails), and
  the probes of \<open>check_ossl_algorithms_are_disabled\<close>, which depend on FIPS mode and on
  \<open>OPENSSL_ENABLE_SHA1_SIGNATURES\<close>.
\<close>

record ossl_env =
  fips_mode_enabled :: bool
  fips_mode_disable_fails :: bool
  enabled_algorithms :: "string option"
  enabled_attributes :: "string option"
  ossl_probe :: "bool \<Rightarrow> bool \<Rightarrow> string list \<Rightarrow> u32 \<Rightarrow> bool \<Rightarrow> u32"
  setenv_fails :: bool
  sha1_env_set :: bool

abbreviation DISABLED_BY_FIPS :: u32 where "DISABLED_BY_FIPS \<equiv> 1"
abbreviation DISABLED_SHA1_SIGNATURES :: u32 where "DISABLED_SHA1_SIGNATURES \<equiv> 2"
abbreviation DISABLED_BY_CONFIG :: u32 where "DISABLED_BY_CONFIG \<equiv> 4"
abbreviation FIX_DISABLE_FIPS :: u32 where "FIX_DISABLE_FIPS \<equiv> 1"
abbreviation FIX_ENABLE_SHA1_SIGNATURES :: u32 where "FIX_ENABLE_SHA1_SIGNATURES \<equiv> 2"

text \<open>\<open>g_strsplit(s, ",", -1)\<close>; the empty string has no parts.\<close>

fun split_comma :: "string \<Rightarrow> string \<Rightarrow> string list" where
  "split_comma acc [] = [rev acc]"
| "split_comma acc (c # cs) =
     (if c = CHR '','' then rev acc # split_comma [] cs else split_comma (c # acc) cs)"

definition g_strsplit_comma :: "string \<Rightarrow> string list" where
  "g_strsplit_comma s = (if s = '''' then [] else split_comma '''' s)"

definition strv_contains_all :: "string list \<Rightarrow> string list \<Rightarrow> bool" where
  "strv_contains_all haystack needles = list_all (\<lambda>n. n \<in> set haystack) needles"

text \<open>\<open>None\<close> is the return value -1, else the flags.\<close>

definition tpmlib_check_disabled_algorithms :: "ossl_env \<Rightarrow> u32 \<Rightarrow> bool \<Rightarrow> u32 option" where
  "tpmlib_check_disabled_algorithms env disabled_filter stop_on_first_disabled =
     (case enabled_algorithms env of
        None \<Rightarrow> None
      | Some enabled \<Rightarrow>
          Some (ossl_probe env (fips_mode_enabled env) (sha1_env_set env)
                  (g_strsplit_comma enabled) disabled_filter stop_on_first_disabled))"

definition tpmlib_check_attributes_disable_sha1_signatures :: "ossl_env \<Rightarrow> bool" where
  "tpmlib_check_attributes_disable_sha1_signatures env =
     (case enabled_attributes env of
        None \<Rightarrow> False
      | Some enabled \<Rightarrow>
          let attributes = g_strsplit_comma enabled in
          strv_contains_all attributes [''fips-host''] \<or>
          strv_contains_all attributes [''no-sha1-signing'', ''no-sha1-verification''])"

definition tpmlib_check_need_disable_fips_mode :: "ossl_env \<Rightarrow> u32 option" where
  "tpmlib_check_need_disable_fips_mode env =
     tpmlib_check_disabled_algorithms env DISABLED_BY_FIPS True"

definition tpmlib_check_need_enable_sha1_signatures :: "ossl_env \<Rightarrow> u32 option" where
  "tpmlib_check_need_enable_sha1_signatures env =
     (if tpmlib_check_attributes_disable_sha1_signatures env then Some 0
      else tpmlib_check_disabled_algorithms env DISABLED_SHA1_SIGNATURES True)"

definition tpmlib_check_need_modify_ossl_config :: "ossl_env \<Rightarrow> bool \<Rightarrow> u32 option" where
  "tpmlib_check_need_modify_ossl_config env check_sha1_signatures =
     tpmlib_check_disabled_algorithms env
       (if check_sha1_signatures then DISABLED_BY_CONFIG OR DISABLED_SHA1_SIGNATURES
        else DISABLED_BY_CONFIG) False"

text \<open>The second part, for a TPM 2; \<open>True\<close> is the return value 0.\<close>

definition configure_sha1_and_config :: "ossl_env \<Rightarrow> bool \<times> ossl_env" where
  "configure_sha1_and_config env =
     (case tpmlib_check_need_enable_sha1_signatures env of
        None \<Rightarrow> (False, env)
      | Some fix_flags \<Rightarrow>
          if fix_flags AND FIX_ENABLE_SHA1_SIGNATURES \<noteq> 0 \<and> setenv_fails env then (False, env)
          else
            let check_sha1 = (fix_flags AND FIX_ENABLE_SHA1_SIGNATURES \<noteq> 0);
                env2 = (if check_sha1 then env\<lparr>sha1_env_set := True\<rparr> else env)
            in case tpmlib_check_need_modify_ossl_config env2 check_sha1 of
                 None \<Rightarrow> (False, env2)
               | Some fix_flags2 \<Rightarrow> (fix_flags2 = 0, env2))"

definition tpmlib_maybe_configure_openssl :: "ossl_env \<Rightarrow> TPMLIB_TPMVersion \<Rightarrow> bool \<times> ossl_env" where
  "tpmlib_maybe_configure_openssl env tpmversion =
     (let fips = (if fips_mode_enabled env
                  then (case tpmversion of
                          TPMLIB_TPM_VERSION_1_2 \<Rightarrow> Some FIX_DISABLE_FIPS
                        | TPMLIB_TPM_VERSION_2 \<Rightarrow> tpmlib_check_need_disable_fips_mode env)
                  else Some 0)
      in case fips of
           None \<Rightarrow> (False, env)
         | Some fix_flags \<Rightarrow>
             if fix_flags AND FIX_DISABLE_FIPS \<noteq> 0 \<and> fips_mode_disable_fails env then (False, env)
             else
               let env1 = (if fix_flags AND FIX_DISABLE_FIPS \<noteq> 0
                           then env\<lparr>fips_mode_enabled := False\<rparr> else env)
               in if tpmversion = TPMLIB_TPM_VERSION_2 then configure_sha1_and_config env1
                  else (True, env1))"

subsection \<open>Start\<close>

definition lib_upd :: "('t, 's) world \<Rightarrow> 't \<Rightarrow> ('t, 's) world" where
  "lib_upd w t = w\<lparr>w_lib := t\<rparr>"

text \<open>
  \<open>TPMLIB_MainInit\<close> with the attempts to use the backup state. \<open>None\<close> is undefined
  behaviour: \<open>g_nvram_backend_ops\<close> is followed while it is NULL.
\<close>

definition restore_backup_state :: "('t, 's) world \<Rightarrow> (TPM_RESULT \<times> ('t, 's) world) option" where
  "restore_backup_state w =
     (case g_nvram_backend_ops (w_nv w) of
        None \<Rightarrow> None
      | Some ops \<Rightarrow> (case SWTPM_NVRAM_RestoreBackup ops (w_nv w) of
                       (res, nv) \<Rightarrow> Some (res, w\<lparr>w_nv := nv\<rparr>)))"

definition main_init_with_backup ::
  "('t, 's) libtpms \<Rightarrow> ('t, 's) world \<Rightarrow> (TPM_RESULT \<times> ('t, 's) world) option"
where
  "main_init_with_backup lib w =
     (case lt_MainInit lib w of (res, w1) \<Rightarrow>
        if res = TPM_SUCCESS then Some (res, w1)
        else if \<not> g_tpmstate_make_backup (nv_tpmstate (w_nv w1)) then Some (res, w1)
        else case restore_backup_state w1 of
          None \<Rightarrow> None
        | Some (res2, w2) \<Rightarrow>
            if res2 \<noteq> TPM_SUCCESS then Some (res2, w2)
            else case lt_MainInit lib w2 of (res3, w3) \<Rightarrow>
              if res3 = TPM_SUCCESS then Some (res3, w3)
              else case restore_backup_state w3 of
                None \<Rightarrow> None
              | Some (res4, w4) \<Rightarrow> Some (res3, w4))"

text \<open>The part that can end at \<open>error_terminate\<close>.\<close>

definition start_after_init ::
  "ossl_env \<Rightarrow> u32 \<Rightarrow> TPMLIB_TPMVersion \<Rightarrow> bool \<Rightarrow> 's nvstate \<Rightarrow> (TPM_RESULT \<times> 's nvstate) option"
where
  "start_after_init env flags tpmversion lock_nvram nv =
     (case (if lock_nvram then SWTPM_NVRAM_Lock_Storage nv 0 else (TPM_SUCCESS, nv)) of (res, nv1) \<Rightarrow>
        if res \<noteq> TPM_SUCCESS then Some (res, nv1)
        else case (if flags AND PTM_INIT_FLAG_DELETE_VOLATILE \<noteq> 0
                   then (case g_nvram_backend_ops nv1 of
                           None \<Rightarrow> None
                         | Some ops \<Rightarrow> Some (SWTPM_NVRAM_DeleteName ops nv1 0 TPM_VOLATILESTATE_NAME False))
                   else Some (TPM_SUCCESS, nv1)) of
          None \<Rightarrow> None
        | Some (res2, nv2) \<Rightarrow>
            if res2 \<noteq> TPM_SUCCESS then Some (res2, nv2)
            else Some (if fst (tpmlib_maybe_configure_openssl env tpmversion) then TPM_SUCCESS
                       else TPM_FAIL, nv2))"

definition tpmlib_start ::
  "('t, 's) libtpms \<Rightarrow> ossl_env \<Rightarrow> ('t, 's) world \<Rightarrow> u32 \<Rightarrow> TPMLIB_TPMVersion \<Rightarrow> bool
     \<Rightarrow> string option \<Rightarrow> (TPM_RESULT \<times> ('t, 's) world) option"
where
  "tpmlib_start lib env w flags tpmversion lock_nvram json_profile =
     (let profile = (if tpmversion = TPMLIB_TPM_VERSION_2 then json_profile else None) in
      case lt_ChooseTPMVersion lib (w_lib w) tpmversion of (res, t1) \<Rightarrow>
        if res \<noteq> TPM_SUCCESS then Some (res, lib_upd w t1)
        else case (case profile of Some p \<Rightarrow> lt_SetProfile lib t1 p
                   | None \<Rightarrow> (TPM_SUCCESS, t1)) of (res2, t2) \<Rightarrow>
          if res2 \<noteq> TPM_SUCCESS then Some (res2, lib_upd w t2)
          else case main_init_with_backup lib (lib_upd w t2) of
            None \<Rightarrow> None
          | Some (res3, w3) \<Rightarrow>
              if res3 \<noteq> TPM_SUCCESS then Some (res3, w3)
              else if profile \<noteq> None \<and> \<not> lt_WasManufactured lib (w_lib w3) then Some (TPM_FAIL, w3)
              else case start_after_init env flags tpmversion lock_nvram (w_nv w3) of
                None \<Rightarrow> None
              | Some (res4, nv4) \<Rightarrow>
                  if res4 = TPM_SUCCESS then Some (TPM_SUCCESS, w3\<lparr>w_nv := nv4\<rparr>)
                  else Some (res4, w3\<lparr>w_nv := nv4, w_lib := lt_Terminate lib (w_lib w3)\<rparr>))"

subsection \<open>Properties\<close>

lemma length_htobe [simp]: "length (htobe16 a) = 2" "length (htobe32 b) = 4" "length (htobe64 c) = 8"
  by (simp_all add: endian_defs)

text \<open>
  A response written by swtpm itself is a complete TPM header: given memory, the first ten
  bytes of the buffer are the tag of the TPM's version, the size 10 and the code, the length is
  10, and a buffer that is large enough is reused.
\<close>

theorem error_response_header:
  assumes "malloc 10" "\<forall>b. rbuffer r = Some b \<longrightarrow> length b = unat (rTotal r)"
  shows "\<exists>b. rbuffer (tpmlib_write_error_response malloc r code v) = Some b \<and>
    rlength (tpmlib_write_error_response malloc r code v) = 10 \<and>
    length b = unat (rTotal (tpmlib_write_error_response malloc r code v)) \<and> 10 \<le> length b \<and>
    be16toh (mem_read b 0 2) = (if v = TPMLIB_TPM_VERSION_2 then 0x8001 else 0xc4) \<and>
    be32toh (mem_read b 2 4) = 10 \<and> be32toh (mem_read b 6 4) = code"
proof -
  let ?e = "htobe16 (if v = TPMLIB_TPM_VERSION_2 then 0x8001 else 0xc4) @ htobe32 10 @ htobe32 code"
  have l: "length ?e = 10" by simp
  have e: "mem_read ?e 0 2 = htobe16 (if v = TPMLIB_TPM_VERSION_2 then 0x8001 else 0xc4)"
    "mem_read ?e 2 4 = htobe32 10" "mem_read ?e 6 4 = htobe32 code"
    by (simp_all add: mem_read_def)
  have w: "mem_read (mem_write b 0 ?e) i n = mem_read ?e i n" if "i + n \<le> 10" for b i n
    using that l by (simp add: mem_read_def mem_write_def drop_append)
  have f: "be16toh (mem_read (mem_write b 0 ?e) 0 2) = (if v = TPMLIB_TPM_VERSION_2 then 0x8001 else 0xc4)"
    "be32toh (mem_read (mem_write b 0 ?e) 2 4) = 10" "be32toh (mem_read (mem_write b 0 ?e) 6 4) = code" for b
    using w [of 0 2 b] w [of 2 4 b] w [of 6 4 b] e by (simp_all only: endian_roundtrip0)
  have g: "be16toh (mem_read ?e 0 2) = (if v = TPMLIB_TPM_VERSION_2 then 0x8001 else 0xc4)"
    "be32toh (mem_read ?e 2 4) = 10" "be32toh (mem_read ?e 6 4) = code"
    unfolding e by (simp_all only: endian_roundtrip0)
  show ?thesis
  proof (cases "\<exists>b. rbuffer r = Some b \<and> 10 \<le> unat (rTotal r)")
    case True
    then obtain b where b: "rbuffer r = Some b" "10 \<le> unat (rTotal r)" by blast
    then have lb: "length b = unat (rTotal r)" using assms(2) by simp
    have "tpmlib_write_error_response malloc r code v = r\<lparr>rbuffer := Some (mem_write b 0 ?e), rlength := 10\<rparr>"
      using b by (simp add: tpmlib_write_error_response_def Let_def word_less_nat_alt)
    moreover have "length (mem_write b 0 ?e) = length b" using b(2) lb l by (intro length_mem_write) simp
    ultimately show ?thesis using b(2) lb f [of b] by (intro exI [of _ "mem_write b 0 ?e"]) (simp del: mem_read_0)
  next
    case False
    then have "tpmlib_write_error_response malloc r code v = \<lparr>rbuffer = Some ?e, rlength = 10, rTotal = 10\<rparr>"
      using assms(1) by (auto simp: tpmlib_write_error_response_def Let_def word_less_nat_alt split: option.split)
    then show ?thesis using g l by (intro exI [of _ ?e]) (simp del: mem_read_0)
  qed
qed

theorem error_response_header_witness:
  "let r = tpmlib_write_error_response (\<lambda>n. True) \<lparr>rbuffer = Some [1, 2], rlength = 2, rTotal = 2\<rparr>
             TPM_FAIL TPMLIB_TPM_VERSION_1_2
   in \<exists>b. rbuffer r = Some b \<and> rlength r = 10 \<and> be32toh (mem_read b 6 4) = TPM_FAIL"
  using error_response_header [of "\<lambda>n. True" "\<lparr>rbuffer = Some [1, 2], rlength = 2, rTotal = 2\<rparr>" TPM_FAIL
      TPMLIB_TPM_VERSION_1_2]
  unfolding Let_def by fastforce

definition locality_ok :: "u32 \<Rightarrow> byte \<Rightarrow> bool" where
  "locality_ok flags loc \<longleftrightarrow> loc < 5 \<and> (loc = 4 \<longrightarrow> flags AND LOCALITY_FLAG_REJECT_LOCALITY_4 = 0)"

text \<open>
  The SetLocality command of the vTPM proxy changes the locality only when it is allowed,
  only to a locality below 5, and never to 4 when locality 4 is rejected; in all other cases the
  locality is what it was and the response is not a success.
\<close>

theorem setlocality_guarded:
  assumes "tpmlib_process_setlocality malloc r command v flags loc = (res, r', loc')"
  shows "loc' = loc \<or>
    (flags AND LOCALITY_FLAG_ALLOW_SETLOCALITY \<noteq> 0 \<and> locality_ok flags loc' \<and> 11 \<le> length command \<and>
     loc' = command ! 10 \<and> r' = tpmlib_write_success_response malloc r v)"
  using assms
  by (auto simp: tpmlib_process_setlocality_def Let_def locality_ok_def not_le split: if_splits)

theorem setlocality_guarded_witness:
  "let command = htobe16 0xc1 @ htobe32 11 @ htobe32 TPM_CC_SET_LOCALITY @ [3];
       x = tpmlib_process_setlocality (\<lambda>n. True) \<lparr>rbuffer = None, rlength = 0, rTotal = 0\<rparr> command
             TPMLIB_TPM_VERSION_1_2 3 0
   in snd (snd x) = 3 \<and> locality_ok 3 (snd (snd x))"
proof -
  let ?c = "htobe16 0xc1 @ htobe32 11 @ htobe32 TPM_CC_SET_LOCALITY @ [3]"
  let ?x = "tpmlib_process_setlocality (\<lambda>n. True) \<lparr>rbuffer = None, rlength = 0, rTotal = 0\<rparr> ?c
             TPMLIB_TPM_VERSION_1_2 3 0"
  have three: "snd (snd ?x) = 3"
    by (simp add: tpmlib_process_setlocality_def Let_def nth_append)
  obtain a b where "?x = (a, b, snd (snd ?x))" by (metis prod.collapse)
  from setlocality_guarded [OF this] three show ?thesis by (auto simp: Let_def)
qed

text \<open>
  The Startup command made for the TPM is a well-formed request: with room for its twelve
  bytes it carries its own size and the Startup ordinal, and in no case are more bytes written
  than the buffer has.
\<close>

theorem startup_cmd_wellformed:
  assumes "tpmlib_create_startup_cmd st v buffer = (buffer', n)"
  shows "length buffer' = length buffer \<and> n \<le> length buffer \<and>
    (n \<noteq> 0 \<and> 12 \<le> length buffer \<longrightarrow> n = 12 \<and>
       be32toh (mem_read buffer' 2 4) = 12 \<and>
       tpmlib_get_cmd_ordinal (take n buffer') =
         (if v = TPMLIB_TPM_VERSION_2 then TPMLIB_TPM2_CC_Startup else TPMLIB_TPM_ORD_Startup))"
proof -
  have gen: "length (mem_write buffer 0 (take k ts)) = length buffer" "k \<le> length buffer"
    if "k = min (length ts) (length buffer)" for k and ts :: bytes
    using that by simp_all
  have full: "mem_read (mem_write buffer 0 ts) 2 4 = mem_read ts 2 4"
    "mem_read (mem_write buffer 0 ts) 6 4 = mem_read ts 6 4"
    "take 12 (mem_write buffer 0 ts) = ts" if "length ts = 12" for ts
    using that by (simp_all add: mem_read_def mem_write_def drop_append)
  show ?thesis
  proof (cases "startup_fields st v")
    case None
    then show ?thesis using assms by (simp add: tpmlib_create_startup_cmd_def)
  next
    case (Some x)
    obtain tag ord su where x: "x = (tag, ord, su)" by (cases x)
    let ?ts = "htobe16 tag @ htobe32 12 @ htobe32 ord @ htobe16 su"
    let ?k = "min (length ?ts) (length buffer)"
    have lt: "length ?ts = 12" by simp
    have o: "ord = (if v = TPMLIB_TPM_VERSION_2 then TPMLIB_TPM2_CC_Startup else TPMLIB_TPM_ORD_Startup)"
      using Some x by (auto simp: startup_fields_def split: TPMLIB_TPMVersion.splits if_splits)
    have eq: "buffer' = mem_write buffer 0 (take ?k ?ts)" "n = ?k"
      using assms Some x by (auto simp: tpmlib_create_startup_cmd_def Let_def)
    have "mem_read ?ts 2 4 = htobe32 12" "mem_read ?ts 6 4 = htobe32 ord" by (simp_all add: mem_read_def)
    then show ?thesis
      using gen [OF refl, of ?ts] full [OF lt] o lt unfolding eq
      by (auto simp: tpmlib_get_cmd_ordinal_def)
  qed
qed

theorem startup_cmd_wellformed_witness:
  "let x = tpmlib_create_startup_cmd TPM_ST_CLEAR TPMLIB_TPM_VERSION_2 (replicate 20 0) in
   snd x = 12 \<and> tpmlib_get_cmd_ordinal (take 12 (fst x)) = TPMLIB_TPM2_CC_Startup"
proof -
  have n: "snd (tpmlib_create_startup_cmd TPM_ST_CLEAR TPMLIB_TPM_VERSION_2 (replicate 20 0)) = 12"
    by (simp add: tpmlib_create_startup_cmd_def startup_fields_def Let_def)
  show ?thesis
    using startup_cmd_wellformed [OF prod.collapse [symmetric], of TPM_ST_CLEAR TPMLIB_TPM_VERSION_2
        "replicate 20 0"] n by (simp add: Let_def)
qed

end
