(* ===== verification/CtrlChannel.thy ===== *)
theory CtrlChannel
  imports TpmLib
begin

section \<open>The control channel (src/src/swtpm/ctrlchannel.c, parts of mainloop.c)\<close>

text \<open>
  Requests on the control socket: a command word and a body, big-endian. The state is what
  \<open>ctrlchannel_process_fd\<close> reads and changes: the main loop's parameters, the locality,
  whether the TPM runs, and the world of \<^verbatim>\<open>TpmLib\<close>. The socket is the list of what the coming
  reads return (\<open>c_reads\<close>: \<open>None\<close> an error, an empty chunk the end of the connection; after the last one
  the client stalls: the socket is blocking and has no timeout, so a further read never returns), what was sent
  (\<open>c_sent\<close>), which of the coming writes fail (\<open>c_wfails\<close>), and whether it is still open.

  A result \<open>None\<close> means that the function does not return: a read blocks for ever, or the behaviour of the C program is
  undefined as a NULL pointer is followed (\<open>g_nvram_backend_ops\<close> not set, or a backend that returned no data).
\<close>

subsection \<open>State\<close>

record mainLoopParams =
  ml_flags :: u32
  ml_fd :: int
  locality_flags :: u32
  tpmversion :: TPMLIB_TPMVersion
  startupType :: u16
  lastCommand :: u32
  disable_auto_shutdown :: bool
  incoming_migration :: bool
  storage_locked :: bool
  release_lock_outgoing :: bool
  locking_retries :: u32
  json_profile :: "string option"

text \<open>The further functions of libtpms; the established bit's reset sees the locality.\<close>

record ('t, 's) libtpms_io = "('t, 's) libtpms" +
  TPM_IO_TpmEstablished_Get :: "'t \<Rightarrow> TPM_RESULT \<times> bool"
  TPM_IO_TpmEstablished_Reset :: "byte \<Rightarrow> 't \<Rightarrow> TPM_RESULT \<times> 't"
  TPM_IO_Hash_Start :: "byte \<Rightarrow> 't \<Rightarrow> TPM_RESULT \<times> 't"
  TPM_IO_Hash_Data :: "'t \<Rightarrow> bytes \<Rightarrow> TPM_RESULT \<times> 't"
  TPM_IO_Hash_End :: "'t \<Rightarrow> TPM_RESULT \<times> 't"
  TPMLIB_CancelCommand :: "'t \<Rightarrow> TPM_RESULT \<times> 't"
  TPMLIB_SetBufferSize :: "'t \<Rightarrow> u32 \<Rightarrow> (u32 \<times> u32 \<times> u32) \<times> 't"
  TPMLIB_GetInfo :: "'t \<Rightarrow> u64 \<Rightarrow> bytes option"

text \<open>What the control channel calls: crypto, libtpms, the two backends, OpenSSL's settings.\<close>

record ('t, 's) deps =
  d_crypto :: crypto
  d_lib :: "('t, 's) libtpms_io"
  d_dir_ops :: "'s nvram_backend_ops"
  d_linear_ops :: "'s nvram_backend_ops"
  d_ossl :: ossl_env

record ('t, 's) ctrl =
  c_world :: "('t, 's) world"
  c_mlp :: mainLoopParams
  c_locality :: byte
  c_running :: bool
  c_terminate :: bool
  c_reads :: "bytes option list"
  c_sent :: "bytes list"
  c_wfails :: "bool list"
  c_open :: bool

definition base_lib :: "('t, 's) deps \<Rightarrow> ('t, 's) libtpms" where
  "base_lib d = libtpms.truncate (d_lib d)"

definition nv_lib :: "('t, 's) deps \<Rightarrow> 't tpmlib" where
  "nv_lib d = tpmlib.truncate (d_lib d)"

subsection \<open>Storage lock (mainloop.c)\<close>

definition mainloop_ensure_locked_storage :: "('t, 's) ctrl \<Rightarrow> bool \<times> ('t, 's) ctrl" where
  "mainloop_ensure_locked_storage c =
     (let mlp = c_mlp c in
      if storage_locked mlp then (True, c)
      else case SWTPM_NVRAM_Lock_Storage (w_nv (c_world c)) (unat (locking_retries mlp)) of
        (res, nv) \<Rightarrow>
          let c1 = c\<lparr>c_world := (c_world c)\<lparr>w_nv := nv\<rparr>\<rparr> in
          if res = TPM_RETRY then (True, c1)
          else if res \<noteq> TPM_SUCCESS then (False, c1)
          else (True, c1\<lparr>c_mlp := mlp\<lparr>locking_retries := 0, storage_locked := True,
                                     incoming_migration := False\<rparr>\<rparr>))"

definition mainloop_unlock_nvram ::
  "'s nvram_backend_ops \<Rightarrow> ('t, 's) ctrl \<Rightarrow> u32 \<Rightarrow> ('t, 's) ctrl"
where
  "mainloop_unlock_nvram ops c retries =
     c\<lparr>c_world := (c_world c)\<lparr>w_nv := SWTPM_NVRAM_Unlock ops (w_nv (c_world c))\<rparr>,
       c_mlp := (c_mlp c)\<lparr>storage_locked := False, locking_retries := retries\<rparr>\<rparr>"

abbreviation DEFAULT_LOCKING_RETRIES :: u32 where "DEFAULT_LOCKING_RETRIES \<equiv> 300"

subsection \<open>Receiving a request\<close>

abbreviation CMD_GET_CAPABILITY :: u32 where "CMD_GET_CAPABILITY \<equiv> 1"
abbreviation CMD_INIT :: u32 where "CMD_INIT \<equiv> 2"
abbreviation CMD_SHUTDOWN :: u32 where "CMD_SHUTDOWN \<equiv> 3"
abbreviation CMD_GET_TPMESTABLISHED :: u32 where "CMD_GET_TPMESTABLISHED \<equiv> 4"
abbreviation CMD_SET_LOCALITY :: u32 where "CMD_SET_LOCALITY \<equiv> 5"
abbreviation CMD_HASH_START :: u32 where "CMD_HASH_START \<equiv> 6"
abbreviation CMD_HASH_DATA :: u32 where "CMD_HASH_DATA \<equiv> 7"
abbreviation CMD_HASH_END :: u32 where "CMD_HASH_END \<equiv> 8"
abbreviation CMD_CANCEL_TPM_CMD :: u32 where "CMD_CANCEL_TPM_CMD \<equiv> 9"
abbreviation CMD_STORE_VOLATILE :: u32 where "CMD_STORE_VOLATILE \<equiv> 10"
abbreviation CMD_RESET_TPMESTABLISHED :: u32 where "CMD_RESET_TPMESTABLISHED \<equiv> 11"
abbreviation CMD_GET_STATEBLOB :: u32 where "CMD_GET_STATEBLOB \<equiv> 12"
abbreviation CMD_SET_STATEBLOB :: u32 where "CMD_SET_STATEBLOB \<equiv> 13"
abbreviation CMD_STOP :: u32 where "CMD_STOP \<equiv> 14"
abbreviation CMD_GET_CONFIG :: u32 where "CMD_GET_CONFIG \<equiv> 15"
abbreviation CMD_SET_DATAFD :: u32 where "CMD_SET_DATAFD \<equiv> 16"
abbreviation CMD_SET_BUFFERSIZE :: u32 where "CMD_SET_BUFFERSIZE \<equiv> 17"
abbreviation CMD_GET_INFO :: u32 where "CMD_GET_INFO \<equiv> 18"
abbreviation CMD_LOCK_STORAGE :: u32 where "CMD_LOCK_STORAGE \<equiv> 19"

text \<open>The size of \<open>struct input\<close>: the command word and a \<open>ptm_hdata\<close>.\<close>

abbreviation sizeof_input :: nat where "sizeof_input \<equiv> 4104"

text \<open>The bytes a request needs, from the bytes received so far (at least four).\<close>

definition recv_needed :: "bytes \<Rightarrow> nat" where
  "recv_needed recvd =
     (let cmd = be32toh (mem_read recvd 0 4) in
      if cmd = CMD_INIT then 4 + 4
      else if cmd = CMD_SET_LOCALITY then 4 + 1
      else if cmd = CMD_HASH_DATA then
        (if length recvd \<ge> 4 + 4 then 4 + 4 + unat (be32toh (mem_read recvd 4 4)) else 4 + 4)
      else if cmd = CMD_RESET_TPMESTABLISHED then 4 + 1
      else if cmd = CMD_GET_STATEBLOB then 4 + 12
      else if cmd = CMD_SET_STATEBLOB then
        (if length recvd \<ge> 4 + 12 then 4 + 12 + unat (be32toh (mem_read recvd 12 4)) else 4 + 12)
      else 4)"

text \<open>
  What happens on the socket while a request is received: a chunk arrives, a read fails, the
  deadline of 500 ms has passed when the loop looks at the clock, or \<open>poll\<close> times out or
  fails. The result is the request, or \<open>None\<close> for a return value of at most 0.
\<close>

datatype recv_event = RChunk bytes | RReadErr | RDeadline | RPollFails

fun ctrlchannel_recv_cmd :: "recv_event list \<Rightarrow> bytes \<Rightarrow> bytes option" where
  "ctrlchannel_recv_cmd [] recvd = None"
| "ctrlchannel_recv_cmd (e # es) recvd =
     (case e of
        RPollFails \<Rightarrow> None
      | RDeadline \<Rightarrow> if recvd = [] then ctrlchannel_recv_cmd es recvd else Some recvd
      | RReadErr \<Rightarrow> if length recvd \<ge> sizeof_input then Some recvd else None
      | RChunk bs \<Rightarrow>
          if length recvd \<ge> sizeof_input then Some recvd
          else if bs = [] then None
          else
            let r = recvd @ take (sizeof_input - length recvd) bs in
            if length r \<ge> 4 \<and> length r \<ge> recv_needed r then Some r
            else ctrlchannel_recv_cmd es r)"

subsection \<open>Sending\<close>

definition send_resp :: "('t, 's) ctrl \<Rightarrow> bytes \<Rightarrow> ('t, 's) ctrl" where
  "send_resp c out =
     (case c_wfails c of
        True # ws \<Rightarrow> c\<lparr>c_wfails := ws, c_open := False\<rparr>
      | False # ws \<Rightarrow> c\<lparr>c_wfails := ws, c_sent := c_sent c @ [out]\<rparr>
      | [] \<Rightarrow> c\<lparr>c_sent := c_sent c @ [out]\<rparr>)"

definition ptm_res :: "TPM_RESULT \<Rightarrow> bytes" where
  "ptm_res res = htobe32 res"

text \<open>
  One \<open>read_eintr\<close> of at most \<open>maxlen\<close> bytes; what does not fit stays in the socket. \<open>None\<close>: it blocks and never returns.
\<close>

definition ctrl_read :: "('t, 's) ctrl \<Rightarrow> nat \<Rightarrow> (bytes option \<times> ('t, 's) ctrl) option" where
  "ctrl_read c maxlen =
     (case c_reads c of
        [] \<Rightarrow> None
      | None # rs \<Rightarrow> Some (None, c\<lparr>c_reads := rs\<rparr>)
      | Some bs # rs \<Rightarrow>
          Some (Some (take maxlen bs),
           c\<lparr>c_reads := (if length bs \<le> maxlen then rs else Some (drop maxlen bs) # rs)\<rparr>))"

subsection \<open>State blobs\<close>

abbreviation PTM_STATE_FLAG_DECRYPTED :: u32 where "PTM_STATE_FLAG_DECRYPTED \<equiv> 1"
abbreviation PTM_STATE_FLAG_ENCRYPTED :: u32 where "PTM_STATE_FLAG_ENCRYPTED \<equiv> 2"

definition nv_upd :: "('t, 's) ctrl \<Rightarrow> 's nvstate \<Rightarrow> ('t, 's) ctrl" where
  "nv_upd c nv = c\<lparr>c_world := (c_world c)\<lparr>w_nv := nv\<rparr>\<rparr>"

definition libst_upd :: "('t, 's) ctrl \<Rightarrow> 't \<Rightarrow> ('t, 's) ctrl" where
  "libst_upd c t = c\<lparr>c_world := (c_world c)\<lparr>w_lib := t\<rparr>\<rparr>"

text \<open>
  The body of \<open>ctrlchannel_return_state\<close> up to the response: result, blob, whether it is
  encrypted.
\<close>

definition fetch_state ::
  "('t, 's) deps \<Rightarrow> ('t, 's) world \<Rightarrow> u32 \<Rightarrow> bool \<Rightarrow> (TPM_RESULT \<times> bytes \<times> bool \<times> 's nvstate) option"
where
  "fetch_state d w blobtype decrypt =
     (case tpmlib_get_blobname blobtype of
        None \<Rightarrow> Some (TPM_FAIL, [], False, w_nv w)
      | Some blobname \<Rightarrow>
      case g_nvram_backend_ops (w_nv w) of
        None \<Rightarrow> None
      | Some ops \<Rightarrow>
          (case (if blobtype = PTM_BLOB_TYPE_VOLATILE
                 then SWTPM_NVRAM_Store_Volatile (d_crypto d) (nv_lib d) (w_lib w) ops (w_nv w)
                 else (TPM_SUCCESS, w_nv w)) of (res, nv1) \<Rightarrow>
           case (if res \<noteq> TPM_SUCCESS then Some (res, [], False, nv1)
                 else case SWTPM_NVRAM_GetStateBlob (d_crypto d) ops nv1 0 blobname decrypt of
                   (None, enc, nv2) \<Rightarrow> None
                 | (Some (Inl res2), enc, nv2) \<Rightarrow> Some (res2, [], enc, nv2)
                 | (Some (Inr blob), enc, nv2) \<Rightarrow> Some (TPM_SUCCESS, blob, enc, nv2)) of
             None \<Rightarrow> None
           | Some (res2, blob, enc, nv2) \<Rightarrow>
               Some (res2, blob, enc,
                 if blobtype = PTM_BLOB_TYPE_VOLATILE
                 then snd (SWTPM_NVRAM_DeleteName ops nv2 0 blobname False) else nv2)))"

definition ctrlchannel_return_state ::
  "('t, 's) deps \<Rightarrow> ('t, 's) ctrl \<Rightarrow> bytes \<Rightarrow> ('t, 's) ctrl option"
where
  "ctrlchannel_return_state d c body =
     (let blobtype = be32toh (mem_read body 4 4);
          decrypt = (be32toh (mem_read body 0 4) AND PTM_STATE_FLAG_DECRYPTED \<noteq> 0);
          offset = unat (be32toh (mem_read body 8 4))
      in case fetch_state d (c_world c) blobtype decrypt of
           None \<Rightarrow> None
         | Some (res, blob, enc, nv) \<Rightarrow>
             let return_length = length blob - offset;
                 hdr = htobe32 res @ htobe32 (if enc then PTM_STATE_FLAG_ENCRYPTED else 0) @
                       htobe32 (of_nat return_length) @ htobe32 (of_nat return_length);
                 c1 = send_resp (nv_upd c nv)
                        (hdr @ (if res = TPM_SUCCESS then drop offset blob else []))
             in if c_open c1 \<and> blobtype = PTM_BLOB_TYPE_SAVESTATE
                then (case g_nvram_backend_ops nv of
                        None \<Rightarrow> None
                      | Some ops \<Rightarrow> Some (mainloop_unlock_nvram ops c1 DEFAULT_LOCKING_RETRIES))
                else Some c1)"

text \<open>
  The loop of \<open>ctrlchannel_receive_state\<close>: the chunk \<open>chunk\<close> is in the buffer, \<open>blob\<close> was
  received before. \<open>Inl (Some res)\<close> ends with an error response, \<open>Inl None\<close> with a broken
  socket. Each round of the loop consumes a read of the socket, so \<open>fuel\<close> can be the number
  of the bytes still missing, plus one: every further chunk has at least one byte. A read that blocks gives \<open>None\<close>.
\<close>

fun receive_blob ::
  "nat \<Rightarrow> ('t, 's) ctrl \<Rightarrow> nat \<Rightarrow> bytes \<Rightarrow> bytes
     \<Rightarrow> ((TPM_RESULT option + bytes) \<times> ('t, 's) ctrl) option"
where
  "receive_blob 0 c blob_length blob chunk = None"
| "receive_blob (Suc fuel) c blob_length blob chunk =
     (if length chunk > blob_length - length blob then Some (Inl (Some TPM_BAD_PARAMETER), c)
      else
        let blob' = blob @ chunk in
        if length blob' = blob_length then Some (Inr blob', c)
        else case ctrl_read c 4088 of
          None \<Rightarrow> None
        | Some (None, c1) \<Rightarrow> Some (Inl None, c1\<lparr>c_open := False\<rparr>)
        | Some (Some [], c1) \<Rightarrow> Some (Inl (Some TPM_BAD_PARAMETER), c1)
        | Some (Some ch, c1) \<Rightarrow> receive_blob fuel c1 blob_length blob' ch)"

definition ctrlchannel_receive_state ::
  "('t, 's) deps \<Rightarrow> ('t, 's) ctrl \<Rightarrow> bytes \<Rightarrow> ('t, 's) ctrl option"
where
  "ctrlchannel_receive_state d c body =
     (let flags = be32toh (mem_read body 0 4);
          blobtype = be32toh (mem_read body 4 4);
          blob_length = unat (be32toh (mem_read body 8 4));
          is_encrypted = (flags AND PTM_STATE_FLAG_ENCRYPTED \<noteq> 0);
          data = drop 12 body;
          set_state = (\<lambda>c blob.
            case SWTPM_NVRAM_SetStateBlob (d_crypto d) (nv_lib d) (w_lib (c_world c))
                   (nv_globals (w_nv (c_world c))) blob is_encrypted blobtype of
              (res, t) \<Rightarrow> send_resp (libst_upd c t) (ptm_res res))
      in if blob_length > 512 * 1024 then Some (send_resp c (ptm_res TPM_FAIL))
         else if blob_length > 0 \<and> \<not> malloc_ok (d_crypto d) blob_length
         then Some (send_resp c (ptm_res TPM_FAIL))
         else if length body < 12 \<or> length data > 4088 \<or> (blob_length = 0 \<and> data \<noteq> [])
         then Some (send_resp c (ptm_res TPM_BAD_PARAMETER))
         else if blob_length = 0 then Some (set_state c [])
         else case receive_blob (Suc blob_length) c blob_length [] data of
           None \<Rightarrow> None
         | Some (Inl None, c1) \<Rightarrow> Some c1
         | Some (Inl (Some res), c1) \<Rightarrow> Some (send_resp c1 (ptm_res res))
         | Some (Inr blob, c1) \<Rightarrow> Some (set_state c1 blob))"

subsection \<open>The commands\<close>

text \<open>
  Each handler gets the state and the body of the request (what follows the command word)
  and returns the response with the state; \<open>err_bad_input\<close> and the other error exits are
  responses too.
\<close>

definition err_bad_input :: bytes where "err_bad_input = ptm_res TPM_BAD_PARAMETER"
definition err_running :: bytes where "err_running = ptm_res TPM_BAD_ORDINAL"
definition err_not_running :: bytes where "err_not_running = ptm_res TPM_BAD_ORDINAL"
definition err_io :: bytes where "err_io = ptm_res TPM_IOERROR"
definition err_memory :: bytes where "err_memory = ptm_res TPM_SIZE"

text \<open>All capabilities but \<open>PTM_CAP_SEND_COMMAND_HEADER\<close>, which only a TPM 2 has.\<close>

definition get_ptm_caps_supported :: "TPMLIB_TPMVersion \<Rightarrow> u32" where
  "get_ptm_caps_supported version =
     (let caps = foldr (OR) (map (\<lambda>i. push_bit i 1) [0, 1, 2, 3, 4, 5, 6, 7, 8, 9, 10, 11, 12, 13, 14, 16]) 0
      in if version = TPMLIB_TPM_VERSION_2 then caps OR push_bit 15 1 else caps)"

definition cmd_get_capability :: "('t, 's) ctrl \<Rightarrow> bytes" where
  "cmd_get_capability c =
     htobe32 TPM_SUCCESS @ htobe32 (get_ptm_caps_supported (tpmversion (c_mlp c)))"

text \<open>What \<open>CMD_INIT\<close>, \<open>CMD_STOP\<close> and \<open>CMD_SHUTDOWN\<close> begin with.\<close>

definition stop_tpm :: "('t, 's) deps \<Rightarrow> ('t, 's) ctrl \<Rightarrow> ('t, 's) ctrl" where
  "stop_tpm d c =
     (let mlp = c_mlp c;
          (w, lc) = (if c_running c \<and> \<not> disable_auto_shutdown mlp
                     then (case tpmlib_maybe_send_tpm2_shutdown (base_lib d) (tpmversion mlp)
                                  (c_world c) (lastCommand mlp) of (w, lc, sent) \<Rightarrow> (w, lc))
                     else (c_world c, lastCommand mlp))
      in c\<lparr>c_world := w\<lparr>w_lib := lt_Terminate (d_lib d) (w_lib w)\<rparr>,
           c_mlp := mlp\<lparr>lastCommand := lc\<rparr>, c_running := False\<rparr>)"

definition cmd_init ::
  "('t, 's) deps \<Rightarrow> ('t, 's) ctrl \<Rightarrow> bytes \<Rightarrow> (bytes \<times> ('t, 's) ctrl) option"
where
  "cmd_init d c body =
     (if length body \<noteq> 4 then Some (err_bad_input, c)
      else
        let c1 = stop_tpm d c;
            mlp = (c_mlp c1)\<lparr>storage_locked := \<not> incoming_migration (c_mlp c1)\<rparr>;
            c2 = c1\<lparr>c_mlp := mlp\<rparr>
        in case tpmlib_start (base_lib d) (d_ossl d) (c_world c2) (be32toh body)
                  (tpmversion mlp) (storage_locked mlp) (json_profile mlp) of
             None \<Rightarrow> None
           | Some (res, w) \<Rightarrow>
               Some (ptm_res res,
                 if res = TPM_SUCCESS
                 then c2\<lparr>c_world := w, c_running := True, c_mlp := mlp\<lparr>json_profile := None\<rparr>\<rparr>
                 else c2\<lparr>c_world := w\<rparr>))"

definition cmd_stop :: "('t, 's) deps \<Rightarrow> ('t, 's) ctrl \<Rightarrow> bytes \<Rightarrow> bytes \<times> ('t, 's) ctrl" where
  "cmd_stop d c body =
     (if body \<noteq> [] then (err_bad_input, c) else (ptm_res TPM_SUCCESS, stop_tpm d c))"

definition cmd_shutdown :: "('t, 's) deps \<Rightarrow> ('t, 's) ctrl \<Rightarrow> bytes \<Rightarrow> bytes \<times> ('t, 's) ctrl" where
  "cmd_shutdown d c body =
     (if body \<noteq> [] then (err_bad_input, c)
      else (ptm_res TPM_SUCCESS, (stop_tpm d c)\<lparr>c_terminate := True\<rparr>))"

definition cmd_get_tpmestablished :: "('t, 's) deps \<Rightarrow> ('t, 's) ctrl \<Rightarrow> bytes \<Rightarrow> bytes" where
  "cmd_get_tpmestablished d c body =
     (if \<not> c_running c then err_not_running
      else if body \<noteq> [] then err_bad_input
      else case TPM_IO_TpmEstablished_Get (d_lib d) (w_lib (c_world c)) of
        (res, b) \<Rightarrow> htobe32 res @ [if b then 1 else 0, 0, 0, 0])"

text \<open>The locality is set for the call and restored; locality 4 is not refused here, even when it is rejected.\<close>

definition cmd_reset_tpmestablished ::
  "('t, 's) deps \<Rightarrow> ('t, 's) ctrl \<Rightarrow> bytes \<Rightarrow> bytes \<times> ('t, 's) ctrl"
where
  "cmd_reset_tpmestablished d c body =
     (if \<not> c_running c then (err_not_running, c)
      else if length body < 1 then (err_bad_input, c)
      else if body ! 0 > 4 then (ptm_res TPM_BAD_LOCALITY, c)
      else
        let orig_locality = c_locality c;
            c1 = c\<lparr>c_locality := body ! 0\<rparr>
        in case TPM_IO_TpmEstablished_Reset (d_lib d) (c_locality c1) (w_lib (c_world c1)) of
             (res, t) \<Rightarrow> (ptm_res res, (libst_upd c1 t)\<lparr>c_locality := orig_locality\<rparr>))"

definition cmd_set_locality :: "('t, 's) ctrl \<Rightarrow> bytes \<Rightarrow> bytes \<times> ('t, 's) ctrl" where
  "cmd_set_locality c body =
     (if length body < 1 then (err_bad_input, c)
      else if body ! 0 > 4 \<or>
              (body ! 0 = 4 \<and> locality_flags (c_mlp c) AND LOCALITY_FLAG_REJECT_LOCALITY_4 \<noteq> 0)
      then (ptm_res TPM_BAD_LOCALITY, c)
      else (ptm_res TPM_SUCCESS, c\<lparr>c_locality := body ! 0\<rparr>))"

text \<open>The commands without body that call one function of libtpms.\<close>

definition cmd_simple ::
  "('t \<Rightarrow> TPM_RESULT \<times> 't) \<Rightarrow> ('t, 's) ctrl \<Rightarrow> bytes \<Rightarrow> bytes \<times> ('t, 's) ctrl"
where
  "cmd_simple f c body =
     (if \<not> c_running c then (err_not_running, c)
      else if body \<noteq> [] then (err_bad_input, c)
      else case f (w_lib (c_world c)) of (res, t) \<Rightarrow> (ptm_res res, libst_upd c t))"

text \<open>
  The loop of \<open>CMD_HASH_DATA\<close>; the chunk is in the buffer, \<open>remain\<close> bytes are to be hashed.
  Every further chunk has at least one byte, so the number of bytes plus one is fuel enough.
\<close>

fun hash_data_loop ::
  "('t, 's) deps \<Rightarrow> nat \<Rightarrow> ('t, 's) ctrl \<Rightarrow> nat \<Rightarrow> bytes \<Rightarrow> (TPM_RESULT \<times> ('t, 's) ctrl) option"
where
  "hash_data_loop d 0 c remain chunk = None"
| "hash_data_loop d (Suc fuel) c remain chunk =
     (case TPM_IO_Hash_Data (d_lib d) (w_lib (c_world c)) chunk of (res, t) \<Rightarrow>
        let c1 = libst_upd c t; remain' = remain - length chunk in
        if res \<noteq> 0 then Some (res, c1)
        else if remain' = 0 then Some (res, c1)
        else case ctrl_read c1 (min remain' 4096) of
          None \<Rightarrow> None
        | Some (None, c2) \<Rightarrow> Some (TPM_IOERROR, c2)
        | Some (Some [], c2) \<Rightarrow> Some (TPM_IOERROR, c2)
        | Some (Some ch, c2) \<Rightarrow> hash_data_loop d fuel c2 remain' ch)"

definition cmd_hash_data ::
  "('t, 's) deps \<Rightarrow> ('t, 's) ctrl \<Rightarrow> bytes \<Rightarrow> (bytes \<times> ('t, 's) ctrl) option"
where
  "cmd_hash_data d c body =
     (if \<not> c_running c then Some (err_not_running, c)
      else if length body < 4 then Some (err_bad_input, c)
      else
        let remain = unat (be32toh (mem_read body 0 4)) in
        if remain < length body - 4 then Some (err_bad_input, c)
        else case hash_data_loop d (Suc remain) c remain (drop 4 body) of
          None \<Rightarrow> None
        | Some (res, c1) \<Rightarrow> Some (htobe32 res, c1))"

definition cmd_store_volatile ::
  "('t, 's) deps \<Rightarrow> ('t, 's) ctrl \<Rightarrow> bytes \<Rightarrow> (bytes \<times> ('t, 's) ctrl) option"
where
  "cmd_store_volatile d c body =
     (if \<not> c_running c then Some (err_not_running, c)
      else if body \<noteq> [] then Some (err_bad_input, c)
      else case g_nvram_backend_ops (w_nv (c_world c)) of
        None \<Rightarrow> None
      | Some ops \<Rightarrow>
          (case SWTPM_NVRAM_Store_Volatile (d_crypto d) (nv_lib d) (w_lib (c_world c)) ops
                  (w_nv (c_world c)) of
             (res, nv) \<Rightarrow> Some (ptm_res res, nv_upd c nv)))"

definition cmd_get_config :: "('t, 's) ctrl \<Rightarrow> bytes \<Rightarrow> bytes" where
  "cmd_get_config c body =
     (if body \<noteq> [] then err_bad_input
      else
        let g = nv_globals (w_nv (c_world c)) in
        htobe32 0 @ htobe32 ((if SWTPM_NVRAM_Has_FileKey g then 1 else 0) OR
                             (if SWTPM_NVRAM_Has_MigrationKey g then 2 else 0)))"

text \<open>\<open>cmsg_fd\<close> is the file descriptor of a valid control message.\<close>

definition cmd_set_datafd :: "('t, 's) ctrl \<Rightarrow> int option \<Rightarrow> bytes \<times> ('t, 's) ctrl" where
  "cmd_set_datafd c cmsg_fd =
     (if ml_fd (c_mlp c) \<noteq> -1 then (err_io, c)
      else case cmsg_fd of
        None \<Rightarrow> (err_bad_input, c)
      | Some fd \<Rightarrow>
          if fd < 0 then (err_bad_input, c)
          else (ptm_res TPM_SUCCESS,
                c\<lparr>c_mlp := (c_mlp c)\<lparr>ml_flags := ml_flags (c_mlp c) OR 2 OR 4, ml_fd := fd\<rparr>\<rparr>))"

definition cmd_set_buffersize ::
  "('t, 's) deps \<Rightarrow> ('t, 's) ctrl \<Rightarrow> bytes \<Rightarrow> bytes \<times> ('t, 's) ctrl"
where
  "cmd_set_buffersize d c body =
     (if length body < 4 then (err_bad_input, c)
      else
        let buffersize = be32toh (mem_read body 0 4) in
        if buffersize > 0 \<and> c_running c then (err_running, c)
        else case TPMLIB_SetBufferSize (d_lib d) (w_lib (c_world c)) buffersize of
          ((bs, minsize, maxsize), t) \<Rightarrow>
            (ptm_res TPM_SUCCESS @ htobe32 bs @ htobe32 minsize @ htobe32 maxsize, libst_upd c t))"

definition cmd_get_info :: "('t, 's) deps \<Rightarrow> ('t, 's) ctrl \<Rightarrow> bytes \<Rightarrow> bytes" where
  "cmd_get_info d c body =
     (if length body < 16 then err_bad_input
      else case TPMLIB_GetInfo (d_lib d) (w_lib (c_world c)) (be64toh (mem_read body 0 8)) of
        None \<Rightarrow> err_memory
      | Some info_data \<Rightarrow>
          let offset = unat (be32toh (mem_read body 8 4)) in
          if offset \<ge> length info_data then err_bad_input
          else
            let len = min (length info_data + 1 - offset) 3072 in
            htobe32 0 @ htobe32 (of_nat (length info_data + 1)) @ htobe32 (of_nat len) @
              mem_read (info_data @ [0]) offset len)"

definition cmd_lock_storage :: "('t, 's) ctrl \<Rightarrow> bytes \<Rightarrow> bytes \<times> ('t, 's) ctrl" where
  "cmd_lock_storage c body =
     (if length body < 4 then (err_bad_input, c)
      else
        let c1 = c\<lparr>c_mlp := (c_mlp c)\<lparr>locking_retries := be32toh (mem_read body 0 4)\<rparr>\<rparr> in
        case mainloop_ensure_locked_storage c1 of
          (ok, c2) \<Rightarrow> (htobe32 (if ok then TPM_SUCCESS else TPM_FAIL), c2))"

definition cmd_set_stateblob ::
  "('t, 's) deps \<Rightarrow> ('t, 's) ctrl \<Rightarrow> bytes \<Rightarrow> ('t, 's) ctrl option"
where
  "cmd_set_stateblob d c body =
     (if c_running c then Some (send_resp c err_running)
      else
        let c1 = nv_upd c (snd (SWTPM_NVRAM_Init (d_dir_ops d) (d_linear_ops d) (w_nv (c_world c)))) in
        case mainloop_ensure_locked_storage c1 of
          (ok, c2) \<Rightarrow>
            let c3 = c2\<lparr>c_terminate := \<not> ok\<rparr> in
            if \<not> ok then Some (send_resp c3 err_io)
            else if length body < 12 then Some (send_resp c3 err_bad_input)
            else ctrlchannel_receive_state d c3 body)"

definition cmd_get_stateblob ::
  "('t, 's) deps \<Rightarrow> ('t, 's) ctrl \<Rightarrow> bytes \<Rightarrow> ('t, 's) ctrl option"
where
  "cmd_get_stateblob d c body =
     (if \<not> c_running c then Some (send_resp c err_not_running)
      else if length body < 12 then Some (send_resp c err_bad_input)
      else ctrlchannel_return_state d c body)"

subsection \<open>Dispatch\<close>

definition reply :: "bytes \<times> ('t, 's) ctrl \<Rightarrow> ('t, 's) ctrl option" where
  "reply r = (case r of (out, c) \<Rightarrow> Some (send_resp c out))"

definition reply_option :: "(bytes \<times> ('t, 's) ctrl) option \<Rightarrow> ('t, 's) ctrl option" where
  "reply_option r = (case r of None \<Rightarrow> None | Some x \<Rightarrow> reply x)"

text \<open>The switch over the command, for a request of at least four bytes.\<close>

definition ctrl_dispatch ::
  "('t, 's) deps \<Rightarrow> ('t, 's) ctrl \<Rightarrow> u32 \<Rightarrow> bytes \<Rightarrow> int option \<Rightarrow> ('t, 's) ctrl option"
where
  "ctrl_dispatch d c cmd body cmsg_fd =
     (if cmd = CMD_GET_CAPABILITY then reply (cmd_get_capability c, c)
      else if cmd = CMD_INIT then reply_option (cmd_init d c body)
      else if cmd = CMD_STOP then reply (cmd_stop d c body)
      else if cmd = CMD_SHUTDOWN then reply (cmd_shutdown d c body)
      else if cmd = CMD_GET_TPMESTABLISHED then reply (cmd_get_tpmestablished d c body, c)
      else if cmd = CMD_RESET_TPMESTABLISHED then reply (cmd_reset_tpmestablished d c body)
      else if cmd = CMD_SET_LOCALITY then reply (cmd_set_locality c body)
      else if cmd = CMD_HASH_START
      then reply (cmd_simple (TPM_IO_Hash_Start (d_lib d) (c_locality c)) c body)
      else if cmd = CMD_HASH_DATA then reply_option (cmd_hash_data d c body)
      else if cmd = CMD_HASH_END then reply (cmd_simple (TPM_IO_Hash_End (d_lib d)) c body)
      else if cmd = CMD_CANCEL_TPM_CMD then reply (cmd_simple (TPMLIB_CancelCommand (d_lib d)) c body)
      else if cmd = CMD_STORE_VOLATILE then reply_option (cmd_store_volatile d c body)
      else if cmd = CMD_GET_STATEBLOB then cmd_get_stateblob d c body
      else if cmd = CMD_SET_STATEBLOB then cmd_set_stateblob d c body
      else if cmd = CMD_GET_CONFIG then reply (cmd_get_config c body, c)
      else if cmd = CMD_SET_DATAFD then reply (cmd_set_datafd c cmsg_fd)
      else if cmd = CMD_SET_BUFFERSIZE then reply (cmd_set_buffersize d c body)
      else if cmd = CMD_GET_INFO then reply (cmd_get_info d c body, c)
      else if cmd = CMD_LOCK_STORAGE then reply (cmd_lock_storage c body)
      else reply (ptm_res TPM_BAD_ORDINAL, c))"

text \<open>
  \<open>ctrlchannel_process_fd\<close>: the events of the socket while the request arrives, then the
  dispatch. A failed receive closes the socket.
\<close>

definition ctrlchannel_process_fd ::
  "('t, 's) deps \<Rightarrow> ('t, 's) ctrl \<Rightarrow> recv_event list \<Rightarrow> int option \<Rightarrow> ('t, 's) ctrl option"
where
  "ctrlchannel_process_fd d c events cmsg_fd =
     (if \<not> c_open c then Some c
      else case ctrlchannel_recv_cmd events [] of
        None \<Rightarrow> Some (c\<lparr>c_open := False\<rparr>)
      | Some req \<Rightarrow>
          if length req < 4 then reply (err_bad_input, c)
          else ctrl_dispatch d c (be32toh (mem_read req 0 4)) (drop 4 req) cmsg_fd)"

end
