(* ===== verification/FileIO.thy ===== *)
theory FileIO
  imports Prelude
begin

section \<open>Files of the state directory (src/src/swtpm/utils.c, lines 267-559)\<close>

text \<open>
  The directory as the process sees it: a map from paths to files (data and mode bits). The
  operating system may fail any call: \<open>faults\<close> lists the outcomes of the coming system
  calls in order (all calls succeed once it is empty), so a statement over all such lists covers
  every combination of failures, interrupted calls and short transfers. \<open>hist\<close> records
  every state the directory went through, newest first: the states in which the process
  could have been killed. A call that does not concern a file's content is not recorded.

  \<open>write_full\<close>, \<open>fsync_eintr\<close>, \<open>fsync_on_dir\<close>, \<open>file_write\<close> and \<open>file_read\<close> are the
  functions of utils.c.
\<close>

datatype fault = Ok | Fail | Intr | Short nat

record inode =
  i_data :: bytes
  i_mode :: u32

record dirstate =
  files :: "string \<Rightarrow> inode option"
  faults :: "fault list"
  hist :: "(string \<Rightarrow> inode option) list"
  umask :: u32
  lock_held :: bool

definition next_fault :: "dirstate \<Rightarrow> fault \<times> dirstate" where
  "next_fault s = (case faults s of [] \<Rightarrow> (Ok, s) | f # fs \<Rightarrow> (f, s\<lparr>faults := fs\<rparr>))"

text \<open>A call other than read and write either works or fails.\<close>

definition failed :: "fault \<Rightarrow> bool" where
  "failed f = (f = Fail \<or> f = Intr)"

definition set_files :: "dirstate \<Rightarrow> (string \<Rightarrow> inode option) \<Rightarrow> dirstate" where
  "set_files s m = s\<lparr>files := m, hist := m # hist s\<rparr>"

subsection \<open>System calls\<close>

datatype errno = ENOENT | EOTHER

text \<open>\<open>None\<close> is the return value 0, \<open>Some e\<close> the value -1 with \<open>errno\<close>.\<close>

definition sys_access :: "dirstate \<Rightarrow> string \<Rightarrow> errno option \<times> dirstate" where
  "sys_access s p =
     (case next_fault s of (f, s1) \<Rightarrow>
        (if failed f then Some EOTHER else if files s1 p = None then Some ENOENT else None, s1))"

definition sys_rename :: "dirstate \<Rightarrow> string \<Rightarrow> string \<Rightarrow> errno option \<times> dirstate" where
  "sys_rename s p q =
     (case next_fault s of (f, s1) \<Rightarrow>
        if failed f then (Some EOTHER, s1)
        else case files s1 p of
          None \<Rightarrow> (Some ENOENT, s1)
        | Some x \<Rightarrow> (None, set_files s1 (((files s1)(p := None))(q := Some x))))"

text \<open>\<open>unlink\<close> and \<open>remove\<close> on a file.\<close>

definition sys_unlink :: "dirstate \<Rightarrow> string \<Rightarrow> errno option \<times> dirstate" where
  "sys_unlink s p =
     (case next_fault s of (f, s1) \<Rightarrow>
        if failed f then (Some EOTHER, s1)
        else if files s1 p = None then (Some ENOENT, s1)
        else (None, set_files s1 ((files s1)(p := None))))"

text \<open>\<open>open\<close> with \<open>O_WRONLY|O_CREAT|O_TRUNC\<close>: an existing file keeps its mode bits.\<close>

definition sys_open_trunc ::
  "dirstate \<Rightarrow> string \<Rightarrow> u32 \<Rightarrow> u32 \<Rightarrow> errno option \<times> dirstate"
where
  "sys_open_trunc s p mode um =
     (case next_fault s of (f, s1) \<Rightarrow>
        if failed f then (Some EOTHER, s1)
        else (None, set_files s1 ((files s1)(p \<mapsto>
               (case files s1 p of
                  None \<Rightarrow> \<lparr>i_data = [], i_mode = mode AND NOT um\<rparr>
                | Some x \<Rightarrow> x\<lparr>i_data := []\<rparr>)))))"

definition append_file :: "dirstate \<Rightarrow> string \<Rightarrow> bytes \<Rightarrow> dirstate" where
  "append_file s p d =
     (case files s p of
        None \<Rightarrow> s
      | Some x \<Rightarrow> set_files s ((files s)(p \<mapsto> x\<lparr>i_data := i_data x @ d\<rparr>)))"

subsection \<open>utils.c\<close>

text \<open>
  \<open>write_full\<close> on a descriptor of the file \<open>p\<close>; \<open>True\<close> when all bytes were written, else
  the C function returns -1. One element of \<open>faults\<close> is one \<open>write\<close>.
\<close>

function write_full :: "dirstate \<Rightarrow> string \<Rightarrow> bytes \<Rightarrow> bool \<times> dirstate" where
  "write_full s p buf =
     (if buf = [] then (True, s)
      else case faults s of
        [] \<Rightarrow> (True, append_file s p buf)
      | f # fs \<Rightarrow>
          (let s1 = s\<lparr>faults := fs\<rparr> in
           case f of
             Ok \<Rightarrow> (True, append_file s1 p buf)
           | Fail \<Rightarrow> (False, s1)
           | Intr \<Rightarrow> write_full s1 p buf
           | Short k \<Rightarrow> if k = 0 then (False, s1)
                        else write_full (append_file s1 p (take k buf)) p (drop k buf)))"
  by pat_completeness auto

lemma faults_append_file [simp]: "faults (append_file s p d) = faults s"
  by (simp add: append_file_def set_files_def split: option.split)

termination write_full
  by (relation "measure (\<lambda>(s, p, buf). length (faults s))") auto

declare write_full.simps [simp del]

function fsync_eintr :: "dirstate \<Rightarrow> bool \<times> dirstate" where
  "fsync_eintr s =
     (case faults s of
        [] \<Rightarrow> (True, s)
      | f # fs \<Rightarrow> (let s1 = s\<lparr>faults := fs\<rparr> in
                   if f = Intr then fsync_eintr s1 else (f \<noteq> Fail, s1)))"
  by pat_completeness auto
termination
  by (relation "measure (\<lambda>s. length (faults s))") auto

declare fsync_eintr.simps [simp del]

definition fsync_on_dir :: "dirstate \<Rightarrow> bool \<times> dirstate" where
  "fsync_on_dir s =
     (case next_fault s of (f, s1) \<Rightarrow>
        if failed f then (False, s1)
        else case fsync_eintr s1 of (ok, s2) \<Rightarrow>
          (case next_fault s2 of (f', s3) \<Rightarrow> (ok \<and> \<not> failed f', s3)))"

text \<open>
  The return value of \<open>file_write\<close> is an integer: negative on error; after a directory
  sync it is the value of \<open>fsync_on_dir\<close>.
\<close>

definition file_write ::
  "dirstate \<Rightarrow> string \<Rightarrow> u32 \<Rightarrow> bool \<Rightarrow> bytes \<Rightarrow> bool \<Rightarrow> string option \<Rightarrow> int \<times> dirstate"
where
  "file_write s filename mode clear_umask buffer do_fsync fsync_dir =
     (case sys_open_trunc s filename mode (if clear_umask then 0 else umask s) of
        (Some e, s1) \<Rightarrow> (-1, s1)
      | (None, s1) \<Rightarrow>
          (case write_full s1 filename buffer of (ok1, s2) \<Rightarrow>
          (case (if ok1 \<and> do_fsync then fsync_eintr s2 else (ok1, s2)) of (ok2, s3) \<Rightarrow>
          (case next_fault s3 of (f, s4) \<Rightarrow>
             let ok3 = (ok2 \<and> \<not> failed f);
                 res3 = (if ok3 then int (length buffer) else -1)
             in case (if ok3 \<and> do_fsync \<and> fsync_dir \<noteq> None
                      then (case fsync_on_dir s4 of (ok, s5) \<Rightarrow> (if ok then 0 else -1, s5))
                      else (res3, s4)) of (res, s5) \<Rightarrow>
               if res < 0 then (res, snd (sys_unlink s5 filename)) else (res, s5)))))"

text \<open>
  \<open>file_read\<close> returns the value with \<open>*buffer\<close> (\<open>None\<close> for NULL) and, for a negative
  value, \<open>errno\<close>. Short reads and a failing \<open>malloc\<close> come from the list of faults.
\<close>

function read_eintr :: "dirstate \<Rightarrow> bytes \<Rightarrow> bytes option \<times> dirstate" where
  "read_eintr s avail =
     (case faults s of
        [] \<Rightarrow> (Some avail, s)
      | f # fs \<Rightarrow> (let s1 = s\<lparr>faults := fs\<rparr> in
                   case f of Ok \<Rightarrow> (Some avail, s1)
                   | Fail \<Rightarrow> (None, s1)
                   | Intr \<Rightarrow> read_eintr s1 avail
                   | Short k \<Rightarrow> (Some (take k avail), s1)))"
  by pat_completeness auto
termination
  by (relation "measure (\<lambda>(s, a). length (faults s))") auto

declare read_eintr.simps [simp del]

abbreviation ACCESSPERMS :: u32 where "ACCESSPERMS \<equiv> 511"
abbreviation S_IWUSR :: u32 where "S_IWUSR \<equiv> 128"

definition file_read_chmod :: "bool \<Rightarrow> u32 \<Rightarrow> u32 \<Rightarrow> bool \<times> u32" where
  "file_read_chmod do_chmod mode st_mode =
     (if \<not> do_chmod \<and> st_mode AND S_IWUSR = 0 then (True, mode OR S_IWUSR)
      else if do_chmod \<and> st_mode AND ACCESSPERMS = mode then (False, mode)
      else (do_chmod, mode))"

definition file_read ::
  "dirstate \<Rightarrow> string \<Rightarrow> bool \<Rightarrow> u32 \<Rightarrow> (int \<times> bytes option \<times> errno) \<times> dirstate"
where
  "file_read s filename do_chmod mode =
     (case next_fault s of (f, s1) \<Rightarrow>
        if failed f then ((-1, None, EOTHER), s1)
        else case files s1 filename of
          None \<Rightarrow> ((-1, None, ENOENT), s1)
        | Some x \<Rightarrow>
            (case next_fault s1 of (f2, s2) \<Rightarrow>
               if failed f2 then ((-1, None, EOTHER), s2)
               else
                 let buflen = length (i_data x) in
                 case next_fault s2 of (fm, s2m) \<Rightarrow>
                 if failed fm then ((-1, None, EOTHER), s2m)
                 else case read_eintr s2m (i_data x) of
                   (None, s3) \<Rightarrow> ((-1, None, EOTHER), s3)
                 | (Some d, s3) \<Rightarrow>
                     if length d \<noteq> buflen then ((int (length d), None, EOTHER), s3)
                     else case file_read_chmod do_chmod mode (i_mode x) of
                       (False, mode') \<Rightarrow> ((int buflen, Some d, EOTHER), s3)
                     | (True, mode') \<Rightarrow>
                         (case next_fault s3 of (f3, s4) \<Rightarrow>
                            if failed f3 then ((int buflen, None, EOTHER), s4)
                            else ((int buflen, Some d, EOTHER),
                                  s4\<lparr>files := (files s4)(filename \<mapsto> x\<lparr>i_mode := mode'\<rparr>)\<rparr>))))"

subsection \<open>What the calls touch\<close>

text \<open>
  \<open>touches A s s'\<close>: on the way from \<open>s\<close> to \<open>s'\<close>, in every recorded state too, only the
  paths of \<open>A\<close> had a content different from the start.
\<close>

definition touches :: "string set \<Rightarrow> dirstate \<Rightarrow> dirstate \<Rightarrow> bool" where
  "touches A s s' \<longleftrightarrow>
     (\<exists>h. hist s' = h @ hist s \<and> (\<forall>m \<in> set (files s' # h). \<forall>q. q \<notin> A \<longrightarrow> m q = files s q))"

lemma touches_refl [simp]: "touches A s s"
  by (simp add: touches_def)

lemma touches_trans:
  "touches A s s' \<Longrightarrow> touches A s' s'' \<Longrightarrow> touches A s s''"
  unfolding touches_def by fastforce

lemma touches_mono: "touches A s s' \<Longrightarrow> A \<subseteq> B \<Longrightarrow> touches B s s'"
  unfolding touches_def by blast

lemma touches_files: "touches A s s' \<Longrightarrow> q \<notin> A \<Longrightarrow> files s' q = files s q"
  by (auto simp: touches_def)

lemma touches_same: "files s' = files s \<Longrightarrow> hist s' = hist s \<Longrightarrow> touches A s s'"
  by (simp add: touches_def)

lemma touches_set_files:
  "\<forall>q. q \<notin> A \<longrightarrow> m q = files s q \<Longrightarrow> touches A s (set_files s m)"
  by (simp add: touches_def set_files_def)

lemma next_fault_same:
  assumes "next_fault s = (f, s')"
  shows "files s' = files s" "hist s' = hist s" "umask s' = umask s" "lock_held s' = lock_held s"
  using assms by (auto simp: next_fault_def split: list.splits)

lemma next_fault_touches: "next_fault s = (f, s') \<Longrightarrow> touches A s s'"
  by (simp add: next_fault_same touches_same)

lemma next_fault_calm: "faults s = [] \<Longrightarrow> next_fault s = (Ok, s)"
  by (simp add: next_fault_def)

lemma failed_Ok [simp]: "\<not> failed Ok"
  by (simp add: failed_def)

lemma sys_access_touches: "sys_access s p = (r, s') \<Longrightarrow> touches A s s'"
  by (auto simp: sys_access_def next_fault_touches split: prod.splits)

lemma sys_rename_touches: "sys_rename s p q = (r, s') \<Longrightarrow> touches {p, q} s s'"
  by (auto simp: sys_rename_def next_fault_touches split: prod.splits if_splits option.splits
      intro!: touches_trans [OF next_fault_touches touches_set_files])

lemma sys_unlink_touches: "sys_unlink s p = (r, s') \<Longrightarrow> touches {p} s s'"
  by (auto simp: sys_unlink_def next_fault_touches split: prod.splits if_splits
      intro!: touches_trans [OF next_fault_touches touches_set_files])

lemma sys_open_trunc_touches: "sys_open_trunc s p mode um = (r, s') \<Longrightarrow> touches {p} s s'"
  by (auto simp: sys_open_trunc_def next_fault_touches split: prod.splits if_splits
      intro!: touches_trans [OF next_fault_touches touches_set_files])

lemma append_file_touches: "touches {p} s (append_file s p d)"
  by (auto simp: append_file_def split: option.split if_splits intro!: touches_set_files)

lemma append_file_data:
  "files s p = Some x \<Longrightarrow> files (append_file s p d) p = Some (x\<lparr>i_data := i_data x @ d\<rparr>)"
  by (simp add: append_file_def set_files_def)

lemma write_full_spec:
  assumes "write_full s p buf = (ok, s')" "files s p = Some x"
  shows "touches {p} s s' \<and> (ok \<longrightarrow> files s' p = Some (x\<lparr>i_data := i_data x @ buf\<rparr>))"
  using assms
proof (induction s p buf arbitrary: x rule: write_full.induct)
  case (1 s p buf)
  show ?case
  proof (cases "buf = []")
    case True
    then show ?thesis using "1.prems" by (auto simp: write_full.simps [of s])
  next
    case ne: False
    show ?thesis
    proof (cases "faults s")
      case Nil
      then show ?thesis using "1.prems" ne
        by (auto simp: write_full.simps [of s] append_file_touches append_file_data)
    next
      case (Cons f fs)
      let ?s1 = "s\<lparr>faults := fs\<rparr>"
      have t1: "touches {p} s ?s1" by (simp add: touches_same)
      have d1: "files ?s1 p = Some x" using "1.prems" by simp
      show ?thesis
      proof (cases f)
        case Ok
        then show ?thesis using "1.prems"(1) ne Cons t1 append_file_data [OF d1]
          by (auto simp: write_full.simps [of s] Let_def
              intro!: touches_trans [OF t1 append_file_touches])
      next
        case Fail
        then show ?thesis using "1.prems"(1) ne Cons t1 by (auto simp: write_full.simps [of s] Let_def)
      next
        case Intr
        then have "write_full ?s1 p buf = (ok, s')"
          using "1.prems"(1) ne Cons by (simp add: write_full.simps [of s] Let_def)
        with "1.IH"(1) [OF ne Cons refl Intr] d1 t1 show ?thesis
          using touches_trans by blast
      next
        case (Short k)
        show ?thesis
        proof (cases "k = 0")
          case True
          then show ?thesis using "1.prems"(1) ne Cons Short t1
            by (auto simp: write_full.simps [of s] Let_def)
        next
          case k: False
          let ?s2 = "append_file ?s1 p (take k buf)"
          have r: "write_full ?s2 p (drop k buf) = (ok, s')"
            using "1.prems"(1) ne Cons Short k by (simp add: write_full.simps [of s] Let_def)
          have "touches {p} ?s2 s' \<and> (ok \<longrightarrow> files s' p =
              Some (x\<lparr>i_data := i_data x @ take k buf @ drop k buf\<rparr>))"
            using "1.IH"(2) [OF ne Cons refl Short k r append_file_data [OF d1]] by simp
          then show ?thesis using touches_trans [OF t1 append_file_touches] touches_trans
            by (metis append_take_drop_id)
        qed
      qed
    qed
  qed
qed

lemma write_full_calm:
  assumes "faults s = []"
  shows "fst (write_full s p buf) \<and> faults (snd (write_full s p buf)) = []"
  using assms by (simp add: write_full.simps [of s])

lemma fsync_eintr_touches: "fsync_eintr s = (ok, s') \<Longrightarrow> touches A s s'"
proof (induction s rule: fsync_eintr.induct)
  case (1 s)
  show ?case
  proof (cases "faults s")
    case Nil
    then show ?thesis using "1.prems" by (simp add: fsync_eintr.simps [of s])
  next
    case (Cons f fs)
    have t: "touches A s (s\<lparr>faults := fs\<rparr>)" by (simp add: touches_same)
    show ?thesis
    proof (cases "f = Intr")
      case True
      then have "fsync_eintr (s\<lparr>faults := fs\<rparr>) = (ok, s')"
        using "1.prems" Cons by (simp add: fsync_eintr.simps [of s] Let_def)
      then show ?thesis using "1.IH" [OF Cons refl True] touches_trans [OF t] by blast
    next
      case False
      then show ?thesis using "1.prems" Cons t by (auto simp: fsync_eintr.simps [of s] Let_def)
    qed
  qed
qed

lemma fsync_eintr_calm: "faults s = [] \<Longrightarrow> fsync_eintr s = (True, s)"
  by (simp add: fsync_eintr.simps [of s])

lemma fsync_on_dir_touches: "fsync_on_dir s = (ok, s') \<Longrightarrow> touches A s s'"
  by (auto simp: fsync_on_dir_def split: prod.splits if_splits
      intro: next_fault_touches touches_trans [OF next_fault_touches
        touches_trans [OF fsync_eintr_touches next_fault_touches]])

lemma fsync_on_dir_calm: "faults s = [] \<Longrightarrow> fsync_on_dir s = (True, s)"
  by (simp add: fsync_on_dir_def next_fault_calm fsync_eintr_calm)

text \<open>
  \<open>file_write\<close> touches its file only, and when it does not report an error the file holds
  exactly the buffer.
\<close>

lemma file_write_spec:
  assumes "file_write s p mode cu buf do_fsync fd = (n, s')"
  shows "touches {p} s s'" and "0 \<le> n \<Longrightarrow> \<exists>x. files s' p = Some x \<and> i_data x = buf"
proof -
  obtain r s1 where o: "sys_open_trunc s p mode (if cu then 0 else umask s) = (r, s1)" by fastforce
  have t1: "touches {p} s s1" by (rule sys_open_trunc_touches [OF o])
  have "touches {p} s s' \<and> (0 \<le> n \<longrightarrow> (\<exists>x. files s' p = Some x \<and> i_data x = buf))"
  proof (cases r)
    case (Some e)
    then show ?thesis using assms o t1 by (auto simp: file_write_def)
  next
    case None
    then obtain x where x: "files s1 p = Some x" "i_data x = []"
      using o by (auto simp: sys_open_trunc_def set_files_def split: prod.splits if_splits option.splits)
    obtain ok1 s2 where w: "write_full s1 p buf = (ok1, s2)" by fastforce
    obtain ok2 s3 where f: "(if ok1 \<and> do_fsync then fsync_eintr s2 else (ok1, s2)) = (ok2, s3)"
      by fastforce
    obtain g s4 where c: "next_fault s3 = (g, s4)" by fastforce
    obtain ok3 s5 where d: "(if ok2 \<and> \<not> failed g \<and> do_fsync \<and> fd \<noteq> None then fsync_on_dir s4
        else (ok2 \<and> \<not> failed g, s4)) = (ok3, s5)" by fastforce
    have t2: "touches {p} s1 s2" and dat: "ok1 \<longrightarrow> files s2 p = Some (x\<lparr>i_data := buf\<rparr>)"
      using write_full_spec [OF w x(1)] x(2) by auto
    have t3: "touches B s2 s3" for B
      using f fsync_eintr_touches by (auto split: if_splits)
    have t4: "touches B s3 s4" for B by (rule next_fault_touches [OF c])
    have t5: "touches B s4 s5" for B
      using d fsync_on_dir_touches by (auto split: if_splits)
    have t: "touches {p} s s5" by (intro touches_trans [OF t1] touches_trans [OF t2]
        touches_trans [OF t3] touches_trans [OF t4] t5)
    have keep: "files s5 p = files s2 p"
      using touches_files [OF touches_trans [OF t3 touches_trans [OF t4 t5]], of p "{}"] by simp
    have ok: "ok3 \<longrightarrow> ok1" using f d by (auto split: if_splits)
    have "\<exists>n0. n = (if ok3 then n0 else -1) \<and> 0 \<le> n0 \<and> s' = (if ok3 then s5 else snd (sys_unlink s5 p))"
      using assms o None w f c d
      by (cases "ok2 \<and> \<not> failed g"; cases "do_fsync \<and> fd \<noteq> None"; cases "fsync_on_dir s4")
        (auto simp: file_write_def Let_def split: if_splits intro: exI [of _ 0])
    moreover have "touches {p} s (snd (sys_unlink s5 p))"
      by (rule touches_trans [OF t sys_unlink_touches [of s5 p "fst (sys_unlink s5 p)"]]) simp
    ultimately show ?thesis using t keep ok dat by (auto split: if_splits)
  qed
  then show "touches {p} s s'" and "0 \<le> n \<Longrightarrow> \<exists>x. files s' p = Some x \<and> i_data x = buf" by auto
qed

subsection \<open>No faults\<close>

lemma faults_set_files [simp]: "faults (set_files s m) = faults s"
  by (simp add: set_files_def)

lemma sys_calm:
  assumes "faults s = []"
  shows "sys_access s p = (if files s p = None then Some ENOENT else None, s)"
    and "sys_rename s p q = (case files s p of None \<Rightarrow> (Some ENOENT, s)
           | Some x \<Rightarrow> (None, set_files s (((files s)(p := None))(q := Some x))))"
    and "sys_unlink s p = (if files s p = None then (Some ENOENT, s)
           else (None, set_files s ((files s)(p := None))))"
  using assms by (auto simp: sys_access_def sys_rename_def sys_unlink_def next_fault_calm
      split: option.split)

lemma file_write_calm:
  assumes "faults s = []" "file_write s p mode cu buf do_fsync fd = (n, s')"
  shows "0 \<le> n" "faults s' = []"
proof -
  obtain r s1 where o: "sys_open_trunc s p mode (if cu then 0 else umask s) = (r, s1)" by fastforce
  then have r: "r = None" "faults s1 = []"
    using assms(1) by (auto simp: sys_open_trunc_def next_fault_calm)
  obtain ok1 s2 where w: "write_full s1 p buf = (ok1, s2)" by fastforce
  then have "ok1" "faults s2 = []" using write_full_calm [OF r(2), of p buf] by auto
  then show "0 \<le> n" "faults s' = []" using assms(2) o r w
    by (auto simp: file_write_def Let_def next_fault_calm fsync_eintr_calm fsync_on_dir_calm
        split: if_splits)
qed

lemma file_read_calm:
  assumes "faults s = []"
  shows "files s p = None \<Longrightarrow> file_read s p dc mode = ((-1, None, ENOENT), s)"
    and "files s p = Some x \<Longrightarrow> \<exists>s'. file_read s p dc mode =
           ((int (length (i_data x)), Some (i_data x), EOTHER), s') \<and> faults s' = [] \<and>
           (\<forall>q. map_option i_data (files s' q) = map_option i_data (files s q))"
proof -
  show "files s p = None \<Longrightarrow> file_read s p dc mode = ((-1, None, ENOENT), s)"
    using assms by (simp add: file_read_def next_fault_calm)
  assume x: "files s p = Some x"
  then show "\<exists>s'. file_read s p dc mode =
           ((int (length (i_data x)), Some (i_data x), EOTHER), s') \<and> faults s' = [] \<and>
           (\<forall>q. map_option i_data (files s' q) = map_option i_data (files s q))"
    using assms
    by (auto simp: file_read_def next_fault_calm read_eintr.simps [of s] Let_def
        split: prod.split bool.split)
qed

end
