(* ===== verification/SwtpmIo.thy ===== *)
theory SwtpmIo
  imports FileIO
begin

section \<open>The data channel (src/src/swtpm/swtpm_io.c, writev_full of utils.c)\<close>

text \<open>
  Reading a command from and writing a response to the data connection. What the coming
  \<open>read\<close> calls return is a list (\<open>RdBytes []\<close> is the end of the stream, as is the end of the
  list), what the coming \<open>write\<close> calls do is a list of the faults of \<^verbatim>\<open>FileIO\<close>; the bytes that
  left the process are accumulated.
\<close>

datatype read_result = RdBytes bytes | RdIntr | RdErr

abbreviation sizeof_req_header :: nat where "sizeof_req_header \<equiv> 10"

subsection \<open>Reading\<close>

text \<open>
  The loop of \<open>SWTPM_IO_Read\<close> with a buffer of \<open>bufferSize\<close> bytes, \<open>buf\<close> of them filled. What
  does not fit into the buffer stays in the socket; that happens in the last iteration only,
  since a full buffer holds a request header.
\<close>

fun io_read_loop ::
  "nat \<Rightarrow> read_result list \<Rightarrow> bytes \<Rightarrow> (TPM_RESULT + bytes) \<times> read_result list"
where
  "io_read_loop bufferSize [] buf = (Inl TPM_IOERROR, [])"
| "io_read_loop bufferSize (RdIntr # rs) buf = io_read_loop bufferSize rs buf"
| "io_read_loop bufferSize (RdErr # rs) buf = (Inl TPM_IOERROR, rs)"
| "io_read_loop bufferSize (RdBytes bs # rs) buf =
     (if bs = [] then (Inl TPM_IOERROR, rs)
      else
        let n = min (length bs) (bufferSize - length buf); buf' = buf @ take n bs in
        if length buf' < sizeof_req_header then io_read_loop bufferSize rs buf'
        else (Inr buf', if n < length bs then RdBytes (drop n bs) # rs else rs))"

definition SWTPM_IO_Read ::
  "int \<Rightarrow> nat \<Rightarrow> read_result list \<Rightarrow> (TPM_RESULT + bytes) \<times> read_result list"
where
  "SWTPM_IO_Read connection_fd bufferSize rs =
     (if connection_fd < 0 then (Inl TPM_IOERROR, rs)
      else if bufferSize < sizeof_req_header then (Inl TPM_IOERROR, rs)
      else io_read_loop bufferSize rs [])"

subsection \<open>Connections\<close>

text \<open>
  What one \<open>select\<close> of \<open>SWTPM_IO_Connect\<close> reports: a byte on the notify pipe, a client (with
  the result of \<open>accept\<close>), or neither. \<open>None\<close>: still waiting.
\<close>

datatype select_result = SelNotify | SelClient int | SelNone

fun SWTPM_IO_Connect :: "int \<Rightarrow> select_result list \<Rightarrow> (TPM_RESULT \<times> int) option" where
  "SWTPM_IO_Connect fd [] = None"
| "SWTPM_IO_Connect fd (SelNotify # ss) = Some (TPM_IOERROR, fd)"
| "SWTPM_IO_Connect fd (SelClient c # ss) = Some (if c < 0 then TPM_IOERROR else 0, c)"
| "SWTPM_IO_Connect fd (SelNone # ss) = SWTPM_IO_Connect fd ss"

definition SWTPM_IO_Disconnect :: "int \<Rightarrow> int" where
  "SWTPM_IO_Disconnect connection_fd = (if connection_fd \<ge> 0 then -1 else connection_fd)"

subsection \<open>Writing\<close>

text \<open>\<open>write_full\<close> on a socket: whether all was written, the faults left, the bytes that left.\<close>

fun sock_write_full :: "fault list \<Rightarrow> bytes \<Rightarrow> bool \<times> fault list \<times> bytes" where
  "sock_write_full [] buf = (True, [], buf)"
| "sock_write_full (f # fs) buf =
     (if buf = [] then (True, f # fs, [])
      else case f of
        Ok \<Rightarrow> (True, fs, buf)
      | Fail \<Rightarrow> (False, fs, [])
      | Intr \<Rightarrow> sock_write_full fs buf
      | Short k \<Rightarrow>
          if k = 0 then (False, fs, [])
          else (case sock_write_full fs (drop k buf) of
                  (ok, fs', out) \<Rightarrow> (ok, fs', take k buf @ out)))"

text \<open>
  \<open>writev_full\<close>: the number of bytes, or \<open>None\<close> for -1. A single non-empty buffer is written
  as it is, several are copied into one; \<open>malloc\<close> decides which sizes can be allocated.
\<close>

definition writev_full ::
  "(nat \<Rightarrow> bool) \<Rightarrow> fault list \<Rightarrow> bytes list \<Rightarrow> nat option \<times> fault list \<times> bytes"
where
  "writev_full malloc fs iov =
     (let bufs = filter (\<lambda>b. b \<noteq> []) iov;
          bytecount = sum_list (map length bufs);
          write_buf = (\<lambda>buf. case sock_write_full fs buf of
             (ok, fs', out) \<Rightarrow> (if ok then Some (length buf) else None, fs', out))
      in if length bufs = 1 then write_buf (hd bufs)
         else if \<not> malloc bytecount then (None, fs, [])
         else write_buf (concat bufs))"

definition SWTPM_IO_Write ::
  "(nat \<Rightarrow> bool) \<Rightarrow> int \<Rightarrow> fault list \<Rightarrow> bytes list \<Rightarrow> TPM_RESULT \<times> fault list \<times> bytes"
where
  "SWTPM_IO_Write malloc connection_fd fs iov =
     (if connection_fd < 0 then (TPM_IOERROR, fs, [])
      else case writev_full malloc fs iov of
        (None, fs', out) \<Rightarrow> (TPM_IOERROR, fs', out)
      | (Some nwritten, fs', out) \<Rightarrow>
          (if nwritten < sum_list (map length iov) then TPM_IOERROR else 0, fs', out))"

subsection \<open>Lemmas\<close>

definition stream_of :: "read_result list \<Rightarrow> bytes" where
  "stream_of rs = concat (map (\<lambda>r. case r of RdBytes bs \<Rightarrow> bs | _ \<Rightarrow> []) rs)"

lemma stream_of_simps [simp]:
  "stream_of [] = []" "stream_of (RdBytes bs # rs) = bs @ stream_of rs"
  "stream_of (RdIntr # rs) = stream_of rs" "stream_of (RdErr # rs) = stream_of rs"
  by (simp_all add: stream_of_def)

lemma io_read_loop_InrD:
  assumes "io_read_loop bs0 rs buf = (Inr cmd, rs')" "length buf < 10" "10 \<le> bs0"
  shows "10 \<le> length cmd \<and> length cmd \<le> bs0 \<and> buf @ stream_of rs = cmd @ stream_of rs'"
  using assms
proof (induction bs0 rs buf rule: io_read_loop.induct)
  case (4 bs0 bs rs buf)
  let ?n = "min (length bs) (bs0 - length buf)"
  show ?case
  proof (cases "length (buf @ take ?n bs) < 10")
    case True
    then have "?n = length bs" using "4.prems"(2,3) by (auto simp: min_def split: if_splits)
    moreover have "bs \<noteq> []" using "4.prems"(1) by (auto split: if_splits)
    ultimately show ?thesis using "4.IH" [OF _ refl refl True] "4.prems" True by (auto simp: Let_def)
  next
    case False
    then have c: "cmd = buf @ take ?n bs" "rs' = (if ?n < length bs then RdBytes (drop ?n bs) # rs else rs)"
      using "4.prems"(1) by (auto simp: Let_def split: if_splits)
    moreover have "take ?n bs @ stream_of rs' = bs @ stream_of rs"
      using c(2) by (auto simp: append_assoc [symmetric] simp del: append_assoc)
    ultimately show ?thesis using False "4.prems"(2,3) by auto
  qed
qed simp_all

lemma sock_write_full_spec:
  "sock_write_full fs buf = (ok, fs', out) \<Longrightarrow>
     (ok \<longrightarrow> out = buf) \<and> (\<exists>rest. buf = out @ rest)"
proof (induction fs buf arbitrary: ok fs' out rule: sock_write_full.induct)
  case (2 f fs buf)
  then show ?case
  proof (cases f)
    case (Short k)
    obtain ok1 fs1 out1 where w: "sock_write_full fs (drop k buf) = (ok1, fs1, out1)"
      by (metis prod_cases3)
    show ?thesis
    proof (cases "buf = [] \<or> k = 0")
      case True
      then show ?thesis using "2.prems" Short by (auto split: if_splits)
    next
      case False
      then have e: "ok = ok1" "out = take k buf @ out1" using "2.prems" Short w by auto
      from "2.IH"(2) [OF _ Short _ w] False
      have ih: "(ok1 \<longrightarrow> out1 = drop k buf) \<and> (\<exists>rest. drop k buf = out1 @ rest)" by simp
      then obtain rest where "drop k buf = out1 @ rest" by blast
      then have "buf = take k buf @ out1 @ rest" by (metis append_take_drop_id)
      then show ?thesis using e ih by auto
    qed
  qed (auto split: if_splits)
qed simp

lemma concat_filter_nonempty: "concat (filter (\<lambda>b. b \<noteq> []) xs) = concat xs"
  by (induction xs) auto

lemma concat_single: "length xs = Suc 0 \<Longrightarrow> hd xs = concat xs"
  by (cases xs) auto

text \<open>
  \<open>writev_full\<close> is all or a prefix: a returned count is the number of all bytes, and then
  exactly the concatenation of the buffers was sent; on failure what was sent is a prefix of
  it, whatever the sequence of interrupted, short and failing writes.
\<close>

theorem writev_full_all_or_prefix:
  assumes "writev_full malloc fs iov = (r, fs', out)"
  shows "(case r of Some n \<Rightarrow> out = concat iov \<and> n = length (concat iov)
          | None \<Rightarrow> \<exists>rest. concat iov = out @ rest)"
proof -
  let ?bufs = "filter (\<lambda>b. b \<noteq> []) iov"
  have c: "concat ?bufs = concat iov" by (rule concat_filter_nonempty)
  have h: "length ?bufs = 1 \<Longrightarrow> hd ?bufs = concat iov" using concat_single [of ?bufs] c by simp
  obtain ok fs1 out1 where w: "sock_write_full fs (concat iov) = (ok, fs1, out1)"
    by (metis prod_cases3)
  show ?thesis
    using assms sock_write_full_spec [OF w] w c h
    by (auto simp: writev_full_def Let_def split: if_splits)
qed

theorem writev_full_all_or_prefix_witness:
  "writev_full (\<lambda>n. True) [Short 1, Intr, Fail] [[1, 2], [], [3]] = (None, [], [1]) \<and>
   (\<exists>rest. concat [[1, 2], [], [3 :: byte]] = [1] @ rest)"
  using writev_full_all_or_prefix [of "\<lambda>n. True" "[Short 1, Intr, Fail]" "[[1, 2], [], [3]]" None "[]" "[1]"]
  by (simp add: writev_full_def)

text \<open>
  A command that \<open>SWTPM_IO_Read\<close> returns has at least the size of a request header and
  fits the buffer, and no byte of the stream is lost or reordered: the command followed by what
  is still to be read is the stream.
\<close>

theorem IO_Read_stream:
  assumes "SWTPM_IO_Read fd bs0 rs = (Inr cmd, rs')"
  shows "sizeof_req_header \<le> length cmd \<and> length cmd \<le> bs0 \<and> stream_of rs = cmd @ stream_of rs'"
  using assms io_read_loop_InrD [of bs0 rs "[]" cmd rs']
  by (auto simp: SWTPM_IO_Read_def split: if_splits)

theorem IO_Read_stream_witness:
  "let cmd = replicate 12 (7 :: byte) in
   SWTPM_IO_Read 3 12 [RdBytes [7], RdIntr, RdBytes (replicate 14 7)] = (Inr cmd, [RdBytes [7, 7, 7]]) \<and>
   stream_of [RdBytes [7], RdIntr, RdBytes (replicate 14 7)] = cmd @ [7, 7, 7]"
  using IO_Read_stream [of 3 12 "[RdBytes [7], RdIntr, RdBytes (replicate 14 7)]" "replicate 12 7" "[RdBytes [7, 7, 7]]"]
  by (simp add: SWTPM_IO_Read_def Let_def numeral_eq_Suc)

text \<open>
  The size field of the request plays no role: as soon as a first chunk covers the request
  header, it is returned as the whole command (cut to the buffer), and the rest of the request
  stays in the socket, to be taken for the next command.
\<close>

theorem IO_Read_ignores_size:
  assumes "fd \<ge> 0" "sizeof_req_header \<le> length chunk" "length chunk \<le> bs0"
  shows "SWTPM_IO_Read fd bs0 (RdBytes chunk # rs) = (Inr chunk, rs)"
proof -
  have "chunk \<noteq> []" using assms(2) by auto
  then show ?thesis using assms by (auto simp: SWTPM_IO_Read_def Let_def)
qed

theorem IO_Read_ignores_size_witness:
  "let hdr = [0x80, 1, 0, 0, 0, 12, 0, 0, 1, 0x44] in
   SWTPM_IO_Read 3 4096 [RdBytes hdr, RdBytes [0, 0]] = (Inr hdr, [RdBytes [0, 0]])"
  using IO_Read_ignores_size [of 3 "[0x80, 1, 0, 0, 0, 12, 0, 0, 1, 0x44]" 4096 "[RdBytes [0, 0]]"]
  by (simp add: Let_def)

end
