(* ===== verification/MainLoop.thy ===== *)
theory MainLoop
  imports CtrlChannel SwtpmIo
begin

section \<open>The main loop (src/src/swtpm/mainloop.c)\<close>

text \<open>
  One round of the inner loop of \<open>mainLoop\<close>, from \<open>poll\<close> to the response, as a function of
  what \<open>poll\<close> and the sockets report; the rounds make up the step relation of the server.
  \<open>mstate\<close> adds to the control channel's state the data connection (-1 when there is none),
  the size of the command buffer, the response buffer, which is reused, whether the notify
  pipe has a byte (it is never read), and what was written to the data connection. The calls
  that record packets in the capture file (pcap.c) are left out: they return nothing that the
  loop looks at.
\<close>

abbreviation MAIN_LOOP_FLAG_TERMINATE :: u32 where "MAIN_LOOP_FLAG_TERMINATE \<equiv> 1"
abbreviation MAIN_LOOP_FLAG_USE_FD :: u32 where "MAIN_LOOP_FLAG_USE_FD \<equiv> 2"
abbreviation MAIN_LOOP_FLAG_KEEP_CONNECTION :: u32 where "MAIN_LOOP_FLAG_KEEP_CONNECTION \<equiv> 4"
abbreviation MAIN_LOOP_FLAG_END_ON_HUP :: u32 where "MAIN_LOOP_FLAG_END_ON_HUP \<equiv> 8"
abbreviation MAIN_LOOP_FLAG_CTRL_END_ON_HUP :: u32 where "MAIN_LOOP_FLAG_CTRL_END_ON_HUP \<equiv> 16"

record ('t, 's) mstate =
  m_ctrl :: "('t, 's) ctrl"
  m_conn :: int
  m_bufsize :: nat
  m_notify :: bool
  m_resp :: response
  m_iov0 :: bool
  m_written :: "bytes list"

text \<open>
  What one \<open>poll\<close> and the calls after it report: whether SIGTERM is delivered before \<open>poll\<close>
  returns or while the round runs, a failed \<open>poll\<close>, a hang-up of the data client, a new data or
  control client, a control request (its socket events and passed descriptor), a hang-up of
  the control client, and input on the data connection (what the reads return and how the
  writes of the response end).
\<close>

record poll_result =
  p_signal :: bool
  p_signal_late :: bool
  p_fails :: bool
  p_data_hup :: bool
  p_data_accept :: "int option"
  p_ctrl_accept :: "bool option"
  p_ctrl_in :: "(recv_event list \<times> int option) option"
  p_ctrl_hup :: bool
  p_data_in :: "(read_result list \<times> fault list) option"

definition has_flag :: "('t, 's) mstate \<Rightarrow> u32 \<Rightarrow> bool" where
  "has_flag m f = (ml_flags (c_mlp (m_ctrl m)) AND f \<noteq> 0)"

definition upd_mlp ::
  "('t, 's) mstate \<Rightarrow> (mainLoopParams \<Rightarrow> mainLoopParams) \<Rightarrow> ('t, 's) mstate"
where
  "upd_mlp m f = m\<lparr>m_ctrl := (m_ctrl m)\<lparr>c_mlp := f (c_mlp (m_ctrl m))\<rparr>\<rparr>"

text \<open>\<open>sigterm_handler\<close> of swtpm.c: a byte into the notify pipe and the flag.\<close>

definition sigterm_handler :: "('t, 's) mstate \<Rightarrow> ('t, 's) mstate" where
  "sigterm_handler m =
     m\<lparr>m_notify := True, m_ctrl := (m_ctrl m)\<lparr>c_terminate := True\<rparr>\<rparr>"

subsection \<open>One TPM command\<close>

text \<open>The TCG header in front of a TPM 2 command.\<close>

definition strip_tcg_header :: "('t, 's) mstate \<Rightarrow> bytes \<Rightarrow> bytes \<times> ('t, 's) mstate" where
  "strip_tcg_header m command =
     (let c = m_ctrl m in
      if tpmversion (c_mlp c) = TPMLIB_TPM_VERSION_2
      then (case tpmlib_handle_tcg_tpm2_cmd_header command (c_locality c) of
              (cmd_offset, loc) \<Rightarrow>
                (drop cmd_offset command,
                 m\<lparr>m_ctrl := c\<lparr>c_locality := loc\<rparr>, m_iov0 := (cmd_offset > 0)\<rparr>))
      else (command, m))"

text \<open>
  The command, from the check whether the TPM runs to the call of libtpms; the result is
  \<open>rc\<close>. \<open>malloc\<close> is the process's allocator.
\<close>

definition run_command ::
  "('t, 's) deps \<Rightarrow> ('t, 's) mstate \<Rightarrow> bytes \<Rightarrow> TPM_RESULT \<times> ('t, 's) mstate"
where
  "run_command d m command =
     (let c = m_ctrl m; version = tpmversion (c_mlp c); malloc = malloc_ok (d_crypto d) in
      if \<not> c_running c
      then (0, m\<lparr>m_resp := tpmlib_write_fatal_error_response malloc (m_resp m) version\<rparr>)
      else
        let lc = tpmlib_get_cmd_ordinal command;
            c1 = (if lc \<noteq> TPM_ORDINAL_NONE then c\<lparr>c_mlp := (c_mlp c)\<lparr>lastCommand := lc\<rparr>\<rparr> else c)
        in case tpmlib_process malloc ((m_resp m)\<lparr>rlength := 0\<rparr>) command
                  (locality_flags (c_mlp c1)) (c_locality c1) version of
             (rc, r, loc) \<Rightarrow>
               let c2 = c1\<lparr>c_locality := loc\<rparr>; m2 = m\<lparr>m_ctrl := c2, m_resp := r\<rparr> in
               if rlength r \<noteq> 0 then (rc, m2)
               else if rc \<noteq> 0 then (rc, m2)
               else case lt_Process (base_lib d) (c_world c2) command of
                 ((rc2, rsp), w) \<Rightarrow>
                   (rc2, m\<lparr>m_ctrl := c2\<lparr>c_world := w\<rparr>,
                           m_resp := \<lparr>rbuffer = Some rsp, rlength = of_nat (length rsp),
                                      rTotal = max (rTotal r) (of_nat (length rsp))\<rparr>\<rparr>))"

text \<open>The response, with the TCG prefix and trailer where the request had a prefix.\<close>

definition response_iov :: "('t, 's) mstate \<Rightarrow> bytes list" where
  "response_iov m =
     (let r = m_resp m;
          body = (case rbuffer r of None \<Rightarrow> [] | Some b \<Rightarrow> take (unat (rlength r)) b)
      in if m_iov0 m then [htobe32 (rlength r), body, htobe32 0] else [[], body, []])"

definition write_results ::
  "('t, 's) deps \<Rightarrow> ('t, 's) mstate \<Rightarrow> fault list \<Rightarrow> ('t, 's) mstate"
where
  "write_results d m fs =
     (case SWTPM_IO_Write (malloc_ok (d_crypto d)) (m_conn m) fs (response_iov m) of
        (rc, fs', out) \<Rightarrow> m\<lparr>m_written := m_written m @ [out]\<rparr>)"

subsection \<open>One round\<close>

datatype round_end = Continue | Break

definition disconnect :: "('t, 's) mstate \<Rightarrow> ('t, 's) mstate" where
  "disconnect m = m\<lparr>m_conn := SWTPM_IO_Disconnect (m_conn m)\<rparr>"

text \<open>Reading the command, running it and writing the response; the result is \<open>rc\<close>.\<close>

definition serve_command ::
  "('t, 's) deps \<Rightarrow> ('t, 's) mstate \<Rightarrow> read_result list \<Rightarrow> fault list \<Rightarrow> TPM_RESULT \<times> ('t, 's) mstate"
where
  "serve_command d m reads writes =
     (case SWTPM_IO_Read (m_conn m) (m_bufsize m) reads of
        (Inl rc, rs) \<Rightarrow> (rc, disconnect m)
      | (Inr command, rs) \<Rightarrow>
          (case strip_tcg_header m command of
             (cmd, m2) \<Rightarrow>
               (case run_command d m2 cmd of
                  (rc, m3) \<Rightarrow> (rc, if rc = 0 then write_results d m3 writes else m3))))"

text \<open>
  From the lock of the storage on. The flag \<open>g_mainloop_terminate\<close> is assigned, not only set.
\<close>

definition data_round ::
  "('t, 's) deps \<Rightarrow> ('t, 's) mstate \<Rightarrow> read_result list \<Rightarrow> fault list \<Rightarrow> round_end \<times> ('t, 's) mstate"
where
  "data_round d m reads writes =
     (case mainloop_ensure_locked_storage (m_ctrl m) of (ok, c1) \<Rightarrow>
        let m1 = m\<lparr>m_ctrl := c1\<lparr>c_terminate := \<not> ok\<rparr>\<rparr> in
        if \<not> ok then (Break, m1)
        else case serve_command d m1 reads writes of (rc, m2) \<Rightarrow>
          if \<not> has_flag m2 MAIN_LOOP_FLAG_KEEP_CONNECTION then (Break, disconnect m2)
          else (if rc = 0 then Continue else Break, m2))"

text \<open>The request of the control client, then its hang-up and the data client.\<close>

definition ctrl_input ::
  "('t, 's) deps \<Rightarrow> ('t, 's) mstate \<Rightarrow> recv_event list \<Rightarrow> int option \<Rightarrow> ('t, 's) mstate option"
where
  "ctrl_input d m events cmsg_fd =
     (case ctrlchannel_process_fd d (m_ctrl m) events cmsg_fd of
        None \<Rightarrow> None
      | Some c \<Rightarrow>
          Some (m\<lparr>m_ctrl :=
            (if \<not> c_open c \<and> ml_flags (c_mlp c) AND MAIN_LOOP_FLAG_CTRL_END_ON_HUP \<noteq> 0
             then c\<lparr>c_terminate := True\<rparr> else c)\<rparr>))"

definition hup_and_data ::
  "('t, 's) deps \<Rightarrow> ('t, 's) mstate \<Rightarrow> poll_result \<Rightarrow> round_end \<times> ('t, 's) mstate"
where
  "hup_and_data d m p =
     (let m2 = (if p_ctrl_hup p then m\<lparr>m_ctrl := (m_ctrl m)\<lparr>c_open := False\<rparr>\<rparr> else m) in
      if p_ctrl_hup p \<and> has_flag m2 MAIN_LOOP_FLAG_CTRL_END_ON_HUP
      then (Break, m2\<lparr>m_ctrl := (m_ctrl m2)\<lparr>c_terminate := True\<rparr>\<rparr>)
      else case p_data_in p of
        None \<Rightarrow> (Continue, m2)
      | Some (reads, writes) \<Rightarrow> data_round d m2 reads writes)"

definition ctrl_round ::
  "('t, 's) deps \<Rightarrow> ('t, 's) mstate \<Rightarrow> poll_result \<Rightarrow> (round_end \<times> ('t, 's) mstate) option"
where
  "ctrl_round d m p =
     (case p_ctrl_in p of
        None \<Rightarrow> Some (hup_and_data d m p)
      | Some (events, cmsg_fd) \<Rightarrow>
          (case ctrl_input d m events cmsg_fd of
             None \<Rightarrow> None
           | Some m1 \<Rightarrow>
               if c_terminate (m_ctrl m1) then Some (Break, m1)
               else Some (hup_and_data d m1 p)))"

text \<open>New clients; \<open>accept\<close> is only reached while there is none.\<close>

definition accept_clients :: "('t, 's) mstate \<Rightarrow> poll_result \<Rightarrow> ('t, 's) mstate" where
  "accept_clients m p =
     (let m2 = (case p_data_accept p of
                  None \<Rightarrow> m | Some fd \<Rightarrow> if m_conn m < 0 then m\<lparr>m_conn := fd\<rparr> else m)
      in case p_ctrl_accept p of
           None \<Rightarrow> m2
         | Some ok \<Rightarrow>
             if c_open (m_ctrl m2) then m2 else m2\<lparr>m_ctrl := (m_ctrl m2)\<lparr>c_open := ok\<rparr>\<rparr>)"

definition mainloop_round ::
  "('t, 's) deps \<Rightarrow> ('t, 's) mstate \<Rightarrow> poll_result \<Rightarrow> (round_end \<times> ('t, 's) mstate) option"
where
  "mainloop_round d m p =
     (let m0 = (if has_flag m MAIN_LOOP_FLAG_USE_FD \<and> m_conn m \<noteq> ml_fd (c_mlp (m_ctrl m))
                then m\<lparr>m_conn := ml_fd (c_mlp (m_ctrl m))\<rparr> else m);
          ms = (if p_signal p then sigterm_handler m0 else m0)
      in if p_fails p \<or> m_notify ms then Some (Break, disconnect ms)
         else
           let ml = (if p_signal_late p then sigterm_handler ms else ms);
               m1 = (if p_data_hup p then upd_mlp ml (\<lambda>mlp. mlp\<lparr>ml_fd := -1\<rparr>) else ml)
           in if p_data_hup p \<and> has_flag m1 MAIN_LOOP_FLAG_END_ON_HUP
              then Some (Break, m1\<lparr>m_ctrl := (m_ctrl m1)\<lparr>c_terminate := True\<rparr>\<rparr>)
              else ctrl_round d (accept_clients m1 p) p)"

subsection \<open>The server\<close>

text \<open>Before the loop: the Startup command, if one was asked for on the command line.\<close>

definition mainloop_startup :: "('t, 's) deps \<Rightarrow> ('t, 's) mstate \<Rightarrow> ('t, 's) mstate" where
  "mainloop_startup d m =
     (let c = m_ctrl m; mlp = c_mlp c in
      if startupType mlp = 0 then m
      else case tpmlib_create_startup_cmd (startupType mlp) (tpmversion mlp)
                  (replicate (m_bufsize m) 0) of
        (buffer, command_length) \<Rightarrow>
          if command_length = 0 then m\<lparr>m_ctrl := c\<lparr>c_terminate := True\<rparr>\<rparr>
          else
            let command = take command_length buffer in
            case lt_Process (base_lib d) (c_world c) command of
              ((rc, rsp), w) \<Rightarrow>
                let c1 = c\<lparr>c_world := w, c_mlp := mlp\<lparr>lastCommand := tpmlib_get_cmd_ordinal command\<rparr>\<rparr>
                in m\<lparr>m_ctrl := (if rc \<noteq> 0 then c1\<lparr>c_terminate := True\<rparr> else c1),
                     m_resp := \<lparr>rbuffer = Some rsp, rlength = of_nat (length rsp),
                                rTotal = of_nat (length rsp)\<rparr>\<rparr>)"

text \<open>After the loop: TPM2_Shutdown, unless that is switched off.\<close>

definition mainloop_finish :: "('t, 's) deps \<Rightarrow> ('t, 's) mstate \<Rightarrow> ('t, 's) mstate" where
  "mainloop_finish d m =
     (let c = m_ctrl m; mlp = c_mlp c in
      (if c_running c \<and> \<not> disable_auto_shutdown mlp
       then (case tpmlib_maybe_send_tpm2_shutdown (base_lib d) (tpmversion mlp) (c_world c)
                    (lastCommand mlp) of
               (w, lc, sent) \<Rightarrow>
                 m\<lparr>m_ctrl := c\<lparr>c_world := w, c_mlp := mlp\<lparr>lastCommand := lc, ml_fd := -1\<rparr>,
                              c_open := False\<rparr>\<rparr>)
       else m\<lparr>m_ctrl := c\<lparr>c_mlp := mlp\<lparr>ml_fd := -1\<rparr>, c_open := False\<rparr>\<rparr>))"

text \<open>
  The two nested loops: \<open>True\<close> in the second component of a state says that the server goes
  on. After the inner loop ends, the server stops on \<open>g_mainloop_terminate\<close> or, started with
  \<open>MAIN_LOOP_FLAG_TERMINATE\<close>, without a connection.
\<close>

definition mainloop_next ::
  "('t, 's) deps \<Rightarrow> ('t, 's) mstate \<Rightarrow> poll_result \<Rightarrow> (bool \<times> ('t, 's) mstate) option"
where
  "mainloop_next d m p =
     (case mainloop_round d m p of
        None \<Rightarrow> None
      | Some (Continue, m1) \<Rightarrow> Some (True, m1)
      | Some (Break, m1) \<Rightarrow>
          if m_conn m1 < 0 \<and> has_flag m1 MAIN_LOOP_FLAG_TERMINATE then Some (False, m1)
          else Some (\<not> c_terminate (m_ctrl m1), m1))"

inductive server_steps ::
  "('t, 's) deps \<Rightarrow> ('t, 's) mstate \<Rightarrow> bool \<Rightarrow> ('t, 's) mstate \<Rightarrow> bool"
  for d :: "('t, 's) deps"
where
  server_start: "server_steps d m (\<not> c_terminate (m_ctrl m)) m"
| server_step: "server_steps d m True m1 \<Longrightarrow> mainloop_next d m1 p = Some (go_on, m2) \<Longrightarrow>
    server_steps d m go_on m2"

text \<open>
  The function as a whole, on the results of the coming \<open>poll\<close> calls: \<open>Some (True, m)\<close> is a
  server that waits in \<open>poll\<close> after them, \<open>Some (False, m)\<close> one that has returned.
\<close>

fun mainloop_run ::
  "('t, 's) deps \<Rightarrow> ('t, 's) mstate \<Rightarrow> poll_result list \<Rightarrow> (bool \<times> ('t, 's) mstate) option"
where
  "mainloop_run d m [] = Some (True, m)"
| "mainloop_run d m (p # ps) =
     (case mainloop_next d m p of
        None \<Rightarrow> None
      | Some (go_on, m1) \<Rightarrow> if go_on then mainloop_run d m1 ps else Some (False, m1))"

definition mainLoop ::
  "('t, 's) deps \<Rightarrow> ('t, 's) mstate \<Rightarrow> poll_result list \<Rightarrow> (bool \<times> ('t, 's) mstate) option"
where
  "mainLoop d m ps =
     (let m0 = mainloop_startup d m in
      case (if c_terminate (m_ctrl m0) then Some (False, m0) else mainloop_run d m0 ps) of
        None \<Rightarrow> None
      | Some (go_on, m1) \<Rightarrow> Some (go_on, if go_on then m1 else mainloop_finish d m1))"

lemma mainloop_run_steps:
  "mainloop_run d m1 ps = Some (go_on, m2) \<Longrightarrow> server_steps d m True m1 \<Longrightarrow> server_steps d m go_on m2"
proof (induction ps arbitrary: m1)
  case (Cons p ps)
  obtain g m3 where n: "mainloop_next d m1 p = Some (g, m3)"
    using Cons.prems(1) by (auto split: option.splits)
  have s: "server_steps d m g m3" by (rule server_step [OF Cons.prems(2) n])
  show ?case using Cons.IH [of m3] Cons.prems(1) n s by (cases g) auto
qed simp

lemma mainLoop_steps:
  assumes "mainLoop d m ps = Some (go_on, m')"
  obtains m1 where "server_steps d (mainloop_startup d m) go_on m1"
    and "m' = (if go_on then m1 else mainloop_finish d m1)"
proof (cases "c_terminate (m_ctrl (mainloop_startup d m))")
  case True
  then show ?thesis using assms that [of "mainloop_startup d m"] server_start [of d "mainloop_startup d m"]
    by (auto simp: mainLoop_def Let_def)
next
  case False
  then show ?thesis using assms that server_start [of d "mainloop_startup d m"]
    by (fastforce simp: mainLoop_def Let_def split: option.splits prod.splits intro: mainloop_run_steps)
qed

end
