(* ===== verification/Backend.thy ===== *)
theory Backend
  imports Nvstore
begin

section \<open>The contract of a storage backend\<close>

text \<open>
  What \<open>swtpm_nvstore.c\<close> relies on of a \<open>struct nvram_backend_ops\<close>, as a locale: the
  backend's state abstracts to a partial map from names to blobs (\<open>content\<close>), which a
  successful store or delete updates at one name, and which load reads. \<open>inv\<close> is the
  backend's invariant; \<open>calm\<close> says that the operating system will not fail the next calls;
  \<open>name_ok\<close> and \<open>data_ok\<close> are the names and blobs the contract covers.

  On top of any such backend the NVRAM layer is a map from names to plain data: what is
  stored is loaded back, whatever the keys are, other names are not touched, and a state
  blob fetched for migration carries exactly the stored data to an instance with the same
  keys.
\<close>

subsection \<open>Runs of the layer and their specification\<close>

datatype nv_op = NvStore string bytes | NvDelete string

fun nv_exec :: "crypto \<Rightarrow> 's nvram_backend_ops \<Rightarrow> u32 \<Rightarrow> 's nvstate \<Rightarrow> nv_op
    \<Rightarrow> TPM_RESULT \<times> 's nvstate" where
  "nv_exec cr ops n nv (NvStore name d) = SWTPM_NVRAM_StoreData cr ops nv d n name"
| "nv_exec cr ops n nv (NvDelete name) = SWTPM_NVRAM_DeleteName ops nv n name False"

fun nv_run :: "crypto \<Rightarrow> 's nvram_backend_ops \<Rightarrow> u32 \<Rightarrow> 's nvstate \<Rightarrow> nv_op list
    \<Rightarrow> 's nvstate option" where
  "nv_run cr ops n nv [] = Some nv"
| "nv_run cr ops n nv (c # cs) =
     (case nv_exec cr ops n nv c of (rc, nv') \<Rightarrow> if rc = 0 then nv_run cr ops n nv' cs else None)"

fun nv_apply :: "(string \<Rightarrow> bytes option) \<Rightarrow> nv_op \<Rightarrow> string \<Rightarrow> bytes option" where
  "nv_apply m (NvStore name d) = m(name := Some d)"
| "nv_apply m (NvDelete name) = m(name := None)"

fun nv_spec :: "(string \<Rightarrow> bytes option) \<Rightarrow> nv_op list \<Rightarrow> string \<Rightarrow> bytes option" where
  "nv_spec m [] = m"
| "nv_spec m (c # cs) = nv_spec (nv_apply m c) cs"

fun nv_op_ok :: "(string \<Rightarrow> bool) \<Rightarrow> nat \<Rightarrow> nv_op \<Rightarrow> bool" where
  "nv_op_ok name_ok limit (NvStore name d) = (name_ok name \<and> length d \<le> limit)"
| "nv_op_ok name_ok limit (NvDelete name) = name_ok name"

text \<open>The names of the three state blobs; the backend is only called with these.\<close>

definition state_name :: "string \<Rightarrow> bool" where
  "state_name name \<longleftrightarrow>
     name \<in> {TPM_PERMANENT_ALL_NAME, TPM_VOLATILESTATE_NAME, TPM_SAVESTATE_NAME}"

subsection \<open>The contract\<close>

locale nvram_backend =
  fixes ops :: "'s nvram_backend_ops"
    and inv :: "tpmstate \<Rightarrow> 's \<Rightarrow> bool"
    and content :: "tpmstate \<Rightarrow> 's \<Rightarrow> u32 \<Rightarrow> string \<Rightarrow> bytes option"
    and calm :: "'s \<Rightarrow> bool"
    and name_ok :: "string \<Rightarrow> bool"
    and data_ok :: "bytes \<Rightarrow> bool"
  assumes load_content:
      "inv ts s \<Longrightarrow> calm s \<Longrightarrow> name_ok name \<Longrightarrow>
       fst (op_load ops ts s n name (backend_uri ts)) =
         (case content ts s n name of None \<Rightarrow> Inl TPM_RETRY | Some d \<Rightarrow> Inr (Some d, length d))"
    and load_frame:
      "inv ts s \<Longrightarrow> calm s \<Longrightarrow> name_ok name \<Longrightarrow>
       op_load ops ts s n name (backend_uri ts) = (r, s') \<Longrightarrow>
       inv ts s' \<and> calm s' \<and> content ts s' = content ts s"
    and store_ok:
      "inv ts s \<Longrightarrow> name_ok name \<Longrightarrow> data_ok d \<Longrightarrow>
       op_store ops ts s d n name (backend_uri ts) f = (0, s') \<Longrightarrow>
       inv ts s' \<and> content ts s' n name = Some d
       \<and> (\<forall>m. name_ok m \<longrightarrow> m \<noteq> name \<longrightarrow> content ts s' n m = content ts s n m)"
    and store_calm:
      "inv ts s \<Longrightarrow> calm s \<Longrightarrow> name_ok name \<Longrightarrow> data_ok d \<Longrightarrow>
       op_store ops ts s d n name (backend_uri ts) f = (rc, s') \<Longrightarrow> rc = 0 \<and> calm s'"
    and delete_ok:
      "inv ts s \<Longrightarrow> name_ok name \<Longrightarrow>
       op_delete ops ts s n name me (backend_uri ts) = (0, s') \<Longrightarrow>
       inv ts s' \<and> content ts s' n name = None
       \<and> (\<forall>m. name_ok m \<longrightarrow> m \<noteq> name \<longrightarrow> content ts s' n m = content ts s n m)"
    and delete_calm:
      "inv ts s \<Longrightarrow> calm s \<Longrightarrow> name_ok name \<Longrightarrow>
       op_delete ops ts s n name False (backend_uri ts) = (rc, s') \<Longrightarrow> rc = 0 \<and> calm s'"
begin

text \<open>The invariant of the layer's state over the backend.\<close>

definition nv_inv :: "'s nvstate \<Rightarrow> bool" where
  "nv_inv nv \<longleftrightarrow> globals_wf (nv_globals nv) \<and> inv (nv_tpmstate nv) (nv_backend nv)"

text \<open>What loading a name gives: the backend's blob, opened with the file key.\<close>

definition nv_view :: "crypto \<Rightarrow> 's nvstate \<Rightarrow> u32 \<Rightarrow> string \<Rightarrow> TPM_RESULT + bytes" where
  "nv_view cr nv n name =
     (case content (nv_tpmstate nv) (nv_backend nv) n name of
        None \<Rightarrow> Inl TPM_RETRY
      | Some d \<Rightarrow> unseal_filedata cr (nv_globals nv) d)"

lemma unseal_same_key:
  "filekey g' = filekey g \<Longrightarrow> unseal_filedata cr g' d = unseal_filedata cr g d"
  by (simp add: unseal_filedata_def split: sum.split)

lemma LoadData_view:
  assumes "nv_inv nv" "calm (nv_backend nv)" "name_ok name"
  obtains nv' where "SWTPM_NVRAM_LoadData cr ops nv n name = (Some (nv_view cr nv n name), nv')"
    and "nv_inv nv'" "calm (nv_backend nv')" "nv_globals nv' = nv_globals nv"
    and "\<And>m. nv_view cr nv' n m = nv_view cr nv n m"
proof -
  let ?ts = "nv_tpmstate nv" and ?b = "nv_backend nv"
  obtain r b where l: "op_load ops ?ts ?b n name (backend_uri ?ts) = (r, b)" by fastforce
  have i: "inv ?ts ?b" using assms(1) by (simp add: nv_inv_def)
  have r: "r = (case content ?ts ?b n name of None \<Rightarrow> Inl TPM_RETRY | Some d \<Rightarrow> Inr (Some d, length d))"
    using load_content [OF i assms(2,3), of n] l by simp
  have fr: "inv ?ts b" "calm b" "content ?ts b = content ?ts ?b"
    using load_frame [OF i assms(2,3) l] by auto
  let ?nv = "nv\<lparr>nv_backend := b\<rparr>"
  have "SWTPM_NVRAM_LoadData cr ops nv n name = (Some (nv_view cr nv n name), ?nv)"
    using l r by (auto simp: SWTPM_NVRAM_LoadData_def Let_def nv_view_def split: option.splits)
  moreover have "nv_view cr ?nv n m = nv_view cr nv n m" for m
    using fr(3) by (simp add: nv_view_def split: option.split)
  ultimately show ?thesis
    using that [of ?nv] fr assms(1) by (simp add: nv_inv_def)
qed

lemma StoreData_view:
  assumes "crypto_ok cr" "nv_inv nv" "name_ok name" "length d + 2000 < 2 ^ 31"
    and "\<forall>out. 10 \<le> length out \<and> length out \<le> length d + 210 \<longrightarrow> data_ok out"
    and "SWTPM_NVRAM_StoreData cr ops nv d n name = (rc, nv')"
  shows "rc = 0 \<Longrightarrow> nv_inv nv'"
    and "rc = 0 \<Longrightarrow> nv_view cr nv' n name = Inr d"
    and "rc = 0 \<Longrightarrow> name_ok m \<Longrightarrow> m \<noteq> name \<Longrightarrow> nv_view cr nv' n m = nv_view cr nv n m"
    and "calm (nv_backend nv) \<Longrightarrow> rc = 0 \<and> calm (nv_backend nv')"
    and "nv_tpmstate nv' = nv_tpmstate nv"
    and "filekey (nv_globals nv') = filekey (nv_globals nv)"
    and "migrationkey (nv_globals nv') = migrationkey (nv_globals nv)"
proof -
  let ?ts = "nv_tpmstate nv" and ?b = "nv_backend nv" and ?g = "nv_globals nv"
  have i: "inv ?ts ?b" and wf: "globals_wf ?g" using assms(2) by (auto simp: nv_inv_def)
  obtain out g' where seal: "seal_filedata cr ?g d True = (Inr out, g')"
    and un: "unseal_filedata cr ?g out = Inr d"
    and len: "10 \<le> length out" "length out \<le> length d + 210"
    and g': "globals_wf g'" "filekey g' = filekey ?g" "migrationkey g' = migrationkey ?g"
    using seal_unseal [OF assms(1) wf assms(4)] by metis
  obtain b where st: "op_store ops ?ts ?b out n name (backend_uri ?ts) (g_tpmstate_do_fsync ?ts) = (rc, b)"
    and nv': "nv' = nv\<lparr>nv_globals := g', nv_backend := b\<rparr>"
    using assms(6) seal
    by (auto simp: SWTPM_NVRAM_StoreData_def SWTPM_NVRAM_StoreData_Intern_def Let_def
        split: prod.splits)
  have dok: "data_ok out" using assms(5) len by blast
  note ok = store_ok [OF i assms(3) dok]
  show "nv_tpmstate nv' = nv_tpmstate nv" "filekey (nv_globals nv') = filekey ?g"
    "migrationkey (nv_globals nv') = migrationkey ?g" using nv' g' by simp_all
  show "rc = 0 \<Longrightarrow> nv_inv nv'" using ok st nv' g'(1) by (auto simp: nv_inv_def)
  show "rc = 0 \<Longrightarrow> nv_view cr nv' n name = Inr d"
    using ok st nv' un unseal_same_key [OF g'(2)] by (auto simp: nv_view_def)
  show "rc = 0 \<Longrightarrow> name_ok m \<Longrightarrow> m \<noteq> name \<Longrightarrow> nv_view cr nv' n m = nv_view cr nv n m"
    using ok st nv' unseal_same_key [OF g'(2)]
    by (auto simp: nv_view_def split: option.splits)
  show "calm ?b \<Longrightarrow> rc = 0 \<and> calm (nv_backend nv')"
    using store_calm [OF i _ assms(3) dok st] nv' by simp
qed

lemma DeleteName_view:
  assumes "nv_inv nv" "name_ok name" "SWTPM_NVRAM_DeleteName ops nv n name me = (rc, nv')"
  shows "rc = 0 \<Longrightarrow> nv_inv nv'"
    and "rc = 0 \<Longrightarrow> nv_view cr nv' n name = Inl TPM_RETRY"
    and "rc = 0 \<Longrightarrow> name_ok m \<Longrightarrow> m \<noteq> name \<Longrightarrow> nv_view cr nv' n m = nv_view cr nv n m"
    and "calm (nv_backend nv) \<Longrightarrow> \<not> me \<Longrightarrow> rc = 0 \<and> calm (nv_backend nv')"
    and "nv_tpmstate nv' = nv_tpmstate nv" and "nv_globals nv' = nv_globals nv"
proof -
  let ?ts = "nv_tpmstate nv" and ?b = "nv_backend nv"
  have i: "inv ?ts ?b" using assms(1) by (simp add: nv_inv_def)
  obtain b where d: "op_delete ops ?ts ?b n name me (backend_uri ?ts) = (rc, b)"
    and nv': "nv' = nv\<lparr>nv_backend := b\<rparr>"
    using assms(3) by (auto simp: SWTPM_NVRAM_DeleteName_def Let_def split: prod.splits)
  show "nv_tpmstate nv' = nv_tpmstate nv" "nv_globals nv' = nv_globals nv"
    using nv' by simp_all
  show "rc = 0 \<Longrightarrow> nv_inv nv'" using delete_ok [OF i assms(2)] d nv' assms(1)
    by (auto simp: nv_inv_def)
  show "rc = 0 \<Longrightarrow> nv_view cr nv' n name = Inl TPM_RETRY"
    using delete_ok [OF i assms(2)] d nv' by (auto simp: nv_view_def)
  show "rc = 0 \<Longrightarrow> name_ok m \<Longrightarrow> m \<noteq> name \<Longrightarrow> nv_view cr nv' n m = nv_view cr nv n m"
    using delete_ok [OF i assms(2)] d nv' by (auto simp: nv_view_def split: option.splits)
  show "calm ?b \<Longrightarrow> \<not> me \<Longrightarrow> rc = 0 \<and> calm (nv_backend nv')"
    using delete_calm [OF i _ assms(2)] d nv' by simp
qed

lemma LoadData_fst:
  assumes "nv_inv nv" "calm (nv_backend nv)" "name_ok name"
  shows "fst (SWTPM_NVRAM_LoadData cr ops nv n name) = Some (nv_view cr nv n name)"
  using LoadData_view [OF assms, of cr n] by (metis fst_conv)

lemma store_then_load:
  assumes "crypto_ok cr" "nv_inv nv" "calm (nv_backend nv)" "name_ok name" "length d + 2000 < 2 ^ 31"
    and "\<forall>out. 10 \<le> length out \<and> length out \<le> length d + 210 \<longrightarrow> data_ok out"
    and "SWTPM_NVRAM_StoreData cr ops nv d n name = (rc, nv')"
  shows "rc = 0"
    and "fst (SWTPM_NVRAM_LoadData cr ops nv' n name) = Some (Inr d)"
    and "name_ok m \<Longrightarrow> m \<noteq> name \<Longrightarrow>
         fst (SWTPM_NVRAM_LoadData cr ops nv' n m) = fst (SWTPM_NVRAM_LoadData cr ops nv n m)"
proof -
  note st = StoreData_view [OF assms(1,2,4,5,6,7)]
  show rc: "rc = 0" using st(4) assms(3) by simp
  have c: "calm (nv_backend nv')" using st(4) assms(3) by simp
  show "fst (SWTPM_NVRAM_LoadData cr ops nv' n name) = Some (Inr d)"
    using LoadData_fst [OF st(1) [OF rc] c assms(4), of cr n] st(2) [OF rc] by simp
  show "name_ok m \<Longrightarrow> m \<noteq> name \<Longrightarrow>
         fst (SWTPM_NVRAM_LoadData cr ops nv' n m) = fst (SWTPM_NVRAM_LoadData cr ops nv n m)"
    using LoadData_fst [OF st(1) [OF rc] c, of m cr n] LoadData_fst [OF assms(2,3), of m cr n]
      st(3) [OF rc, of m] by simp
qed

text \<open>Every run of stores and deletes behaves as the abstract map.\<close>

definition nv_implements :: "crypto \<Rightarrow> 's nvstate \<Rightarrow> u32 \<Rightarrow> (string \<Rightarrow> bytes option) \<Rightarrow> bool" where
  "nv_implements cr nv n m \<longleftrightarrow>
     (\<forall>name. name_ok name \<longrightarrow> nv_view cr nv n name =
        (case m name of None \<Rightarrow> Inl TPM_RETRY | Some d \<Rightarrow> Inr d))"

lemma run_refines:
  assumes "crypto_ok cr" "nv_inv nv" "calm (nv_backend nv)" "nv_implements cr nv n m"
    and "\<forall>out. 10 \<le> length out \<and> length out \<le> limit + 210 \<longrightarrow> data_ok out"
    and "limit + 2000 < 2 ^ 31"
    and "list_all (nv_op_ok name_ok limit) cmds"
  shows "\<exists>nv'. nv_run cr ops n nv cmds = Some nv' \<and> nv_inv nv' \<and> calm (nv_backend nv')
           \<and> nv_implements cr nv' n (nv_spec m cmds)"
  using assms(2-4,7)
proof (induction cmds arbitrary: nv m)
  case Nil
  then show ?case by simp
next
  case (Cons c cmds)
  have "\<exists>nv1. nv_exec cr ops n nv c = (0, nv1) \<and> nv_inv nv1 \<and> calm (nv_backend nv1)
      \<and> nv_implements cr nv1 n (nv_apply m c)"
  proof (cases c)
    case (NvStore name d)
    then have ok: "name_ok name" "length d \<le> limit" using Cons.prems(4) by simp_all
    obtain rc nv1 where st: "SWTPM_NVRAM_StoreData cr ops nv d n name = (rc, nv1)" by fastforce
    have dok: "\<forall>out. 10 \<le> length out \<and> length out \<le> length d + 210 \<longrightarrow> data_ok out"
      using ok(2) assms(5) by simp
    have ld: "length d + 2000 < 2 ^ 31" using ok(2) assms(6) by simp
    note v = StoreData_view [OF assms(1) Cons.prems(1) ok(1) ld dok st]
    have "rc = 0" "calm (nv_backend nv1)" using v(4) Cons.prems(2) by auto
    then show ?thesis
      using v(1-3) st NvStore Cons.prems(3) by (auto simp: nv_implements_def)
  next
    case (NvDelete name)
    then have ok: "name_ok name" using Cons.prems(4) by simp
    obtain rc nv1 where st: "SWTPM_NVRAM_DeleteName ops nv n name False = (rc, nv1)" by fastforce
    note v = DeleteName_view [OF Cons.prems(1) ok st]
    have "rc = 0" "calm (nv_backend nv1)" using v(4) Cons.prems(2) by auto
    then show ?thesis
      using v(1-3) st NvDelete Cons.prems(3) by (auto simp: nv_implements_def)
  qed
  then obtain nv1 where c: "nv_exec cr ops n nv c = (0, nv1)" "nv_inv nv1"
    "calm (nv_backend nv1)" "nv_implements cr nv1 n (nv_apply m c)" by blast
  from Cons.IH [OF c(2-4)] Cons.prems(4) c(1) show ?case by simp
qed

lemma run_then_load:
  assumes "crypto_ok cr" "nv_inv nv" "calm (nv_backend nv)" "nv_implements cr nv n m"
    and "\<forall>out. 10 \<le> length out \<and> length out \<le> limit + 210 \<longrightarrow> data_ok out"
    and "limit + 2000 < 2 ^ 31" "list_all (nv_op_ok name_ok limit) cmds" "name_ok name"
  shows "\<exists>nv'. nv_run cr ops n nv cmds = Some nv' \<and>
    fst (SWTPM_NVRAM_LoadData cr ops nv' n name) =
      Some (case nv_spec m cmds name of None \<Rightarrow> Inl TPM_RETRY | Some d \<Rightarrow> Inr d)"
  using run_refines [OF assms(1-7)] LoadData_fst assms(8) by (metis nv_implements_def)

lemma GetStateBlob_migrates:
  assumes "crypto_ok cr" "nv_inv nv" "calm (nv_backend nv)" "name_ok name"
    and "nv_view cr nv n name = Inr d" "length d + 5000 < 2 ^ 31"
    and "tpmlib_blobtype_to_statetype blobtype = Some st"
  obtains blob enc nv' where
    "SWTPM_NVRAM_GetStateBlob cr ops nv n name decrypt = (Some (Inr blob), enc, nv')"
    and "enc = (\<not> decrypt \<and> SWTPM_NVRAM_Has_FileKey (nv_globals nv))"
    and "\<And>g lib t. filekey g = filekey (nv_globals nv) \<Longrightarrow>
         migrationkey g = migrationkey (nv_globals nv) \<Longrightarrow>
         SWTPM_NVRAM_SetStateBlob cr lib t g blob enc blobtype = TPMLIB_SetState lib t st (Some d)"
    and "10 < length blob" "length blob \<le> length d + 410"
    and "g_nvram_backend_ops nv' = g_nvram_backend_ops nv"
proof -
  obtain nv1 where l: "SWTPM_NVRAM_LoadData cr ops nv n name = (Some (Inr d), nv1)"
    and g1: "nv_globals nv1 = nv_globals nv"
    using LoadData_view [OF assms(2-4)] assms(5) by metis
  have wf: "globals_wf (nv_globals nv)" using assms(2) by (simp add: nv_inv_def)
  show ?thesis
  proof (rule SetStateBlob_of_layers [OF assms(1) wf assms(6,7), where decrypt = decrypt and 'a = 'a])
    fix buffer flags enc g1' blob g2
    assume a: "stateblob_inner cr (nv_globals nv) d decrypt = (Inr (buffer, flags), enc, g1')"
      "enc = (\<not> decrypt \<and> SWTPM_NVRAM_Has_FileKey (nv_globals nv))"
      "stateblob_outer cr g1' buffer flags enc = (Inr blob, g2)"
      and len: "10 < length blob" "length blob \<le> length d + 410"
      and s: "\<And>g3 lib (t :: 'a). filekey g3 = filekey (nv_globals nv) \<Longrightarrow>
         migrationkey g3 = migrationkey (nv_globals nv) \<Longrightarrow>
         SWTPM_NVRAM_SetStateBlob cr lib t g3 blob enc blobtype = TPMLIB_SetState lib t st (Some d)"
    have "SWTPM_NVRAM_GetStateBlob cr ops nv n name decrypt =
        (Some (Inr blob), enc, nv1\<lparr>nv_globals := g2\<rparr>)"
      using l g1 a by (simp add: SWTPM_NVRAM_GetStateBlob_def)
    moreover have "g_nvram_backend_ops nv1 = g_nvram_backend_ops nv"
      using l by (auto simp: SWTPM_NVRAM_LoadData_def Let_def split: if_splits prod.splits sum.splits option.splits)
    ultimately show ?thesis using that [OF _ a(2) s len] by simp
  qed
qed

end

end
