(* ===== verification/Dir.thy ===== *)
theory Dir
  imports Backend FileIO
begin

section \<open>The directory backend (src/src/swtpm/swtpm_nvstore_dir.c)\<close>

text \<open>
  Each state blob is a file \<open>tpm2-00.permall\<close> etc. of the state directory. A store writes a
  temporary file and renames it, or, with backups switched on, moves the permanent state
  aside before it writes the new one. Shown here: the contract of \<^verbatim>\<open>Backend\<close> holds, the
  store through a temporary file is atomic whatever the system calls do, the store with
  backup never loses the old state, and restoring a backup twice gives back the start.

  The static variable \<open>lock_fd\<close> is \<open>lock_held\<close> of the directory state (it is open or -1).
  All files of the model are regular files, so a failing \<open>stat\<close> is a fault.
\<close>

subsection \<open>File names\<close>

abbreviation FILENAME_MAX :: nat where "FILENAME_MAX \<equiv> 4096"
abbreviation TPM_FILENAME_MAX :: nat where "TPM_FILENAME_MAX \<equiv> 20"

definition SWTPM_NVRAM_Uri_to_Dir :: "string \<Rightarrow> string" where
  "SWTPM_NVRAM_Uri_to_Dir uri = drop (length ''dir://'') uri"

fun hex_digits :: "nat \<Rightarrow> string" where
  "hex_digits n =
     (if n < 16 then [''0123456789abcdef'' ! n]
      else hex_digits (n div 16) @ [''0123456789abcdef'' ! (n mod 16)])"

declare hex_digits.simps [simp del]

text \<open>The conversion \<open>%02lx\<close>.\<close>

definition fmt_02lx :: "nat \<Rightarrow> string" where
  "fmt_02lx n = (if n < 16 then CHR ''0'' # hex_digits n else hex_digits n)"

text \<open>\<open>snprintf\<close> into a buffer of \<open>bufsize\<close> bytes, a string that does not fit being an error.\<close>

definition snprintf :: "nat \<Rightarrow> string \<Rightarrow> TPM_RESULT + string" where
  "snprintf bufsize s = (if bufsize \<le> length s then Inl TPM_FAIL else Inr s)"

definition SWTPM_NVRAM_GetFilenameForName ::
  "tpmstate \<Rightarrow> nat \<Rightarrow> u32 \<Rightarrow> string \<Rightarrow> bool \<Rightarrow> TPM_RESULT + string"
where
  "SWTPM_NVRAM_GetFilenameForName ts bufsize tpm_number name is_tempfile =
     (let suffix = (case g_tpmstate_version ts of
                      TPMLIB_TPM_VERSION_1_2 \<Rightarrow> '''' | TPMLIB_TPM_VERSION_2 \<Rightarrow> ''2'')
      in snprintf bufsize ((if is_tempfile then ''TMP'' else ''tpm'') @ suffix @ ''-'' @
           fmt_02lx (unat tpm_number) @ ''.'' @ name))"

definition SWTPM_NVRAM_GetFilepathForName ::
  "tpmstate \<Rightarrow> nat \<Rightarrow> u32 \<Rightarrow> string \<Rightarrow> bool \<Rightarrow> string \<Rightarrow> TPM_RESULT + string"
where
  "SWTPM_NVRAM_GetFilepathForName ts bufsize tpm_number name is_tempfile tpm_state_path =
     (case SWTPM_NVRAM_GetFilenameForName ts FILENAME_MAX tpm_number name is_tempfile of
        Inl rc \<Rightarrow> Inl rc
      | Inr filename \<Rightarrow> snprintf bufsize (tpm_state_path @ ''/'' @ filename))"

definition SWTPM_NVRAM_CreateBackupFilename ::
  "string \<Rightarrow> nat \<Rightarrow> string \<Rightarrow> TPM_RESULT + string"
where
  "SWTPM_NVRAM_CreateBackupFilename filepath bakfile_len suffix =
     snprintf bakfile_len (filepath @ ''.'' @ suffix)"

subsection \<open>Validation, locking, preparation\<close>

definition SWTPM_NVRAM_Validate_Dir :: "string \<Rightarrow> TPM_RESULT" where
  "SWTPM_NVRAM_Validate_Dir tpm_state_path =
     (if length tpm_state_path + TPM_FILENAME_MAX > FILENAME_MAX then TPM_FAIL else TPM_SUCCESS)"

definition SWTPM_NVRAM_Unlock_Dir :: "dirstate \<Rightarrow> dirstate" where
  "SWTPM_NVRAM_Unlock_Dir s = s\<lparr>lock_held := False\<rparr>"

text \<open>The loop around \<open>fcntl(F_SETLK)\<close>; the sleep between the attempts has no state.\<close>

fun lock_retry :: "nat \<Rightarrow> dirstate \<Rightarrow> TPM_RESULT \<times> dirstate" where
  "lock_retry retries s =
     (case next_fault s of (f, s1) \<Rightarrow>
        if \<not> failed f then (TPM_SUCCESS, s1)
        else case retries of
          0 \<Rightarrow> (TPM_FAIL, SWTPM_NVRAM_Unlock_Dir s1)
        | Suc r \<Rightarrow> lock_retry r s1)"

declare lock_retry.simps [simp del]

definition SWTPM_NVRAM_Lock_Dir :: "tpmstate \<Rightarrow> dirstate \<Rightarrow> string \<Rightarrow> nat \<Rightarrow> TPM_RESULT \<times> dirstate" where
  "SWTPM_NVRAM_Lock_Dir ts s uri retries =
     (if lock_held s then (TPM_SUCCESS, s)
      else case next_fault s of (f, s0) \<Rightarrow>
        if failed f then (TPM_FAIL, s0)
        else
          let lockfile = SWTPM_NVRAM_Uri_to_Dir uri @ ''/.lock'' in
          case sys_open_trunc s0 lockfile 432 (umask s0) of
            (Some e, s1) \<Rightarrow> (TPM_FAIL, s1)
          | (None, s1) \<Rightarrow> lock_retry retries (s1\<lparr>lock_held := True\<rparr>))"

definition SWTPM_NVRAM_CheckState_Dir ::
  "tpmstate \<Rightarrow> dirstate \<Rightarrow> string \<Rightarrow> string \<Rightarrow> (TPM_RESULT + nat) \<times> dirstate"
where
  "SWTPM_NVRAM_CheckState_Dir ts s uri name =
     (case SWTPM_NVRAM_GetFilepathForName ts FILENAME_MAX 0 name False (SWTPM_NVRAM_Uri_to_Dir uri) of
        Inl rc \<Rightarrow> (Inl rc, s)
      | Inr filepath \<Rightarrow>
          (case next_fault s of (f, s1) \<Rightarrow>
             (if failed f then Inl TPM_FAIL
              else case files s1 filepath of
                None \<Rightarrow> Inl TPM_RETRY
              | Some x \<Rightarrow> Inr (length (i_data x)), s1)))"

definition SWTPM_NVRAM_Prepare_Dir :: "tpmstate \<Rightarrow> dirstate \<Rightarrow> string \<Rightarrow> TPM_RESULT \<times> dirstate" where
  "SWTPM_NVRAM_Prepare_Dir ts s uri = (SWTPM_NVRAM_Validate_Dir (SWTPM_NVRAM_Uri_to_Dir uri), s)"

definition SWTPM_NVRAM_Cleanup_Dir :: "dirstate \<Rightarrow> dirstate" where
  "SWTPM_NVRAM_Cleanup_Dir s = SWTPM_NVRAM_Unlock_Dir s"

subsection \<open>Load, store, delete\<close>

definition SWTPM_NVRAM_LoadData_Dir ::
  "tpmstate \<Rightarrow> dirstate \<Rightarrow> u32 \<Rightarrow> string \<Rightarrow> string \<Rightarrow> (TPM_RESULT + bytes option \<times> nat) \<times> dirstate"
where
  "SWTPM_NVRAM_LoadData_Dir ts s tpm_number name uri =
     (case SWTPM_NVRAM_GetFilepathForName ts FILENAME_MAX tpm_number name False
             (SWTPM_NVRAM_Uri_to_Dir uri) of
        Inl rc \<Rightarrow> (Inl rc, s)
      | Inr filepath \<Rightarrow>
          (case file_read s filepath (\<not> g_tpmstate_mode_is_default ts) (g_tpmstate_mode ts) of
             ((datalen, data, e), s1) \<Rightarrow>
               (if datalen < 0 then Inl (if e = ENOENT then TPM_RETRY else TPM_FAIL)
                else Inr (data, nat datalen), s1)))"

text \<open>The first branch of \<open>SWTPM_NVRAM_StoreData_Dir\<close>: the permanent state with a backup.\<close>

definition store_with_backup ::
  "tpmstate \<Rightarrow> dirstate \<Rightarrow> bytes \<Rightarrow> string \<Rightarrow> string \<Rightarrow> bool \<Rightarrow> TPM_RESULT \<times> dirstate"
where
  "store_with_backup ts s filedata filepath tpm_state_path do_fsync =
     (case SWTPM_NVRAM_CreateBackupFilename filepath FILENAME_MAX ''bak'' of
        Inl rc \<Rightarrow> (rc, s)
      | Inr bakfile \<Rightarrow>
          (case sys_access s filepath of (acc, s1) \<Rightarrow>
          (case (if acc = None then sys_rename s1 filepath bakfile else (None, s1)) of
             (Some e, s2) \<Rightarrow> (TPM_FAIL, s2)
           | (None, s2) \<Rightarrow>
               (case file_write s2 filepath (g_tpmstate_mode ts)
                       (\<not> g_tpmstate_mode_is_default ts) filedata do_fsync (Some tpm_state_path) of
                  (n, s3) \<Rightarrow> if n < 0 then (TPM_FAIL, snd (sys_rename s3 bakfile filepath))
                              else (TPM_SUCCESS, s3)))))"

text \<open>The second branch: a temporary file, renamed once it is complete.\<close>

definition store_with_tempfile ::
  "tpmstate \<Rightarrow> dirstate \<Rightarrow> bytes \<Rightarrow> string \<Rightarrow> string \<Rightarrow> string \<Rightarrow> bool \<Rightarrow> TPM_RESULT \<times> dirstate"
where
  "store_with_tempfile ts s filedata filepath tmpfile tpm_state_path do_fsync =
     (case file_write s tmpfile (g_tpmstate_mode ts)
             (\<not> g_tpmstate_mode_is_default ts) filedata do_fsync (Some tpm_state_path) of
        (n, s1) \<Rightarrow>
          if n < 0 then (TPM_FAIL, s1)
          else case sys_rename s1 tmpfile filepath of
            (Some e, s2) \<Rightarrow> (TPM_FAIL, snd (sys_unlink s2 tmpfile))
          | (None, s2) \<Rightarrow> (TPM_SUCCESS, s2))"

definition SWTPM_NVRAM_StoreData_Dir ::
  "tpmstate \<Rightarrow> dirstate \<Rightarrow> bytes \<Rightarrow> u32 \<Rightarrow> string \<Rightarrow> string \<Rightarrow> bool \<Rightarrow> TPM_RESULT \<times> dirstate"
where
  "SWTPM_NVRAM_StoreData_Dir ts s filedata tpm_number name uri do_fsync =
     (let tpm_state_path = SWTPM_NVRAM_Uri_to_Dir uri in
      case SWTPM_NVRAM_GetFilepathForName ts FILENAME_MAX tpm_number name False tpm_state_path of
        Inl rc \<Rightarrow> (rc, s)
      | Inr filepath \<Rightarrow>
          if g_tpmstate_make_backup ts \<and> name = TPM_PERMANENT_ALL_NAME
          then store_with_backup ts s filedata filepath tpm_state_path do_fsync
          else case SWTPM_NVRAM_GetFilepathForName ts FILENAME_MAX tpm_number name True
                      tpm_state_path of
            Inl rc \<Rightarrow> (rc, s)
          | Inr tmpfile \<Rightarrow>
              store_with_tempfile ts s filedata filepath tmpfile tpm_state_path do_fsync)"

definition SWTPM_NVRAM_DeleteName_Dir ::
  "tpmstate \<Rightarrow> dirstate \<Rightarrow> u32 \<Rightarrow> string \<Rightarrow> bool \<Rightarrow> string \<Rightarrow> TPM_RESULT \<times> dirstate"
where
  "SWTPM_NVRAM_DeleteName_Dir ts s tpm_number name mustExist uri =
     (case SWTPM_NVRAM_GetFilepathForName ts FILENAME_MAX tpm_number name False
             (SWTPM_NVRAM_Uri_to_Dir uri) of
        Inl rc \<Rightarrow> (rc, s)
      | Inr filepath \<Rightarrow>
          (case sys_unlink s filepath of
             (None, s1) \<Rightarrow> (TPM_SUCCESS, s1)
           | (Some e, s1) \<Rightarrow>
               (if mustExist \<or> e \<noteq> ENOENT then TPM_FAIL else TPM_SUCCESS, s1)))"

subsection \<open>Backups\<close>

definition SWTPM_NVRAM_RestoreBackupPreStart_Dir ::
  "tpmstate \<Rightarrow> dirstate \<Rightarrow> string \<Rightarrow> TPM_RESULT \<times> dirstate"
where
  "SWTPM_NVRAM_RestoreBackupPreStart_Dir ts s uri =
     (case SWTPM_NVRAM_GetFilepathForName ts FILENAME_MAX 0 TPM_PERMANENT_ALL_NAME False
             (SWTPM_NVRAM_Uri_to_Dir uri) of
        Inl rc \<Rightarrow> (rc, s)
      | Inr filepath \<Rightarrow>
          (case sys_access s filepath of
             (Some ENOENT, s1) \<Rightarrow>
               (case SWTPM_NVRAM_CreateBackupFilename filepath FILENAME_MAX ''bak'' of
                  Inl rc \<Rightarrow> (rc, s1)
                | Inr bakfile \<Rightarrow>
                    (case sys_access s1 bakfile of
                       (None, s2) \<Rightarrow>
                         (case sys_rename s2 bakfile filepath of
                            (Some e, s3) \<Rightarrow> (TPM_FAIL, s3)
                          | (None, s3) \<Rightarrow> (TPM_SUCCESS, s3))
                     | (Some e, s2) \<Rightarrow> (TPM_SUCCESS, s2)))
           | (r, s1) \<Rightarrow> (TPM_SUCCESS, s1)))"

text \<open>The last step of \<open>SWTPM_NVRAM_RestoreBackup_Dir\<close>: the original becomes the backup.\<close>

definition restore_keep_original ::
  "dirstate \<Rightarrow> string \<Rightarrow> string \<Rightarrow> string \<Rightarrow> TPM_RESULT \<times> dirstate"
where
  "restore_keep_original s filepath bakfile bakfile2 =
     (case sys_rename s bakfile2 bakfile of
        (None, s1) \<Rightarrow> (TPM_SUCCESS, s1)
      | (Some e, s1) \<Rightarrow>
          (case sys_rename s1 filepath bakfile of
             (Some e', s2) \<Rightarrow> (TPM_FAIL, s2)
           | (None, s2) \<Rightarrow> (TPM_FAIL, snd (sys_rename s2 bakfile2 filepath))))"

definition restore_files :: "dirstate \<Rightarrow> string \<Rightarrow> string \<Rightarrow> string \<Rightarrow> TPM_RESULT \<times> dirstate" where
  "restore_files s filepath bakfile bakfile2 =
     (case sys_access s bakfile of
        (Some e, s1) \<Rightarrow> (TPM_FAIL, s1)
      | (None, s1) \<Rightarrow>
          (case sys_access s1 filepath of (access_res, s2) \<Rightarrow>
          (case (if access_res = None then sys_rename s2 filepath bakfile2 else (None, s2)) of
             (Some e, s3) \<Rightarrow> (TPM_FAIL, s3)
           | (None, s3) \<Rightarrow>
               (case sys_rename s3 bakfile filepath of
                  (Some e, s4) \<Rightarrow>
                    (TPM_FAIL, if access_res = None then snd (sys_rename s4 bakfile2 filepath) else s4)
                | (None, s4) \<Rightarrow>
                    if access_res = None then restore_keep_original s4 filepath bakfile bakfile2
                    else (TPM_SUCCESS, s4)))))"

definition SWTPM_NVRAM_RestoreBackup_Dir ::
  "tpmstate \<Rightarrow> dirstate \<Rightarrow> string \<Rightarrow> TPM_RESULT \<times> dirstate"
where
  "SWTPM_NVRAM_RestoreBackup_Dir ts s uri =
     (case SWTPM_NVRAM_GetFilepathForName ts FILENAME_MAX 0 TPM_PERMANENT_ALL_NAME False
             (SWTPM_NVRAM_Uri_to_Dir uri) of
        Inl rc \<Rightarrow> (rc, s)
      | Inr filepath \<Rightarrow>
          (case SWTPM_NVRAM_CreateBackupFilename filepath FILENAME_MAX ''bak'' of
             Inl rc \<Rightarrow> (rc, s)
           | Inr bakfile \<Rightarrow>
               (case SWTPM_NVRAM_CreateBackupFilename filepath FILENAME_MAX ''tmp'' of
                  Inl rc \<Rightarrow> (rc, s)
                | Inr bakfile2 \<Rightarrow> restore_files s filepath bakfile bakfile2)))"

definition nvram_dir_ops :: "dirstate nvram_backend_ops" where
  "nvram_dir_ops =
     \<lparr>op_prepare = SWTPM_NVRAM_Prepare_Dir, op_lock = SWTPM_NVRAM_Lock_Dir,
      op_unlock = SWTPM_NVRAM_Unlock_Dir, op_load = SWTPM_NVRAM_LoadData_Dir,
      op_store = SWTPM_NVRAM_StoreData_Dir, op_delete = SWTPM_NVRAM_DeleteName_Dir,
      op_check_state = SWTPM_NVRAM_CheckState_Dir,
      op_restore_backup_pre_start = Some SWTPM_NVRAM_RestoreBackupPreStart_Dir,
      op_restore_backup = Some SWTPM_NVRAM_RestoreBackup_Dir,
      op_cleanup = SWTPM_NVRAM_Cleanup_Dir\<rparr>"

subsection \<open>Paths\<close>

lemma length_hex_digits: "n < 16 ^ Suc k \<Longrightarrow> length (hex_digits n) \<le> Suc k"
proof (induction k arbitrary: n)
  case 0
  then show ?case by (simp add: hex_digits.simps [of n])
next
  case (Suc k)
  then have "n div 16 < 16 ^ Suc k" by (simp add: less_mult_imp_div_less)
  then show ?case using Suc.IH by (simp add: hex_digits.simps [of n])
qed

lemma length_fmt_02lx: "length (fmt_02lx (unat (n :: u32))) \<le> 8"
proof -
  have "unat n < 16 ^ Suc 7" using unat_u32_bound [of n] by simp
  then show ?thesis
    using length_hex_digits [of "unat n" 7] length_hex_digits [of "unat n" 0]
    by (auto simp: fmt_02lx_def)
qed

definition state_path :: "tpmstate \<Rightarrow> u32 \<Rightarrow> string \<Rightarrow> bool \<Rightarrow> string" where
  "state_path ts n name is_tempfile =
     SWTPM_NVRAM_Uri_to_Dir (backend_uri ts) @ ''/'' @ (if is_tempfile then ''TMP'' else ''tpm'') @
       (case g_tpmstate_version ts of TPMLIB_TPM_VERSION_1_2 \<Rightarrow> '''' | TPMLIB_TPM_VERSION_2 \<Rightarrow> ''2'') @
       ''-'' @ fmt_02lx (unat n) @ ''.'' @ name"

definition dir_inv :: "tpmstate \<Rightarrow> dirstate \<Rightarrow> bool" where
  "dir_inv ts s \<longleftrightarrow> length (SWTPM_NVRAM_Uri_to_Dir (backend_uri ts)) + 40 \<le> FILENAME_MAX"

definition dir_calm :: "dirstate \<Rightarrow> bool" where
  "dir_calm s \<longleftrightarrow> faults s = []"

definition dir_content :: "tpmstate \<Rightarrow> dirstate \<Rightarrow> u32 \<Rightarrow> string \<Rightarrow> bytes option" where
  "dir_content ts s n name = map_option i_data (files s (state_path ts n name False))"

lemma filepath_ok:
  assumes "dir_inv ts s" "state_name name"
  shows "SWTPM_NVRAM_GetFilepathForName ts FILENAME_MAX n name t
           (SWTPM_NVRAM_Uri_to_Dir (backend_uri ts)) = Inr (state_path ts n name t)"
    and "length (state_path ts n name t) + 4 < FILENAME_MAX"
  using assms length_fmt_02lx [of n]
  by (auto simp: SWTPM_NVRAM_GetFilepathForName_def SWTPM_NVRAM_GetFilenameForName_def
      snprintf_def state_path_def dir_inv_def state_name_def Let_def
      split: TPMLIB_TPMVersion.splits)

lemma bakpath_ok:
  assumes "dir_inv ts s" "state_name name" "length suffix = 3"
  shows "SWTPM_NVRAM_CreateBackupFilename (state_path ts n name t) FILENAME_MAX suffix =
           Inr (state_path ts n name t @ ''.'' @ suffix)"
  using filepath_ok(2) [OF assms(1,2), of n t] assms(3)
  by (simp add: SWTPM_NVRAM_CreateBackupFilename_def snprintf_def)

lemma state_path_eq [simp]:
  "state_path ts n a t = state_path ts n b u \<longleftrightarrow> a = b \<and> t = u"
  by (auto simp: state_path_def)

lemma state_path_bak [simp]:
  assumes "state_name a" "state_name b"
  shows "state_path ts n a False \<noteq> state_path ts n b False @ ''.bak''"
    and "state_path ts n b False @ ''.bak'' \<noteq> state_path ts n a False"
  using assms by (auto simp: state_path_def state_name_def)

lemma dir_inv_any: "dir_inv ts s \<Longrightarrow> dir_inv ts s'"
  by (simp add: dir_inv_def)

subsection \<open>The store through a temporary file, with any faults\<close>

lemma tempfile_store:
  assumes "store_with_tempfile ts s d p q dir do_fsync = (rc, s')" "p \<noteq> q"
  shows "touches {p, q} s s'"
    and "rc = 0 \<Longrightarrow> map_option i_data (files s' p) = Some d"
    and "rc \<noteq> 0 \<Longrightarrow> files s' p = files s p"
    and "\<exists>h. hist s' = h @ hist s \<and> (\<forall>m\<in>set h. m p = files s p \<or> map_option i_data (m p) = Some d)"
proof -
  obtain n s1 where w: "file_write s q (g_tpmstate_mode ts) (\<not> g_tpmstate_mode_is_default ts) d
      do_fsync (Some dir) = (n, s1)" by fastforce
  note t1 = file_write_spec(1) [OF w] and d1 = file_write_spec(2) [OF w]
  obtain r s2 where mv: "sys_rename s1 q p = (r, s2)" by fastforce
  have keep1: "files s1 p = files s p" using touches_files [OF t1] assms(2) by simp
  have h1: "\<exists>h. hist s1 = h @ hist s \<and> (\<forall>m\<in>set h. m p = files s p)"
    using t1 assms(2) by (auto simp: touches_def)
  have "touches {p, q} s s' \<and> (rc = 0 \<longrightarrow> map_option i_data (files s' p) = Some d) \<and>
     (rc \<noteq> 0 \<longrightarrow> files s' p = files s p) \<and>
     (\<exists>h. hist s' = h @ hist s \<and> (\<forall>m\<in>set h. m p = files s p \<or> map_option i_data (m p) = Some d))"
  proof (cases "n < 0")
    case True
    then have "rc = TPM_FAIL" "s' = s1" using assms(1) w by (auto simp: store_with_tempfile_def)
    then show ?thesis using keep1 h1 touches_mono [OF t1, of "{p, q}"] by auto
  next
    case ok: False
    then obtain x where x: "files s1 q = Some x" "i_data x = d" using d1 by auto
    show ?thesis
    proof (cases r)
      case None
      then have rc: "rc = 0" "s' = s2" using assms(1) w ok mv by (auto simp: store_with_tempfile_def)
      have s2: "files s2 p = Some x" "hist s2 = files s2 # hist s1"
        using mv None x
        by (auto simp: sys_rename_def set_files_def next_fault_same
            split: prod.splits if_splits option.splits)
      have "touches {p, q} s s2"
        by (rule touches_trans [OF touches_mono [OF t1]])
          (use sys_rename_touches [OF mv] in \<open>auto simp: insert_commute\<close>)
      moreover obtain h where "hist s1 = h @ hist s" "\<forall>m\<in>set h. m p = files s p" using h1 by blast
      then have "hist s2 = (files s2 # h) @ hist s \<and>
          (\<forall>m\<in>set (files s2 # h). m p = files s p \<or> map_option i_data (m p) = Some d)"
        using s2 x by auto
      ultimately show ?thesis using rc s2 x by (metis option.simps(9))
    next
      case (Some e)
      then have rc: "rc = TPM_FAIL" "s' = snd (sys_unlink s2 q)"
        using assms(1) w ok mv by (auto simp: store_with_tempfile_def)
      have f2: "files s2 = files s1" "hist s2 = hist s1"
        using mv Some by (auto simp: sys_rename_def next_fault_same
            split: prod.splits if_splits option.splits)
      have u: "touches {q} s2 s'" using rc sys_unlink_touches by (metis prod.collapse)
      have t: "touches {q} s s'"
        by (intro touches_trans [OF t1] touches_trans [OF touches_same u]) (simp_all add: f2)
      then have "\<exists>h. hist s' = h @ hist s \<and> (\<forall>m\<in>set h. m p = files s p)"
        using assms(2) by (auto simp: touches_def)
      then show ?thesis using rc touches_mono [OF t, of "{p, q}"] touches_files [OF t, of p] assms(2)
        by auto
    qed
  qed
  then show "touches {p, q} s s'"
    and "rc = 0 \<Longrightarrow> map_option i_data (files s' p) = Some d"
    and "rc \<noteq> 0 \<Longrightarrow> files s' p = files s p"
    and "\<exists>h. hist s' = h @ hist s \<and> (\<forall>m\<in>set h. m p = files s p \<or> map_option i_data (m p) = Some d)"
    by auto
qed

subsection \<open>The store with a backup\<close>

text \<open>
  Unless the first \<open>access\<close> fails on an existing file, the old permanent state is at every
  moment either still in place or in the backup file, and a successful store leaves it in
  the backup file.
\<close>

lemma backup_store:
  assumes "store_with_backup ts s d p dir do_fsync = (rc, s')"
    and "SWTPM_NVRAM_CreateBackupFilename p FILENAME_MAX ''bak'' = Inr b" "p \<noteq> b"
  shows "touches {p, b} s s'"
    and "rc = 0 \<Longrightarrow> map_option i_data (files s' p) = Some d"
    and "\<not> failed (fst (next_fault s)) \<Longrightarrow> files s p = Some x \<Longrightarrow>
         (rc = 0 \<longrightarrow> files s' b = Some x) \<and>
         (\<exists>h. hist s' = h @ hist s \<and> (\<forall>m\<in>set (files s' # h). m p = Some x \<or> m b = Some x))"
proof -
  obtain acc s1 where a: "sys_access s p = (acc, s1)" by fastforce
  obtain r s2 where mv: "(if acc = None then sys_rename s1 p b else (None, s1)) = (r, s2)" by fastforce
  obtain n s3 where w: "file_write s2 p (g_tpmstate_mode ts) (\<not> g_tpmstate_mode_is_default ts) d
      do_fsync (Some dir) = (n, s3)" by fastforce
  obtain r4 s4 where rev: "sys_rename s3 b p = (r4, s4)" by fastforce
  have out: "(rc, s') = (if r \<noteq> None then (TPM_FAIL, s2)
      else if n < 0 then (TPM_FAIL, s4) else (TPM_SUCCESS, s3))"
    using assms(1,2) a mv w rev by (auto simp: store_with_backup_def split: option.splits if_splits)
  have t1: "touches B s s1" for B by (rule sys_access_touches [OF a])
  have t2: "touches {p, b} s1 s2" using mv sys_rename_touches by (auto split: if_splits)
  have t3: "touches {p} s2 s3" by (rule file_write_spec(1) [OF w])
  have t4: "touches {p, b} s3 s4" using sys_rename_touches [OF rev] by (simp add: insert_commute)
  note t12 = touches_trans [OF t1 t2]
  note t123 = touches_trans [OF t12 touches_mono [OF t3]]
  show "touches {p, b} s s'"
    using out t12 t123 touches_trans [OF t123 t4] by (auto split: if_splits)
  show "rc = 0 \<Longrightarrow> map_option i_data (files s' p) = Some d"
    using out file_write_spec(2) [OF w] by (auto split: if_splits)
  assume nf: "\<not> failed (fst (next_fault s))" and x: "files s p = Some x"
  have acc: "acc = None" "files s1 = files s" "hist s1 = hist s"
    using a nf x by (auto simp: sys_access_def next_fault_same split: prod.splits)
  have s2: "files s2 = files s \<and> hist s2 = hist s" if "r \<noteq> None"
    using mv acc that by (auto simp: sys_rename_def next_fault_same
        split: prod.splits if_splits option.splits)
  have s2': "files s2 b = Some x \<and> hist s2 = [files s2] @ hist s" if "r = None"
    using mv acc that x by (auto simp: sys_rename_def next_fault_same set_files_def
        split: prod.splits if_splits option.splits)
  obtain h3 where h3: "hist s3 = h3 @ hist s2" "\<forall>m\<in>set (files s3 # h3). m b = files s2 b"
    using t3 assms(3) by (auto simp: touches_def)
  have s4: "hist s4 = hist s3 \<and> files s4 = files s3 \<or>
      hist s4 = files s4 # hist s3 \<and> files s4 p = files s3 b"
    using rev by (auto simp: sys_rename_def next_fault_same set_files_def
        split: prod.splits if_splits option.splits)
  show "(rc = 0 \<longrightarrow> files s' b = Some x) \<and>
     (\<exists>h. hist s' = h @ hist s \<and> (\<forall>m\<in>set (files s' # h). m p = Some x \<or> m b = Some x))"
  proof (cases "r = None")
    case False
    then show ?thesis using out s2 x by auto
  next
    case True
    note s2'' = s2' [OF True]
    have "hist s3 = (h3 @ [files s2]) @ hist s" using h3 s2'' by simp
    moreover have "\<forall>m\<in>set (files s3 # h3 @ [files s2]). m b = Some x" using h3 s2'' by auto
    moreover have "\<exists>h. hist s4 = h @ hist s3 \<and> (\<forall>m\<in>set (files s4 # h). m p = Some x \<or> m b = Some x)"
      using s4 h3(2) s2'' by auto
    ultimately show ?thesis using out True by (auto split: if_splits)
  qed
qed

subsection \<open>The contract\<close>

lemma store_dir_cases:
  assumes "dir_inv ts s" "state_name name"
  shows "SWTPM_NVRAM_StoreData_Dir ts s d n name (backend_uri ts) f =
    (if g_tpmstate_make_backup ts \<and> name = TPM_PERMANENT_ALL_NAME
     then store_with_backup ts s d (state_path ts n name False)
            (SWTPM_NVRAM_Uri_to_Dir (backend_uri ts)) f
     else store_with_tempfile ts s d (state_path ts n name False) (state_path ts n name True)
            (SWTPM_NVRAM_Uri_to_Dir (backend_uri ts)) f)"
  using filepath_ok(1) [OF assms] by (simp add: SWTPM_NVRAM_StoreData_Dir_def Let_def)

lemma store_dir_spec:
  assumes "dir_inv ts s" "state_name name"
    and "SWTPM_NVRAM_StoreData_Dir ts s d n name (backend_uri ts) f = (rc, s')"
  shows "\<exists>q. touches {state_path ts n name False, q} s s' \<and>
     (\<forall>m. state_name m \<longrightarrow> q \<noteq> state_path ts n m False)"
    and "rc = 0 \<Longrightarrow> dir_content ts s' n name = Some d"
proof -
  let ?p = "state_path ts n name False" and ?q = "state_path ts n name True"
    and ?dir = "SWTPM_NVRAM_Uri_to_Dir (backend_uri ts)"
  note b = bakpath_ok [OF assms(1,2), of "''bak''", simplified]
  have "(\<exists>q. touches {?p, q} s s' \<and> (\<forall>m. state_name m \<longrightarrow> q \<noteq> state_path ts n m False)) \<and>
     (rc = 0 \<longrightarrow> dir_content ts s' n name = Some d)"
  proof (cases "g_tpmstate_make_backup ts \<and> name = TPM_PERMANENT_ALL_NAME")
    case True
    then have "store_with_backup ts s d ?p ?dir f = (rc, s')"
      using assms(3) store_dir_cases [OF assms(1,2)] by (simp split: if_splits)
    from backup_store(1,2) [OF this b] show ?thesis
      using assms(2) by (auto simp: dir_content_def intro!: exI [of _ "?p @ ''.bak''"])
  next
    case False
    then have "store_with_tempfile ts s d ?p ?q ?dir f = (rc, s')"
      using assms(3) store_dir_cases [OF assms(1,2)] by (simp split: if_splits)
    from tempfile_store(1,2) [OF this] show ?thesis
      by (auto simp: dir_content_def intro!: exI [of _ ?q])
  qed
  then show "\<exists>q. touches {?p, q} s s' \<and> (\<forall>m. state_name m \<longrightarrow> q \<noteq> state_path ts n m False)"
    and "rc = 0 \<Longrightarrow> dir_content ts s' n name = Some d" by auto
qed

lemma store_dir_calm:
  assumes "dir_inv ts s" "dir_calm s" "state_name name"
    and "SWTPM_NVRAM_StoreData_Dir ts s d n name (backend_uri ts) f = (rc, s')"
  shows "rc = 0 \<and> dir_calm s'"
proof -
  let ?p = "state_path ts n name False" and ?q = "state_path ts n name True"
    and ?dir = "SWTPM_NVRAM_Uri_to_Dir (backend_uri ts)"
  note b = bakpath_ok [OF assms(1,3), of "''bak''", simplified]
  have c: "faults s = []" using assms(2) by (simp add: dir_calm_def)
  show ?thesis
  proof (cases "g_tpmstate_make_backup ts \<and> name = TPM_PERMANENT_ALL_NAME")
    case True
    then have st: "store_with_backup ts s d ?p ?dir f = (rc, s')"
      using assms(4) store_dir_cases [OF assms(1,3)] by (simp split: if_splits)
    show ?thesis
    proof (cases "files s ?p")
      case None
      then show ?thesis using st b c file_write_calm [OF c]
        by (fastforce simp: store_with_backup_def sys_calm dir_calm_def split: prod.splits if_splits)
    next
      case (Some x)
      let ?s2 = "set_files s (((files s)(?p := None))(?p @ ''.bak'' \<mapsto> x))"
      have "faults ?s2 = []" using c by simp
      then show ?thesis using st b c Some file_write_calm [of ?s2]
        by (fastforce simp: store_with_backup_def sys_calm dir_calm_def split: prod.splits if_splits)
    qed
  next
    case False
    then have st: "store_with_tempfile ts s d ?p ?q ?dir f = (rc, s')"
      using assms(4) store_dir_cases [OF assms(1,3)] by (simp split: if_splits)
    obtain k s1 where w: "file_write s ?q (g_tpmstate_mode ts) (\<not> g_tpmstate_mode_is_default ts) d
        f (Some ?dir) = (k, s1)" by fastforce
    note wc = file_write_calm [OF c w]
    obtain x where "files s1 ?q = Some x" using file_write_spec(2) [OF w wc(1)] by blast
    then show ?thesis using st w wc by (auto simp: store_with_tempfile_def sys_calm dir_calm_def)
  qed
qed

lemma load_dir_calm:
  assumes "dir_inv ts s" "dir_calm s" "state_name name"
  obtains s1 where "SWTPM_NVRAM_LoadData_Dir ts s n name (backend_uri ts) =
      (case dir_content ts s n name of None \<Rightarrow> Inl TPM_RETRY | Some d \<Rightarrow> Inr (Some d, length d), s1)"
    and "dir_calm s1" "dir_content ts s1 = dir_content ts s"
proof (cases "files s (state_path ts n name False)")
  case None
  then show ?thesis using that [of s] assms(2) filepath_ok(1) [OF assms(1,3)] file_read_calm(1)
    by (simp add: SWTPM_NVRAM_LoadData_Dir_def dir_content_def dir_calm_def)
next
  case (Some x)
  have c: "faults s = []" using assms(2) by (simp add: dir_calm_def)
  obtain s' where r: "file_read s (state_path ts n name False) (\<not> g_tpmstate_mode_is_default ts)
       (g_tpmstate_mode ts) = ((int (length (i_data x)), Some (i_data x), EOTHER), s')"
    and s': "faults s' = []" "\<forall>q. map_option i_data (files s' q) = map_option i_data (files s q)"
    using file_read_calm(2) [OF c Some] by metis
  show ?thesis using that [of s'] Some r s' filepath_ok(1) [OF assms(1,3)]
    by (simp add: SWTPM_NVRAM_LoadData_Dir_def dir_content_def dir_calm_def fun_eq_iff)
qed

interpretation dir: nvram_backend nvram_dir_ops dir_inv dir_content dir_calm state_name "\<lambda>d. True"
proof unfold_locales
  fix ts s name n r s' d f me rc
  assume i: "dir_inv ts s" and nm: "state_name name"
  note p = filepath_ok(1) [OF i nm]
  { assume c: "dir_calm s"
    obtain s1 where l: "SWTPM_NVRAM_LoadData_Dir ts s n name (backend_uri ts) =
        (case dir_content ts s n name of None \<Rightarrow> Inl TPM_RETRY | Some d \<Rightarrow> Inr (Some d, length d), s1)"
      "dir_calm s1" "dir_content ts s1 = dir_content ts s"
      using load_dir_calm [OF i c nm] by blast
    show "fst (op_load nvram_dir_ops ts s n name (backend_uri ts)) =
         (case dir_content ts s n name of None \<Rightarrow> Inl TPM_RETRY | Some d \<Rightarrow> Inr (Some d, length d))"
      using l by (simp add: nvram_dir_ops_def)
    show "op_load nvram_dir_ops ts s n name (backend_uri ts) = (r, s') \<Longrightarrow>
        dir_inv ts s' \<and> dir_calm s' \<and> dir_content ts s' = dir_content ts s"
      using l dir_inv_any [OF i] by (simp add: nvram_dir_ops_def)
    show "op_store nvram_dir_ops ts s d n name (backend_uri ts) f = (rc, s') \<Longrightarrow> rc = 0 \<and> dir_calm s'"
      using store_dir_calm [OF i c nm] by (simp add: nvram_dir_ops_def)
    show "op_delete nvram_dir_ops ts s n name False (backend_uri ts) = (rc, s') \<Longrightarrow>
         rc = 0 \<and> dir_calm s'"
      using p c by (auto simp: nvram_dir_ops_def SWTPM_NVRAM_DeleteName_Dir_def sys_calm
          dir_calm_def split: if_splits) }
  { assume "op_store nvram_dir_ops ts s d n name (backend_uri ts) f = (0, s')"
    then have st: "SWTPM_NVRAM_StoreData_Dir ts s d n name (backend_uri ts) f = (0, s')"
      by (simp add: nvram_dir_ops_def)
    show "dir_inv ts s' \<and> dir_content ts s' n name = Some d \<and>
        (\<forall>m. state_name m \<longrightarrow> m \<noteq> name \<longrightarrow> dir_content ts s' n m = dir_content ts s n m)"
    proof (intro conjI allI impI)
      show "dir_inv ts s'" by (rule dir_inv_any [OF i])
      show "dir_content ts s' n name = Some d" using store_dir_spec(2) [OF i nm st] by simp
      fix m assume m: "state_name m" "m \<noteq> name"
      obtain q where "touches {state_path ts n name False, q} s s'" "q \<noteq> state_path ts n m False"
        using store_dir_spec(1) [OF i nm st] m by blast
      from touches_files [OF this(1), of "state_path ts n m False"] this(2) m
      show "dir_content ts s' n m = dir_content ts s n m" by (simp add: dir_content_def)
    qed }
  { assume "op_delete nvram_dir_ops ts s n name me (backend_uri ts) = (0, s')"
    then show "dir_inv ts s' \<and> dir_content ts s' n name = None \<and>
        (\<forall>m. state_name m \<longrightarrow> m \<noteq> name \<longrightarrow> dir_content ts s' n m = dir_content ts s n m)"
      using p dir_inv_any [OF i]
      by (auto simp: nvram_dir_ops_def SWTPM_NVRAM_DeleteName_Dir_def sys_unlink_def set_files_def
          dir_content_def next_fault_same split: prod.splits option.splits if_splits) }
qed

subsection \<open>Restoring backups\<close>

lemma sys_rename_cases:
  assumes "sys_rename s p q = (r, s')"
  obtains (fails) e where "r = Some e" "files s' = files s" "hist s' = hist s"
  | (moves) x where "r = None" "files s p = Some x" "files s' = (files s)(p := None, q \<mapsto> x)"
      "hist s' = files s' # hist s"
  using assms by (auto simp: sys_rename_def next_fault_same set_files_def
      split: prod.splits if_splits option.splits)

text \<open>
  \<open>blobs_kept\<close>: the two blobs are still there, under one of the three names of the exchange.
\<close>

definition blobs_kept ::
  "inode \<Rightarrow> inode \<Rightarrow> string \<Rightarrow> string \<Rightarrow> string \<Rightarrow> (string \<Rightarrow> inode option) \<Rightarrow> bool"
where
  "blobs_kept x y p b t m \<longleftrightarrow>
     (m p = Some x \<or> m b = Some x \<or> m t = Some x) \<and> (m p = Some y \<or> m b = Some y)"

lemma restore_keep_original_safe:
  assumes "restore_keep_original s p b t = (rc, s')" "p \<noteq> b" "p \<noteq> t" "b \<noteq> t"
    and "files s p = Some y" "files s t = Some x"
  shows "\<exists>h. hist s' = h @ hist s \<and> (\<forall>m\<in>set (files s' # h). blobs_kept x y p b t m)"
    and "rc = 0 \<Longrightarrow> files s' p = Some y \<and> files s' b = Some x"
proof -
  obtain r1 s1 where r1: "sys_rename s t b = (r1, s1)" by fastforce
  obtain r2 s2 where r2: "sys_rename s1 p b = (r2, s2)" by fastforce
  obtain r3 s3 where r3: "sys_rename s2 t p = (r3, s3)" by fastforce
  have out: "(rc, s') = (if r1 = None then (0, s1) else if r2 = None then (TPM_FAIL, s3)
      else (TPM_FAIL, s2))"
    using assms(1) r1 r2 r3 by (auto simp: restore_keep_original_def split: option.splits)
  note kept = blobs_kept_def
  have "(\<exists>h. hist s' = h @ hist s \<and> (\<forall>m\<in>set (files s' # h). blobs_kept x y p b t m)) \<and>
    (rc = 0 \<longrightarrow> files s' p = Some y \<and> files s' b = Some x)"
    using r1
  proof (cases rule: sys_rename_cases)
    case moves
    then show ?thesis using out assms(2-) by (auto simp: kept)
  next
    case f1: fails
    from r2 show ?thesis
    proof (cases rule: sys_rename_cases)
      case fails
      then show ?thesis using f1 out assms(2-) by (auto simp: kept)
    next
      case m2: moves
      from r3 show ?thesis
        by (cases rule: sys_rename_cases) (use f1 m2 out assms(2-) in \<open>auto simp: kept\<close>)
    qed
  qed
  then show "\<exists>h. hist s' = h @ hist s \<and> (\<forall>m\<in>set (files s' # h). blobs_kept x y p b t m)"
    and "rc = 0 \<Longrightarrow> files s' p = Some y \<and> files s' b = Some x" by auto
qed

lemma restore_files_safe:
  assumes "restore_files s p b t = (rc, s')" "p \<noteq> b" "p \<noteq> t" "b \<noteq> t"
    and "files s p = Some x" "files s b = Some y"
    and "\<not> failed (fst (next_fault s))" "\<not> failed (fst (next_fault (snd (next_fault s))))"
  shows "\<exists>h. hist s' = h @ hist s \<and> (\<forall>m\<in>set (files s' # h). blobs_kept x y p b t m)"
    and "rc = 0 \<Longrightarrow> files s' p = Some y \<and> files s' b = Some x"
proof -
  obtain f1 s1 where n1: "next_fault s = (f1, s1)" by fastforce
  obtain f2 s2 where n2: "next_fault s1 = (f2, s2)" by fastforce
  have s2: "files s2 = files s" "hist s2 = hist s"
    using next_fault_same [OF n1] next_fault_same [OF n2] by simp_all
  have acc: "sys_access s b = (None, s1)" "sys_access s1 p = (None, s2)"
    using assms(5-8) n1 n2 next_fault_same [OF n1] s2 by (simp_all add: sys_access_def)
  obtain r3 s3 where r3: "sys_rename s2 p t = (r3, s3)" by fastforce
  obtain r4 s4 where r4: "sys_rename s3 b p = (r4, s4)" by fastforce
  obtain r5 s5 where r5: "sys_rename s4 t p = (r5, s5)" by fastforce
  have out: "(rc, s') = (if r3 \<noteq> None then (TPM_FAIL, s3) else if r4 \<noteq> None then (TPM_FAIL, s5)
      else restore_keep_original s4 p b t)"
    using assms(1) acc r3 r4 r5 by (auto simp: restore_files_def split: option.splits)
  note kept = blobs_kept_def
  have "(\<exists>h. hist s' = h @ hist s \<and> (\<forall>m\<in>set (files s' # h). blobs_kept x y p b t m)) \<and>
    (rc = 0 \<longrightarrow> files s' p = Some y \<and> files s' b = Some x)"
    using r3
  proof (cases rule: sys_rename_cases)
    case fails
    then show ?thesis using out s2 assms(2-6) by (auto simp: kept)
  next
    case m3: moves
    from r4 show ?thesis
    proof (cases rule: sys_rename_cases)
      case f4: fails
      from r5 show ?thesis
        by (cases rule: sys_rename_cases) (use f4 m3 s2 out assms(2-6) in \<open>auto simp: kept\<close>)
    next
      case m4: moves
      have k: "restore_keep_original s4 p b t = (rc, s')" using out m3 m4 by simp
      have "files s4 p = Some y" "files s4 t = Some x" using m3 m4 s2 assms(2-6) by auto
      note ko = restore_keep_original_safe [OF k assms(2-4) this]
      obtain h where "hist s' = h @ hist s4" "\<forall>m\<in>set (files s' # h). blobs_kept x y p b t m"
        using ko(1) by blast
      moreover have "hist s4 = [files s4, files s3] @ hist s" "blobs_kept x y p b t (files s3)"
        "blobs_kept x y p b t (files s4)"
        using m3 m4 s2 assms(2-6) by (auto simp: kept)
      ultimately show ?thesis using ko(2)
        by (intro conjI impI exI [of _ "h @ [files s4, files s3]"]) auto
    qed
  qed
  then show "\<exists>h. hist s' = h @ hist s \<and> (\<forall>m\<in>set (files s' # h). blobs_kept x y p b t m)"
    and "rc = 0 \<Longrightarrow> files s' p = Some y \<and> files s' b = Some x" by auto
qed

lemma restore_files_calm:
  assumes "faults s = []" "p \<noteq> b" "p \<noteq> t" "b \<noteq> t" "files s b = Some y"
  obtains s' where "restore_files s p b t = (0, s')" "faults s' = []"
    and "files s' p = Some y" "files s' b = files s p"
    and "\<And>q. q \<notin> {p, b, t} \<Longrightarrow> files s' q = files s q"
proof (cases "files s p")
  case None
  show ?thesis
    by (rule that [of "snd (restore_files s p b t)"])
      (use assms None in \<open>auto simp: restore_files_def sys_calm set_files_def\<close>)
next
  case (Some x)
  show ?thesis
    by (rule that [of "snd (restore_files s p b t)"])
      (use assms Some in \<open>auto simp: restore_files_def restore_keep_original_def sys_calm set_files_def\<close>)
qed

subsection \<open>Properties\<close>

text \<open>A concrete directory and settings on which the properties below are instantiated.\<close>

definition example_settings :: "bool \<Rightarrow> tpmstate" where
  "example_settings backup =
     \<lparr>g_backend_uri = Some ''dir:///tpm'', env_TPM_PATH = None, g_tpmstate_mode = 416,
      g_tpmstate_mode_is_default = True, g_tpmstate_version = TPMLIB_TPM_VERSION_2,
      g_tpmstate_do_locking = True, g_tpmstate_make_backup = backup, g_tpmstate_do_fsync = False\<rparr>"

definition example_dir :: "(string \<Rightarrow> inode option) \<Rightarrow> fault list \<Rightarrow> dirstate" where
  "example_dir m fs = \<lparr>files = m, faults = fs, hist = [], umask = 18, lock_held = False\<rparr>"

abbreviation example_file :: "bytes \<Rightarrow> inode" where
  "example_file d \<equiv> \<lparr>i_data = d, i_mode = 416\<rparr>"

lemma dir_inv_example: "dir_inv (example_settings b) s"
  by (simp add: dir_inv_def example_settings_def backend_uri_def tpmstate_get_backend_uri_def
      SWTPM_NVRAM_Uri_to_Dir_def)

text \<open>
  C2. A store through a temporary file is atomic under every combination of system call
  failures: it returns success only with exactly the new blob in the file, any other return
  leaves the file untouched, and in every state the directory goes through (where the
  process could be killed) the file holds either the old or the complete new blob.
\<close>

theorem store_dir_atomic:
  assumes "dir_inv ts s" "state_name name"
    and "\<not> (g_tpmstate_make_backup ts \<and> name = TPM_PERMANENT_ALL_NAME)"
    and "SWTPM_NVRAM_StoreData_Dir ts s d n name (backend_uri ts) f = (rc, s')"
  shows "(rc = 0 \<longrightarrow> dir_content ts s' n name = Some d) \<and>
    (rc \<noteq> 0 \<longrightarrow> files s' (state_path ts n name False) = files s (state_path ts n name False)) \<and>
    (\<exists>h. hist s' = h @ hist s \<and>
       (\<forall>m\<in>set h. m (state_path ts n name False) = files s (state_path ts n name False) \<or>
                    map_option i_data (m (state_path ts n name False)) = Some d))"
proof -
  have st: "store_with_tempfile ts s d (state_path ts n name False) (state_path ts n name True)
      (SWTPM_NVRAM_Uri_to_Dir (backend_uri ts)) f = (rc, s')"
    using assms(3,4) store_dir_cases [OF assms(1,2)] by (simp split: if_splits)
  show ?thesis
    using tempfile_store(2-4) [OF st] by (auto simp: dir_content_def)
qed

theorem store_dir_atomic_witness:
  "let ts = example_settings True; p = state_path ts 0 TPM_VOLATILESTATE_NAME False;
       s = example_dir [p \<mapsto> example_file [9]] [Ok, Short 2, Intr, Fail];
       r = SWTPM_NVRAM_StoreData_Dir ts s [1, 2, 3] 0 TPM_VOLATILESTATE_NAME (backend_uri ts) False
   in (fst r = 0 \<longrightarrow> dir_content ts (snd r) 0 TPM_VOLATILESTATE_NAME = Some [1, 2, 3]) \<and>
      (fst r \<noteq> 0 \<longrightarrow> files (snd r) p = files s p) \<and>
      (\<exists>h. hist (snd r) = h @ hist s \<and>
         (\<forall>m\<in>set h. m p = files s p \<or> map_option i_data (m p) = Some [1, 2, 3]))"
  unfolding Let_def
  by (rule store_dir_atomic [OF dir_inv_example _ _ prod.collapse [symmetric]])
    (simp_all add: state_name_def)

lemma backup_store_access_fails:
  assumes "store_with_backup ts s d p dir do_fsync = (rc, s')"
    and "SWTPM_NVRAM_CreateBackupFilename p FILENAME_MAX ''bak'' = Inr b" "p \<noteq> b"
    and "faults s = [f]" "failed f"
  shows "rc = 0 \<and> map_option i_data (files s' p) = Some d \<and> files s' b = files s b"
proof -
  define s1 where "s1 = s\<lparr>faults := []\<rparr>"
  have a: "sys_access s p = (Some EOTHER, s1)" using assms(4,5) by (simp add: sys_access_def next_fault_def s1_def)
  obtain n s2 where w: "file_write s1 p (g_tpmstate_mode ts) (\<not> g_tpmstate_mode_is_default ts) d do_fsync (Some dir) = (n, s2)"
    by fastforce
  have n: "0 \<le> n" by (rule file_write_calm(1) [OF _ w]) (simp add: s1_def)
  then have "rc = 0" "s' = s2" using assms(1,2) a w by (auto simp: store_with_backup_def)
  then show ?thesis
    using n file_write_spec(2) [OF w] touches_files [OF file_write_spec(1) [OF w], of b] assms(3) by (auto simp: s1_def)
qed

text \<open>
  C12. With backups switched on, a store of the permanent state keeps the old state as long as the \<open>access\<close> that looks for
  the file does not fail: in every state the directory goes through, and at the end, the old file is in place or is the
  backup file, whatever the later system calls do, and a successful store leaves the new blob in the file and the
  old one in the backup. When that \<open>access\<close> fails and nothing after it, the old state is lost: it is taken to be absent, and the new
  blob is written over it without a backup.
\<close>

theorem store_dir_backup_keeps_old:
  assumes "dir_inv ts s" "g_tpmstate_make_backup ts"
    and "files s (state_path ts n TPM_PERMANENT_ALL_NAME False) = Some x"
    and "SWTPM_NVRAM_StoreData_Dir ts s d n TPM_PERMANENT_ALL_NAME (backend_uri ts) f = (rc, s')"
  shows "(\<not> failed (fst (next_fault s)) \<longrightarrow>
      (rc = 0 \<longrightarrow> dir_content ts s' n TPM_PERMANENT_ALL_NAME = Some d \<and>
         files s' (state_path ts n TPM_PERMANENT_ALL_NAME False @ ''.bak'') = Some x) \<and>
      (\<exists>h. hist s' = h @ hist s \<and>
         (\<forall>m\<in>set (files s' # h). m (state_path ts n TPM_PERMANENT_ALL_NAME False) = Some x \<or>
            m (state_path ts n TPM_PERMANENT_ALL_NAME False @ ''.bak'') = Some x))) \<and>
    (\<forall>e. faults s = [e] \<and> failed e \<longrightarrow> rc = 0 \<and> dir_content ts s' n TPM_PERMANENT_ALL_NAME = Some d \<and>
       files s' (state_path ts n TPM_PERMANENT_ALL_NAME False @ ''.bak'') =
         files s (state_path ts n TPM_PERMANENT_ALL_NAME False @ ''.bak''))"
proof -
  let ?p = "state_path ts n TPM_PERMANENT_ALL_NAME False"
  have nm: "state_name TPM_PERMANENT_ALL_NAME" by (simp add: state_name_def)
  have st: "store_with_backup ts s d ?p (SWTPM_NVRAM_Uri_to_Dir (backend_uri ts)) f = (rc, s')"
    using assms(2,4) store_dir_cases [OF assms(1) nm] by simp
  have b: "SWTPM_NVRAM_CreateBackupFilename ?p FILENAME_MAX ''bak'' = Inr (?p @ ''.bak'')"
    using bakpath_ok [OF assms(1) nm, of "''bak''"] by simp
  note bs = backup_store [OF st b]
  have "(rc = 0 \<longrightarrow> dir_content ts s' n TPM_PERMANENT_ALL_NAME = Some d \<and> files s' (?p @ ''.bak'') = Some x) \<and>
      (\<exists>h. hist s' = h @ hist s \<and> (\<forall>m\<in>set (files s' # h). m ?p = Some x \<or> m (?p @ ''.bak'') = Some x))"
    if "\<not> failed (fst (next_fault s))"
    using bs(2) bs(3) [OF _ that assms(3)] by (simp add: dir_content_def)
  moreover note backup_store_access_fails [OF st b]
  ultimately show ?thesis by (simp add: dir_content_def)
qed

theorem store_dir_backup_keeps_old_witness:
  "let ts = example_settings True; p = state_path ts 0 TPM_PERMANENT_ALL_NAME False;
       s = example_dir [p \<mapsto> example_file [9]] [Ok, Ok, Ok, Short 1, Fail];
       r = SWTPM_NVRAM_StoreData_Dir ts s [1, 2] 0 TPM_PERMANENT_ALL_NAME (backend_uri ts) False;
       q = SWTPM_NVRAM_StoreData_Dir ts (example_dir [p \<mapsto> example_file [9]] [Fail]) [1, 2] 0 TPM_PERMANENT_ALL_NAME (backend_uri ts) False
   in (fst r = 0 \<longrightarrow> dir_content ts (snd r) 0 TPM_PERMANENT_ALL_NAME = Some [1, 2] \<and>
         files (snd r) (p @ ''.bak'') = Some (example_file [9])) \<and>
      (\<exists>h. hist (snd r) = h @ hist s \<and> (\<forall>m\<in>set (files (snd r) # h).
         m p = Some (example_file [9]) \<or> m (p @ ''.bak'') = Some (example_file [9]))) \<and>
      fst q = 0 \<and> dir_content ts (snd q) 0 TPM_PERMANENT_ALL_NAME = Some [1, 2] \<and> files (snd q) (p @ ''.bak'') = None"
proof -
  let ?ts = "example_settings True" and ?p = "state_path (example_settings True) 0 TPM_PERMANENT_ALL_NAME False"
  note k = store_dir_backup_keeps_old [OF dir_inv_example _ _ prod.collapse [symmetric]]
  have 1: "g_tpmstate_make_backup ?ts" by (simp add: example_settings_def)
  have 2: "files (example_dir [?p \<mapsto> example_file [9]] fs) ?p = Some (example_file [9])" for fs by (simp add: example_dir_def)
  have 3: "\<not> failed (fst (next_fault (example_dir m (Ok # fs))))" "faults (example_dir m [Fail]) = [Fail]" "failed Fail"
    "files (example_dir [?p \<mapsto> example_file [9]] fs) (?p @ ''.bak'') = None" for m fs
    by (simp_all add: example_dir_def next_fault_def failed_def)
  from k [OF 1 2, THEN conjunct1, rule_format, OF 3(1)] k [OF 1 2, THEN conjunct2, rule_format, OF conjI [OF 3(2,3)]]
  show ?thesis unfolding Let_def by (simp only: 3(4)) blast
qed

text \<open>
  Restoring the backup exchanges the permanent state with its backup, and a second call
  gives back the original state and backup, as the comment of the function promises.
\<close>

theorem restore_backup_dir_twice:
  assumes "dir_inv ts s" "dir_calm s"
    and "p = state_path ts 0 TPM_PERMANENT_ALL_NAME False"
    and "files s p = Some x" "files s (p @ ''.bak'') = Some y"
  shows "\<exists>s' s''. SWTPM_NVRAM_RestoreBackup_Dir ts s (backend_uri ts) = (0, s') \<and>
    files s' p = Some y \<and> files s' (p @ ''.bak'') = Some x \<and>
    SWTPM_NVRAM_RestoreBackup_Dir ts s' (backend_uri ts) = (0, s'') \<and>
    files s'' p = Some x \<and> files s'' (p @ ''.bak'') = Some y \<and>
    (\<forall>q. q \<notin> {p, p @ ''.bak'', p @ ''.tmp''} \<longrightarrow> files s'' q = files s q)"
proof -
  have nm: "state_name TPM_PERMANENT_ALL_NAME" by (simp add: state_name_def)
  have eq: "SWTPM_NVRAM_RestoreBackup_Dir ts u (backend_uri ts) =
      restore_files u p (p @ ''.bak'') (p @ ''.tmp'')" for u
    using filepath_ok(1) [OF assms(1) nm] bakpath_ok [OF assms(1) nm, of "''bak''"]
      bakpath_ok [OF assms(1) nm, of "''tmp''"] assms(3)
    by (simp add: SWTPM_NVRAM_RestoreBackup_Dir_def)
  have ne: "p \<noteq> p @ ''.bak''" "p \<noteq> p @ ''.tmp''" "p @ ''.bak'' \<noteq> p @ ''.tmp''" by simp_all
  have c: "faults s = []" using assms(2) by (simp add: dir_calm_def)
  obtain s' where 1: "restore_files s p (p @ ''.bak'') (p @ ''.tmp'') = (0, s')" "faults s' = []"
    "files s' p = Some y" "files s' (p @ ''.bak'') = Some x"
    "\<And>q. q \<notin> {p, p @ ''.bak'', p @ ''.tmp''} \<Longrightarrow> files s' q = files s q"
    using restore_files_calm [OF c ne assms(5)] assms(4) by metis
  obtain s'' where 2: "restore_files s' p (p @ ''.bak'') (p @ ''.tmp'') = (0, s'')"
    "files s'' p = Some x" "files s'' (p @ ''.bak'') = Some y"
    "\<And>q. q \<notin> {p, p @ ''.bak'', p @ ''.tmp''} \<Longrightarrow> files s'' q = files s' q"
    using restore_files_calm [OF 1(2) ne 1(4)] 1(3) by metis
  show ?thesis using 1 2 unfolding eq by auto
qed

theorem restore_backup_dir_twice_witness:
  "let ts = example_settings True; p = state_path ts 0 TPM_PERMANENT_ALL_NAME False;
       s = example_dir [p \<mapsto> example_file [1], p @ ''.bak'' \<mapsto> example_file [2]] []
   in \<exists>s' s''. SWTPM_NVRAM_RestoreBackup_Dir ts s (backend_uri ts) = (0, s') \<and>
        files s' p = Some (example_file [2]) \<and>
        SWTPM_NVRAM_RestoreBackup_Dir ts s' (backend_uri ts) = (0, s'') \<and>
        files s'' p = Some (example_file [1])"
  unfolding Let_def
  by (use restore_backup_dir_twice [OF dir_inv_example _ refl, of
        "example_dir [state_path (example_settings True) 0 TPM_PERMANENT_ALL_NAME False \<mapsto>
           example_file [1], state_path (example_settings True) 0 TPM_PERMANENT_ALL_NAME False @
           ''.bak'' \<mapsto> example_file [2]] []" True "example_file [1]" "example_file [2]"]
      in \<open>fastforce simp: example_dir_def dir_calm_def\<close>)

end
