(* ===== verification/Server.thy ===== *)
theory Server
  imports MainLoop Dir
begin

section \<open>The server's behaviour\<close>

text \<open>
  Properties of the control channel and the main loop: what a request cannot change, that each
  request gets one response, that the loops end, and the invariants of the reachable states.
\<close>

subsection \<open>A concrete server\<close>

text \<open>
  libtpms, settings and states on which the theorems of this theory are instantiated. The state
  of this libtpms is the list of the data it was given; a command is answered with success.
\<close>

definition example_lib :: "(bytes list, dirstate) libtpms_io" where
  "example_lib =
     \<lparr>TPMLIB_VolatileAll_Store = (\<lambda>t. Inr [1, 2, 3]),
      TPMLIB_SetState = (\<lambda>t st d. (0, case d of None \<Rightarrow> t | Some b \<Rightarrow> t @ [b])),
      lt_ChooseTPMVersion = (\<lambda>t v. (0, t)), lt_SetProfile = (\<lambda>t p. (0, t)),
      lt_MainInit = (\<lambda>w. (0, w)), lt_Terminate = (\<lambda>t. t), lt_WasManufactured = (\<lambda>t. True),
      lt_Process = (\<lambda>w cmd. ((0, htobe16 0x8001 @ htobe32 10 @ htobe32 0), w)),
      TPM_IO_TpmEstablished_Get = (\<lambda>t. (0, False)), TPM_IO_TpmEstablished_Reset = (\<lambda>loc t. (0, t)),
      TPM_IO_Hash_Start = (\<lambda>loc t. (0, t)), TPM_IO_Hash_Data = (\<lambda>t d. (0, t @ [d])),
      TPM_IO_Hash_End = (\<lambda>t. (0, t)), TPMLIB_CancelCommand = (\<lambda>t. (0, t)),
      TPMLIB_SetBufferSize = (\<lambda>t n. ((4096, 1024, 4096), t)), TPMLIB_GetInfo = (\<lambda>t f. Some [0x7b, 0x7d])\<rparr>"

definition example_ossl :: ossl_env where
  "example_ossl =
     \<lparr>fips_mode_enabled = False, fips_mode_disable_fails = False, enabled_algorithms = Some [],
      enabled_attributes = Some [], ossl_probe = (\<lambda>f s xs n b. 0),
      setenv_fails = False, sha1_env_set = False\<rparr>"

definition example_deps :: "(bytes list, dirstate) deps" where
  "example_deps = \<lparr>d_crypto = example_crypto, d_lib = example_lib, d_dir_ops = nvram_dir_ops,
     d_linear_ops = nvram_dir_ops, d_ossl = example_ossl\<rparr>"

definition example_params :: "TPMLIB_TPMVersion \<Rightarrow> u32 \<Rightarrow> mainLoopParams" where
  "example_params v locflags =
     \<lparr>ml_flags = MAIN_LOOP_FLAG_KEEP_CONNECTION, ml_fd = -1, locality_flags = locflags, tpmversion = v,
      startupType = 0, lastCommand = 0, disable_auto_shutdown = False, incoming_migration = False,
      storage_locked = True, release_lock_outgoing = False, locking_retries = 0, json_profile = None\<rparr>"

definition example_world :: "(string \<Rightarrow> inode option) \<Rightarrow> (bytes list, dirstate) world" where
  "example_world m = \<lparr>w_lib = [], w_nv = \<lparr>nv_tpmstate = example_settings False,
     nv_globals = example_globals 0 0, g_nvram_backend_ops = Some nvram_dir_ops,
     nv_backend = example_dir m []\<rparr>\<rparr>"

definition example_ctrl ::
  "TPMLIB_TPMVersion \<Rightarrow> u32 \<Rightarrow> bool \<Rightarrow> bytes option list \<Rightarrow> (bytes list, dirstate) ctrl"
where
  "example_ctrl v locflags running reads =
     \<lparr>c_world = example_world Map.empty, c_mlp = example_params v locflags, c_locality = 0,
      c_running = running, c_terminate = False, c_reads = reads, c_sent = [], c_wfails = [],
      c_open = True\<rparr>"

definition example_mstate ::
  "TPMLIB_TPMVersion \<Rightarrow> u32 \<Rightarrow> (bytes list, dirstate) mstate"
where
  "example_mstate v locflags =
     \<lparr>m_ctrl = example_ctrl v locflags True [], m_conn = 5, m_bufsize = 4096, m_notify = False,
      m_resp = \<lparr>rbuffer = None, rlength = 0, rTotal = 0\<rparr>, m_iov0 = False, m_written = []\<rparr>"

definition quiet_poll :: poll_result where
  "quiet_poll = \<lparr>p_signal = False, p_signal_late = False, p_fails = False, p_data_hup = False,
     p_data_accept = None, p_ctrl_accept = None, p_ctrl_in = None, p_ctrl_hup = False, p_data_in = None\<rparr>"

lemmas example_defs = example_lib_def example_ossl_def example_deps_def example_params_def
  example_world_def example_ctrl_def example_mstate_def quiet_poll_def

subsection \<open>What a request cannot change\<close>

definition kept :: "('t, 's) ctrl \<Rightarrow> byte \<times> TPMLIB_TPMVersion \<times> u32" where
  "kept c = (c_locality c, tpmversion (c_mlp c), locality_flags (c_mlp c))"

lemma kept_upd [simp]:
  "kept (nv_upd c nv) = kept c" "kept (libst_upd c t) = kept c"
  "kept (c\<lparr>c_terminate := b\<rparr>) = kept c" "kept (c\<lparr>c_open := b\<rparr>) = kept c"
  "kept (c\<lparr>c_world := w\<rparr>) = kept c" "kept (c\<lparr>c_reads := rs\<rparr>) = kept c"
  "kept (mainloop_unlock_nvram ops c n) = kept c"
  by (simp_all add: nv_upd_def libst_upd_def kept_def mainloop_unlock_nvram_def)

lemma kept_send [simp]: "kept (send_resp c out) = kept c"
  by (simp add: send_resp_def kept_def split: list.split bool.split)

lemma kept_read: "ctrl_read c n = Some (r, c') \<Longrightarrow> kept c' = kept c"
  by (auto simp: ctrl_read_def kept_def split: list.splits option.splits)

lemma kept_lock: "mainloop_ensure_locked_storage c = (ok, c') \<Longrightarrow> kept c' = kept c"
  by (auto simp: mainloop_ensure_locked_storage_def Let_def kept_def split: prod.splits if_splits)

lemma kept_stop_tpm [simp]: "kept (stop_tpm d c) = kept c"
  by (simp add: stop_tpm_def Let_def kept_def split: prod.split)

lemma kept_init: "cmd_init d c body = Some (out, c') \<Longrightarrow> kept c' = kept c"
  using kept_stop_tpm [of d c]
  by (auto simp: cmd_init_def Let_def kept_def split: if_splits option.splits prod.splits)

lemma kept_receive_blob:
  "receive_blob fuel c n blob chunk = Some (r, c') \<Longrightarrow> kept c' = kept c"
proof (induction fuel arbitrary: c blob chunk)
  case (Suc fuel)
  show ?case
    using Suc.prems Suc.IH by (fastforce simp: Let_def dest: kept_read split: if_splits option.splits list.splits prod.splits)
qed simp

lemma kept_hash_loop:
  "hash_data_loop d fuel c n chunk = Some (r, c') \<Longrightarrow> kept c' = kept c"
proof (induction fuel arbitrary: c n chunk)
  case (Suc fuel)
  obtain res t where h: "TPM_IO_Hash_Data (d_lib d) (w_lib (c_world c)) chunk = (res, t)" by fastforce
  show ?case
    using Suc.prems Suc.IH h
    by (fastforce simp: Let_def dest: kept_read split: if_splits option.splits list.splits prod.splits)
qed simp

declare receive_blob.simps [simp del] hash_data_loop.simps [simp del]

lemma kept_receive_state: "ctrlchannel_receive_state d c body = Some c' \<Longrightarrow> kept c' = kept c"
  by (auto simp: ctrlchannel_receive_state_def Let_def dest: kept_receive_blob
      split: if_splits option.splits prod.splits sum.splits)

lemma kept_return_state: "ctrlchannel_return_state d c body = Some c' \<Longrightarrow> kept c' = kept c"
  by (auto simp: ctrlchannel_return_state_def Let_def split: if_splits option.splits prod.splits)

lemma kept_set_stateblob: "cmd_set_stateblob d c body = Some c' \<Longrightarrow> kept c' = kept c"
  by (auto simp: cmd_set_stateblob_def Let_def dest!: kept_receive_state kept_lock
      split: if_splits prod.splits)

lemma kept_get_stateblob: "cmd_get_stateblob d c body = Some c' \<Longrightarrow> kept c' = kept c"
  by (auto simp: cmd_get_stateblob_def dest: kept_return_state split: if_splits)

lemma kept_hash_data: "cmd_hash_data d c body = Some (out, c') \<Longrightarrow> kept c' = kept c"
  by (auto simp: cmd_hash_data_def Let_def dest: kept_hash_loop split: if_splits option.splits prod.splits)

lemma kept_store_volatile: "cmd_store_volatile d c body = Some (out, c') \<Longrightarrow> kept c' = kept c"
  by (auto simp: cmd_store_volatile_def split: if_splits option.splits prod.splits)

lemma kept_cmds [simp]:
  "kept (snd (cmd_simple f c body)) = kept c"
  "kept (snd (cmd_stop d c body)) = kept c" "kept (snd (cmd_shutdown d c body)) = kept c"
  "kept (snd (cmd_set_buffersize d c body)) = kept c"
  by (simp_all add: cmd_simple_def cmd_stop_def cmd_shutdown_def cmd_set_buffersize_def Let_def split: prod.split)

lemma kept_reset [simp]: "kept (snd (cmd_reset_tpmestablished d c body)) = kept c"
  by (simp add: cmd_reset_tpmestablished_def Let_def kept_def libst_upd_def split: prod.split)

lemma kept_set_datafd [simp]: "kept (snd (cmd_set_datafd c fd)) = kept c"
  by (simp add: cmd_set_datafd_def kept_def split: option.split)

lemma kept_lock_storage [simp]: "kept (snd (cmd_lock_storage c body)) = kept c"
  using kept_lock [of "c\<lparr>c_mlp := (c_mlp c)\<lparr>locking_retries := be32toh (mem_read body 0 4)\<rparr>\<rparr>"]
  by (auto simp: cmd_lock_storage_def Let_def kept_def split: prod.split)

lemma kept_reply: "reply x = Some c' \<Longrightarrow> kept c' = kept (snd x)"
  by (auto simp: reply_def split: prod.splits)

lemma reply_option_SomeD:
  "reply_option x = Some c' \<Longrightarrow> \<exists>y. x = Some y \<and> reply y = Some c'"
  by (auto simp: reply_option_def split: option.splits)

lemma dispatch_keeps:
  assumes "ctrl_dispatch d c cmd body fd = Some c'" "cmd \<noteq> CMD_SET_LOCALITY"
  shows "kept c' = kept c"
  using assms
  by (auto simp: ctrl_dispatch_def split: if_splits dest!: kept_reply reply_option_SomeD
      dest: kept_set_stateblob kept_get_stateblob kept_init kept_hash_data kept_store_volatile)


subsection \<open>The locality\<close>

lemma dispatch_locality:
  assumes "ctrl_dispatch d c cmd body fd = Some c'"
  shows "tpmversion (c_mlp c') = tpmversion (c_mlp c) \<and>
    locality_flags (c_mlp c') = locality_flags (c_mlp c) \<and>
    (c_locality c' = c_locality c \<or> locality_ok (locality_flags (c_mlp c)) (c_locality c'))"
proof (cases "cmd = CMD_SET_LOCALITY")
  case True
  let ?x = "cmd_set_locality c body"
  have "reply ?x = Some c'" using assms True by (simp add: ctrl_dispatch_def)
  then have k: "kept c' = kept (snd ?x)" by (rule kept_reply)
  have "c_mlp (snd ?x) = c_mlp c" by (simp add: cmd_set_locality_def)
  moreover have "c_locality (snd ?x) = c_locality c \<or>
      locality_ok (locality_flags (c_mlp c)) (c_locality (snd ?x))"
    by (auto simp: cmd_set_locality_def locality_ok_def word_less_nat_alt word_le_nat_alt)
  ultimately show ?thesis using k by (simp add: kept_def)
next
  case False
  then show ?thesis using dispatch_keeps [OF assms] by (simp add: kept_def)
qed

lemma process_fd_locality:
  assumes "ctrlchannel_process_fd d c events fd = Some c'"
  shows "tpmversion (c_mlp c') = tpmversion (c_mlp c) \<and>
    locality_flags (c_mlp c') = locality_flags (c_mlp c) \<and>
    (c_locality c' = c_locality c \<or> locality_ok (locality_flags (c_mlp c)) (c_locality c'))"
proof -
  have r: "reply (out, c) = Some c' \<Longrightarrow> kept c' = kept c" for out using kept_reply by fastforce
  show ?thesis
    using assms
    by (auto simp: ctrlchannel_process_fd_def split: if_splits option.splits
        dest: dispatch_locality dest!: r) (auto simp: kept_def)
qed

text \<open>What is kept of a server's state, and the invariant.\<close>

definition loc_inv :: "TPMLIB_TPMVersion \<Rightarrow> u32 \<Rightarrow> ('t, 's) mstate \<Rightarrow> bool" where
  "loc_inv v flags m \<longleftrightarrow> tpmversion (c_mlp (m_ctrl m)) = v \<and>
     locality_flags (c_mlp (m_ctrl m)) = flags \<and> locality_ok flags (c_locality (m_ctrl m))"

lemma loc_inv_kept: "loc_inv v flags m \<longleftrightarrow>
  (case kept (m_ctrl m) of (loc, v', f') \<Rightarrow> v' = v \<and> f' = flags \<and> locality_ok flags loc)"
  by (auto simp: loc_inv_def kept_def)

lemma loc_inv_upd [simp]:
  "loc_inv v flags (m\<lparr>m_conn := x\<rparr>) = loc_inv v flags m"
  "loc_inv v flags (m\<lparr>m_resp := r\<rparr>) = loc_inv v flags m"
  "loc_inv v flags (m\<lparr>m_written := ws\<rparr>) = loc_inv v flags m"
  "loc_inv v flags (disconnect m) = loc_inv v flags m"
  "loc_inv v flags (sigterm_handler m) = loc_inv v flags m"
  "loc_inv v flags (write_results d m fs) = loc_inv v flags m"
  by (simp_all add: loc_inv_def disconnect_def sigterm_handler_def write_results_def split: prod.split)

lemma loc_inv_process:
  assumes "tpmlib_process malloc r command flags loc v = (rc, r', loc')" "locality_ok flags loc"
  shows "locality_ok flags loc'"
  using assms
  by (auto simp: tpmlib_process_def tpmlib_process_setlocality_def Let_def locality_ok_def not_le
      split: if_splits TPMLIB_TPMVersion.splits)

lemma loc_inv_run:
  assumes "loc_inv v flags m" "run_command d m command = (rc, m')"
  shows "loc_inv v flags m'"
proof (cases "c_running (m_ctrl m)")
  case False
  then show ?thesis using assms by (auto simp: run_command_def Let_def)
next
  case True
  let ?lc = "tpmlib_get_cmd_ordinal command"
  let ?c = "m_ctrl m"
  let ?c1 = "if ?lc \<noteq> TPM_ORDINAL_NONE then ?c\<lparr>c_mlp := (c_mlp ?c)\<lparr>lastCommand := ?lc\<rparr>\<rparr> else ?c"
  have f: "locality_flags (c_mlp ?c1) = flags" "c_locality ?c1 = c_locality ?c"
    "tpmversion (c_mlp ?c1) = v" using assms(1) by (auto simp: loc_inv_def)
  obtain rc1 r1 loc where p: "tpmlib_process (malloc_ok (d_crypto d)) ((m_resp m)\<lparr>rlength := 0\<rparr>) command
      flags (c_locality ?c) v = (rc1, r1, loc)" by (metis prod_cases3)
  have ok: "locality_ok flags loc" using loc_inv_process [OF p] assms(1) by (simp add: loc_inv_def)
  have v: "tpmversion (c_mlp ?c) = v" using assms(1) by (simp add: loc_inv_def)
  show ?thesis
    using assms(2) True p f ok v
    by (auto simp: run_command_def Let_def loc_inv_def split: if_splits prod.splits)
qed

lemma loc_inv_strip:
  "v = TPMLIB_TPM_VERSION_1_2 \<Longrightarrow> loc_inv v flags m \<Longrightarrow> strip_tcg_header m command = (command, m)"
  by (simp add: strip_tcg_header_def loc_inv_def Let_def)

lemma loc_inv_serve:
  assumes "loc_inv TPMLIB_TPM_VERSION_1_2 flags m" "serve_command d m rds wrs = (rc, m')"
  shows "loc_inv TPMLIB_TPM_VERSION_1_2 flags m'"
proof -
  obtain x rs where r: "SWTPM_IO_Read (m_conn m) (m_bufsize m) rds = (x, rs)" by fastforce
  show ?thesis
  proof (cases x)
    case (Inl e)
    then show ?thesis using assms r by (auto simp: serve_command_def)
  next
    case (Inr cmd)
    obtain rc1 m1 where run: "run_command d m cmd = (rc1, m1)" by fastforce
    from loc_inv_run [OF assms(1) run] show ?thesis
      using assms r Inr run loc_inv_strip [OF refl assms(1), of cmd]
      by (auto simp: serve_command_def split: if_splits)
  qed
qed

lemma loc_inv_data:
  assumes "loc_inv TPMLIB_TPM_VERSION_1_2 flags m" "data_round d m rds wrs = (e, m')"
  shows "loc_inv TPMLIB_TPM_VERSION_1_2 flags m'"
proof -
  obtain ok c1 where l: "mainloop_ensure_locked_storage (m_ctrl m) = (ok, c1)" by fastforce
  let ?m1 = "m\<lparr>m_ctrl := c1\<lparr>c_terminate := \<not> ok\<rparr>\<rparr>"
  obtain rc m2 where s: "serve_command d ?m1 rds wrs = (rc, m2)" by fastforce
  have i: "loc_inv TPMLIB_TPM_VERSION_1_2 flags ?m1"
    using assms(1) kept_lock [OF l] by (simp add: loc_inv_kept)
  show ?thesis using assms(2) l i s loc_inv_serve [OF i s]
    by (auto simp: data_round_def Let_def split: if_splits)
qed

lemma loc_inv_c_upd [simp]:
  "loc_inv v flags (m\<lparr>m_ctrl := (m_ctrl m)\<lparr>c_terminate := b\<rparr>\<rparr>) = loc_inv v flags m"
  "loc_inv v flags (m\<lparr>m_ctrl := (m_ctrl m)\<lparr>c_open := b\<rparr>\<rparr>) = loc_inv v flags m"
  "loc_inv v flags (upd_mlp m (\<lambda>mlp. mlp\<lparr>ml_fd := x\<rparr>)) = loc_inv v flags m"
  by (simp_all add: loc_inv_def upd_mlp_def)

lemma loc_inv_ctrl_input:
  assumes "loc_inv v flags m" "ctrl_input d m events fd = Some m'"
  shows "loc_inv v flags m'"
  using assms by (auto simp: ctrl_input_def loc_inv_def dest!: process_fd_locality split: option.splits)

lemma loc_inv_hup_and_data:
  assumes "loc_inv TPMLIB_TPM_VERSION_1_2 flags m" "hup_and_data d m p = (e, m')"
  shows "loc_inv TPMLIB_TPM_VERSION_1_2 flags m'"
proof -
  let ?m2 = "if p_ctrl_hup p then m\<lparr>m_ctrl := (m_ctrl m)\<lparr>c_open := False\<rparr>\<rparr> else m"
  have m2: "loc_inv TPMLIB_TPM_VERSION_1_2 flags ?m2" using assms(1) by simp
  show ?thesis using assms(2) m2 loc_inv_data [OF m2]
    unfolding hup_and_data_def Let_def
    by (auto split: if_split_asm option.splits simp: loc_inv_def)
qed

lemma loc_inv_accept [simp]: "loc_inv v flags (accept_clients m p) = loc_inv v flags m"
  by (simp add: accept_clients_def Let_def split: option.split)

lemma loc_inv_round:
  assumes "loc_inv TPMLIB_TPM_VERSION_1_2 flags m" "mainloop_round d m p = Some (e, m')"
  shows "loc_inv TPMLIB_TPM_VERSION_1_2 flags m'"
proof -
  have c: "loc_inv TPMLIB_TPM_VERSION_1_2 flags m'"
    if "loc_inv TPMLIB_TPM_VERSION_1_2 flags m1" "ctrl_round d m1 p = Some (e, m')" for m1
    using that loc_inv_ctrl_input [OF that(1), of d] loc_inv_hup_and_data [of flags _ d p e m']
    by (fastforce simp: ctrl_round_def split: option.splits if_splits)
  let ?m0 = "if has_flag m MAIN_LOOP_FLAG_USE_FD \<and> m_conn m \<noteq> ml_fd (c_mlp (m_ctrl m))
             then m\<lparr>m_conn := ml_fd (c_mlp (m_ctrl m))\<rparr> else m"
  let ?ms = "if p_signal p then sigterm_handler ?m0 else ?m0"
  let ?ml = "if p_signal_late p then sigterm_handler ?ms else ?ms"
  let ?m1 = "if p_data_hup p then upd_mlp ?ml (\<lambda>mlp. mlp\<lparr>ml_fd := -1\<rparr>) else ?ml"
  have i: "loc_inv TPMLIB_TPM_VERSION_1_2 flags ?ms" "loc_inv TPMLIB_TPM_VERSION_1_2 flags ?m1"
    using assms(1) by simp_all
  have "mainloop_round d m p =
      (if p_fails p \<or> m_notify ?ms then Some (Break, disconnect ?ms)
       else if p_data_hup p \<and> has_flag ?m1 MAIN_LOOP_FLAG_END_ON_HUP
       then Some (Break, ?m1\<lparr>m_ctrl := (m_ctrl ?m1)\<lparr>c_terminate := True\<rparr>\<rparr>)
       else ctrl_round d (accept_clients ?m1 p) p)"
    unfolding mainloop_round_def Let_def by (rule refl)
  then consider "m' = disconnect ?ms" | "m' = ?m1\<lparr>m_ctrl := (m_ctrl ?m1)\<lparr>c_terminate := True\<rparr>\<rparr>"
    | "ctrl_round d (accept_clients ?m1 p) p = Some (e, m')"
    using assms(2) by (metis option.inject prod.inject)
  then show ?thesis
  proof cases
    case 3
    then show ?thesis using c i(2) loc_inv_accept by blast
  qed (use i in \<open>simp_all only: loc_inv_upd loc_inv_c_upd\<close>)
qed

lemma loc_inv_steps:
  "server_steps d m go_on m' \<Longrightarrow> loc_inv TPMLIB_TPM_VERSION_1_2 f m \<Longrightarrow> loc_inv TPMLIB_TPM_VERSION_1_2 f m'"
proof (induction rule: server_steps.induct)
  case (server_step m m1 p go_on m2)
  then show ?case
    by (auto simp: mainloop_next_def split: option.splits prod.splits round_end.splits if_splits
        intro: loc_inv_round)
qed

lemma loc_inv_startup: "loc_inv v f m \<Longrightarrow> loc_inv v f (mainloop_startup d m)"
  by (auto simp: mainloop_startup_def loc_inv_def Let_def split: prod.splits)

lemma loc_inv_finish: "loc_inv v f m \<Longrightarrow> loc_inv v f (mainloop_finish d m)"
  by (auto simp: mainloop_finish_def loc_inv_def Let_def split: prod.splits)

text \<open>
  C5. With a TPM 1.2, whenever the server waits for the next event and when it has ended, the locality is one that the
  settings allow: after whatever the clients sent on the control channel and the data channel, in any order, it is
  below 5 and not 4 when locality 4 is rejected. (\<open>CMD_RESET_TPMESTABLISHED\<close> sets another one for the time of its call, see below.)
\<close>

theorem server_locality_invariant:
  assumes "mainLoop d m ps = Some (go_on, m')" "tpmversion (c_mlp (m_ctrl m)) = TPMLIB_TPM_VERSION_1_2"
    and "locality_ok (locality_flags (c_mlp (m_ctrl m))) (c_locality (m_ctrl m))"
  shows "locality_ok (locality_flags (c_mlp (m_ctrl m))) (c_locality (m_ctrl m'))"
proof -
  let ?f = "locality_flags (c_mlp (m_ctrl m))"
  have "loc_inv TPMLIB_TPM_VERSION_1_2 ?f m" using assms(2,3) by (simp add: loc_inv_def)
  then have s: "loc_inv TPMLIB_TPM_VERSION_1_2 ?f (mainloop_startup d m)" by (rule loc_inv_startup)
  show ?thesis
  proof (rule mainLoop_steps [OF assms(1)])
    fix m1
    assume "server_steps d (mainloop_startup d m) go_on m1" "m' = (if go_on then m1 else mainloop_finish d m1)"
    then have "loc_inv TPMLIB_TPM_VERSION_1_2 ?f m'"
      using loc_inv_steps [OF _ s] by (simp add: loc_inv_finish)
    then show ?thesis by (simp add: loc_inv_def)
  qed
qed


lemmas round_defs = mainloop_next_def mainloop_round_def ctrl_round_def ctrl_input_def hup_and_data_def
  accept_clients_def has_flag_def

theorem server_locality_invariant_witness:
  "let m = example_mstate TPMLIB_TPM_VERSION_1_2 1;
       p = quiet_poll\<lparr>p_ctrl_in := Some ([RChunk (htobe32 CMD_SET_LOCALITY @ [4])], None)\<rparr>
   in \<exists>m'. mainLoop example_deps m [p] = Some (True, m') \<and>
        locality_ok (locality_flags (c_mlp (m_ctrl m))) (c_locality (m_ctrl m')) \<and>
        c_sent (m_ctrl m') = [htobe32 TPM_BAD_LOCALITY]"
proof -
  let ?m = "example_mstate TPMLIB_TPM_VERSION_1_2 1"
  let ?p = "quiet_poll\<lparr>p_ctrl_in := Some ([RChunk (htobe32 CMD_SET_LOCALITY @ [4])], None)\<rparr>"
  let ?m' = "?m\<lparr>m_ctrl := (m_ctrl ?m)\<lparr>c_sent := [htobe32 TPM_BAD_LOCALITY]\<rparr>\<rparr>"
  have n: "mainloop_next example_deps ?m ?p = Some (True, ?m')"
    by (simp add: round_defs ctrlchannel_process_fd_def ctrl_dispatch_def cmd_set_locality_def reply_def
        recv_needed_def send_resp_def ptm_res_def example_defs Let_def)
  have "mainloop_startup example_deps ?m = ?m" "\<not> c_terminate (m_ctrl ?m)"
    by (simp_all add: mainloop_startup_def example_defs Let_def)
  then have run: "mainLoop example_deps ?m [?p] = Some (True, ?m')" using n by (simp add: mainLoop_def Let_def)
  have "locality_ok (locality_flags (c_mlp (m_ctrl ?m))) (c_locality (m_ctrl ?m'))"
    by (rule server_locality_invariant [OF run]) (simp_all add: example_defs locality_ok_def)
  then show ?thesis using run by (auto simp: Let_def)
qed


subsection \<open>Requests and responses\<close>

text \<open>
  Requests that need a running TPM are refused without one: the response is
  \<open>TPM_BAD_ORDINAL\<close>, and nothing of the server but the socket is touched; a state blob is only
  taken while the TPM is stopped.
\<close>

theorem running_tpm_required:
  assumes "cmd \<in> {CMD_GET_TPMESTABLISHED, CMD_RESET_TPMESTABLISHED, CMD_HASH_START, CMD_HASH_DATA,
             CMD_HASH_END, CMD_CANCEL_TPM_CMD, CMD_STORE_VOLATILE, CMD_GET_STATEBLOB} \<and> \<not> c_running c \<or>
           cmd = CMD_SET_STATEBLOB \<and> c_running c"
  shows "ctrl_dispatch d c cmd body fd = Some (send_resp c (htobe32 TPM_BAD_ORDINAL))"
  using assms
  by (auto simp: ctrl_dispatch_def reply_def reply_option_def cmd_get_tpmestablished_def
      cmd_reset_tpmestablished_def cmd_simple_def cmd_hash_data_def cmd_store_volatile_def
      cmd_get_stateblob_def cmd_set_stateblob_def err_not_running_def err_running_def ptm_res_def)

theorem running_tpm_required_witness:
  "let c = example_ctrl TPMLIB_TPM_VERSION_2 0 False [] in
   ctrl_dispatch example_deps c CMD_HASH_START [] None = Some (c\<lparr>c_sent := [htobe32 TPM_BAD_ORDINAL]\<rparr>)"
  using running_tpm_required [of CMD_HASH_START "example_ctrl TPMLIB_TPM_VERSION_2 0 False []"
      example_deps "[]" None]
  by (simp add: Let_def send_resp_def example_ctrl_def)

text \<open>
  Resetting the established bit does not look at the flag that rejects locality 4: libtpms is called with that locality, and the
  request gets the result of the call.
\<close>

lemma reset_established_with_locality_4:
  assumes "c_running c"
  shows "ctrl_dispatch d c CMD_RESET_TPMESTABLISHED [4] fd =
    (case TPM_IO_TpmEstablished_Reset (d_lib d) 4 (w_lib (c_world c)) of (res, t) \<Rightarrow> Some (send_resp (libst_upd c t) (htobe32 res)))"
  using assms
  by (simp add: ctrl_dispatch_def cmd_reset_tpmestablished_def reply_def ptm_res_def libst_upd_def Let_def split: prod.split)

text \<open>
  What was sent, whether the socket is open and which writes will fail: only the last step of a request changes it.
\<close>

definition wire :: "('t, 's) ctrl \<Rightarrow> bytes list \<times> bool \<times> bool list" where
  "wire c = (c_sent c, c_open c, c_wfails c)"

lemma wire_upd [simp]:
  "wire (nv_upd c nv) = wire c" "wire (libst_upd c t) = wire c"
  "wire (c\<lparr>c_terminate := b\<rparr>) = wire c" "wire (c\<lparr>c_mlp := p\<rparr>) = wire c"
  "wire (c\<lparr>c_world := w\<rparr>) = wire c" "wire (c\<lparr>c_reads := rs\<rparr>) = wire c"
  "wire (c\<lparr>c_running := r\<rparr>) = wire c" "wire (c\<lparr>c_locality := l\<rparr>) = wire c"
  "wire (mainloop_unlock_nvram ops c n) = wire c"
  by (simp_all add: nv_upd_def libst_upd_def wire_def mainloop_unlock_nvram_def)

text \<open>One response was sent, or the write failed and the socket was closed.\<close>

definition write_fails :: "('t, 's) ctrl \<Rightarrow> bool" where
  "write_fails c = (case c_wfails c of w # ws \<Rightarrow> w | [] \<Rightarrow> False)"

definition answered :: "('t, 's) ctrl \<Rightarrow> ('t, 's) ctrl \<Rightarrow> bool" where
  "answered c c' \<longleftrightarrow> (if write_fails c then \<not> c_open c' \<and> c_sent c' = c_sent c
     else c_open c' \<and> (\<exists>out. c_sent c' = c_sent c @ [out]))"

lemma answered_wire: "wire c1 = wire c \<Longrightarrow> answered c1 c' = answered c c'"
  by (simp add: answered_def wire_def write_fails_def)

lemma answered_wire2: "wire c' = wire c1 \<Longrightarrow> answered c c1 \<Longrightarrow> answered c c'"
  by (simp add: answered_def wire_def)

lemma answered_send: "wire c1 = wire c \<Longrightarrow> c_open c \<Longrightarrow> answered c (send_resp c1 out)"
  by (auto simp: answered_def wire_def write_fails_def send_resp_def split: list.split bool.split)

lemma wire_read: "ctrl_read c n = Some (r, c') \<Longrightarrow> wire c' = wire c"
  by (auto simp: ctrl_read_def wire_def split: list.splits option.splits)

lemma read_error: "ctrl_read c n = Some (r, c') \<Longrightarrow> r = None \<or> None \<in> set (c_reads c') \<Longrightarrow> None \<in> set (c_reads c)"
  by (auto simp: ctrl_read_def split: list.splits option.splits if_splits)

lemma wire_lock: "mainloop_ensure_locked_storage c = (ok, c') \<Longrightarrow> wire c' = wire c"
  by (auto simp: mainloop_ensure_locked_storage_def Let_def split: prod.splits if_splits)

lemma wire_stop_tpm [simp]: "wire (stop_tpm d c) = wire c"
  by (simp add: stop_tpm_def Let_def wire_def split: prod.split)

lemma wire_init: "cmd_init d c body = Some (out, c') \<Longrightarrow> wire c' = wire c"
  by (auto simp: cmd_init_def Let_def split: if_splits option.splits prod.splits)

lemma wire_receive_blob:
  "receive_blob fuel c n blob chunk = Some (r, c') \<Longrightarrow>
     if r = Inl None then c_sent c' = c_sent c \<and> \<not> c_open c' \<and> None \<in> set (c_reads c) else wire c' = wire c"
proof (induction fuel arbitrary: c blob chunk)
  case 0
  then show ?case by (simp add: receive_blob.simps)
next
  case (Suc fuel)
  show ?case
  proof (cases "ctrl_read c 4088")
    case None
    then show ?thesis using Suc.prems by (auto simp: receive_blob.simps Let_def split: if_splits)
  next
    case (Some x)
    obtain r1 c1 where rd: "ctrl_read c 4088 = Some (r1, c1)" using Some by (cases x) simp
    show ?thesis
      using Suc.prems Suc.IH [of c1 "blob @ chunk"] rd wire_read [OF rd] read_error [OF rd]
      by (auto simp: receive_blob.simps Let_def wire_def split: if_splits option.splits list.splits)
  qed
qed

lemma wire_hash_loop:
  "hash_data_loop d fuel c n chunk = Some (r, c') \<Longrightarrow> wire c' = wire c"
proof (induction fuel arbitrary: c n chunk)
  case 0
  then show ?case by (simp add: hash_data_loop.simps)
next
  case (Suc fuel)
  obtain res t where h: "TPM_IO_Hash_Data (d_lib d) (w_lib (c_world c)) chunk = (res, t)" by fastforce
  show ?case
    using Suc.prems Suc.IH h
    by (fastforce simp: hash_data_loop.simps Let_def dest: wire_read split: if_splits option.splits list.splits prod.splits)
qed

text \<open>While a blob is received, a read error closes the socket without a response.\<close>

definition broken :: "('t, 's) ctrl \<Rightarrow> ('t, 's) ctrl \<Rightarrow> bool" where
  "broken c c' \<longleftrightarrow> None \<in> set (c_reads c) \<and> c_sent c' = c_sent c \<and> \<not> c_open c'"

lemma answered_receive_state:
  assumes "ctrlchannel_receive_state d c body = Some c'" "c_open c"
  shows "answered c c' \<or> broken c c'"
proof -
  have s: "answered c (send_resp c1 out)" if "wire c1 = wire c" for c1 out
    using answered_send [OF that] assms(2) .
  have b: "broken c c1" if "c_sent c1 = c_sent c" "\<not> c_open c1" "None \<in> set (c_reads c)" for c1
    using that by (simp add: broken_def)
  show ?thesis
    using assms(1)
    by (auto simp: ctrlchannel_receive_state_def Let_def intro!: s b dest!: wire_receive_blob
        split: if_splits option.splits prod.splits sum.splits)
qed

lemma answered_return_state:
  assumes "ctrlchannel_return_state d c body = Some c'" "c_open c"
  shows "answered c c'"
proof -
  have s: "answered c (send_resp (nv_upd c nv) out)" for nv out
    using answered_send [of "nv_upd c nv" c] assms(2) by simp
  show ?thesis
    using assms(1)
    by (auto simp: ctrlchannel_return_state_def Let_def intro: s answered_wire2 [OF wire_upd(9)]
        split: if_splits option.splits prod.splits)
qed

lemma reads_lock: "mainloop_ensure_locked_storage c = (ok, c') \<Longrightarrow> c_reads c' = c_reads c"
  by (auto simp: mainloop_ensure_locked_storage_def Let_def split: prod.splits if_splits)

lemma answered_set_stateblob:
  assumes "cmd_set_stateblob d c body = Some c'" "c_open c"
  shows "answered c c' \<or> broken c c'"
proof -
  let ?c1 = "nv_upd c (snd (SWTPM_NVRAM_Init (d_dir_ops d) (d_linear_ops d) (w_nv (c_world c))))"
  obtain ok c2 where l: "mainloop_ensure_locked_storage ?c1 = (ok, c2)" by fastforce
  let ?c3 = "c2\<lparr>c_terminate := \<not> ok\<rparr>"
  have w: "wire ?c3 = wire c" using wire_lock [OF l] by simp
  then have o: "c_open ?c3" using assms(2) by (simp add: wire_def)
  have rs: "c_reads ?c3 = c_reads c" using reads_lock [OF l] by (simp add: nv_upd_def)
  have s: "answered c (send_resp c1 out)" if "wire c1 = wire c" for c1 out
    using answered_send [OF that] assms(2) .
  have r: "ctrlchannel_receive_state d ?c3 body = Some c' \<Longrightarrow> answered c c' \<or> broken c c'"
    using answered_receive_state [OF _ o] answered_wire [OF w] w rs by (auto simp: broken_def wire_def)
  show ?thesis
    using assms l r w by (auto simp: cmd_set_stateblob_def Let_def intro!: s split: if_splits)
qed

lemma wire_cmds [simp]:
  "wire (snd (cmd_simple f c body)) = wire c"
  "wire (snd (cmd_stop d c body)) = wire c" "wire (snd (cmd_shutdown d c body)) = wire c"
  "wire (snd (cmd_reset_tpmestablished d c body)) = wire c"
  "wire (snd (cmd_set_buffersize d c body)) = wire c"
  "wire (snd (cmd_set_datafd c fd)) = wire c" "wire (snd (cmd_set_locality c body)) = wire c"
  by (simp_all add: cmd_simple_def cmd_stop_def cmd_shutdown_def cmd_reset_tpmestablished_def
      cmd_set_buffersize_def cmd_set_datafd_def cmd_set_locality_def Let_def split: prod.split option.split)

lemma wire_lock_storage [simp]: "wire (snd (cmd_lock_storage c body)) = wire c"
  using wire_lock [of "c\<lparr>c_mlp := (c_mlp c)\<lparr>locking_retries := be32toh (mem_read body 0 4)\<rparr>\<rparr>"]
  by (auto simp: cmd_lock_storage_def Let_def split: prod.split)

lemma wire_hash_data: "cmd_hash_data d c body = Some (out, c') \<Longrightarrow> wire c' = wire c"
  by (auto simp: cmd_hash_data_def Let_def dest: wire_hash_loop split: if_splits option.splits prod.splits)

lemma wire_store_volatile: "cmd_store_volatile d c body = Some (out, c') \<Longrightarrow> wire c' = wire c"
  by (auto simp: cmd_store_volatile_def split: if_splits option.splits prod.splits)

lemma answered_reply: "reply x = Some c' \<Longrightarrow> wire (snd x) = wire c \<Longrightarrow> c_open c \<Longrightarrow> answered c c'"
  by (auto simp: reply_def intro: answered_send split: prod.splits)

lemma answered_reply_option:
  assumes "reply_option x = Some c'" "\<And>out c1. x = Some (out, c1) \<Longrightarrow> wire c1 = wire c" "c_open c"
  shows "answered c c'"
  using reply_option_SomeD [OF assms(1)] assms(2,3) answered_reply by (metis prod.collapse)

lemma answered_dispatch:
  assumes "ctrl_dispatch d c cmd body fd = Some c'" "c_open c"
  shows "answered c c' \<or> cmd = CMD_SET_STATEBLOB \<and> broken c c'"
  using assms
  by (auto simp: ctrl_dispatch_def cmd_get_stateblob_def split: if_split_asm
      elim!: answered_reply_option
      intro: answered_reply answered_return_state answered_send
      dest: answered_set_stateblob wire_init wire_hash_data wire_store_volatile)

text \<open>
  C34. A request that was received on the control channel is answered by exactly one response, and the socket stays open; there
  are three exceptions, in which nothing is sent and the socket is closed: receiving the request failed, the
  response could not be written, or, for \<open>CMD_SET_STATEBLOB\<close> only and with an error among the coming reads, receiving the rest of the
  state blob failed. A request whose processing never ends or is undefined is not covered.
\<close>

theorem request_answered_once:
  assumes "ctrlchannel_process_fd d c events fd = Some c'" "c_open c"
  shows "case ctrlchannel_recv_cmd events [] of
      None \<Rightarrow> \<not> c_open c' \<and> c_sent c' = c_sent c
    | Some req \<Rightarrow>
        (if write_fails c then \<not> c_open c' \<and> c_sent c' = c_sent c
         else c_open c' \<and> (\<exists>out. c_sent c' = c_sent c @ [out])) \<or>
        (4 \<le> length req \<and> be32toh (mem_read req 0 4) = CMD_SET_STATEBLOB \<and> None \<in> set (c_reads c) \<and>
         \<not> c_open c' \<and> c_sent c' = c_sent c)"
proof (cases "ctrlchannel_recv_cmd events []")
  case None
  then show ?thesis using assms by (auto simp: ctrlchannel_process_fd_def)
next
  case (Some req)
  then have "answered c c' \<or> 4 \<le> length req \<and> be32toh (mem_read req 0 4) = CMD_SET_STATEBLOB \<and> broken c c'"
    using assms answered_dispatch [of d c "be32toh (mem_read req 0 4)" "drop 4 req" fd c']
    by (auto simp: ctrlchannel_process_fd_def simp del: mem_read_0 split: if_splits intro: answered_reply)
  then show ?thesis using Some by (auto simp: answered_def broken_def)
qed

theorem request_answered_once_witness:
  "let c = example_ctrl TPMLIB_TPM_VERSION_2 0 True [];
       r = ctrlchannel_process_fd example_deps c [RChunk (htobe32 CMD_GET_CONFIG)] None
   in \<exists>c' out. r = Some c' \<and> c_open c' \<and> c_sent c' = [out]"
proof -
  let ?c = "example_ctrl TPMLIB_TPM_VERSION_2 0 True []"
  have "\<exists>c'. ctrlchannel_process_fd example_deps ?c [RChunk (htobe32 CMD_GET_CONFIG)] None = Some c'"
    by (simp add: ctrlchannel_process_fd_def recv_needed_def ctrl_dispatch_def reply_def Let_def
        example_ctrl_def)
  then obtain c' where e: "ctrlchannel_process_fd example_deps ?c [RChunk (htobe32 CMD_GET_CONFIG)] None = Some c'"
    by blast
  have o: "c_open ?c" "c_sent ?c = []" "\<not> write_fails ?c" "c_reads ?c = []" by (simp_all add: example_ctrl_def write_fails_def)
  have "ctrlchannel_recv_cmd [RChunk (htobe32 CMD_GET_CONFIG)] [] = Some (htobe32 CMD_GET_CONFIG)" by code_simp
  then show ?thesis using request_answered_once [OF e o(1)] e o by (auto simp: Let_def)
qed

subsection \<open>The loops over the socket\<close>

text \<open>The client sends \<open>n\<close> more bytes, or ends the connection, or a read fails: it does not stall before.\<close>

definition delivers :: "nat \<Rightarrow> bytes option list \<Rightarrow> bool" where
  "delivers n rs \<longleftrightarrow> None \<in> set rs \<or> Some [] \<in> set rs \<or> n \<le> length (concat (map the rs))"

lemma delivers_0 [simp]: "delivers 0 rs"
  by (simp add: delivers_def)

lemma delivers_Nil [simp]: "delivers n [] \<longleftrightarrow> n = 0"
  by (simp add: delivers_def)

lemma read_blocks_iff: "ctrl_read c k = None \<longleftrightarrow> c_reads c = []"
  by (auto simp: ctrl_read_def split: list.splits option.splits)

lemma delivers_read:
  "ctrl_read c k = Some (Some ch, c1) \<Longrightarrow> ch \<noteq> [] \<Longrightarrow> delivers n (c_reads c) = delivers (n - length ch) (c_reads c1)"
  by (auto simp: ctrl_read_def delivers_def split: list.splits option.splits if_splits)

lemma stalls_read:
  "ctrl_read c k = Some (x, c1) \<Longrightarrow> 0 < k \<Longrightarrow> \<not> delivers n (c_reads c) \<Longrightarrow> \<exists>ch. x = Some ch \<and> ch \<noteq> []"
  by (auto simp: ctrl_read_def delivers_def split: list.splits option.splits if_splits)

lemma receive_blob_enough:
  assumes "n - length blob < fuel \<or> (chunk \<noteq> [] \<and> n - length blob \<le> fuel \<and> 0 < fuel)"
    and "length blob \<le> n" "length chunk \<le> n - length blob \<Longrightarrow> delivers (n - length blob - length chunk) (c_reads c)"
  shows "receive_blob fuel c n blob chunk \<noteq> None"
  using assms
proof (induction fuel arbitrary: c blob chunk)
  case (Suc fuel)
  show ?case
  proof (cases "length chunk > n - length blob \<or> length (blob @ chunk) = n")
    case True
    then show ?thesis by (auto simp: receive_blob.simps Let_def)
  next
    case False
    then have f: "length chunk \<le> n - length blob" "length (blob @ chunk) < n" using Suc.prems(2) by auto
    have dl: "delivers (n - length (blob @ chunk)) (c_reads c)" using Suc.prems(3) f(1) by (simp add: diff_diff_left)
    obtain r1 c1 where rd: "ctrl_read c 4088 = Some (r1, c1)"
      using dl f(2) read_blocks_iff [of c 4088] by (cases "ctrl_read c 4088") auto
    have ih: "receive_blob fuel c1 n (blob @ chunk) ch \<noteq> None" if "r1 = Some ch" "ch \<noteq> []" for ch
    proof (rule Suc.IH)
      show "n - length (blob @ chunk) < fuel \<or> ch \<noteq> [] \<and> n - length (blob @ chunk) \<le> fuel \<and> 0 < fuel"
        using that(2) Suc.prems(1) f by (cases chunk) auto
      show "length (blob @ chunk) \<le> n" using f by simp
      show "delivers (n - length (blob @ chunk) - length ch) (c_reads c1)"
        using dl delivers_read [of c 4088 ch c1] rd that by simp
    qed
    show ?thesis
      using f rd ih by (auto simp: receive_blob.simps Let_def split: option.splits list.splits)
  qed
qed simp

lemma receive_blob_stalls:
  "length chunk \<le> n - length blob \<Longrightarrow> length blob \<le> n \<Longrightarrow> \<not> delivers (n - length blob - length chunk) (c_reads c) \<Longrightarrow>
     receive_blob fuel c n blob chunk = None"
proof (induction fuel arbitrary: c blob chunk)
  case 0
  then show ?case by (simp add: receive_blob.simps)
next
  case (Suc fuel)
  have ne: "length (blob @ chunk) \<noteq> n" "length (blob @ chunk) \<le> n" using Suc.prems by (auto intro: ccontr)
  have nd: "\<not> delivers (n - length (blob @ chunk)) (c_reads c)" using Suc.prems(3) by (simp add: diff_diff_left)
  show ?case
  proof (cases "ctrl_read c 4088")
    case None
    then show ?thesis using ne Suc.prems(1) by (simp add: receive_blob.simps Let_def)
  next
    case (Some x)
    obtain r1 c1 where rd: "ctrl_read c 4088 = Some (r1, c1)" using Some by (cases x) simp
    obtain ch where ch: "r1 = Some ch" "ch \<noteq> []" using stalls_read [OF rd _ nd] by auto
    have nd1: "\<not> delivers (n - length (blob @ chunk) - length ch) (c_reads c1)"
      using nd delivers_read [of c 4088 ch c1] rd ch by simp
    then have "length ch \<le> n - length (blob @ chunk)" by (cases "length ch \<le> n - length (blob @ chunk)") simp_all
    then have "receive_blob fuel c1 n (blob @ chunk) ch = None" using Suc.IH ne(2) nd1 by blast
    then show ?thesis
      using ne Suc.prems(1) rd ch by (cases ch) (simp_all add: receive_blob.simps Let_def)
  qed
qed

lemma hash_loop_enough:
  assumes "n < fuel \<or> (chunk \<noteq> [] \<and> n \<le> fuel \<and> 0 < fuel)" "delivers (n - length chunk) (c_reads c)"
  shows "hash_data_loop d fuel c n chunk \<noteq> None"
  using assms
proof (induction fuel arbitrary: c n chunk)
  case (Suc fuel)
  obtain res t where h: "TPM_IO_Hash_Data (d_lib d) (w_lib (c_world c)) chunk = (res, t)" by fastforce
  let ?n = "n - length chunk"
  show ?case
  proof (cases "?n = 0")
    case True
    then show ?thesis using h by (simp add: hash_data_loop.simps Let_def)
  next
    case False
    have rs: "c_reads (libst_upd c t) = c_reads c" by (simp add: libst_upd_def)
    obtain r1 c1 where rd: "ctrl_read (libst_upd c t) (min ?n 4096) = Some (r1, c1)"
      using Suc.prems(2) False read_blocks_iff [of "libst_upd c t" "min ?n 4096"] rs
      by (cases "ctrl_read (libst_upd c t) (min ?n 4096)") auto
    have ih: "hash_data_loop d fuel c1 ?n ch \<noteq> None" if "r1 = Some ch" "ch \<noteq> []" for ch
    proof (rule Suc.IH)
      show "?n < fuel \<or> ch \<noteq> [] \<and> ?n \<le> fuel \<and> 0 < fuel" using that Suc.prems(1) False by (cases chunk) auto
      show "delivers (?n - length ch) (c_reads c1)"
        using Suc.prems(2) delivers_read [of "libst_upd c t" "min ?n 4096" ch c1] rd that rs by simp
    qed
    show ?thesis
      using h rd ih False by (auto simp: hash_data_loop.simps Let_def split: option.splits list.splits)
  qed
qed simp

lemma hash_loop_stalls:
  assumes "\<forall>t b. fst (TPM_IO_Hash_Data (d_lib d) t b) = 0" "\<not> delivers (n - length chunk) (c_reads c)"
  shows "hash_data_loop d fuel c n chunk = None"
  using assms(2)
proof (induction fuel arbitrary: c n chunk)
  case 0
  then show ?case by (simp add: hash_data_loop.simps)
next
  case (Suc fuel)
  obtain t where h: "TPM_IO_Hash_Data (d_lib d) (w_lib (c_world c)) chunk = (0, t)"
    using assms(1) by (metis prod.collapse)
  let ?n = "n - length chunk"
  have n: "?n \<noteq> 0" using Suc.prems by (auto intro: ccontr)
  have rs: "c_reads (libst_upd c t) = c_reads c" by (simp add: libst_upd_def)
  show ?case
  proof (cases "ctrl_read (libst_upd c t) (min ?n 4096)")
    case None
    then show ?thesis using h n by (simp add: hash_data_loop.simps Let_def)
  next
    case (Some x)
    obtain r1 c1 where rd: "ctrl_read (libst_upd c t) (min ?n 4096) = Some (r1, c1)" using Some by (cases x) simp
    obtain ch where ch: "r1 = Some ch" "ch \<noteq> []" using stalls_read [OF rd] Suc.prems n rs by auto
    have "\<not> delivers (?n - length ch) (c_reads c1)"
      using Suc.prems delivers_read [of "libst_upd c t" "min ?n 4096" ch c1] rd ch rs by simp
    then have "hash_data_loop d fuel c1 ?n ch = None" by (rule Suc.IH)
    then show ?thesis using h n rd ch by (cases ch) (simp_all add: hash_data_loop.simps Let_def)
  qed
qed

text \<open>
  C35. The loops that collect a state blob and hash data end exactly for clients that do not stall. With \<open>n\<close> bytes still to
  come, receiving a blob returns when the client sends them, closes the connection or the read fails, and so does
  hashing; a client that announces more than it sends and keeps the connection open blocks the server for ever: no number of
  rounds ends the loop (for hashing: as long as libtpms takes the data).
\<close>

theorem socket_loops_end_iff:
  assumes "n = unat (be32toh (mem_read body 8 4))" "12 \<le> length body" "length (drop 12 body) \<le> 4088"
    and "length (drop 12 body) < n" "n \<le> 512 * 1024" "malloc_ok (d_crypto d) n"
    and "k = unat (be32toh (mem_read hash 0 4))" "4 \<le> length hash" "length (drop 4 hash) \<le> k" "c_running c"
    and "\<forall>t b. fst (TPM_IO_Hash_Data (d_lib d) t b) = 0"
  shows "(ctrlchannel_receive_state d c body \<noteq> None \<longleftrightarrow> delivers (n - length (drop 12 body)) (c_reads c)) \<and>
    (\<not> delivers (n - length (drop 12 body)) (c_reads c) \<longrightarrow> (\<forall>fuel. receive_blob fuel c n [] (drop 12 body) = None)) \<and>
    (cmd_hash_data d c hash \<noteq> None \<longleftrightarrow> delivers (k - length (drop 4 hash)) (c_reads c)) \<and>
    (\<not> delivers (k - length (drop 4 hash)) (c_reads c) \<longrightarrow> (\<forall>fuel. hash_data_loop d fuel c k (drop 4 hash) = None))"
proof -
  let ?b = "drop 12 body" and ?h = "drop 4 hash"
  have rb: "receive_blob (Suc n) c n [] ?b \<noteq> None" if "delivers (n - length ?b) (c_reads c)"
    by (rule receive_blob_enough) (use that in simp_all)
  have sb: "receive_blob fuel c n [] ?b = None" if "\<not> delivers (n - length ?b) (c_reads c)" for fuel
    by (rule receive_blob_stalls) (use that assms(4) in simp_all)
  have r: "ctrlchannel_receive_state d c body \<noteq> None \<longleftrightarrow> receive_blob (Suc n) c n [] ?b \<noteq> None"
    using assms(2-6) unfolding assms(1) ctrlchannel_receive_state_def Let_def
    by (auto simp del: drop_all length_drop split: option.split sum.split)
  have hb: "hash_data_loop d (Suc k) c k ?h \<noteq> None" if "delivers (k - length ?h) (c_reads c)"
    by (rule hash_loop_enough) (use that in simp_all)
  have hs: "hash_data_loop d fuel c k ?h = None" if "\<not> delivers (k - length ?h) (c_reads c)" for fuel
    by (rule hash_loop_stalls [OF assms(11)]) (use that in simp)
  have h: "cmd_hash_data d c hash \<noteq> None \<longleftrightarrow> hash_data_loop d (Suc k) c k ?h \<noteq> None"
    using assms(8-10) unfolding assms(7) cmd_hash_data_def Let_def by (auto simp del: drop_all mem_read_0 split: option.split)
  have "ctrlchannel_receive_state d c body \<noteq> None \<longleftrightarrow> delivers (n - length ?b) (c_reads c)" using r rb sb [of "Suc n"] by argo
  moreover have "cmd_hash_data d c hash \<noteq> None \<longleftrightarrow> delivers (k - length ?h) (c_reads c)" using h hb hs [of "Suc k"] by argo
  ultimately show ?thesis by (intro conjI impI allI) (assumption | erule sb | erule hs)+
qed

theorem socket_loops_end_iff_witness:
  "let body = htobe32 0 @ htobe32 1 @ htobe32 20 @ [7]; hash = htobe32 3 @ [1];
       c = (\<lambda>rs. example_ctrl TPMLIB_TPM_VERSION_2 0 True rs) in
   ctrlchannel_receive_state example_deps (c [Some [7, 7], Some []]) body \<noteq> None \<and>
   (\<forall>fuel. receive_blob fuel (c [Some [7, 7]]) 20 [] [7] = None) \<and>
   cmd_hash_data example_deps (c [Some [2], Some [3]]) hash \<noteq> None \<and>
   (\<forall>fuel. hash_data_loop example_deps fuel (c [Some [2]]) 3 [1] = None)"
proof -
  let ?body = "htobe32 0 @ htobe32 1 @ htobe32 20 @ [7]" and ?hash = "htobe32 3 @ [1]"
  let ?c = "\<lambda>rs. example_ctrl TPMLIB_TPM_VERSION_2 0 True rs"
  have b: "drop 12 ?body = [7]" "drop 4 ?hash = [1]" by simp_all
  have u: "20 = unat (be32toh (mem_read ?body 8 4))" "3 = unat (be32toh (mem_read ?hash 0 4))" by code_simp+
  have s: "(ctrlchannel_receive_state example_deps (?c rs) ?body \<noteq> None \<longleftrightarrow> delivers (20 - 1) rs) \<and>
    (\<not> delivers (20 - 1) rs \<longrightarrow> (\<forall>fuel. receive_blob fuel (?c rs) 20 [] [7] = None)) \<and>
    (cmd_hash_data example_deps (?c rs) ?hash \<noteq> None \<longleftrightarrow> delivers (3 - 1) rs) \<and>
    (\<not> delivers (3 - 1) rs \<longrightarrow> (\<forall>fuel. hash_data_loop example_deps fuel (?c rs) 3 [1] = None))" for rs
    using socket_loops_end_iff [of 20 ?body example_deps 3 ?hash "?c rs", OF u(1) _ _ _ _ _ u(2)]
    unfolding b by (simp add: example_defs example_crypto_def)
  have "delivers (20 - 1) [Some [7, 7], Some []]" "\<not> delivers (20 - 1) [Some [7, 7]]"
    "delivers (3 - 1) [Some [2], Some [3]]" "\<not> delivers (3 - 1) [Some [2]]" by (simp_all add: delivers_def)
  with s show ?thesis unfolding Let_def by blast
qed

text \<open>A state blob that arrives in pieces.\<close>

lemma receive_blob_pieces:
  assumes "n = length blob + length chunk + length (concat chunks)"
    and "\<forall>ch\<in>set chunks. ch \<noteq> [] \<and> length ch \<le> 4088"
    and "c_reads c = map Some chunks @ rest" "length chunks < fuel"
  shows "receive_blob fuel c n blob chunk =
    Some (Inr (blob @ chunk @ concat chunks), c\<lparr>c_reads := rest\<rparr>)"
  using assms
proof (induction fuel arbitrary: c blob chunk chunks)
  case (Suc fuel)
  show ?case
  proof (cases chunks)
    case Nil
    then show ?thesis using Suc.prems by (simp add: receive_blob.simps Let_def)
  next
    case (Cons ch chs)
    have ne: "ch \<noteq> []" "length ch \<le> 4088" using Suc.prems(2) Cons by auto
    let ?c1 = "c\<lparr>c_reads := map Some chs @ rest\<rparr>"
    have rd: "ctrl_read c 4088 = Some (Some ch, ?c1)"
      using Suc.prems(3) Cons ne by (simp add: ctrl_read_def)
    have ih: "receive_blob fuel ?c1 n (blob @ chunk) ch =
        Some (Inr ((blob @ chunk) @ ch @ concat chs), ?c1\<lparr>c_reads := rest\<rparr>)"
      using Suc.prems Cons by (intro Suc.IH) auto
    have lt: "length (blob @ chunk) \<noteq> n" "\<not> n - length blob < length chunk"
      using Suc.prems(1) Cons ne by auto
    from ih lt rd ne Cons show ?thesis
      by (cases ch) (simp_all add: receive_blob.simps Let_def)
  qed
qed simp

text \<open>
  How a state blob is split over the reads of the socket does not matter: any sequence of
  non-empty pieces gives the same call of \<open>SWTPM_NVRAM_SetStateBlob\<close> and the same response as
  the blob in one piece behind the request.
\<close>

theorem receive_state_split:
  assumes "length hdr = 12" "be32toh (mem_read hdr 8 4) = of_nat (length (first @ concat chunks))"
    and "length (first @ concat chunks) \<le> 512 * 1024" "0 < length (first @ concat chunks)"
    and "malloc_ok (d_crypto d) (length (first @ concat chunks))" "length first \<le> 4088"
    and "\<forall>ch\<in>set chunks. ch \<noteq> [] \<and> length ch \<le> 4088"
    and "c_reads c = map Some chunks @ rest"
  shows "ctrlchannel_receive_state d c (hdr @ first) =
    (case SWTPM_NVRAM_SetStateBlob (d_crypto d) (nv_lib d) (w_lib (c_world c))
            (nv_globals (w_nv (c_world c))) (first @ concat chunks)
            (be32toh (mem_read hdr 0 4) AND PTM_STATE_FLAG_ENCRYPTED \<noteq> 0) (be32toh (mem_read hdr 4 4)) of
       (res, t) \<Rightarrow> Some (send_resp (libst_upd (c\<lparr>c_reads := rest\<rparr>) t) (htobe32 res)))"
proof -
  let ?b = "first @ concat chunks"
  have h: "mem_read (hdr @ first) i 4 = mem_read hdr i 4" if "i + 4 \<le> 12" for i
    using that assms(1) by (simp add: mem_read_def)
  have m: "mem_read (hdr @ first) 0 4 = mem_read hdr 0 4" "mem_read (hdr @ first) 4 4 = mem_read hdr 4 4"
    "mem_read (hdr @ first) 8 4 = mem_read hdr 8 4" by (simp_all add: h del: mem_read_0)
  have u: "unat (be32toh (mem_read hdr 8 4)) = length ?b"
    unfolding assms(2) by (rule unat_of_nat_u32) (use assms(3) in simp)
  have chl: "length chunks \<le> length (concat chunks)" using assms(7)
  proof (induction chunks)
    case (Cons a chunks)
    then show ?case by (cases a) auto
  qed simp
  have rb: "receive_blob (Suc (length ?b)) c (length ?b) [] first =
      Some (Inr ?b, c\<lparr>c_reads := rest\<rparr>)"
    using receive_blob_pieces [of "length ?b" "[]" first chunks c rest "Suc (length ?b)"] assms(7,8) chl
    by simp
  show ?thesis
    unfolding ctrlchannel_receive_state_def Let_def m u
    using assms rb by (auto simp: ptm_res_def simp del: mem_read_0 split: prod.split)
qed


theorem receive_state_split_witness:
  "let blob = replicate 20 7; hdr = htobe32 0 @ htobe32 1 @ htobe32 20;
       c = example_ctrl TPMLIB_TPM_VERSION_2 0 False [Some (replicate 9 7), Some [7], None] in
   ctrlchannel_receive_state example_deps c (hdr @ replicate 10 7) =
     (case SWTPM_NVRAM_SetStateBlob example_crypto (nv_lib example_deps) [] (example_globals 0 0) blob False 1 of
        (res, t) \<Rightarrow> Some (send_resp (libst_upd (c\<lparr>c_reads := [None]\<rparr>) t) (htobe32 res)))"
proof -
  let ?hdr = "htobe32 0 @ htobe32 1 @ htobe32 20"
  let ?c = "example_ctrl TPMLIB_TPM_VERSION_2 0 False [Some (replicate 9 7), Some [7], None]"
  have h: "mem_read ?hdr 0 4 = htobe32 0" "mem_read ?hdr 4 4 = htobe32 1" "mem_read ?hdr 8 4 = htobe32 20"
    by (simp_all add: mem_read_def)
  have f: "be32toh (mem_read ?hdr 0 4) = 0" "be32toh (mem_read ?hdr 4 4) = 1" "be32toh (mem_read ?hdr 8 4) = 20"
    unfolding h by (simp_all only: endian_roundtrip0)
  have b: "replicate 10 (7 :: byte) @ concat [replicate 9 7, [7]] = replicate 20 7"
    by (simp add: numeral_eq_Suc)
  have "ctrlchannel_receive_state example_deps ?c (?hdr @ replicate 10 7) =
    (case SWTPM_NVRAM_SetStateBlob (d_crypto example_deps) (nv_lib example_deps) (w_lib (c_world ?c))
            (nv_globals (w_nv (c_world ?c))) (replicate 10 7 @ concat [replicate 9 7, [7]])
            (be32toh (mem_read ?hdr 0 4) AND PTM_STATE_FLAG_ENCRYPTED \<noteq> 0) (be32toh (mem_read ?hdr 4 4)) of
       (res, t) \<Rightarrow> Some (send_resp (libst_upd (?c\<lparr>c_reads := [None]\<rparr>) t) (htobe32 res)))"
    by (rule receive_state_split) (simp_all add: f del: mem_read_0, simp_all add: example_defs example_crypto_def)
  then show ?thesis unfolding Let_def f b by (simp add: example_defs)
qed


subsection \<open>Requests in pieces\<close>

lemma htobe32_not_Nil [simp]: "htobe32 x \<noteq> []"
  using length_htobe(2) [of x] by (metis length_0_conv numeral_eq_Suc nat.distinct(1))

lemma recv_needed_prefix:
  assumes "recv_needed (p @ q) = length (p @ q)" "4 \<le> length p" "q \<noteq> []"
  shows "length p < recv_needed p"
proof -
  have m: "mem_read (p @ q) 0 4 = mem_read p 0 4" using assms(2) by (simp add: mem_read_def)
  have m8: "8 \<le> length p \<Longrightarrow> mem_read (p @ q) 4 4 = mem_read p 4 4"
    and m16: "16 \<le> length p \<Longrightarrow> mem_read (p @ q) 12 4 = mem_read p 12 4"
    by (simp_all add: mem_read_def)
  obtain a q' where "q = a # q'" using assms(3) by (cases q) auto
  then show ?thesis
    using assms(1,2) m8 m16 unfolding recv_needed_def Let_def m
    by (auto split: if_split_asm simp del: mem_read_0)
qed

lemma recv_cmd_pieces:
  assumes "recv_needed (recvd @ concat chunks) = length (recvd @ concat chunks)"
    and "4 \<le> length (recvd @ concat chunks)" "length (recvd @ concat chunks) \<le> sizeof_input"
    and "\<forall>ch\<in>set chunks. ch \<noteq> []" "chunks \<noteq> []"
  shows "ctrlchannel_recv_cmd (map RChunk chunks @ es) recvd = Some (recvd @ concat chunks)"
  using assms
proof (induction chunks arbitrary: recvd)
  case (Cons ch chs)
  let ?r = "recvd @ ch"
  have ne: "ch \<noteq> []" using Cons.prems(4) by simp
  have lt: "length recvd < sizeof_input" "length ch \<le> sizeof_input - length recvd"
    using Cons.prems(3) ne by (cases ch; simp)+
  then have t: "take (sizeof_input - length recvd) ch = ch" by simp
  show ?case
  proof (cases chs)
    case Nil
    then show ?thesis using Cons.prems lt ne t by (simp add: Let_def)
  next
    case (Cons ch2 chs2)
    then have q: "concat chs \<noteq> []" using Cons.prems(4) by simp
    have more: "\<not> (length ?r \<ge> 4 \<and> length ?r \<ge> recv_needed ?r)"
      using recv_needed_prefix [of ?r "concat chs"] Cons.prems(1) q by fastforce
    have "ctrlchannel_recv_cmd (map RChunk chs @ es) ?r = Some (?r @ concat chs)"
      using Cons.prems Cons by (intro Cons.IH) simp_all
    then show ?thesis using lt ne t more by (auto simp: Let_def)
  qed
qed simp

text \<open>
  A request whose length is the one its command asks for is received as sent, however it is
  split over the reads of the socket, as long as the pieces arrive in time.
\<close>

theorem recv_cmd_split:
  assumes "recv_needed (concat chunks) = length (concat chunks)" "4 \<le> length (concat chunks)"
    and "length (concat chunks) \<le> sizeof_input" "\<forall>ch\<in>set chunks. ch \<noteq> []"
  shows "ctrlchannel_recv_cmd (map RChunk chunks @ es) [] = Some (concat chunks)"
proof -
  have "chunks \<noteq> []" using assms(2) by auto
  then show ?thesis using recv_cmd_pieces [of "[]" chunks es] assms by simp
qed

theorem recv_cmd_split_witness:
  "let req = htobe32 CMD_HASH_DATA @ htobe32 3 @ [1, 2, 3] in
   ctrlchannel_recv_cmd (map RChunk [take 2 req, take 4 (drop 2 req), drop 6 req] @ []) [] = Some req"
proof -
  let ?req = "htobe32 CMD_HASH_DATA @ htobe32 3 @ [1, 2, 3]"
  let ?ch = "[take 2 ?req, take 4 (drop 2 ?req), drop 6 ?req]"
  have c: "concat ?ch = ?req"
  proof -
    have "take 4 (drop 2 ?req) @ drop 6 ?req = drop 2 ?req"
      using append_take_drop_id [of 4 "drop 2 ?req"] by simp
    then show ?thesis by simp
  qed
  have n: "recv_needed ?req = 11"
  proof -
    have "mem_read ?req 0 4 = htobe32 CMD_HASH_DATA" "mem_read ?req 4 4 = htobe32 3"
      by (simp_all add: mem_read_def)
    then have "be32toh (mem_read ?req 0 4) = CMD_HASH_DATA" "be32toh (mem_read ?req 4 4) = 3"
      by (simp_all only: endian_roundtrip0)
    then show ?thesis by (simp add: recv_needed_def Let_def del: mem_read_0)
  qed
  have "ctrlchannel_recv_cmd (map RChunk ?ch @ []) [] = Some (concat ?ch)"
    by (rule recv_cmd_split) (unfold c, simp_all add: n)
  then show ?thesis unfolding Let_def c .
qed

text \<open>
  Three commands with a body are not in the table of \<open>ctrlchannel_recv_cmd\<close>: if only their
  command word arrives first, it is taken for the whole request and answered with
  \<open>TPM_BAD_PARAMETER\<close>, though the client's request is complete in the end.
\<close>

theorem recv_cmd_cut_short:
  assumes "cmd \<in> {CMD_SET_BUFFERSIZE, CMD_GET_INFO, CMD_LOCK_STORAGE}" "c_open c"
  shows "ctrlchannel_process_fd d c (RChunk (htobe32 cmd) # RChunk body # es) fd =
    Some (send_resp c (htobe32 TPM_BAD_PARAMETER))"
proof -
  have r: "ctrlchannel_recv_cmd (RChunk (htobe32 cmd) # RChunk body # es) [] = Some (htobe32 cmd)"
    using assms(1) by (auto simp: recv_needed_def Let_def simp flip: length_greater_0_conv)
  show ?thesis
    using assms r
    by (auto simp: ctrlchannel_process_fd_def ctrl_dispatch_def reply_def cmd_set_buffersize_def
        cmd_get_info_def cmd_lock_storage_def err_bad_input_def ptm_res_def simp del: ctrlchannel_recv_cmd.simps)
qed

theorem recv_cmd_cut_short_witness:
  "let c = example_ctrl TPMLIB_TPM_VERSION_2 0 False [] in
   ctrlchannel_process_fd example_deps c [RChunk (htobe32 CMD_SET_BUFFERSIZE), RChunk (htobe32 4096)] None =
     Some (c\<lparr>c_sent := [htobe32 TPM_BAD_PARAMETER]\<rparr>)"
  using recv_cmd_cut_short [of CMD_SET_BUFFERSIZE "example_ctrl TPMLIB_TPM_VERSION_2 0 False []"
      example_deps "htobe32 4096" "[]" None]
  by (simp add: Let_def send_resp_def example_ctrl_def del: ctrlchannel_recv_cmd.simps)

subsection \<open>The lock of the storage\<close>

text \<open>
  Handing out the save state gives up the lock of the storage: when a request for the blob
  was answered, the storage is unlocked and no longer marked as locked, whether or not
  \<open>release_lock_outgoing\<close> was set.
\<close>

theorem savestate_releases_lock:
  assumes "ctrlchannel_return_state d c body = Some c'" "be32toh (mem_read body 4 4) = PTM_BLOB_TYPE_SAVESTATE"
    and "c_open c'"
  shows "\<not> storage_locked (c_mlp c') \<and> locking_retries (c_mlp c') = DEFAULT_LOCKING_RETRIES \<and>
    (\<exists>ops nv. g_nvram_backend_ops nv = Some ops \<and> w_nv (c_world c') = SWTPM_NVRAM_Unlock ops nv) \<and>
    release_lock_outgoing (c_mlp c') = release_lock_outgoing (c_mlp c)"
proof -
  have w: "w_nv (c_world (send_resp c1 out)) = w_nv (c_world c1)" "c_mlp (send_resp c1 out) = c_mlp c1"
    for c1 :: "('t, 's) ctrl" and out
    by (simp_all add: send_resp_def split: list.split bool.split)
  obtain res blob enc nv where f: "fetch_state d (c_world c) PTM_BLOB_TYPE_SAVESTATE
      (be32toh (mem_read body 0 4) AND PTM_STATE_FLAG_DECRYPTED \<noteq> 0) = Some (res, blob, enc, nv)"
    using assms(1,2) by (auto simp: ctrlchannel_return_state_def Let_def split: option.splits)
  obtain ops out where g: "g_nvram_backend_ops nv = Some ops"
    "c' = mainloop_unlock_nvram ops (send_resp (nv_upd c nv) out) DEFAULT_LOCKING_RETRIES"
    using assms f
    by (auto simp: ctrlchannel_return_state_def Let_def split: if_split_asm option.splits)
  then show ?thesis by (auto simp: mainloop_unlock_nvram_def w nv_upd_def)
qed

subsection \<open>Start and stop\<close>

text \<open>
  \<open>CMD_INIT\<close> leaves the TPM running exactly when it reports success, and a profile is used
  for the first successful start only.
\<close>

theorem init_runs_iff_success:
  assumes "cmd_init d c body = Some (out, c')" "length body = 4"
  shows "(c_running c' \<longleftrightarrow> out = htobe32 TPM_SUCCESS) \<and>
    (json_profile (c_mlp c') = (if c_running c' then None else json_profile (c_mlp c)))"
proof -
  have i: "htobe32 x = htobe32 y \<longleftrightarrow> x = y" for x y :: u32
    by (metis endian_roundtrip(5))
  have s: "\<not> c_running (stop_tpm d c)" "json_profile (c_mlp (stop_tpm d c)) = json_profile (c_mlp c)"
    by (simp_all add: stop_tpm_def Let_def split: prod.split)
  show ?thesis
    using assms s
    by (auto simp: cmd_init_def Let_def ptm_res_def i split: if_splits option.splits prod.splits)
qed


theorem savestate_releases_lock_witness:
  "let c = example_ctrl TPMLIB_TPM_VERSION_2 0 True [];
       r = ctrlchannel_return_state example_deps c (htobe32 0 @ htobe32 PTM_BLOB_TYPE_SAVESTATE @ htobe32 0)
   in \<exists>c'. r = Some c' \<and> storage_locked (c_mlp c) \<and> \<not> storage_locked (c_mlp c') \<and>
        \<not> release_lock_outgoing (c_mlp c')"
proof -
  let ?c = "example_ctrl TPMLIB_TPM_VERSION_2 0 True []"
  let ?b = "htobe32 0 @ htobe32 PTM_BLOB_TYPE_SAVESTATE @ htobe32 0"
  have "map_option c_open (ctrlchannel_return_state example_deps ?c ?b) = Some True" by code_simp
  then obtain c' where e: "ctrlchannel_return_state example_deps ?c ?b = Some c'" "c_open c'" by auto
  have t: "be32toh (mem_read ?b 4 4) = PTM_BLOB_TYPE_SAVESTATE" by code_simp
  have "storage_locked (c_mlp ?c)" "\<not> release_lock_outgoing (c_mlp ?c)"
    by (simp_all add: example_ctrl_def example_params_def)
  then show ?thesis using savestate_releases_lock [OF e(1) t e(2)] e(1) by (simp add: Let_def)
qed

theorem init_runs_iff_success_witness:
  "let r = cmd_init example_deps (example_ctrl TPMLIB_TPM_VERSION_2 0 False []) (htobe32 1)
   in \<exists>c'. r = Some (htobe32 TPM_SUCCESS, c') \<and> c_running c'"
proof -
  let ?r = "cmd_init example_deps (example_ctrl TPMLIB_TPM_VERSION_2 0 False []) (htobe32 1)"
  have "map_option fst ?r = Some (htobe32 TPM_SUCCESS)" by code_simp
  then obtain c' where e: "?r = Some (htobe32 TPM_SUCCESS, c')" by (cases ?r) auto
  from init_runs_iff_success [OF e] e show ?thesis by (simp add: Let_def)
qed

text \<open>
  TPM2_Shutdown is sent on behalf of the client only to a TPM 2 whose last command was not a
  shutdown: first with the type STATE, and with the type CLEAR only when that attempt was not
  successful; it counts as the last command exactly when it succeeded.
\<close>

theorem shutdown_protocol:
  assumes "tpmlib_maybe_send_tpm2_shutdown lib v w lc = (w', lc', sent)"
  shows "(sent = [] \<longleftrightarrow> v \<noteq> TPMLIB_TPM_VERSION_2 \<or> lc = TPMLIB_TPM2_CC_Shutdown) \<and>
    sent \<in> {[], [tpm2_shutdown TPM2_SU_STATE], [tpm2_shutdown TPM2_SU_STATE, tpm2_shutdown TPM2_SU_CLEAR]} \<and>
    (sent = [] \<longrightarrow> w' = w \<and> lc' = lc) \<and> lc' \<in> {lc, TPMLIB_TPM2_CC_Shutdown} \<and>
    (length sent = 1 \<longrightarrow> (\<exists>rsp. fst (lt_Process lib w (tpm2_shutdown TPM2_SU_STATE)) = (0, rsp) \<and>
       10 \<le> length rsp \<and> be32toh (mem_read rsp 6 4) \<in> {TPM_SUCCESS, TPM_RC_INITIALIZE}))"
  using assms
  by (auto simp: tpmlib_maybe_send_tpm2_shutdown_def Let_def split: if_splits prod.splits)

theorem shutdown_protocol_witness:
  "let r = tpmlib_maybe_send_tpm2_shutdown (base_lib example_deps) TPMLIB_TPM_VERSION_2 (example_world Map.empty) 0
   in snd (snd r) = [tpm2_shutdown TPM2_SU_STATE] \<and> fst (snd r) = TPMLIB_TPM2_CC_Shutdown"
proof -
  let ?r = "tpmlib_maybe_send_tpm2_shutdown (base_lib example_deps) TPMLIB_TPM_VERSION_2 (example_world Map.empty) 0"
  have e: "snd ?r = (TPMLIB_TPM2_CC_Shutdown, [tpm2_shutdown TPM2_SU_STATE])" by code_simp
  from shutdown_protocol [of "base_lib example_deps" TPMLIB_TPM_VERSION_2 "example_world Map.empty" 0
      "fst ?r" "fst (snd ?r)" "snd (snd ?r)"]
  show ?thesis using e by (auto simp: Let_def)
qed

subsection \<open>Signals\<close>

text \<open>
  C36. A SIGTERM that is delivered before \<open>poll\<close> returns stops the server: the next round ends
  the loop.
\<close>

theorem sigterm_stops_server:
  assumes "p_signal p" "mainloop_next d m p = Some (go_on, m')"
  shows "\<not> go_on \<and> m_conn m' < 0 \<and> m_written m' = m_written m"
  using assms
  by (auto simp: mainloop_next_def mainloop_round_def sigterm_handler_def disconnect_def
      SWTPM_IO_Disconnect_def Let_def split: if_splits)

theorem sigterm_stops_server_witness:
  "let m = example_mstate TPMLIB_TPM_VERSION_2 0; r = mainloop_next example_deps m (quiet_poll\<lparr>p_signal := True\<rparr>)
   in \<exists>m'. r = Some (False, m')"
proof -
  let ?m = "example_mstate TPMLIB_TPM_VERSION_2 0" and ?p = "quiet_poll\<lparr>p_signal := True\<rparr>"
  have "map_option fst (mainloop_next example_deps ?m ?p) = Some False" by code_simp
  then obtain g m' where e: "mainloop_next example_deps ?m ?p = Some (g, m')" by auto
  have "p_signal ?p" by (simp add: quiet_poll_def)
  from sigterm_stops_server [OF this e] e show ?thesis by (simp add: Let_def)
qed

lemma run_command_keeps:
  assumes "run_command d m command = (rc, m')"
  shows "m_notify m' = m_notify m" "c_terminate (m_ctrl m') = c_terminate (m_ctrl m)"
    "ml_flags (c_mlp (m_ctrl m')) = ml_flags (c_mlp (m_ctrl m))"
    "storage_locked (c_mlp (m_ctrl m')) = storage_locked (c_mlp (m_ctrl m))"
  using assms by (auto simp: run_command_def Let_def split: if_splits prod.splits)

lemma serve_command_keeps:
  assumes "serve_command d m rds wrs = (rc, m')"
  shows "m_notify m' = m_notify m \<and> c_terminate (m_ctrl m') = c_terminate (m_ctrl m) \<and>
    ml_flags (c_mlp (m_ctrl m')) = ml_flags (c_mlp (m_ctrl m))"
proof -
  obtain x rs where r: "SWTPM_IO_Read (m_conn m) (m_bufsize m) rds = (x, rs)" by fastforce
  show ?thesis
  proof (cases x)
    case (Inl e)
    then show ?thesis using assms r by (auto simp: serve_command_def disconnect_def)
  next
    case (Inr command)
    obtain cmd m1 where st: "strip_tcg_header m command = (cmd, m1)" by fastforce
    obtain rc1 m2 where run: "run_command d m1 cmd = (rc1, m2)" by fastforce
    have "m_notify m1 = m_notify m" "c_terminate (m_ctrl m1) = c_terminate (m_ctrl m)"
      "ml_flags (c_mlp (m_ctrl m1)) = ml_flags (c_mlp (m_ctrl m))"
      using st by (auto simp: strip_tcg_header_def Let_def split: if_splits prod.splits)
    then show ?thesis
      using assms r Inr st run run_command_keeps [OF run]
      by (auto simp: serve_command_def write_results_def split: if_splits prod.splits)
  qed
qed

lemma mainloop_next_state:
  "mainloop_round d m p = Some x \<Longrightarrow> mainloop_next d m p = Some (go_on, m') \<Longrightarrow> m' = snd x"
  by (cases x) (auto simp: mainloop_next_def split: round_end.splits if_splits)

lemma pending_notify_round:
  assumes "m_notify m" "\<not> c_terminate (m_ctrl m)" "\<not> has_flag m MAIN_LOOP_FLAG_TERMINATE" "\<not> p_signal p"
  shows "\<exists>m2. mainloop_next d m p = Some (True, m2) \<and> m_written m2 = m_written m \<and> m_conn m2 < 0 \<and>
    \<not> c_terminate (m_ctrl m2) \<and> m_notify m2"
  using assms
  by (auto simp: mainloop_next_def mainloop_round_def disconnect_def SWTPM_IO_Disconnect_def
      has_flag_def Let_def)

text \<open>
  A SIGTERM that is delivered while a TPM command is being taken off the data connection is
  lost: after the round \<open>g_mainloop_terminate\<close> is false again although the notify pipe has its
  byte, and from then on every round without a further signal drops the connection, serves
  nothing and goes on.
\<close>

theorem sigterm_lost:
  assumes "p_signal_late p" "\<not> p_signal p" "\<not> p_fails p" "\<not> m_notify m" "\<not> p_data_hup p"
    and "p_ctrl_in p = None" "\<not> p_ctrl_hup p" "p_data_in p = Some (rds, wrs)"
    and "storage_locked (c_mlp (m_ctrl m))" "\<not> has_flag m MAIN_LOOP_FLAG_TERMINATE"
    and "mainloop_next d m p = Some (go_on, m')" "\<not> p_signal p2"
  shows "\<not> c_terminate (m_ctrl m') \<and> m_notify m' \<and>
    (\<exists>m2. mainloop_next d m' p2 = Some (True, m2) \<and> m_written m2 = m_written m' \<and> m_conn m2 < 0 \<and>
       \<not> c_terminate (m_ctrl m2) \<and> m_notify m2)"
proof -
  let ?m0 = "if has_flag m MAIN_LOOP_FLAG_USE_FD \<and> m_conn m \<noteq> ml_fd (c_mlp (m_ctrl m))
             then m\<lparr>m_conn := ml_fd (c_mlp (m_ctrl m))\<rparr> else m"
  let ?m1 = "accept_clients (sigterm_handler ?m0) p"
  have a: "m_notify ?m1" "storage_locked (c_mlp (m_ctrl ?m1))"
    "ml_flags (c_mlp (m_ctrl ?m1)) = ml_flags (c_mlp (m_ctrl m))"
    using assms(9) by (auto simp: accept_clients_def sigterm_handler_def Let_def split: option.split)
  obtain rc m2 where sv: "serve_command d (?m1\<lparr>m_ctrl := (m_ctrl ?m1)\<lparr>c_terminate := False\<rparr>\<rparr>) rds wrs = (rc, m2)"
    by fastforce
  have l: "mainloop_ensure_locked_storage (m_ctrl ?m1) = (True, m_ctrl ?m1)"
    using a(2) by (simp add: mainloop_ensure_locked_storage_def Let_def)
  have nn: "m_notify ?m0 = m_notify m" by simp
  have "mainloop_round d m p = Some (data_round d ?m1 rds wrs)"
    using assms(1-8) nn
    by (simp add: mainloop_round_def ctrl_round_def hup_and_data_def Let_def)
  then have "m' = snd (data_round d ?m1 rds wrs)" using mainloop_next_state assms(11) by blast
  moreover have "m_notify (snd (data_round d ?m1 rds wrs)) \<and> \<not> c_terminate (m_ctrl (snd (data_round d ?m1 rds wrs))) \<and>
      ml_flags (c_mlp (m_ctrl (snd (data_round d ?m1 rds wrs)))) = ml_flags (c_mlp (m_ctrl m))"
    using serve_command_keeps [OF sv] sv a l by (simp add: data_round_def Let_def disconnect_def)
  ultimately have m': "m_notify m'" "\<not> c_terminate (m_ctrl m')" "\<not> has_flag m' MAIN_LOOP_FLAG_TERMINATE"
    using assms(10) by (simp_all add: has_flag_def)
  then show ?thesis using pending_notify_round [OF m'(1-3) assms(12), of d] by blast
qed

theorem sigterm_lost_witness:
  "let m = example_mstate TPMLIB_TPM_VERSION_2 0;
       cmd = htobe16 0x8001 @ htobe32 12 @ htobe32 0x17b @ [0, 1];
       p = quiet_poll\<lparr>p_signal_late := True, p_data_in := Some ([RdBytes cmd], [])\<rparr>
   in \<exists>m1 m2. mainloop_next example_deps m p = Some (True, m1) \<and>
        mainloop_next example_deps m1 quiet_poll = Some (True, m2) \<and> m_notify m2 \<and> \<not> c_terminate (m_ctrl m2)"
proof -
  let ?m = "example_mstate TPMLIB_TPM_VERSION_2 0"
  let ?cmd = "htobe16 0x8001 @ htobe32 12 @ htobe32 0x17b @ [0, 1]"
  let ?p = "quiet_poll\<lparr>p_signal_late := True, p_data_in := Some ([RdBytes ?cmd], [])\<rparr>"
  have "map_option fst (mainloop_next example_deps ?m ?p) = Some True" by code_simp
  then obtain m1 where e: "mainloop_next example_deps ?m ?p = Some (True, m1)" by auto
  have "\<not> c_terminate (m_ctrl m1) \<and> m_notify m1 \<and>
    (\<exists>m2. mainloop_next example_deps m1 quiet_poll = Some (True, m2) \<and> m_written m2 = m_written m1 \<and>
       m_conn m2 < 0 \<and> \<not> c_terminate (m_ctrl m2) \<and> m_notify m2)"
    by (rule sigterm_lost [OF _ _ _ _ _ _ _ _ _ _ e]) (simp_all add: example_defs has_flag_def)
  then show ?thesis using e unfolding Let_def by blast
qed

text \<open>
  With a TPM 2 the header in front of a command sets the locality to any byte: the limit of
  five localities and the rejection of locality 4 are not applied.
\<close>

theorem tcg_header_sets_any_locality:
  assumes "tpmversion (c_mlp (m_ctrl m)) = TPMLIB_TPM_VERSION_2" "cmd \<noteq> []"
  shows "strip_tcg_header m (htobe32 TPM2_SEND_COMMAND @ [loc] @ htobe32 sz @ cmd) =
    (cmd, m\<lparr>m_ctrl := (m_ctrl m)\<lparr>c_locality := loc\<rparr>, m_iov0 := True\<rparr>)"
proof -
  let ?c = "htobe32 TPM2_SEND_COMMAND @ [loc] @ htobe32 sz @ cmd"
  have h: "htobe32 TPM2_SEND_COMMAND = [0, 0, 0, 8]" by code_simp
  have "be16toh (mem_read ?c 0 2) = 0" "be32toh (mem_read ?c 0 4) = TPM2_SEND_COMMAND" "?c ! 4 = loc"
    unfolding h by (simp_all add: mem_read_def be16toh_def be32toh_def)
  then show ?thesis
    using assms by (simp add: strip_tcg_header_def tpmlib_handle_tcg_tpm2_cmd_header_def Let_def del: mem_read_0)
qed

theorem tcg_header_sets_any_locality_witness:
  "let m = example_mstate TPMLIB_TPM_VERSION_2 LOCALITY_FLAG_REJECT_LOCALITY_4;
       m' = snd (strip_tcg_header m (htobe32 TPM2_SEND_COMMAND @ [4] @ htobe32 12 @ replicate 12 0))
   in c_locality (m_ctrl m') = 4 \<and> \<not> locality_ok (locality_flags (c_mlp (m_ctrl m'))) (c_locality (m_ctrl m'))"
  using tcg_header_sets_any_locality [of "example_mstate TPMLIB_TPM_VERSION_2 LOCALITY_FLAG_REJECT_LOCALITY_4"
      "replicate 12 0" 4 12]
  by (simp add: Let_def example_defs locality_ok_def)

end
