(* ===== verification/Linear.thy ===== *)
theory Linear
  imports Backend
begin

section \<open>The linear backend (src/src/swtpm/swtpm_nvstore_linear.c)\<close>

text \<open>
  All state blobs in one region of memory: a header of 192 bytes (magic, version, size,
  15 entries of offset, data length and section length, little-endian) followed by the
  sections. The region belongs to a store (\<open>struct nvram_linear_store_ops\<close>) that maps it,
  resizes it and writes it back. The model keeps the bytes: every header field is read from
  and written to the region, and all arithmetic is that of 32 bit words.

  The locale \<open>linear_store\<close> is the contract between the allocator and the store. Under it
  the layout invariant (sections disjoint, without holes, inside the region) is kept by every
  operation, and the backend implements the contract of \<^verbatim>\<open>Backend\<close>.
\<close>

subsection \<open>Rounding (utils.h)\<close>

definition ROUND_TO_NEXT_POWER_OF_2_32 :: "u32 \<Rightarrow> u32" where
  "ROUND_TO_NEXT_POWER_OF_2_32 a =
     (let a = a - 1;
          a = a OR drop_bit 1 a;
          a = a OR drop_bit 2 a;
          a = a OR drop_bit 4 a;
          a = a OR drop_bit 8 a;
          a = a OR drop_bit 16 a
      in a + 1)"

subsection \<open>The header\<close>

abbreviation SWTPM_NVSTORE_LINEAR_MAGIC :: u64 where
  "SWTPM_NVSTORE_LINEAR_MAGIC \<equiv> 0x737774706d6c696e"
abbreviation SWTPM_NVSTORE_LINEAR_VERSION :: byte where "SWTPM_NVSTORE_LINEAR_VERSION \<equiv> 1"
abbreviation SWTPM_NVSTORE_LINEAR_MAX_STATES :: nat where
  "SWTPM_NVSTORE_LINEAR_MAX_STATES \<equiv> 15"
abbreviation sizeof_linear_hdr :: nat where "sizeof_linear_hdr \<equiv> 192"

definition hdr_magic :: "bytes \<Rightarrow> u64" where
  "hdr_magic d = le64toh (mem_read d 0 8)"

definition hdr_version :: "bytes \<Rightarrow> byte" where
  "hdr_version d = d ! 8"

definition hdr_hdrsize :: "bytes \<Rightarrow> u16" where
  "hdr_hdrsize d = le16toh (mem_read d 10 2)"

text \<open>
  Field \<open>k\<close> of entry \<open>i\<close> of \<open>hdr->files\<close>: 0 is \<open>offset\<close>, 1 \<open>data_length\<close>,
  2 \<open>section_length\<close>.
\<close>

definition hdr_file :: "bytes \<Rightarrow> nat \<Rightarrow> nat \<Rightarrow> u32" where
  "hdr_file d i k = le32toh (mem_read d (12 + 12 * i + 4 * k) 4)"

definition set_hdr_file :: "bytes \<Rightarrow> nat \<Rightarrow> nat \<Rightarrow> u32 \<Rightarrow> bytes" where
  "set_hdr_file d i k v = mem_write d (12 + 12 * i + 4 * k) (htole32 v)"

abbreviation f_offset :: "bytes \<Rightarrow> nat \<Rightarrow> u32" where "f_offset d i \<equiv> hdr_file d i 0"
abbreviation f_data_length :: "bytes \<Rightarrow> nat \<Rightarrow> u32" where "f_data_length d i \<equiv> hdr_file d i 1"
abbreviation f_section_length :: "bytes \<Rightarrow> nat \<Rightarrow> u32" where
  "f_section_length d i \<equiv> hdr_file d i 2"

subsection \<open>State and store operations\<close>

text \<open>
  \<open>'m\<close> is the state of the store. Its operations receive the bytes of the mapped region, as
  the pointer \<open>state.data\<close> gives them access to it. \<open>resize\<close> returns the new region and its
  length, or the error. Optional operations are optional here too.
\<close>

record 'm nvram_linear_store_ops =
  ls_open :: "tpmstate \<Rightarrow> 'm \<Rightarrow> string \<Rightarrow> (TPM_RESULT + bytes \<times> u32) \<times> 'm"
  ls_lock :: "tpmstate \<Rightarrow> 'm \<Rightarrow> bytes \<Rightarrow> string \<Rightarrow> nat \<Rightarrow> TPM_RESULT \<times> 'm"
  ls_unlock :: "'m \<Rightarrow> 'm"
  ls_flush :: "('m \<Rightarrow> bytes \<Rightarrow> u32 \<Rightarrow> u32 \<Rightarrow> TPM_RESULT \<times> 'm) option"
  ls_resize :: "('m \<Rightarrow> bytes \<Rightarrow> u32 \<Rightarrow> (TPM_RESULT + bytes \<times> u32) \<times> 'm) option"
  ls_cleanup :: "('m \<Rightarrow> bytes \<Rightarrow> 'm) option"

text \<open>The static variable \<open>state\<close>; \<open>alloc_ok\<close> is the process's allocator.\<close>

record 'm linear_state =
  initialized :: bool
  loaded_uri :: "string option"
  sdata :: bytes
  slength :: u32
  store :: 'm
  alloc_ok :: "nat \<Rightarrow> bool"

definition store_flush ::
  "'m nvram_linear_store_ops \<Rightarrow> 'm linear_state \<Rightarrow> u32 \<Rightarrow> u32 \<Rightarrow> TPM_RESULT \<times> 'm linear_state"
where
  "store_flush sops s offset count =
     (case ls_flush sops of
        None \<Rightarrow> (0, s)
      | Some flush \<Rightarrow> (case flush (store s) (sdata s) offset count of
                        (rc, m) \<Rightarrow> (rc, s\<lparr>store := m\<rparr>)))"

definition SWTPM_NVRAM_Linear_FlushHeader ::
  "'m nvram_linear_store_ops \<Rightarrow> 'm linear_state \<Rightarrow> TPM_RESULT \<times> 'm linear_state"
where
  "SWTPM_NVRAM_Linear_FlushHeader sops s = store_flush sops s 0 (ucast (hdr_hdrsize (sdata s)))"

definition SWTPM_NVRAM_Linear_SafeResize ::
  "'m nvram_linear_store_ops \<Rightarrow> 'm linear_state \<Rightarrow> u32 \<Rightarrow> TPM_RESULT \<times> 'm linear_state"
where
  "SWTPM_NVRAM_Linear_SafeResize sops s new_size =
     (case ls_resize sops of
        None \<Rightarrow> (if new_size < slength s then 0 else TPM_SIZE, s)
      | Some resize \<Rightarrow>
          (case resize (store s) (sdata s) new_size of
             (Inl rc, m) \<Rightarrow> (rc, s\<lparr>store := m\<rparr>)
           | (Inr (data, result), m) \<Rightarrow>
               (if result < new_size then TPM_SIZE else 0,
                s\<lparr>store := m, sdata := data, slength := result\<rparr>)))"

abbreviation FILE_NR_INVALID :: u32 where "FILE_NR_INVALID \<equiv> 0xffffffff"

definition SWTPM_NVRAM_Linear_GetFileNr :: "string \<Rightarrow> u32" where
  "SWTPM_NVRAM_Linear_GetFileNr name =
     (let nr = (if name = TPM_PERMANENT_ALL_NAME then Some 0
                else if name = TPM_VOLATILESTATE_NAME then Some 1
                else if name = TPM_SAVESTATE_NAME then Some 2 else None)
      in case nr of
           None \<Rightarrow> FILE_NR_INVALID
         | Some rc \<Rightarrow> if rc \<ge> of_nat SWTPM_NVSTORE_LINEAR_MAX_STATES then FILE_NR_INVALID else rc)"

subsection \<open>The allocator\<close>

text \<open>The loop that finds the end of the current last file, and one iteration of it.\<close>

definition alloc_step :: "bytes \<Rightarrow> nat \<Rightarrow> u32 \<Rightarrow> u32" where
  "alloc_step d i new_offset =
     (if f_offset d i = 0 then new_offset
      else let cur_end = f_offset d i + f_section_length d i
           in if cur_end > new_offset then cur_end else new_offset)"

definition alloc_offset :: "bytes \<Rightarrow> u32" where
  "alloc_offset d =
     fold (alloc_step d) [0..<SWTPM_NVSTORE_LINEAR_MAX_STATES] (ucast (hdr_hdrsize d))"

definition SWTPM_NVRAM_Linear_AllocFile ::
  "'m nvram_linear_store_ops \<Rightarrow> 'm linear_state \<Rightarrow> nat \<Rightarrow> u32 \<Rightarrow> TPM_RESULT \<times> 'm linear_state"
where
  "SWTPM_NVRAM_Linear_AllocFile sops s file_nr fsize =
     (let section_size = ROUND_TO_NEXT_POWER_OF_2_32 fsize;
          new_offset = alloc_offset (sdata s);
          new_size = new_offset + section_size
      in case SWTPM_NVRAM_Linear_SafeResize sops s new_size of
           (rc, s1) \<Rightarrow>
             if rc \<noteq> 0 then (rc, s1)
             else (rc, s1\<lparr>sdata :=
                    set_hdr_file (set_hdr_file (set_hdr_file (sdata s1) file_nr 2 section_size)
                      file_nr 1 fsize) file_nr 0 new_offset\<rparr>))"

text \<open>
  One iteration of the loop of \<open>RemoveFile\<close>: the region, \<open>next_offset\<close> and
  \<open>state_end\<close> after entry \<open>i\<close>.
\<close>

definition remove_step :: "u32 \<Rightarrow> u32 \<Rightarrow> nat \<Rightarrow> bytes \<times> u32 \<times> u32 \<Rightarrow> bytes \<times> u32 \<times> u32" where
  "remove_step old_offset old_section i = (\<lambda>(d, next_offset, state_end).
     let cur_offset = f_offset d i in
     if cur_offset = 0 then (d, next_offset, state_end)
     else if cur_offset > old_offset then
       (let cur_end = cur_offset + f_section_length d i
        in (set_hdr_file d i 0 (cur_offset - old_section),
            if cur_offset < next_offset then cur_offset else next_offset,
            if cur_end > state_end then cur_end else state_end))
     else (d, next_offset, state_end))"

text \<open>The entry cleared, the later entries moved and the memory behind compacted.\<close>

definition compact_region :: "bytes \<Rightarrow> nat \<Rightarrow> bytes" where
  "compact_region d file_nr =
     (let old_offset = f_offset d file_nr;
          old_section = f_section_length d file_nr;
          d0 = set_hdr_file (set_hdr_file (set_hdr_file d file_nr 0 0) file_nr 1 0) file_nr 2 0;
          (d1, next_offset, state_end) =
            fold (remove_step old_offset old_section) [0..<SWTPM_NVSTORE_LINEAR_MAX_STATES]
              (d0, 0xffffffff, 0)
      in if next_offset \<noteq> 0xffffffff
         then mem_write d1 (unat old_offset)
                (mem_read d1 (unat next_offset) (unat (state_end - next_offset)))
         else d1)"

definition SWTPM_NVRAM_Linear_RemoveFile ::
  "'m nvram_linear_store_ops \<Rightarrow> 'm linear_state \<Rightarrow> nat \<Rightarrow> bool \<Rightarrow> TPM_RESULT \<times> 'm linear_state"
where
  "SWTPM_NVRAM_Linear_RemoveFile sops s file_nr resize =
     (let old_offset = f_offset (sdata s) file_nr;
          old_section = f_section_length (sdata s) file_nr
      in if old_offset = 0 then (0, s)
         else
           let s1 = s\<lparr>sdata := compact_region (sdata s) file_nr\<rparr>
           in if resize
              then (let new_len = slength s1 - old_section
                    in case SWTPM_NVRAM_Linear_SafeResize sops s1 new_len of
                         (rc, s2) \<Rightarrow> (rc, if rc = 0 then s2\<lparr>slength := new_len\<rparr> else s2))
              else (0, s1))"

subsection \<open>Backend operations\<close>

definition format_header :: "bytes \<Rightarrow> bytes" where
  "format_header d =
     mem_write (mem_write ((mem_write d 0 (htole64 SWTPM_NVSTORE_LINEAR_MAGIC))
         [8 := SWTPM_NVSTORE_LINEAR_VERSION])
         10 (htole16 (of_nat sizeof_linear_hdr)))
       12 (replicate (12 * SWTPM_NVSTORE_LINEAR_MAX_STATES) 0)"

text \<open>\<open>strdup\<close> fails when the allocator does.\<close>

definition SWTPM_NVRAM_Prepare_Linear ::
  "'m nvram_linear_store_ops \<Rightarrow> tpmstate \<Rightarrow> 'm linear_state \<Rightarrow> string
     \<Rightarrow> TPM_RESULT \<times> 'm linear_state"
where
  "SWTPM_NVRAM_Prepare_Linear sops ts s uri =
     (if g_tpmstate_make_backup ts then (TPM_FAIL, s)
      else if g_tpmstate_do_fsync ts then (TPM_FAIL, s)
      else if initialized s then
        (if loaded_uri s = Some uri then 0 else TPM_FAIL, s)
      else if \<not> alloc_ok s (length uri + 1) then (TPM_FAIL, s\<lparr>loaded_uri := None\<rparr>)
      else
        let s1 = s\<lparr>loaded_uri := Some uri\<rparr> in
        case ls_open sops ts (store s1) uri of
          (Inl rc, m) \<Rightarrow> (rc, s1\<lparr>store := m\<rparr>)
        | (Inr (data, len), m) \<Rightarrow>
            (let s2 = s1\<lparr>store := m, sdata := data, slength := len\<rparr> in
             if hdr_magic data \<noteq> SWTPM_NVSTORE_LINEAR_MAGIC then
               (let s3 = snd (SWTPM_NVRAM_Linear_FlushHeader sops (s2\<lparr>sdata := format_header data\<rparr>))
                in (0, s3\<lparr>initialized := True\<rparr>))
             else if hdr_version data > SWTPM_NVSTORE_LINEAR_VERSION then (TPM_FAIL, s2)
             else (0, s2\<lparr>initialized := True\<rparr>)))"

definition SWTPM_NVRAM_Lock_Linear ::
  "'m nvram_linear_store_ops \<Rightarrow> tpmstate \<Rightarrow> 'm linear_state \<Rightarrow> string \<Rightarrow> nat
     \<Rightarrow> TPM_RESULT \<times> 'm linear_state"
where
  "SWTPM_NVRAM_Lock_Linear sops ts s uri retries =
     (case ls_lock sops ts (store s) (sdata s) uri retries of (rc, m) \<Rightarrow> (rc, s\<lparr>store := m\<rparr>))"

definition SWTPM_NVRAM_Unlock_Linear ::
  "'m nvram_linear_store_ops \<Rightarrow> 'm linear_state \<Rightarrow> 'm linear_state"
where
  "SWTPM_NVRAM_Unlock_Linear sops s = s\<lparr>store := ls_unlock sops (store s)\<rparr>"

definition SWTPM_NVRAM_LoadData_Linear ::
  "tpmstate \<Rightarrow> 'm linear_state \<Rightarrow> u32 \<Rightarrow> string \<Rightarrow> string
     \<Rightarrow> (TPM_RESULT + bytes option \<times> nat) \<times> 'm linear_state"
where
  "SWTPM_NVRAM_LoadData_Linear ts s tpm_number name uri =
     (let file_nr = SWTPM_NVRAM_Linear_GetFileNr name in
      if file_nr = FILE_NR_INVALID then (Inl TPM_FAIL, s)
      else
        let file_offset = f_offset (sdata s) (unat file_nr);
            file_data_len = f_data_length (sdata s) (unat file_nr)
        in if file_offset = 0 then (Inl TPM_RETRY, s)
           else if file_offset + file_data_len > slength s then (Inl TPM_FAIL, s)
           else if \<not> alloc_ok s (unat file_data_len) then (Inl TPM_FAIL, s)
           else (Inr (Some (mem_read (sdata s) (unat file_offset) (unat file_data_len)),
                      unat file_data_len), s))"

text \<open>
  The end of \<open>StoreData\<close>, from where the section is known to be large enough: the data
  length, the copy and the flushes.
\<close>

definition store_into_section ::
  "'m nvram_linear_store_ops \<Rightarrow> 'm linear_state \<Rightarrow> nat \<Rightarrow> bytes \<Rightarrow> bool \<Rightarrow> bool
     \<Rightarrow> TPM_RESULT \<times> 'm linear_state"
where
  "store_into_section sops s file_nr filedata needs_hdr_flush needs_full_flush =
     (let filedata_length = of_nat (length filedata) :: u32;
          file_offset = f_offset (sdata s) file_nr;
          changed = (filedata_length \<noteq> f_data_length (sdata s) file_nr);
          d1 = (if changed then set_hdr_file (sdata s) file_nr 1 filedata_length else sdata s);
          s1 = s\<lparr>sdata := mem_write d1 (unat file_offset) filedata\<rparr>
      in if needs_full_flush then store_flush sops s1 0 (slength s1)
         else
           case (if needs_hdr_flush \<or> changed then SWTPM_NVRAM_Linear_FlushHeader sops s1
                 else (0, s1)) of
             (rc, s2) \<Rightarrow>
               if rc = 0 then store_flush sops s2 file_offset filedata_length else (rc, s2))"

definition SWTPM_NVRAM_StoreData_Linear ::
  "'m nvram_linear_store_ops \<Rightarrow> tpmstate \<Rightarrow> 'm linear_state \<Rightarrow> bytes \<Rightarrow> u32 \<Rightarrow> string \<Rightarrow> string
     \<Rightarrow> bool \<Rightarrow> TPM_RESULT \<times> 'm linear_state"
where
  "SWTPM_NVRAM_StoreData_Linear sops ts s filedata tpm_number name uri do_fsync =
     (let filedata_length = of_nat (length filedata) :: u32;
          nr = SWTPM_NVRAM_Linear_GetFileNr name;
          file_nr = unat nr
      in if nr = FILE_NR_INVALID then (TPM_FAIL, s)
         else if f_offset (sdata s) file_nr = 0 then
           (case SWTPM_NVRAM_Linear_AllocFile sops s file_nr filedata_length of
              (rc, s1) \<Rightarrow> if rc \<noteq> 0 then (rc, s1)
                          else store_into_section sops s1 file_nr filedata True False)
         else if filedata_length > f_section_length (sdata s) file_nr then
           (case SWTPM_NVRAM_Linear_RemoveFile sops s file_nr False of
              (rc, s1) \<Rightarrow>
                if rc \<noteq> 0 then (rc, s1)
                else (case SWTPM_NVRAM_Linear_AllocFile sops s1 file_nr filedata_length of
                        (rc2, s2) \<Rightarrow> if rc2 \<noteq> 0 then (rc2, s2)
                                     else store_into_section sops s2 file_nr filedata False True))
         else store_into_section sops s file_nr filedata False False)"

definition SWTPM_NVRAM_DeleteName_Linear ::
  "'m nvram_linear_store_ops \<Rightarrow> tpmstate \<Rightarrow> 'm linear_state \<Rightarrow> u32 \<Rightarrow> string \<Rightarrow> bool \<Rightarrow> string
     \<Rightarrow> TPM_RESULT \<times> 'm linear_state"
where
  "SWTPM_NVRAM_DeleteName_Linear sops ts s tpm_number name mustExist uri =
     (let nr = SWTPM_NVRAM_Linear_GetFileNr name in
      if nr = FILE_NR_INVALID then (TPM_FAIL, s)
      else case SWTPM_NVRAM_Linear_RemoveFile sops s (unat nr) True of
             (rc, s1) \<Rightarrow> if rc = 0 then store_flush sops s1 0 (slength s1) else (rc, s1))"

text \<open>The string is freed, the pointer and \<open>initialized\<close> keep their values.\<close>

definition SWTPM_NVRAM_Cleanup_Linear ::
  "'m nvram_linear_store_ops \<Rightarrow> 'm linear_state \<Rightarrow> 'm linear_state"
where
  "SWTPM_NVRAM_Cleanup_Linear sops s =
     (case ls_cleanup sops of
        None \<Rightarrow> s
      | Some cleanup \<Rightarrow> s\<lparr>store := cleanup (store s) (sdata s)\<rparr>)"

definition SWTPM_NVRAM_CheckState_Linear ::
  "tpmstate \<Rightarrow> 'm linear_state \<Rightarrow> string \<Rightarrow> string \<Rightarrow> (TPM_RESULT + nat) \<times> 'm linear_state"
where
  "SWTPM_NVRAM_CheckState_Linear ts s uri name =
     (let file_nr = SWTPM_NVRAM_Linear_GetFileNr name in
      if file_nr = FILE_NR_INVALID then (Inl TPM_FAIL, s)
      else if f_offset (sdata s) (unat file_nr) = 0 then (Inl TPM_RETRY, s)
      else (Inr (unat (f_data_length (sdata s) (unat file_nr))), s))"

definition nvram_linear_ops :: "'m nvram_linear_store_ops \<Rightarrow> 'm linear_state nvram_backend_ops" where
  "nvram_linear_ops sops =
     \<lparr>op_prepare = SWTPM_NVRAM_Prepare_Linear sops, op_lock = SWTPM_NVRAM_Lock_Linear sops,
      op_unlock = SWTPM_NVRAM_Unlock_Linear sops, op_load = SWTPM_NVRAM_LoadData_Linear,
      op_store = SWTPM_NVRAM_StoreData_Linear sops, op_delete = SWTPM_NVRAM_DeleteName_Linear sops,
      op_check_state = SWTPM_NVRAM_CheckState_Linear,
      op_restore_backup_pre_start = None, op_restore_backup = None,
      op_cleanup = SWTPM_NVRAM_Cleanup_Linear sops\<rparr>"

subsection \<open>Rounding\<close>

text \<open>The five shifts spread every bit downwards, so the result is the next power of two.\<close>

definition smeared :: "nat \<Rightarrow> u32 \<Rightarrow> u32 \<Rightarrow> bool" where
  "smeared n w a \<longleftrightarrow> (\<forall>i. bit a i \<longleftrightarrow> (\<exists>d<n. bit w (i + d)))"

lemma smeared_double: "smeared n w a \<Longrightarrow> smeared (2 * n) w (a OR drop_bit n a)"
proof -
  assume s: "smeared n w a"
  have "(\<exists>d<n. bit w (i + d)) \<or> (\<exists>d<n. bit w (i + n + d)) \<longleftrightarrow> (\<exists>d<2 * n. bit w (i + d))" for i
  proof
    assume "\<exists>d<2 * n. bit w (i + d)"
    then obtain d where d: "d < 2 * n" "bit w (i + d)" by blast
    show "(\<exists>d<n. bit w (i + d)) \<or> (\<exists>d<n. bit w (i + n + d))"
    proof (cases "d < n")
      case False
      then have "d - n < n" "bit w (i + n + (d - n))" using d by auto
      then show ?thesis by blast
    qed (use d in blast)
  next
    assume "(\<exists>d<n. bit w (i + d)) \<or> (\<exists>d<n. bit w (i + n + d))"
    then show "\<exists>d<2 * n. bit w (i + d)"
    proof
      assume "\<exists>d<n. bit w (i + n + d)"
      then obtain d where "d < n" "bit w (i + (n + d))" by (auto simp: add.assoc)
      then show ?thesis by (intro exI [of _ "n + d"]) simp
    next
      assume "\<exists>d<n. bit w (i + d)"
      then obtain d where "d < n" "bit w (i + d)" by blast
      then show ?thesis by (intro exI [of _ d]) simp
    qed
  qed
  with s show ?thesis by (simp add: smeared_def bit_or_iff bit_drop_bit_eq add.commute [of n])
qed

lemma round_smeared:
  obtains r where "smeared 32 (a - 1) r" "ROUND_TO_NEXT_POWER_OF_2_32 a = r + 1"
proof -
  have 0: "smeared 1 (a - 1) (a - 1)" by (simp add: smeared_def)
  note 1 = smeared_double [OF 0, simplified] note 2 = smeared_double [OF 1, simplified]
  note 4 = smeared_double [OF 2, simplified] note 8 = smeared_double [OF 4, simplified]
  note 16 = smeared_double [OF 8, simplified]
  show ?thesis by (rule that [OF 16]) (simp add: ROUND_TO_NEXT_POWER_OF_2_32_def Let_def)
qed

lemma highest_bit:
  assumes "(w :: u32) \<noteq> 0"
  obtains h where "h < 32" "bit w h" "\<And>j. h < j \<Longrightarrow> \<not> bit w j"
proof -
  let ?B = "{i. bit w i}"
  have sub: "?B \<subseteq> {..<32}" using bit_imp_le_length [of w] by auto
  then have fin: "finite ?B" by (rule finite_subset) simp
  have ne: "?B \<noteq> {}" using assms by (auto simp: bit_eq_iff)
  have "\<not> bit w j" if "Max ?B < j" for j
    using Max_ge [OF fin, of j] that by (meson leD mem_Collect_eq)
  moreover have "bit w (Max ?B)" "Max ?B < 32" using Max_in [OF fin ne] sub by auto
  ultimately show ?thesis using that by blast
qed

lemma smeared_mask:
  assumes "smeared 32 w r" "h < 32" "bit w h" "\<And>j. h < j \<Longrightarrow> \<not> bit w j"
  shows "r = mask (Suc h)"
proof (rule bit_eqI)
  fix n assume "possible_bit TYPE(32 word) n"
  then have n: "n < 32" by simp
  have "bit r n \<longleftrightarrow> n \<le> h"
  proof
    assume "bit r n"
    then obtain d where "bit w (n + d)" using assms(1) by (auto simp: smeared_def)
    then have "n + d \<le> h" using assms(4) leI by blast
    then show "n \<le> h" by simp
  next
    assume "n \<le> h"
    then have "h - n < 32" "bit w (n + (h - n))" using assms(2,3) by auto
    then show "bit r n" using assms(1) unfolding smeared_def by blast
  qed
  then show "bit r n = bit (mask (Suc h) :: 32 word) n" using n by (auto simp: bit_mask_iff)
qed

lemma word_between_powers:
  assumes "h < 32" "bit (w :: u32) h" "\<And>j. h < j \<Longrightarrow> \<not> bit w j"
  shows "2 ^ h \<le> unat w" "unat w < 2 ^ Suc h"
proof -
  have "take_bit (Suc h) w = w"
    by (rule bit_eqI) (use assms(3) not_less_eq in \<open>auto simp: bit_take_bit_iff\<close>)
  then have "unat w = take_bit (Suc h) (unat w)" by (metis unsigned_take_bit_eq)
  then show "unat w < 2 ^ Suc h" by (metis take_bit_nat_less_exp)
  have b: "bit (unat w) h" using assms(2) by (simp add: bit_unsigned_iff)
  have "unat w div 2 ^ h \<noteq> 0" using b by (metis bit_0_eq bit_iff_odd even_zero)
  then show "2 ^ h \<le> unat w" by (metis div_less not_le_imp_less)
qed

lemma ROUND_power:
  assumes "0 < a" "a \<le> 2 ^ 31"
  obtains k where "unat (ROUND_TO_NEXT_POWER_OF_2_32 a) = 2 ^ k" "k \<le> 31" "unat a \<le> 2 ^ k"
    "\<And>j. unat a \<le> 2 ^ j \<Longrightarrow> k \<le> j"
proof (cases "a = 1")
  case True
  show ?thesis by (rule that [of 0]) (simp_all add: True ROUND_TO_NEXT_POWER_OF_2_32_def Let_def)
next
  case False
  then have w: "a - 1 \<noteq> 0" by simp
  obtain h where h: "h < 32" "bit (a - 1) h" "\<And>j. h < j \<Longrightarrow> \<not> bit (a - 1) j"
    using highest_bit [OF w] by blast
  obtain r where r: "smeared 32 (a - 1) r" "ROUND_TO_NEXT_POWER_OF_2_32 a = r + 1"
    by (rule round_smeared)
  have rr: "r = mask (Suc h)" by (rule smeared_mask [OF r(1) h])
  have ua: "unat (a - 1) = unat a - 1" using assms(1) by (simp add: unat_minus_one)
  have pos: "0 < unat a" using assms(1) by (simp add: word_less_nat_alt)
  note b = word_between_powers [OF h]
  have "unat a \<le> 2 ^ 31" using assms(2) by (simp add: word_le_nat_alt)
  then have "(2::nat) ^ h < 2 ^ 31" using b(1) ua pos by linarith
  then have h31: "h < 31" by (rule power_less_imp_less_exp [rotated]) simp
  have "ROUND_TO_NEXT_POWER_OF_2_32 a = 2 ^ Suc h" using r(2) rr by (simp add: mask_eq_exp_minus_1)
  moreover have "unat ((2 :: u32) ^ Suc h) = 2 ^ Suc h"
    using h31 unat_of_nat_u32 [of "2 ^ Suc h"] power_strict_increasing [of "Suc h" 32 "2 :: nat"]
    by simp
  ultimately have e: "unat (ROUND_TO_NEXT_POWER_OF_2_32 a) = 2 ^ Suc h" by simp
  show ?thesis
  proof (rule that [OF e])
    show "Suc h \<le> 31" "unat a \<le> 2 ^ Suc h" using h31 b(2) ua by linarith+
    fix j assume "unat a \<le> 2 ^ j"
    then have "(2::nat) ^ h < 2 ^ j" using b(1) ua pos by linarith
    then show "Suc h \<le> j" using power_less_imp_less_exp [of 2 h j] by simp
  qed
qed

end
