(* ===== verification/LinearLayout.thy ===== *)
theory LinearLayout
  imports Linear
begin

section \<open>The layout of the linear region\<close>

text \<open>
  The layout invariant of \<open>swtpm_nvstore_linear.c\<close> (the comments of \<open>AllocFile\<close> and
  \<open>RemoveFile\<close> state it informally: no holes, new files always at the end) and what the
  steps of the allocator do to it: the two loops over the header entries, the compaction by
  \<open>memmove\<close>, the new entry, and the copy into a section. All of it on the bytes of the region.
\<close>

subsection \<open>Reading and writing the header\<close>

lemma length_htole32 [simp]: "length (htole32 v) = 4"
  by (simp add: endian_defs)

lemma length_set_hdr_file [simp]:
  "i < 15 \<Longrightarrow> k < 3 \<Longrightarrow> 192 \<le> length d \<Longrightarrow> length (set_hdr_file d i k v) = length d"
  by (simp add: set_hdr_file_def)

lemma hdr_file_set [simp]:
  assumes "i < 15" "j < 15" "k < 3" "l < 3" "192 \<le> length d"
  shows "hdr_file (set_hdr_file d i k v) j l = (if i = j \<and> k = l then v else hdr_file d j l)"
proof (cases "i = j \<and> k = l")
  case True
  have "mem_read (mem_write d (12 + 12 * i + 4 * k) (htole32 v)) (12 + 12 * i + 4 * k)
      (length (htole32 v)) = htole32 v"
    by (rule mem_read_write_same) (use assms in simp)
  then show ?thesis using True by (simp add: hdr_file_def set_hdr_file_def)
next
  case False
  have "12 + 12 * j + 4 * l + 4 \<le> 12 + 12 * i + 4 * k \<or>
      12 + 12 * i + 4 * k + length (htole32 v) \<le> 12 + 12 * j + 4 * l"
    using False assms(3,4) by (cases i j rule: linorder_cases; cases k l rule: linorder_cases) simp_all
  then show ?thesis
    using mem_read_write_other [of "12 + 12 * j + 4 * l" 4 "12 + 12 * i + 4 * k" "htole32 v" d] assms False
    by (auto simp: hdr_file_def set_hdr_file_def)
qed

lemma hdrsize_set [simp]:
  "i < 15 \<Longrightarrow> k < 3 \<Longrightarrow> 192 \<le> length d \<Longrightarrow> hdr_hdrsize (set_hdr_file d i k v) = hdr_hdrsize d"
  by (simp add: hdr_hdrsize_def set_hdr_file_def mem_read_write_before)

lemma body_set [simp]:
  "i < 15 \<Longrightarrow> k < 3 \<Longrightarrow> 192 \<le> length d \<Longrightarrow> 192 \<le> off \<Longrightarrow>
     mem_read (set_hdr_file d i k v) off n = mem_read d off n"
  by (simp add: set_hdr_file_def mem_read_write_after)

lemma header_write_body:
  assumes "192 \<le> off" "off \<le> length d"
  shows "i < 15 \<Longrightarrow> k < 3 \<Longrightarrow> hdr_file (mem_write d off src) i k = hdr_file d i k"
    and "hdr_hdrsize (mem_write d off src) = hdr_hdrsize d"
  using assms by (simp_all add: hdr_file_def hdr_hdrsize_def mem_read_write_before)

lemma header_prefix:
  assumes "take n d' = take n d" "192 \<le> n"
  shows "i < 15 \<Longrightarrow> k < 3 \<Longrightarrow> hdr_file d' i k = hdr_file d i k"
    and "hdr_hdrsize d' = hdr_hdrsize d"
    and "off + m \<le> n \<Longrightarrow> mem_read d' off m = mem_read d off m"
proof -
  have r: "mem_read d' off m = mem_read d off m" if "off + m \<le> n" for off m
    using mem_read_take [OF that, of d] mem_read_take [OF that, of d'] assms(1) by simp
  show "off + m \<le> n \<Longrightarrow> mem_read d' off m = mem_read d off m" by (rule r)
  show "i < 15 \<Longrightarrow> k < 3 \<Longrightarrow> hdr_file d' i k = hdr_file d i k"
    using assms(2) by (simp add: hdr_file_def r)
  show "hdr_hdrsize d' = hdr_hdrsize d" using assms(2) by (simp add: hdr_hdrsize_def r)
qed

subsection \<open>The layout invariant\<close>

abbreviation foff :: "bytes \<Rightarrow> nat \<Rightarrow> nat" where "foff d i \<equiv> unat (f_offset d i)"
abbreviation fdl :: "bytes \<Rightarrow> nat \<Rightarrow> nat" where "fdl d i \<equiv> unat (f_data_length d i)"
abbreviation fsl :: "bytes \<Rightarrow> nat \<Rightarrow> nat" where "fsl d i \<equiv> unat (f_section_length d i)"

text \<open>
  \<open>layout_ok d len\<close>: the entries of the three files describe non-empty, disjoint sections
  inside the first \<open>len\<close> bytes of the region and behind the header, without a hole behind a
  section that is not the last; the other entries are unused.
\<close>

definition section_ok :: "bytes \<Rightarrow> nat \<Rightarrow> nat \<Rightarrow> bool" where
  "section_ok d len i \<longleftrightarrow> 192 \<le> foff d i \<and> 0 < fsl d i \<and> fsl d i \<le> 2 ^ 30 \<and> fdl d i \<le> fsl d i \<and>
     foff d i + fsl d i \<le> len \<and> foff d i + fsl d i \<le> 192 + (fsl d 0 + fsl d 1 + fsl d 2)"

definition layout_ok :: "bytes \<Rightarrow> nat \<Rightarrow> bool" where
  "layout_ok d len \<longleftrightarrow> 192 \<le> len \<and> len \<le> length d \<and> length d < 2 ^ 32 \<and> hdr_hdrsize d = 192 \<and>
     (\<forall>i<15. 3 \<le> i \<longrightarrow> f_offset d i = 0) \<and>
     (\<forall>i<3. if f_offset d i = 0 then fsl d i = 0 else section_ok d len i) \<and>
     (\<forall>i<3. \<forall>j<3. i \<noteq> j \<longrightarrow> f_offset d i \<noteq> 0 \<longrightarrow> f_offset d j \<noteq> 0 \<longrightarrow>
        foff d i + fsl d i \<le> foff d j \<or> foff d j + fsl d j \<le> foff d i) \<and>
     (\<forall>i<3. \<forall>j<3. f_offset d i \<noteq> 0 \<longrightarrow> foff d i < foff d j \<longrightarrow>
        (\<exists>k<3. f_offset d k \<noteq> 0 \<and> foff d k = foff d i + fsl d i))"

text \<open>What file \<open>i\<close> holds.\<close>

definition file_blob :: "bytes \<Rightarrow> nat \<Rightarrow> bytes option" where
  "file_blob d i = (if f_offset d i = 0 then None else Some (mem_read d (foff d i) (fdl d i)))"

lemma layout_bounds:
  assumes "layout_ok d len"
  shows "192 \<le> len" "len \<le> length d" "length d < 4294967296" "192 \<le> length d" "hdr_hdrsize d = 192"
    and "\<And>i. i < 15 \<Longrightarrow> 3 \<le> i \<Longrightarrow> f_offset d i = 0"
  using assms by (auto simp: layout_ok_def)

lemma layout_section:
  assumes "layout_ok d len" "i < 15" "f_offset d i \<noteq> 0"
  shows "i < 3" "192 \<le> foff d i" "0 < fsl d i" "fsl d i \<le> 2 ^ 30" "fdl d i \<le> fsl d i"
    "foff d i + fsl d i \<le> len" "foff d i + fsl d i \<le> 192 + (fsl d 0 + fsl d 1 + fsl d 2)"
proof -
  show i: "i < 3" using assms layout_bounds(6) [OF assms(1)] not_le_imp_less by blast
  then have "section_ok d len i" using assms(1,3) by (auto simp: layout_ok_def)
  then show "192 \<le> foff d i" "0 < fsl d i" "fsl d i \<le> 2 ^ 30" "fdl d i \<le> fsl d i"
    "foff d i + fsl d i \<le> len" "foff d i + fsl d i \<le> 192 + (fsl d 0 + fsl d 1 + fsl d 2)"
    by (auto simp: section_ok_def)
qed

lemma layout_free: "layout_ok d len \<Longrightarrow> i < 3 \<Longrightarrow> f_offset d i = 0 \<Longrightarrow> fsl d i = 0"
  by (auto simp: layout_ok_def)

lemma layout_disjoint:
  assumes "layout_ok d len" "i < 3" "j < 3" "i \<noteq> j" "f_offset d i \<noteq> 0" "f_offset d j \<noteq> 0"
  shows "foff d i + fsl d i \<le> foff d j \<or> foff d j + fsl d j \<le> foff d i"
  using assms by (auto simp: layout_ok_def)

lemma layout_no_hole:
  assumes "layout_ok d len" "i < 3" "j < 3" "f_offset d i \<noteq> 0" "foff d i < foff d j"
  obtains k where "k < 3" "f_offset d k \<noteq> 0" "foff d k = foff d i + fsl d i"
  using assms unfolding layout_ok_def by blast

lemma sections_total: "layout_ok d len \<Longrightarrow> fsl d i \<le> 2 ^ 30" if "i < 3"
proof -
  assume l: "layout_ok d len"
  show ?thesis
  proof (cases "f_offset d i = 0")
    case True
    then show ?thesis using layout_free [OF l that] by simp
  next
    case False
    then show ?thesis using layout_section(4) [OF l _ False] that by simp
  qed
qed

text \<open>The layout depends on the header only, and on the length.\<close>

lemma layout_cong:
  assumes "layout_ok d len" "\<And>i k. i < 15 \<Longrightarrow> k < 3 \<Longrightarrow> hdr_file d' i k = hdr_file d i k"
    and "hdr_hdrsize d' = hdr_hdrsize d" "192 \<le> len'" "len' \<le> length d'" "length d' < 2 ^ 32"
    and "\<And>i. i < 3 \<Longrightarrow> f_offset d i \<noteq> 0 \<Longrightarrow> foff d i + fsl d i \<le> len'"
  shows "layout_ok d' len'"
proof -
  have e: "f_offset d' i = f_offset d i \<and> f_section_length d' i = f_section_length d i \<and>
      f_data_length d' i = f_data_length d i" if "i < 15" for i
    using assms(2) that by simp
  have z: "f_section_length d' 0 = f_section_length d 0" "f_section_length d' 1 = f_section_length d 1"
    "f_section_length d' 2 = f_section_length d 2" using e by simp_all
  have f3: "f_offset d' i = f_offset d i" "f_section_length d' i = f_section_length d i"
    "f_data_length d' i = f_data_length d i" if "i < 3" for i
    using e [of i] that by simp_all
  have s: "if f_offset d' i = 0 then fsl d' i = 0 else section_ok d' len' i" if i: "i < 3" for i
  proof (cases "f_offset d i = 0")
    case True
    then show ?thesis using f3 [OF i] layout_free [OF assms(1) i True] by simp
  next
    case False
    have i15: "i < 15" using i by simp
    show ?thesis using f3 [OF i] z layout_section [OF assms(1) i15 False] assms(7) [OF i False] False
      by (simp add: section_ok_def)
  qed
  show ?thesis unfolding layout_ok_def
  proof (intro conjI)
    show "\<forall>i<15. 3 \<le> i \<longrightarrow> f_offset d' i = 0" using e layout_bounds(6) [OF assms(1)] by simp
    show "\<forall>i<3. if f_offset d' i = 0 then fsl d' i = 0 else section_ok d' len' i" using s by blast
    show "\<forall>i<3. \<forall>j<3. i \<noteq> j \<longrightarrow> f_offset d' i \<noteq> 0 \<longrightarrow> f_offset d' j \<noteq> 0 \<longrightarrow>
        foff d' i + fsl d' i \<le> foff d' j \<or> foff d' j + fsl d' j \<le> foff d' i"
      using layout_disjoint [OF assms(1)] by (simp add: f3)
    show "\<forall>i<3. \<forall>j<3. f_offset d' i \<noteq> 0 \<longrightarrow> foff d' i < foff d' j \<longrightarrow>
        (\<exists>k<3. f_offset d' k \<noteq> 0 \<and> foff d' k = foff d' i + fsl d' i)"
    proof (intro allI impI)
      fix i j assume a: "i < 3" "j < 3" "f_offset d' i \<noteq> 0" "foff d' i < foff d' j"
      obtain k where "k < 3" "f_offset d k \<noteq> 0" "foff d k = foff d i + fsl d i"
        using layout_no_hole [OF assms(1) a(1,2)] a(3,4) f3 a(1,2) by auto
      then show "\<exists>k<3. f_offset d' k \<noteq> 0 \<and> foff d' k = foff d' i + fsl d' i"
        using f3 a(1) by auto
    qed
  qed (use assms layout_bounds [OF assms(1)] in auto)
qed

subsection \<open>The two loops\<close>

lemma fold_alloc_step:
  "a \<le> fold (alloc_step d) xs a \<and>
   (\<forall>i\<in>set xs. f_offset d i \<noteq> 0 \<longrightarrow>
      f_offset d i + f_section_length d i \<le> fold (alloc_step d) xs a) \<and>
   (fold (alloc_step d) xs a = a \<or> (\<exists>i\<in>set xs. f_offset d i \<noteq> 0 \<and>
      fold (alloc_step d) xs a = f_offset d i + f_section_length d i))"
proof (induction xs arbitrary: a)
  case (Cons x xs)
  let ?b = "alloc_step d x a"
  have x: "a \<le> ?b" "f_offset d x \<noteq> 0 \<longrightarrow> f_offset d x + f_section_length d x \<le> ?b"
    "?b = a \<or> f_offset d x \<noteq> 0 \<and> ?b = f_offset d x + f_section_length d x"
    by (auto simp: alloc_step_def Let_def)
  have le: "?b \<le> fold (alloc_step d) xs ?b" using Cons.IH by blast
  show ?case using Cons.IH [of ?b] x order_trans [OF x(1) le]
    by (auto intro: order_trans [OF _ le])
qed simp

lemma alloc_offset_spec:
  assumes "layout_ok d len"
  shows "192 \<le> unat (alloc_offset d)" "unat (alloc_offset d) \<le> len"
    and "unat (alloc_offset d) \<le> 192 + (fsl d 0 + fsl d 1 + fsl d 2)"
    and "\<And>i. i < 3 \<Longrightarrow> f_offset d i \<noteq> 0 \<Longrightarrow> foff d i + fsl d i \<le> unat (alloc_offset d)"
    and "unat (alloc_offset d) = 192 \<or>
         (\<exists>i<3. f_offset d i \<noteq> 0 \<and> unat (alloc_offset d) = foff d i + fsl d i)"
proof -
  let ?m = "alloc_offset d"
  have m: "ucast (hdr_hdrsize d) \<le> ?m"
    "\<forall>i<15. f_offset d i \<noteq> 0 \<longrightarrow> f_offset d i + f_section_length d i \<le> ?m"
    "?m = ucast (hdr_hdrsize d) \<or>
       (\<exists>i<15. f_offset d i \<noteq> 0 \<and> ?m = f_offset d i + f_section_length d i)"
    using fold_alloc_step [of "ucast (hdr_hdrsize d)" d "[0..<15]"]
    by (auto simp: alloc_offset_def)
  have h: "ucast (hdr_hdrsize d) = (192 :: u32)" using layout_bounds(5) [OF assms] by simp
  have e: "unat (f_offset d i + f_section_length d i) = foff d i + fsl d i"
    if "i < 15" "f_offset d i \<noteq> 0" for i
    using layout_section(6) [OF assms that] layout_bounds [OF assms] by (intro unat_add_u32) simp
  show a: "192 \<le> unat ?m" using m(1) h by (simp add: word_le_nat_alt)
  show b: "foff d i + fsl d i \<le> unat ?m" if "i < 3" "f_offset d i \<noteq> 0" for i
    using m(2) [rule_format, of i] e [of i] that by (simp add: word_le_nat_alt)
  show c: "unat ?m = 192 \<or> (\<exists>i<3. f_offset d i \<noteq> 0 \<and> unat ?m = foff d i + fsl d i)"
    using m(3) h e layout_section(1) [OF assms] by force
  show "unat ?m \<le> len" "unat ?m \<le> 192 + (fsl d 0 + fsl d 1 + fsl d 2)"
    using c layout_bounds(1) [OF assms] layout_section(6,7) [OF assms] by auto
qed

text \<open>The loop invariant of \<open>RemoveFile\<close> after the entries below \<open>n\<close>.\<close>

definition remove_inv :: "bytes \<Rightarrow> u32 \<Rightarrow> u32 \<Rightarrow> nat \<Rightarrow> bytes \<times> u32 \<times> u32 \<Rightarrow> bool" where
  "remove_inv d oo os n = (\<lambda>(d', nx, en).
     length d' = length d \<and> hdr_hdrsize d' = hdr_hdrsize d \<and>
     (\<forall>off m. 192 \<le> off \<longrightarrow> mem_read d' off m = mem_read d off m) \<and>
     (\<forall>j<15. \<forall>k<3. hdr_file d' j k =
        (if k = 0 \<and> j < n \<and> f_offset d j > oo then f_offset d j - os else hdr_file d j k)) \<and>
     (\<forall>j<n. f_offset d j > oo \<longrightarrow> nx \<le> f_offset d j) \<and>
     (nx = 0xffffffff \<or> (\<exists>j<n. f_offset d j > oo \<and> nx = f_offset d j)) \<and>
     (\<forall>j<n. f_offset d j > oo \<longrightarrow> f_offset d j + f_section_length d j \<le> en) \<and>
     (en = 0 \<or> (\<exists>j<n. f_offset d j > oo \<and> en = f_offset d j + f_section_length d j)))"

lemma remove_inv_step:
  assumes "remove_inv d oo os n r" "n < 15" "192 \<le> length d"
  shows "remove_inv d oo os (Suc n) (remove_step oo os n r)"
proof -
  obtain dp nx en where r: "r = (dp, nx, en)" by (cases r)
  note I = assms(1) [unfolded r remove_inv_def prod.case]
  have len: "length dp = length d" "hdr_hdrsize dp = hdr_hdrsize d" using I by blast+
  have body: "mem_read dp off m = mem_read d off m" if "192 \<le> off" for off m using I that by blast
  have fld: "hdr_file dp j k =
     (if k = 0 \<and> j < n \<and> f_offset d j > oo then f_offset d j - os else hdr_file d j k)"
    if "j < 15" "k < 3" for j k using I that by blast
  have fo: "f_offset dp n = f_offset d n" "f_section_length dp n = f_section_length d n"
    using fld [of n 0] fld [of n 2] assms(2) by simp_all
  have step: "remove_step oo os n r =
      (if f_offset d n > oo
       then (set_hdr_file dp n 0 (f_offset d n - os), min nx (f_offset d n),
             max en (f_offset d n + f_section_length d n))
       else (dp, nx, en))"
    by (auto simp: r remove_step_def fo Let_def min_def max_def)
  show ?thesis
  proof (cases "f_offset d n > oo")
    case False
    then show ?thesis using I unfolding step remove_inv_def by (simp add: less_Suc_eq) blast
  next
    case True
    let ?nx = "min nx (f_offset d n)" and ?e = "f_offset d n + f_section_length d n"
    have nx: "\<forall>j<Suc n. f_offset d j > oo \<longrightarrow> ?nx \<le> f_offset d j"
      using I by (auto simp: less_Suc_eq min.coboundedI1)
    have nx': "?nx = 0xffffffff \<or> (\<exists>j<Suc n. f_offset d j > oo \<and> ?nx = f_offset d j)"
      using I True by (auto simp: less_Suc_eq min_def)
    have en: "\<forall>j<Suc n. f_offset d j > oo \<longrightarrow> f_offset d j + f_section_length d j \<le> max en ?e"
      using I by (auto simp: less_Suc_eq max.coboundedI1)
    have en': "max en ?e = 0 \<or>
        (\<exists>j<Suc n. f_offset d j > oo \<and> max en ?e = f_offset d j + f_section_length d j)"
      using I True by (auto simp: less_Suc_eq max_def)
    show ?thesis using True nx nx' en en' assms(2,3) len body fld
      unfolding step remove_inv_def by (simp add: less_Suc_eq)
  qed
qed

lemma remove_loop:
  assumes "192 \<le> length d" "n \<le> 15"
  shows "remove_inv d oo os n (fold (remove_step oo os) [0..<n] (d, 0xffffffff, 0))"
  using assms(2)
proof (induction n)
  case 0
  show ?case by (simp add: remove_inv_def)
next
  case (Suc n)
  then show ?case using remove_inv_step [of d oo os n] assms(1) by simp
qed

subsection \<open>Removing a file\<close>

lemma mem_read_write_inside:
  assumes "off \<le> length d" "r + n \<le> length src"
  shows "mem_read (mem_write d off src) (off + r) n = mem_read src r n"
  using assms by (simp add: mem_read_def mem_write_def min_absorb2)

text \<open>The files behind the removed one.\<close>

lemma removal_order:
  assumes "layout_ok d len" "nr < 3" "f_offset d nr \<noteq> 0" "i < 15" "i \<noteq> nr" "f_offset d i \<noteq> 0"
  shows "foff d nr < foff d i \<Longrightarrow> foff d nr + fsl d nr \<le> foff d i"
    and "\<not> foff d nr < foff d i \<Longrightarrow> foff d i + fsl d i \<le> foff d nr"
proof -
  have i: "i < 3" "0 < fsl d i" using layout_section(1,3) [OF assms(1,4,6)] by simp_all
  have n: "0 < fsl d nr" using layout_section(3) [OF assms(1) _ assms(3)] assms(2) by simp
  from layout_disjoint [OF assms(1) i(1) assms(2,5,6,3)] i n
  show "foff d nr < foff d i \<Longrightarrow> foff d nr + fsl d nr \<le> foff d i"
    and "\<not> foff d nr < foff d i \<Longrightarrow> foff d i + fsl d i \<le> foff d nr" by linarith+
qed

text \<open>
  What the loop leaves for \<open>memmove\<close>: nothing to do, or to move everything from the end of
  the removed section to the end of the last file.
\<close>

lemma remove_bounds:
  assumes "layout_ok d len" "nr < 3" "f_offset d nr \<noteq> 0"
    and d0: "\<And>i k. i < 15 \<Longrightarrow> k < 3 \<Longrightarrow> hdr_file d0 i k = (if i = nr then 0 else hdr_file d i k)"
    and inv: "remove_inv d0 (f_offset d nr) (f_section_length d nr) 15 (d1, nx, en)"
  shows "(nx = 0xffffffff \<and> (\<forall>i<15. \<not> foff d nr < foff d i)) \<or>
    (nx \<noteq> 0xffffffff \<and> unat nx = foff d nr + fsl d nr \<and> unat nx \<le> unat en \<and> unat en \<le> len \<and>
     (\<forall>i<15. foff d nr < foff d i \<longrightarrow> foff d i + fsl d i \<le> unat en))"
proof (cases "\<exists>i<15. foff d nr < foff d i")
  case False
  have "\<not> f_offset d0 j > f_offset d nr" if "j < 15" for j
    using False that d0 [of j 0] by (auto simp: word_less_nat_alt)
  then have "nx = 0xffffffff" using inv by (auto simp: remove_inv_def)
  then show ?thesis using False by auto
next
  case True
  have moved: "f_offset d0 j > f_offset d nr \<longleftrightarrow> foff d nr < foff d j" if "j < 15" for j
    using d0 [of j 0] that by (simp add: word_less_nat_alt)
  have sec: "f_section_length d0 j = f_section_length d j" "f_offset d0 j = f_offset d j"
    if "j < 15" "foff d nr < foff d j" for j
    using d0 [of j 2] d0 [of j 0] that by auto
  have al: "f_offset d j \<noteq> 0 \<and> j \<noteq> nr" if "foff d nr < foff d j" for j using that by auto
  have e: "unat (f_offset d j + f_section_length d j) = foff d j + fsl d j" "foff d j + fsl d j \<le> len"
    if "j < 15" "f_offset d j \<noteq> 0" for j
    using layout_section(6) [OF assms(1) that] layout_bounds [OF assms(1)]
    by (auto intro: unat_add_u32)
  obtain j where j: "j < 15" "foff d nr < foff d j" using True by blast
  have j3: "j < 3" using layout_section(1) [OF assms(1) j(1)] al [OF j(2)] by blast
  obtain k where k: "k < 3" "f_offset d k \<noteq> 0" "foff d k = foff d nr + fsl d nr"
    using layout_no_hole [OF assms(1,2) j3 assms(3) j(2)] by blast
  have n0: "0 < fsl d nr" using layout_section(3) [OF assms(1) _ assms(3)] assms(2) by simp
  then have mk: "foff d nr < foff d k" "k < 15" using k by auto
  have nxk: "nx \<le> f_offset d k"
    using inv mk moved [of k] sec [of k] by (auto simp: remove_inv_def)
  have fk: "foff d k < 4294967295"
    using e(2) [of k] k layout_section(3) [OF assms(1), of k] layout_bounds [OF assms(1)] by simp
  have nx1: "unat nx \<le> foff d k" using nxk by (simp add: word_le_nat_alt)
  then have nxi: "nx \<noteq> 0xffffffff" using fk by auto
  then obtain j' where j': "j' < 15" "foff d nr < foff d j'" "nx = f_offset d j'"
    using inv moved sec by (auto simp: remove_inv_def)
  have "foff d nr + fsl d nr \<le> unat nx"
    using removal_order(1) [OF assms(1-3) j'(1)] al [OF j'(2)] j' by auto
  then have nx: "unat nx = foff d nr + fsl d nr" using nx1 k(3) by simp
  have en_ge: "foff d i + fsl d i \<le> unat en" if "i < 15" "foff d nr < foff d i" for i
  proof -
    have "f_offset d i + f_section_length d i \<le> en"
      using inv that moved [of i] sec [OF that] by (auto simp: remove_inv_def)
    then show ?thesis using e(1) [OF that(1)] al [OF that(2)] by (simp add: word_le_nat_alt)
  qed
  have "en \<noteq> 0" using en_ge [OF j] j(2) by auto
  then obtain j'' where j'': "j'' < 15" "foff d nr < foff d j''"
    "en = f_offset d j'' + f_section_length d j''"
    using inv moved sec by (auto simp: remove_inv_def)
  have "unat en \<le> len" using e [OF j''(1)] al [OF j''(2)] j''(3) by simp
  moreover have "unat nx \<le> unat en" using en_ge [OF mk(2,1)] k(3) nx by simp
  ultimately show ?thesis using nxi nx en_ge by blast
qed

lemma compact_region_spec:
  assumes "layout_ok d len" "nr < 3" "f_offset d nr \<noteq> 0"
  shows "length (compact_region d nr) = length d"
    and "hdr_hdrsize (compact_region d nr) = hdr_hdrsize d"
    and "\<And>i k. i < 15 \<Longrightarrow> k < 3 \<Longrightarrow> hdr_file (compact_region d nr) i k =
        (if i = nr then 0
         else if k = 0 \<and> foff d nr < foff d i then f_offset d i - f_section_length d nr
         else hdr_file d i k)"
    and "\<And>i. i < 3 \<Longrightarrow> i \<noteq> nr \<Longrightarrow> file_blob (compact_region d nr) i = file_blob d i"
proof -
  let ?oo = "f_offset d nr" and ?os = "f_section_length d nr"
  let ?d0 = "set_hdr_file (set_hdr_file (set_hdr_file d nr 0 0) nr 1 0) nr 2 0"
  have len: "192 \<le> length d" "len \<le> length d" "length d < 4294967296"
    using layout_bounds [OF assms(1)] by simp_all
  have nr: "nr < 15" using assms(2) by simp
  have d0: "length ?d0 = length d" "hdr_hdrsize ?d0 = hdr_hdrsize d"
    "\<And>off m. 192 \<le> off \<Longrightarrow> mem_read ?d0 off m = mem_read d off m"
    using len nr by simp_all
  have f0: "hdr_file ?d0 i k = (if i = nr then 0 else hdr_file d i k)" if "i < 15" "k < 3" for i k
    using len nr that by (cases "k = 0"; cases "k = 1") auto
  obtain d1 nx en where r: "fold (remove_step ?oo ?os) [0..<15] (?d0, 0xffffffff, 0) = (d1, nx, en)"
    by (metis prod_cases3)
  have inv: "remove_inv ?d0 ?oo ?os 15 (d1, nx, en)"
    using remove_loop [of ?d0 15 ?oo ?os] d0(1) len r by simp
  have d1: "length d1 = length d" "hdr_hdrsize d1 = hdr_hdrsize d"
    "\<And>off m. 192 \<le> off \<Longrightarrow> mem_read d1 off m = mem_read d off m"
    using inv d0 by (auto simp: remove_inv_def)
  have f1: "hdr_file d1 i k = (if i = nr then 0
      else if k = 0 \<and> foff d nr < foff d i then f_offset d i - ?os else hdr_file d i k)"
    if "i < 15" "k < 3" for i k
    using inv that f0 [of i k] f0 [of i 0] by (auto simp: remove_inv_def word_less_nat_alt)
  define d2 where "d2 = (if nx \<noteq> 0xffffffff
      then mem_write d1 (unat ?oo) (mem_read d1 (unat nx) (unat (en - nx))) else d1)"
  have d2: "compact_region d nr = d2" by (simp only: compact_region_def Let_def r prod.case d2_def)
  have oo: "192 \<le> foff d nr" "foff d nr + fsl d nr \<le> len"
    using layout_section(2,6) [OF assms(1) nr assms(3)] by simp_all
  note rb = remove_bounds [OF assms f0 inv]
  have sub: "unat (en - nx) = unat en - unat nx" if "unat nx \<le> unat en"
    using that by (simp add: unat_sub word_le_nat_alt)
  have src: "length (mem_read d1 (unat nx) (unat (en - nx))) = unat en - unat nx"
    "foff d nr + (unat en - unat nx) \<le> length d1" if "nx \<noteq> 0xffffffff"
    using rb that sub d1(1) len by (auto simp: mem_read_def)
  show "length (compact_region d nr) = length d"
    using d1(1) src by (simp add: d2 d2_def)
  have oo_le: "foff d nr \<le> length d1" using oo len d1(1) by simp
  show "hdr_hdrsize (compact_region d nr) = hdr_hdrsize d"
    using d1(2) header_write_body(2) [OF oo(1) oo_le] by (simp add: d2 d2_def)
  show fld: "hdr_file (compact_region d nr) i k = (if i = nr then 0
      else if k = 0 \<and> foff d nr < foff d i then f_offset d i - ?os else hdr_file d i k)"
    if "i < 15" "k < 3" for i k
  proof -
    have "hdr_file (compact_region d nr) i k = hdr_file d1 i k"
      using header_write_body(1) [OF oo(1) oo_le that] by (simp add: d2 d2_def)
    then show ?thesis using f1 [OF that] by (rule trans)
  qed
  show "file_blob (compact_region d nr) i = file_blob d i" if i: "i < 3" "i \<noteq> nr" for i
  proof (cases "f_offset d i = 0")
    case True
    then show ?thesis using fld [of i 0] i by (simp add: file_blob_def)
  next
    case al: False
    have i15: "i < 15" using i by simp
    note sec = layout_section [OF assms(1) i15 al]
    have dl: "fdl (compact_region d nr) i = fdl d i" using fld [of i 1] i by simp
    show ?thesis
    proof (cases "foff d nr < foff d i")
      case False
      have "foff d i + fsl d i \<le> foff d nr" using removal_order(2) [OF assms i15 i(2) al False] .
      then have "foff d i + fdl d i \<le> foff d nr" using sec(5) by simp
      then have "mem_read d2 (foff d i) (fdl d i) = mem_read d (foff d i) (fdl d i)"
        using d1(3) [OF sec(2)] oo_le by (simp add: d2_def mem_read_write_before)
      then show ?thesis using False fld [of i 0] i al dl by (simp add: file_blob_def d2)
    next
      case True
      have nx: "nx \<noteq> 0xffffffff" "unat nx = foff d nr + fsl d nr" "unat nx \<le> unat en"
        "unat en \<le> len" "foff d i + fsl d i \<le> unat en"
        using rb True i15 by auto
      have after: "foff d nr + fsl d nr \<le> foff d i" using removal_order(1) [OF assms i15 i(2) al True] .
      have "unat (f_offset d i - ?os) = foff d i - fsl d nr"
        using after by (intro unat_sub_u32) (simp add: word_le_nat_alt)
      then have o': "foff d2 i = foff d nr + (foff d i - unat nx)"
        using fld [of i 0] i True nx(2) after by (simp add: d2)
      let ?r = "foff d i - unat nx"
      have rr: "?r + fdl d i \<le> unat (en - nx)" using nx sec(5) sub after by simp
      have "mem_read d2 (foff d2 i) (fdl d i) =
          mem_read (mem_read d1 (unat nx) (unat (en - nx))) ?r (fdl d i)"
        unfolding o' unfolding d2_def
        using mem_read_write_inside [OF oo_le, of ?r "fdl d i"
            "mem_read d1 (unat nx) (unat (en - nx))"] rr src(1) [OF nx(1)] sub nx(1,3) by simp
      also have "\<dots> = mem_read d1 (unat nx + ?r) (fdl d i)" by (rule mem_read_mem_read [OF rr])
      also have "\<dots> = mem_read d (foff d i) (fdl d i)" using d1(3) [OF sec(2)] after nx(2) by simp
      finally have rd: "mem_read d2 (foff d2 i) (fdl d i) = mem_read d (foff d i) (fdl d i)" .
      have "foff d2 i \<noteq> 0" using o' oo(1) by simp
      then show ?thesis using rd dl al by (auto simp: file_blob_def d2)
    qed
  qed
qed

lemma layout_introI:
  assumes "192 \<le> len" "len \<le> length d" "length d < 2 ^ 32" "hdr_hdrsize d = 192"
    and "\<And>i. i < 15 \<Longrightarrow> 3 \<le> i \<Longrightarrow> f_offset d i = 0"
    and "\<And>i. i < 3 \<Longrightarrow> f_offset d i = 0 \<Longrightarrow> fsl d i = 0"
    and "\<And>i. i < 3 \<Longrightarrow> f_offset d i \<noteq> 0 \<Longrightarrow> section_ok d len i"
    and "\<And>i j. i < 3 \<Longrightarrow> j < 3 \<Longrightarrow> i \<noteq> j \<Longrightarrow> f_offset d i \<noteq> 0 \<Longrightarrow> f_offset d j \<noteq> 0 \<Longrightarrow>
        foff d i \<le> foff d j \<Longrightarrow> foff d i + fsl d i \<le> foff d j"
    and "\<And>i j. i < 3 \<Longrightarrow> j < 3 \<Longrightarrow> f_offset d i \<noteq> 0 \<Longrightarrow> foff d i < foff d j \<Longrightarrow>
        \<exists>k<3. f_offset d k \<noteq> 0 \<and> foff d k = foff d i + fsl d i"
  shows "layout_ok d len"
  unfolding layout_ok_def
proof (intro conjI)
  show "\<forall>i<3. \<forall>j<3. i \<noteq> j \<longrightarrow> f_offset d i \<noteq> 0 \<longrightarrow> f_offset d j \<noteq> 0 \<longrightarrow>
        foff d i + fsl d i \<le> foff d j \<or> foff d j + fsl d j \<le> foff d i"
    using assms(8) by (metis nle_le)
qed (use assms in auto)

lemma layout_ordered:
  assumes "layout_ok d len" "i < 3" "j < 3" "i \<noteq> j" "f_offset d i \<noteq> 0" "f_offset d j \<noteq> 0"
    and "foff d i \<le> foff d j"
  shows "foff d i + fsl d i \<le> foff d j" "foff d i < foff d j"
proof -
  have "0 < fsl d i" "0 < fsl d j"
    using layout_section(3) [OF assms(1) _ assms(5)] layout_section(3) [OF assms(1) _ assms(6)] assms(2,3)
    by simp_all
  with layout_disjoint [OF assms(1-6)] assms(7)
  show "foff d i + fsl d i \<le> foff d j" "foff d i < foff d j" by linarith+
qed


lemma compact_layout:
  assumes "layout_ok d len" "nr < 3" "f_offset d nr \<noteq> 0"
  shows "layout_ok (compact_region d nr) (len - fsl d nr)"
proof -
  let ?d = "compact_region d nr"
  note cr = compact_region_spec [OF assms]
  note lb = layout_bounds [OF assms(1)]
  have nr: "nr < 15" using assms(2) by simp
  note nsec = layout_section [OF assms(1) nr assms(3)]
  have sl: "f_section_length ?d i = (if i = nr then 0 else f_section_length d i)" if "i < 15" for i
    using cr(3) [OF that, of 2] by simp
  have dl: "f_data_length ?d i = (if i = nr then 0 else f_data_length d i)" if "i < 15" for i
    using cr(3) [OF that, of 1] by simp
  have tot: "fsl ?d 0 + fsl ?d 1 + fsl ?d 2 + fsl d nr = fsl d 0 + fsl d 1 + fsl d 2"
  proof -
    consider "nr = 0" | "nr = 1" | "nr = 2" using assms(2) by linarith
    then show ?thesis using sl [of 0] sl [of 1] sl [of 2] by cases simp_all
  qed
  have off_nr: "f_offset ?d nr = 0" using cr(3) [OF nr, of 0] by simp
  have off: "foff ?d i = (if foff d nr < foff d i then foff d i - fsl d nr else foff d i)"
    if "i < 15" "i \<noteq> nr" for i
  proof (cases "foff d nr < foff d i")
    case True
    then have "f_offset d i \<noteq> 0" by auto
    from removal_order(1) [OF assms that this True]
    have "unat (f_offset d i - f_section_length d nr) = foff d i - fsl d nr"
      by (intro unat_sub_u32) (simp add: word_le_nat_alt)
    then show ?thesis using True cr(3) [OF that(1), of 0] that by simp
  next
    case False
    then show ?thesis using cr(3) [OF that(1), of 0] that by simp
  qed
  have alloc: "f_offset ?d i \<noteq> 0 \<longleftrightarrow> i \<noteq> nr \<and> f_offset d i \<noteq> 0" if "i < 15" for i
  proof (cases "i = nr")
    case False
    have "0 < foff ?d i \<longleftrightarrow> 0 < foff d i"
    proof (cases "foff d nr < foff d i")
      case True
      then have "f_offset d i \<noteq> 0" by auto
      from removal_order(1) [OF assms that False this True]
      show ?thesis using off [OF that False] True nsec(2) by simp
    qed (use off [OF that False] in simp)
    then show ?thesis using False by (simp add: unat_gt_0)
  qed (simp add: off_nr)
  have before: "foff d i + fsl d i \<le> foff d nr" if "i < 3" "i \<noteq> nr" "f_offset d i \<noteq> 0"
      "\<not> foff d nr < foff d i" for i
    using removal_order(2) [OF assms _ that(2,3,4)] that(1) by simp
  have after: "foff d nr + fsl d nr \<le> foff d i" if "i < 3" "foff d nr < foff d i" for i
    using removal_order(1) [OF assms, of i] that by fastforce
  show ?thesis
  proof (rule layout_introI)
    show "192 \<le> len - fsl d nr" "len - fsl d nr \<le> length ?d" "length ?d < 2 ^ 32"
      "hdr_hdrsize ?d = 192" using nsec(2,6) cr(1,2) lb by simp_all
    show "f_offset ?d i = 0" if "i < 15" "3 \<le> i" for i using alloc [of i] lb(6) that by blast
    show "fsl ?d i = 0" if "i < 3" "f_offset ?d i = 0" for i
      using that sl [of i] alloc [of i] layout_free [OF assms(1), of i] by (auto split: if_splits)
    show "section_ok ?d (len - fsl d nr) i" if i: "i < 3" "f_offset ?d i \<noteq> 0" for i
    proof -
      have i15: "i < 15" and ne: "i \<noteq> nr" and al: "f_offset d i \<noteq> 0" using i alloc [of i] by auto
      note s = layout_section [OF assms(1) i15 al]
      show ?thesis unfolding section_ok_def
        using s sl [OF i15] dl [OF i15] off [OF i15 ne] tot ne after [OF i(1)]
          before [OF i(1) ne al] nsec(2,6,7)
        by (cases "foff d nr < foff d i") auto
    qed
    show "foff ?d i + fsl ?d i \<le> foff ?d j"
      if a: "i < 3" "j < 3" "i \<noteq> j" "f_offset ?d i \<noteq> 0" "f_offset ?d j \<noteq> 0" "foff ?d i \<le> foff ?d j" for i j
    proof -
      have i15: "i < 15" "j < 15" using a by simp_all
      have al: "i \<noteq> nr" "j \<noteq> nr" "f_offset d i \<noteq> 0" "f_offset d j \<noteq> 0"
        using a alloc [OF i15(1)] alloc [OF i15(2)] by auto
      have pos: "0 < fsl d i" "0 < fsl d j"
        using layout_section(3) [OF assms(1) i15(1) al(3)] layout_section(3) [OF assms(1) i15(2) al(4)] .
      from layout_disjoint [OF assms(1) a(1,2,3) al(3,4)] show ?thesis
        using off [OF i15(1) al(1)] off [OF i15(2) al(2)] sl [OF i15(1)] al(1) a(6) pos
          before [OF a(1) al(1,3)] before [OF a(2) al(2,4)] after [OF a(1)] after [OF a(2)]
        by (auto split: if_splits)
    qed
    show "\<exists>k<3. f_offset ?d k \<noteq> 0 \<and> foff ?d k = foff ?d i + fsl ?d i"
      if a: "i < 3" "j < 3" "f_offset ?d i \<noteq> 0" "foff ?d i < foff ?d j" for i j
    proof -
      have i15: "i < 15" "j < 15" using a by simp_all
      have ajn: "f_offset ?d j \<noteq> 0" using a(4) by auto
      have al: "i \<noteq> nr" "j \<noteq> nr" "f_offset d i \<noteq> 0" "f_offset d j \<noteq> 0"
        using a ajn alloc [OF i15(1)] alloc [OF i15(2)] by auto
      have bi: "foff d i + fsl d i \<le> foff d nr" if "\<not> foff d nr < foff d i"
        using before [OF a(1) al(1,3) that] .
      have pi: "0 < fsl d i" using layout_section(3) [OF assms(1) i15(1) al(3)] .
      have lt: "foff d i < foff d j"
        using a(4) off [OF i15(1) al(1)] off [OF i15(2) al(2)] after [OF a(1)] after [OF a(2)]
          before [OF a(2) al(2,4)] by (auto split: if_splits)
      obtain k where k: "k < 3" "f_offset d k \<noteq> 0" "foff d k = foff d i + fsl d i"
        using layout_no_hole [OF assms(1) a(1,2) al(3) lt] .
      show ?thesis
      proof (cases "k = nr")
        case False
        have k15: "k < 15" using k by simp
        have "foff ?d k = foff ?d i + fsl ?d i"
          using off [OF k15 False] off [OF i15(1) al(1)] sl [OF i15(1)] al(1) k(3) pi bi after [OF a(1)]
          by (auto split: if_splits)
        then show ?thesis using k(1,2) False alloc [OF k15] by blast
      next
        case True
        have ni: "\<not> foff d nr < foff d i" using True k(3) by simp
        have "foff d i + fsl d i \<le> foff d j"
          using layout_ordered(1) [OF assms(1) a(1,2) _ al(3,4)] lt by auto
        then have "foff d nr < foff d j"
          using layout_ordered(2) [OF assms(1) assms(2) a(2) al(2)[symmetric] assms(3) al(4)] True k(3) by simp
        then obtain k' where k': "k' < 3" "f_offset d k' \<noteq> 0" "foff d k' = foff d nr + fsl d nr"
          using layout_no_hole [OF assms(1,2) a(2) assms(3)] by blast
        have ne: "k' \<noteq> nr" "k' < 15" using k' nsec(3) by auto
        have "foff ?d k' = foff ?d i + fsl ?d i"
          using off [OF ne(2,1)] off [OF i15(1) al(1)] sl [OF i15(1)] al(1) k(3) k' nsec(3) True ni by simp
        then show ?thesis using k' ne alloc [OF ne(2)] by blast
      qed
    qed
  qed
qed

subsection \<open>Allocating a file\<close>

definition alloc_entry :: "bytes \<Rightarrow> nat \<Rightarrow> u32 \<Rightarrow> u32 \<Rightarrow> u32 \<Rightarrow> bytes" where
  "alloc_entry d nr off dl sl = set_hdr_file (set_hdr_file (set_hdr_file d nr 2 sl) nr 1 dl) nr 0 off"

lemma alloc_entry_fields:
  assumes "192 \<le> length d" "nr < 15"
  shows "length (alloc_entry d nr off dl sl) = length d"
    and "hdr_hdrsize (alloc_entry d nr off dl sl) = hdr_hdrsize d"
    and "\<And>p m. 192 \<le> p \<Longrightarrow> mem_read (alloc_entry d nr off dl sl) p m = mem_read d p m"
    and "\<And>i. i < 15 \<Longrightarrow> f_offset (alloc_entry d nr off dl sl) i = (if i = nr then off else f_offset d i)"
    and "\<And>i. i < 15 \<Longrightarrow>
       f_data_length (alloc_entry d nr off dl sl) i = (if i = nr then dl else f_data_length d i)"
    and "\<And>i. i < 15 \<Longrightarrow>
       f_section_length (alloc_entry d nr off dl sl) i = (if i = nr then sl else f_section_length d i)"
  using assms by (auto simp: alloc_entry_def)

lemma alloc_layout:
  assumes "layout_ok d len" "nr < 3" "f_offset d nr = 0"
    and "0 < sl" "unat sl \<le> 2 ^ 30" "unat dl \<le> unat sl" "unat (alloc_offset d) + unat sl \<le> len"
  shows "layout_ok (alloc_entry d nr (alloc_offset d) dl sl) len"
    and "\<And>i. i < 3 \<Longrightarrow> i \<noteq> nr \<Longrightarrow> file_blob (alloc_entry d nr (alloc_offset d) dl sl) i = file_blob d i"
proof -
  let ?o = "alloc_offset d" and ?d = "alloc_entry d nr (alloc_offset d) dl sl"
  note lb = layout_bounds [OF assms(1)]
  have nr: "nr < 15" using assms(2) by simp
  note F = alloc_entry_fields [OF lb(4) nr, where off = ?o and dl = dl and sl = sl]
  note ao = alloc_offset_spec [OF assms(1)]
  have sl: "0 < unat sl" using assms(4) by (simp add: word_less_nat_alt)
  have o0: "?o \<noteq> 0" using ao(1) by auto
  have tot: "fsl ?d 0 + fsl ?d 1 + fsl ?d 2 = fsl d 0 + fsl d 1 + fsl d 2 + unat sl"
  proof -
    consider "nr = 0" | "nr = 1" | "nr = 2" using assms(2) by linarith
    then show ?thesis using F(6) [of 0] F(6) [of 1] F(6) [of 2] layout_free [OF assms(1-3)]
      by cases simp_all
  qed
  have old: "foff d i + fsl d i \<le> unat ?o" "0 < fsl d i" if "i < 3" "f_offset d i \<noteq> 0" for i
    using ao(4) [OF that] layout_section(3) [OF assms(1) _ that(2)] that(1) by simp_all
  show "layout_ok ?d len"
  proof (rule layout_introI)
    show "192 \<le> len" "len \<le> length ?d" "length ?d < 2 ^ 32" "hdr_hdrsize ?d = 192"
      using lb F(1,2) by simp_all
    show "f_offset ?d i = 0" if "i < 15" "3 \<le> i" for i using F(4) [of i] lb(6) that assms(2) by simp
    show "fsl ?d i = 0" if "i < 3" "f_offset ?d i = 0" for i
      using that F(4,6) [of i] o0 layout_free [OF assms(1), of i] by (auto split: if_splits)
    show "section_ok ?d len i" if i: "i < 3" "f_offset ?d i \<noteq> 0" for i
    proof (cases "i = nr")
      case True
      then show ?thesis unfolding section_ok_def using F(4-6) [OF nr] ao(1,3) assms(5-7) sl tot by simp
    next
      case False
      have i15: "i < 15" and al: "f_offset d i \<noteq> 0" using i F(4) [of i] False by auto
      show ?thesis unfolding section_ok_def
        using F(4-6) [OF i15] layout_section [OF assms(1) i15 al] tot False by simp
    qed
    show "foff ?d i + fsl ?d i \<le> foff ?d j"
      if a: "i < 3" "j < 3" "i \<noteq> j" "f_offset ?d i \<noteq> 0" "f_offset ?d j \<noteq> 0" "foff ?d i \<le> foff ?d j" for i j
      using a F(4,6) [of i] F(4) [of j] old [of i] old [of j]
        layout_ordered(1) [OF assms(1) a(1-3)] by (auto split: if_splits)
    show "\<exists>k<3. f_offset ?d k \<noteq> 0 \<and> foff ?d k = foff ?d i + fsl ?d i"
      if a: "i < 3" "j < 3" "f_offset ?d i \<noteq> 0" "foff ?d i < foff ?d j" for i j
    proof -
      have ne: "i \<noteq> nr"
        using a F(4) [of i] F(4) [of j] old [of j] by (cases "j = nr") fastforce+
      have i15: "i < 15" and al: "f_offset d i \<noteq> 0" using a(1,3) F(4) [of i] ne by auto
      have keep: "\<exists>k<3. f_offset ?d k \<noteq> 0 \<and> foff ?d k = foff ?d i + fsl ?d i"
        if j': "j' < 3" "foff d i < foff d j'" for j'
      proof -
        obtain k where k: "k < 3" "f_offset d k \<noteq> 0" "foff d k = foff d i + fsl d i"
          using layout_no_hole [OF assms(1) a(1) j'(1) al j'(2)] .
        then have "k \<noteq> nr" using assms(3) by auto
        then show ?thesis using k F(4) [of k] F(4,6) [OF i15] ne by (intro exI [of _ k]) simp
      qed
      show ?thesis
      proof (cases "j = nr")
        case False
        then show ?thesis using keep [OF a(2)] a(4) F(4) [OF i15] F(4) [of j] a(2) ne by simp
      next
        case True
        have "unat ?o \<noteq> 192" using old [OF a(1) al] layout_section(2) [OF assms(1) i15 al] by simp
        then obtain i' where i': "i' < 3" "f_offset d i' \<noteq> 0" "unat ?o = foff d i' + fsl d i'"
          using ao(5) by blast
        show ?thesis
        proof (cases "i' = i")
          case True
          then show ?thesis using i' F(4,6) [OF i15] F(4) [OF nr] ne o0 assms(2)
            by (intro exI [of _ nr]) simp
        next
          case False
          have "\<not> foff d i' \<le> foff d i"
            using layout_ordered(1) [OF assms(1) i'(1) a(1) False i'(2) al] i'(3) old [OF a(1) al] by linarith
          then show ?thesis using keep [OF i'(1)] by simp
        qed
      qed
    qed
  qed
  show "file_blob ?d i = file_blob d i" if i: "i < 3" "i \<noteq> nr" for i
  proof (cases "f_offset d i = 0")
    case True
    then show ?thesis using F(4) [of i] i by (simp add: file_blob_def)
  next
    case False
    have "192 \<le> foff d i" using layout_section(2) [OF assms(1) _ False] i by simp
    then show ?thesis using F(4,5) [of i] F(3) i by (simp add: file_blob_def)
  qed
qed

text \<open>Writing the data of a file into its section.\<close>

lemma store_section_layout:
  assumes "layout_ok d len" "nr < 3" "f_offset d nr \<noteq> 0" "length src \<le> fsl d nr"
    and "d1 = (if of_nat (length src) \<noteq> f_data_length d nr
               then set_hdr_file d nr 1 (of_nat (length src)) else d)"
    and "d2 = mem_write d1 (foff d nr) src"
  shows "layout_ok d2 len" "file_blob d2 nr = Some src" "length d2 = length d"
    and "\<And>i. i < 3 \<Longrightarrow> i \<noteq> nr \<Longrightarrow> file_blob d2 i = file_blob d i"
proof -
  note lb = layout_bounds [OF assms(1)]
  have nr: "nr < 15" using assms(2) by simp
  note sec = layout_section [OF assms(1) nr assms(3)]
  have ul: "unat (of_nat (length src) :: u32) = length src" using assms(4) sec(4) by simp
  have f1: "hdr_file d1 i k = (if i = nr \<and> k = 1 then of_nat (length src) else hdr_file d i k)"
    if "i < 15" "k < 3" for i k using that lb(4) nr unfolding assms(5) by auto
  have l1: "length d1 = length d" "hdr_hdrsize d1 = hdr_hdrsize d"
    "\<And>p m. 192 \<le> p \<Longrightarrow> mem_read d1 p m = mem_read d p m"
    using lb(4) nr unfolding assms(5) by auto
  have bnd: "192 \<le> foff d nr" "foff d nr \<le> length d1" "foff d nr + length src \<le> length d1"
    using sec(2,6) assms(4) lb(2) l1(1) by simp_all
  show len2: "length d2 = length d" using bnd(3) l1(1) unfolding assms(6) by simp
  have f2: "hdr_file d2 i k = (if i = nr \<and> k = 1 then of_nat (length src) else hdr_file d i k)"
    if "i < 15" "k < 3" for i k
    unfolding assms(6) using header_write_body(1) [OF bnd(1,2) that] f1 [OF that] by (rule trans)
  have o2: "f_offset d2 i = f_offset d i" "f_section_length d2 i = f_section_length d i" if "i < 15" for i
    using f2 [OF that] by simp_all
  have dl2: "f_data_length d2 i = (if i = nr then of_nat (length src) else f_data_length d i)"
    if "i < 15" for i using f2 [OF that, of 1] by simp
  have hs: "hdr_hdrsize d2 = 192"
    using header_write_body(2) [OF bnd(1,2)] l1(2) lb(5) unfolding assms(6) by simp
  show "layout_ok d2 len"
  proof (rule layout_introI)
    show "section_ok d2 len i" if "i < 3" "f_offset d2 i \<noteq> 0" for i
      using layout_section [OF assms(1), of i] that o2 [of i] o2 [of 0] o2 [of 1] o2 [of 2] dl2 [of i] ul assms(4)
      by (auto simp: section_ok_def)
    show "foff d2 i + fsl d2 i \<le> foff d2 j"
      if a: "i < 3" "j < 3" "i \<noteq> j" "f_offset d2 i \<noteq> 0" "f_offset d2 j \<noteq> 0" "foff d2 i \<le> foff d2 j" for i j
      using layout_ordered(1) [OF assms(1) a(1-3)] a o2 [of i] o2 [of j] by simp
    show "\<exists>k<3. f_offset d2 k \<noteq> 0 \<and> foff d2 k = foff d2 i + fsl d2 i"
      if a: "i < 3" "j < 3" "f_offset d2 i \<noteq> 0" "foff d2 i < foff d2 j" for i j
    proof -
      obtain k where "k < 3" "f_offset d k \<noteq> 0" "foff d k = foff d i + fsl d i"
        using layout_no_hole [OF assms(1) a(1,2)] a o2 [of i] o2 [of j] by auto
      then show ?thesis using o2 [of k] o2 [of i] a by (intro exI [of _ k]) simp
    qed
  qed (use lb hs len2 o2 layout_free [OF assms(1)] in auto)
  have "mem_read d2 (foff d nr) (length src) = src"
    using bnd(2) unfolding assms(6) by simp
  then show "file_blob d2 nr = Some src" using o2 [OF nr] dl2 [OF nr] ul assms(3) by (simp add: file_blob_def)
  show "file_blob d2 i = file_blob d i" if i: "i < 3" "i \<noteq> nr" for i
  proof (cases "f_offset d i = 0")
    case True
    then show ?thesis using o2 [of i] i by (simp add: file_blob_def)
  next
    case False
    have i15: "i < 15" using i by simp
    note s = layout_section [OF assms(1) i15 False]
    have "foff d i + fdl d i \<le> foff d nr \<or> foff d nr + length src \<le> foff d i"
      using layout_disjoint [OF assms(1) i(1) assms(2) i(2) False assms(3)] s(5) assms(4) by linarith
    then have "mem_read d2 (foff d i) (fdl d i) = mem_read d (foff d i) (fdl d i)"
      using mem_read_write_other [OF _ bnd(2), of "foff d i" "fdl d i" src] l1(3) [OF s(2)]
      unfolding assms(6) by simp
    then show ?thesis using o2 [OF i15] dl2 [OF i15] i by (simp add: file_blob_def)
  qed
qed

end
