(* ===== verification/LinearBackend.thy ===== *)
theory LinearBackend
  imports LinearLayout
begin

section \<open>The linear backend on a store\<close>

text \<open>
  The interface between the allocator and the store that owns the memory
  (\<open>struct nvram_linear_store_ops\<close> of \<open>swtpm_nvstore_linear.h\<close>) as a locale, and in it the
  operations of the backend with all their error paths.
\<close>

subsection \<open>The contract of a store, and the backend on top of it\<close>

text \<open>
  \<open>m_inv m n\<close>: the store's state \<open>m\<close> goes with a mapped region of \<open>n\<close> bytes.
  \<open>m_calm m n\<close>: the operating system will not fail the next calls. A resize keeps what fits
  of the content. The largest request of the allocator is the header with three sections of
  \<open>2 ^ 30\<close> bytes.
\<close>

lemma alloc_offset_cong:
  assumes "\<And>i k. i < 15 \<Longrightarrow> k < 3 \<Longrightarrow> hdr_file d' i k = hdr_file d i k" "hdr_hdrsize d' = hdr_hdrsize d"
  shows "alloc_offset d' = alloc_offset d"
  unfolding alloc_offset_def assms(2)
  by (rule fold_cong) (use assms(1) in \<open>auto simp: alloc_step_def\<close>)

lemma layout_longer:
  assumes "layout_ok d len" "len \<le> len'" "len' \<le> length d"
  shows "layout_ok d len'"
proof (rule layout_cong [OF assms(1) refl refl])
  show "192 \<le> len'" "length d < 2 ^ 32" using layout_bounds [OF assms(1)] assms(2) by simp_all
  show "foff d i + fsl d i \<le> len'" if "i < 3" "f_offset d i \<noteq> 0" for i
    using layout_section(6) [OF assms(1) _ that(2)] that(1) assms(2) by simp
qed (use assms in simp)

abbreviation max_region :: nat where "max_region \<equiv> 192 + 3 * 2 ^ 30"

locale linear_store =
  fixes sops :: "'m nvram_linear_store_ops"
    and m_inv :: "'m \<Rightarrow> nat \<Rightarrow> bool"
    and m_calm :: "'m \<Rightarrow> nat \<Rightarrow> bool"
  assumes resize_ok:
      "ls_resize sops = Some rz \<Longrightarrow> m_inv m (length d) \<Longrightarrow> 192 \<le> unat req \<Longrightarrow>
       rz m d req = (Inr (d', res), m') \<Longrightarrow>
       m_inv m' (length d') \<and> unat res = length d' \<and>
       take (min (length d) (length d')) d' = take (min (length d) (length d')) d"
    and resize_err: "ls_resize sops = Some rz \<Longrightarrow> rz m d req = (Inl rc, m') \<Longrightarrow> rc \<noteq> 0"
    and resize_calm:
      "m_inv m (length d) \<Longrightarrow> m_calm m (length d) \<Longrightarrow> 192 \<le> unat req \<Longrightarrow>
       unat req \<le> max (length d) max_region \<Longrightarrow>
       \<exists>rz d' res m'. ls_resize sops = Some rz \<and> rz m d req = (Inr (d', res), m') \<and> req \<le> res \<and>
         m_calm m' (length d')"
    and flush_ok:
      "ls_flush sops = Some fl \<Longrightarrow> m_inv m (length d) \<Longrightarrow> fl m d off cnt = (0, m') \<Longrightarrow>
       m_inv m' (length d)"
    and flush_calm:
      "ls_flush sops = Some fl \<Longrightarrow> m_inv m (length d) \<Longrightarrow> m_calm m (length d) \<Longrightarrow>
       unat off + unat cnt \<le> length d \<Longrightarrow> fl m d off cnt = (rc, m') \<Longrightarrow>
       rc = 0 \<and> m_calm m' (length d)"
begin

definition lin_inv :: "tpmstate \<Rightarrow> 'm linear_state \<Rightarrow> bool" where
  "lin_inv ts s \<longleftrightarrow> layout_ok (sdata s) (unat (slength s)) \<and> m_inv (store s) (length (sdata s))"

definition lin_calm :: "'m linear_state \<Rightarrow> bool" where
  "lin_calm s \<longleftrightarrow> m_calm (store s) (length (sdata s)) \<and> (\<forall>n. alloc_ok s n)"

definition lin_content :: "tpmstate \<Rightarrow> 'm linear_state \<Rightarrow> u32 \<Rightarrow> string \<Rightarrow> bytes option" where
  "lin_content ts s n name = file_blob (sdata s) (unat (SWTPM_NVRAM_Linear_GetFileNr name))"

definition lin_data :: "bytes \<Rightarrow> bool" where
  "lin_data d \<longleftrightarrow> 0 < length d \<and> length d \<le> 2 ^ 30"

lemma SafeResize_ok:
  assumes "lin_inv ts s" "192 \<le> unat req"
    and "\<forall>i<3. f_offset (sdata s) i \<noteq> 0 \<longrightarrow>
           foff (sdata s) i + fsl (sdata s) i \<le> unat req"
    and "SWTPM_NVRAM_Linear_SafeResize sops s req = (0, s')"
  shows "lin_inv ts s'" "unat req \<le> unat (slength s')"
    and "\<And>i k. i < 15 \<Longrightarrow> k < 3 \<Longrightarrow> hdr_file (sdata s') i k = hdr_file (sdata s) i k"
    and "\<And>i. i < 3 \<Longrightarrow> file_blob (sdata s') i = file_blob (sdata s) i"
    and "hdr_hdrsize (sdata s') = hdr_hdrsize (sdata s)"
    and "alloc_ok s' = alloc_ok s"
proof -
  let ?d = "sdata s"
  have lay: "layout_ok ?d (unat (slength s))" and mi: "m_inv (store s) (length ?d)"
    using assms(1) by (auto simp: lin_inv_def)
  have "lin_inv ts s' \<and> unat req \<le> unat (slength s') \<and> hdr_hdrsize (sdata s') = hdr_hdrsize ?d \<and>
    (\<forall>i k. i < 15 \<longrightarrow> k < 3 \<longrightarrow> hdr_file (sdata s') i k = hdr_file ?d i k) \<and>
    (\<forall>i<3. file_blob (sdata s') i = file_blob ?d i) \<and> alloc_ok s' = alloc_ok s"
  proof (cases "ls_resize sops")
    case None
    then show ?thesis using assms(1,4)
      by (auto simp: SWTPM_NVRAM_Linear_SafeResize_def word_less_nat_alt split: if_splits)
  next
    case (Some rz)
    obtain d' res m' where r: "rz (store s) ?d req = (Inr (d', res), m')"
      and s': "s' = s\<lparr>store := m', sdata := d', slength := res\<rparr>" and ge: "\<not> res < req"
      using assms(4) Some resize_err [OF Some]
      by (auto simp: SWTPM_NVRAM_Linear_SafeResize_def split: prod.splits sum.splits if_splits)
    note ro = resize_ok [OF Some mi assms(2) r]
    have reqle: "unat req \<le> length d'" using ge ro by (simp add: word_less_nat_alt)
    have n192: "192 \<le> min (length ?d) (length d')" using layout_bounds(4) [OF lay] assms(2) reqle by simp
    note hp = header_prefix [OF ro [THEN conjunct2, THEN conjunct2] n192]
    have ld: "length d' < 2 ^ 32" using ro unat_u32_bound [of res] by simp
    have lay': "layout_ok d' (length d')"
      by (rule layout_cong [OF lay hp(1,2)]) (use n192 ld reqle assms(3) in \<open>auto intro: order_trans\<close>)
    have "file_blob d' i = file_blob ?d i" if i: "i < 3" for i
    proof (cases "f_offset ?d i = 0")
      case True
      then show ?thesis using hp(1) [of i 0] i by (simp add: file_blob_def)
    next
      case False
      have i15: "i < 15" using i by simp
      have "foff ?d i + fdl ?d i \<le> min (length ?d) (length d')"
        using layout_section(5,6) [OF lay i15 False] layout_bounds(2) [OF lay] assms(3) i False reqle
        by fastforce
      then show ?thesis using hp(1) [of i 0] hp(1) [of i 1] hp(3) i by (simp add: file_blob_def)
    qed
    then show ?thesis using s' ro lay' hp(1,2) reqle by (simp add: lin_inv_def)
  qed
  then show "lin_inv ts s'" "unat req \<le> unat (slength s')"
    "hdr_hdrsize (sdata s') = hdr_hdrsize ?d" "alloc_ok s' = alloc_ok s"
    "\<And>i k. i < 15 \<Longrightarrow> k < 3 \<Longrightarrow> hdr_file (sdata s') i k = hdr_file ?d i k"
    "\<And>i. i < 3 \<Longrightarrow> file_blob (sdata s') i = file_blob ?d i" by auto
qed

lemma SafeResize_calm:
  assumes "lin_inv ts s" "lin_calm s" "192 \<le> unat req" "unat req \<le> max (length (sdata s)) max_region"
    and "SWTPM_NVRAM_Linear_SafeResize sops s req = (rc, s')"
  shows "rc = 0 \<and> lin_calm s'"
proof -
  have mi: "m_inv (store s) (length (sdata s))" and mc: "m_calm (store s) (length (sdata s))"
    using assms(1,2) by (auto simp: lin_inv_def lin_calm_def)
  from resize_calm [OF mi mc assms(3,4)] assms(2,5) show ?thesis
    by (auto simp: SWTPM_NVRAM_Linear_SafeResize_def lin_calm_def leD)
qed

lemma store_flush_ok:
  assumes "lin_inv ts s" "store_flush sops s off cnt = (rc, s')"
  shows "rc = 0 \<Longrightarrow> lin_inv ts s'" and "sdata s' = sdata s"
    and "lin_calm s \<Longrightarrow> unat off + unat cnt \<le> length (sdata s) \<Longrightarrow> rc = 0 \<and> lin_calm s'"
proof -
  have mi: "m_inv (store s) (length (sdata s))" using assms(1) by (simp add: lin_inv_def)
  show "rc = 0 \<Longrightarrow> lin_inv ts s'" "sdata s' = sdata s"
    using assms flush_ok [OF _ mi]
    by (auto simp: store_flush_def lin_inv_def split: option.splits prod.splits)
  show "lin_calm s \<Longrightarrow> unat off + unat cnt \<le> length (sdata s) \<Longrightarrow> rc = 0 \<and> lin_calm s'"
    using assms(2) flush_calm [OF _ mi]
    by (auto simp: store_flush_def lin_calm_def split: option.splits prod.splits)
qed

lemma round_section:
  assumes "lin_data d"
  shows "length d \<le> unat (ROUND_TO_NEXT_POWER_OF_2_32 (of_nat (length d)))"
    and "unat (ROUND_TO_NEXT_POWER_OF_2_32 (of_nat (length d))) \<le> 2 ^ 30"
    and "0 < ROUND_TO_NEXT_POWER_OF_2_32 (of_nat (length d))"
proof -
  have l: "0 < length d" "length d \<le> 2 ^ 30" using assms by (auto simp: lin_data_def)
  have u: "unat (of_nat (length d) :: u32) = length d" using l by simp
  have a: "0 < (of_nat (length d) :: u32)" "(of_nat (length d) :: u32) \<le> 2 ^ 31"
    using l u by (simp_all add: word_less_nat_alt word_le_nat_alt)
  obtain k where k: "unat (ROUND_TO_NEXT_POWER_OF_2_32 (of_nat (length d))) = 2 ^ k"
    "length d \<le> 2 ^ k" "\<And>j. length d \<le> 2 ^ j \<Longrightarrow> k \<le> j"
    using ROUND_power [OF a] u by metis
  have "k \<le> 30" using k(3) [OF l(2)] .
  then have "(2::nat) ^ k \<le> 2 ^ 30" by (rule power_increasing) simp
  with k show "length d \<le> unat (ROUND_TO_NEXT_POWER_OF_2_32 (of_nat (length d)))"
    "unat (ROUND_TO_NEXT_POWER_OF_2_32 (of_nat (length d))) \<le> 2 ^ 30"
    "0 < ROUND_TO_NEXT_POWER_OF_2_32 (of_nat (length d))" by (simp_all add: word_less_nat_alt)
qed

lemma AllocFile_ok:
  assumes "lin_inv ts s" "nr < 3" "f_offset (sdata s) nr = 0" "lin_data d"
    and "SWTPM_NVRAM_Linear_AllocFile sops s nr (of_nat (length d)) = (rc, s')"
  shows "rc = 0 \<Longrightarrow> lin_inv ts s'" and "rc = 0 \<Longrightarrow> f_offset (sdata s') nr \<noteq> 0"
    and "rc = 0 \<Longrightarrow> length d \<le> fsl (sdata s') nr"
    and "\<And>i. rc = 0 \<Longrightarrow> i < 3 \<Longrightarrow> i \<noteq> nr \<Longrightarrow> file_blob (sdata s') i = file_blob (sdata s) i"
    and "lin_calm s \<Longrightarrow> rc = 0 \<and> lin_calm s'"
proof -
  let ?sl = "ROUND_TO_NEXT_POWER_OF_2_32 (of_nat (length d))" and ?o = "alloc_offset (sdata s)"
  have lay: "layout_ok (sdata s) (unat (slength s))" using assms(1) by (simp add: lin_inv_def)
  note ao = alloc_offset_spec [OF lay] and rs = round_section [OF assms(4)]
  have tot: "fsl (sdata s) 0 + fsl (sdata s) 1 + fsl (sdata s) 2 \<le> 2 * 2 ^ 30"
  proof -
    consider "nr = 0" | "nr = 1" | "nr = 2" using assms(2) by linarith
    then show ?thesis using layout_free [OF lay assms(2,3)] sections_total [OF _ lay, of 0]
        sections_total [OF _ lay, of 1] sections_total [OF _ lay, of 2] by cases simp_all
  qed
  have req: "unat (?o + ?sl) = unat ?o + unat ?sl" using ao(3) rs(2) tot by (intro unat_add_u32) simp
  have r192: "192 \<le> unat (?o + ?sl)" using req ao(1) by simp
  have rends: "\<forall>i<3. f_offset (sdata s) i \<noteq> 0 \<longrightarrow> foff (sdata s) i + fsl (sdata s) i \<le> unat (?o + ?sl)"
    unfolding req using ao(4) trans_le_add1 by blast
  have rmax: "unat (?o + ?sl) \<le> max (length (sdata s)) max_region" using req ao(3) rs(2) tot by simp
  obtain rc1 s1 where sr: "SWTPM_NVRAM_Linear_SafeResize sops s (?o + ?sl) = (rc1, s1)" by fastforce
  have out: "rc = rc1" "s' = (if rc1 = 0 then s1\<lparr>sdata := alloc_entry (sdata s1) nr ?o
      (of_nat (length d)) ?sl\<rparr> else s1)"
    using assms(5) sr by (auto simp: SWTPM_NVRAM_Linear_AllocFile_def Let_def alloc_entry_def split: if_splits)
  have main: "lin_inv ts s' \<and> f_offset (sdata s') nr \<noteq> 0 \<and> length d \<le> fsl (sdata s') nr \<and>
      length (sdata s') = length (sdata s1) \<and> store s' = store s1 \<and>
      (\<forall>i<3. i \<noteq> nr \<longrightarrow> file_blob (sdata s') i = file_blob (sdata s) i)" if "rc = 0"
  proof -
    have sr0: "SWTPM_NVRAM_Linear_SafeResize sops s (?o + ?sl) = (0, s1)" using sr out(1) that by simp
    note so = SafeResize_ok [OF assms(1) r192 rends sr0]
    have lay1: "layout_ok (sdata s1) (unat (slength s1))" using so(1) by (simp add: lin_inv_def)
    have ao1: "alloc_offset (sdata s1) = ?o"
      by (rule alloc_offset_cong [OF so(3,5)])
    have o1: "f_offset (sdata s1) nr = 0" using so(3) [of nr 0] assms(2,3) by simp
    have nr15: "nr < 15" using assms(2) by simp
    have fit: "unat (alloc_offset (sdata s1)) + unat ?sl \<le> unat (slength s1)" using so(2) req ao1 by simp
    have dl: "unat (of_nat (length d) :: u32) \<le> unat ?sl"
      using rs(1,2) by simp
    note al = alloc_layout [OF lay1 assms(2) o1 rs(3,2) dl fit]
    note F = alloc_entry_fields [OF layout_bounds(4) [OF lay1] nr15]
    have s': "s' = s1\<lparr>sdata := alloc_entry (sdata s1) nr (alloc_offset (sdata s1)) (of_nat (length d)) ?sl\<rparr>"
      using out that ao1 by simp
    have "lin_inv ts s'" using al(1) F(1) so(1) unfolding s' by (simp add: lin_inv_def)
    moreover have "f_offset (sdata s') nr \<noteq> 0" "length d \<le> fsl (sdata s') nr"
      using F(4,6) [OF nr15] ao(1) ao1 rs(1) unfolding s' by auto
    moreover have "length (sdata s') = length (sdata s1)" "store s' = store s1"
      using F(1) unfolding s' by simp_all
    moreover have "file_blob (sdata s') i = file_blob (sdata s) i" if "i < 3" "i \<noteq> nr" for i
      using al(2) [OF that] so(4) [OF that(1)] unfolding s' by simp
    ultimately show ?thesis by blast
  qed
  then show "rc = 0 \<Longrightarrow> lin_inv ts s'" "rc = 0 \<Longrightarrow> f_offset (sdata s') nr \<noteq> 0"
    "rc = 0 \<Longrightarrow> length d \<le> fsl (sdata s') nr"
    "\<And>i. rc = 0 \<Longrightarrow> i < 3 \<Longrightarrow> i \<noteq> nr \<Longrightarrow> file_blob (sdata s') i = file_blob (sdata s) i"
    by blast+
  assume c: "lin_calm s"
  have "rc1 = 0 \<and> lin_calm s1" using SafeResize_calm [OF assms(1) c r192 rmax sr] .
  then show "rc = 0 \<and> lin_calm s'" using main out by (auto simp: lin_calm_def)
qed

lemma RemoveFile_ok:
  assumes "lin_inv ts s" "nr < 3"
    and "SWTPM_NVRAM_Linear_RemoveFile sops s nr resize = (rc, s')"
  shows "rc = 0 \<Longrightarrow> lin_inv ts s'" and "rc = 0 \<Longrightarrow> f_offset (sdata s') nr = 0"
    and "\<And>i. rc = 0 \<Longrightarrow> i < 3 \<Longrightarrow> i \<noteq> nr \<Longrightarrow> file_blob (sdata s') i = file_blob (sdata s) i"
    and "lin_calm s \<Longrightarrow> rc = 0 \<and> lin_calm s'"
proof -
  let ?d = "sdata s" and ?len = "unat (slength s)"
  have lay: "layout_ok ?d ?len" and mi: "m_inv (store s) (length ?d)"
    using assms(1) by (simp_all add: lin_inv_def)
  have "(rc = 0 \<longrightarrow> lin_inv ts s' \<and> f_offset (sdata s') nr = 0 \<and>
      (\<forall>i<3. i \<noteq> nr \<longrightarrow> file_blob (sdata s') i = file_blob ?d i)) \<and> (lin_calm s \<longrightarrow> rc = 0 \<and> lin_calm s')"
  proof (cases "f_offset ?d nr = 0")
    case True
    then show ?thesis using assms by (simp add: SWTPM_NVRAM_Linear_RemoveFile_def)
  next
    case al: False
    have nr15: "nr < 15" using assms(2) by simp
    note cr = compact_region_spec [OF lay assms(2) al] and cl = compact_layout [OF lay assms(2) al]
    note sec = layout_section [OF lay nr15 al]
    let ?s1 = "s\<lparr>sdata := compact_region ?d nr\<rparr>" and ?new = "slength s - f_section_length ?d nr"
    have free: "f_offset (compact_region ?d nr) nr = 0" using cr(3) [OF nr15, of 0] by simp
    have new: "unat ?new = ?len - fsl ?d nr" using sec(6) by (intro unat_sub_u32) (simp add: word_le_nat_alt)
    have lay1: "layout_ok (compact_region ?d nr) ?len"
      by (rule layout_longer [OF cl]) (use cr(1) layout_bounds(2) [OF lay] in simp_all)
    have inv1: "lin_inv ts ?s1" using lay1 mi cr(1) by (simp add: lin_inv_def)
    have calm1: "lin_calm s \<Longrightarrow> lin_calm ?s1" using cr(1) by (simp add: lin_calm_def)
    show ?thesis
    proof (cases resize)
      case False
      then show ?thesis using assms(3) al inv1 calm1 free cr(4)
        by (auto simp: SWTPM_NVRAM_Linear_RemoveFile_def Let_def)
    next
      case True
      obtain s2 where sr: "SWTPM_NVRAM_Linear_SafeResize sops ?s1 ?new = (rc, s2)"
        and s': "s' = (if rc = 0 then s2\<lparr>slength := ?new\<rparr> else s2)"
        using assms(3) al True by (auto simp: SWTPM_NVRAM_Linear_RemoveFile_def Let_def split: prod.splits)
      have r192: "192 \<le> unat ?new" using new layout_bounds(1) [OF cl] by simp
      have ends: "\<forall>i<3. f_offset (sdata ?s1) i \<noteq> 0 \<longrightarrow> foff (sdata ?s1) i + fsl (sdata ?s1) i \<le> unat ?new"
        using layout_section(6) [OF cl] new by simp
      have "lin_inv ts s' \<and> f_offset (sdata s') nr = 0 \<and>
        (\<forall>i<3. i \<noteq> nr \<longrightarrow> file_blob (sdata s') i = file_blob ?d i)" if "rc = 0"
      proof -
        note so = SafeResize_ok [OF inv1 r192 ends sr [unfolded that]]
        have lay2: "layout_ok (sdata s2) (unat (slength s2))" using so(1) by (simp add: lin_inv_def)
        have "layout_ok (sdata s2) (unat ?new)"
          by (rule layout_cong [OF lay2 refl refl])
            (use r192 so(2,3) layout_bounds [OF lay2] ends in \<open>auto intro: order_trans\<close>)
        then show ?thesis using so(1,3,4) that s' free cr(4) nr15 by (simp add: lin_inv_def)
      qed
      moreover have "rc = 0 \<and> lin_calm s'" if "lin_calm s"
      proof -
        have "unat ?new \<le> max (length (sdata ?s1)) max_region"
          using new cr(1) layout_bounds(2) [OF lay] by simp
        from SafeResize_calm [OF inv1 calm1 [OF that] r192 this sr] show ?thesis
          using s' by (auto simp: lin_calm_def)
      qed
      ultimately show ?thesis by blast
    qed
  qed
  then show "rc = 0 \<Longrightarrow> lin_inv ts s'" "rc = 0 \<Longrightarrow> f_offset (sdata s') nr = 0"
    "\<And>i. rc = 0 \<Longrightarrow> i < 3 \<Longrightarrow> i \<noteq> nr \<Longrightarrow> file_blob (sdata s') i = file_blob ?d i"
    "lin_calm s \<Longrightarrow> rc = 0 \<and> lin_calm s'" by blast+
qed

lemma FlushHeader_eq:
  "layout_ok (sdata s) len \<Longrightarrow> SWTPM_NVRAM_Linear_FlushHeader sops s = store_flush sops s 0 192"
  using layout_bounds(5) by (simp add: SWTPM_NVRAM_Linear_FlushHeader_def)

lemma store_into_section_ok:
  assumes "lin_inv ts s" "nr < 3" "f_offset (sdata s) nr \<noteq> 0" "length d \<le> fsl (sdata s) nr"
    and "store_into_section sops s nr d hf ff = (rc, s')"
  shows "rc = 0 \<Longrightarrow> lin_inv ts s'" and "file_blob (sdata s') nr = Some d"
    and "\<And>i. i < 3 \<Longrightarrow> i \<noteq> nr \<Longrightarrow> file_blob (sdata s') i = file_blob (sdata s) i"
    and "lin_calm s \<Longrightarrow> rc = 0 \<and> lin_calm s'"
proof -
  let ?d = "sdata s" and ?n = "of_nat (length d) :: u32"
  have lay: "layout_ok ?d (unat (slength s))" and mi: "m_inv (store s) (length ?d)"
    using assms(1) by (simp_all add: lin_inv_def)
  define d1 where "d1 = (if ?n \<noteq> f_data_length ?d nr then set_hdr_file ?d nr 1 ?n else ?d)"
  define d2 where "d2 = mem_write d1 (foff ?d nr) d"
  note sl = store_section_layout [OF lay assms(2-4) d1_def d2_def]
  let ?s1 = "s\<lparr>sdata := d2\<rparr>"
  have inv1: "lin_inv ts ?s1" using sl(1,3) mi by (simp add: lin_inv_def)
  have calm1: "lin_calm s \<Longrightarrow> lin_calm ?s1" using sl(3) by (simp add: lin_calm_def)
  obtain rc1 s2 where h: "(if hf \<or> ?n \<noteq> f_data_length ?d nr then store_flush sops ?s1 0 192
      else (0, ?s1)) = (rc1, s2)" by fastforce
  have out: "(rc, s') = (if ff then store_flush sops ?s1 0 (slength s)
      else if rc1 = 0 then store_flush sops s2 (f_offset ?d nr) ?n else (rc1, s2))"
  proof -
    have "store_into_section sops s nr d hf ff =
      (if ff then store_flush sops ?s1 0 (slength ?s1)
       else case (if hf \<or> ?n \<noteq> f_data_length ?d nr then SWTPM_NVRAM_Linear_FlushHeader sops ?s1
                  else (0, ?s1)) of
         (rc, s2) \<Rightarrow> if rc = 0 then store_flush sops s2 (f_offset ?d nr) ?n else (rc, s2))"
      by (simp only: store_into_section_def Let_def d1_def d2_def)
    moreover have "SWTPM_NVRAM_Linear_FlushHeader sops ?s1 = store_flush sops ?s1 0 192"
      using FlushHeader_eq [of ?s1] sl(1) by simp
    ultimately have "store_into_section sops s nr d hf ff = (if ff then store_flush sops ?s1 0 (slength ?s1)
       else if rc1 = 0 then store_flush sops s2 (f_offset ?d nr) ?n else (rc1, s2))"
      by (simp only: h prod.case)
    then show ?thesis using assms(5) by simp
  qed
  have b192: "unat (0 :: u32) + unat (192 :: u32) \<le> length (sdata ?s1)"
    using layout_bounds(4) [OF lay] sl(3) by simp
  have inv2: "rc1 = 0 \<Longrightarrow> lin_inv ts s2" and d2eq: "sdata s2 = d2"
    and calm2: "lin_calm s \<Longrightarrow> rc1 = 0 \<and> lin_calm s2"
    using h inv1 calm1 store_flush_ok [OF inv1, of 0 192 rc1 s2] b192 by (auto split: if_splits)
  have nr15: "nr < 15" using assms(2) by simp
  have bn: "foff ?d nr + unat ?n \<le> length d2"
    using layout_section(4,6) [OF lay nr15 assms(3)] assms(4) layout_bounds(2) [OF lay] sl(3) by simp
  have bl: "unat (0 :: u32) + unat (slength s) \<le> length (sdata ?s1)" using layout_bounds(2) [OF sl(1)] by simp
  have dd: "sdata s' = d2"
    using out d2eq store_flush_ok(2) [OF inv1, of 0 "slength s" rc s'] store_flush_ok(2) [OF inv2, of _ _ rc s']
    by (auto split: if_splits)
  show "rc = 0 \<Longrightarrow> lin_inv ts s'"
    using out store_flush_ok(1) [OF inv1, of 0 "slength s" rc s'] store_flush_ok(1) [OF inv2, of _ _ rc s']
    by (auto split: if_splits)
  show "file_blob (sdata s') nr = Some d"
    "\<And>i. i < 3 \<Longrightarrow> i \<noteq> nr \<Longrightarrow> file_blob (sdata s') i = file_blob (sdata s) i"
    using sl(2,4) dd by simp_all
  show "rc = 0 \<and> lin_calm s'" if c: "lin_calm s"
  proof (cases ff)
    case True
    then show ?thesis using out store_flush_ok(3) [OF inv1 _ calm1 [OF c] bl, of rc s'] by simp
  next
    case False
    have "store_flush sops s2 (f_offset ?d nr) ?n = (rc, s')" using False out calm2 [OF c] by simp
    from store_flush_ok(3) [OF inv2 this] calm2 [OF c] show ?thesis using d2eq bn by simp
  qed
qed

lemma GetFileNr_values:
  "SWTPM_NVRAM_Linear_GetFileNr TPM_PERMANENT_ALL_NAME = 0"
  "SWTPM_NVRAM_Linear_GetFileNr TPM_VOLATILESTATE_NAME = 1"
  "SWTPM_NVRAM_Linear_GetFileNr TPM_SAVESTATE_NAME = 2"
  by (simp_all add: SWTPM_NVRAM_Linear_GetFileNr_def word_le_nat_alt)

lemma GetFileNr_state_name:
  assumes "state_name name"
  shows "SWTPM_NVRAM_Linear_GetFileNr name \<noteq> FILE_NR_INVALID"
    and "unat (SWTPM_NVRAM_Linear_GetFileNr name) < 3"
    and "state_name m \<Longrightarrow> unat (SWTPM_NVRAM_Linear_GetFileNr m) = unat (SWTPM_NVRAM_Linear_GetFileNr name)
         \<Longrightarrow> m = name"
  using assms by (auto simp: state_name_def GetFileNr_values)

lemma StoreData_Linear_ok:
  assumes "lin_inv ts s" "state_name name" "lin_data d"
    and "SWTPM_NVRAM_StoreData_Linear sops ts s d n name uri f = (rc, s')"
  defines "nr \<equiv> unat (SWTPM_NVRAM_Linear_GetFileNr name)"
  shows "rc = 0 \<Longrightarrow> lin_inv ts s' \<and> file_blob (sdata s') nr = Some d"
    and "\<And>i. rc = 0 \<Longrightarrow> i < 3 \<Longrightarrow> i \<noteq> nr \<Longrightarrow> file_blob (sdata s') i = file_blob (sdata s) i"
    and "lin_calm s \<Longrightarrow> rc = 0 \<and> lin_calm s'"
proof -
  let ?n = "of_nat (length d) :: u32" and ?d = "sdata s"
  note gf = GetFileNr_state_name(1,2) [OF assms(2), folded nr_def]
  have un: "unat ?n = length d" using assms(3) by (simp add: lin_data_def)
  have goal: "(rc = 0 \<longrightarrow> lin_inv ts s' \<and> file_blob (sdata s') nr = Some d \<and>
     (\<forall>i<3. i \<noteq> nr \<longrightarrow> file_blob (sdata s') i = file_blob ?d i)) \<and> (lin_calm s \<longrightarrow> rc = 0 \<and> lin_calm s')"
  proof (cases "f_offset ?d nr = 0")
    case True
    obtain rc1 s1 where a: "SWTPM_NVRAM_Linear_AllocFile sops s nr ?n = (rc1, s1)" by fastforce
    note al = AllocFile_ok [OF assms(1) gf(2) True assms(3) a]
    have out: "if rc1 \<noteq> 0 then (rc, s') = (rc1, s1)
        else store_into_section sops s1 nr d True False = (rc, s')"
      using assms(4) gf True a
      by (simp add: SWTPM_NVRAM_StoreData_Linear_def nr_def Let_def split: if_splits)
    show ?thesis
    proof (cases "rc1 = 0")
      case True
      then have st: "store_into_section sops s1 nr d True False = (rc, s')" using out by simp
      from store_into_section_ok [OF al(1) [OF True] gf(2) al(2,3) [OF True] st] al(4,5) True
      show ?thesis by auto
    qed (use out al(5) in auto)
  next
    case alloc: False
    show ?thesis
    proof (cases "?n > f_section_length ?d nr")
      case True
      obtain rc1 s1 where r: "SWTPM_NVRAM_Linear_RemoveFile sops s nr False = (rc1, s1)" by fastforce
      note rm = RemoveFile_ok [OF assms(1) gf(2) r]
      obtain rc2 s2 where a: "SWTPM_NVRAM_Linear_AllocFile sops s1 nr ?n = (rc2, s2)" by fastforce
      have out: "if rc1 \<noteq> 0 then (rc, s') = (rc1, s1) else if rc2 \<noteq> 0 then (rc, s') = (rc2, s2)
          else store_into_section sops s2 nr d False True = (rc, s')"
        using assms(4) gf True alloc r a
        by (simp add: SWTPM_NVRAM_StoreData_Linear_def nr_def Let_def split: if_splits)
      show ?thesis
      proof (cases "rc1 = 0")
        case rc1: True
        note al = AllocFile_ok [OF rm(1) [OF rc1] gf(2) rm(2) [OF rc1] assms(3) a]
        show ?thesis
        proof (cases "rc2 = 0")
          case rc2: True
          then have st: "store_into_section sops s2 nr d False True = (rc, s')" using out rc1 by simp
          from store_into_section_ok [OF al(1) [OF rc2] gf(2) al(2,3) [OF rc2] st] al(4,5) rc1 rc2 rm(3,4)
          show ?thesis by auto
        qed (use out rc1 al(5) rm(4) in auto)
      qed (use out rm(4) in auto)
    next
      case False
      have fit: "length d \<le> fsl ?d nr" using False un by (simp add: word_less_nat_alt)
      have "store_into_section sops s nr d False False = (rc, s')"
        using assms(4) gf False alloc by (simp add: SWTPM_NVRAM_StoreData_Linear_def nr_def Let_def)
      from store_into_section_ok [OF assms(1) gf(2) alloc fit this] show ?thesis by auto
    qed
  qed
  then show "rc = 0 \<Longrightarrow> lin_inv ts s' \<and> file_blob (sdata s') nr = Some d"
    "\<And>i. rc = 0 \<Longrightarrow> i < 3 \<Longrightarrow> i \<noteq> nr \<Longrightarrow> file_blob (sdata s') i = file_blob (sdata s) i"
    "lin_calm s \<Longrightarrow> rc = 0 \<and> lin_calm s'" by blast+
qed

end

text \<open>On any such store the linear backend keeps the contract of a storage backend.\<close>

sublocale linear_store \<subseteq> lin: nvram_backend "nvram_linear_ops sops" lin_inv lin_content lin_calm
  state_name lin_data
proof unfold_locales
  fix ts and s s' :: "'m linear_state" and name n r d f me rc
  assume i: "lin_inv ts s" and nm: "state_name name"
  let ?nr = "unat (SWTPM_NVRAM_Linear_GetFileNr name)"
  note gf = GetFileNr_state_name [OF nm]
  have lay: "layout_ok (sdata s) (unat (slength s))" using i by (simp add: lin_inv_def)
  have nr15: "?nr < 15" using gf(2) by simp
  { assume c: "lin_calm s"
    have ld: "SWTPM_NVRAM_LoadData_Linear ts s n name (backend_uri ts) =
        (case lin_content ts s n name of None \<Rightarrow> Inl TPM_RETRY | Some d \<Rightarrow> Inr (Some d, length d), s)"
    proof (cases "f_offset (sdata s) ?nr = 0")
      case True
      then show ?thesis using gf
        by (simp add: SWTPM_NVRAM_LoadData_Linear_def lin_content_def file_blob_def Let_def)
    next
      case False
      note sec = layout_section [OF lay nr15 False]
      have "unat (f_offset (sdata s) ?nr + f_data_length (sdata s) ?nr) =
          foff (sdata s) ?nr + fdl (sdata s) ?nr"
        using sec layout_bounds [OF lay] by (intro unat_add_u32) simp
      then have "\<not> f_offset (sdata s) ?nr + f_data_length (sdata s) ?nr > slength s"
        using sec by (simp add: word_less_nat_alt)
      then show ?thesis using gf False c sec layout_bounds(2) [OF lay]
        by (simp add: SWTPM_NVRAM_LoadData_Linear_def lin_content_def file_blob_def Let_def lin_calm_def)
    qed
    show "fst (op_load (nvram_linear_ops sops) ts s n name (backend_uri ts)) =
        (case lin_content ts s n name of None \<Rightarrow> Inl TPM_RETRY | Some d \<Rightarrow> Inr (Some d, length d))"
      using ld by (simp add: nvram_linear_ops_def)
    show "op_load (nvram_linear_ops sops) ts s n name (backend_uri ts) = (r, s') \<Longrightarrow>
        lin_inv ts s' \<and> lin_calm s' \<and> lin_content ts s' = lin_content ts s"
      using ld i c by (simp add: nvram_linear_ops_def)
    show "lin_data d \<Longrightarrow> op_store (nvram_linear_ops sops) ts s d n name (backend_uri ts) f = (rc, s') \<Longrightarrow>
        rc = 0 \<and> lin_calm s'"
      using StoreData_Linear_ok(3) [OF i nm] c by (simp add: nvram_linear_ops_def)
    { assume "op_delete (nvram_linear_ops sops) ts s n name False (backend_uri ts) = (rc, s')"
      then have d: "SWTPM_NVRAM_DeleteName_Linear sops ts s n name False (backend_uri ts) = (rc, s')"
        by (simp add: nvram_linear_ops_def)
      obtain rc1 s1 where r: "SWTPM_NVRAM_Linear_RemoveFile sops s ?nr True = (rc1, s1)" by fastforce
      note rm = RemoveFile_ok [OF i gf(2) r]
      have rc1: "rc1 = 0" "lin_calm s1" using rm(4) c by simp_all
      have fl: "store_flush sops s1 0 (slength s1) = (rc, s')"
        using d gf(1) r rc1 by (simp add: SWTPM_NVRAM_DeleteName_Linear_def Let_def)
      have i1: "lin_inv ts s1" using rm(1) rc1 by simp
      then have "unat (0 :: u32) + unat (slength s1) \<le> length (sdata s1)"
        using layout_bounds(2) by (auto simp: lin_inv_def)
      from store_flush_ok(3) [OF i1 fl rc1(2) this] show "rc = 0 \<and> lin_calm s'" . } }
  { assume dd: "lin_data d" and "op_store (nvram_linear_ops sops) ts s d n name (backend_uri ts) f = (0, s')"
    then have st: "SWTPM_NVRAM_StoreData_Linear sops ts s d n name (backend_uri ts) f = (0, s')"
      by (simp add: nvram_linear_ops_def)
    from StoreData_Linear_ok(1,2) [OF i nm dd st]
    show "lin_inv ts s' \<and> lin_content ts s' n name = Some d \<and>
        (\<forall>m. state_name m \<longrightarrow> m \<noteq> name \<longrightarrow> lin_content ts s' n m = lin_content ts s n m)"
      using GetFileNr_state_name(2) gf(3) by (auto simp: lin_content_def) }
  { assume "op_delete (nvram_linear_ops sops) ts s n name me (backend_uri ts) = (0, s')"
    then have d: "SWTPM_NVRAM_DeleteName_Linear sops ts s n name me (backend_uri ts) = (0, s')"
      by (simp add: nvram_linear_ops_def)
    obtain rc1 s1 where r: "SWTPM_NVRAM_Linear_RemoveFile sops s ?nr True = (rc1, s1)" by fastforce
    note rm = RemoveFile_ok [OF i gf(2) r]
    have rc1: "rc1 = 0" and fl: "store_flush sops s1 0 (slength s1) = (0, s')"
      using d gf(1) r by (auto simp: SWTPM_NVRAM_DeleteName_Linear_def Let_def split: if_splits)
    have "lin_inv ts s'" "sdata s' = sdata s1" using store_flush_ok(1,2) [OF rm(1) [OF rc1] fl] by simp_all
    moreover have "file_blob (sdata s1) ?nr = None" using rm(2) [OF rc1] by (simp add: file_blob_def)
    ultimately show "lin_inv ts s' \<and> lin_content ts s' n name = None \<and>
        (\<forall>m. state_name m \<longrightarrow> m \<noteq> name \<longrightarrow> lin_content ts s' n m = lin_content ts s n m)"
      using rm(3) [OF rc1] GetFileNr_state_name(2) gf(3) by (auto simp: lin_content_def) }
qed

end
