(* ===== verification/LinearFile.thy ===== *)
theory LinearFile
  imports LinearBackend FileIO
begin

section \<open>The memory-mapped store (src/src/swtpm/swtpm_nvstore_linear_file.c)\<close>

text \<open>
  The one implementation of \<open>struct nvram_linear_store_ops\<close>: a file or block device mapped
  with \<open>MAP_SHARED\<close>. \<open>mmap_state\<close> is the static variable of the file, with the object
  behind the descriptor: \<open>file_bytes\<close> is its content apart from what is written through the
  mapping (the region itself is passed to the operations), \<open>disk\<close> what \<open>msync\<close> has forced to
  the medium, \<open>ptr_valid\<close> whether \<open>ptr\<close> still points to a mapping, \<open>mfaults\<close> the
  outcomes of the coming system calls, \<open>sc_pagesize\<close> the value of \<open>sysconf\<close>.
\<close>

datatype file_kind = REG | BLK | OTHER

record mmap_state =
  mapped :: bool
  fd_open :: bool
  flocked :: bool
  ptr_valid :: bool
  can_truncate :: bool
  msize :: u32
  kind :: file_kind
  file_bytes :: bytes
  disk :: bytes
  mfaults :: "fault list"
  sc_pagesize :: int

definition m_next :: "mmap_state \<Rightarrow> bool \<times> mmap_state" where
  "m_next m = (case mfaults m of [] \<Rightarrow> (True, m) | f # fs \<Rightarrow> (\<not> failed f, m\<lparr>mfaults := fs\<rparr>))"

text \<open>\<open>ftruncate\<close>: longer files are filled with zeros.\<close>

definition truncate_to :: "nat \<Rightarrow> bytes \<Rightarrow> bytes" where
  "truncate_to n d = take n d @ replicate (n - length d) 0"

definition close_fd :: "mmap_state \<Rightarrow> mmap_state" where
  "close_fd m = m\<lparr>fd_open := False, flocked := False\<rparr>"

subsection \<open>Mapping\<close>

definition mmap_fail :: "mmap_state \<Rightarrow> (TPM_RESULT + bytes) \<times> mmap_state" where
  "mmap_fail m = (Inl TPM_FAIL, close_fd (m\<lparr>mapped := False\<rparr>))"

text \<open>The call of \<open>mmap\<close>, which refuses a length of 0.\<close>

definition mmap_map :: "mmap_state \<Rightarrow> (TPM_RESULT + bytes) \<times> mmap_state" where
  "mmap_map m =
     (case m_next m of (ok, m1) \<Rightarrow>
        if \<not> ok \<or> msize m1 = 0 then mmap_fail m1
        else (Inr (take (unat (msize m1)) (file_bytes m1)), m1\<lparr>mapped := True, ptr_valid := True\<rparr>))"

text \<open>
  \<open>SWTPM_NVRAM_LinearFile_Mmap\<close>; \<open>fstat\<close> gives no size for a block device. The result is
  the region at \<open>mmap_state.ptr\<close>.
\<close>

definition SWTPM_NVRAM_LinearFile_Mmap :: "mmap_state \<Rightarrow> (TPM_RESULT + bytes) \<times> mmap_state" where
  "SWTPM_NVRAM_LinearFile_Mmap m =
     (case m_next m of (ok, m1) \<Rightarrow>
        if \<not> ok then mmap_fail m1
        else
          let st_size = (if kind m1 = BLK then 0 else length (file_bytes m1)) in
          if st_size \<ge> sizeof_linear_hdr
          then mmap_map (m1\<lparr>msize := of_nat st_size, can_truncate := True\<rparr>)
          else if kind m1 = REG then
            (case m_next m1 of (ok2, m2) \<Rightarrow>
               if \<not> ok2 then mmap_fail m2
               else case m_next (m2\<lparr>file_bytes := truncate_to sizeof_linear_hdr (file_bytes m2)\<rparr>) of
                 (ok3, m3) \<Rightarrow>
                   if \<not> ok3 then mmap_fail m3
                   else mmap_map (m3\<lparr>msize := of_nat (length (file_bytes m3)), can_truncate := True\<rparr>))
          else if kind m1 = BLK then
            (case m_next m1 of (ok2, m2) \<Rightarrow>
               if \<not> ok2 then mmap_fail m2
               else
                 let m3 = m2\<lparr>msize := of_nat (length (file_bytes m2)), can_truncate := False\<rparr> in
                 if msize m3 < of_nat sizeof_linear_hdr then mmap_fail m3 else mmap_map m3)
          else mmap_fail m1)"

definition SWTPM_NVRAM_LinearFile_UriToPath :: "string \<Rightarrow> string" where
  "SWTPM_NVRAM_LinearFile_UriToPath uri = (if starts_with ''file://'' uri then drop 7 uri else uri)"

text \<open>The path is opened or created; the object behind it is the one of the state.\<close>

definition SWTPM_NVRAM_LinearFile_DoOpenURI ::
  "tpmstate \<Rightarrow> mmap_state \<Rightarrow> string \<Rightarrow> TPM_RESULT \<times> mmap_state"
where
  "SWTPM_NVRAM_LinearFile_DoOpenURI ts m uri =
     (if fd_open m then (TPM_SUCCESS, m)
      else case m_next m of (ok, m1) \<Rightarrow>
        if \<not> ok then (TPM_FAIL, m1)
        else
          let m2 = m1\<lparr>fd_open := True\<rparr> in
          if g_tpmstate_mode_is_default ts then (TPM_SUCCESS, m2)
          else case m_next m2 of (ok2, m3) \<Rightarrow>
            if \<not> ok2 then (TPM_FAIL, close_fd m3) else (TPM_SUCCESS, m3))"

definition SWTPM_NVRAM_LinearFile_Open ::
  "tpmstate \<Rightarrow> mmap_state \<Rightarrow> string \<Rightarrow> (TPM_RESULT + bytes \<times> u32) \<times> mmap_state"
where
  "SWTPM_NVRAM_LinearFile_Open ts m uri =
     (if mapped m then (Inl TPM_FAIL, m)
      else case SWTPM_NVRAM_LinearFile_DoOpenURI ts m uri of (rc, m1) \<Rightarrow>
        if rc \<noteq> 0 then (Inl rc, m1)
        else case SWTPM_NVRAM_LinearFile_Mmap m1 of
          (Inl rc2, m2) \<Rightarrow> (Inl rc2, m2)
        | (Inr d, m2) \<Rightarrow> (Inr (d, msize m2), m2))"

subsection \<open>Writing back, resizing, locking\<close>

text \<open>What \<open>msync\<close> of \<open>count\<close> bytes at \<open>offset\<close> makes of the medium.\<close>

definition sync_range :: "bytes \<Rightarrow> bytes \<Rightarrow> nat \<Rightarrow> nat \<Rightarrow> bytes" where
  "sync_range old d offset count =
     map (\<lambda>i. if offset \<le> i \<and> i < offset + count then d ! i
              else if i < length old then old ! i else 0) [0..<length d]"

definition SWTPM_NVRAM_LinearFile_Flush ::
  "mmap_state \<Rightarrow> bytes \<Rightarrow> u32 \<Rightarrow> u32 \<Rightarrow> TPM_RESULT \<times> mmap_state"
where
  "SWTPM_NVRAM_LinearFile_Flush m d offset count =
     (if \<not> mapped m then (TPM_FAIL, m)
      else if sc_pagesize m < 0 then (TPM_FAIL, m)
      else if sc_pagesize m = 0 \<or> sc_pagesize m > 0xffffffff then (TPM_FAIL, m)
      else
        let pagesize = of_int (sc_pagesize m) :: u32;
            msync_offset = offset AND NOT (pagesize - 1)
        in if unat count + unat (pagesize - 1) \<ge> 2 ^ 32 then (TPM_FAIL, m)
           else
             let msync_count = (count + (pagesize - 1)) AND NOT (pagesize - 1) in
             case m_next m of (ok, m1) \<Rightarrow>
               if \<not> ok then (TPM_FAIL, m1)
               else (0, m1\<lparr>disk := sync_range (disk m1) d (unat msync_offset) (unat msync_count)\<rparr>))"

definition unmap_region :: "mmap_state \<Rightarrow> bytes \<Rightarrow> mmap_state" where
  "unmap_region m d = m\<lparr>ptr_valid := False, file_bytes := d @ drop (length d) (file_bytes m)\<rparr>"

definition SWTPM_NVRAM_LinearFile_Cleanup :: "mmap_state \<Rightarrow> bytes \<Rightarrow> mmap_state" where
  "SWTPM_NVRAM_LinearFile_Cleanup m d =
     (let m1 = (if mapped m
                then (unmap_region (snd (SWTPM_NVRAM_LinearFile_Flush m d 0 (msize m))) d)
                       \<lparr>mapped := False, msize := 0\<rparr>
                else m)
      in if fd_open m1 then close_fd m1 else m1)"

definition SWTPM_NVRAM_LinearFile_Resize ::
  "mmap_state \<Rightarrow> bytes \<Rightarrow> u32 \<Rightarrow> (TPM_RESULT + bytes \<times> u32) \<times> mmap_state"
where
  "SWTPM_NVRAM_LinearFile_Resize m d requested_length =
     (if \<not> mapped m then (Inl TPM_FAIL, m)
      else if can_truncate m then
        (case SWTPM_NVRAM_LinearFile_Flush m d 0 (msize m) of (rc, m1) \<Rightarrow>
           if rc \<noteq> 0 then (Inl rc, m1)
           else case m_next m1 of (ok2, m2) \<Rightarrow>
             if \<not> ok2 then (Inl TPM_FAIL, m2)
             else case m_next (unmap_region m2 d) of (ok3, m3) \<Rightarrow>
               if \<not> ok3 \<and> msize m3 < requested_length then (Inl TPM_FAIL, m3)
               else
                 let m4 = (if ok3 then m3\<lparr>file_bytes :=
                             truncate_to (unat requested_length) (file_bytes m3)\<rparr> else m3)
                 in case SWTPM_NVRAM_LinearFile_Mmap m4 of
                      (Inl rc5, m5) \<Rightarrow> (Inl rc5, m5)
                    | (Inr d', m5) \<Rightarrow> (Inr (d', msize m5), m5))
      else if msize m < requested_length then (Inl TPM_SIZE, m)
      else (Inr (d, msize m), m))"

fun lock_file_retry :: "nat \<Rightarrow> mmap_state \<Rightarrow> bool \<times> mmap_state" where
  "lock_file_retry retries m =
     (case m_next m of (ok, m1) \<Rightarrow>
        if ok then (True, m1\<lparr>flocked := True\<rparr>)
        else case retries of 0 \<Rightarrow> (False, m1) | Suc r \<Rightarrow> lock_file_retry r m1)"

declare lock_file_retry.simps [simp del]

definition SWTPM_NVRAM_LinearFile_Lock ::
  "tpmstate \<Rightarrow> mmap_state \<Rightarrow> bytes \<Rightarrow> string \<Rightarrow> nat \<Rightarrow> TPM_RESULT \<times> mmap_state"
where
  "SWTPM_NVRAM_LinearFile_Lock ts m d uri retries =
     (case SWTPM_NVRAM_LinearFile_DoOpenURI ts m uri of (rc, m1) \<Rightarrow>
        if rc \<noteq> 0 then (rc, m1)
        else case lock_file_retry retries m1 of
          (True, m2) \<Rightarrow> (0, m2)
        | (False, m2) \<Rightarrow> (TPM_FAIL, SWTPM_NVRAM_LinearFile_Cleanup m2 d))"

definition SWTPM_NVRAM_LinearFile_Unlock :: "mmap_state \<Rightarrow> mmap_state" where
  "SWTPM_NVRAM_LinearFile_Unlock m =
     (if \<not> fd_open m then m
      else case m_next m of (ok, m1) \<Rightarrow> if ok then m1\<lparr>flocked := False\<rparr> else m1)"

definition nvram_linear_file_ops :: "mmap_state nvram_linear_store_ops" where
  "nvram_linear_file_ops =
     \<lparr>ls_open = SWTPM_NVRAM_LinearFile_Open, ls_lock = SWTPM_NVRAM_LinearFile_Lock,
      ls_unlock = SWTPM_NVRAM_LinearFile_Unlock, ls_flush = Some SWTPM_NVRAM_LinearFile_Flush,
      ls_resize = Some SWTPM_NVRAM_LinearFile_Resize,
      ls_cleanup = Some SWTPM_NVRAM_LinearFile_Cleanup\<rparr>"

subsection \<open>The contract of a store\<close>

definition file_inv :: "mmap_state \<Rightarrow> nat \<Rightarrow> bool" where
  "file_inv m n \<longleftrightarrow> mapped m \<and> ptr_valid m \<and> unat (msize m) = n"

text \<open>A regular file, no faults ahead and a page size that fits.\<close>

definition file_calm :: "mmap_state \<Rightarrow> nat \<Rightarrow> bool" where
  "file_calm m n \<longleftrightarrow> mfaults m = [] \<and> can_truncate m \<and> kind m = REG \<and>
     0 < sc_pagesize m \<and> sc_pagesize m \<le> 2 ^ 20 \<and> n + 2 ^ 20 \<le> 2 ^ 32"

lemma m_next_same:
  assumes "m_next m = (ok, m')"
  shows "mapped m' = mapped m" "ptr_valid m' = ptr_valid m" "msize m' = msize m" "kind m' = kind m"
    "file_bytes m' = file_bytes m" "sc_pagesize m' = sc_pagesize m" "can_truncate m' = can_truncate m"
    "disk m' = disk m" "fd_open m' = fd_open m" "flocked m' = flocked m"
  using assms by (auto simp: m_next_def split: list.splits)

lemma m_next_calm: "mfaults m = [] \<Longrightarrow> m_next m = (True, m)"
  by (simp add: m_next_def)

lemma truncate_to_prefix:
  "length (truncate_to n d) = n" "k \<le> length d \<Longrightarrow> k \<le> n \<Longrightarrow> take k (truncate_to n d) = take k d"
  by (simp_all add: truncate_to_def min_def)

lemma Flush_same:
  assumes "SWTPM_NVRAM_LinearFile_Flush m d off cnt = (rc, m')"
  shows "mapped m' = mapped m" "ptr_valid m' = ptr_valid m" "msize m' = msize m" "kind m' = kind m"
    "file_bytes m' = file_bytes m" "sc_pagesize m' = sc_pagesize m" "can_truncate m' = can_truncate m"
  using assms
  by (auto simp: SWTPM_NVRAM_LinearFile_Flush_def Let_def m_next_same split: if_splits prod.splits)

lemma Flush_calm:
  assumes "mapped m" "file_calm m n" "unat cnt \<le> n"
    and "SWTPM_NVRAM_LinearFile_Flush m d off cnt = (rc, m')"
  shows "rc = 0 \<and> file_calm m' n"
proof -
  let ?p = "sc_pagesize m"
  have p: "0 < ?p" "?p \<le> 2 ^ 20" "n + 2 ^ 20 \<le> 2 ^ 32" "mfaults m = []"
    using assms(2) by (auto simp: file_calm_def)
  have "unat (of_int ?p - 1 :: u32) = nat ?p - 1"
  proof -
    have "(of_int ?p - 1 :: u32) = of_nat (nat ?p - 1)" using p(1) by (simp add: of_nat_diff)
    moreover have "unat (of_nat (nat ?p - 1) :: u32) = nat ?p - 1"
      by (rule unat_of_nat_u32) (use p in simp)
    ultimately show ?thesis by simp
  qed
  then have "unat cnt + unat (of_int ?p - 1 :: u32) < 2 ^ 32" using p assms(3) by simp
  then show ?thesis using assms(1,2,4) p
    by (auto simp: SWTPM_NVRAM_LinearFile_Flush_def Let_def m_next_calm file_calm_def)
qed

lemma mmap_map_region:
  assumes "mmap_map m = (Inr d, m')"
  shows "mapped m'" "ptr_valid m'" "msize m' = msize m" "d = take (unat (msize m)) (file_bytes m)"
  using assms by (auto simp: mmap_map_def mmap_fail_def m_next_same split: prod.splits if_splits)

lemma Mmap_region:
  assumes "SWTPM_NVRAM_LinearFile_Mmap m = (Inr d, m')"
  shows "mapped m'" "ptr_valid m'"
    and "\<exists>fb. (fb = file_bytes m \<or> length (file_bytes m) < sizeof_linear_hdr \<and>
           fb = truncate_to sizeof_linear_hdr (file_bytes m)) \<and>
         d = take (unat (msize m')) fb \<and> unat (msize m') \<le> length fb"
proof -
  have le: "unat (of_nat k :: u32) \<le> k" for k :: nat
    by (simp add: unat_of_nat take_bit_nat_less_eq_self)
  obtain ok1 m1 where n1: "m_next m = (ok1, m1)" by fastforce
  obtain ok2 m2 where n2: "m_next m1 = (ok2, m2)" by fastforce
  let ?t = "m2\<lparr>file_bytes := truncate_to sizeof_linear_hdr (file_bytes m2)\<rparr>"
  obtain ok3 m3 where n3: "m_next ?t = (ok3, m3)" by fastforce
  note same = m_next_same [OF n1] m_next_same [OF n2]
  have fb3: "file_bytes m3 = truncate_to sizeof_linear_hdr (file_bytes m)"
    using m_next_same(5) [OF n3] same by simp
  have "\<exists>m4. mmap_map m4 = (Inr d, m') \<and> unat (msize m4) \<le> length (file_bytes m4) \<and>
      (file_bytes m4 = file_bytes m \<or> length (file_bytes m) < sizeof_linear_hdr \<and>
         file_bytes m4 = truncate_to sizeof_linear_hdr (file_bytes m))"
  proof (cases "kind m1 = BLK")
    case True
    then have "mmap_map (m2\<lparr>msize := of_nat (length (file_bytes m2)), can_truncate := False\<rparr>) = (Inr d, m')"
      using assms n1 n2
      by (auto simp: SWTPM_NVRAM_LinearFile_Mmap_def mmap_fail_def Let_def split: if_splits)
    then show ?thesis using le same by fastforce
  next
    case nb: False
    show ?thesis
    proof (cases "length (file_bytes m1) \<ge> sizeof_linear_hdr")
      case True
      then have "mmap_map (m1\<lparr>msize := of_nat (length (file_bytes m1)), can_truncate := True\<rparr>) = (Inr d, m')"
        using assms n1 nb
        by (auto simp: SWTPM_NVRAM_LinearFile_Mmap_def mmap_fail_def Let_def split: if_splits)
      then show ?thesis using le same by fastforce
    next
      case False
      then have "mmap_map (m3\<lparr>msize := of_nat (length (file_bytes m3)), can_truncate := True\<rparr>) = (Inr d, m')"
        using assms n1 n2 n3 nb
        by (auto simp: SWTPM_NVRAM_LinearFile_Mmap_def mmap_fail_def Let_def split: if_splits)
      then show ?thesis using le same fb3 False by fastforce
    qed
  qed
  then obtain m4 where m4: "mmap_map m4 = (Inr d, m')" "unat (msize m4) \<le> length (file_bytes m4)"
    "file_bytes m4 = file_bytes m \<or> length (file_bytes m) < sizeof_linear_hdr \<and>
       file_bytes m4 = truncate_to sizeof_linear_hdr (file_bytes m)" by blast
  note mr = mmap_map_region [OF m4(1)]
  show "mapped m'" "ptr_valid m'" using mr by simp_all
  show "\<exists>fb. (fb = file_bytes m \<or> length (file_bytes m) < sizeof_linear_hdr \<and>
           fb = truncate_to sizeof_linear_hdr (file_bytes m)) \<and>
         d = take (unat (msize m')) fb \<and> unat (msize m') \<le> length fb"
    using m4(2,3) mr(3,4) by (intro exI [of _ "file_bytes m4"]) simp
qed

lemma Mmap_err: "SWTPM_NVRAM_LinearFile_Mmap m = (Inl rc, m') \<Longrightarrow> rc = TPM_FAIL"
  by (auto simp: SWTPM_NVRAM_LinearFile_Mmap_def mmap_map_def mmap_fail_def Let_def
      split: if_splits prod.splits)
lemma Resize_ok:
  assumes "file_inv m (length d)" "192 \<le> unat req"
    and "SWTPM_NVRAM_LinearFile_Resize m d req = (Inr (d', res), m')"
  shows "file_inv m' (length d') \<and> unat res = length d' \<and>
    take (min (length d) (length d')) d' = take (min (length d) (length d')) d"
proof (cases "can_truncate m")
  case False
  then show ?thesis using assms by (auto simp: SWTPM_NVRAM_LinearFile_Resize_def file_inv_def split: if_splits)
next
  case True
  have mp: "mapped m" using assms(1) by (simp add: file_inv_def)
  obtain rc m1 where f: "SWTPM_NVRAM_LinearFile_Flush m d 0 (msize m) = (rc, m1)" by fastforce
  obtain ok2 m2 where n2: "m_next m1 = (ok2, m2)" by fastforce
  obtain ok3 m3 where n3: "m_next (unmap_region m2 d) = (ok3, m3)" by fastforce
  define m4 where "m4 = (if ok3 then m3\<lparr>file_bytes := truncate_to (unat req) (file_bytes m3)\<rparr> else m3)"
  have mm: "SWTPM_NVRAM_LinearFile_Mmap m4 = (Inr d', m')" and res: "res = msize m'"
    using assms(3) mp True f n2 n3
    by (auto simp: SWTPM_NVRAM_LinearFile_Resize_def Let_def m4_def [symmetric]
        split: if_splits prod.splits sum.splits)
  have fb3: "take k (file_bytes m3) = take k d" "length d \<le> length (file_bytes m3)"
    if "k \<le> length d" for k
    using m_next_same(5) [OF n3] that by (simp_all add: unmap_region_def)
  have fb4: "take k (file_bytes m4) = take k d" if "k \<le> length d" "k \<le> length (file_bytes m4)" for k
    using fb3 [OF that(1)] that truncate_to_prefix [of "unat req" "file_bytes m3"]
      truncate_to_prefix(2) [of k "file_bytes m3" "unat req"]
    by (auto simp: m4_def split: if_splits)
  note mr = Mmap_region [OF mm]
  obtain fb where fb: "fb = file_bytes m4 \<or> length (file_bytes m4) < 192 \<and>
      fb = truncate_to 192 (file_bytes m4)" "d' = take (unat (msize m')) fb" "unat (msize m') \<le> length fb"
    using mr(3) by blast
  have len: "length d' = unat (msize m')" using fb(2,3) by simp
  have short: "length d \<le> length (file_bytes m4) \<or> length (file_bytes m4) = unat req"
    using fb3(2) [OF order_refl] truncate_to_prefix(1) [of "unat req" "file_bytes m3"] by (auto simp: m4_def)
  show ?thesis
  proof (intro conjI)
    show "file_inv m' (length d')" using mr len by (simp add: file_inv_def)
    show "unat res = length d'" using res len by simp
    let ?k = "min (length d) (length d')"
    have "take ?k d' = take ?k fb" using fb(2) len by (simp add: min_def)
    also have "\<dots> = take ?k d"
    proof (cases "fb = file_bytes m4")
      case True
      then show ?thesis using fb4 [of ?k] len fb(3) by simp
    next
      case False
      then have "length (file_bytes m4) < 192" "fb = truncate_to 192 (file_bytes m4)"
        "length d \<le> length (file_bytes m4)" using fb(1) short assms(2) by auto
      then show ?thesis using truncate_to_prefix(2) [of ?k "file_bytes m4" 192] fb4 [of ?k] by simp
    qed
    finally show "take ?k d' = take ?k d" .
  qed
qed

lemma Resize_calm:
  assumes "file_inv m (length d)" "file_calm m (length d)" "192 \<le> unat req"
    and "unat req \<le> max (length d) max_region"
  shows "\<exists>d' res m'. SWTPM_NVRAM_LinearFile_Resize m d req = (Inr (d', res), m') \<and> req \<le> res \<and>
    file_calm m' (length d')"
proof -
  have mp: "mapped m" and sz: "unat (msize m) \<le> length d" using assms(1) by (simp_all add: file_inv_def)
  obtain rc m1 where f: "SWTPM_NVRAM_LinearFile_Flush m d 0 (msize m) = (rc, m1)" by fastforce
  note fc = Flush_calm [OF mp assms(2) sz f]
  have c1: "mfaults m1 = []" "kind m1 = REG" "can_truncate m1" "0 < sc_pagesize m1"
    "sc_pagesize m1 \<le> 2 ^ 20" using fc by (auto simp: file_calm_def)
  let ?m3 = "unmap_region m1 d"
  let ?fb = "truncate_to (unat req) (file_bytes ?m3)"
  have l: "length ?fb = unat req" by (rule truncate_to_prefix(1))
  have mm: "SWTPM_NVRAM_LinearFile_Mmap (?m3\<lparr>file_bytes := ?fb\<rparr>) =
      (Inr ?fb, ?m3\<lparr>file_bytes := ?fb, msize := req, can_truncate := True, mapped := True, ptr_valid := True\<rparr>)"
    using c1 l assms(3)
    by (auto simp: SWTPM_NVRAM_LinearFile_Mmap_def mmap_map_def m_next_def unmap_region_def Let_def)
  have "SWTPM_NVRAM_LinearFile_Resize m d req =
      (Inr (?fb, req), ?m3\<lparr>file_bytes := ?fb, msize := req, can_truncate := True, mapped := True, ptr_valid := True\<rparr>)"
    using mp assms(2) f fc c1 mm
    by (simp add: SWTPM_NVRAM_LinearFile_Resize_def m_next_def unmap_region_def file_calm_def)
  moreover have "unat req + 2 ^ 20 \<le> 2 ^ 32" using assms(2,4) by (simp add: file_calm_def max_def split: if_splits)
  ultimately show ?thesis using c1 l by (simp add: file_calm_def unmap_region_def)
qed

lemma Flush_rc: "SWTPM_NVRAM_LinearFile_Flush m d off cnt = (rc, m') \<Longrightarrow> rc = 0 \<or> rc = TPM_FAIL"
  by (auto simp: SWTPM_NVRAM_LinearFile_Flush_def Let_def split: if_splits prod.splits)

lemma Resize_err:
  assumes "SWTPM_NVRAM_LinearFile_Resize m d req = (Inl rc, m')"
  shows "rc \<noteq> 0"
  using assms Mmap_err
  by (fastforce simp: SWTPM_NVRAM_LinearFile_Resize_def Let_def split: if_splits prod.splits sum.splits)

interpretation fs: linear_store nvram_linear_file_ops file_inv file_calm
proof unfold_locales
  fix rz m d req d' res m' rc fl off cnt
  show "ls_resize nvram_linear_file_ops = Some rz \<Longrightarrow> file_inv m (length d) \<Longrightarrow> 192 \<le> unat req \<Longrightarrow>
       rz m d req = (Inr (d', res), m') \<Longrightarrow>
       file_inv m' (length d') \<and> unat res = length d' \<and>
       take (min (length d) (length d')) d' = take (min (length d) (length d')) d"
    using Resize_ok [of m d req d' res m'] by (simp add: nvram_linear_file_ops_def)
  show "ls_resize nvram_linear_file_ops = Some rz \<Longrightarrow> rz m d req = (Inl rc, m') \<Longrightarrow> rc \<noteq> 0"
    using Resize_err [of m d req rc m'] by (simp add: nvram_linear_file_ops_def)
  show "file_inv m (length d) \<Longrightarrow> file_calm m (length d) \<Longrightarrow> 192 \<le> unat req \<Longrightarrow>
       unat req \<le> max (length d) max_region \<Longrightarrow>
       \<exists>rz d' res m'. ls_resize nvram_linear_file_ops = Some rz \<and> rz m d req = (Inr (d', res), m') \<and>
         req \<le> res \<and> file_calm m' (length d')"
    using Resize_calm by (simp add: nvram_linear_file_ops_def)
  show "ls_flush nvram_linear_file_ops = Some fl \<Longrightarrow> file_inv m (length d) \<Longrightarrow>
       fl m d off cnt = (0, m') \<Longrightarrow> file_inv m' (length d)"
    using Flush_same(1-3) [of m d off cnt 0 m'] by (auto simp: nvram_linear_file_ops_def file_inv_def)
  show "ls_flush nvram_linear_file_ops = Some fl \<Longrightarrow> file_inv m (length d) \<Longrightarrow> file_calm m (length d) \<Longrightarrow>
       unat off + unat cnt \<le> length d \<Longrightarrow> fl m d off cnt = (rc, m') \<Longrightarrow>
       rc = 0 \<and> file_calm m' (length d)"
    using Flush_calm [of m "length d" cnt d off rc m'] by (auto simp: nvram_linear_file_ops_def file_inv_def)
qed

subsection \<open>A fresh store\<close>

lemma of_le_zeros [simp]: "of_le (replicate n 0) = 0"
  by (induction n) simp_all

lemma format_header_layout:
  assumes "192 \<le> length d" "length d < 2 ^ 32"
  shows "layout_ok (format_header d) (length d)" "length (format_header d) = length d"
    and "\<And>i. i < 15 \<Longrightarrow> f_offset (format_header d) i = 0"
    and "hdr_magic (format_header d) = SWTPM_NVSTORE_LINEAR_MAGIC"
    and "hdr_version (format_header d) = SWTPM_NVSTORE_LINEAR_VERSION"
proof -
  let ?a = "(mem_write d 0 (htole64 SWTPM_NVSTORE_LINEAR_MAGIC))[8 := SWTPM_NVSTORE_LINEAR_VERSION]"
  let ?b = "mem_write ?a 10 (htole16 (of_nat 192))"
  let ?z = "replicate (12 * 15) (0 :: byte)"
  have f: "format_header d = mem_write ?b 12 ?z" by (simp add: format_header_def)
  have l8: "length (htole64 SWTPM_NVSTORE_LINEAR_MAGIC) = 8" "length (htole16 (of_nat 192)) = 2"
    by (simp_all add: endian_defs)
  have la: "length ?a = length d" using assms(1) l8 by simp
  have lb: "length ?b = length d" using assms(1) l8 la by simp
  show len: "length (format_header d) = length d" unfolding f using lb assms(1) by simp
  have z: "hdr_file (format_header d) i k = 0" if "i < 15" "k < 3" for i k
  proof -
    have "mem_read (format_header d) (12 + (12 * i + 4 * k)) 4 = mem_read ?z (12 * i + 4 * k) 4"
      unfolding f by (rule mem_read_write_inside) (use lb assms(1) that in simp_all)
    also have "\<dots> = replicate 4 0" using that by (simp add: mem_read_def)
    finally show ?thesis by (simp add: hdr_file_def endian_defs add.assoc)
  qed
  then show "\<And>i. i < 15 \<Longrightarrow> f_offset (format_header d) i = 0" by simp
  have "mem_read (format_header d) 10 2 = mem_read ?b 10 2"
    unfolding f by (rule mem_read_write_before) (use lb assms(1) in simp_all)
  also have "\<dots> = htole16 (of_nat 192)"
    using mem_read_write_same [of 10 ?a "htole16 (of_nat 192)"] la assms(1) l8 by simp
  finally have hs: "hdr_hdrsize (format_header d) = 192" by (simp add: hdr_hdrsize_def)
  show "layout_ok (format_header d) (length d)"
    using assms len hs z by (intro layout_introI) simp_all
  have "mem_read (format_header d) 0 8 = mem_read ?b 0 8"
    unfolding f by (rule mem_read_write_before) (use lb assms(1) in simp_all)
  also have "\<dots> = mem_read ?a 0 8" by (rule mem_read_write_before) (use la assms(1) in simp_all)
  also have "\<dots> = htole64 SWTPM_NVSTORE_LINEAR_MAGIC"
    using l8 by (simp add: mem_write_def)
  finally show "hdr_magic (format_header d) = SWTPM_NVSTORE_LINEAR_MAGIC" by (simp add: hdr_magic_def)
  have "mem_write x off w ! 8 = x ! 8" if "8 < off" "off \<le> length x" for x w and off :: nat
    using that by (simp add: mem_write_def nth_append)
  then show "hdr_version (format_header d) = SWTPM_NVSTORE_LINEAR_VERSION"
    using lb la assms(1) l8 unfolding f by (simp add: hdr_version_def)
qed

text \<open>Preparing the backend on an empty regular file.\<close>

lemma prepare_fresh:
  assumes "\<not> g_tpmstate_make_backup ts" "\<not> g_tpmstate_do_fsync ts"
    and "\<not> initialized s" "\<forall>n. alloc_ok s n" "store s = m" "\<not> mapped m" "mfaults m = []"
    and "kind m = REG" "file_bytes m = []" "0 < sc_pagesize m" "sc_pagesize m \<le> 2 ^ 20"
  obtains s' where "SWTPM_NVRAM_Prepare_Linear nvram_linear_file_ops ts s uri = (0, s')"
    and "fs.lin_inv ts s'" "fs.lin_calm s'" "initialized s'"
    and "\<And>n name. state_name name \<Longrightarrow> fs.lin_content ts s' n name = None"
proof -
  let ?d = "truncate_to 192 []" and ?h = "format_header (truncate_to 192 [])"
  have d: "?d = replicate 192 0" by (simp add: truncate_to_def)
  have ld: "192 \<le> length ?d" "length ?d < 2 ^ 32" by (simp_all add: d)
  note fh = format_header_layout [OF ld]
  let ?m1 = "m\<lparr>fd_open := True, file_bytes := ?d, msize := 192, can_truncate := True, mapped := True,
      ptr_valid := True\<rparr>"
  have op: "SWTPM_NVRAM_LinearFile_Open ts m uri = (Inr (?d, 192), ?m1)"
    using assms(6-9)
    by (auto simp: SWTPM_NVRAM_LinearFile_Open_def SWTPM_NVRAM_LinearFile_DoOpenURI_def m_next_def
        SWTPM_NVRAM_LinearFile_Mmap_def mmap_map_def Let_def d)
  have mg: "hdr_magic ?d \<noteq> SWTPM_NVSTORE_LINEAR_MAGIC"
    unfolding d by (simp add: hdr_magic_def endian_defs)
  let ?s1 = "s\<lparr>loaded_uri := Some uri, store := ?m1, slength := 192, sdata := ?h\<rparr>"
  have i1: "fs.lin_inv ts ?s1" using fh(1,2) by (simp add: fs.lin_inv_def file_inv_def d)
  have c1: "fs.lin_calm ?s1" using fh(2) assms(4,7,8,10,11) by (simp add: fs.lin_calm_def file_calm_def d)
  obtain rc s2 where fl: "store_flush nvram_linear_file_ops ?s1 0 192 = (rc, s2)" by fastforce
  have b: "unat (0 :: u32) + unat (192 :: u32) \<le> length (sdata ?s1)" using fh(2) by (simp add: d)
  note so = fs.store_flush_ok [OF i1 fl]
  have rc: "rc = 0" "fs.lin_calm s2" using so(3) [OF c1 b] by simp_all
  have "SWTPM_NVRAM_Linear_FlushHeader nvram_linear_file_ops ?s1 = (rc, s2)"
    using fl fh(1) fs.FlushHeader_eq [of ?s1] by simp
  then have pr: "SWTPM_NVRAM_Prepare_Linear nvram_linear_file_ops ts s uri = (0, s2\<lparr>initialized := True\<rparr>)"
    using assms(1-5) op mg
    by (simp add: SWTPM_NVRAM_Prepare_Linear_def Let_def nvram_linear_file_ops_def)
  show ?thesis
  proof (rule that [OF pr])
    show "fs.lin_inv ts (s2\<lparr>initialized := True\<rparr>)" "fs.lin_calm (s2\<lparr>initialized := True\<rparr>)"
      using so(1) rc by (simp_all add: fs.lin_inv_def fs.lin_calm_def)
    show "fs.lin_content ts (s2\<lparr>initialized := True\<rparr>) n name = None" if "state_name name" for n name
      using fh(3) so(2) fs.GetFileNr_state_name(2) [OF that]
      by (simp add: fs.lin_content_def file_blob_def)
  qed simp
qed

subsection \<open>What a flush covers\<close>

lemma unat_and_not_mask:
  fixes x :: u32
  shows "unat (x AND NOT (mask k)) = unat x - unat x mod 2 ^ k"
proof -
  have "unat (x AND NOT (mask k)) = push_bit k (drop_bit k (unat x))"
    by (rule bit_eqI) (auto simp: bit_unsigned_iff bit_and_iff bit_not_iff bit_mask_iff
        bit_push_bit_iff bit_drop_bit_eq dest: bit_imp_le_length)
  moreover have "push_bit k (drop_bit k (unat x)) + unat x mod 2 ^ k = unat x"
    using bits_ident [of k "unat x"] by (simp add: take_bit_eq_mod)
  ultimately show ?thesis by linarith
qed

definition round_up :: "nat \<Rightarrow> nat \<Rightarrow> nat" where
  "round_up p n = (n + (p - 1)) - (n + (p - 1)) mod p"

lemma round_up_ge: "0 < p \<Longrightarrow> n \<le> round_up p n"
proof -
  assume p: "0 < p"
  then have "(n + (p - 1)) mod p \<le> p - 1" using mod_less_divisor [OF p, of "n + (p - 1)"] by linarith
  then show ?thesis by (simp add: round_up_def)
qed

text \<open>A successful flush writes whole pages: from the page of the offset, as many as the count fills.\<close>

lemma Flush_disk:
  assumes "SWTPM_NVRAM_LinearFile_Flush m d off cnt = (0, m')" "sc_pagesize m = 2 ^ k" "k < 32"
  shows "disk m' = sync_range (disk m) d (unat off - unat off mod 2 ^ k) (round_up (2 ^ k) (unat cnt))"
proof -
  have p: "of_int (sc_pagesize m) - 1 = (mask k :: u32)" using assms(2) by (simp add: mask_eq_exp_minus_1)
  have um: "unat (mask k :: u32) = 2 ^ k - 1"
  proof -
    have "(2 :: nat) ^ k \<le> 2 ^ 31" using assms(3) by (intro power_increasing) simp_all
    then have "unat (of_nat (2 ^ k - 1) :: u32) = 2 ^ k - 1" by (intro unat_of_nat_u32) simp
    then show ?thesis by (simp add: mask_eq_exp_minus_1 of_nat_diff)
  qed
  have ok: "unat cnt + unat (mask k :: u32) < 2 ^ 32"
    and m': "disk m' = sync_range (disk m) d (unat (off AND NOT (mask k)))
       (unat ((cnt + mask k) AND NOT (mask k)))"
    using assms(1) by (auto simp: SWTPM_NVRAM_LinearFile_Flush_def Let_def p m_next_same
        split: if_splits prod.splits)
  have "unat (cnt + mask k) = unat cnt + (2 ^ k - 1)" using unat_add_u32 [OF ok] um by simp
  then show ?thesis using m' by (simp add: unat_and_not_mask round_up_def)
qed

lemma sync_range_nth:
  "i < length d \<Longrightarrow> sync_range old d off cnt ! i =
     (if off \<le> i \<and> i < off + cnt then d ! i else if i < length old then old ! i else 0)"
  by (simp add: sync_range_def)

lemma length_sync_range [simp]: "length (sync_range old d off cnt) = length d"
  by (simp add: sync_range_def)

text \<open>
  After a successful flush of the whole region (as the backend requests after it moved
  data) the medium holds exactly the region.
\<close>

theorem flush_all_durable:
  assumes "SWTPM_NVRAM_LinearFile_Flush m d 0 (of_nat (length d)) = (0, m')"
    and "sc_pagesize m = 2 ^ k" "k < 32" "length d < 2 ^ 32"
  shows "disk m' = d"
proof -
  have "length d \<le> round_up (2 ^ k) (length d)" by (rule round_up_ge) simp
  then show ?thesis
    using Flush_disk [OF assms(1-3)] assms(4) by (auto intro!: nth_equalityI simp: sync_range_nth)
qed

definition example_mapping :: "nat \<Rightarrow> mmap_state" where
  "example_mapping n =
     \<lparr>mapped = True, fd_open = True, flocked = True, ptr_valid = True, can_truncate = True,
      msize = of_nat n, kind = REG, file_bytes = replicate n 0, disk = replicate n 0, mfaults = [],
      sc_pagesize = 4096\<rparr>"

lemma example_flush:
  "unat cnt + 4095 < 2 ^ 32 \<Longrightarrow>
   fst (SWTPM_NVRAM_LinearFile_Flush (example_mapping n) d off cnt) = 0"
  by (simp add: SWTPM_NVRAM_LinearFile_Flush_def example_mapping_def Let_def m_next_def)

theorem flush_all_durable_witness:
  "fst (SWTPM_NVRAM_LinearFile_Flush (example_mapping 5000) (replicate 5000 7) 0 5000) = 0 \<and>
   disk (snd (SWTPM_NVRAM_LinearFile_Flush (example_mapping 5000) (replicate 5000 7) 0 5000)) =
     replicate 5000 7"
  using flush_all_durable [of "example_mapping 5000" "replicate 5000 7"
      "snd (SWTPM_NVRAM_LinearFile_Flush (example_mapping 5000) (replicate 5000 7) 0 5000)" 12]
    example_flush [of 5000 5000 "replicate 5000 7" 0]
  by (simp add: prod_eq_iff) (simp add: example_mapping_def)

text \<open>
  A flush of a part of the region covers the requested bytes exactly when the offset
  within its page plus the count does not exceed the count rounded up to pages: the offset is
  rounded down, but the count is not extended by what that adds.
\<close>

theorem flush_covers_iff:
  assumes "SWTPM_NVRAM_LinearFile_Flush m d off cnt = (0, m')"
    and "sc_pagesize m = 2 ^ k" "k < 32" "0 < unat cnt" "unat off + unat cnt \<le> length d"
    and "length (disk m) = length d" "\<forall>i<length d. disk m ! i \<noteq> d ! i"
  shows "(\<forall>i. unat off \<le> i \<and> i < unat off + unat cnt \<longrightarrow> disk m' ! i = d ! i) \<longleftrightarrow>
    unat off mod 2 ^ k + unat cnt \<le> round_up (2 ^ k) (unat cnt)"
proof -
  let ?o = "unat off" and ?c = "unat cnt" and ?r = "round_up (2 ^ k) (unat cnt)"
  let ?b = "unat off - unat off mod 2 ^ k"
  note D = Flush_disk [OF assms(1-3)]
  have b: "?b \<le> ?o" "?o = ?b + ?o mod 2 ^ k" by simp_all
  have n: "disk m' ! i = d ! i \<longleftrightarrow> ?b \<le> i \<and> i < ?b + ?r" if "i < length d" for i
    using that assms(6,7) by (auto simp: D sync_range_nth)
  show ?thesis
  proof
    assume a: "\<forall>i. ?o \<le> i \<and> i < ?o + ?c \<longrightarrow> disk m' ! i = d ! i"
    have last: "?o + ?c - 1 < length d" "?o \<le> ?o + ?c - 1" "?o + ?c - 1 < ?o + ?c"
      using assms(4,5) by simp_all
    then have "?o + ?c - 1 < ?b + ?r" using a n [OF last(1)] by blast
    then show "?o mod 2 ^ k + ?c \<le> ?r" using b assms(4) by linarith
  next
    assume "?o mod 2 ^ k + ?c \<le> ?r"
    then have le: "?o + ?c \<le> ?b + ?r" using b by linarith
    show "\<forall>i. ?o \<le> i \<and> i < ?o + ?c \<longrightarrow> disk m' ! i = d ! i"
    proof (intro allI impI)
      fix i assume i: "?o \<le> i \<and> i < ?o + ?c"
      then have "i < length d" "?b \<le> i" "i < ?b + ?r" using assms(5) b(1) le by linarith+
      then show "disk m' ! i = d ! i" using n by blast
    qed
  qed
qed

theorem flush_covers_iff_witness:
  "let r = SWTPM_NVRAM_LinearFile_Flush (example_mapping 8192) (replicate 8192 7) 4000 200 in
   fst r = 0 \<and> \<not> (\<forall>i. 4000 \<le> i \<and> i < 4200 \<longrightarrow> disk (snd r) ! i = replicate 8192 7 ! i)"
proof -
  let ?r = "SWTPM_NVRAM_LinearFile_Flush (example_mapping 8192) (replicate 8192 7) 4000 200"
  have z: "fst ?r = 0" by (rule example_flush) simp
  then have e: "?r = (0, snd ?r)" by (metis prod.collapse)
  have "sc_pagesize (example_mapping 8192) = 2 ^ 12" "length (disk (example_mapping 8192)) = 8192"
    "\<forall>i<8192. disk (example_mapping 8192) ! i \<noteq> (replicate 8192 7 :: bytes) ! i"
    by (simp_all add: example_mapping_def)
  from flush_covers_iff [OF e this(1)] this(2,3) z show ?thesis by (simp add: round_up_def)
qed

end
