(* ===== verification/LinearSafety.thy ===== *)
theory LinearSafety
  imports LinearFile
begin

section \<open>Safety of the linear format over the file store\<close>

text \<open>
  What the layout invariant of \<^verbatim>\<open>LinearLayout\<close> gives for the operations of
  src/src/swtpm/swtpm_nvstore_linear.c when they run over the memory-mapped file of
  \<^verbatim>\<open>LinearFile\<close>: rounding, compaction, storing, and two paths where the code gives
  up data or a bound.
\<close>

subsection \<open>Properties of the linear format\<close>

text \<open>
  \<open>ROUND_TO_NEXT_POWER_OF_2_32\<close> gives, for 1 up to \<open>2 ^ 31\<close>, the least power of two that is not
  below its argument; for 0 and for everything above \<open>2 ^ 31\<close> the result is 0.
\<close>

theorem round_power_of_two:
  "if 0 < a \<and> a \<le> 2 ^ 31
   then \<exists>k. unat (ROUND_TO_NEXT_POWER_OF_2_32 a) = 2 ^ k \<and> unat a \<le> 2 ^ k \<and> (\<forall>j. unat a \<le> 2 ^ j \<longrightarrow> k \<le> j)
   else ROUND_TO_NEXT_POWER_OF_2_32 a = 0"
proof (cases "0 < a \<and> a \<le> 2 ^ 31")
  case True
  then obtain k where "unat (ROUND_TO_NEXT_POWER_OF_2_32 a) = 2 ^ k" "k \<le> 31" "unat a \<le> 2 ^ k"
    "\<And>j. unat a \<le> 2 ^ j \<Longrightarrow> k \<le> j"
    using ROUND_power [of a] by metis
  then show ?thesis using True by auto
next
  case False
  obtain r where r: "smeared 32 (a - 1) r" "ROUND_TO_NEXT_POWER_OF_2_32 a = r + 1" by (rule round_smeared)
  have big: "2 ^ 31 \<le> unat (a - 1)"
  proof (cases "a = 0")
    case a: False
    then have "2 ^ 31 < unat a" using False
      by (auto simp: word_less_nat_alt word_le_nat_alt unat_gt_0)
    then show ?thesis using a by (simp add: unat_minus_one)
  qed (simp add: unsigned_minus_1_eq_mask mask_eq_exp_minus_1)
  then have "a - 1 \<noteq> 0" by (metis not_numeral_le_zero power_eq_0_iff unat_0 le_zero_eq zero_neq_numeral)
  then obtain h where h: "h < 32" "bit (a - 1) h" "\<And>j. h < j \<Longrightarrow> \<not> bit (a - 1) j"
    by (rule highest_bit) metis
  have "(2 :: nat) ^ 31 < 2 ^ Suc h" using word_between_powers(2) [OF h] big by linarith
  then have "31 < Suc h" by (rule power_less_imp_less_exp [rotated]) simp
  then have "h = 31" using h(1) by simp
  then have "r = mask 32" using smeared_mask [OF r(1) h] by simp
  then show ?thesis using False r(2) by (simp add: mask_eq_exp_minus_1)
qed

theorem round_power_of_two_witness:
  "ROUND_TO_NEXT_POWER_OF_2_32 5 = 8 \<and> (\<exists>k. 8 = (2 :: nat) ^ k \<and> (\<forall>j. 5 \<le> (2 :: nat) ^ j \<longrightarrow> k \<le> j))"
proof -
  have "ROUND_TO_NEXT_POWER_OF_2_32 5 = 8" by code_simp
  then show ?thesis using round_power_of_two [of 5] by (auto simp: word_le_nat_alt)
qed

text \<open>
  C11. Removing a file from the region moves the files behind it forward: the layout stays valid
  with a region shorter by the removed section, the removed file is gone, and every other
  file keeps its bytes.
\<close>

theorem compaction_keeps_files:
  assumes "layout_ok d len" "nr < 3" "f_offset d nr \<noteq> 0"
  shows "layout_ok (compact_region d nr) (len - unat (f_section_length d nr)) \<and>
    length (compact_region d nr) = length d \<and> file_blob (compact_region d nr) nr = None \<and>
    (\<forall>i<3. i \<noteq> nr \<longrightarrow> file_blob (compact_region d nr) i = file_blob d i)"
  using compact_layout [OF assms] compact_region_spec [OF assms] assms(2)
  by (auto simp: file_blob_def [of _ nr])

text \<open>
  C10. A successful store into the linear store keeps the layout valid, gives the file exactly the
  stored bytes and no other file other bytes, however the file system behaved on the way.
\<close>

theorem linear_store_keeps_layout:
  assumes "layout_ok (sdata s) (unat (slength s))" "file_inv (store s) (length (sdata s))"
    and "state_name name" "0 < length d" "length d \<le> 2 ^ 30"
    and "SWTPM_NVRAM_StoreData_Linear nvram_linear_file_ops ts s d n name uri f = (0, s')"
  defines "nr \<equiv> unat (SWTPM_NVRAM_Linear_GetFileNr name)"
  shows "layout_ok (sdata s') (unat (slength s')) \<and> file_inv (store s') (length (sdata s')) \<and>
    file_blob (sdata s') nr = Some d \<and> (\<forall>i<3. i \<noteq> nr \<longrightarrow> file_blob (sdata s') i = file_blob (sdata s) i)"
proof -
  have i: "fs.lin_inv ts s" using assms(1,2) by (simp add: fs.lin_inv_def)
  have dd: "fs.lin_data d" using assms(4,5) by (simp add: fs.lin_data_def)
  note ok = fs.StoreData_Linear_ok [OF i assms(3) dd assms(6)]
  show ?thesis using ok(1,2) by (auto simp: fs.lin_inv_def nr_def)
qed

text \<open>
  C37. When a blob has outgrown its section, the old one is removed before space for the new one is
  there: if then the store cannot be enlarged, the call fails and the old blob is lost.
\<close>

theorem failed_growth_loses_blob:
  assumes "layout_ok (sdata s) (unat (slength s))" "state_name name"
    and "nr = unat (SWTPM_NVRAM_Linear_GetFileNr name)" "file_blob (sdata s) nr = Some old"
    and "of_nat (length d) > f_section_length (sdata s) nr"
    and "ls_resize sops = Some rz" "rc \<noteq> 0"
    and "rz (store s) (compact_region (sdata s) nr)
           (alloc_offset (compact_region (sdata s) nr) + ROUND_TO_NEXT_POWER_OF_2_32 (of_nat (length d))) = (Inl rc, m)"
  shows "\<exists>s'. SWTPM_NVRAM_StoreData_Linear sops ts s d n name uri f = (rc, s') \<and>
    file_blob (sdata s') nr = None \<and> (\<forall>i<3. i \<noteq> nr \<longrightarrow> file_blob (sdata s') i = file_blob (sdata s) i)"
proof -
  have nr: "nr < 3" "SWTPM_NVRAM_Linear_GetFileNr name \<noteq> FILE_NR_INVALID"
    using assms(3) fs.GetFileNr_state_name [OF assms(2)] by simp_all
  have o: "f_offset (sdata s) nr \<noteq> 0" using assms(4) by (auto simp: file_blob_def split: if_splits)
  note c = compact_region_spec [OF assms(1) nr(1) o]
  let ?s' = "s\<lparr>sdata := compact_region (sdata s) nr, store := m\<rparr>"
  have "SWTPM_NVRAM_StoreData_Linear sops ts s d n name uri f = (rc, ?s')"
    using assms(3-8) nr o
    by (simp add: SWTPM_NVRAM_StoreData_Linear_def SWTPM_NVRAM_Linear_RemoveFile_def
        SWTPM_NVRAM_Linear_AllocFile_def SWTPM_NVRAM_Linear_SafeResize_def Let_def)
  moreover have "file_blob (compact_region (sdata s) nr) nr = None"
    using c(3) [of nr 0] nr(1) by (simp add: file_blob_def)
  ultimately show ?thesis using c(4) by auto
qed

text \<open>
  The check in front of a load adds offset and length in 32 bits: a file entry whose end is
  beyond \<open>2 ^ 32\<close> passes it when the sum wraps to at most the region's length, although none of its
  bytes at that end is inside the region.
\<close>

theorem load_bound_wraps:
  assumes "state_name name" "nr = unat (SWTPM_NVRAM_Linear_GetFileNr name)"
    and "2 ^ 32 \<le> unat (f_offset (sdata s) nr) + unat (f_data_length (sdata s) nr)"
    and "f_offset (sdata s) nr + f_data_length (sdata s) nr \<le> slength s" "length (sdata s) < 2 ^ 32"
    and "\<forall>k. alloc_ok s k"
  shows "length (sdata s) < unat (f_offset (sdata s) nr) + unat (f_data_length (sdata s) nr) \<and>
    (\<exists>r. fst (SWTPM_NVRAM_LoadData_Linear ts s n name uri) =
       Inr (Some r, unat (f_data_length (sdata s) nr)))"
proof -
  have v: "SWTPM_NVRAM_Linear_GetFileNr name \<noteq> FILE_NR_INVALID"
    by (rule fs.GetFileNr_state_name(1) [OF assms(1)])
  have "f_offset (sdata s) nr \<noteq> 0"
    using assms(3) unsigned_less [of "f_data_length (sdata s) nr", where 'a = nat] by auto
  then show ?thesis
    using assms v by (auto simp: SWTPM_NVRAM_LoadData_Linear_def Let_def)
qed

subsection \<open>Witnesses\<close>

definition fresh_linear :: "mmap_state linear_state" where
  "fresh_linear =
     \<lparr>initialized = False, loaded_uri = None, sdata = [], slength = 0,
      store = (example_mapping 0)\<lparr>mapped := False, fd_open := False, flocked := False, ptr_valid := False\<rparr>,
      alloc_ok = (\<lambda>n. True)\<rparr>"

definition linear_settings :: tpmstate where
  "linear_settings =
     \<lparr>g_backend_uri = Some ''file:///tpm'', env_TPM_PATH = None, g_tpmstate_mode = 416,
      g_tpmstate_mode_is_default = True, g_tpmstate_version = TPMLIB_TPM_VERSION_2,
      g_tpmstate_do_locking = True, g_tpmstate_make_backup = False, g_tpmstate_do_fsync = False\<rparr>"

text \<open>A store on a fresh file, and what it holds.\<close>

lemma example_prepared:
  obtains s where "SWTPM_NVRAM_Prepare_Linear nvram_linear_file_ops linear_settings fresh_linear uri = (0, s)"
    and "fs.lin_inv linear_settings s" "fs.lin_calm s"
proof (rule prepare_fresh [of linear_settings fresh_linear "store fresh_linear" uri])
  fix s'
  assume "SWTPM_NVRAM_Prepare_Linear nvram_linear_file_ops linear_settings fresh_linear uri = (0, s')"
    "fs.lin_inv linear_settings s'" "fs.lin_calm s'"
  then show thesis by (rule that)
qed (simp_all add: linear_settings_def fresh_linear_def example_mapping_def)

lemma example_stored:
  obtains s :: "mmap_state linear_state" where "layout_ok (sdata s) (unat (slength s))" "file_inv (store s) (length (sdata s))"
    and "file_calm (store s) (length (sdata s))" "\<forall>n. alloc_ok s n"
    and "file_blob (sdata s) 0 = Some [1, 2, 3]" "f_offset (sdata s) 0 \<noteq> 0"
proof -
  obtain s :: "mmap_state linear_state" where s: "fs.lin_inv linear_settings s" "fs.lin_calm s" by (metis example_prepared)
  have nm: "state_name TPM_PERMANENT_ALL_NAME" by (simp add: state_name_def)
  have dd: "fs.lin_data [1, 2, 3]" by (simp add: fs.lin_data_def)
  obtain rc s' where st: "SWTPM_NVRAM_StoreData_Linear nvram_linear_file_ops linear_settings s [1, 2, 3] 0
      TPM_PERMANENT_ALL_NAME ''file:///tpm'' False = (rc, s')" by fastforce
  note ok = fs.StoreData_Linear_ok [OF s(1) nm dd st]
  have "rc = 0" "fs.lin_calm s'" using ok(3) s(2) by simp_all
  then show ?thesis using that [of s'] ok(1)
    by (auto simp: fs.lin_inv_def fs.lin_calm_def fs.GetFileNr_values file_blob_def split: if_splits)
qed

theorem compaction_keeps_files_witness:
  "\<exists>d len. layout_ok d len \<and> file_blob d 0 = Some [1, 2, 3] \<and> file_blob (compact_region d 0) 0 = None \<and>
     layout_ok (compact_region d 0) (len - unat (f_section_length d 0))"
proof -
  obtain s :: "mmap_state linear_state" where "layout_ok (sdata s) (unat (slength s))" "file_blob (sdata s) 0 = Some [1, 2, 3]"
    "f_offset (sdata s) 0 \<noteq> 0" by (metis example_stored)
  then show ?thesis using compaction_keeps_files [of "sdata s" "unat (slength s)" 0] by auto
qed

theorem linear_store_keeps_layout_witness:
  "\<exists>s s'. SWTPM_NVRAM_StoreData_Linear nvram_linear_file_ops linear_settings s [9] 0 TPM_SAVESTATE_NAME
       ''file:///tpm'' False = (0, s') \<and> layout_ok (sdata s') (unat (slength s')) \<and>
     file_blob (sdata s') 2 = Some [9] \<and> file_blob (sdata s') 0 = Some [1, 2, 3]"
proof -
  obtain s :: "mmap_state linear_state" where s: "layout_ok (sdata s) (unat (slength s))" "file_inv (store s) (length (sdata s))"
    "file_calm (store s) (length (sdata s))" "\<forall>n. alloc_ok s n" "file_blob (sdata s) 0 = Some [1, 2, 3]"
    by (metis example_stored)
  have i: "fs.lin_inv linear_settings s" "fs.lin_calm s" "fs.lin_data [9]" "state_name TPM_SAVESTATE_NAME"
    using s by (simp_all add: fs.lin_inv_def fs.lin_calm_def fs.lin_data_def state_name_def)
  obtain rc s' where st: "SWTPM_NVRAM_StoreData_Linear nvram_linear_file_ops linear_settings s [9] 0
      TPM_SAVESTATE_NAME ''file:///tpm'' False = (rc, s')" by fastforce
  have "rc = 0" using fs.StoreData_Linear_ok(3) [OF i(1,4,3) st] i(2) by simp
  then have st0: "SWTPM_NVRAM_StoreData_Linear nvram_linear_file_ops linear_settings s [9] 0
      TPM_SAVESTATE_NAME ''file:///tpm'' False = (0, s')" using st by simp
  have "layout_ok (sdata s') (unat (slength s'))" "file_blob (sdata s') 2 = Some [9]"
    "file_blob (sdata s') 0 = Some [1, 2, 3]"
    using linear_store_keeps_layout [OF s(1,2) i(4) _ _ st0] s(5) by (simp_all add: fs.GetFileNr_values)
  then show ?thesis using st0 by blast
qed

definition wrapping_region :: bytes where
  "wrapping_region = set_hdr_file (set_hdr_file (replicate 200 0) 0 0 (2 ^ 32 - 1)) 0 1 2"

theorem load_bound_wraps_witness:
  "\<exists>r. fst (SWTPM_NVRAM_LoadData_Linear linear_settings
      (fresh_linear\<lparr>sdata := wrapping_region, slength := 200\<rparr>) 0 TPM_PERMANENT_ALL_NAME ''file:///tpm'') =
      Inr (Some r, 2)"
proof -
  have h: "f_offset wrapping_region 0 = 2 ^ 32 - 1" "f_data_length wrapping_region 0 = 2" "length wrapping_region = 200"
    by (simp_all add: wrapping_region_def hdr_file_set)
  show ?thesis
    using load_bound_wraps [of TPM_PERMANENT_ALL_NAME 0 "fresh_linear\<lparr>sdata := wrapping_region, slength := 200\<rparr>"
        linear_settings 0 "''file:///tpm''"] h
    by (simp add: state_name_def fs.GetFileNr_values fresh_linear_def word_le_nat_alt)
qed

theorem failed_growth_loses_blob_witness:
  "\<exists>s s'. file_blob (sdata s) 0 = Some [1, 2, 3] \<and>
     SWTPM_NVRAM_StoreData_Linear nvram_linear_file_ops linear_settings s (replicate (2 ^ 30 + 1) 7) 0
       TPM_PERMANENT_ALL_NAME ''file:///tpm'' False = (TPM_FAIL, s') \<and> file_blob (sdata s') 0 = None"
proof -
  obtain s :: "mmap_state linear_state" where s: "layout_ok (sdata s) (unat (slength s))" "file_inv (store s) (length (sdata s))"
    "file_calm (store s) (length (sdata s))" "\<forall>n. alloc_ok s n" "file_blob (sdata s) 0 = Some [1, 2, 3]"
    "f_offset (sdata s) 0 \<noteq> 0"
    by (metis example_stored)
  let ?s = "s\<lparr>store := (store s)\<lparr>mfaults := [Fail]\<rparr>\<rparr>"
  have m: "mapped (store s)" "can_truncate (store s)" using s(2,3) by (auto simp: file_inv_def file_calm_def)
  have fl: "fst (SWTPM_NVRAM_LinearFile_Flush (m0\<lparr>mfaults := [Fail]\<rparr>) d off cnt) = TPM_FAIL" for m0 d off cnt
    by (simp add: SWTPM_NVRAM_LinearFile_Flush_def m_next_def failed_def Let_def split: prod.split)
  have rz: "\<exists>m'. SWTPM_NVRAM_LinearFile_Resize (store ?s) d req = (Inl TPM_FAIL, m')" for d req
    using m fl [of "store s" d 0 "msize (store s)"]
    by (auto simp: SWTPM_NVRAM_LinearFile_Resize_def split: prod.split)
  have "fsl (sdata s) 0 < 2 ^ 30 + 1" using layout_section(4) [OF s(1), of 0] s(6) by simp
  then have big: "of_nat (length (replicate (2 ^ 30 + 1) (7 :: byte))) > f_section_length (sdata s) 0"
    by (simp add: word_less_nat_alt)
  let ?c = "compact_region (sdata s) 0"
  obtain m' where rz': "SWTPM_NVRAM_LinearFile_Resize (store ?s) ?c
      (alloc_offset ?c + ROUND_TO_NEXT_POWER_OF_2_32 (of_nat (length (replicate (2 ^ 30 + 1) (7 :: byte))))) = (Inl TPM_FAIL, m')"
    using rz by blast
  have "\<exists>s'. SWTPM_NVRAM_StoreData_Linear nvram_linear_file_ops linear_settings ?s (replicate (2 ^ 30 + 1) 7) 0
      TPM_PERMANENT_ALL_NAME ''file:///tpm'' False = (TPM_FAIL, s') \<and> file_blob (sdata s') 0 = None \<and>
      (\<forall>i<3. i \<noteq> 0 \<longrightarrow> file_blob (sdata s') i = file_blob (sdata ?s) i)"
    by (rule failed_growth_loses_blob [where rz = SWTPM_NVRAM_LinearFile_Resize and m = m' and old = "[1, 2, 3]"])
      (use s big rz' in \<open>simp_all add: state_name_def fs.GetFileNr_values nvram_linear_file_ops_def\<close>)
  then obtain s' where "SWTPM_NVRAM_StoreData_Linear nvram_linear_file_ops linear_settings ?s (replicate (2 ^ 30 + 1) 7) 0
      TPM_PERMANENT_ALL_NAME ''file:///tpm'' False = (TPM_FAIL, s')" "file_blob (sdata s') 0 = None" by blast
  moreover have "file_blob (sdata ?s) 0 = Some [1, 2, 3]" using s(5) by simp
  ultimately show ?thesis by blast
qed

end
