(* ===== verification/Options.thy ===== *)
theory Options
  imports Prelude
begin

section \<open>Option strings (src/src/swtpm/options.c)\<close>

text \<open>
  The parser for option arguments such as \<open>dir=/tmp,mode=0600,lock\<close>: splitting into tokens with
  JSON maps as values, typed values, and the functions that read them back. A C string is a
  list of characters without NUL; an error message is a value of \<open>option_error\<close>.
\<close>

subsection \<open>Numbers of the C library\<close>

definition isspace :: "char \<Rightarrow> bool" where
  "isspace c \<longleftrightarrow> c \<in> {CHR '' '', CHR 0x09, CHR 0x0A, CHR 0x0B, CHR 0x0C, CHR 0x0D}"

definition char_code :: "char \<Rightarrow> nat" where
  "char_code c = of_char c"

text \<open>The value of a digit of the given base, up to base 16.\<close>

definition digit_value :: "nat \<Rightarrow> char \<Rightarrow> nat option" where
  "digit_value base c =
     (let n = char_code c;
          v = (if 48 \<le> n \<and> n \<le> 57 then n - 48
               else if 97 \<le> n \<and> n \<le> 102 then n - 87
               else if 65 \<le> n \<and> n \<le> 70 then n - 55 else 16)
      in if v < base then Some v else None)"

fun read_digits :: "nat \<Rightarrow> nat \<Rightarrow> string \<Rightarrow> nat \<times> string" where
  "read_digits base acc [] = (acc, [])"
| "read_digits base acc (c # cs) =
     (case digit_value base c of
        None \<Rightarrow> (acc, c # cs)
      | Some v \<Rightarrow> read_digits base (base * acc + v) cs)"

text \<open>
  \<open>strtol\<close> and \<open>strtoul\<close> in base 8 or 10, before they clamp: the number and what follows it, or
  \<open>None\<close> when there are no digits (\<open>endptr\<close> is the argument then).
\<close>

definition strto :: "nat \<Rightarrow> string \<Rightarrow> (int \<times> string) option" where
  "strto base s =
     (let s1 = dropWhile isspace s;
          neg = (s1 \<noteq> [] \<and> hd s1 = CHR ''-'');
          s2 = (if s1 \<noteq> [] \<and> hd s1 \<in> {CHR ''-'', CHR ''+''} then tl s1 else s1)
      in if s2 = [] \<or> digit_value base (hd s2) = None then None
         else case read_digits base 0 s2 of
           (n, rest) \<Rightarrow> Some (if neg then - int n else int n, rest))"

text \<open>\<open>strtol\<close> with \<open>errno\<close>, and \<open>strtoul\<close> on what \<open>option_strtoul\<close> lets through.\<close>

definition strtol :: "nat \<Rightarrow> string \<Rightarrow> (int \<times> bool \<times> string) option" where
  "strtol base s = map_option (\<lambda>(n, rest).
     if n < - (2 ^ 63) then (- (2 ^ 63), True, rest)
     else if n > 2 ^ 63 - 1 then (2 ^ 63 - 1, True, rest)
     else (n, False, rest)) (strto base s)"

definition strtoul :: "nat \<Rightarrow> string \<Rightarrow> (nat \<times> bool \<times> string) option" where
  "strtoul base s = map_option (\<lambda>(n, rest).
     if n > 2 ^ 64 - 1 then (2 ^ 64 - 1, True, rest) else (nat n, False, rest)) (strto base s)"

subsection \<open>Data\<close>

datatype OptionType =
  OPT_TYPE_STRING | OPT_TYPE_INT | OPT_TYPE_UINT | OPT_TYPE_BOOLEAN
| OPT_TYPE_MODE_T | OPT_TYPE_UID_T | OPT_TYPE_GID_T

record OptionDesc =
  d_name :: string
  d_type :: OptionType

datatype option_value =
  OptString string | OptInt int | OptUint u32 | OptBool bool
| OptMode u32 | OptUid u32 | OptGid u32

record OptionValue =
  o_name :: string
  o_value :: option_value

datatype option_error =
  OutOfMemory | NotPositive string | InvalidNumber string | OutsideRange string
| InvalidMode string | NoUser string | NoGroup string
| UnterminatedMap | CharacterAfterMap | UnknownOption string

text \<open>The environment: the user and group databases, and which allocations succeed.\<close>

record option_env =
  getpwnam :: "string \<Rightarrow> u32 option"
  getgrnam :: "string \<Rightarrow> u32 option"
  opt_alloc :: "nat \<Rightarrow> bool"

subsection \<open>Values\<close>

definition option_strtoul :: "string \<Rightarrow> nat \<Rightarrow> option_error + (nat \<times> bool \<times> string) option" where
  "option_strtoul val base =
     (let v = dropWhile isspace val in
      if v \<noteq> [] \<and> hd v = CHR ''-'' then Inl (NotPositive val) else Inr (strtoul base val))"

definition tolower :: "char \<Rightarrow> char" where
  "tolower c = (if 65 \<le> char_code c \<and> char_code c \<le> 90 then char_of (char_code c + 32) else c)"

definition strcaseeq :: "string \<Rightarrow> string \<Rightarrow> bool" where
  "strcaseeq a b \<longleftrightarrow> map tolower a = map tolower b"

text \<open>A user or group: a number, or else a name of the database.\<close>

definition parse_id ::
  "(string \<Rightarrow> u32 option) \<Rightarrow> (string \<Rightarrow> option_error) \<Rightarrow> string \<Rightarrow> option_error + u32"
where
  "parse_id lookup missing val =
     (case option_strtoul val 10 of
        Inl e \<Rightarrow> Inl e
      | Inr (Some (lui, erange, [])) \<Rightarrow>
          if erange \<or> lui > 2 ^ 32 - 1 then Inl (OutsideRange val) else Inr (of_nat lui)
      | Inr _ \<Rightarrow>
          (case lookup val of None \<Rightarrow> Inl (missing val) | Some i \<Rightarrow> Inr i))"

text \<open>The value for one option; \<open>idx\<close> is its index, for the memory it needs.\<close>

definition option_value_parse ::
  "option_env \<Rightarrow> OptionType \<Rightarrow> string \<Rightarrow> option_error + option_value"
where
  "option_value_parse env t val =
     (case t of
        OPT_TYPE_STRING \<Rightarrow> Inr (OptString val)
      | OPT_TYPE_INT \<Rightarrow>
          (case strtol 10 val of
             Some (li, erange, []) \<Rightarrow>
               if erange \<or> li < - (2 ^ 31) \<or> li > 2 ^ 31 - 1 then Inl (OutsideRange val)
               else Inr (OptInt li)
           | _ \<Rightarrow> Inl (InvalidNumber val))
      | OPT_TYPE_UINT \<Rightarrow>
          (case option_strtoul val 10 of
             Inl e \<Rightarrow> Inl e
           | Inr (Some (lui, erange, [])) \<Rightarrow>
               if erange \<or> lui > 2 ^ 32 - 1 then Inl (OutsideRange val)
               else Inr (OptUint (of_nat lui))
           | Inr _ \<Rightarrow> Inl (InvalidNumber val))
      | OPT_TYPE_BOOLEAN \<Rightarrow> Inr (OptBool (strcaseeq val ''true'' \<or> strcaseeq val ''1''))
      | OPT_TYPE_MODE_T \<Rightarrow>
          (case option_strtoul val 8 of
             Inl e \<Rightarrow> Inl e
           | Inr (Some (lui, erange, [])) \<Rightarrow>
               if erange \<or> lui > 511 then Inl (InvalidMode val) else Inr (OptMode (of_nat lui))
           | Inr _ \<Rightarrow> Inl (InvalidMode val))
      | OPT_TYPE_UID_T \<Rightarrow> map_sum id OptUid (parse_id (getpwnam env) NoUser val)
      | OPT_TYPE_GID_T \<Rightarrow> map_sum id OptGid (parse_id (getgrnam env) NoGroup val))"

definition option_value_add ::
  "option_env \<Rightarrow> OptionValue list \<Rightarrow> OptionDesc \<Rightarrow> string \<Rightarrow> option_error + OptionValue list"
where
  "option_value_add env ovs optdesc val =
     (if \<not> opt_alloc env (length ovs) then Inl OutOfMemory
      else case option_value_parse env (d_type optdesc) val of
        Inl e \<Rightarrow> Inl e
      | Inr v \<Rightarrow> Inr (ovs @ [\<lparr>o_name = d_name optdesc, o_value = v\<rparr>]))"

subsection \<open>Tokens\<close>

definition strchr :: "string \<Rightarrow> char \<Rightarrow> nat option" where
  "strchr s c = (if c \<in> set s then Some (length (takeWhile (\<lambda>x. x \<noteq> c) s)) else None)"

text \<open>
  The index of the brace that closes a map at depth \<open>depth\<close>.
\<close>

fun map_end :: "nat \<Rightarrow> string \<Rightarrow> nat option" where
  "map_end depth [] = None"
| "map_end depth (x # xs) =
     (if x = CHR ''{'' then map_option Suc (map_end (depth + 1) xs)
      else if x = CHR ''}'' then
        (if depth = 1 then Some 0 else map_option Suc (map_end (depth - 1) xs))
      else map_option Suc (map_end depth xs))"

text \<open>
  One token and what is left after its comma (\<open>*saveptr\<close>, \<open>None\<close> for NULL). The comparison
  \<open>equals > comma\<close> is one of addresses, so without a comma (NULL) \<open>equals\<close> is dropped.
\<close>

definition option_parse_token :: "string \<Rightarrow> option_error + (string \<times> string option)" where
  "option_parse_token str =
     (let comma = strchr str (CHR '','');
          equals = (case (strchr str (CHR ''=''), comma) of
                      (Some e, Some c) \<Rightarrow> if e > c then None else Some e
                    | _ \<Rightarrow> None)
      in case equals of
           Some e \<Rightarrow>
             if e + 1 < length str \<and> str ! (e + 1) = CHR ''{'' then
               (case map_end 1 (drop (e + 2) str) of
                  None \<Rightarrow> Inl UnterminatedMap
                | Some k \<Rightarrow>
                    let eom = e + 2 + k in
                    if eom + 1 = length str then Inr (str, None)
                    else if str ! (eom + 1) = CHR '','' then Inr (take (eom + 1) str, Some (drop (eom + 2) str))
                    else Inl CharacterAfterMap)
             else
               (case comma of
                  None \<Rightarrow> Inr (str, None)
                | Some c \<Rightarrow> Inr (take c str, Some (drop (c + 1) str)))
         | None \<Rightarrow>
             (case comma of
                None \<Rightarrow> Inr (str, None)
              | Some c \<Rightarrow> Inr (take c str, Some (drop (c + 1) str))))"

text \<open>The option a token names: the description and the value, \<open>true\<close> for a bare name.\<close>

fun find_option :: "OptionDesc list \<Rightarrow> string \<Rightarrow> (OptionDesc \<times> string) option" where
  "find_option [] tok = None"
| "find_option (d # ds) tok =
     (let len = length (d_name d) in
      if length tok > len + 1 \<and> tok ! len = CHR ''='' \<and> take len tok = d_name d
      then Some (d, drop (len + 1) tok)
      else if d_name d = tok then Some (d, ''true'')
      else find_option ds tok)"

lemma map_end_less: "map_end n s = Some k \<Longrightarrow> k < length s"
  by (induction n s arbitrary: k rule: map_end.induct) (auto split: if_splits)

lemma strchr_Nil [simp]: "strchr [] c = None"
  by (simp add: strchr_def)

lemma strchr_less: "strchr s c = Some k \<Longrightarrow> k < length s"
  by (induction s arbitrary: k) (fastforce simp: strchr_def split: if_splits)+

lemma option_parse_token_shorter:
  "option_parse_token str = Inr (tok, Some rest) \<Longrightarrow> length rest < length str"
  by (auto simp: option_parse_token_def Let_def dest: strchr_less map_end_less
      split: if_splits option.splits)

function options_parse_from ::
  "option_env \<Rightarrow> OptionDesc list \<Rightarrow> OptionValue list \<Rightarrow> string \<Rightarrow> option_error + OptionValue list"
where
  "options_parse_from env optdesc ovs str =
     (case option_parse_token str of
        Inl e \<Rightarrow> Inl e
      | Inr (tok, saveptr) \<Rightarrow>
          (case find_option optdesc tok of
             None \<Rightarrow> Inl (UnknownOption tok)
           | Some (d, v) \<Rightarrow>
               (case option_value_add env ovs d v of
                  Inl e \<Rightarrow> Inl e
                | Inr ovs' \<Rightarrow>
                    (case saveptr of
                       None \<Rightarrow> Inr ovs'
                     | Some rest \<Rightarrow> options_parse_from env optdesc ovs' rest))))"
  by pat_completeness auto
termination
  by (relation "measure (\<lambda>(env, optdesc, ovs, str). length str)")
    (auto dest: option_parse_token_shorter)

declare options_parse_from.simps [simp del]

definition options_parse ::
  "option_env \<Rightarrow> string \<Rightarrow> OptionDesc list \<Rightarrow> option_error + OptionValue list"
where
  "options_parse env opts optdesc = options_parse_from env optdesc [] opts"

subsection \<open>Reading the values\<close>

text \<open>The first value of that name, as all the \<open>option_get_\<close> functions look it up.\<close>

fun option_lookup :: "OptionValue list \<Rightarrow> string \<Rightarrow> option_value option" where
  "option_lookup [] name = None"
| "option_lookup (o1 # os) name =
     (if name = o_name o1 then Some (o_value o1) else option_lookup os name)"

definition option_get_string :: "OptionValue list \<Rightarrow> string \<Rightarrow> string option \<Rightarrow> string option" where
  "option_get_string ovs name dflt =
     (case option_lookup ovs name of
        None \<Rightarrow> dflt | Some (OptString s) \<Rightarrow> Some s | Some _ \<Rightarrow> None)"

definition option_get_int :: "OptionValue list \<Rightarrow> string \<Rightarrow> int \<Rightarrow> int" where
  "option_get_int ovs name dflt =
     (case option_lookup ovs name of None \<Rightarrow> dflt | Some (OptInt i) \<Rightarrow> i | Some _ \<Rightarrow> -1)"

definition option_get_uint :: "OptionValue list \<Rightarrow> string \<Rightarrow> u32 \<Rightarrow> u32" where
  "option_get_uint ovs name dflt =
     (case option_lookup ovs name of None \<Rightarrow> dflt | Some (OptUint i) \<Rightarrow> i | Some _ \<Rightarrow> -1)"

definition option_get_bool :: "OptionValue list \<Rightarrow> string \<Rightarrow> bool \<Rightarrow> bool" where
  "option_get_bool ovs name dflt =
     (case option_lookup ovs name of None \<Rightarrow> dflt | Some (OptBool b) \<Rightarrow> b | Some _ \<Rightarrow> False)"

definition option_get_mode_t :: "OptionValue list \<Rightarrow> string \<Rightarrow> u32 \<Rightarrow> u32" where
  "option_get_mode_t ovs name dflt =
     (case option_lookup ovs name of None \<Rightarrow> dflt | Some (OptMode m) \<Rightarrow> m | Some _ \<Rightarrow> -1)"

definition option_get_uid_t :: "OptionValue list \<Rightarrow> string \<Rightarrow> u32 \<Rightarrow> u32" where
  "option_get_uid_t ovs name dflt =
     (case option_lookup ovs name of None \<Rightarrow> dflt | Some (OptUid m) \<Rightarrow> m | Some _ \<Rightarrow> -1)"

definition option_get_gid_t :: "OptionValue list \<Rightarrow> string \<Rightarrow> u32 \<Rightarrow> u32" where
  "option_get_gid_t ovs name dflt =
     (case option_lookup ovs name of None \<Rightarrow> dflt | Some (OptGid m) \<Rightarrow> m | Some _ \<Rightarrow> -1)"

subsection \<open>Printing options and parsing them back\<close>

text \<open>
  An option as it is written: a bare name, or a name with a value. A value is a string without
  comma that does not start as a map, or a map whose braces match.
\<close>

type_synonym written_option = "OptionDesc \<times> string option"

definition opt_value_ok :: "string \<Rightarrow> bool" where
  "opt_value_ok v \<longleftrightarrow> v \<noteq> [] \<and>
     (if hd v = CHR ''{'' then map_end 1 (tl v) = Some (length v - 2) \<and> 2 \<le> length v
      else CHR '','' \<notin> set v)"

definition opt_name_ok :: "string \<Rightarrow> bool" where
  "opt_name_ok n \<longleftrightarrow> CHR '','' \<notin> set n \<and> CHR ''='' \<notin> set n"

fun write_option :: "written_option \<Rightarrow> string" where
  "write_option (d, None) = d_name d"
| "write_option (d, Some v) = d_name d @ CHR ''='' # v"

fun write_options :: "written_option list \<Rightarrow> string" where
  "write_options [] = []"
| "write_options [w] = write_option w"
| "write_options (w # ws) = write_option w @ CHR '','' # write_options ws"

fun option_ok :: "OptionDesc list \<Rightarrow> written_option \<Rightarrow> bool" where
  "option_ok ds (d, v) \<longleftrightarrow> d \<in> set ds \<and> (case v of None \<Rightarrow> True | Some s \<Rightarrow> opt_value_ok s)"

definition written_value :: "written_option \<Rightarrow> string" where
  "written_value w = (case snd w of None \<Rightarrow> ''true'' | Some v \<Rightarrow> v)"

lemma strchr_append:
  "c \<notin> set a \<Longrightarrow> strchr (a @ b) c = map_option (\<lambda>k. length a + k) (strchr b c)"
  by (simp add: strchr_def takeWhile_append)

lemma strchr_Cons [simp]:
  "strchr (x # xs) c = (if x = c then Some 0 else map_option Suc (strchr xs c))"
  by (simp add: strchr_def)

lemma strchr_notin [simp]: "c \<notin> set s \<Longrightarrow> strchr s c = None"
  by (simp add: strchr_def)

lemma map_end_append: "map_end n s = Some k \<Longrightarrow> map_end n (s @ t) = Some k"
  by (induction n s arbitrary: k rule: map_end.induct) (auto split: if_splits)

lemma parse_token_map:
  assumes "strchr str (CHR ''='') = Some e" "strchr str (CHR '','') = Some c" "e \<le> c" "e + 1 < length str"
    and "str ! (e + 1) = CHR ''{''" "map_end 1 (drop (e + 2) str) = Some k" "e + 3 + k = j"
  shows "j = length str \<Longrightarrow> option_parse_token str = Inr (str, None)"
    and "j \<noteq> length str \<Longrightarrow> str ! j = CHR '','' \<Longrightarrow>
      option_parse_token str = Inr (take j str, Some (drop (j + 1) str))"
  using assms by (auto simp: option_parse_token_def Let_def numeral_3_eq_3)

lemma parse_token_plain:
  assumes "strchr str (CHR ''='') = Some e" "strchr str (CHR '','') = Some c" "e \<le> c"
    and "e + 1 < length str \<Longrightarrow> str ! (e + 1) \<noteq> CHR ''{''"
  shows "option_parse_token str = Inr (take c str, Some (drop (c + 1) str))"
  using assms by (auto simp: option_parse_token_def Let_def)

text \<open>A token is the written option, followed by the end or by a comma.\<close>

lemma token_of_value:
  assumes "opt_name_ok n" "opt_value_ok v"
  shows "option_parse_token (n @ CHR ''='' # v) = Inr (n @ CHR ''='' # v, None)"
    and "option_parse_token ((n @ CHR ''='' # v) @ CHR '','' # rest) = Inr (n @ CHR ''='' # v, Some rest)"
proof -
  have n: "CHR '','' \<notin> set n" "CHR ''='' \<notin> set n" using assms(1) by (auto simp: opt_name_ok_def)
  obtain x xs where v: "v = x # xs" using assms(2) by (cases v) (auto simp: opt_value_ok_def)
  define t where "t = n @ CHR ''='' # v"
  define r where "r = t @ CHR '','' # rest"
  have eq: "strchr t (CHR ''='') = Some (length n)" "strchr r (CHR ''='') = Some (length n)"
    using n by (simp_all add: strchr_append t_def r_def)
  have after: "t ! (length n + 1) = x" "r ! (length n + 1) = x" "length n + 1 < length t" "length n + 1 < length r"
    using v by (simp_all add: nth_append t_def r_def)
  have dr: "drop (length n + 2) t = xs" "drop (length n + 2) r = xs @ CHR '','' # rest"
    using v by (simp_all add: t_def r_def)
  have rt: "r ! length t = CHR '',''" "length t \<noteq> length r" "take (length t) r = t" "drop (length t + 1) r = rest"
    by (simp_all add: r_def)
  have m: "x = CHR ''{'' \<Longrightarrow> map_end 1 xs = Some (length xs - 1) \<and> length n + 3 + (length xs - 1) = length t"
    using assms(2) v by (auto simp: opt_value_ok_def t_def)
  have "option_parse_token t = Inr (t, None)"
  proof (cases "strchr t (CHR '','')")
    case None
    then show ?thesis by (simp add: option_parse_token_def Let_def eq)
  next
    case (Some c)
    then have x: "x = CHR ''{''"
      using assms(2) v n by (auto simp: opt_value_ok_def strchr_append t_def split: if_splits)
    have "length n \<le> c" using Some n by (auto simp: strchr_append t_def)
    then show ?thesis using parse_token_map(1) [OF eq(1) Some _ after(3), of "length xs - 1"] after(1) x dr(1) m by simp
  qed
  moreover have "option_parse_token r = Inr (t, Some rest)"
  proof (cases "x = CHR ''{''")
    case True
    obtain c where c: "strchr r (CHR '','') = Some c" by (auto simp: strchr_def r_def)
    have "length n \<le> c" using c n by (auto simp: strchr_append r_def t_def)
    then show ?thesis
      using parse_token_map(2) [OF eq(2) c _ after(4), of "length xs - 1"] after(2) True dr(2) m map_end_append rt by simp
  next
    case False
    then have "strchr r (CHR '','') = Some (length t)"
      using n assms(2) v by (auto simp: r_def t_def strchr_append opt_value_ok_def)
    from parse_token_plain [OF eq(2) this] show ?thesis using after(2) False rt by (simp add: t_def)
  qed
  ultimately show "option_parse_token (n @ CHR ''='' # v) = Inr (n @ CHR ''='' # v, None)"
    "option_parse_token ((n @ CHR ''='' # v) @ CHR '','' # rest) = Inr (n @ CHR ''='' # v, Some rest)"
    by (simp_all only: t_def r_def)
qed

lemma token_of_name:
  assumes "opt_name_ok n"
  shows "option_parse_token n = Inr (n, None)"
    and "option_parse_token (n @ CHR '','' # rest) = Inr (n, Some rest)"
proof -
  have n: "CHR '','' \<notin> set n" "CHR ''='' \<notin> set n" using assms(1) by (auto simp: opt_name_ok_def)
  then show "option_parse_token n = Inr (n, None)" by (simp add: option_parse_token_def Let_def)
  show "option_parse_token (n @ CHR '','' # rest) = Inr (n, Some rest)"
    using n by (auto simp: option_parse_token_def Let_def strchr_append split: option.splits)
qed

lemma find_written:
  assumes "distinct (map d_name ds)" "\<forall>d\<in>set ds. opt_name_ok (d_name d)" "option_ok ds w"
  shows "find_option ds (write_option w) = Some (fst w, written_value w)"
  using assms
proof (induction ds)
  case (Cons d ds)
  obtain d0 v where w: "w = (d0, v)" by fastforce
  have nd: "CHR ''='' \<notin> set (d_name d)" using Cons.prems(2) by (simp add: opt_name_ok_def)
  show ?case
  proof (cases "d0 = d")
    case True
    then show ?thesis using w nd Cons.prems(3)
      by (cases v) (auto simp: written_value_def opt_value_ok_def nth_append in_set_conv_nth)
  next
    case False
    then have mem: "d0 \<in> set ds" using Cons.prems(3) w by simp
    then have ne: "d_name d \<noteq> d_name d0" using Cons.prems(1) by force
    have n0: "CHR ''='' \<notin> set (d_name d0)" using Cons.prems(2) mem by (simp add: opt_name_ok_def)
    have "find_option (d # ds) (write_option w) = find_option ds (write_option w)"
    proof (cases v)
      case None
      then have "\<not> (length (d_name d0) > length (d_name d) + 1 \<and> d_name d0 ! length (d_name d) = CHR ''='')"
        using n0 by (auto simp: in_set_conv_nth)
      then show ?thesis using None w ne by (auto simp: Let_def)
    next
      case (Some x)
      let ?t = "d_name d0 @ CHR ''='' # x"
      have "\<not> (?t ! length (d_name d) = CHR ''='' \<and> take (length (d_name d)) ?t = d_name d)"
      proof
        assume a: "?t ! length (d_name d) = CHR ''='' \<and> take (length (d_name d)) ?t = d_name d"
        have "\<not> length (d_name d) < length (d_name d0)"
          using a n0 by (auto simp: nth_append in_set_conv_nth split: if_splits)
        moreover have "\<not> length (d_name d0) < length (d_name d)"
        proof
          assume l: "length (d_name d0) < length (d_name d)"
          then have "d_name d ! length (d_name d0) = ?t ! length (d_name d0)" using a by (metis nth_take)
          then have "CHR ''='' \<in> set (d_name d)" using l by (metis nth_append_length nth_mem)
          then show False using nd by simp
        qed
        ultimately have "take (length (d_name d)) ?t = d_name d0" by simp
        then show False using a ne by simp
      qed
      moreover have "d_name d \<noteq> ?t" using nd by auto
      ultimately show ?thesis using Some w by (auto simp: Let_def)
    qed
    moreover have "option_ok ds w" using Cons.prems(3) w mem by simp
    ultimately show ?thesis using Cons by simp
  qed
qed (simp add: assms(3), cases w, simp)

lemma token_of_written:
  assumes "\<forall>d\<in>set ds. opt_name_ok (d_name d)" "option_ok ds w"
  shows "option_parse_token (write_option w) = Inr (write_option w, None)"
    and "option_parse_token (write_option w @ CHR '','' # rest) = Inr (write_option w, Some rest)"
  using assms token_of_value token_of_name by (cases w; cases "snd w"; auto)+

text \<open>The typed values of written options.\<close>

fun typed_values :: "option_env \<Rightarrow> written_option list \<Rightarrow> option_error + OptionValue list" where
  "typed_values env [] = Inr []"
| "typed_values env (w # ws) =
     (case option_value_parse env (d_type (fst w)) (written_value w) of
        Inl e \<Rightarrow> Inl e
      | Inr v \<Rightarrow> map_sum id (\<lambda>vs. \<lparr>o_name = d_name (fst w), o_value = v\<rparr> # vs) (typed_values env ws))"

lemma parse_written:
  assumes "distinct (map d_name ds)" "\<forall>d\<in>set ds. opt_name_ok (d_name d)" "\<forall>n. opt_alloc env n"
    and "list_all (option_ok ds) ws" "ws \<noteq> []"
  shows "options_parse_from env ds ovs (write_options ws) = map_sum id (\<lambda>vs. ovs @ vs) (typed_values env ws)"
  using assms(4,5)
proof (induction ws arbitrary: ovs rule: write_options.induct)
  case (2 w)
  then have ok: "option_ok ds w" by simp
  show ?case
    using token_of_written(1) [OF assms(2) ok] find_written [OF assms(1,2) ok] assms(3)
    by (simp add: options_parse_from.simps option_value_add_def split: sum.split)
next
  case (3 w w' ws)
  then have ok: "option_ok ds w" by simp
  show ?case
    using token_of_written(2) [OF assms(2) ok] find_written [OF assms(1,2) ok] assms(3) 3
    by (simp add: options_parse_from.simps [of env ds ovs] option_value_add_def sum.map_comp o_def
        split: sum.split)
qed simp

text \<open>
  C31. Parsing undoes writing: options written as names and values, separated by commas, are parsed
  into exactly their typed values, or into the error of the first value that is not of its type.
  Values may be maps in braces that contain commas, equal signs and further maps.
\<close>

theorem options_roundtrip:
  assumes "distinct (map d_name ds)" "\<forall>d\<in>set ds. opt_name_ok (d_name d)" "\<forall>n. opt_alloc env n"
    and "list_all (option_ok ds) ws" "ws \<noteq> []"
  shows "options_parse env (write_options ws) ds = typed_values env ws"
  using parse_written [OF assms, of "[]"] by (simp add: options_parse_def sum.map_id0 [unfolded id_def] id_def)

definition example_env :: option_env where
  "example_env = \<lparr>getpwnam = (\<lambda>u. if u = ''tss'' then Some 59 else None), getgrnam = (\<lambda>g. None),
     opt_alloc = (\<lambda>n. True)\<rparr>"

definition example_descs :: "OptionDesc list" where
  "example_descs = [\<lparr>d_name = ''dir'', d_type = OPT_TYPE_STRING\<rparr>, \<lparr>d_name = ''mode'', d_type = OPT_TYPE_MODE_T\<rparr>,
     \<lparr>d_name = ''lock'', d_type = OPT_TYPE_BOOLEAN\<rparr>]"

theorem options_roundtrip_witness:
  "options_parse example_env ''dir={a=1,b={}},lock,mode=0600'' example_descs =
     Inr [\<lparr>o_name = ''dir'', o_value = OptString ''{a=1,b={}}''\<rparr>,
          \<lparr>o_name = ''lock'', o_value = OptBool True\<rparr>, \<lparr>o_name = ''mode'', o_value = OptMode 384\<rparr>]"
proof -
  let ?ws = "[(example_descs ! 0, Some ''{a=1,b={}}''), (example_descs ! 2, None), (example_descs ! 1, Some ''0600'')]"
  have "options_parse example_env (write_options ?ws) example_descs = typed_values example_env ?ws"
    by (rule options_roundtrip) (simp_all add: example_descs_def example_env_def opt_name_ok_def opt_value_ok_def)
  moreover have "write_options ?ws = ''dir={a=1,b={}},lock,mode=0600''" by (simp add: example_descs_def)
  moreover have "typed_values example_env ?ws =
     Inr [\<lparr>o_name = ''dir'', o_value = OptString ''{a=1,b={}}''\<rparr>,
          \<lparr>o_name = ''lock'', o_value = OptBool True\<rparr>, \<lparr>o_name = ''mode'', o_value = OptMode 384\<rparr>]"
    by code_simp
  ultimately show ?thesis by (simp only:)
qed

subsection \<open>Types of parsed options\<close>

fun value_type :: "option_value \<Rightarrow> OptionType" where
  "value_type (OptString s) = OPT_TYPE_STRING"
| "value_type (OptInt i) = OPT_TYPE_INT"
| "value_type (OptUint u) = OPT_TYPE_UINT"
| "value_type (OptBool b) = OPT_TYPE_BOOLEAN"
| "value_type (OptMode m) = OPT_TYPE_MODE_T"
| "value_type (OptUid u) = OPT_TYPE_UID_T"
| "value_type (OptGid g) = OPT_TYPE_GID_T"

fun value_in_range :: "option_value \<Rightarrow> bool" where
  "value_in_range (OptInt i) \<longleftrightarrow> - (2 ^ 31) \<le> i \<and> i < 2 ^ 31"
| "value_in_range (OptMode m) \<longleftrightarrow> m \<le> 511"
| "value_in_range _ \<longleftrightarrow> True"

definition typed_by :: "OptionDesc list \<Rightarrow> OptionValue \<Rightarrow> bool" where
  "typed_by ds ov \<longleftrightarrow> value_in_range (o_value ov) \<and>
     (\<exists>d\<in>set ds. o_name ov = d_name d \<and> value_type (o_value ov) = d_type d)"

lemma find_option_mem: "find_option ds tok = Some (d, v) \<Longrightarrow> d \<in> set ds"
  by (induction ds) (auto simp: Let_def split: if_splits)

lemma value_parse_typed:
  "option_value_parse env t val = Inr v \<Longrightarrow> value_type v = t \<and> value_in_range v"
  by (auto simp: option_value_parse_def word_le_nat_alt map_sum_def unat_of_nat
      split: OptionType.splits option.splits sum.splits prod.splits list.splits if_splits)

lemma parse_from_typed:
  "options_parse_from env ds ovs str = Inr out \<Longrightarrow> \<forall>ov\<in>set ovs. typed_by ds ov \<Longrightarrow> \<forall>ov\<in>set out. typed_by ds ov"
proof (induction env ds ovs str arbitrary: out rule: options_parse_from.induct)
  case (1 env ds ovs str)
  obtain tok sp where t: "option_parse_token str = Inr (tok, sp)"
    using "1.prems"(1) by (auto simp: options_parse_from.simps [of env ds ovs str] split: sum.splits)
  obtain d v where f: "find_option ds tok = Some (d, v)"
    using "1.prems"(1) t by (auto simp: options_parse_from.simps [of env ds ovs str] split: option.splits)
  obtain ovs' where a: "option_value_add env ovs d v = Inr ovs'"
    using "1.prems"(1) t f by (auto simp: options_parse_from.simps [of env ds ovs str] split: sum.splits)
  have typed: "\<forall>ov\<in>set ovs'. typed_by ds ov"
    using a "1.prems"(2) find_option_mem [OF f] value_parse_typed [of env "d_type d" v]
    by (fastforce simp: option_value_add_def typed_by_def split: if_splits sum.splits)
  show ?case
  proof (cases sp)
    case None
    then show ?thesis using "1.prems"(1) t f a typed by (simp add: options_parse_from.simps [of env ds ovs str])
  next
    case (Some rest)
    then show ?thesis
      using "1.IH" [OF t refl f refl a Some] "1.prems"(1) t f a typed
      by (simp add: options_parse_from.simps [of env ds ovs str])
  qed
qed

text \<open>
  C32. Whatever string is parsed, every option in the result is declared, has the declared type and is in the
  range of its C type: integers fit into 32 bits and a mode has permission bits only.
\<close>

theorem options_parse_typed:
  assumes "options_parse env opts ds = Inr ovs" "ov \<in> set ovs"
  shows "value_in_range (o_value ov) \<and>
    (\<exists>d\<in>set ds. o_name ov = d_name d \<and> value_type (o_value ov) = d_type d)"
  using parse_from_typed [of env ds "[]" opts] assms by (auto simp: options_parse_def typed_by_def)

theorem options_parse_typed_witness:
  "\<exists>ovs. options_parse example_env ''mode=0777,lock'' example_descs = Inr ovs \<and> ovs \<noteq> [] \<and>
     value_in_range (o_value (hd ovs)) \<and> value_type (o_value (hd ovs)) = OPT_TYPE_MODE_T"
proof -
  have p: "options_parse example_env ''mode=0777,lock'' example_descs =
     Inr [\<lparr>o_name = ''mode'', o_value = OptMode 511\<rparr>, \<lparr>o_name = ''lock'', o_value = OptBool True\<rparr>]"
    by code_simp
  show ?thesis using options_parse_typed [OF p, of "\<lparr>o_name = ''mode'', o_value = OptMode 511\<rparr>"] p by simp
qed

end
