(* ===== verification/Key.thy ===== *)
theory Key
  imports SwtpmIo Options Blob
begin

section \<open>Keys from files (src/src/swtpm/key.c)\<close>

text \<open>
  Keys for the state files are read from a file descriptor, as hex digits, as bytes, or derived
  from a passphrase. What a descriptor delivers is a list of results of \<open>read\<close>, as for the data
  connection; \<open>read_eintr\<close> of utils.c makes one \<open>read\<close> and repeats it when interrupted. The
  key derivation of libcrypto is a parameter.
\<close>

subsection \<open>Names\<close>

datatype key_format = KEY_FORMAT_UNKNOWN | KEY_FORMAT_BINARY | KEY_FORMAT_HEX

datatype kdf_identifier = KDF_IDENTIFIER_UNKNOWN | KDF_IDENTIFIER_SHA512 | KDF_IDENTIFIER_PBKDF2

definition key_format_from_string :: "string \<Rightarrow> key_format" where
  "key_format_from_string fmt =
     (if fmt = ''hex'' then KEY_FORMAT_HEX
      else if fmt = ''binary'' then KEY_FORMAT_BINARY else KEY_FORMAT_UNKNOWN)"

text \<open>The mode and the length of its key in bytes (not set for an unknown mode).\<close>

definition encryption_mode_from_string :: "string \<Rightarrow> encryption_mode \<times> nat option" where
  "encryption_mode_from_string mode =
     (if mode = ''aes-cbc'' \<or> mode = ''aes-128-cbc'' then (ENCRYPTION_MODE_AES_CBC, Some (128 div 8))
      else if mode = ''aes-256-cbc'' then (ENCRYPTION_MODE_AES_CBC, Some (256 div 8))
      else (ENCRYPTION_MODE_UNKNOWN, None))"

definition kdf_identifier_from_string :: "string \<Rightarrow> kdf_identifier" where
  "kdf_identifier_from_string kdf =
     (if kdf = ''sha512'' then KDF_IDENTIFIER_SHA512
      else if kdf = ''pbkdf2'' then KDF_IDENTIFIER_PBKDF2 else KDF_IDENTIFIER_UNKNOWN)"

subsection \<open>Hex digits\<close>

text \<open>
  \<open>sscanf\<close> with \<open>%2hhx%n\<close>: white space is skipped, then at most two characters make up the
  number: two digits, one digit, or a sign and a digit; \<open>0x\<close> without a digit is no number.
  The result is the byte and the number of characters read.
\<close>

definition sscanf_2hhx :: "string \<Rightarrow> (byte \<times> nat) option" where
  "sscanf_2hhx input =
     (let skipped = length (takeWhile isspace input); s = drop skipped input in
      case s of
        [] \<Rightarrow> None
      | a # s' \<Rightarrow>
          let b = (if s' = [] then None else digit_value 16 (hd s')) in
          if a = CHR ''-'' \<or> a = CHR ''+'' then
            (case b of
               None \<Rightarrow> None
             | Some v \<Rightarrow> Some (if a = CHR ''-'' then - of_nat v else of_nat v, skipped + 2))
          else
            (case digit_value 16 a of
               None \<Rightarrow> None
             | Some u \<Rightarrow>
                 (case b of
                    Some v \<Rightarrow> Some (of_nat (16 * u + v), skipped + 2)
                  | None \<Rightarrow>
                      if a = CHR ''0'' \<and> s' \<noteq> [] \<and> (hd s' = CHR ''x'' \<or> hd s' = CHR ''X'') then None
                      else Some (of_nat u, skipped + 1))))"

text \<open>
  The loop of \<open>key_stream_to_bin\<close> with \<open>bin\<close> the bytes converted so far, at most \<open>bin_size\<close> of
  them; \<open>None\<close> is the result -1.
\<close>

function key_stream_loop :: "nat \<Rightarrow> string \<Rightarrow> bytes \<Rightarrow> bytes option" where
  "key_stream_loop bin_size input bin =
     (if input = [] \<or> isspace (hd input) then (if bin = [] then None else Some bin)
      else if bin_size \<le> length bin then None
      else case sscanf_2hhx input of
        None \<Rightarrow> None
      | Some (v, n) \<Rightarrow> if n \<noteq> 2 then None else key_stream_loop bin_size (drop 2 input) (bin @ [v]))"
  by pat_completeness auto
termination by (relation "measure (\<lambda>(bin_size, input, bin). length input)") auto

declare key_stream_loop.simps [simp del]

definition key_stream_to_bin :: "string \<Rightarrow> nat \<Rightarrow> bytes option" where
  "key_stream_to_bin input bin_size = key_stream_loop bin_size input []"

text \<open>The number of digits is twice the number of bytes.\<close>

definition key_parse_as_hexkey :: "string \<Rightarrow> nat \<Rightarrow> bytes option" where
  "key_parse_as_hexkey rawkey maxkeylen =
     (let offset = (if take 2 rawkey = ''0x'' then 2 else 0) in
      case key_stream_to_bin (drop offset rawkey) maxkeylen of
        None \<Rightarrow> None
      | Some key \<Rightarrow>
          let digits = 2 * length key in
          if digits = 128 div 4 \<or> digits = 256 div 4
          then (if length key < maxkeylen then None else Some key)
          else None)"

subsection \<open>Reading\<close>

fun read_eintr_fd :: "nat \<Rightarrow> read_result list \<Rightarrow> bytes option \<times> read_result list" where
  "read_eintr_fd n [] = (Some [], [])"
| "read_eintr_fd n (RdIntr # rs) = read_eintr_fd n rs"
| "read_eintr_fd n (RdErr # rs) = (None, rs)"
| "read_eintr_fd n (RdBytes bs # rs) =
     (Some (take n bs), if n < length bs then RdBytes (drop n bs) # rs else rs)"

text \<open>The C string in a buffer that was terminated with NUL.\<close>

definition c_string :: "bytes \<Rightarrow> string" where
  "c_string buf = map (\<lambda>b. char_of (unat b)) (takeWhile (\<lambda>b. b \<noteq> 0) buf)"

abbreviation filebuffer_size :: nat where "filebuffer_size \<equiv> 68"

definition key_load_key_fd :: "read_result list \<Rightarrow> key_format \<Rightarrow> nat \<Rightarrow> bytes option" where
  "key_load_key_fd fd keyformat maxkeylen =
     (case fst (read_eintr_fd (filebuffer_size - 1) fd) of
        None \<Rightarrow> None
      | Some filebuffer \<Rightarrow>
          (case keyformat of
             KEY_FORMAT_BINARY \<Rightarrow> if maxkeylen < length filebuffer then None else Some filebuffer
           | KEY_FORMAT_HEX \<Rightarrow> key_parse_as_hexkey (c_string filebuffer) maxkeylen
           | KEY_FORMAT_UNKNOWN \<Rightarrow> None))"

text \<open>Files by name: \<open>open\<close> fails or gives what the descriptor will deliver.\<close>

type_synonym open_file = "string \<Rightarrow> read_result list option"

definition key_load_key :: "open_file \<Rightarrow> string \<Rightarrow> key_format \<Rightarrow> nat \<Rightarrow> bytes option" where
  "key_load_key open_rd filename keyformat maxkeylen =
     (case open_rd filename of
        None \<Rightarrow> None
      | Some fd \<Rightarrow> key_load_key_fd fd keyformat maxkeylen)"

subsection \<open>Passphrases\<close>

record kdf_lib =
  SHA512 :: "bytes \<Rightarrow> bytes"
  PKCS5_PBKDF2_HMAC_SHA512 :: "bytes \<Rightarrow> bytes \<Rightarrow> nat \<Rightarrow> nat \<Rightarrow> bytes option"
  kdf_alloc :: "nat \<Rightarrow> bool"

abbreviation SHA512_DIGEST_LENGTH :: nat where "SHA512_DIGEST_LENGTH \<equiv> 64"

text \<open>
  The loop that reads the passphrase: the buffer always has room for 1024 more bytes than were
  read; a read that does not fill it is taken for the end of the file.
\<close>

lemma read_eintr_fd_smaller:
  "read_eintr_fd n rs = (Some bs, rs') \<Longrightarrow> 0 < length bs \<Longrightarrow>
     length (stream_of rs') + length rs' < length (stream_of rs) + length rs"
  by (induction n rs rule: read_eintr_fd.induct) (auto split: if_splits)

function pwd_loop :: "kdf_lib \<Rightarrow> read_result list \<Rightarrow> bytes \<Rightarrow> bytes option" where
  "pwd_loop lib fd filebuffer =
     (if \<not> kdf_alloc lib (length filebuffer + 1024) then None
      else case read_eintr_fd 1024 fd of
        (None, _) \<Rightarrow> None
      | (Some bs, fd') \<Rightarrow>
          if length bs < 1024 then Some (filebuffer @ bs) else pwd_loop lib fd' (filebuffer @ bs))"
  by pat_completeness auto
termination
proof (relation "measure (\<lambda>(lib, fd, buf). length (stream_of fd) + length fd)")
  fix lib fd filebuffer x y x2
  assume "(x, y) = read_eintr_fd 1024 fd" "x = Some x2" "\<not> length x2 < 1024"
  then show "((lib, y, filebuffer @ x2), lib, fd, filebuffer)
      \<in> measure (\<lambda>(lib :: kdf_lib, fd, buf). length (stream_of fd) + length fd)"
    using read_eintr_fd_smaller [of 1024 fd x2 y] by (cases "x2 = []") auto
qed simp

declare pwd_loop.simps [simp del]

definition key_from_pwdfile_fd :: "kdf_lib \<Rightarrow> read_result list \<Rightarrow> nat \<Rightarrow> kdf_identifier \<Rightarrow> bytes option" where
  "key_from_pwdfile_fd lib fd maxkeylen kdfid =
     (if maxkeylen > SHA512_DIGEST_LENGTH then None
      else case pwd_loop lib fd [] of
        None \<Rightarrow> None
      | Some pwd \<Rightarrow>
          (case kdfid of
             KDF_IDENTIFIER_SHA512 \<Rightarrow> Some (take maxkeylen (SHA512 lib pwd))
           | KDF_IDENTIFIER_PBKDF2 \<Rightarrow>
               PKCS5_PBKDF2_HMAC_SHA512 lib pwd [0x73, 0x77, 0x74, 0x70, 0x6d] 1000 maxkeylen
           | KDF_IDENTIFIER_UNKNOWN \<Rightarrow> None))"

definition key_from_pwdfile ::
  "kdf_lib \<Rightarrow> open_file \<Rightarrow> string \<Rightarrow> nat \<Rightarrow> kdf_identifier \<Rightarrow> bytes option"
where
  "key_from_pwdfile lib open_rd filename maxkeylen kdfid =
     (case open_rd filename of
        None \<Rightarrow> None
      | Some fd \<Rightarrow> key_from_pwdfile_fd lib fd maxkeylen kdfid)"

subsection \<open>Printing a key and reading it back\<close>

definition hex_digit :: "nat \<Rightarrow> char" where
  "hex_digit v = char_of (if v < 10 then v + 48 else v + 87)"

definition hex_byte :: "byte \<Rightarrow> string" where
  "hex_byte b = [hex_digit (unat b div 16), hex_digit (unat b mod 16)]"

definition hex_key :: "bytes \<Rightarrow> string" where
  "hex_key key = concat (map hex_byte key)"

lemma hex_digit_value: "v < 16 \<Longrightarrow> digit_value 16 (hex_digit v) = Some v"
  by (simp add: digit_value_def hex_digit_def char_code_def Let_def)

lemma hex_digit_plain:
  assumes "v < 16"
  shows "\<not> isspace (hex_digit v)" "hex_digit v \<noteq> CHR ''-''" "hex_digit v \<noteq> CHR ''+''"
proof -
  have "48 \<le> char_code (hex_digit v)" using assms by (simp add: char_code_def hex_digit_def)
  then show "\<not> isspace (hex_digit v)" "hex_digit v \<noteq> CHR ''-''" "hex_digit v \<noteq> CHR ''+''"
    by (auto simp: char_code_def isspace_def)
qed

lemma byte_halves: "unat (b :: byte) div 16 < 16" "unat b mod 16 < 16" "of_nat (16 * (unat b div 16) + unat b mod 16) = b"
  using unsigned_less [of b, where 'a = nat] by auto

lemma sscanf_hex_byte: "sscanf_2hhx (hex_byte b @ s) = Some (b, 2)"
  using hex_digit_plain [OF byte_halves(1), of b] hex_digit_value [OF byte_halves(1), of b]
    hex_digit_value [OF byte_halves(2), of b] byte_halves(3) [of b]
  by (simp add: sscanf_2hhx_def hex_byte_def Let_def)

lemma key_stream_step:
  "input \<noteq> [] \<Longrightarrow> \<not> isspace (hd input) \<Longrightarrow> length bin < bin_size \<Longrightarrow> sscanf_2hhx input = Some (v, 2) \<Longrightarrow>
   key_stream_loop bin_size input bin = key_stream_loop bin_size (drop 2 input) (bin @ [v])"
  by (subst key_stream_loop.simps) simp

lemma key_stream_hex:
  assumes "s = [] \<or> isspace (hd s)" "bin @ key \<noteq> []" "length bin + length key \<le> bin_size"
  shows "key_stream_loop bin_size (hex_key key @ s) bin = Some (bin @ key)"
  using assms(2,3)
proof (induction key arbitrary: bin)
  case Nil
  then show ?case using assms(1) by (simp add: hex_key_def key_stream_loop.simps)
next
  case (Cons b key)
  have h: "hex_key (b # key) @ s = hex_byte b @ (hex_key key @ s)" by (simp add: hex_key_def)
  have d: "drop 2 (hex_byte b @ (hex_key key @ s)) = hex_key key @ s"
    "hex_byte b @ (hex_key key @ s) \<noteq> []" "\<not> isspace (hd (hex_byte b @ (hex_key key @ s)))"
    using hex_digit_plain(1) [OF byte_halves(1), of b] by (simp_all add: hex_byte_def)
  have "key_stream_loop bin_size (hex_byte b @ (hex_key key @ s)) bin =
      key_stream_loop bin_size (hex_key key @ s) (bin @ [b])"
    using key_stream_step [OF d(2,3) _ sscanf_hex_byte, of bin bin_size] Cons.prems(2) d(1) by simp
  then show ?case using Cons.IH [of "bin @ [b]"] Cons.prems(2) h by simp
qed

lemma hex_key_no_prefix: "length key \<noteq> 0 \<Longrightarrow> take 2 (hex_key key @ s) \<noteq> ''0x''"
proof (cases key)
  case (Cons b ks)
  have "digit_value 16 (CHR ''x'') = None" by code_simp
  then have "hex_digit (unat b mod 16) \<noteq> CHR ''x''" using hex_digit_value [OF byte_halves(2), of b] by auto
  then show ?thesis using Cons by (simp add: hex_key_def hex_byte_def)
qed simp

text \<open>
  A key of 128 or 256 bits written as hex digits, with or without \<open>0x\<close> in front and with anything after a
  white space behind, is read back as it is when the mode asks for that length.
\<close>

theorem hexkey_roundtrip:
  assumes "length key = 16 \<or> length key = 32" "p = [] \<or> p = ''0x''" "s = [] \<or> isspace (hd s)"
  shows "key_parse_as_hexkey (p @ hex_key key @ s) (length key) = Some key"
proof -
  have ne: "key \<noteq> []" using assms(1) by auto
  then have "key_stream_to_bin (hex_key key @ s) (length key) = Some key"
    using key_stream_hex [OF assms(3), of "[]" key] by (simp add: key_stream_to_bin_def)
  then show ?thesis using assms(1,2) hex_key_no_prefix [of key s] ne
    by (auto simp: key_parse_as_hexkey_def Let_def)
qed

theorem hexkey_roundtrip_witness:
  "key_parse_as_hexkey ''0x000102030405060708090a0b0c0d0e0f secret'' 16 =
     Some [0, 1, 2, 3, 4, 5, 6, 7, 8, 9, 10, 11, 12, 13, 14, 15]"
proof -
  let ?k = "[0, 1, 2, 3, 4, 5, 6, 7, 8, 9, 10, 11, 12, 13, 14, 15] :: bytes"
  have "key_parse_as_hexkey (''0x'' @ hex_key ?k @ '' secret'') (length ?k) = Some ?k"
    by (rule hexkey_roundtrip) (simp_all add: isspace_def)
  moreover have "''0x'' @ hex_key ?k @ '' secret'' = ''0x000102030405060708090a0b0c0d0e0f secret''" by code_simp
  moreover have "length ?k = 16" by simp
  ultimately show ?thesis by (simp only:)
qed

text \<open>A key that is accepted has the length the mode asks for.\<close>

lemma key_stream_length:
  "key_stream_loop bin_size s bin = Some key \<Longrightarrow> length bin \<le> bin_size \<Longrightarrow> length key \<le> bin_size"
proof (induction bin_size s bin rule: key_stream_loop.induct)
  case (1 bin_size s bin)
  show ?case
    using 1 by (subst (asm) key_stream_loop.simps) (auto split: if_splits option.splits prod.splits)
qed

lemma hexkey_length:
  assumes "key_parse_as_hexkey s n = Some key"
  shows "length key = n" "n = 16 \<or> n = 32"
  using assms key_stream_length [of n _ "[]"]
  by (fastforce simp: key_parse_as_hexkey_def key_stream_to_bin_def Let_def split: option.splits if_splits)+

text \<open>A passphrase in a regular file is used as a whole.\<close>

lemma pwd_loop_file:
  assumes "\<forall>n. kdf_alloc lib n"
  shows "pwd_loop lib [RdBytes content] buf = Some (buf @ content)"
proof (induction content arbitrary: buf rule: length_induct)
  case (1 content)
  have step: "pwd_loop lib [RdBytes content] buf =
      (if length content < 1024 then Some (buf @ content)
       else pwd_loop lib (if 1024 < length content then [RdBytes (drop 1024 content)] else []) (buf @ take 1024 content))"
    using assms by (subst pwd_loop.simps) simp
  show ?case
  proof (cases "1024 < length content")
    case True
    then show ?thesis using step 1 [rule_format, of "drop 1024 content" "buf @ take 1024 content"] by simp
  next
    case False
    have "pwd_loop lib [] b = Some b" for b using assms by (subst pwd_loop.simps) simp
    then show ?thesis using step False by simp
  qed
qed

text \<open>
  A passphrase file yields a key of the requested length from the whole content of the file, however long
  it is, with the chosen derivation.
\<close>

theorem pwdfile_whole_content:
  assumes "\<forall>n. kdf_alloc lib n" "maxkeylen \<le> 64" "open_rd f = Some [RdBytes content]"
  shows "key_from_pwdfile lib open_rd f maxkeylen KDF_IDENTIFIER_SHA512 = Some (take maxkeylen (SHA512 lib content)) \<and>
    key_from_pwdfile lib open_rd f maxkeylen KDF_IDENTIFIER_PBKDF2 =
      PKCS5_PBKDF2_HMAC_SHA512 lib content [0x73, 0x77, 0x74, 0x70, 0x6d] 1000 maxkeylen"
  using assms pwd_loop_file [of lib content "[]"]
  by (simp add: key_from_pwdfile_def key_from_pwdfile_fd_def)


definition example_kdf :: kdf_lib where
  "example_kdf = \<lparr>SHA512 = (\<lambda>d. replicate 64 (foldr (+) d 0)),
     PKCS5_PBKDF2_HMAC_SHA512 = (\<lambda>d salt it n. Some (replicate n (foldr (+) (salt @ d) 0))),
     kdf_alloc = (\<lambda>n. True)\<rparr>"

theorem pwdfile_whole_content_witness:
  "key_from_pwdfile example_kdf (\<lambda>f. Some [RdBytes (replicate 3000 1)]) ''pwd'' 4 KDF_IDENTIFIER_SHA512 =
     Some (take 4 (SHA512 example_kdf (replicate 3000 1)))"
  using pwdfile_whole_content [of example_kdf 4 "\<lambda>f. Some [RdBytes (replicate 3000 1)]" "''pwd''" "replicate 3000 1"]
  by (simp add: example_kdf_def)

text \<open>A passphrase from a pipe is cut after the first read that is not full.\<close>

lemma pwdfile_short_read:
  assumes "\<forall>n. kdf_alloc lib n" "length a < 1024" "maxkeylen \<le> 64"
  shows "key_from_pwdfile_fd lib (RdBytes a # rs) maxkeylen KDF_IDENTIFIER_SHA512 = Some (take maxkeylen (SHA512 lib a))"
proof -
  have "pwd_loop lib (RdBytes a # rs) [] = Some a" using assms(1,2) by (subst pwd_loop.simps) simp
  then show ?thesis using assms(3) by (simp add: key_from_pwdfile_fd_def)
qed

text \<open>Signs are taken for digits.\<close>

lemma hexkey_signs:
  "key_parse_as_hexkey (concat (replicate 16 ''-1'')) 16 = Some (replicate 16 0xff)"
  by code_simp

end
