(* ===== verification/Common.thy ===== *)
theory Common
  imports Key CtrlChannel
begin

section \<open>Command line options (src/src/swtpm/common.c, server.c, tpmstate.c)\<close>

text \<open>
  What the option arguments of the command line do to the settings that the rest of the model
  takes as records: keys, state directory, localities, startup flags, migration, profile, and the
  sockets of the control channel and the server. Files, descriptors and sockets are an
  environment; what a function removes or closes is listed in the order it happens.
\<close>

datatype effect = Unlinked string | Closed int

datatype fd_kind = FdBad | FdReg | FdSock | FdOther

record common_env =
  ce_opt :: option_env
  ce_open :: open_file
  ce_fd :: "int \<Rightarrow> read_result list"
  ce_fstat :: "int \<Rightarrow> fd_kind"
  ce_kdf :: kdf_lib
  ce_strdup :: "string \<Rightarrow> bool"
  ce_file_contents :: "string \<Rightarrow> bytes option"
  ce_remove_fips :: "string \<Rightarrow> bool \<Rightarrow> string option"
  ce_TPM_PORT :: "int option"
  sk_socket :: int
  sk_setsockopt :: bool
  sk_bind :: bool
  sk_chmod :: bool
  sk_chown :: bool
  sk_listen :: bool
  sk_inet_pton :: "string \<Rightarrow> bool"
  sk_linklocal :: "string \<Rightarrow> bool"
  sk_ifindex :: "string \<Rightarrow> bool"

definition desc :: "(string \<times> OptionType) list \<Rightarrow> OptionDesc list" where
  "desc l = map (\<lambda>(n, t). \<lparr>d_name = n, d_type = t\<rparr>) l"

definition key_opt_desc :: "OptionDesc list" where
  "key_opt_desc = desc [(''file'', OPT_TYPE_STRING), (''mode'', OPT_TYPE_STRING),
     (''format'', OPT_TYPE_STRING), (''remove'', OPT_TYPE_BOOLEAN), (''pwdfile'', OPT_TYPE_STRING),
     (''kdf'', OPT_TYPE_STRING), (''fd'', OPT_TYPE_INT), (''pwdfd'', OPT_TYPE_INT)]"

definition pid_opt_desc :: "OptionDesc list" where
  "pid_opt_desc = desc [(''file'', OPT_TYPE_STRING), (''fd'', OPT_TYPE_INT)]"

definition tpmstate_opt_desc :: "OptionDesc list" where
  "tpmstate_opt_desc = desc [(''dir'', OPT_TYPE_STRING), (''mode'', OPT_TYPE_MODE_T),
     (''backend-uri'', OPT_TYPE_STRING), (''lock'', OPT_TYPE_BOOLEAN), (''backup'', OPT_TYPE_BOOLEAN),
     (''fsync'', OPT_TYPE_BOOLEAN)]"

definition ctrl_opt_desc :: "OptionDesc list" where
  "ctrl_opt_desc = desc [(''type'', OPT_TYPE_STRING), (''path'', OPT_TYPE_STRING), (''port'', OPT_TYPE_INT),
     (''bindaddr'', OPT_TYPE_STRING), (''ifname'', OPT_TYPE_STRING), (''fd'', OPT_TYPE_INT),
     (''clientfd'', OPT_TYPE_INT), (''mode'', OPT_TYPE_MODE_T), (''uid'', OPT_TYPE_UID_T),
     (''gid'', OPT_TYPE_GID_T), (''terminate'', OPT_TYPE_BOOLEAN)]"

definition server_opt_desc :: "OptionDesc list" where
  "server_opt_desc = desc [(''type'', OPT_TYPE_STRING), (''path'', OPT_TYPE_STRING), (''port'', OPT_TYPE_INT),
     (''bindaddr'', OPT_TYPE_STRING), (''ifname'', OPT_TYPE_STRING), (''fd'', OPT_TYPE_INT),
     (''disconnect'', OPT_TYPE_BOOLEAN), (''mode'', OPT_TYPE_MODE_T), (''uid'', OPT_TYPE_UID_T),
     (''gid'', OPT_TYPE_GID_T)]"

definition locality_opt_desc :: "OptionDesc list" where
  "locality_opt_desc = desc [(''reject-locality-4'', OPT_TYPE_BOOLEAN), (''allow-set-locality'', OPT_TYPE_BOOLEAN)]"

definition flags_opt_desc :: "OptionDesc list" where
  "flags_opt_desc = desc [(''not-need-init'', OPT_TYPE_BOOLEAN), (''startup-none'', OPT_TYPE_BOOLEAN),
     (''startup-clear'', OPT_TYPE_BOOLEAN), (''startup-state'', OPT_TYPE_BOOLEAN),
     (''startup-deactivated'', OPT_TYPE_BOOLEAN), (''disable-auto-shutdown'', OPT_TYPE_BOOLEAN)]"

definition seccomp_opt_desc :: "OptionDesc list" where
  "seccomp_opt_desc = desc [(''action'', OPT_TYPE_STRING)]"

definition migration_opt_desc :: "OptionDesc list" where
  "migration_opt_desc = desc [(''incoming'', OPT_TYPE_BOOLEAN), (''release-lock-outgoing'', OPT_TYPE_BOOLEAN)]"

definition profile_opt_desc :: "OptionDesc list" where
  "profile_opt_desc = desc [(''name'', OPT_TYPE_STRING), (''profile'', OPT_TYPE_STRING), (''file'', OPT_TYPE_STRING),
     (''fd'', OPT_TYPE_INT), (''remove-disabled'', OPT_TYPE_STRING)]"

subsection \<open>Keys\<close>

text \<open>The key from the first of the four sources that is given.\<close>

definition load_option_key ::
  "common_env \<Rightarrow> OptionValue list \<Rightarrow> key_format \<Rightarrow> nat \<Rightarrow> bytes option"
where
  "load_option_key env ovs keyformat mode_keylength =
     (let keyfile = option_get_string ovs ''file'' None;
          keyfile_fd = option_get_int ovs ''fd'' (-1);
          pwdfile = option_get_string ovs ''pwdfile'' None;
          pwdfile_fd = option_get_int ovs ''pwdfd'' (-1)
      in case keyfile of
           Some f \<Rightarrow> key_load_key (ce_open env) f keyformat mode_keylength
         | None \<Rightarrow>
             if keyfile_fd \<ge> 0 then key_load_key_fd (ce_fd env keyfile_fd) keyformat mode_keylength
             else
               case option_get_string ovs ''kdf'' (Some ''pbkdf2'') of
                 None \<Rightarrow> None
               | Some kdf \<Rightarrow>
                   let kdfid = kdf_identifier_from_string kdf in
                   if kdfid = KDF_IDENTIFIER_UNKNOWN then None
                   else case pwdfile of
                     Some f \<Rightarrow> key_from_pwdfile (ce_kdf env) (ce_open env) f mode_keylength kdfid
                   | None \<Rightarrow> key_from_pwdfile_fd (ce_kdf env) (ce_fd env pwdfile_fd) mode_keylength kdfid)"

definition key_from_options ::
  "common_env \<Rightarrow> OptionValue list \<Rightarrow> nat \<Rightarrow> (bytes \<times> encryption_mode) option"
where
  "key_from_options env ovs maxkeylen =
     (if option_get_string ovs ''file'' None = None \<and> option_get_int ovs ''fd'' (-1) = -1 \<and>
         option_get_string ovs ''pwdfile'' None = None \<and> option_get_int ovs ''pwdfd'' (-1) = -1
      then None
      else
        let keyformat = key_format_from_string
              (case option_get_string ovs ''format'' None of None \<Rightarrow> ''hex'' | Some t \<Rightarrow> t)
        in if keyformat = KEY_FORMAT_UNKNOWN then None
           else case encryption_mode_from_string
                  (case option_get_string ovs ''mode'' None of None \<Rightarrow> ''aes-128-cbc'' | Some t \<Rightarrow> t) of
             (encmode, None) \<Rightarrow> None
           | (encmode, Some mode_keylength) \<Rightarrow>
               if mode_keylength > maxkeylen then None
               else map_option (\<lambda>key. (key, encmode)) (load_option_key env ovs keyformat mode_keylength))"

definition parse_key_options ::
  "common_env \<Rightarrow> string \<Rightarrow> nat \<Rightarrow> (bytes \<times> encryption_mode) option \<times> effect list"
where
  "parse_key_options env options maxkeylen =
     (case options_parse (ce_opt env) options key_opt_desc of
        Inl e \<Rightarrow> (None, [])
      | Inr ovs \<Rightarrow>
          let r = key_from_options env ovs maxkeylen;
              files = [option_get_string ovs ''file'' None, option_get_string ovs ''pwdfile'' None];
              fds = [option_get_int ovs ''fd'' (-1), option_get_int ovs ''pwdfd'' (-1)];
              unlinked = (if r \<noteq> None \<and> option_get_bool ovs ''remove'' False
                          then map (Unlinked \<circ> the) (filter (\<lambda>f. f \<noteq> None) files) else [])
          in (r, unlinked @ map Closed (filter (\<lambda>fd. fd \<ge> 0) fds)))"

definition handle_key_options ::
  "common_env \<Rightarrow> nvram_globals \<Rightarrow> string option \<Rightarrow> int \<times> nvram_globals \<times> effect list"
where
  "handle_key_options env g options =
     (case options of
        None \<Rightarrow> (0, g, [])
      | Some opts \<Rightarrow>
          (case parse_key_options env opts (256 div 8) of
             (None, fx) \<Rightarrow> (-1, g, fx)
           | (Some (key, encmode), fx) \<Rightarrow>
               (case SWTPM_NVRAM_Set_FileKey g key (length key) encmode of
                  (rc, g') \<Rightarrow> (if rc \<noteq> TPM_SUCCESS then -1 else 0, g', fx))))"

definition handle_migration_key_options ::
  "common_env \<Rightarrow> nvram_globals \<Rightarrow> string option \<Rightarrow> int \<times> nvram_globals \<times> effect list"
where
  "handle_migration_key_options env g options =
     (case options of
        None \<Rightarrow> (0, g, [])
      | Some opts \<Rightarrow>
          (case parse_key_options env opts (256 div 8) of
             (None, fx) \<Rightarrow> (-1, g, fx)
           | (Some (key, encmode), fx) \<Rightarrow>
               (case SWTPM_NVRAM_Set_MigrationKey g key (length key) encmode of
                  (rc, g') \<Rightarrow> (if rc \<noteq> TPM_SUCCESS then -1 else 0, g', fx))))"

subsection \<open>State directory\<close>

record tpmstate_options =
  to_dir :: "string option"
  to_mode :: u32
  to_mode_is_default :: bool
  to_backend_uri :: "string option"
  to_locking :: bool
  to_backup :: bool
  to_fsync :: bool

definition parse_tpmstate_options :: "common_env \<Rightarrow> string \<Rightarrow> tpmstate_options option" where
  "parse_tpmstate_options env options =
     (case options_parse (ce_opt env) options tpmstate_opt_desc of
        Inl e \<Rightarrow> None
      | Inr ovs \<Rightarrow>
          let mode = option_get_mode_t ovs ''mode'' 512;
              is_default = (mode = 512);
              opts = (\<lambda>dir uri lock_default.
                \<lparr>to_dir = dir, to_mode = (if is_default then 416 else mode), to_mode_is_default = is_default,
                 to_backend_uri = uri, to_locking = option_get_bool ovs ''lock'' lock_default,
                 to_backup = option_get_bool ovs ''backup'' False, to_fsync = option_get_bool ovs ''fsync'' False\<rparr>)
          in case option_get_string ovs ''dir'' None of
               Some dir \<Rightarrow> if ce_strdup env dir then Some (opts (Some dir) None True) else None
             | None \<Rightarrow>
                 (case option_get_string ovs ''backend-uri'' None of
                    Some uri \<Rightarrow>
                      if ce_strdup env uri
                      then Some (opts None (Some uri) (take 7 uri \<noteq> ''file://'')) else None
                  | None \<Rightarrow> None))"

definition tpmstate_set_backend_uri :: "common_env \<Rightarrow> tpmstate \<Rightarrow> string \<Rightarrow> int \<times> tpmstate" where
  "tpmstate_set_backend_uri env ts uri =
     (if ce_strdup env uri then (0, ts\<lparr>g_backend_uri := Some uri\<rparr>) else (-1, ts\<lparr>g_backend_uri := None\<rparr>))"

definition handle_tpmstate_options :: "common_env \<Rightarrow> tpmstate \<Rightarrow> string option \<Rightarrow> int \<times> tpmstate" where
  "handle_tpmstate_options env ts options =
     (case options of
        None \<Rightarrow> (0, ts)
      | Some opts \<Rightarrow>
          (case parse_tpmstate_options env opts of
             None \<Rightarrow> (-1, ts)
           | Some t \<Rightarrow>
               let uri = (case to_dir t of Some dir \<Rightarrow> ''dir://'' @ dir | None \<Rightarrow> the (to_backend_uri t)) in
               if to_dir t \<noteq> None \<and> \<not> ce_strdup env uri then (-1, ts)
               else case tpmstate_set_backend_uri env ts uri of
                 (rc, ts') \<Rightarrow>
                   if rc < 0 then (-1, ts')
                   else (0, ts'\<lparr>g_tpmstate_mode := to_mode t, g_tpmstate_mode_is_default := to_mode_is_default t,
                               g_tpmstate_do_locking := to_locking t, g_tpmstate_make_backup := to_backup t,
                               g_tpmstate_do_fsync := to_fsync t\<rparr>)))"

subsection \<open>Localities, flags, migration, seccomp\<close>

definition parse_locality_options :: "common_env \<Rightarrow> string \<Rightarrow> u32 \<Rightarrow> u32 option" where
  "parse_locality_options env options flags =
     (case options_parse (ce_opt env) options locality_opt_desc of
        Inl e \<Rightarrow> None
      | Inr ovs \<Rightarrow>
          Some (flags OR
            (if option_get_bool ovs ''reject-locality-4'' False then LOCALITY_FLAG_REJECT_LOCALITY_4 else 0) OR
            (if option_get_bool ovs ''allow-set-locality'' False then LOCALITY_FLAG_ALLOW_SETLOCALITY else 0)))"

definition handle_locality_options :: "common_env \<Rightarrow> string option \<Rightarrow> int \<times> u32" where
  "handle_locality_options env options =
     (case options of
        None \<Rightarrow> (0, 0)
      | Some opts \<Rightarrow>
          (case parse_locality_options env opts 0 of None \<Rightarrow> (-1, 0) | Some flags \<Rightarrow> (0, flags)))"

record flags_options =
  need_init_cmd :: bool
  fo_startupType :: u16
  fo_disable_auto_shutdown :: bool

definition parse_flags_options :: "common_env \<Rightarrow> string \<Rightarrow> flags_options \<Rightarrow> flags_options option" where
  "parse_flags_options env options f =
     (case options_parse (ce_opt env) options flags_opt_desc of
        Inl e \<Rightarrow> None
      | Inr ovs \<Rightarrow>
          let b = (\<lambda>n. option_get_bool ovs n False);
              st = (if b ''startup-clear'' then TPM_ST_CLEAR
                    else if b ''startup-state'' then TPM_ST_STATE
                    else if b ''startup-deactivated'' then TPM_ST_DEACTIVATED
                    else if b ''startup-none'' then 0 else fo_startupType f)
          in Some \<lparr>need_init_cmd = need_init_cmd f \<and> \<not> b ''not-need-init'' \<and> st = 0,
                   fo_startupType = st,
                   fo_disable_auto_shutdown = (fo_disable_auto_shutdown f \<or> b ''disable-auto-shutdown'')\<rparr>)"

definition handle_flags_options :: "common_env \<Rightarrow> string option \<Rightarrow> flags_options \<Rightarrow> int \<times> flags_options" where
  "handle_flags_options env options f =
     (case options of
        None \<Rightarrow> (0, f)
      | Some opts \<Rightarrow>
          (case parse_flags_options env opts f of None \<Rightarrow> (-1, f) | Some f' \<Rightarrow> (0, f')))"

text \<open>The two flags \<open>incoming_migration\<close> and \<open>release_lock_outgoing\<close>.\<close>

definition parse_migration_options :: "common_env \<Rightarrow> string \<Rightarrow> (bool \<times> bool) option" where
  "parse_migration_options env options =
     (case options_parse (ce_opt env) options migration_opt_desc of
        Inl e \<Rightarrow> None
      | Inr ovs \<Rightarrow>
          Some (option_get_bool ovs ''incoming'' False, option_get_bool ovs ''release-lock-outgoing'' False))"

definition handle_migration_options :: "common_env \<Rightarrow> string option \<Rightarrow> bool \<times> bool \<Rightarrow> int \<times> bool \<times> bool" where
  "handle_migration_options env options m =
     (case options of
        None \<Rightarrow> (0, False, snd m)
      | Some opts \<Rightarrow>
          (case parse_migration_options env opts of None \<Rightarrow> (-1, False, snd m) | Some m' \<Rightarrow> (0, m')))"

abbreviation SWTPM_SECCOMP_ACTION_KILL :: u32 where "SWTPM_SECCOMP_ACTION_KILL \<equiv> 1"
abbreviation SWTPM_SECCOMP_ACTION_LOG :: u32 where "SWTPM_SECCOMP_ACTION_LOG \<equiv> 2"
abbreviation SWTPM_SECCOMP_ACTION_NONE :: u32 where "SWTPM_SECCOMP_ACTION_NONE \<equiv> 3"

definition parse_seccomp_options :: "common_env \<Rightarrow> string \<Rightarrow> u32 option" where
  "parse_seccomp_options env options =
     (case options_parse (ce_opt env) options seccomp_opt_desc of
        Inl e \<Rightarrow> None
      | Inr ovs \<Rightarrow>
          let action = option_get_string ovs ''action'' (Some ''kill'') in
          if action = Some ''kill'' then Some SWTPM_SECCOMP_ACTION_KILL
          else if action = Some ''log'' then Some SWTPM_SECCOMP_ACTION_LOG
          else if action = Some ''none'' then Some SWTPM_SECCOMP_ACTION_NONE
          else None)"

definition handle_seccomp_options :: "common_env \<Rightarrow> string option \<Rightarrow> int \<times> u32" where
  "handle_seccomp_options env options =
     (case options of
        None \<Rightarrow> (0, SWTPM_SECCOMP_ACTION_KILL)
      | Some opts \<Rightarrow>
          (case parse_seccomp_options env opts of
             None \<Rightarrow> (-1, SWTPM_SECCOMP_ACTION_KILL)
           | Some action \<Rightarrow> (0, action)))"

subsection \<open>PID file\<close>

record pid_options =
  pidfile :: "string option"
  pidfilefd :: int

definition parse_pid_options :: "common_env \<Rightarrow> string \<Rightarrow> pid_options option \<times> effect list" where
  "parse_pid_options env options =
     (case options_parse (ce_opt env) options pid_opt_desc of
        Inl e \<Rightarrow> (None, [])
      | Inr ovs \<Rightarrow>
          let filename = option_get_string ovs ''file'' None;
              fd = option_get_int ovs ''fd'' (-1);
              err = (None, if fd \<ge> 0 then [Closed fd] else [])
          in case filename of
               None \<Rightarrow>
                 if fd < 0 then err
                 else if ce_fstat env fd \<noteq> FdReg then err
                 else (Some \<lparr>pidfile = None, pidfilefd = fd\<rparr>, [])
             | Some f \<Rightarrow>
                 if ce_strdup env f then (Some \<lparr>pidfile = Some f, pidfilefd = fd\<rparr>, []) else err)"

text \<open>The globals of pidfile.c after the option: the name, or the descriptor.\<close>

definition handle_pid_options ::
  "common_env \<Rightarrow> pid_options \<Rightarrow> string option \<Rightarrow> int \<times> pid_options \<times> effect list"
where
  "handle_pid_options env g options =
     (case options of
        None \<Rightarrow> (0, g, [])
      | Some opts \<Rightarrow>
          (case parse_pid_options env opts of
             (None, fx) \<Rightarrow> (-1, g, fx)
           | (Some p, fx) \<Rightarrow>
               (case pidfile p of
                  Some f \<Rightarrow>
                    (if ce_strdup env f then 0 else -1,
                     g\<lparr>pidfile := if ce_strdup env f then Some f else None\<rparr>,
                     fx @ (if pidfilefd p \<ge> 0 then [Closed (pidfilefd p)] else []))
                | None \<Rightarrow> (0, if pidfilefd p \<ge> 0 then g\<lparr>pidfilefd := pidfilefd p\<rparr> else g, fx))))"

subsection \<open>Profile\<close>

text \<open>\<open>g_strstrip\<close>: without white space at both ends.\<close>

definition g_strstrip :: "string \<Rightarrow> string" where
  "g_strstrip s = rev (dropWhile isspace (rev (dropWhile isspace s)))"

text \<open>
  The profile before the algorithms disabled by FIPS mode are removed. The test that only one
  parameter is given counts the descriptor on the wrong side of the comparison.
\<close>

definition profile_source :: "common_env \<Rightarrow> OptionValue list \<Rightarrow> string option" where
  "profile_source env ovs =
     (let profile = option_get_string ovs ''profile'' None;
          name = option_get_string ovs ''name'' None;
          filename = option_get_string ovs ''file'' None;
          profilefd = option_get_int ovs ''fd'' (-1);
          b = (\<lambda>x. if x then 1 else 0 :: nat)
      in if b (profile \<noteq> None) + b (name \<noteq> None) + b (filename \<noteq> None) > 1 + b (profilefd \<ge> 0) then None
         else case profile of
           Some p \<Rightarrow> if ce_strdup env p then Some p else None
         | None \<Rightarrow>
         (case name of
            Some n \<Rightarrow>
              (let p = ''{'' @ [CHR 0x22] @ ''Name'' @ [CHR 0x22] @ '':'' @ [CHR 0x22] @ n @ [CHR 0x22] @ ''}'' in
               if ce_strdup env p then Some p else None)
          | None \<Rightarrow>
          (case filename of
             Some f \<Rightarrow>
               (case ce_file_contents env f of
                  None \<Rightarrow> None
                | Some d \<Rightarrow> if ce_strdup env (c_string d) then Some (c_string d) else None)
           | None \<Rightarrow>
               if profilefd \<ge> 0
               then map_option c_string (fst (read_eintr_fd (10 * 1024 - 1) (ce_fd env profilefd)))
               else None)))"

definition parse_profile_options :: "common_env \<Rightarrow> string \<Rightarrow> string option" where
  "parse_profile_options env options =
     (case options_parse (ce_opt env) options profile_opt_desc of
        Inl e \<Rightarrow> None
      | Inr ovs \<Rightarrow>
          (case profile_source env ovs of
             None \<Rightarrow> None
           | Some p \<Rightarrow>
               let p' = g_strstrip p in
               case option_get_string ovs ''remove-disabled'' None of
                 None \<Rightarrow> Some p'
               | Some r \<Rightarrow>
                   if r = ''check'' then ce_remove_fips env p' False
                   else if r = ''fips-host'' then ce_remove_fips env p' True
                   else None))"

definition handle_profile_options :: "common_env \<Rightarrow> string option \<Rightarrow> int \<times> string option" where
  "handle_profile_options env options =
     (case options of
        None \<Rightarrow> (0, None)
      | Some opts \<Rightarrow>
          (case parse_profile_options env opts of None \<Rightarrow> (-1, None) | Some p \<Rightarrow> (0, Some p)))"

subsection \<open>Sockets\<close>

text \<open>The descriptor, or -1; the path of a Unix socket is removed first.\<close>

definition unixio_open_socket :: "common_env \<Rightarrow> string \<Rightarrow> u32 \<Rightarrow> u32 \<Rightarrow> u32 \<Rightarrow> int \<times> effect list" where
  "unixio_open_socket env path perm uid gid =
     (if length path \<ge> 108 then (-1, [])
      else if sk_socket env < 0 then (-1, [Unlinked path])
      else if sk_bind env \<and> sk_chmod env \<and> (uid = -1 \<and> gid = -1 \<or> sk_chown env) \<and> sk_listen env
      then (sk_socket env, [Unlinked path])
      else (-1, [Unlinked path, Closed (sk_socket env)]))"

definition tcp_open_socket :: "common_env \<Rightarrow> u16 \<Rightarrow> string \<Rightarrow> string option \<Rightarrow> int \<times> effect list" where
  "tcp_open_socket env port bindaddr ifname =
     (let ipv6 = (CHR '':'' \<in> set bindaddr) in
      if \<not> sk_inet_pton env bindaddr then (-1, [])
      else if ipv6 \<and> sk_linklocal env bindaddr \<and> (case ifname of None \<Rightarrow> True | Some i \<Rightarrow> \<not> sk_ifindex env i)
      then (-1, [])
      else if sk_socket env < 0 then (-1, [])
      else if sk_setsockopt env \<and> sk_bind env \<and> sk_listen env then (sk_socket env, [])
      else (-1, [Closed (sk_socket env)]))"

record ctrlchannel =
  cc_fd :: int
  cc_clientfd :: int
  cc_sockpath :: "string option"

definition ctrlchannel_new :: "common_env \<Rightarrow> int \<Rightarrow> bool \<Rightarrow> string option \<Rightarrow> ctrlchannel option" where
  "ctrlchannel_new env fd is_client sockpath =
     (if (case sockpath of None \<Rightarrow> False | Some p \<Rightarrow> \<not> ce_strdup env p) then None
      else Some \<lparr>cc_fd = (if is_client then -1 else fd), cc_clientfd = (if is_client then fd else -1),
                 cc_sockpath = sockpath\<rparr>)"

abbreviation MAIN_LOOP_FLAG_CTRL_END_ON_HUP' :: u32 where "MAIN_LOOP_FLAG_CTRL_END_ON_HUP' \<equiv> 16"

text \<open>The control channel the options describe; no effects but those of opening a socket.\<close>

definition ctrlchannel_from_options :: "common_env \<Rightarrow> OptionValue list \<Rightarrow> ctrlchannel option \<times> effect list" where
  "ctrlchannel_from_options env ovs =
     (let fd = option_get_int ovs ''fd'' (-1) in
      case option_get_string ovs ''type'' None of
        None \<Rightarrow> (None, [])
      | Some t \<Rightarrow>
          if t = ''unixio'' then
            (let clientfd = option_get_int ovs ''clientfd'' (-1) in
             if fd \<ge> 0 then
               (if ce_fstat env fd \<noteq> FdSock then None else ctrlchannel_new env fd False None, [])
             else if clientfd \<ge> 0 then
               (if ce_fstat env clientfd \<noteq> FdSock then None else ctrlchannel_new env clientfd True None, [])
             else case option_get_string ovs ''path'' None of
               None \<Rightarrow> (None, [])
             | Some path \<Rightarrow>
                 (case unixio_open_socket env path (option_get_mode_t ovs ''mode'' 504)
                         (option_get_uid_t ovs ''uid'' (-1)) (option_get_gid_t ovs ''gid'' (-1)) of
                    (s, fx) \<Rightarrow> (if s < 0 then None else ctrlchannel_new env s False (Some path), fx)))
          else if t = ''tcp'' then
            (let port = option_get_int ovs ''port'' (-1) in
             if fd \<ge> 0 then
               (if ce_fstat env fd \<noteq> FdSock then None else ctrlchannel_new env fd False None, [])
             else if port \<ge> 0 then
               (if port \<ge> 0x10000 then (None, [])
                else case tcp_open_socket env (of_int port)
                       (the (option_get_string ovs ''bindaddr'' (Some ''127.0.0.1'')))
                       (option_get_string ovs ''ifname'' None) of
                  (s, fx) \<Rightarrow> (if s < 0 then None else ctrlchannel_new env s False None, fx))
             else (None, []))
          else (None, []))"

text \<open>Called with \<open>*cc\<close> NULL, which is what is left of it when there is no option or an error.\<close>

definition parse_ctrlchannel_options ::
  "common_env \<Rightarrow> string \<Rightarrow> u32 \<Rightarrow> int \<times> ctrlchannel option \<times> u32 \<times> effect list"
where
  "parse_ctrlchannel_options env options mainloop_flags =
     (case options_parse (ce_opt env) options ctrl_opt_desc of
        Inl e \<Rightarrow> (-1, None, mainloop_flags, [])
      | Inr ovs \<Rightarrow>
          (case ctrlchannel_from_options env ovs of
             (None, fx) \<Rightarrow> (-1, None, mainloop_flags, fx)
           | (Some c, fx) \<Rightarrow>
               (0, Some c,
                if option_get_bool ovs ''terminate'' False
                then mainloop_flags OR MAIN_LOOP_FLAG_CTRL_END_ON_HUP' else mainloop_flags, fx)))"

definition handle_ctrlchannel_options ::
  "common_env \<Rightarrow> string option \<Rightarrow> u32 \<Rightarrow> int \<times> ctrlchannel option \<times> u32 \<times> effect list"
where
  "handle_ctrlchannel_options env options mainloop_flags =
     (case options of
        None \<Rightarrow> (0, None, mainloop_flags, [])
      | Some opts \<Rightarrow> parse_ctrlchannel_options env opts mainloop_flags)"

record server =
  sv_fd :: int
  sv_flags :: u32
  sv_sockpath :: "string option"

abbreviation SERVER_FLAG_DISCONNECT :: u32 where "SERVER_FLAG_DISCONNECT \<equiv> 1"
abbreviation SERVER_FLAG_FD_GIVEN :: u32 where "SERVER_FLAG_FD_GIVEN \<equiv> 2"

definition server_new :: "common_env \<Rightarrow> int \<Rightarrow> u32 \<Rightarrow> string option \<Rightarrow> server option" where
  "server_new env fd flags sockpath =
     (if (case sockpath of None \<Rightarrow> False | Some p \<Rightarrow> \<not> ce_strdup env p) then None
      else Some \<lparr>sv_fd = fd, sv_flags = flags, sv_sockpath = sockpath\<rparr>)"

definition server_from_options :: "common_env \<Rightarrow> OptionValue list \<Rightarrow> server option \<times> effect list" where
  "server_from_options env ovs =
     (let fd = option_get_int ovs ''fd'' (-1);
          flags = (if option_get_bool ovs ''disconnect'' False then SERVER_FLAG_DISCONNECT else 0);
          t = the (option_get_string ovs ''type'' (Some ''tcp''))
      in if t = ''unixio'' then
           (if fd \<ge> 0 then (if ce_fstat env fd \<noteq> FdSock then None else server_new env fd flags None, [])
            else case option_get_string ovs ''path'' None of
              None \<Rightarrow> (None, [])
            | Some path \<Rightarrow>
                (case unixio_open_socket env path (option_get_mode_t ovs ''mode'' 504)
                        (option_get_uid_t ovs ''uid'' (-1)) (option_get_gid_t ovs ''gid'' (-1)) of
                   (s, fx) \<Rightarrow> (if s < 0 then None else server_new env s flags (Some path), fx)))
         else if t = ''tcp'' then
           (if fd \<ge> 0 then
              (if ce_fstat env fd \<noteq> FdSock then None else server_new env fd (flags OR SERVER_FLAG_FD_GIVEN) None, [])
            else
              let p = option_get_int ovs ''port'' (-1);
                  port = (if p = -1 then ce_TPM_PORT env else Some p)
              in case port of
                   None \<Rightarrow> (None, [])
                 | Some port \<Rightarrow>
                     if port < 0 \<or> port \<ge> 0x10000 then (None, [])
                     else case tcp_open_socket env (of_int port)
                            (the (option_get_string ovs ''bindaddr'' (Some ''127.0.0.1'')))
                            (option_get_string ovs ''ifname'' None) of
                       (s, fx) \<Rightarrow> (if s < 0 then None else server_new env s flags None, fx))
         else (None, []))"

definition parse_server_options :: "common_env \<Rightarrow> string \<Rightarrow> int \<times> server option \<times> effect list" where
  "parse_server_options env options =
     (case options_parse (ce_opt env) options server_opt_desc of
        Inl e \<Rightarrow> (-1, None, [])
      | Inr ovs \<Rightarrow>
          (case server_from_options env ovs of
             (None, fx) \<Rightarrow> (-1, None, fx)
           | (Some s, fx) \<Rightarrow> (0, Some s, fx)))"

definition handle_server_options ::
  "common_env \<Rightarrow> string option \<Rightarrow> server option \<Rightarrow> int \<times> server option \<times> effect list"
where
  "handle_server_options env options c =
     (case options of None \<Rightarrow> (0, c, []) | Some opts \<Rightarrow> parse_server_options env opts)"

subsection \<open>Properties\<close>

lemma Set_FileKey_wf:
  assumes "globals_wf g" "SWTPM_NVRAM_Set_FileKey g key (length key) m = (rc, g')"
  shows "globals_wf g'" "rc = 0 \<Longrightarrow> SWTPM_NVRAM_Has_FileKey g' \<and> SWTPM_NVRAM_FileKey_Size g' = length key"
    "rc \<noteq> 0 \<Longrightarrow> g' = g"
  using assms set_key_wf [of "filekey g" "length key" m key]
  by (auto simp: SWTPM_NVRAM_Set_FileKey_def globals_wf_def Let_def SWTPM_NVRAM_Has_FileKey_def
      SWTPM_NVRAM_FileKey_Size_def set_key_def SWTPM_NVRAM_KeyParamCheck_def split: if_splits encryption_mode.splits)

lemma Set_MigrationKey_wf:
  assumes "globals_wf g" "SWTPM_NVRAM_Set_MigrationKey g key (length key) m = (rc, g')"
  shows "globals_wf g'" "rc = 0 \<Longrightarrow> SWTPM_NVRAM_Has_MigrationKey g' \<and> SWTPM_NVRAM_MigrationKey_Size g' = length key"
    "rc \<noteq> 0 \<Longrightarrow> g' = g"
  using assms set_key_wf [of "migrationkey g" "length key" m key]
  by (auto simp: SWTPM_NVRAM_Set_MigrationKey_def globals_wf_def Let_def SWTPM_NVRAM_Has_MigrationKey_def
      SWTPM_NVRAM_MigrationKey_Size_def set_key_def SWTPM_NVRAM_KeyParamCheck_def split: if_splits encryption_mode.splits)

text \<open>
  C33. Every key option leaves keys that the NVRAM layer can use: whatever the option string and the
  content it names hold, afterwards the key records are well-formed; with result 0 the file key is set
  with 128 or 256 bits, and otherwise the keys are as before and no key file was removed unless a key was read from it.
\<close>

theorem key_options_keep_globals:
  assumes "globals_wf g" "handle_key_options env g (Some opts) = (r, g', fx)"
  shows "globals_wf g' \<and>
    (r = 0 \<longrightarrow> SWTPM_NVRAM_Has_FileKey g' \<and> SWTPM_NVRAM_FileKey_Size g' \<in> {16, 32}) \<and>
    (r \<noteq> 0 \<longrightarrow> g' = g) \<and>
    (fst (parse_key_options env opts 32) = None \<longrightarrow> (\<forall>f. Unlinked f \<notin> set fx))"
proof (cases "fst (parse_key_options env opts 32)")
  case None
  then have p: "parse_key_options env opts 32 = (None, fx)" "r = -1" "g' = g"
    using assms(2) by (auto simp: handle_key_options_def split: prod.splits option.splits)
  then have "\<forall>f. Unlinked f \<notin> set fx"
    by (auto simp: parse_key_options_def Let_def split: sum.splits if_splits)
  then show ?thesis using p assms(1) by simp
next
  case (Some km)
  obtain key m where km: "km = (key, m)" by fastforce
  obtain rc where s: "SWTPM_NVRAM_Set_FileKey g key (length key) m = (rc, g')" and r: "r = (if rc \<noteq> 0 then -1 else 0)"
    using assms(2) Some km by (auto simp: handle_key_options_def split: prod.splits option.splits)
  note wf = Set_FileKey_wf [OF assms(1) s]
  have "rc = 0 \<Longrightarrow> SWTPM_NVRAM_FileKey_Size g' \<in> {16, 32}"
    using wf(2) s by (auto simp: SWTPM_NVRAM_Set_FileKey_def SWTPM_NVRAM_KeyParamCheck_def Let_def
        split: if_splits encryption_mode.splits)
  then show ?thesis using wf r Some by simp
qed

definition example_common :: "(string \<Rightarrow> bytes option) \<Rightarrow> common_env" where
  "example_common content =
     \<lparr>ce_opt = example_env, ce_open = (\<lambda>f. map_option (\<lambda>d. [RdBytes d]) (content f)), ce_fd = (\<lambda>fd. [RdErr]),
      ce_fstat = (\<lambda>fd. FdBad), ce_kdf = example_kdf, ce_strdup = (\<lambda>s. True), ce_file_contents = content,
      ce_remove_fips = (\<lambda>p f. None), ce_TPM_PORT = None, sk_socket = -1, sk_setsockopt = True, sk_bind = True,
      sk_chmod = True, sk_chown = True, sk_listen = True, sk_inet_pton = (\<lambda>a. True), sk_linklocal = (\<lambda>a. False),
      sk_ifindex = (\<lambda>i. False)\<rparr>"

lemma key_descs: "distinct (map d_name key_opt_desc)" "\<forall>d\<in>set key_opt_desc. opt_name_ok (d_name d)"
  by (simp_all add: key_opt_desc_def desc_def opt_name_ok_def)

text \<open>
  The length of a binary key is not checked against the mode: with mode \<open>aes-256-cbc\<close> a binary key file
  of 16 bytes is accepted, and the state is encrypted with a 128 bit key.
\<close>

theorem binary_key_downgrades:
  assumes "globals_wf g" "opt_value_ok f" "\<forall>n. opt_alloc (ce_opt env) n"
    and "ce_open env f = Some [RdBytes key]" "length key = 16"
  shows "\<exists>g' fx. handle_key_options env g (Some (''file='' @ f @ '',mode=aes-256-cbc,format=binary'')) = (0, g', fx) \<and>
    SWTPM_NVRAM_FileKey_Size g' = 16"
proof -
  let ?ws = "[(key_opt_desc ! 0, Some f), (key_opt_desc ! 1, Some ''aes-256-cbc''), (key_opt_desc ! 2, Some ''binary'')]"
  let ?ovs = "[\<lparr>o_name = ''file'', o_value = OptString f\<rparr>, \<lparr>o_name = ''mode'', o_value = OptString ''aes-256-cbc''\<rparr>,
      \<lparr>o_name = ''format'', o_value = OptString ''binary''\<rparr>]"
  have d: "key_opt_desc ! 0 \<in> set key_opt_desc" "key_opt_desc ! 1 \<in> set key_opt_desc" "key_opt_desc ! 2 \<in> set key_opt_desc"
    by (simp_all add: key_opt_desc_def desc_def)
  have "options_parse_from (ce_opt env) key_opt_desc [] (write_options ?ws) =
      map_sum id (\<lambda>vs. [] @ vs) (typed_values (ce_opt env) ?ws)"
    by (rule parse_written [OF key_descs assms(3)]) (use d assms(2) in \<open>auto simp: opt_value_ok_def split: if_splits\<close>)
  then have p: "options_parse (ce_opt env) (''file='' @ f @ '',mode=aes-256-cbc,format=binary'') key_opt_desc = Inr ?ovs"
    by (simp add: options_parse_def key_opt_desc_def desc_def option_value_parse_def written_value_def)
  have k: "key_from_options env ?ovs 32 = Some (key, ENCRYPTION_MODE_AES_CBC)"
    using assms(4,5)
    by (simp add: key_from_options_def load_option_key_def option_get_string_def option_get_int_def
        key_format_from_string_def encryption_mode_from_string_def key_load_key_def key_load_key_fd_def Let_def)
  obtain fx where "parse_key_options env (''file='' @ f @ '',mode=aes-256-cbc,format=binary'') 32 =
      (Some (key, ENCRYPTION_MODE_AES_CBC), fx)"
    using p k by (simp add: parse_key_options_def Let_def)
  moreover obtain g' where "SWTPM_NVRAM_Set_FileKey g key (length key) ENCRYPTION_MODE_AES_CBC = (0, g')"
    using assms(5) by (simp add: SWTPM_NVRAM_Set_FileKey_def SWTPM_NVRAM_KeyParamCheck_def Let_def)
  moreover note Set_FileKey_wf(2) [OF assms(1) this refl]
  ultimately show ?thesis using assms(5) by (simp add: handle_key_options_def)
qed

theorem binary_key_downgrades_witness:
  "\<exists>g' fx. handle_key_options (example_common (\<lambda>f. Some (replicate 16 7))) (example_globals 0 0)
      (Some ''file=/k,mode=aes-256-cbc,format=binary'') = (0, g', fx) \<and> SWTPM_NVRAM_FileKey_Size g' = 16"
  using binary_key_downgrades [of "example_globals 0 0" "''/k''" "example_common (\<lambda>f. Some (replicate 16 7))"
      "replicate 16 7"]
  by (simp add: example_globals_wf opt_value_ok_def example_common_def example_env_def)

theorem key_options_keep_globals_witness:
  "\<exists>g'. handle_key_options (example_common (\<lambda>f. Some (replicate 32 0x31))) (example_globals 0 0)
      (Some ''file=/k,remove'') = (0, g', [Unlinked ''/k'']) \<and> globals_wf g' \<and>
      SWTPM_NVRAM_Has_FileKey g'"
proof -
  let ?env = "example_common (\<lambda>f. Some (replicate 32 0x31))"
  obtain r g' fx where h: "handle_key_options ?env (example_globals 0 0) (Some ''file=/k,remove'') = (r, g', fx)"
    using prod_cases3 by blast
  have "fst (handle_key_options ?env (example_globals 0 0) (Some ''file=/k,remove'')) = 0"
    "snd (snd (handle_key_options ?env (example_globals 0 0) (Some ''file=/k,remove''))) = [Unlinked ''/k'']"
    by code_simp+
  then have "r = 0" "fx = [Unlinked ''/k'']" using h by simp_all
  then show ?thesis
    using key_options_keep_globals [OF _ h] h example_globals_wf [of 0 0] by simp
qed

end
