(* ===== verification/Pcap.thy ===== *)
theory Pcap
  imports Common
begin

section \<open>Packet capture (src/src/swtpm/pcap.c, --pcap of common.c)\<close>

text \<open>
  TPM commands and responses can be recorded in a pcapng file as the packets of a simulated TCP
  connection. The model is that of a little-endian host (a section header gives the byte
  order of the file). The file is the list of bytes that left the process; \<open>p_faults\<close> is
  what the coming \<open>write\<close> calls do, \<open>p_clock\<close> what the coming calls of \<open>clock_gettime\<close> return.
\<close>

subsection \<open>State and packets\<close>

record pcap_state =
  p_fd :: int
  p_flags :: u32
  cseq :: u32
  sseq :: u32
  cport :: u32
  tpmport :: u32
  p_clock :: "(u64 \<times> u64) option list"
  p_faults :: "fault list"
  p_malloc :: "nat \<Rightarrow> bool"
  p_file :: bytes

abbreviation PCAP_CHECKSUMS_F :: u32 where "PCAP_CHECKSUMS_F \<equiv> 1"
abbreviation TH_FIN :: byte where "TH_FIN \<equiv> 0x01"
abbreviation TH_SYN :: byte where "TH_SYN \<equiv> 0x02"
abbreviation TH_ACK :: byte where "TH_ACK \<equiv> 0x10"

text \<open>The fields of \<open>struct packet\<close> that are not constant.\<close>

record packet =
  block_total_length :: u32
  ts_hi :: u32
  ts_lo :: u32
  capture_len :: u32
  original_len :: u32
  ip_len :: u16
  ip_sum :: u16
  th_sport :: u16
  th_dport :: u16
  th_seq :: u32
  th_ack :: u32
  th_flags :: byte
  th_sum :: u16

definition epb_bytes :: "packet \<Rightarrow> bytes" where
  "epb_bytes p = htole32 6 @ htole32 (block_total_length p) @ htole32 0 @ htole32 (ts_hi p) @ htole32 (ts_lo p) @
     htole32 (capture_len p) @ htole32 (original_len p)"

definition eth_bytes :: bytes where
  "eth_bytes = replicate 12 0 @ htobe16 0x0800"

definition ip_bytes :: "packet \<Rightarrow> bytes" where
  "ip_bytes p = [0x45, 0x10] @ htobe16 (ip_len p) @ htobe16 0x069b @ htobe16 0x4000 @ [64, 6] @ htobe16 (ip_sum p) @
     htobe32 0x7f000001 @ htobe32 0x7f000001"

definition tcp_bytes :: "packet \<Rightarrow> bytes" where
  "tcp_bytes p = htobe16 (th_sport p) @ htobe16 (th_dport p) @ htobe32 (th_seq p) @ htobe32 (th_ack p) @
     [0x50, th_flags p] @ htobe16 0xffc4 @ htobe16 (th_sum p) @ htobe16 0"

definition packet_bytes :: "packet \<Rightarrow> bytes" where
  "packet_bytes p = epb_bytes p @ eth_bytes @ ip_bytes p @ tcp_bytes p"

abbreviation sizeof_packet :: nat where "sizeof_packet \<equiv> 82"
abbreviation hdrs_len :: nat where "hdrs_len \<equiv> 54"

subsection \<open>Checksums\<close>

fun calc_checksum :: "bytes \<Rightarrow> u32" where
  "calc_checksum [] = 0"
| "calc_checksum [a] = push_bit 8 (ucast a)"
| "calc_checksum (a # b # rest) = push_bit 8 (ucast a) + ucast b + calc_checksum rest"

text \<open>The carries are added once.\<close>

definition fold_check :: "u32 \<Rightarrow> u16" where
  "fold_check check = ucast (NOT ((check AND 0xffff) + drop_bit 16 check))"

definition calc_ip_checksum :: "packet \<Rightarrow> packet" where
  "calc_ip_checksum p =
     p\<lparr>ip_sum := fold_check (calc_checksum (ip_bytes (p\<lparr>ip_sum := 0\<rparr>)))\<rparr>"

definition pseudo_header :: "nat \<Rightarrow> bytes" where
  "pseudo_header payload_len =
     htobe32 0x7f000001 @ htobe32 0x7f000001 @ [0, 6] @ htobe16 (of_nat (20 + payload_len))"

definition calc_tcp_checksum :: "packet \<Rightarrow> bytes \<Rightarrow> packet" where
  "calc_tcp_checksum p payload =
     p\<lparr>th_sum := fold_check (calc_checksum (pseudo_header (length payload)) +
         calc_checksum (tcp_bytes (p\<lparr>th_sum := 0\<rparr>)) + calc_checksum payload)\<rparr>"

definition calc_checksums :: "pcap_state \<Rightarrow> packet \<Rightarrow> bytes \<Rightarrow> packet" where
  "calc_checksums ps p payload =
     (if p_flags ps AND PCAP_CHECKSUMS_F \<noteq> 0 then calc_ip_checksum (calc_tcp_checksum p payload) else p)"

subsection \<open>Writing\<close>

text \<open>\<open>write_full\<close> and \<open>writev_full\<close> on the file: whether all was written.\<close>

definition file_append :: "pcap_state \<Rightarrow> bytes \<Rightarrow> bool \<times> pcap_state" where
  "file_append ps d =
     (case sock_write_full (p_faults ps) d of
        (ok, fs, out) \<Rightarrow> (ok, ps\<lparr>p_faults := fs, p_file := p_file ps @ out\<rparr>))"

definition file_appendv :: "pcap_state \<Rightarrow> bytes list \<Rightarrow> bool \<times> pcap_state" where
  "file_appendv ps iov =
     (case writev_full (p_malloc ps) (p_faults ps) iov of
        (n, fs, out) \<Rightarrow> (n \<noteq> None, ps\<lparr>p_faults := fs, p_file := p_file ps @ out\<rparr>))"

definition pcap_file_header_write :: "pcap_state \<Rightarrow> bool \<times> pcap_state" where
  "pcap_file_header_write ps =
     file_append ps (htole32 0x0a0d0d0a @ htole32 28 @ htole32 0x1a2b3c4d @ htole16 1 @ htole16 0 @ htole64 0 @ htole32 28)"

definition pcap_packet_fill ::
  "pcap_state \<Rightarrow> bool \<Rightarrow> u32 \<Rightarrow> u32 \<Rightarrow> packet option \<times> pcap_state"
where
  "pcap_packet_fill ps to_tpm tpm_packet_len orig_len =
     (case p_clock ps of
        Some (tv_sec, tv_nsec) # ts \<Rightarrow>
          (let ms = tv_sec * 1000 * 1000 + tv_nsec div 1000 in
           (Some \<lparr>block_total_length = 0, ts_hi = ucast (drop_bit 32 ms), ts_lo = ucast ms,
                  capture_len = 54 + tpm_packet_len, original_len = 54 + orig_len,
                  ip_len = ucast (40 + tpm_packet_len), ip_sum = 0,
                  th_sport = ucast (if to_tpm then cport ps else tpmport ps),
                  th_dport = ucast (if to_tpm then tpmport ps else cport ps),
                  th_seq = (if to_tpm then cseq ps else sseq ps),
                  th_ack = (if to_tpm then sseq ps else cseq ps),
                  th_flags = 0, th_sum = 0\<rparr>, ps\<lparr>p_clock := ts\<rparr>))
      | None # ts \<Rightarrow> (None, ps\<lparr>p_clock := ts\<rparr>)
      | [] \<Rightarrow> (None, ps))"

definition filler_len :: "bytes \<Rightarrow> nat" where
  "filler_len tpm_packet = (let n = 4 - (sizeof_packet + length tpm_packet) mod 4 in if n = 4 then 0 else n)"

definition pcap_write :: "pcap_state \<Rightarrow> packet \<Rightarrow> bytes \<Rightarrow> bool \<times> pcap_state" where
  "pcap_write ps p tpm_packet =
     (let block_total_len = of_nat (sizeof_packet + length tpm_packet + filler_len tpm_packet + 4) :: u32;
          p' = p\<lparr>block_total_length := block_total_len\<rparr>;
          filler = replicate (filler_len tpm_packet) 0
      in file_appendv ps
           (if filler = [] then [packet_bytes p', tpm_packet, htole32 block_total_len]
            else [packet_bytes p', tpm_packet, filler, htole32 block_total_len]))"

definition pcap_file_write_idb :: "pcap_state \<Rightarrow> bool \<times> pcap_state" where
  "pcap_file_write_idb ps =
     file_append ps (htole32 1 @ htole32 20 @ htole16 1 @ htole16 0 @ htole32 0 @ htole32 20)"

text \<open>
  One packet without data of the handshake. A failing clock would leave the packet
  uninitialized; that is \<open>None\<close>.
\<close>

definition tcp_packet ::
  "pcap_state \<Rightarrow> bool \<Rightarrow> byte \<Rightarrow> bool \<Rightarrow> (bool \<times> pcap_state) option"
where
  "tcp_packet ps to_tpm flags no_ack =
     (case pcap_packet_fill ps to_tpm 0 0 of
        (None, ps') \<Rightarrow> None
      | (Some p, ps') \<Rightarrow>
          let p1 = (if no_ack then p\<lparr>th_flags := flags, th_ack := 0\<rparr> else p\<lparr>th_flags := flags\<rparr>)
          in Some (pcap_write ps' (calc_checksums ps' p1 []) []))"

definition pcap_file_tcp_flags :: "pcap_state \<Rightarrow> byte \<Rightarrow> (int \<times> pcap_state) option" where
  "pcap_file_tcp_flags ps flag =
     (case tcp_packet ps True flag (flag = TH_SYN) of
        None \<Rightarrow> None
      | Some (False, ps1) \<Rightarrow> Some (-1, ps1)
      | Some (True, ps1) \<Rightarrow>
          (case tcp_packet (ps1\<lparr>cseq := cseq ps1 + 1\<rparr>) False (flag OR TH_ACK) False of
             None \<Rightarrow> None
           | Some (False, ps2) \<Rightarrow> Some (-1, ps2)
           | Some (True, ps2) \<Rightarrow>
               (case tcp_packet (ps2\<lparr>sseq := sseq ps2 + 1\<rparr>) True TH_ACK False of
                  None \<Rightarrow> None
                | Some (ok, ps3) \<Rightarrow> Some (if ok then 0 else -1, ps3))))"

definition pcap_file_tcp_start :: "pcap_state \<Rightarrow> (int \<times> pcap_state) option" where
  "pcap_file_tcp_start ps = pcap_file_tcp_flags ps TH_SYN"

definition pcap_file_tcp_end :: "pcap_state \<Rightarrow> (int \<times> pcap_state) option" where
  "pcap_file_tcp_end ps = pcap_file_tcp_flags ps TH_FIN"

definition pcap_state_fd_close :: "pcap_state \<Rightarrow> pcap_state option" where
  "pcap_state_fd_close ps =
     (if p_fd ps < 0 then Some ps
      else map_option (\<lambda>(rc, ps'). ps'\<lparr>p_fd := -1\<rparr>) (pcap_file_tcp_end ps))"

definition pcap_file_new :: "pcap_state \<Rightarrow> (int \<times> pcap_state) option" where
  "pcap_file_new ps =
     (if p_fd ps < 0 then Some (-1, ps)
      else case pcap_file_header_write ps of
        (False, ps1) \<Rightarrow> Some (-1, ps1)
      | (True, ps1) \<Rightarrow>
          (case pcap_file_write_idb ps1 of
             (False, ps2) \<Rightarrow> Some (-1, ps2)
           | (True, ps2) \<Rightarrow> pcap_file_tcp_start ps2))"

definition pcap_packet_record_write ::
  "pcap_state \<Rightarrow> bytes \<Rightarrow> bool \<Rightarrow> int \<times> pcap_state"
where
  "pcap_packet_record_write ps tpm_packet to_tpm =
     (if p_fd ps < 0 then (0, ps)
      else
        let tpm_packet_len = of_nat (length tpm_packet) :: u32 in
        case pcap_packet_fill ps to_tpm tpm_packet_len tpm_packet_len of
          (None, ps1) \<Rightarrow> (-1, ps1)
        | (Some p, ps1) \<Rightarrow>
            (case pcap_write ps1 (calc_checksums ps1 p tpm_packet) tpm_packet of
               (False, ps2) \<Rightarrow> (-1, ps2)
             | (True, ps2) \<Rightarrow>
                 (0, if to_tpm then ps2\<lparr>cseq := cseq ps2 + tpm_packet_len\<rparr>
                     else ps2\<lparr>sseq := sseq ps2 + tpm_packet_len\<rparr>)))"

subsection \<open>The option\<close>

definition pcap_opt_desc :: "OptionDesc list" where
  "pcap_opt_desc = desc [(''file'', OPT_TYPE_STRING), (''mode'', OPT_TYPE_MODE_T), (''fd'', OPT_TYPE_INT),
     (''truncate'', OPT_TYPE_BOOLEAN), (''checksums'', OPT_TYPE_BOOLEAN)]"

text \<open>What the system calls on the file return.\<close>

record pcap_env =
  pc_open :: "string \<Rightarrow> int"
  pc_lseek :: bool
  pc_ftruncate :: bool
  pc_fcntl :: bool
  pc_fchmod :: bool

definition pcap_state_init :: "u32 \<Rightarrow> u32 \<Rightarrow> u32 \<Rightarrow> pcap_state \<Rightarrow> pcap_state" where
  "pcap_state_init r1 r2 r3 ps = ps\<lparr>p_fd := -1, cseq := r1, sseq := r2, cport := r3, tpmport := 2321\<rparr>"

definition pcap_open_file :: "pcap_env \<Rightarrow> OptionValue list \<Rightarrow> int option" where
  "pcap_open_file pe ovs =
     (let fd = option_get_int ovs ''fd'' (-1); truncate = option_get_bool ovs ''truncate'' False in
      case option_get_string ovs ''file'' None of
        Some f \<Rightarrow> if pc_open pe f < 0 then None else Some (pc_open pe f)
      | None \<Rightarrow>
          if fd \<ge> 0 \<and> (\<not> pc_lseek pe \<or> truncate \<and> \<not> pc_ftruncate pe \<or> \<not> pc_fcntl pe) then None else Some fd)"

text \<open>
  \<open>checksums\<close> is declared as a boolean and read as an integer; the result of \<open>pcap_file_new\<close> is
  ignored (\<open>None\<close>: a packet from uninitialized memory).
\<close>

definition parse_pcap_options :: "common_env \<Rightarrow> pcap_env \<Rightarrow> pcap_state \<Rightarrow> string \<Rightarrow> (int \<times> pcap_state) option" where
  "parse_pcap_options env pe ps options =
     (case options_parse (ce_opt env) options pcap_opt_desc of
        Inl e \<Rightarrow> Some (-1, ps)
      | Inr ovs \<Rightarrow>
          (case pcap_open_file pe ovs of
             None \<Rightarrow> Some (-1, ps)
           | Some fd \<Rightarrow>
               if fd < 0 \<or> \<not> pc_fchmod pe then Some (-1, ps)
               else
                 let checksums = (option_get_int ovs ''checksums'' 0 \<noteq> 0) in
                 map_option (\<lambda>(rc, ps'). (0, ps'))
                   (pcap_file_new (ps\<lparr>p_flags := if checksums then PCAP_CHECKSUMS_F else 0, p_fd := fd\<rparr>))))"

definition handle_pcap_options ::
  "common_env \<Rightarrow> pcap_env \<Rightarrow> u32 \<Rightarrow> u32 \<Rightarrow> u32 \<Rightarrow> pcap_state \<Rightarrow> string option \<Rightarrow> (int \<times> pcap_state) option"
where
  "handle_pcap_options env pe r1 r2 r3 ps options =
     (let ps0 = pcap_state_init r1 r2 r3 ps in
      case options of
        None \<Rightarrow> Some (0, ps0)
      | Some opts \<Rightarrow>
          map_option (\<lambda>(rc, ps'). (if rc < 0 then -1 else 0, ps')) (parse_pcap_options env pe ps0 opts))"

subsection \<open>Checksums as one's complement sums\<close>

text \<open>The sum of the big-endian 16 bit words of a buffer, without overflow.\<close>

fun be_sum :: "bytes \<Rightarrow> nat" where
  "be_sum [] = 0"
| "be_sum [a] = 256 * unat a"
| "be_sum (a # b # rest) = 256 * unat a + unat b + be_sum rest"

text \<open>What the receiver of a packet checks: the words, the checksum included, add up to 0.\<close>

definition checksum_valid :: "bytes \<Rightarrow> bool" where
  "checksum_valid bs \<longleftrightarrow> be_sum bs mod 65535 = 0"

lemma be_sum_bound: "be_sum bs \<le> 65535 * ((length bs + 1) div 2)"
proof (induction bs rule: be_sum.induct)
  case (2 a)
  then show ?case using unsigned_less [of a, where 'a = nat] by simp
next
  case (3 a b rest)
  then show ?case using unsigned_less [of a, where 'a = nat] unsigned_less [of b, where 'a = nat] by simp
qed simp

lemma unat_byte_shift: "unat (push_bit 8 (ucast (a :: byte) :: u32)) = 256 * unat a"
  using unsigned_less [of a, where 'a = nat]
  by (simp add: unsigned_push_bit_eq unsigned_ucast_eq take_bit_nat_eq_self push_bit_eq_mult [of 8 "unat a"])

lemma unat_byte_ucast: "unat (ucast (a :: byte) :: u32) = unat a"
  using unsigned_less [of a, where 'a = nat] by (simp add: unsigned_ucast_eq take_bit_nat_eq_self)

lemma unat_calc_checksum:
  assumes "length bs \<le> 70000"
  shows "unat (calc_checksum bs) = be_sum bs"
  using assms
proof (induction bs rule: calc_checksum.induct)
  case (2 a)
  then show ?case using unsigned_less [of a, where 'a = nat] by (simp add: unat_byte_shift)
next
  case (3 a b rest)
  have l: "unat a < 256" "unat b < 256" using unsigned_less [of a, where 'a = nat] unsigned_less [of b, where 'a = nat] by auto
  have r: "unat (calc_checksum rest) = be_sum rest" using 3 by simp
  have "be_sum rest \<le> 65535 * 35001" using be_sum_bound [of rest] 3(2) by simp
  then show ?case using r l by (simp add: unat_word_ariths unat_byte_shift unat_byte_ucast)
qed simp

lemma be_sum_append: "even (length a) \<Longrightarrow> be_sum (a @ b) = be_sum a + be_sum b"
  by (induction a rule: be_sum.induct) auto

lemma be_sum_htobe16 [simp]: "be_sum (htobe16 w) = unat w"
proof -
  have "unat (ucast (drop_bit 8 w) :: byte) = unat w div 256" "unat (ucast w :: byte) = unat w mod 256"
    using unsigned_less [of w, where 'a = nat]
    by (simp_all add: unsigned_ucast_eq unsigned_drop_bit_eq drop_bit_eq_div [of 8 "unat w"] take_bit_eq_mod [of _ "_ :: nat"])
  then show ?thesis by (simp add: htobe16_def numeral_2_eq_2)
qed

lemma mod_complement:
  assumes "f < 131072"
  shows "(4294967295 - f) mod 65536 = 65535 - f mod (65536 :: nat)"
proof (cases "f < 65536")
  case True
  have "4294967295 - f = 65536 * 65535 + (65535 - f)" using True by linarith
  then show ?thesis using True by (simp only: mod_mult_self4 mod_less)
next
  case False
  have "4294967295 - f = 65536 * 65534 + (131071 - f)" using False assms by linarith
  moreover have "(131071 - f) mod 65536 = 131071 - f" using False by simp
  moreover have "f mod 65536 = f - 65536" using False assms by (simp add: le_mod_geq)
  ultimately show ?thesis using False assms by (simp only: mod_mult_self4) linarith
qed

lemma unat_fold_check:
  assumes "unat c mod 65536 + unat c div 65536 = f"
  shows "unat (fold_check c) = 65535 - f mod 65536"
proof -
  have m: "unat (c AND 0xffff) = unat c mod 65536"
    using take_bit_eq_mask [of 16 "unat c"] take_bit_eq_mod [of 16 "unat c"]
    by (simp add: unsigned_and_eq mask_eq_exp_minus_1)
  have d: "unat (drop_bit 16 c) = unat c div 65536"
    using unsigned_less [of c, where 'a = nat]
    by (simp add: unsigned_drop_bit_eq take_bit_nat_eq_self drop_bit_eq_div [of 16 "unat c"])
  have "unat c div 65536 < 65536" using unsigned_less [of c, where 'a = nat] by simp
  then have f: "f < 131072" using assms by (metis add_strict_mono mod_less_divisor numeral_Bit0 zero_less_numeral)
  define x where "x = (c AND 0xffff) + drop_bit 16 c"
  have x: "unat x = f"
    using m d assms f by (simp add: unat_word_ariths x_def)
  have "NOT x = -1 - x" by (simp add: not_eq_complement)
  moreover have "unat (-1 - x) = unat (-1 :: u32) - unat x" by (rule unat_sub) simp
  moreover have "unat (-1 :: u32) = 4294967295" by (simp add: unsigned_minus_1_eq_mask mask_eq_exp_minus_1)
  ultimately have "unat (NOT x) = 4294967295 - f" using x by simp
  then have "unat (fold_check c) = (4294967295 - f) mod 65536"
    by (simp add: fold_check_def unsigned_ucast_eq take_bit_eq_mod x_def [symmetric])
  then show ?thesis using mod_complement [OF f] by simp
qed

text \<open>The result of the single folding is right exactly when the folded sum fits into 16 bits.\<close>

lemma fold_arith:
  assumes "f < 131071"
  shows "(f + (65535 - f mod 65536)) mod 65535 = 0 \<longleftrightarrow> f < (65536 :: nat)"
proof (cases "f < 65536")
  case False
  then have "f + (65535 - f mod 65536) = 131071" using assms by (simp add: le_mod_geq)
  then show ?thesis using False by simp
qed simp

lemma fold_check_valid:
  assumes "unat c = S" "S mod 65536 + S div 65536 = f"
  shows "(S + unat (fold_check c)) mod 65535 = 0 \<longleftrightarrow> f < 65536"
proof -
  have q: "S div 65536 < 65536" using assms(1) unsigned_less [of c, where 'a = nat] by auto
  have r: "S mod 65536 < 65536" by simp
  have f: "f < 131071" using q r assms(2) by linarith
  have "S = 65536 * (S div 65536) + S mod 65536" by simp
  then have "S + unat (fold_check c) = 65535 * (S div 65536) + (f + unat (fold_check c))"
    using assms(2) by linarith
  then have "(S + unat (fold_check c)) mod 65535 = (f + unat (fold_check c)) mod 65535"
    by (metis mod_mult_self4)
  then show ?thesis using fold_arith [OF f] unat_fold_check [of c f] assms by (simp only:)
qed

lemma be_sum_ip: "be_sum (ip_bytes p) = 117171 + unat (ip_len p) + unat (ip_sum p)"
proof -
  have "htobe32 0x7f000001 = [0x7f, 0, 0, 1]" by code_simp
  then have c: "be_sum (htobe32 0x7f000001) = 32513" by simp
  show ?thesis by (simp add: ip_bytes_def be_sum_append c del: append.simps)
qed

lemma ip_fold:
  assumes "L < (65536 :: nat)"
  shows "(117171 + L) mod 65536 + (117171 + L) div 65536 < 65536 \<longleftrightarrow> L \<noteq> 13900"
proof (cases "L < 13901")
  case True
  then have "(117171 + L) div 65536 = 1" "(117171 + L) mod 65536 = 51635 + L" by (simp_all add: div_nat_eqI le_mod_geq)
  then show ?thesis using True by auto
next
  case False
  then have "(117171 + L) div 65536 = 2" using assms by (simp add: div_nat_eqI)
  moreover from this have "(117171 + L) mod 65536 = L - 13901"
    using False minus_div_mult_eq_mod [of "117171 + L" 65536] by simp
  ultimately show ?thesis using assms False by simp
qed

lemma be_sum_tcp: "be_sum (tcp_bytes p) = be_sum (tcp_bytes (p\<lparr>th_sum := 0\<rparr>)) + unat (th_sum p)"
  by (simp add: tcp_bytes_def be_sum_append del: append.simps)

text \<open>
  C40. The checksums of a captured packet, as its receiver checks them: adding the carries once instead of until
  there are none left makes the IP checksum wrong for packets of exactly 13900 bytes and right for all others, and the
  TCP checksum right exactly when the carries of the first addition do not overflow again.
\<close>

theorem pcap_checksums_valid_iff:
  assumes "length payload \<le> 65000"
    and "S = be_sum (pseudo_header (length payload)) + be_sum (tcp_bytes (p\<lparr>th_sum := 0\<rparr>)) + be_sum payload"
  shows "(checksum_valid (ip_bytes (calc_ip_checksum p)) \<longleftrightarrow> ip_len p \<noteq> 13900) \<and>
    (checksum_valid (pseudo_header (length payload) @ tcp_bytes (calc_tcp_checksum p payload) @ payload) \<longleftrightarrow>
       S mod 65536 + S div 65536 < 65536)"
proof (rule conjI)
  let ?p0 = "p\<lparr>ip_sum := 0\<rparr>"
  have l: "length (ip_bytes ?p0) \<le> 70000" by (simp add: ip_bytes_def)
  have c: "unat (calc_checksum (ip_bytes ?p0)) = 117171 + unat (ip_len p)"
    using unat_calc_checksum [OF l] be_sum_ip [of ?p0] by simp
  have "be_sum (ip_bytes (calc_ip_checksum p)) =
      117171 + unat (ip_len p) + unat (fold_check (calc_checksum (ip_bytes ?p0)))"
    by (simp add: be_sum_ip calc_ip_checksum_def)
  then have "checksum_valid (ip_bytes (calc_ip_checksum p)) \<longleftrightarrow> unat (ip_len p) \<noteq> 13900"
    using fold_check_valid [OF c refl] ip_fold [of "unat (ip_len p)"] unsigned_less [of "ip_len p", where 'a = nat]
    by (simp add: checksum_valid_def)
  moreover have "unat (ip_len p) = 13900 \<longleftrightarrow> ip_len p = 13900"
    by (simp add: word_unat_eq_iff)
  ultimately show "checksum_valid (ip_bytes (calc_ip_checksum p)) \<longleftrightarrow> ip_len p \<noteq> 13900" by simp
next
  let ?t = "tcp_bytes (p\<lparr>th_sum := 0\<rparr>)" and ?h = "pseudo_header (length payload)"
  have len: "length ?h = 12" "length ?t = 20" "length (tcp_bytes (calc_tcp_checksum p payload)) = 20"
    by (simp_all add: pseudo_header_def tcp_bytes_def)
  have S: "S = be_sum (?h @ ?t @ payload)" using len assms(2) by (simp add: be_sum_append)
  have u: "unat (calc_checksum ?h) = be_sum ?h" "unat (calc_checksum ?t) = be_sum ?t"
      "unat (calc_checksum payload) = be_sum payload"
    using len assms(1) by (simp_all add: unat_calc_checksum)
  have "S \<le> 65535 * 33000" using S be_sum_bound [of "?h @ ?t @ payload"] len assms(1) by simp
  then have c: "unat (calc_checksum ?h + calc_checksum ?t + calc_checksum payload) = S"
    using u assms(2) by (simp add: unat_word_ariths)
  have "be_sum (?h @ tcp_bytes (calc_tcp_checksum p payload) @ payload) =
      S + unat (fold_check (calc_checksum ?h + calc_checksum ?t + calc_checksum payload))"
    using len assms(2) be_sum_tcp [of "calc_tcp_checksum p payload"]
    by (simp add: be_sum_append calc_tcp_checksum_def)
  then show "checksum_valid (?h @ tcp_bytes (calc_tcp_checksum p payload) @ payload) \<longleftrightarrow>
      S mod 65536 + S div 65536 < 65536"
    using fold_check_valid [OF c refl] by (simp only: checksum_valid_def)
qed

theorem pcap_checksums_valid_iff_witness:
  "let p = \<lparr>block_total_length = 0, ts_hi = 0, ts_lo = 0, capture_len = 56, original_len = 56, ip_len = 42, ip_sum = 0,
       th_sport = 0, th_dport = 0, th_seq = 0, th_ack = 0, th_flags = 0, th_sum = 0\<rparr>; payload = [0x32, 0x02]
   in checksum_valid (ip_bytes (calc_ip_checksum p)) \<and>
      checksum_valid (pseudo_header 2 @ tcp_bytes (calc_tcp_checksum p payload) @ payload)"
proof -
  let ?p = "\<lparr>block_total_length = 0, ts_hi = 0, ts_lo = 0, capture_len = 56, original_len = 56, ip_len = 42, ip_sum = 0,
       th_sport = 0, th_dport = 0, th_seq = 0, th_ack = 0, th_flags = 0, th_sum = 0\<rparr>" and ?d = "[0x32, 0x02] :: bytes"
  have "htobe32 0x7f000001 = [0x7f, 0, 0, 1]" "htobe32 0 = [0, 0, 0, 0]" by code_simp+
  then have "be_sum (pseudo_header (length ?d)) + be_sum (tcp_bytes (?p\<lparr>th_sum := 0\<rparr>)) + be_sum ?d = 163812"
    by (simp add: pseudo_header_def tcp_bytes_def be_sum_append del: append.simps)
  note iff = pcap_checksums_valid_iff [OF _ this [symmetric]]
  have "length ?d \<le> 65000" "163812 mod 65536 + 163812 div 65536 < (65536 :: nat)" "ip_len ?p \<noteq> 13900" "length ?d = 2"
    by simp_all
  then show ?thesis unfolding Let_def using iff by metis
qed

subsection \<open>Blocks of the file\<close>

lemma length_packet_bytes [simp]: "length (packet_bytes p) = 82"
  by (simp add: packet_bytes_def epb_bytes_def eth_bytes_def ip_bytes_def tcp_bytes_def)

lemma writev_calm:
  assumes "\<forall>n. malloc n"
  shows "writev_full malloc [] iov = (Some (length (concat iov)), [], concat iov)"
proof -
  have c: "concat (filter (\<lambda>b. b \<noteq> []) iov) = concat iov" by (induction iov) auto
  have "concat bs = hd bs" if "length bs = 1" for bs :: "bytes list"
    using that by (cases bs) auto
  from this [of "filter (\<lambda>b. b \<noteq> []) iov"] show ?thesis
    using assms c by (simp add: writev_full_def Let_def)
qed

text \<open>
  Each recorded TPM packet is one well-formed block of the pcapng file: its length is a multiple of four, stands
  in front and at the end of the block, the payload follows the headers and is counted in the capture length, and
  the sequence number of the sender advances by the payload's length.
\<close>

theorem pcap_record_block:
  assumes "0 \<le> p_fd ps" "p_clock ps = Some t # ts" "p_faults ps = []" "\<forall>n. p_malloc ps n" "length pkt < 2 ^ 31"
  shows "\<exists>block ps'. pcap_packet_record_write ps pkt to_tpm = (0, ps') \<and> p_file ps' = p_file ps @ block \<and>
    length block mod 4 = 0 \<and> le32toh (drop 4 block) = of_nat (length block) \<and>
    le32toh (drop (length block - 4) block) = of_nat (length block) \<and>
    take (length pkt) (drop 82 block) = pkt \<and> le32toh (drop 20 block) = of_nat (54 + length pkt) \<and>
    cseq ps' = (if to_tpm then cseq ps + of_nat (length pkt) else cseq ps) \<and>
    sseq ps' = (if to_tpm then sseq ps else sseq ps + of_nat (length pkt))"
proof -
  obtain p ps1 where f: "pcap_packet_fill ps to_tpm (of_nat (length pkt)) (of_nat (length pkt)) = (Some p, ps1)"
    and p: "capture_len p = of_nat (54 + length pkt)"
    and ps1: "p_file ps1 = p_file ps" "p_faults ps1 = []" "p_malloc ps1 = p_malloc ps" "cseq ps1 = cseq ps" "sseq ps1 = sseq ps"
    using assms(2,3) by (cases t) (simp add: pcap_packet_fill_def Let_def)
  let ?n = "82 + length pkt + filler_len pkt + 4"
  let ?q = "(calc_checksums ps1 p pkt)\<lparr>block_total_length := of_nat ?n\<rparr>"
  let ?fill = "replicate (filler_len pkt) (0 :: byte)"
  let ?block = "packet_bytes ?q @ pkt @ ?fill @ htole32 (of_nat ?n)"
  have q: "capture_len ?q = of_nat (54 + length pkt)"
    using p by (simp add: calc_checksums_def calc_ip_checksum_def calc_tcp_checksum_def)
  have m: "\<forall>n. p_malloc ps1 n" using assms(4) ps1(3) by simp
  have len: "length ?block = ?n" by simp
  have w: "pcap_write ps1 (calc_checksums ps1 p pkt) pkt = (True, ps1\<lparr>p_faults := [], p_file := p_file ps @ ?block\<rparr>)"
    using ps1(1,2) writev_calm [OF m]
    by (simp add: pcap_write_def file_appendv_def Let_def)
  define block where "block = ?block"
  have "?n mod 4 = 0" by (simp add: filler_len_def Let_def) presburger
  then have b: "length block mod 4 = 0" "le32toh (drop 4 block) = of_nat (length block)"
    "le32toh (drop 20 block) = of_nat (54 + length pkt)" "take (length pkt) (drop 82 block) = pkt"
    using q len by (simp_all only: block_def) (simp_all add: packet_bytes_def epb_bytes_def)
  have e: "le32toh (drop (length block - 4) block) = of_nat (length block)"
    unfolding block_def len by simp
  define ps2 where "ps2 = ps1\<lparr>p_faults := [], p_file := p_file ps @ block\<rparr>"
  have "pcap_packet_record_write ps pkt to_tpm =
      (0, if to_tpm then ps2\<lparr>cseq := cseq ps2 + of_nat (length pkt)\<rparr> else ps2\<lparr>sseq := sseq ps2 + of_nat (length pkt)\<rparr>)"
    using assms(1) f w by (simp add: pcap_packet_record_write_def Let_def block_def ps2_def)
  then show ?thesis using ps1 b e
    by (intro exI [of _ block] exI conjI) (assumption, simp_all add: ps2_def)
qed

definition example_pcap :: pcap_state where
  "example_pcap = \<lparr>p_fd = 5, p_flags = 1, cseq = 100, sseq = 200, cport = 50000, tpmport = 2321,
     p_clock = replicate 4 (Some (7, 0)), p_faults = [], p_malloc = (\<lambda>n. True), p_file = []\<rparr>"

theorem pcap_record_block_witness:
  "\<exists>block ps'. pcap_packet_record_write example_pcap [1, 2, 3] True = (0, ps') \<and> p_file ps' = block \<and>
     length block mod 4 = 0 \<and> le32toh (drop 4 block) = of_nat (length block) \<and> cseq ps' = 103"
proof -
  have "p_clock example_pcap = Some (7, 0) # replicate 3 (Some (7, 0))" by (simp add: example_pcap_def eval_nat_numeral)
  from pcap_record_block [OF _ this, of "[1, 2, 3]" True] show ?thesis by (auto simp: example_pcap_def)
qed

text \<open>
  The value of the option \<open>checksums\<close> is ignored: it is declared as a boolean but read as an integer, and so
  \<open>checksums=false\<close> switches the checksums on just as \<open>checksums=true\<close> does.
\<close>

theorem pcap_checksums_option:
  assumes "opt_value_ok f" "opt_value_ok v" "\<forall>n. opt_alloc (ce_opt env) n" "0 \<le> pc_open pe f" "pc_fchmod pe"
    and "parse_pcap_options env pe ps (''file='' @ f @ '',checksums='' @ v) = Some (0, ps')"
  shows "\<exists>rc. pcap_file_new (ps\<lparr>p_flags := PCAP_CHECKSUMS_F, p_fd := pc_open pe f\<rparr>) = Some (rc, ps')"
proof -
  let ?ws = "[(pcap_opt_desc ! 0, Some f), (pcap_opt_desc ! 4, Some v)]"
  let ?b = "strcaseeq v ''true'' \<or> strcaseeq v ''1''"
  have descs: "distinct (map d_name pcap_opt_desc)" "\<forall>d\<in>set pcap_opt_desc. opt_name_ok (d_name d)"
    by (simp_all add: pcap_opt_desc_def desc_def opt_name_ok_def)
  have d: "pcap_opt_desc ! 0 \<in> set pcap_opt_desc" "pcap_opt_desc ! 4 \<in> set pcap_opt_desc"
    by (simp_all add: pcap_opt_desc_def desc_def)
  have "options_parse_from (ce_opt env) pcap_opt_desc [] (write_options ?ws) =
      map_sum id (\<lambda>vs. [] @ vs) (typed_values (ce_opt env) ?ws)"
    by (rule parse_written [OF descs assms(3)]) (use d assms(1,2) in simp_all)
  then have "options_parse (ce_opt env) (''file='' @ f @ '',checksums='' @ v) pcap_opt_desc =
      Inr [\<lparr>o_name = ''file'', o_value = OptString f\<rparr>, \<lparr>o_name = ''checksums'', o_value = OptBool ?b\<rparr>]"
    by (simp add: options_parse_def pcap_opt_desc_def desc_def option_value_parse_def written_value_def)
  then show ?thesis
    using assms(4-6)
    by (auto simp: parse_pcap_options_def pcap_open_file_def option_get_string_def option_get_int_def Let_def)
qed

lemma tcp_packet_returns:
  assumes "p_clock ps = Some t # ts"
  obtains ok ps' where "tcp_packet ps to_tpm fl na = Some (ok, ps')" "p_clock ps' = ts"
proof -
  obtain p where "pcap_packet_fill ps to_tpm 0 0 = (Some p, ps\<lparr>p_clock := ts\<rparr>)"
    using assms by (cases t) (simp add: pcap_packet_fill_def Let_def)
  then show ?thesis using that
    by (fastforce simp: tcp_packet_def pcap_write_def file_appendv_def Let_def split: prod.splits)
qed

lemma pcap_file_new_returns:
  assumes "p_clock ps = Some a # Some b # Some c # ts"
  shows "pcap_file_new ps \<noteq> None"
proof -
  have keep: "p_clock (snd (pcap_file_header_write ps)) = p_clock ps" "p_clock (snd (pcap_file_write_idb ps)) = p_clock ps" for ps
    by (simp_all add: pcap_file_header_write_def pcap_file_write_idb_def file_append_def split: prod.split)
  have "pcap_file_tcp_start ps \<noteq> None" if clk: "p_clock ps = Some a # Some b # Some c # ts" for ps
  proof -
    obtain ok1 p1 where 1: "tcp_packet ps True TH_SYN True = Some (ok1, p1)" "p_clock p1 = Some b # Some c # ts"
      by (rule tcp_packet_returns [OF clk])
    obtain ok2 p2 where 2: "tcp_packet (p1\<lparr>cseq := cseq p1 + 1\<rparr>) False (TH_SYN OR TH_ACK) False = Some (ok2, p2)"
      "p_clock p2 = Some c # ts"
      by (rule tcp_packet_returns [of "p1\<lparr>cseq := cseq p1 + 1\<rparr>" b "Some c # ts"]) (simp_all add: 1(2))
    obtain ok3 p3 where 3: "tcp_packet (p2\<lparr>sseq := sseq p2 + 1\<rparr>) True TH_ACK False = Some (ok3, p3)"
      by (rule tcp_packet_returns [of "p2\<lparr>sseq := sseq p2 + 1\<rparr>" c ts]) (simp_all add: 2(2))
    show ?thesis using 1(1) 2(1) 3
      by (cases ok1; cases ok2) (simp_all add: pcap_file_tcp_start_def pcap_file_tcp_flags_def)
  qed
  then show ?thesis using assms keep
    by (auto simp: pcap_file_new_def split: prod.splits bool.splits) (metis snd_conv)
qed

theorem pcap_checksums_option_witness:
  "\<exists>rc ps'. parse_pcap_options (example_common (\<lambda>f. None))
       \<lparr>pc_open = (\<lambda>f. 5), pc_lseek = True, pc_ftruncate = True, pc_fcntl = True, pc_fchmod = True\<rparr>
       (example_pcap\<lparr>p_flags := 0\<rparr>) ''file=/p,checksums=false'' = Some (0, ps') \<and>
     pcap_file_new (example_pcap\<lparr>p_flags := PCAP_CHECKSUMS_F\<rparr>) = Some (rc, ps')"
proof -
  let ?pe = "\<lparr>pc_open = (\<lambda>f. 5), pc_lseek = True, pc_ftruncate = True, pc_fcntl = True, pc_fchmod = True\<rparr>"
  let ?ps = "example_pcap\<lparr>p_flags := 0\<rparr>"
  have o: "options_parse (ce_opt (example_common (\<lambda>f. None))) ''file=/p,checksums=false'' pcap_opt_desc =
      Inr [\<lparr>o_name = ''file'', o_value = OptString ''/p''\<rparr>, \<lparr>o_name = ''checksums'', o_value = OptBool False\<rparr>]"
    by code_simp
  have "pcap_file_new (?ps\<lparr>p_flags := PCAP_CHECKSUMS_F, p_fd := 5\<rparr>) \<noteq> None"
    by (rule pcap_file_new_returns [where ts = "[Some (7, 0)]"]) (simp add: example_pcap_def eval_nat_numeral)
  then obtain ps' where r: "parse_pcap_options (example_common (\<lambda>f. None)) ?pe ?ps ''file=/p,checksums=false'' = Some (0, ps')"
    using o by (auto simp: parse_pcap_options_def pcap_open_file_def option_get_string_def option_get_int_def Let_def)
  have "\<exists>rc. pcap_file_new (?ps\<lparr>p_flags := PCAP_CHECKSUMS_F, p_fd := pc_open ?pe ''/p''\<rparr>) = Some (rc, ps')"
    by (rule pcap_checksums_option [of _ "''false''" "example_common (\<lambda>f. None)"])
      (use r in \<open>simp_all add: opt_value_ok_def example_common_def example_env_def\<close>)
  moreover have "?ps\<lparr>p_flags := PCAP_CHECKSUMS_F, p_fd := pc_open ?pe ''/p''\<rparr> = example_pcap\<lparr>p_flags := PCAP_CHECKSUMS_F\<rparr>"
    by (simp add: example_pcap_def)
  ultimately show ?thesis using r by auto
qed

end
