(* ===== verification/SetupTables.thy ===== *)
theory SetupTables
  imports Prelude
begin

section \<open>swtpm\_setup: constants and key parameters\<close>

text \<open>
  The constants of the TPM 2 part of src/src/swtpm_setup/swtpm.c and its four tables with the parameters of endorsement, storage,
  attestation and device identity keys, with the functions that look a key up. Lengths that the code keeps beside an array
  are those of the array in every entry, so an array is a list. \<open>keytype\<close> of the attestation and identity keys is for logging only.
\<close>

abbreviation TPM2_ST_NO_SESSIONS :: u16 where "TPM2_ST_NO_SESSIONS \<equiv> 0x8001"
abbreviation TPM2_ST_SESSIONS :: u16 where "TPM2_ST_SESSIONS \<equiv> 0x8002"
abbreviation TPM2_CC_EVICTCONTROL :: u32 where "TPM2_CC_EVICTCONTROL \<equiv> 0x00000120"
abbreviation TPM2_CC_NV_DEFINESPACE :: u32 where "TPM2_CC_NV_DEFINESPACE \<equiv> 0x0000012a"
abbreviation TPM2_CC_PCR_ALLOCATE :: u32 where "TPM2_CC_PCR_ALLOCATE \<equiv> 0x0000012b"
abbreviation TPM2_CC_CREATEPRIMARY :: u32 where "TPM2_CC_CREATEPRIMARY \<equiv> 0x00000131"
abbreviation TPM2_CC_NV_WRITE :: u32 where "TPM2_CC_NV_WRITE \<equiv> 0x00000137"
abbreviation TPM2_CC_NV_WRITELOCK :: u32 where "TPM2_CC_NV_WRITELOCK \<equiv> 0x00000138"
abbreviation TPM2_CC_SHUTDOWN :: u32 where "TPM2_CC_SHUTDOWN \<equiv> 0x00000145"
abbreviation TPM2_CC_FLUSHCONTEXT :: u32 where "TPM2_CC_FLUSHCONTEXT \<equiv> 0x00000165"
abbreviation TPM2_CC_GETCAPABILITY :: u32 where "TPM2_CC_GETCAPABILITY \<equiv> 0x0000017a"
abbreviation TPM2_SU_CLEAR :: u16 where "TPM2_SU_CLEAR \<equiv> 0x0000"
abbreviation TPM2_RH_OWNER :: u32 where "TPM2_RH_OWNER \<equiv> 0x40000001"
abbreviation TPM2_RS_PW :: u32 where "TPM2_RS_PW \<equiv> 0x40000009"
abbreviation TPM2_RH_ENDORSEMENT :: u32 where "TPM2_RH_ENDORSEMENT \<equiv> 0x4000000b"
abbreviation TPM2_RH_PLATFORM :: u32 where "TPM2_RH_PLATFORM \<equiv> 0x4000000c"
abbreviation TPM2_ALG_RSA :: u16 where "TPM2_ALG_RSA \<equiv> 0x0001"
abbreviation TPM2_ALG_SHA1 :: u16 where "TPM2_ALG_SHA1 \<equiv> 0x0004"
abbreviation TPM2_ALG_AES :: u16 where "TPM2_ALG_AES \<equiv> 0x0006"
abbreviation TPM2_ALG_SHA256 :: u16 where "TPM2_ALG_SHA256 \<equiv> 0x000b"
abbreviation TPM2_ALG_SHA384 :: u16 where "TPM2_ALG_SHA384 \<equiv> 0x000c"
abbreviation TPM2_ALG_SHA512 :: u16 where "TPM2_ALG_SHA512 \<equiv> 0x000d"
abbreviation TPM2_ALG_NULL :: u16 where "TPM2_ALG_NULL \<equiv> 0x0010"
abbreviation TPM2_ALG_SM3 :: u16 where "TPM2_ALG_SM3 \<equiv> 0x0012"
abbreviation TPM2_ALG_RSAPSS :: u16 where "TPM2_ALG_RSAPSS \<equiv> 0x0016"
abbreviation TPM2_ALG_ECDSA :: u16 where "TPM2_ALG_ECDSA \<equiv> 0x0018"
abbreviation TPM2_ALG_ECC :: u16 where "TPM2_ALG_ECC \<equiv> 0x0023"
abbreviation TPM2_ALG_SHA3_256 :: u16 where "TPM2_ALG_SHA3_256 \<equiv> 0x0027"
abbreviation TPM2_ALG_SHA3_384 :: u16 where "TPM2_ALG_SHA3_384 \<equiv> 0x0028"
abbreviation TPM2_ALG_SHA3_512 :: u16 where "TPM2_ALG_SHA3_512 \<equiv> 0x0029"
abbreviation TPM2_ALG_CFB :: u16 where "TPM2_ALG_CFB \<equiv> 0x0043"
abbreviation TPM2_CAP_PCRS :: u32 where "TPM2_CAP_PCRS \<equiv> 0x00000005"
abbreviation TPMA_NV_PLATFORMCREATE :: u32 where "TPMA_NV_PLATFORMCREATE \<equiv> 0x40000000"
abbreviation TPMA_NV_AUTHREAD :: u32 where "TPMA_NV_AUTHREAD \<equiv> 0x40000"
abbreviation TPMA_NV_NO_DA :: u32 where "TPMA_NV_NO_DA \<equiv> 0x2000000"
abbreviation TPMA_NV_PPWRITE :: u32 where "TPMA_NV_PPWRITE \<equiv> 0x1"
abbreviation TPMA_NV_PPREAD :: u32 where "TPMA_NV_PPREAD \<equiv> 0x10000"
abbreviation TPMA_NV_OWNERREAD :: u32 where "TPMA_NV_OWNERREAD \<equiv> 0x20000"
abbreviation TPMA_NV_WRITEDEFINE :: u32 where "TPMA_NV_WRITEDEFINE \<equiv> 0x2000"
abbreviation TPM2_NV_INDEX_RSA2048_EKCERT :: u32 where "TPM2_NV_INDEX_RSA2048_EKCERT \<equiv> 0x01c00002"
abbreviation TPM2_NV_INDEX_RSA2048_EKTEMPLATE :: u32 where "TPM2_NV_INDEX_RSA2048_EKTEMPLATE \<equiv> 0x01c00004"
abbreviation TPM2_NV_INDEX_RSA3072_HI_EKCERT :: u32 where "TPM2_NV_INDEX_RSA3072_HI_EKCERT \<equiv> 0x01c0001c"
abbreviation TPM2_NV_INDEX_RSA3072_HI_EKTEMPLATE :: u32 where "TPM2_NV_INDEX_RSA3072_HI_EKTEMPLATE \<equiv> 0x01c0001d"
abbreviation TPM2_NV_INDEX_RSA4096_HI_EKCERT :: u32 where "TPM2_NV_INDEX_RSA4096_HI_EKCERT \<equiv> 0x01c0001e"
abbreviation TPM2_NV_INDEX_RSA4096_HI_EKTEMPLATE :: u32 where "TPM2_NV_INDEX_RSA4096_HI_EKTEMPLATE \<equiv> 0x01c0001f"
abbreviation TPM2_NV_INDEX_PLATFORMCERT :: u32 where "TPM2_NV_INDEX_PLATFORMCERT \<equiv> 0x01c08000"
abbreviation TPM2_NV_INDEX_ECC_SECP256R1_EKCERT :: u32 where "TPM2_NV_INDEX_ECC_SECP256R1_EKCERT \<equiv> 0x01c0000a"
abbreviation TPM2_NV_INDEX_ECC_SECP256R1_EKTEMPLATE :: u32 where "TPM2_NV_INDEX_ECC_SECP256R1_EKTEMPLATE \<equiv> 0x01c0000b"
abbreviation TPM2_NV_INDEX_ECC_SECP384R1_HI_EKCERT :: u32 where "TPM2_NV_INDEX_ECC_SECP384R1_HI_EKCERT \<equiv> 0x01c00016"
abbreviation TPM2_NV_INDEX_ECC_SECP384R1_HI_EKTEMPLATE :: u32 where "TPM2_NV_INDEX_ECC_SECP384R1_HI_EKTEMPLATE \<equiv> 0x01c00017"
abbreviation TPM2_NV_INDEX_ECC_SECP521R1_HI_EKCERT :: u32 where "TPM2_NV_INDEX_ECC_SECP521R1_HI_EKCERT \<equiv> 0x01c00018"
abbreviation TPM2_NV_INDEX_ECC_SECP521R1_HI_EKTEMPLATE :: u32 where "TPM2_NV_INDEX_ECC_SECP521R1_HI_EKTEMPLATE \<equiv> 0x01c00019"
abbreviation TPM2_NV_INDEX_IAK_CERT :: u32 where "TPM2_NV_INDEX_IAK_CERT \<equiv> 0x01c90100"
abbreviation TPM2_NV_INDEX_IDEVID_CERT :: u32 where "TPM2_NV_INDEX_IDEVID_CERT \<equiv> 0x01c90200"
abbreviation TPM2_EK_RSA_HANDLE :: u32 where "TPM2_EK_RSA_HANDLE \<equiv> 0x81010001"
abbreviation TPM2_EK_RSA3072_HANDLE :: u32 where "TPM2_EK_RSA3072_HANDLE \<equiv> 0x8101001c"
abbreviation TPM2_EK_RSA4096_HANDLE :: u32 where "TPM2_EK_RSA4096_HANDLE \<equiv> 0x8101001e"
abbreviation TPM2_EK_ECC_SECP256R1_HANDLE :: u32 where "TPM2_EK_ECC_SECP256R1_HANDLE \<equiv> 0x8101000a"
abbreviation TPM2_EK_ECC_SECP384R1_HANDLE :: u32 where "TPM2_EK_ECC_SECP384R1_HANDLE \<equiv> 0x81010016"
abbreviation TPM2_EK_ECC_SECP521R1_HANDLE :: u32 where "TPM2_EK_ECC_SECP521R1_HANDLE \<equiv> 0x81010018"
abbreviation TPM2_SPK_HANDLE :: u32 where "TPM2_SPK_HANDLE \<equiv> 0x81000001"
abbreviation TPM2_IDEVID_HANDLE :: u32 where "TPM2_IDEVID_HANDLE \<equiv> 0x81020000"
abbreviation TPM2_IAK_HANDLE :: u32 where "TPM2_IAK_HANDLE \<equiv> 0x81020001"

text \<open>Time limits in milliseconds, where \<open>ARCH_PROCESSING_DELAY_FACTOR\<close> is 1.\<close>

abbreviation TPM2_DURATION_SHORT :: int where "TPM2_DURATION_SHORT \<equiv> 2000"
abbreviation TPM2_DURATION_MEDIUM :: int where "TPM2_DURATION_MEDIUM \<equiv> 7500"
abbreviation TPM2_DURATION_LONG :: int where "TPM2_DURATION_LONG \<equiv> 15000"
abbreviation TPM2_DURATION_EXTRA_LONG :: int where "TPM2_DURATION_EXTRA_LONG \<equiv> 30000"

abbreviation TPM2_ECC_NIST_P256 :: u16 where "TPM2_ECC_NIST_P256 \<equiv> 3"
abbreviation TPM2_ECC_NIST_P384 :: u16 where "TPM2_ECC_NIST_P384 \<equiv> 4"
abbreviation TPM2_ECC_NIST_P521 :: u16 where "TPM2_ECC_NIST_P521 \<equiv> 5"

datatype keyalgo = KEYALGO_NONE | KEYALGO_RSA | KEYALGO_ECC

definition NONCE_EMPTY :: bytes where "NONCE_EMPTY = htobe16 0"
definition NONCE_RSA2048 :: bytes where "NONCE_RSA2048 = htobe16 0x100 @ replicate 0x100 0"
definition NONCE_RSA3072 :: bytes where "NONCE_RSA3072 = htobe16 0x180 @ replicate 0x180 0"
definition NONCE_RSA4096 :: bytes where "NONCE_RSA4096 = htobe16 0x200 @ replicate 0x200 0"
definition NONCE_ECC_256 :: bytes where "NONCE_ECC_256 = htobe16 0x20 @ replicate 0x20 0"
definition NONCE_ECC_384 :: bytes where "NONCE_ECC_384 = htobe16 0x30 @ replicate 0x30 0"
definition NONCE_ECC_521 :: bytes where "NONCE_ECC_521 = htobe16 0x42 @ replicate 0x42 0"
definition NONCE_IDEVID :: bytes where "NONCE_IDEVID = htobe16 6 @ [0x49, 0x44, 0x45, 0x56, 0x49, 0x44]"
definition NONCE_IAK :: bytes where "NONCE_IAK = htobe16 3 @ [0x49, 0x41, 0x4b]"

definition PolicyA_SHA256 :: bytes where
  "PolicyA_SHA256 =
   [0x83, 0x71, 0x97, 0x67, 0x44, 0x84, 0xb3, 0xf8, 0x1a, 0x90, 0xcc, 0x8d,
    0x46, 0xa5, 0xd7, 0x24, 0xfd, 0x52, 0xd7, 0x6e, 0x06, 0x52, 0x0b, 0x64,
    0xf2, 0xa1, 0xda, 0x1b, 0x33, 0x14, 0x69, 0xaa]"

definition PolicyB_SHA384 :: bytes where
  "PolicyB_SHA384 =
   [0xb2, 0x6e, 0x7d, 0x28, 0xd1, 0x1a, 0x50, 0xbc, 0x53, 0xd8, 0x82, 0xbc,
    0xf5, 0xfd, 0x3a, 0x1a, 0x07, 0x41, 0x48, 0xbb, 0x35, 0xd3, 0xb4, 0xe4,
    0xcb, 0x1c, 0x0a, 0xd9, 0xbd, 0xe4, 0x19, 0xca, 0xcb, 0x47, 0xba, 0x09,
    0x69, 0x96, 0x46, 0x15, 0x0f, 0x9f, 0xc0, 0x00, 0xf3, 0xf8, 0x0e, 0x12]"

definition PolicyB_SHA512 :: bytes where
  "PolicyB_SHA512 =
   [0xb8, 0x22, 0x1c, 0xa6, 0x9e, 0x85, 0x50, 0xa4, 0x91, 0x4d, 0xe3, 0xfa,
    0xa6, 0xa1, 0x8c, 0x07, 0x2c, 0xc0, 0x12, 0x08, 0x07, 0x3a, 0x92, 0x8d,
    0x5d, 0x66, 0xd5, 0x9e, 0xf7, 0x9e, 0x49, 0xa4, 0x29, 0xc4, 0x1a, 0x6b,
    0x26, 0x95, 0x71, 0xd5, 0x7e, 0xdb, 0x25, 0xfb, 0xdb, 0x18, 0x38, 0x42,
    0x56, 0x08, 0xb4, 0x13, 0xcd, 0x61, 0x6a, 0x5f, 0x6d, 0xb5, 0xb6, 0x07,
    0x1a, 0xf9, 0x9b, 0xea]"

definition Attestation_PolicyIDevIDKey_SHA256 :: bytes where
  "Attestation_PolicyIDevIDKey_SHA256 =
   [0x54, 0x37, 0x18, 0x23, 0x26, 0xe4, 0x14, 0xfc, 0xa7, 0x97, 0xd5, 0xf1,
    0x74, 0x61, 0x5a, 0x16, 0x41, 0xf6, 0x12, 0x55, 0x79, 0x7c, 0x3a, 0x2b,
    0x22, 0xc2, 0x1d, 0x12, 0x0b, 0x2d, 0x1e, 0x07]"

definition Attestation_PolicyIDevIDKey_SHA384 :: bytes where
  "Attestation_PolicyIDevIDKey_SHA384 =
   [0x12, 0x9d, 0x94, 0xeb, 0xf8, 0x45, 0x56, 0x65, 0x2c, 0x6e, 0xef, 0x43,
    0xbb, 0xb7, 0x57, 0x51, 0x2a, 0xc8, 0x7e, 0x52, 0xbe, 0x7b, 0x34, 0x9c,
    0xa6, 0xce, 0x4d, 0x82, 0x6f, 0x74, 0x9f, 0xcf, 0x67, 0x2f, 0x51, 0x71,
    0x6c, 0x5c, 0xbb, 0x60, 0x5f, 0x31, 0x3b, 0xf3, 0x45, 0xaa, 0xb3, 0x12]"

definition Attestation_PolicyIDevIDKey_SHA512 :: bytes where
  "Attestation_PolicyIDevIDKey_SHA512 =
   [0x80, 0x60, 0xd1, 0xfb, 0x31, 0x71, 0x6a, 0x29, 0xe4, 0x8a, 0x6e, 0x5f,
    0xec, 0xe0, 0x88, 0xbc, 0xfc, 0x1b, 0x27, 0x8f, 0xc1, 0x62, 0x25, 0x5e,
    0x81, 0xc3, 0xec, 0xa3, 0x54, 0x4c, 0xd4, 0x4a, 0xf9, 0x44, 0x10, 0xc3,
    0x71, 0x5d, 0x56, 0x1c, 0xcc, 0xd9, 0xe3, 0x9a, 0x6c, 0xb2, 0x64, 0x6d,
    0x43, 0x53, 0x5b, 0xb5, 0x4e, 0xa8, 0x87, 0x10, 0xde, 0xb5, 0xf7, 0x83,
    0x6b, 0xd9, 0xb5, 0x86]"

definition Signing_PolicyIDevIDKey_SHA256 :: bytes where
  "Signing_PolicyIDevIDKey_SHA256 =
   [0xad, 0x6b, 0x3a, 0x22, 0x84, 0xfd, 0x69, 0x8a, 0x07, 0x10, 0xbf, 0x5c,
    0xc1, 0xb9, 0xbd, 0xf1, 0x5e, 0x25, 0x32, 0xe3, 0xf6, 0x01, 0xfa, 0x4b,
    0x93, 0xa6, 0xa8, 0xfa, 0x8d, 0xe5, 0x79, 0xea]"

definition Signing_PolicyIDevIDKey_SHA384 :: bytes where
  "Signing_PolicyIDevIDKey_SHA384 =
   [0x4d, 0xb1, 0xaa, 0x83, 0x6d, 0x0b, 0x56, 0x15, 0xdf, 0x6e, 0xe5, 0x3a,
    0x40, 0xef, 0x70, 0xc6, 0x1c, 0x21, 0x7f, 0x43, 0x03, 0xd4, 0x46, 0x95,
    0x92, 0x59, 0x72, 0xbc, 0x92, 0x70, 0x06, 0xcf, 0xa5, 0xcb, 0xdf, 0x6d,
    0xc1, 0x8c, 0x4d, 0xbe, 0x32, 0x9b, 0x2f, 0x15, 0x42, 0xc3, 0xdd, 0x33]"

definition Signing_PolicyIDevIDKey_SHA512 :: bytes where
  "Signing_PolicyIDevIDKey_SHA512 =
   [0x7d, 0xd7, 0x50, 0x0f, 0xd6, 0xc1, 0xb9, 0x4f, 0x97, 0xa6, 0xaf, 0x91,
    0x0d, 0xa1, 0x47, 0x30, 0x1e, 0xf2, 0x8f, 0x66, 0x2f, 0xee, 0x06, 0xf2,
    0x25, 0xa4, 0xcc, 0xad, 0xda, 0x3b, 0x4e, 0x6b, 0x38, 0xe6, 0x6b, 0x2f,
    0x3a, 0xd5, 0xde, 0xe1, 0xa0, 0x50, 0x3c, 0xd2, 0xda, 0xed, 0xb1, 0xe6,
    0x8c, 0xfe, 0x4f, 0x84, 0xb0, 0x3a, 0x8c, 0xd2, 0x2b, 0xb6, 0xa9, 0x76,
    0xf0, 0x71, 0xa7, 0x2f]"

definition null_authpolicy :: bytes where "null_authpolicy = []"

definition KEYFLAGS_SPK :: u32 where
  "KEYFLAGS_SPK = push_bit 1 1 OR push_bit 4 1 OR push_bit 5 1 OR push_bit 6 1 OR push_bit 10 1 OR push_bit 16 1 OR push_bit 17 1"
definition KEYFLAGS_IAK :: u32 where
  "KEYFLAGS_IAK = push_bit 1 1 OR push_bit 4 1 OR push_bit 5 1 OR push_bit 6 1 OR push_bit 7 1 OR push_bit 16 1 OR push_bit 18 1"
definition KEYFLAGS_IDEVID :: u32 where
  "KEYFLAGS_IDEVID = push_bit 1 1 OR push_bit 4 1 OR push_bit 5 1 OR push_bit 6 1 OR push_bit 7 1 OR push_bit 18 1"

subsection \<open>PCR banks\<close>

definition banks_to_names :: "(u16 \<times> string) list" where
  "banks_to_names =
    [(TPM2_ALG_SHA1, ''sha1''), (TPM2_ALG_SHA256, ''sha256''), (TPM2_ALG_SHA384, ''sha384''),
     (TPM2_ALG_SHA512, ''sha512''), (TPM2_ALG_SM3, ''sm3-256''), (TPM2_ALG_SHA3_256, ''sha3-256''),
     (TPM2_ALG_SHA3_384, ''sha3-384''), (TPM2_ALG_SHA3_512, ''sha3-512'')]"

definition get_name_for_bank :: "u16 \<Rightarrow> string option" where
  "get_name_for_bank hashAlg = map_option snd (find (\<lambda>b. fst b = hashAlg) banks_to_names)"

definition get_hashalg_by_bankname :: "string \<Rightarrow> u16" where
  "get_hashalg_by_bankname name = (case find (\<lambda>b. snd b = name) banks_to_names of None \<Rightarrow> 0 | Some b \<Rightarrow> fst b)"

subsection \<open>Keys\<close>

record pk_params =
  pk_keyalgo :: keyalgo
  pk_keyalgo_param :: u16
  pk_keydescription :: "string option"
  pk_keyflags :: u32
  pk_nonce :: bytes
  pk_nonce2 :: "bytes option"
  pk_hashalg :: u16
  pk_authpolicy :: bytes
  pk_schemedata :: bytes
  pk_symkey_len :: u32
  pk_duration :: int
  pk_off :: nat
  pk_keysize :: nat

record ek_params =
  ek_pk :: pk_params
  ek_handle :: u32
  ek_keytype :: string
  nvindex_ekcert :: u32
  nvindex_template :: u32

definition ek_params_table :: "ek_params list" where
  "ek_params_table =
   [\<lparr>ek_pk =
     \<lparr>pk_keyalgo = KEYALGO_ECC, pk_keyalgo_param = TPM2_ECC_NIST_P256, pk_keydescription = Some ''secp256r1'', pk_keyflags = 0,
      pk_nonce = NONCE_ECC_256, pk_nonce2 = None, pk_hashalg = TPM2_ALG_SHA256, pk_authpolicy = PolicyA_SHA256,
      pk_schemedata = htobe16 TPM2_ALG_NULL @ htobe16 TPM2_ECC_NIST_P256 @ htobe16 TPM2_ALG_NULL,
      pk_symkey_len = 128, pk_duration = TPM2_DURATION_LONG,
      pk_off = 0, pk_keysize = 32\<rparr>,
     ek_handle = TPM2_EK_ECC_SECP256R1_HANDLE, ek_keytype = ''secp256r1'',
     nvindex_ekcert = TPM2_NV_INDEX_ECC_SECP256R1_EKCERT, nvindex_template = TPM2_NV_INDEX_ECC_SECP256R1_EKTEMPLATE\<rparr>,
    \<lparr>ek_pk =
     \<lparr>pk_keyalgo = KEYALGO_ECC, pk_keyalgo_param = TPM2_ECC_NIST_P384, pk_keydescription = Some ''secp384r1'', pk_keyflags = 0,
      pk_nonce = NONCE_EMPTY, pk_nonce2 = None, pk_hashalg = TPM2_ALG_SHA384, pk_authpolicy = PolicyB_SHA384,
      pk_schemedata = htobe16 TPM2_ALG_NULL @ htobe16 TPM2_ECC_NIST_P384 @ htobe16 TPM2_ALG_NULL,
      pk_symkey_len = 256, pk_duration = TPM2_DURATION_LONG,
      pk_off = 0, pk_keysize = 48\<rparr>,
     ek_handle = TPM2_EK_ECC_SECP384R1_HANDLE, ek_keytype = ''secp384r1'',
     nvindex_ekcert = TPM2_NV_INDEX_ECC_SECP384R1_HI_EKCERT, nvindex_template = TPM2_NV_INDEX_ECC_SECP384R1_HI_EKTEMPLATE\<rparr>,
    \<lparr>ek_pk =
     \<lparr>pk_keyalgo = KEYALGO_ECC, pk_keyalgo_param = TPM2_ECC_NIST_P521, pk_keydescription = Some ''secp521r1'', pk_keyflags = 0,
      pk_nonce = NONCE_EMPTY, pk_nonce2 = None, pk_hashalg = TPM2_ALG_SHA512, pk_authpolicy = PolicyB_SHA512,
      pk_schemedata = htobe16 TPM2_ALG_NULL @ htobe16 TPM2_ECC_NIST_P521 @ htobe16 TPM2_ALG_NULL,
      pk_symkey_len = 256, pk_duration = TPM2_DURATION_LONG,
      pk_off = 0, pk_keysize = 66\<rparr>,
     ek_handle = TPM2_EK_ECC_SECP521R1_HANDLE, ek_keytype = ''secp521r1'',
     nvindex_ekcert = TPM2_NV_INDEX_ECC_SECP521R1_HI_EKCERT, nvindex_template = TPM2_NV_INDEX_ECC_SECP521R1_HI_EKTEMPLATE\<rparr>,
    \<lparr>ek_pk =
     \<lparr>pk_keyalgo = KEYALGO_RSA, pk_keyalgo_param = 2048, pk_keydescription = Some ''rsa2048'', pk_keyflags = 0,
      pk_nonce = NONCE_RSA2048, pk_nonce2 = None, pk_hashalg = TPM2_ALG_SHA256, pk_authpolicy = PolicyA_SHA256,
      pk_schemedata = htobe16 TPM2_ALG_NULL @ htobe16 2048 @ htobe32 0, pk_symkey_len = 128, pk_duration = TPM2_DURATION_LONG,
      pk_off = 0, pk_keysize = 256\<rparr>,
     ek_handle = TPM2_EK_RSA_HANDLE, ek_keytype = ''RSA 2048'',
     nvindex_ekcert = TPM2_NV_INDEX_RSA2048_EKCERT, nvindex_template = TPM2_NV_INDEX_RSA2048_EKTEMPLATE\<rparr>,
    \<lparr>ek_pk =
     \<lparr>pk_keyalgo = KEYALGO_RSA, pk_keyalgo_param = 3072, pk_keydescription = Some ''rsa3072'', pk_keyflags = 0,
      pk_nonce = NONCE_EMPTY, pk_nonce2 = None, pk_hashalg = TPM2_ALG_SHA384, pk_authpolicy = PolicyB_SHA384,
      pk_schemedata = htobe16 TPM2_ALG_NULL @ htobe16 3072 @ htobe32 0, pk_symkey_len = 256, pk_duration = TPM2_DURATION_LONG,
      pk_off = 0, pk_keysize = 384\<rparr>,
     ek_handle = TPM2_EK_RSA3072_HANDLE, ek_keytype = ''RSA 3072'',
     nvindex_ekcert = TPM2_NV_INDEX_RSA3072_HI_EKCERT, nvindex_template = TPM2_NV_INDEX_RSA3072_HI_EKTEMPLATE\<rparr>,
    \<lparr>ek_pk =
     \<lparr>pk_keyalgo = KEYALGO_RSA, pk_keyalgo_param = 4096, pk_keydescription = Some ''rsa4096'', pk_keyflags = 0,
      pk_nonce = NONCE_EMPTY, pk_nonce2 = None, pk_hashalg = TPM2_ALG_SHA384, pk_authpolicy = PolicyB_SHA384,
      pk_schemedata = htobe16 TPM2_ALG_NULL @ htobe16 4096 @ htobe32 0, pk_symkey_len = 256, pk_duration = TPM2_DURATION_EXTRA_LONG,
      pk_off = 0, pk_keysize = 512\<rparr>,
     ek_handle = TPM2_EK_RSA4096_HANDLE, ek_keytype = ''RSA 4096'',
     nvindex_ekcert = TPM2_NV_INDEX_RSA4096_HI_EKCERT, nvindex_template = TPM2_NV_INDEX_RSA4096_HI_EKTEMPLATE\<rparr>]"

definition spk_params_table :: "pk_params list" where
  "spk_params_table =
   [\<lparr>pk_keyalgo = KEYALGO_ECC, pk_keyalgo_param = TPM2_ECC_NIST_P256, pk_keydescription = None, pk_keyflags = KEYFLAGS_SPK,
      pk_nonce = NONCE_ECC_256, pk_nonce2 = None, pk_hashalg = TPM2_ALG_SHA256, pk_authpolicy = null_authpolicy,
      pk_schemedata = htobe16 TPM2_ALG_NULL @ htobe16 TPM2_ECC_NIST_P256 @ htobe16 TPM2_ALG_NULL,
      pk_symkey_len = 128, pk_duration = TPM2_DURATION_LONG,
      pk_off = 42, pk_keysize = 32\<rparr>,
    \<lparr>pk_keyalgo = KEYALGO_ECC, pk_keyalgo_param = TPM2_ECC_NIST_P384, pk_keydescription = None, pk_keyflags = KEYFLAGS_SPK,
      pk_nonce = NONCE_ECC_384, pk_nonce2 = None, pk_hashalg = TPM2_ALG_SHA384, pk_authpolicy = null_authpolicy,
      pk_schemedata = htobe16 TPM2_ALG_NULL @ htobe16 TPM2_ECC_NIST_P384 @ htobe16 TPM2_ALG_NULL,
      pk_symkey_len = 256, pk_duration = TPM2_DURATION_LONG,
      pk_off = 42, pk_keysize = 48\<rparr>,
    \<lparr>pk_keyalgo = KEYALGO_ECC, pk_keyalgo_param = TPM2_ECC_NIST_P521, pk_keydescription = None, pk_keyflags = KEYFLAGS_SPK,
      pk_nonce = NONCE_ECC_521, pk_nonce2 = None, pk_hashalg = TPM2_ALG_SHA512, pk_authpolicy = null_authpolicy,
      pk_schemedata = htobe16 TPM2_ALG_NULL @ htobe16 TPM2_ECC_NIST_P521 @ htobe16 TPM2_ALG_NULL,
      pk_symkey_len = 256, pk_duration = TPM2_DURATION_LONG,
      pk_off = 42, pk_keysize = 66\<rparr>,
    \<lparr>pk_keyalgo = KEYALGO_RSA, pk_keyalgo_param = 2048, pk_keydescription = None, pk_keyflags = KEYFLAGS_SPK,
      pk_nonce = NONCE_RSA2048, pk_nonce2 = None, pk_hashalg = TPM2_ALG_SHA256, pk_authpolicy = null_authpolicy,
      pk_schemedata = htobe16 TPM2_ALG_NULL @ htobe16 2048 @ htobe32 0, pk_symkey_len = 128, pk_duration = TPM2_DURATION_LONG,
      pk_off = 44, pk_keysize = 256\<rparr>,
    \<lparr>pk_keyalgo = KEYALGO_RSA, pk_keyalgo_param = 3072, pk_keydescription = None, pk_keyflags = KEYFLAGS_SPK,
      pk_nonce = NONCE_RSA3072, pk_nonce2 = None, pk_hashalg = TPM2_ALG_SHA384, pk_authpolicy = null_authpolicy,
      pk_schemedata = htobe16 TPM2_ALG_NULL @ htobe16 3072 @ htobe32 0, pk_symkey_len = 256, pk_duration = TPM2_DURATION_LONG,
      pk_off = 44, pk_keysize = 384\<rparr>,
    \<lparr>pk_keyalgo = KEYALGO_RSA, pk_keyalgo_param = 4096, pk_keydescription = None, pk_keyflags = KEYFLAGS_SPK,
      pk_nonce = NONCE_RSA4096, pk_nonce2 = None, pk_hashalg = TPM2_ALG_SHA384, pk_authpolicy = null_authpolicy,
      pk_schemedata = htobe16 TPM2_ALG_NULL @ htobe16 4096 @ htobe32 0, pk_symkey_len = 256, pk_duration = TPM2_DURATION_EXTRA_LONG,
      pk_off = 44, pk_keysize = 512\<rparr>]"

definition iak_params_table :: "pk_params list" where
  "iak_params_table =
   [\<lparr>pk_keyalgo = KEYALGO_ECC, pk_keyalgo_param = TPM2_ECC_NIST_P256, pk_keydescription = Some ''secp256r1'', pk_keyflags = KEYFLAGS_IAK,
      pk_nonce = NONCE_IAK, pk_nonce2 = Some NONCE_EMPTY, pk_hashalg = TPM2_ALG_SHA256, pk_authpolicy = Attestation_PolicyIDevIDKey_SHA256,
      pk_schemedata = htobe16 TPM2_ALG_ECDSA @ htobe16 TPM2_ALG_SHA256 @ htobe16 TPM2_ECC_NIST_P256 @ htobe16 TPM2_ALG_NULL,
      pk_symkey_len = 0, pk_duration = TPM2_DURATION_LONG,
      pk_off = 72, pk_keysize = 32\<rparr>,
    \<lparr>pk_keyalgo = KEYALGO_ECC, pk_keyalgo_param = TPM2_ECC_NIST_P384, pk_keydescription = Some ''secp384r1'', pk_keyflags = KEYFLAGS_IAK,
      pk_nonce = NONCE_IAK, pk_nonce2 = Some NONCE_EMPTY, pk_hashalg = TPM2_ALG_SHA384, pk_authpolicy = Attestation_PolicyIDevIDKey_SHA384,
      pk_schemedata = htobe16 TPM2_ALG_ECDSA @ htobe16 TPM2_ALG_SHA384 @ htobe16 TPM2_ECC_NIST_P384 @ htobe16 TPM2_ALG_NULL,
      pk_symkey_len = 0, pk_duration = TPM2_DURATION_LONG,
      pk_off = 88, pk_keysize = 48\<rparr>,
    \<lparr>pk_keyalgo = KEYALGO_ECC, pk_keyalgo_param = TPM2_ECC_NIST_P521, pk_keydescription = Some ''secp521r1'', pk_keyflags = KEYFLAGS_IAK,
      pk_nonce = NONCE_IAK, pk_nonce2 = Some NONCE_EMPTY, pk_hashalg = TPM2_ALG_SHA512, pk_authpolicy = Attestation_PolicyIDevIDKey_SHA512,
      pk_schemedata = htobe16 TPM2_ALG_ECDSA @ htobe16 TPM2_ALG_SHA512 @ htobe16 TPM2_ECC_NIST_P521 @ htobe16 TPM2_ALG_NULL,
      pk_symkey_len = 0, pk_duration = TPM2_DURATION_LONG,
      pk_off = 104, pk_keysize = 66\<rparr>,
    \<lparr>pk_keyalgo = KEYALGO_RSA, pk_keyalgo_param = 2048, pk_keydescription = Some ''rsa2048'', pk_keyflags = KEYFLAGS_IAK,
      pk_nonce = NONCE_IAK, pk_nonce2 = None, pk_hashalg = TPM2_ALG_SHA256, pk_authpolicy = Attestation_PolicyIDevIDKey_SHA256,
      pk_schemedata = htobe16 TPM2_ALG_RSAPSS @ htobe16 TPM2_ALG_SHA256 @ htobe16 2048 @ htobe32 0,
      pk_symkey_len = 0, pk_duration = TPM2_DURATION_LONG,
      pk_off = 74, pk_keysize = 256\<rparr>,
    \<lparr>pk_keyalgo = KEYALGO_RSA, pk_keyalgo_param = 3072, pk_keydescription = Some ''rsa3072'', pk_keyflags = KEYFLAGS_IAK,
      pk_nonce = NONCE_IAK, pk_nonce2 = None, pk_hashalg = TPM2_ALG_SHA384, pk_authpolicy = Attestation_PolicyIDevIDKey_SHA384,
      pk_schemedata = htobe16 TPM2_ALG_RSAPSS @ htobe16 TPM2_ALG_SHA384 @ htobe16 3072 @ htobe32 0,
      pk_symkey_len = 0, pk_duration = TPM2_DURATION_LONG,
      pk_off = 90, pk_keysize = 384\<rparr>,
    \<lparr>pk_keyalgo = KEYALGO_RSA, pk_keyalgo_param = 4096, pk_keydescription = Some ''rsa4096'', pk_keyflags = KEYFLAGS_IAK,
      pk_nonce = NONCE_IAK, pk_nonce2 = None, pk_hashalg = TPM2_ALG_SHA384, pk_authpolicy = Attestation_PolicyIDevIDKey_SHA384,
      pk_schemedata = htobe16 TPM2_ALG_RSAPSS @ htobe16 TPM2_ALG_SHA384 @ htobe16 4096 @ htobe32 0,
      pk_symkey_len = 0, pk_duration = TPM2_DURATION_EXTRA_LONG,
      pk_off = 90, pk_keysize = 512\<rparr>]"

definition idevid_params_table :: "pk_params list" where
  "idevid_params_table =
   [\<lparr>pk_keyalgo = KEYALGO_ECC, pk_keyalgo_param = TPM2_ECC_NIST_P256, pk_keydescription = Some ''secp256r1'', pk_keyflags = KEYFLAGS_IDEVID,
      pk_nonce = NONCE_IDEVID, pk_nonce2 = Some NONCE_EMPTY, pk_hashalg = TPM2_ALG_SHA256, pk_authpolicy = Signing_PolicyIDevIDKey_SHA256,
      pk_schemedata = htobe16 TPM2_ALG_ECDSA @ htobe16 TPM2_ALG_SHA256 @ htobe16 TPM2_ECC_NIST_P256 @ htobe16 TPM2_ALG_NULL,
      pk_symkey_len = 0, pk_duration = TPM2_DURATION_LONG,
      pk_off = 72, pk_keysize = 32\<rparr>,
    \<lparr>pk_keyalgo = KEYALGO_ECC, pk_keyalgo_param = TPM2_ECC_NIST_P384, pk_keydescription = Some ''secp384r1'', pk_keyflags = KEYFLAGS_IDEVID,
      pk_nonce = NONCE_IDEVID, pk_nonce2 = Some NONCE_EMPTY, pk_hashalg = TPM2_ALG_SHA384, pk_authpolicy = Signing_PolicyIDevIDKey_SHA384,
      pk_schemedata = htobe16 TPM2_ALG_ECDSA @ htobe16 TPM2_ALG_SHA384 @ htobe16 TPM2_ECC_NIST_P384 @ htobe16 TPM2_ALG_NULL,
      pk_symkey_len = 0, pk_duration = TPM2_DURATION_LONG,
      pk_off = 88, pk_keysize = 48\<rparr>,
    \<lparr>pk_keyalgo = KEYALGO_ECC, pk_keyalgo_param = TPM2_ECC_NIST_P521, pk_keydescription = Some ''secp521r1'', pk_keyflags = KEYFLAGS_IDEVID,
      pk_nonce = NONCE_IDEVID, pk_nonce2 = Some NONCE_EMPTY, pk_hashalg = TPM2_ALG_SHA512, pk_authpolicy = Signing_PolicyIDevIDKey_SHA512,
      pk_schemedata = htobe16 TPM2_ALG_ECDSA @ htobe16 TPM2_ALG_SHA512 @ htobe16 TPM2_ECC_NIST_P521 @ htobe16 TPM2_ALG_NULL,
      pk_symkey_len = 0, pk_duration = TPM2_DURATION_LONG,
      pk_off = 104, pk_keysize = 66\<rparr>,
    \<lparr>pk_keyalgo = KEYALGO_RSA, pk_keyalgo_param = 2048, pk_keydescription = Some ''rsa2048'', pk_keyflags = KEYFLAGS_IDEVID,
      pk_nonce = NONCE_IDEVID, pk_nonce2 = None, pk_hashalg = TPM2_ALG_SHA256, pk_authpolicy = Signing_PolicyIDevIDKey_SHA256,
      pk_schemedata = htobe16 TPM2_ALG_NULL @ htobe16 2048 @ htobe32 0, pk_symkey_len = 0, pk_duration = TPM2_DURATION_LONG,
      pk_off = 72, pk_keysize = 256\<rparr>,
    \<lparr>pk_keyalgo = KEYALGO_RSA, pk_keyalgo_param = 3072, pk_keydescription = Some ''rsa3072'', pk_keyflags = KEYFLAGS_IDEVID,
      pk_nonce = NONCE_IDEVID, pk_nonce2 = None, pk_hashalg = TPM2_ALG_SHA384, pk_authpolicy = Signing_PolicyIDevIDKey_SHA384,
      pk_schemedata = htobe16 TPM2_ALG_NULL @ htobe16 3072 @ htobe32 0, pk_symkey_len = 0, pk_duration = TPM2_DURATION_LONG,
      pk_off = 88, pk_keysize = 384\<rparr>,
    \<lparr>pk_keyalgo = KEYALGO_RSA, pk_keyalgo_param = 4096, pk_keydescription = Some ''rsa4096'', pk_keyflags = KEYFLAGS_IDEVID,
      pk_nonce = NONCE_IDEVID, pk_nonce2 = None, pk_hashalg = TPM2_ALG_SHA384, pk_authpolicy = Signing_PolicyIDevIDKey_SHA384,
      pk_schemedata = htobe16 TPM2_ALG_NULL @ htobe16 4096 @ htobe32 0, pk_symkey_len = 0, pk_duration = TPM2_DURATION_EXTRA_LONG,
      pk_off = 104, pk_keysize = 512\<rparr>]"

text \<open>The parameter is compared as an \<open>unsigned int\<close>.\<close>

definition pk_matches :: "keyalgo \<Rightarrow> nat \<Rightarrow> pk_params \<Rightarrow> bool" where
  "pk_matches algo param pk \<longleftrightarrow> pk_keyalgo pk = algo \<and> unat (pk_keyalgo_param pk) = param"

definition get_ek_params :: "keyalgo \<Rightarrow> nat \<Rightarrow> ek_params option" where
  "get_ek_params algo param = find (\<lambda>ek. pk_matches algo param (ek_pk ek)) ek_params_table"

definition get_spk_params :: "keyalgo \<Rightarrow> nat \<Rightarrow> pk_params option" where
  "get_spk_params algo param = find (pk_matches algo param) spk_params_table"

definition get_iak_params :: "keyalgo \<Rightarrow> nat \<Rightarrow> pk_params option" where
  "get_iak_params algo param = find (pk_matches algo param) iak_params_table"

definition get_idevid_params :: "keyalgo \<Rightarrow> nat \<Rightarrow> pk_params option" where
  "get_idevid_params algo param = find (pk_matches algo param) idevid_params_table"

end
