(* ===== verification/SetupLink.thy ===== *)
theory SetupLink
  imports Common Dir SetupTables
begin

section \<open>swtpm\_setup: the swtpm process it drives\<close>

text \<open>
  The first part of src/src/swtpm_setup/swtpm.c and the helpers of src/src/utils/swtpm_utils.c it uses: starting
  and stopping a swtpm process, and \<open>transfer\<close>, which sends one request over the control or the data socket and reads
  the answer. What is outside the program is the state \<open>'p\<close>: the swtpm process behind the sockets and the operating system.
  The record \<open>setup_env\<close> says how it reacts; theorems hold for every such record. \<open>sw_sent\<close> is a history of the requests.
  Logging is left out.
\<close>

subsection \<open>Buffers\<close>

text \<open>
  \<open>concat\<close> into a buffer of \<open>buflen\<close> bytes: \<open>None\<close> when a part does not fit. \<open>memconcat\<close> grows its
  buffer and cannot fail, so it is the concatenation of lists.
\<close>

fun concat_from :: "nat \<Rightarrow> bytes \<Rightarrow> bytes list \<Rightarrow> bytes option" where
  "concat_from buflen out [] = Some out"
| "concat_from buflen out (i # is) =
     (if length out + length i > buflen then None else concat_from buflen (out @ i) is)"

definition concat_buf :: "nat \<Rightarrow> bytes list \<Rightarrow> bytes option" where
  "concat_buf buflen parts = concat_from buflen [] parts"

definition memconcat :: "bytes list \<Rightarrow> bytes" where
  "memconcat parts = concat parts"

text \<open>
  \<open>print_as_hex\<close> writes two digits and a terminator per byte; for no bytes at all it returns a buffer whose one
  byte was never written, which is \<open>None\<close> here.
\<close>

definition print_as_hex :: "bytes \<Rightarrow> string option" where
  "print_as_hex input = (if input = [] then None else Some (concat (map (\<lambda>b. fmt_02lx (unat b)) input)))"

subsection \<open>The object\<close>

record 'p swtpm =
  sw_exec_l :: "string list"
  sw_state_path :: string
  sw_keyopts :: "string option"
  sw_logfile :: "string option"
  sw_is_tpm2 :: bool
  sw_json_profile :: "string option"
  sw_json_profile_fd :: int
  sw_profile_remove_disabled :: "string option"
  sw_pid :: int
  sw_ctrl_fds :: "int \<times> int"
  sw_data_fds :: "int \<times> int"
  sw_peer :: 'p
  sw_sent :: "(bool \<times> bytes) list"

definition swtpm_init ::
  "string list \<Rightarrow> string \<Rightarrow> string option \<Rightarrow> string option \<Rightarrow> bool \<Rightarrow> string option \<Rightarrow> int \<Rightarrow> string option \<Rightarrow> 'p \<Rightarrow> 'p swtpm"
where
  "swtpm_init exec_l path keyopts logfile is_tpm2 jprofile profile_fd remove_disabled world =
     \<lparr>sw_exec_l = exec_l, sw_state_path = path, sw_keyopts = keyopts, sw_logfile = logfile,
      sw_is_tpm2 = is_tpm2, sw_json_profile = jprofile, sw_json_profile_fd = profile_fd,
      sw_profile_remove_disabled = remove_disabled, sw_pid = -1, sw_ctrl_fds = (-1, -1),
      sw_data_fds = (-1, -1), sw_peer = world, sw_sent = []\<rparr>"

definition swtpm12_new ::
  "string list \<Rightarrow> string \<Rightarrow> string option \<Rightarrow> string option \<Rightarrow> 'p \<Rightarrow> 'p swtpm"
where
  "swtpm12_new exec_l path keyopts logfile world =
     swtpm_init exec_l path keyopts logfile False None 0 None world"

definition swtpm2_new ::
  "string list \<Rightarrow> string \<Rightarrow> string option \<Rightarrow> string option \<Rightarrow> string option \<Rightarrow> int \<Rightarrow> string option \<Rightarrow> 'p \<Rightarrow> 'p swtpm"
where
  "swtpm2_new exec_l path keyopts logfile jprofile profile_fd remove_disabled world =
     swtpm_init exec_l path keyopts logfile True jprofile profile_fd remove_disabled world"

text \<open>
  One exchange on a socket: what \<open>write\<close> returned (\<open>None\<close> for an error), whether \<open>poll\<close> reported input in time, and what
  \<open>read\<close> returned. The other fields are the system calls of \<open>swtpm_start\<close> and \<open>swtpm_stop\<close>.
\<close>

datatype exchange = Exchange (ex_write: "nat option") (ex_poll: bool) (ex_read: "bytes option")

record 'p setup_env =
  env_exchange :: "bool \<Rightarrow> bytes \<Rightarrow> int \<Rightarrow> 'p \<Rightarrow> exchange \<times> 'p"
  env_mkstemp :: "'p \<Rightarrow> string option \<times> 'p"
  env_socketpair :: "'p \<Rightarrow> (int \<times> int) option \<times> 'p"
  env_spawn :: "string list \<Rightarrow> 'p \<Rightarrow> int option \<times> 'p"
  env_alive :: "int \<Rightarrow> 'p \<Rightarrow> bool \<times> 'p"
  env_pidfile_written :: "'p \<Rightarrow> bool \<times> 'p"
  env_kill :: "int \<Rightarrow> 'p \<Rightarrow> 'p"
  env_wait :: "int \<Rightarrow> 'p \<Rightarrow> 'p"
  env_close :: "int \<Rightarrow> 'p \<Rightarrow> 'p"
  env_unlink :: "string \<Rightarrow> 'p \<Rightarrow> 'p"
  env_behind :: bytes

subsection \<open>One request and its answer\<close>

text \<open>
  The result of \<open>transfer\<close> is its return value and what it left in the caller's buffer, whose size is
  \<open>respbuffer\<close>, \<open>None\<close> for no buffer: the answer is given even when its return code says failure.
\<close>

definition transfer ::
  "'p setup_env \<Rightarrow> 'p swtpm \<Rightarrow> bytes \<Rightarrow> bool \<Rightarrow> nat option \<Rightarrow> int \<Rightarrow> (int \<times> bytes) \<times> 'p swtpm"
where
  "transfer env self buffer use_ctrl respbuffer timeout_ms =
     (case env_exchange env use_ctrl buffer timeout_ms (sw_peer self) of (x, p) \<Rightarrow>
        ((case (ex_write x, ex_poll x, ex_read x) of
            (Some n, True, Some bs) \<Rightarrow>
              (let resp = take 4096 bs; offset = (if use_ctrl then 0 else 6) in
               if n \<noteq> length buffer then (1, [])
               else if length resp < (if use_ctrl then 4 else 10) then (1, [])
               else (if be32toh (mem_read resp offset 4) \<noteq> 0 then 1 else 0,
                     case respbuffer of None \<Rightarrow> [] | Some n \<Rightarrow> take n resp))
          | _ \<Rightarrow> (1, [])),
         self\<lparr>sw_peer := p, sw_sent := sw_sent self @ [(use_ctrl, buffer)]\<rparr>))"

abbreviation CMD_DURATION_SHORT :: int where "CMD_DURATION_SHORT \<equiv> 2000"

definition swtpm_ctrl_shutdown :: "'p setup_env \<Rightarrow> 'p swtpm \<Rightarrow> int \<times> 'p swtpm" where
  "swtpm_ctrl_shutdown env self =
     (case transfer env self (htobe32 CMD_SHUTDOWN) True None CMD_DURATION_SHORT of
        ((ret, _), self) \<Rightarrow> (ret, self))"

text \<open>
  \<open>do_cmd_get_info\<close>: the sum \<open>12 + length\<close> is taken in 32 bits. \<open>g_strndup\<close> of \<open>length\<close> bytes stops at a
  zero byte; \<open>env_behind\<close> are the bytes in memory behind the answer, which a length close to \<open>2\<^sup>3\<^sup>2\<close> makes it read.
\<close>

definition do_cmd_get_info ::
  "'p setup_env \<Rightarrow> 'p swtpm \<Rightarrow> u64 \<Rightarrow> bytes option \<times> 'p swtpm"
where
  "do_cmd_get_info env self swtpm_info_flags =
     (let req = htobe32 CMD_GET_INFO @ htobe64 swtpm_info_flags @ htobe32 0 @ htobe32 0 in
      case transfer env self req True (Some 16384) CMD_DURATION_SHORT of
        ((ret, tpmresp), self) \<Rightarrow>
          (if ret \<noteq> 0 then None
           else if length tpmresp < 8 + 4 then None
           else
             let len = be32toh (mem_read tpmresp 8 4) in
             if length tpmresp < unat (12 + len) then None
             else Some (takeWhile (\<lambda>b. b \<noteq> 0) (take (unat len) (drop 12 tpmresp @ env_behind env))),
           self))"

abbreviation SWTPM_INFO_TPMSPECIFICATION :: u64 where "SWTPM_INFO_TPMSPECIFICATION \<equiv> 1"
abbreviation SWTPM_INFO_TPMATTRIBUTES :: u64 where "SWTPM_INFO_TPMATTRIBUTES \<equiv> 2"
abbreviation SWTPM_INFO_ACTIVE_PROFILE :: u64 where "SWTPM_INFO_ACTIVE_PROFILE \<equiv> 0x20"

definition swtpm_ctrl_get_tpm_specs_and_attrs ::
  "'p setup_env \<Rightarrow> 'p swtpm \<Rightarrow> bytes option \<times> 'p swtpm"
where
  "swtpm_ctrl_get_tpm_specs_and_attrs env self =
     do_cmd_get_info env self (SWTPM_INFO_TPMSPECIFICATION OR SWTPM_INFO_TPMATTRIBUTES)"

subsection \<open>Starting and stopping swtpm\<close>

text \<open>\<open>SWTPM_CLOSE\<close> on a descriptor, and closing both ends of the sockets.\<close>

definition SWTPM_CLOSE :: "'p setup_env \<Rightarrow> int \<Rightarrow> 'p \<Rightarrow> int \<times> 'p" where
  "SWTPM_CLOSE env fd p = (if fd \<ge> 0 then (-1, env_close env fd p) else (fd, p))"

definition swtpm_close_comm :: "'p setup_env \<Rightarrow> 'p swtpm \<Rightarrow> bool \<Rightarrow> 'p swtpm" where
  "swtpm_close_comm env self all =
     (let (d0, p) = (if all then SWTPM_CLOSE env (fst (sw_data_fds self)) (sw_peer self)
                     else (fst (sw_data_fds self), sw_peer self));
          (d1, p) = SWTPM_CLOSE env (snd (sw_data_fds self)) p;
          (c0, p) = (if all then SWTPM_CLOSE env (fst (sw_ctrl_fds self)) p else (fst (sw_ctrl_fds self), p));
          (c1, p) = SWTPM_CLOSE env (snd (sw_ctrl_fds self)) p
      in self\<lparr>sw_data_fds := (d0, d1), sw_ctrl_fds := (c0, c1), sw_peer := p\<rparr>)"

text \<open>The wait of \<open>swtpm_stop\<close> for the process to end: at most 500 looks.\<close>

fun wait_ended :: "'p setup_env \<Rightarrow> int \<Rightarrow> nat \<Rightarrow> 'p \<Rightarrow> bool \<times> 'p" where
  "wait_ended env pid 0 p = (False, p)"
| "wait_ended env pid (Suc c) p =
     (case env_alive env pid p of (alive, p) \<Rightarrow> if \<not> alive then (True, p) else wait_ended env pid c p)"

definition swtpm_stop :: "'p setup_env \<Rightarrow> 'p swtpm \<Rightarrow> 'p swtpm" where
  "swtpm_stop env self =
     (let self = (if sw_pid self > 0 then
            (let (_, self) = swtpm_ctrl_shutdown env self;
                 (ended, p) = wait_ended env (sw_pid self) 500 (sw_peer self);
                 p = (if \<not> ended then env_kill env (sw_pid self) p else p);
                 p = env_wait env (sw_pid self) p
             in self\<lparr>sw_pid := 0, sw_peer := p\<rparr>)
          else self)
      in swtpm_close_comm env self True)"

definition swtpm_destroy :: "'p setup_env \<Rightarrow> 'p swtpm \<Rightarrow> 'p swtpm" where
  "swtpm_destroy env self = swtpm_stop env self"

text \<open>
  The command line of the swtpm process: the part before the sockets are made and the rest. \<open>dec\<close> prints an
  unsigned number, \<open>dec_int\<close> a signed one.
\<close>

definition dec_int :: "int \<Rightarrow> string" where
  "dec_int i = (if i < 0 then CHR ''-'' # dec (nat (- i)) else dec (nat i))"

definition start_argv :: "'p swtpm \<Rightarrow> string option \<Rightarrow> string \<Rightarrow> string list" where
  "start_argv self gl_LOGFILE pidname =
     (let tpmstate = ''backend-uri='' @ sw_state_path self @ '',lock'';
          argv = sw_exec_l self @
            [''--flags'', ''not-need-init,startup-clear'', ''--tpmstate'', tpmstate, ''--pid'', ''file='' @ pidname];
          argv = (if sw_is_tpm2 self then argv @ [''--tpm2''] else argv);
          argv = (case sw_keyopts self of None \<Rightarrow> argv | Some k \<Rightarrow> argv @ [''--key'', k]);
          jprofile =
            (if sw_json_profile_fd self \<ge> 0 then Some (''fd='' @ dec (nat (sw_json_profile_fd self)))
             else case sw_json_profile self of None \<Rightarrow> None | Some pr \<Rightarrow> Some (''profile='' @ pr));
          jprofile =
            (case (jprofile, sw_profile_remove_disabled self) of
               (Some jp, Some param) \<Rightarrow> Some (jp @ '',remove-disabled='' @ param)
             | _ \<Rightarrow> jprofile);
          argv = (case jprofile of None \<Rightarrow> argv | Some jp \<Rightarrow> argv @ [''--profile'', jp])
      in case gl_LOGFILE of None \<Rightarrow> argv | Some lf \<Rightarrow> argv @ [''--log'', ''file='' @ lf])"

definition server_argv :: "int \<Rightarrow> int \<Rightarrow> string list" where
  "server_argv data_fd ctrl_fd =
     [''--server'', ''type=tcp,fd='' @ dec_int data_fd, ''--ctrl'', ''type=unixio,clientfd='' @ dec_int ctrl_fd]"

text \<open>The wait for the pid file: at most 1000 looks; \<open>Some False\<close> when the process has gone, \<open>None\<close> when time is up.\<close>

fun wait_pidfile :: "'p setup_env \<Rightarrow> int \<Rightarrow> nat \<Rightarrow> 'p \<Rightarrow> bool option \<times> 'p" where
  "wait_pidfile env pid 0 p = (None, p)"
| "wait_pidfile env pid (Suc ctr) p =
     (case env_alive env pid p of (alive, p) \<Rightarrow>
        if \<not> alive then (Some False, p)
        else (case env_pidfile_written env p of (written, p) \<Rightarrow>
                if written then (Some True, p) else wait_pidfile env pid ctr p))"

definition start_end :: "'p setup_env \<Rightarrow> string \<Rightarrow> int \<Rightarrow> 'p swtpm \<Rightarrow> int \<times> 'p swtpm" where
  "start_end env pidname ret self =
     (let self = swtpm_close_comm env self (ret \<noteq> 0)
      in (ret, self\<lparr>sw_peer := env_unlink env pidname (sw_peer self)\<rparr>))"

definition swtpm_start :: "'p setup_env \<Rightarrow> string option \<Rightarrow> 'p swtpm \<Rightarrow> int \<times> 'p swtpm" where
  "swtpm_start env gl_LOGFILE self =
     (case env_mkstemp env (sw_peer self) of
        (None, p) \<Rightarrow> (1, self\<lparr>sw_peer := p\<rparr>)
      | (Some pidname, p) \<Rightarrow>
          (let argv = start_argv self gl_LOGFILE pidname in
           case env_socketpair env p of
             (None, p) \<Rightarrow> start_end env pidname 1 (self\<lparr>sw_peer := p\<rparr>)
           | (Some ctrl, p) \<Rightarrow>
               (let self = self\<lparr>sw_ctrl_fds := ctrl\<rparr> in
                case env_socketpair env p of
                  (None, p) \<Rightarrow> start_end env pidname 1 (self\<lparr>sw_peer := p\<rparr>)
                | (Some data, p) \<Rightarrow>
                    (let self = self\<lparr>sw_data_fds := data\<rparr> in
                     case env_spawn env (argv @ server_argv (snd data) (snd ctrl)) p of
                       (None, p) \<Rightarrow> start_end env pidname 1 (self\<lparr>sw_peer := p\<rparr>)
                     | (Some pid, p) \<Rightarrow>
                         (case wait_pidfile env pid 1000 p of
                            (None, p) \<Rightarrow> start_end env pidname 1 (self\<lparr>sw_pid := pid, sw_peer := p\<rparr>)
                          | (Some False, p) \<Rightarrow>
                              start_end env pidname 1 (swtpm_stop env (self\<lparr>sw_pid := 0, sw_peer := p\<rparr>))
                          | (Some True, p) \<Rightarrow> start_end env pidname 0 (self\<lparr>sw_pid := pid, sw_peer := p\<rparr>))))))"


subsection \<open>Requests that the server takes as one\<close>

text \<open>
  A request is well formed when the server's own reading functions, \<open>ctrlchannel_recv_cmd\<close> and \<open>SWTPM_IO_Read\<close> with
  its buffer of 4096 bytes, take exactly this request from the socket, and a TPM command's size field is its length.
\<close>

fun request_ok :: "bool \<times> bytes \<Rightarrow> bool" where
  "request_ok (True, req) \<longleftrightarrow> ctrlchannel_recv_cmd [RChunk req] [] = Some req"
| "request_ok (False, req) \<longleftrightarrow>
     SWTPM_IO_Read 0 4096 [RdBytes req] = (Inr req, []) \<and> be32toh (mem_read req 2 4) = of_nat (length req)"

declare request_ok.simps [simp del]

lemma ctrl_request_ok:
  "4 \<le> length req \<Longrightarrow> recv_needed req \<le> length req \<Longrightarrow> length req \<le> sizeof_input \<Longrightarrow> request_ok (True, req)"
  by (auto simp: request_ok.simps Let_def)

text \<open>
  \<open>talks self self'\<close>: from \<open>self\<close> to \<open>self'\<close> only well formed requests were sent, and the process and
  the descriptors are the same.
\<close>

definition talks :: "'p swtpm \<Rightarrow> 'p swtpm \<Rightarrow> bool" where
  "talks self self' \<longleftrightarrow>
     (\<exists>rs. list_all request_ok rs \<and> sw_sent self' = sw_sent self @ rs) \<and> sw_pid self' = sw_pid self \<and>
     sw_ctrl_fds self' = sw_ctrl_fds self \<and> sw_data_fds self' = sw_data_fds self"

named_theorems talking \<open>operations that only exchange well formed requests\<close>

lemma talks_refl [simp, talking]: "talks self self"
  by (simp add: talks_def)

lemma talks_trans [trans]: "talks a b \<Longrightarrow> talks b c \<Longrightarrow> talks a c"
  by (fastforce simp: talks_def)

lemma transfer_talks: "request_ok (c, req) \<Longrightarrow> talks self (snd (transfer env self req c n t))"
  by (cases c) (simp_all add: transfer_def talks_def split: prod.split)

lemma talks_fields:
  assumes "talks self self'"
  shows "sw_pid self' = sw_pid self" "sw_ctrl_fds self' = sw_ctrl_fds self" "sw_data_fds self' = sw_data_fds self"
  using assms by (auto simp: talks_def)

lemma ctrl_shutdown_talks: "talks self (snd (swtpm_ctrl_shutdown env self))"
proof -
  have "request_ok (True, htobe32 CMD_SHUTDOWN)"
    by (rule ctrl_request_ok) (simp_all add: recv_needed_def mem)
  then show ?thesis
    using transfer_talks [of True "htobe32 CMD_SHUTDOWN" self env None CMD_DURATION_SHORT]
    by (auto simp: swtpm_ctrl_shutdown_def split: prod.split)
qed

lemma get_info_talks: "talks self (snd (do_cmd_get_info env self info_flags))"
proof -
  let ?req = "htobe32 CMD_GET_INFO @ htobe64 info_flags @ htobe32 0 @ htobe32 0"
  have "request_ok (True, ?req)"
    by (rule ctrl_request_ok) (simp_all add: recv_needed_def mem)
  then show ?thesis
    using transfer_talks [of True ?req self env "Some 16384" CMD_DURATION_SHORT]
    by (auto simp: do_cmd_get_info_def Let_def split: prod.split)
qed


text \<open>Rules for sequences of operations.\<close>

lemma talks_bind [talking]:
  "talks self (snd r) \<Longrightarrow> (\<And>a s. talks self s \<Longrightarrow> talks self (snd (g a s))) \<Longrightarrow> talks self (snd (case r of (a, s) \<Rightarrow> g a s))"
  by (cases r) simp

lemma talks_if [talking]:
  "talks self (snd x) \<Longrightarrow> talks self (snd y) \<Longrightarrow> talks self (snd (if b then x else y))"
  by simp

lemma talks_option [talking]:
  "talks self (snd x) \<Longrightarrow> (\<And>a. talks self (snd (f a))) \<Longrightarrow> talks self (snd (case v of None \<Rightarrow> x | Some a \<Rightarrow> f a))"
  by (cases v) simp_all

lemma talks_pair [talking]: "talks self s \<Longrightarrow> talks self (snd (a, s))"
  by simp

lemma talks_transfer [talking]:
  "request_ok (c, req) \<Longrightarrow> talks self s \<Longrightarrow> (\<And>ret resp s. talks self s \<Longrightarrow> talks self (snd (g ret resp s))) \<Longrightarrow>
   talks self (snd (case transfer env s req c n t of ((ret, resp), s) \<Rightarrow> g ret resp s))"
  using transfer_talks [of c req s env n t] talks_trans by (fastforce split: prod.split)

lemmas ctrl_talks [talking] = talks_trans [OF _ ctrl_shutdown_talks] talks_trans [OF _ get_info_talks]

end
