(* ===== verification/SetupTpm2.thy ===== *)
theory SetupTpm2
  imports SetupLink
begin

section \<open>swtpm\_setup: TPM 2 commands\<close>

text \<open>
  The TPM 2 part of src/src/swtpm_setup/swtpm.c: every command is built, sent with \<open>transfer\<close> and its answer is
  taken apart. A function with results returns them as an option, \<open>None\<close> for a return value of 1; a function
  without results returns the value itself.
\<close>

subsection \<open>Requests\<close>

text \<open>
  A request is its header (tag, size, ordinal) and its parts; the code writes the size once the parts are together.
\<close>

definition tpm_request :: "u16 \<Rightarrow> u32 \<Rightarrow> bytes list \<Rightarrow> bytes" where
  "tpm_request tag ordinal parts =
     (let body = memconcat parts
      in htobe16 tag @ htobe32 (of_nat (10 + length body)) @ htobe32 ordinal @ body)"

definition tpm2_authblock :: bytes where
  "tpm2_authblock = htobe32 TPM2_RS_PW @ htobe16 0 @ [0] @ htobe16 0"

abbreviation authblock_len :: bytes where
  "authblock_len \<equiv> htobe32 (of_nat (length tpm2_authblock))"

definition simple_cmd :: "'p setup_env \<Rightarrow> 'p swtpm \<Rightarrow> bytes \<Rightarrow> int \<Rightarrow> int \<times> 'p swtpm" where
  "simple_cmd env self req duration =
     (case transfer env self req False None duration of ((ret, _), self) \<Rightarrow> (ret, self))"

definition swtpm_tpm2_shutdown :: "'p setup_env \<Rightarrow> 'p swtpm \<Rightarrow> int \<times> 'p swtpm" where
  "swtpm_tpm2_shutdown env self =
     simple_cmd env self (tpm_request TPM2_ST_NO_SESSIONS TPM2_CC_SHUTDOWN [htobe16 TPM2_SU_CLEAR]) TPM2_DURATION_SHORT"

subsection \<open>PCR banks\<close>

text \<open>The loop over the banks of an answer; the length of the selection is a byte, so the offset cannot wrap.\<close>

fun pcr_banks_loop :: "bytes \<Rightarrow> nat \<Rightarrow> nat \<Rightarrow> string list option" where
  "pcr_banks_loop tpmresp 0 offset = Some []"
| "pcr_banks_loop tpmresp (Suc n) offset =
     (if length tpmresp < offset + 2 then None
      else if length tpmresp < offset + 2 + 1 then None
      else
        let bank = be16toh (mem_read tpmresp offset 2);
            len = unat (tpmresp ! (offset + 2));
            name = (case get_name_for_bank bank of Some name \<Rightarrow> name | None \<Rightarrow> fmt_02lx (unat bank))
        in map_option (Cons name) (pcr_banks_loop tpmresp n (offset + 2 + 1 + len)))"

definition swtpm_tpm2_get_all_pcr_banks ::
  "'p setup_env \<Rightarrow> 'p swtpm \<Rightarrow> string list option \<times> 'p swtpm"
where
  "swtpm_tpm2_get_all_pcr_banks env self =
     (let req = tpm_request TPM2_ST_NO_SESSIONS TPM2_CC_GETCAPABILITY [htobe32 TPM2_CAP_PCRS @ htobe32 0 @ htobe32 64] in
      case transfer env self req False (Some 256) TPM2_DURATION_MEDIUM of ((ret, tpmresp), self) \<Rightarrow>
        (if ret \<noteq> 0 then None
         else if length tpmresp < 17 + 2 then None
         else
           let count = be16toh (mem_read tpmresp 17 2) in
           if count > 20 then None
           else pcr_banks_loop tpmresp (unat count) 19,
         self))"

text \<open>The index of the first bank with a name, or the number of banks.\<close>

fun bank_index :: "string list \<Rightarrow> string \<Rightarrow> nat" where
  "bank_index [] b = 0"
| "bank_index (a # as) b = (if b = a then 0 else Suc (bank_index as b))"

text \<open>
  The loop that activates the chosen banks: \<open>activated\<close> marks the available banks already taken, so that a bank
  chosen twice is activated once. \<open>Inl\<close> when the 60 bytes of \<open>pcrselects\<close> are full.
\<close>

fun activate_loop ::
  "string list \<Rightarrow> string list \<Rightarrow> u64 \<Rightarrow> string list \<times> bytes \<Rightarrow> string list + (string list \<times> bytes)"
where
  "activate_loop all [] activated (act, selects) = Inr (act, selects)"
| "activate_loop all (bank # banks) activated (act, selects) =
     (let j = bank_index all bank;
          hashAlg = (if j < length all then get_hashalg_by_bankname bank else 0)
      in if hashAlg \<noteq> 0 \<and> activated AND push_bit j 1 = 0 then
           (case concat_buf (60 - length selects) [htobe16 hashAlg @ [3, 0xff, 0xff, 0xff]] of
              None \<Rightarrow> Inl (act @ [bank])
            | Some sel \<Rightarrow> activate_loop all banks (activated OR push_bit j 1) (act @ [bank], selects @ sel))
         else activate_loop all banks activated (act, selects))"

text \<open>The loop that deactivates the available banks that were not chosen.\<close>

fun deactivate_loop :: "string list \<Rightarrow> string list \<Rightarrow> nat \<times> bytes \<Rightarrow> (nat \<times> bytes) option" where
  "deactivate_loop chosen [] (count, selects) = Some (count, selects)"
| "deactivate_loop chosen (bank # banks) (count, selects) =
     (if bank \<in> set chosen then deactivate_loop chosen banks (count, selects)
      else case concat_buf (60 - length selects) [htobe16 (get_hashalg_by_bankname bank) @ [3, 0, 0, 0]] of
        None \<Rightarrow> None
      | Some sel \<Rightarrow> deactivate_loop chosen banks (count + 1, selects @ sel))"

definition swtpm_tpm2_set_active_pcr_banks ::
  "'p setup_env \<Rightarrow> 'p swtpm \<Rightarrow> string list \<Rightarrow> string list \<Rightarrow> (int \<times> string list option) \<times> 'p swtpm"
where
  "swtpm_tpm2_set_active_pcr_banks env self pcr_banks all_pcr_banks =
     (case activate_loop all_pcr_banks pcr_banks 0 ([], []) of
        Inl act \<Rightarrow> ((1, Some act), self)
      | Inr (act, selects) \<Rightarrow>
          if act = [] then ((1, None), self)
          else case deactivate_loop pcr_banks all_pcr_banks (length act, selects) of
            None \<Rightarrow> ((1, None), self)
          | Some (count, selects) \<Rightarrow>
              (let req = tpm_request TPM2_ST_SESSIONS TPM2_CC_PCR_ALLOCATE
                     [htobe32 TPM2_RH_PLATFORM @ authblock_len, tpm2_authblock, htobe32 (of_nat count), selects]
               in case simple_cmd env self req TPM2_DURATION_SHORT of (ret, self) \<Rightarrow>
                    if ret \<noteq> 0 then ((1, None), self) else ((0, Some act), self)))"

subsection \<open>Handles\<close>

definition swtpm_tpm2_flushcontext :: "'p setup_env \<Rightarrow> 'p swtpm \<Rightarrow> u32 \<Rightarrow> int \<times> 'p swtpm" where
  "swtpm_tpm2_flushcontext env self handle =
     simple_cmd env self (tpm_request TPM2_ST_NO_SESSIONS TPM2_CC_FLUSHCONTEXT [htobe32 handle]) TPM2_DURATION_SHORT"

definition evictcontrol_req :: "u32 \<Rightarrow> u32 \<Rightarrow> bytes" where
  "evictcontrol_req curr_handle perm_handle =
     tpm_request TPM2_ST_SESSIONS TPM2_CC_EVICTCONTROL
       [htobe32 TPM2_RH_OWNER, htobe32 curr_handle, authblock_len, tpm2_authblock, htobe32 perm_handle]"

definition swtpm_tpm2_evictcontrol :: "'p setup_env \<Rightarrow> 'p swtpm \<Rightarrow> u32 \<Rightarrow> u32 \<Rightarrow> int \<times> 'p swtpm" where
  "swtpm_tpm2_evictcontrol env self curr_handle perm_handle =
     simple_cmd env self (evictcontrol_req curr_handle perm_handle) TPM2_DURATION_SHORT"

subsection \<open>Primary keys\<close>

definition create_symkeydata :: "pk_params \<Rightarrow> bytes" where
  "create_symkeydata pk =
     (if pk_symkey_len pk \<noteq> 0 then htobe16 TPM2_ALG_AES @ htobe16 (ucast (pk_symkey_len pk)) @ htobe16 TPM2_ALG_CFB
      else htobe16 TPM2_ALG_NULL)"

text \<open>
  \<open>ektemplate\<close> is the size of the caller's buffer for the template, \<open>None\<close> without one. Every caller asks for
  the handle. The result is the answer and the handle.
\<close>

definition createprimary_req :: "u32 \<Rightarrow> bytes \<Rightarrow> bytes" where
  "createprimary_req primaryhandle public =
     tpm_request TPM2_ST_SESSIONS TPM2_CC_CREATEPRIMARY
       [htobe32 primaryhandle @ authblock_len, tpm2_authblock,
        htobe16 4 @ htobe32 0 @ htobe16 (of_nat (length public)), public, htobe32 0 @ htobe16 0]"

definition swtpm_tpm2_createprimary ::
  "'p setup_env \<Rightarrow> 'p swtpm \<Rightarrow> u32 \<Rightarrow> nat option \<Rightarrow> bytes \<Rightarrow> int \<Rightarrow> (bytes \<times> u32) option \<times> 'p swtpm"
where
  "swtpm_tpm2_createprimary env self primaryhandle ektemplate public duration =
     (if (case ektemplate of Some len \<Rightarrow> len < length public | None \<Rightarrow> False) then (None, self)
      else case transfer env self (createprimary_req primaryhandle public) False (Some 2048) duration of
        ((ret, tpmresp), self) \<Rightarrow>
          (if ret \<noteq> 0 then None
           else if length tpmresp < 10 + 4 then None
           else Some (tpmresp, be32toh (mem_read tpmresp 10 4)),
           self))"

text \<open>The public area of a key: the template a key is created from.\<close>

definition public_head :: "u16 \<Rightarrow> u32 \<Rightarrow> pk_params \<Rightarrow> bytes" where
  "public_head alg keyflags pk =
     memconcat [htobe16 alg @ htobe16 (pk_hashalg pk) @ htobe32 keyflags @ htobe16 (of_nat (length (pk_authpolicy pk))),
        pk_authpolicy pk, create_symkeydata pk, pk_schemedata pk]"

definition rsa_public :: "u32 \<Rightarrow> pk_params \<Rightarrow> bytes" where
  "rsa_public keyflags pk = memconcat [public_head TPM2_ALG_RSA keyflags pk, pk_nonce pk]"

definition ecc_public :: "u32 \<Rightarrow> pk_params \<Rightarrow> bytes" where
  "ecc_public keyflags pk =
     memconcat [public_head TPM2_ALG_ECC keyflags pk, pk_nonce pk,
       case pk_nonce2 pk of Some n \<Rightarrow> n | None \<Rightarrow> pk_nonce pk]"

text \<open>
  What a key creation gives: the transient handle, the template and the printed public key (\<open>None\<close> when the
  caller does not want it).
\<close>

record primary =
  pr_handle :: u32
  pr_template :: bytes
  pr_keyparam :: "string option"

definition swtpm_tpm2_createprimary_rsa ::
  "'p setup_env \<Rightarrow> 'p swtpm \<Rightarrow> u32 \<Rightarrow> u32 \<Rightarrow> pk_params \<Rightarrow> nat \<Rightarrow> nat option \<Rightarrow> bool \<Rightarrow> primary option \<times> 'p swtpm"
where
  "swtpm_tpm2_createprimary_rsa env self primaryhandle keyflags pk off ektemplate want_ekparam =
     (let public = rsa_public keyflags pk in
      case swtpm_tpm2_createprimary env self primaryhandle ektemplate public (pk_duration pk) of
        (None, self) \<Rightarrow> (None, self)
      | (Some (tpmresp, handle), self) \<Rightarrow>
          (if length tpmresp < off + 2 then None
           else
             let modlen = unat (be16toh (mem_read tpmresp off 2)) in
             if modlen \<noteq> pk_keysize pk then None
             else if \<not> want_ekparam then Some \<lparr>pr_handle = handle, pr_template = public, pr_keyparam = None\<rparr>
             else if length tpmresp < off + 2 + modlen then None
             else Some \<lparr>pr_handle = handle, pr_template = public,
                        pr_keyparam = print_as_hex (mem_read tpmresp (off + 2) modlen)\<rparr>,
           self))"

definition swtpm_tpm2_createprimary_ecc ::
  "'p setup_env \<Rightarrow> 'p swtpm \<Rightarrow> u32 \<Rightarrow> u32 \<Rightarrow> pk_params \<Rightarrow> nat \<Rightarrow> nat option \<Rightarrow> bool \<Rightarrow> primary option \<times> 'p swtpm"
where
  "swtpm_tpm2_createprimary_ecc env self primaryhandle keyflags pk off ektemplate want_ekparam =
     (let public = ecc_public keyflags pk in
      case swtpm_tpm2_createprimary env self primaryhandle ektemplate public (pk_duration pk) of
        (None, self) \<Rightarrow> (None, self)
      | (Some (tpmresp, handle), self) \<Rightarrow>
          (if length tpmresp < off + 2 then None
           else
             let ksize1 = unat (be16toh (mem_read tpmresp off 2)); off2 = off + 2 + ksize1 in
             if length tpmresp < off2 + 2 then None
             else
               let ksize2 = unat (be16toh (mem_read tpmresp off2 2)) in
               if ksize1 \<noteq> pk_keysize pk \<or> ksize2 \<noteq> pk_keysize pk then None
               else if \<not> want_ekparam then Some \<lparr>pr_handle = handle, pr_template = public, pr_keyparam = None\<rparr>
               else if length tpmresp < off + 2 + ksize1 \<or> length tpmresp < off2 + 2 + ksize2 then None
               else Some \<lparr>pr_handle = handle, pr_template = public,
                 pr_keyparam =
                   (case (print_as_hex (mem_read tpmresp (off + 2) ksize1), print_as_hex (mem_read tpmresp (off2 + 2) ksize2),
                          pk_keydescription pk) of
                      (Some x, Some y, Some descr) \<Rightarrow> Some (''x='' @ x @ '',y='' @ y @ '',id='' @ descr)
                    | _ \<Rightarrow> None)\<rparr>,
           self))"

definition swtpm_tpm2_createprimary_spk_ecc :: "'p setup_env \<Rightarrow> 'p swtpm \<Rightarrow> nat \<Rightarrow> primary option \<times> 'p swtpm" where
  "swtpm_tpm2_createprimary_spk_ecc env self param =
     (case get_spk_params KEYALGO_ECC param of
        None \<Rightarrow> (None, self)
      | Some pk \<Rightarrow> swtpm_tpm2_createprimary_ecc env self TPM2_RH_OWNER (pk_keyflags pk) pk (pk_off pk) None False)"

definition swtpm_tpm2_createprimary_spk_rsa :: "'p setup_env \<Rightarrow> 'p swtpm \<Rightarrow> nat \<Rightarrow> primary option \<times> 'p swtpm" where
  "swtpm_tpm2_createprimary_spk_rsa env self param =
     (case get_spk_params KEYALGO_RSA param of
        None \<Rightarrow> (None, self)
      | Some pk \<Rightarrow> swtpm_tpm2_createprimary_rsa env self TPM2_RH_OWNER (pk_keyflags pk) pk (pk_off pk) None False)"

text \<open>
  The three functions that make a key permanent and then flush the transient one. None of them looks at the
  result of \<open>evictcontrol\<close> again: the value returned is that of \<open>flushcontext\<close>.
\<close>

definition swtpm_tpm2_create_spk :: "'p setup_env \<Rightarrow> 'p swtpm \<Rightarrow> keyalgo \<Rightarrow> nat \<Rightarrow> int \<times> 'p swtpm" where
  "swtpm_tpm2_create_spk env self algo param =
     (case (case algo of
              KEYALGO_ECC \<Rightarrow> swtpm_tpm2_createprimary_spk_ecc env self param
            | KEYALGO_RSA \<Rightarrow> swtpm_tpm2_createprimary_spk_rsa env self param
            | KEYALGO_NONE \<Rightarrow> (None, self)) of
        (None, self) \<Rightarrow> (1, self)
      | (Some pr, self) \<Rightarrow>
          (case swtpm_tpm2_evictcontrol env self (pr_handle pr) TPM2_SPK_HANDLE of (ret, self) \<Rightarrow>
             case swtpm_tpm2_flushcontext env self (pr_handle pr) of (ret, self) \<Rightarrow>
               (if ret \<noteq> 0 then 1 else ret, self)))"

definition create_endorsed ::
  "'p setup_env \<Rightarrow> 'p swtpm \<Rightarrow> keyalgo \<Rightarrow> pk_params \<Rightarrow> u32 \<Rightarrow> (int \<times> string option \<times> string option) \<times> 'p swtpm"
where
  "create_endorsed env self algo pk perm_handle =
     (case (case algo of
              KEYALGO_RSA \<Rightarrow>
                swtpm_tpm2_createprimary_rsa env self TPM2_RH_ENDORSEMENT (pk_keyflags pk) pk (pk_off pk) None True
            | KEYALGO_ECC \<Rightarrow>
                swtpm_tpm2_createprimary_ecc env self TPM2_RH_ENDORSEMENT (pk_keyflags pk) pk (pk_off pk) None True
            | KEYALGO_NONE \<Rightarrow> (None, self)) of
        (None, self) \<Rightarrow> ((1, None, None), self)
      | (Some pr, self) \<Rightarrow>
          (case swtpm_tpm2_evictcontrol env self (pr_handle pr) perm_handle of (ret, self) \<Rightarrow>
             case swtpm_tpm2_flushcontext env self (pr_handle pr) of (ret, self) \<Rightarrow>
               ((ret, pr_keyparam pr, pk_keydescription pk), self)))"

definition swtpm_tpm2_create_iak ::
  "'p setup_env \<Rightarrow> 'p swtpm \<Rightarrow> keyalgo \<Rightarrow> nat \<Rightarrow> (int \<times> string option \<times> string option) \<times> 'p swtpm"
where
  "swtpm_tpm2_create_iak env self algo param =
     (case get_iak_params algo param of
        None \<Rightarrow> ((1, None, None), self)
      | Some pk \<Rightarrow> create_endorsed env self algo pk TPM2_IAK_HANDLE)"

definition swtpm_tpm2_create_idevid ::
  "'p setup_env \<Rightarrow> 'p swtpm \<Rightarrow> keyalgo \<Rightarrow> nat \<Rightarrow> (int \<times> string option \<times> string option) \<times> 'p swtpm"
where
  "swtpm_tpm2_create_idevid env self algo param =
     (case get_idevid_params algo param of
        None \<Rightarrow> ((1, None, None), self)
      | Some pk \<Rightarrow> create_endorsed env self algo pk TPM2_IDEVID_HANDLE)"

subsection \<open>Endorsement keys\<close>

text \<open>
  The flags, the symmetric parameters and the offset of the public key follow from what the key may be used for.
\<close>

definition ek_rsa_setup :: "ek_params \<Rightarrow> nat \<Rightarrow> bool \<Rightarrow> bool \<Rightarrow> (u32 \<times> pk_params \<times> nat) option" where
  "ek_rsa_setup ekps rsa_keysize allowsigning decryption =
     (let sizes = (if rsa_keysize = 2048 then Some (0, 0)
                   else if rsa_keysize = 3072 \<or> rsa_keysize = 4096 then Some (0x40, 16)
                   else None)
      in case sizes of
           None \<Rightarrow> None
         | Some (keyflags, addlen) \<Rightarrow>
             if allowsigning \<and> decryption then
               Some (keyflags OR 0x000600b2, (ek_pk ekps)\<lparr>pk_symkey_len := 0\<rparr>, 72 + addlen)
             else if allowsigning then
               Some (keyflags OR 0x000400b2, (ek_pk ekps)\<lparr>pk_symkey_len := 0\<rparr>, 72 + addlen)
             else Some (keyflags OR 0x000300b2, ek_pk ekps, 76 + addlen))"

definition swtpm_tpm2_createprimary_ek_rsa ::
  "'p setup_env \<Rightarrow> 'p swtpm \<Rightarrow> nat \<Rightarrow> bool \<Rightarrow> bool \<Rightarrow> nat \<Rightarrow> primary option \<times> 'p swtpm"
where
  "swtpm_tpm2_createprimary_ek_rsa env self rsa_keysize allowsigning decryption ektemplate =
     (case get_ek_params KEYALGO_RSA rsa_keysize of
        None \<Rightarrow> (None, self)
      | Some ekps \<Rightarrow>
          (case ek_rsa_setup ekps rsa_keysize allowsigning decryption of
             None \<Rightarrow> (None, self)
           | Some (keyflags, pkps, off) \<Rightarrow>
               swtpm_tpm2_createprimary_rsa env self TPM2_RH_ENDORSEMENT keyflags pkps off (Some ektemplate) True))"

definition ek_ecc_setup :: "ek_params \<Rightarrow> bool \<Rightarrow> bool \<Rightarrow> (u32 \<times> pk_params \<times> nat) option" where
  "ek_ecc_setup ekps allowsigning decryption =
     (let param = pk_keyalgo_param (ek_pk ekps);
          curve = (if param = TPM2_ECC_NIST_P256 then Some (0x4a, 0)
                   else if param = TPM2_ECC_NIST_P384 then Some (0x5a, 0x40)
                   else if param = TPM2_ECC_NIST_P521 then Some (0x6a, 0x40)
                   else None)
      in case curve of
           None \<Rightarrow> None
         | Some (off, keyflags) \<Rightarrow>
             if allowsigning \<and> decryption then
               Some (keyflags OR 0x000600b2, (ek_pk ekps)\<lparr>pk_symkey_len := 0\<rparr>, off - 4)
             else if allowsigning then
               Some (keyflags OR 0x000400b2, (ek_pk ekps)\<lparr>pk_symkey_len := 0\<rparr>, off - 4)
             else Some (keyflags OR 0x000300b2, ek_pk ekps, off))"

definition swtpm_tpm2_createprimary_ek_ecc ::
  "'p setup_env \<Rightarrow> 'p swtpm \<Rightarrow> ek_params \<Rightarrow> bool \<Rightarrow> bool \<Rightarrow> nat \<Rightarrow> primary option \<times> 'p swtpm"
where
  "swtpm_tpm2_createprimary_ek_ecc env self ekps allowsigning decryption ektemplate =
     (case ek_ecc_setup ekps allowsigning decryption of
        None \<Rightarrow> (None, self)
      | Some (keyflags, pkps, off) \<Rightarrow>
          swtpm_tpm2_createprimary_ecc env self TPM2_RH_ENDORSEMENT keyflags pkps off (Some ektemplate) True)"

subsection \<open>NVRAM areas\<close>

text \<open>The size of the area is a 16 bit parameter: the caller's length is cut to it.\<close>

definition swtpm_tpm2_nvdefinespace :: "'p setup_env \<Rightarrow> 'p swtpm \<Rightarrow> u32 \<Rightarrow> u32 \<Rightarrow> u16 \<Rightarrow> int \<times> 'p swtpm" where
  "swtpm_tpm2_nvdefinespace env self nvindex nvindexattrs data_len =
     (let nvpublic = memconcat [htobe32 nvindex @ htobe16 TPM2_ALG_SHA256 @ htobe32 nvindexattrs @ htobe16 0 @ htobe16 data_len]
      in simple_cmd env self
           (tpm_request TPM2_ST_SESSIONS TPM2_CC_NV_DEFINESPACE
              [htobe32 TPM2_RH_PLATFORM @ authblock_len, tpm2_authblock,
               htobe16 0 @ htobe16 (of_nat (length nvpublic)), nvpublic])
           TPM2_DURATION_SHORT)"

text \<open>Writing in pieces of at most 1024 bytes; the offset is sent as 16 bits.\<close>

definition nv_write_req :: "u32 \<Rightarrow> bytes \<Rightarrow> nat \<Rightarrow> bytes" where
  "nv_write_req nvindex chunk offset =
     tpm_request TPM2_ST_SESSIONS TPM2_CC_NV_WRITE
       [htobe32 TPM2_RH_PLATFORM @ htobe32 nvindex @ authblock_len, tpm2_authblock,
        htobe16 (of_nat (length chunk)), chunk, htobe16 (of_nat offset)]"

function nv_write_loop ::
  "'p setup_env \<Rightarrow> u32 \<Rightarrow> bytes \<Rightarrow> 'p swtpm \<Rightarrow> nat \<Rightarrow> int \<times> 'p swtpm"
where
  "nv_write_loop env nvindex data self offset =
     (if offset < length data then
        let txlen = min (length data - offset) 1024 in
        case simple_cmd env self (nv_write_req nvindex (mem_read data offset txlen) offset) TPM2_DURATION_SHORT of
          (ret, self) \<Rightarrow> if ret \<noteq> 0 then (1, self) else nv_write_loop env nvindex data self (offset + txlen)
      else (0, self))"
  by pat_completeness auto
termination
  by (relation "measure (\<lambda>(env, nvindex, data, self, offset). length data - offset)") auto

declare nv_write_loop.simps [simp del]

definition swtpm_tpm2_nv_write :: "'p setup_env \<Rightarrow> 'p swtpm \<Rightarrow> u32 \<Rightarrow> bytes \<Rightarrow> int \<times> 'p swtpm" where
  "swtpm_tpm2_nv_write env self nvindex data = nv_write_loop env nvindex data self 0"

definition swtpm_tpm2_nv_writelock :: "'p setup_env \<Rightarrow> 'p swtpm \<Rightarrow> u32 \<Rightarrow> int \<times> 'p swtpm" where
  "swtpm_tpm2_nv_writelock env self nvindex =
     simple_cmd env self
       (tpm_request TPM2_ST_SESSIONS TPM2_CC_NV_WRITELOCK
          [htobe32 TPM2_RH_PLATFORM @ htobe32 nvindex @ authblock_len, tpm2_authblock])
       TPM2_DURATION_SHORT"

definition swtpm_tpm2_write_nvram ::
  "'p setup_env \<Rightarrow> 'p swtpm \<Rightarrow> u32 \<Rightarrow> u32 \<Rightarrow> bytes \<Rightarrow> bool \<Rightarrow> int \<times> 'p swtpm"
where
  "swtpm_tpm2_write_nvram env self nvindex nvindexattrs data lock_nvram =
     (case swtpm_tpm2_nvdefinespace env self nvindex nvindexattrs (of_nat (length data)) of (ret, self) \<Rightarrow>
        if ret \<noteq> 0 then (1, self)
        else case swtpm_tpm2_nv_write env self nvindex data of (ret, self) \<Rightarrow>
          if ret \<noteq> 0 then (1, self)
          else if lock_nvram then
            (case swtpm_tpm2_nv_writelock env self nvindex of (ret, self) \<Rightarrow>
               (if ret \<noteq> 0 then 1 else 0, self))
          else (0, self))"

definition cert_nvindexattrs :: u32 where
  "cert_nvindexattrs = TPMA_NV_PLATFORMCREATE OR TPMA_NV_AUTHREAD OR TPMA_NV_OWNERREAD OR TPMA_NV_PPREAD OR
     TPMA_NV_PPWRITE OR TPMA_NV_NO_DA OR TPMA_NV_WRITEDEFINE"

definition swtpm_tpm2_write_cert_nvram ::
  "'p setup_env \<Rightarrow> 'p swtpm \<Rightarrow> u32 \<Rightarrow> u32 \<Rightarrow> bytes \<Rightarrow> bool \<Rightarrow> int \<times> 'p swtpm"
where
  "swtpm_tpm2_write_cert_nvram env self nvindex nvindexattrs data lock_nvram =
     swtpm_tpm2_write_nvram env self nvindex nvindexattrs data lock_nvram"

definition swtpm_tpm2_write_ek_cert_nvram ::
  "'p setup_env \<Rightarrow> 'p swtpm \<Rightarrow> keyalgo \<Rightarrow> nat \<Rightarrow> bool \<Rightarrow> bytes \<Rightarrow> int \<times> 'p swtpm"
where
  "swtpm_tpm2_write_ek_cert_nvram env self algo param lock_nvram data =
     (case get_ek_params algo param of
        None \<Rightarrow> (1, self)
      | Some ekps \<Rightarrow> swtpm_tpm2_write_cert_nvram env self (nvindex_ekcert ekps) cert_nvindexattrs data lock_nvram)"

definition swtpm_tpm2_write_platform_cert_nvram ::
  "'p setup_env \<Rightarrow> 'p swtpm \<Rightarrow> bool \<Rightarrow> bytes \<Rightarrow> int \<times> 'p swtpm"
where
  "swtpm_tpm2_write_platform_cert_nvram env self lock_nvram data =
     swtpm_tpm2_write_cert_nvram env self TPM2_NV_INDEX_PLATFORMCERT cert_nvindexattrs data lock_nvram"

definition swtpm_tpm2_write_iak_cert_nvram ::
  "'p setup_env \<Rightarrow> 'p swtpm \<Rightarrow> bool \<Rightarrow> bytes \<Rightarrow> int \<times> 'p swtpm"
where
  "swtpm_tpm2_write_iak_cert_nvram env self lock_nvram data =
     swtpm_tpm2_write_cert_nvram env self TPM2_NV_INDEX_IAK_CERT cert_nvindexattrs data lock_nvram"

definition swtpm_tpm2_write_idevid_cert_nvram ::
  "'p setup_env \<Rightarrow> 'p swtpm \<Rightarrow> bool \<Rightarrow> bytes \<Rightarrow> int \<times> 'p swtpm"
where
  "swtpm_tpm2_write_idevid_cert_nvram env self lock_nvram data =
     swtpm_tpm2_write_cert_nvram env self TPM2_NV_INDEX_IDEVID_CERT cert_nvindexattrs data lock_nvram"

definition swtpm_tpm2_get_active_profile :: "'p setup_env \<Rightarrow> 'p swtpm \<Rightarrow> bytes option \<times> 'p swtpm" where
  "swtpm_tpm2_get_active_profile env self = do_cmd_get_info env self SWTPM_INFO_ACTIVE_PROFILE"

text \<open>
  An endorsement key: create it, make it permanent, and, when it may sign, write its template into NVRAM.
  The transient handle is not flushed.
\<close>

definition swtpm_tpm2_create_ek ::
  "'p setup_env \<Rightarrow> 'p swtpm \<Rightarrow> keyalgo \<Rightarrow> nat \<Rightarrow> bool \<Rightarrow> bool \<Rightarrow> bool \<Rightarrow>
   (int \<times> string option \<times> string option) \<times> 'p swtpm"
where
  "swtpm_tpm2_create_ek env self algo param allowsigning decryption lock_nvram =
     (case get_ek_params algo param of
        None \<Rightarrow> ((1, None, None), self)
      | Some ekps \<Rightarrow>
          (case (case algo of
                   KEYALGO_ECC \<Rightarrow> swtpm_tpm2_createprimary_ek_ecc env self ekps allowsigning decryption 512
                 | KEYALGO_RSA \<Rightarrow> swtpm_tpm2_createprimary_ek_rsa env self param allowsigning decryption 512
                 | KEYALGO_NONE \<Rightarrow> (None, self)) of
             (None, self) \<Rightarrow> ((1, None, None), self)
           | (Some pr, self) \<Rightarrow>
               (case swtpm_tpm2_evictcontrol env self (pr_handle pr) (ek_handle ekps) of (ret, self) \<Rightarrow>
                  if ret \<noteq> 0 then ((1, pr_keyparam pr, pk_keydescription (ek_pk ekps)), self)
                  else if allowsigning then
                    (case swtpm_tpm2_write_nvram env self (nvindex_template ekps) cert_nvindexattrs
                            (pr_template pr) lock_nvram of
                       (ret, self) \<Rightarrow> ((ret, pr_keyparam pr, pk_keydescription (ek_pk ekps)), self))
                  else ((0, pr_keyparam pr, pk_keydescription (ek_pk ekps)), self))))"

definition swtpm_tpm2_get_capability :: "'p setup_env \<Rightarrow> 'p swtpm \<Rightarrow> u32 \<Rightarrow> u32 \<Rightarrow> u32 option \<times> 'p swtpm" where
  "swtpm_tpm2_get_capability env self cap prop =
     (let req = tpm_request TPM2_ST_NO_SESSIONS TPM2_CC_GETCAPABILITY [htobe32 cap, htobe32 prop, htobe32 1] in
      case transfer env self req False (Some 27) TPM2_DURATION_SHORT of ((ret, tpmresp), self) \<Rightarrow>
        (if ret \<noteq> 0 then None
         else if length tpmresp < 27 then None
         else Some (be32toh (mem_read tpmresp 23 4)),
         self))"

subsection \<open>Well formed requests\<close>

lemma length_authblock [simp]: "length tpm2_authblock = 9"
  by (simp add: tpm2_authblock_def)

lemma length_tpm_request: "length (tpm_request tag ordinal parts) = 10 + sum_list (map length parts)"
  by (simp add: tpm_request_def memconcat_def Let_def length_concat)

lemma tpm_request_ok:
  assumes "sum_list (map length parts) \<le> 4086"
  shows "request_ok (False, tpm_request tag ordinal parts)"
proof -
  let ?r = "tpm_request tag ordinal parts"
  have l: "length ?r \<le> 4096" "10 \<le> length ?r" using assms by (simp_all add: length_tpm_request)
  have "mem_read ?r 2 4 = htobe32 (of_nat (length ?r))"
    by (simp add: mem_read_def tpm_request_def Let_def memconcat_def)
  then show ?thesis using l by (auto simp: request_ok.simps SWTPM_IO_Read_def Let_def)
qed

lemma simple_cmd_talks:
  "sum_list (map length parts) \<le> 4086 \<Longrightarrow> talks self (snd (simple_cmd env self (tpm_request tag ordinal parts) t))"
  using transfer_talks [OF tpm_request_ok, of parts self env tag ordinal None t]
  by (auto simp: simple_cmd_def split: prod.split)

lemma small_talks:
  "talks self (snd (swtpm_tpm2_shutdown env self))"
  "talks self (snd (swtpm_tpm2_flushcontext env self h))"
  "talks self (snd (swtpm_tpm2_evictcontrol env self h p))"
  "talks self (snd (swtpm_tpm2_nvdefinespace env self nvindex attrs len))"
  "talks self (snd (swtpm_tpm2_nv_writelock env self nvindex))"
  by (simp_all add: swtpm_tpm2_shutdown_def swtpm_tpm2_flushcontext_def swtpm_tpm2_evictcontrol_def evictcontrol_req_def
      swtpm_tpm2_nvdefinespace_def swtpm_tpm2_nv_writelock_def memconcat_def Let_def simple_cmd_talks)

lemmas small_talks_after [talking] = talks_trans [OF _ small_talks(1)] talks_trans [OF _ small_talks(2)]
  talks_trans [OF _ small_talks(3)] talks_trans [OF _ small_talks(4)] talks_trans [OF _ small_talks(5)]

lemma get_capability_talks [talking]:
  "talks a self \<Longrightarrow> talks a (snd (swtpm_tpm2_get_capability env self cap prop))"
  unfolding swtpm_tpm2_get_capability_def Let_def by (intro talks_transfer tpm_request_ok talks_pair) simp_all

lemma get_all_pcr_banks_talks [talking]:
  "talks a self \<Longrightarrow> talks a (snd (swtpm_tpm2_get_all_pcr_banks env self))"
  unfolding swtpm_tpm2_get_all_pcr_banks_def Let_def by (intro talks_transfer tpm_request_ok talks_pair) simp_all

lemma nv_write_loop_talks: "talks self (snd (nv_write_loop env nvindex data self offset))"
proof (induction env nvindex data self offset rule: nv_write_loop.induct)
  case (1 env nvindex data self offset)
  let ?n = "min (length data - offset) 1024"
  let ?c = "simple_cmd env self (nv_write_req nvindex (mem_read data offset ?n) offset) TPM2_DURATION_SHORT"
  have l: "length (mem_read data offset ?n) \<le> 1024" by (simp add: mem_read_def)
  have c: "talks self (snd ?c)"
    unfolding nv_write_req_def by (rule simple_cmd_talks) (use l in simp)
  show ?case
  proof (cases "offset < length data \<and> fst ?c = 0")
    case True
    then have "talks (snd ?c) (snd (nv_write_loop env nvindex data (snd ?c) (offset + ?n)))"
      using 1 by (metis prod.collapse)
    with c have "talks self (snd (nv_write_loop env nvindex data (snd ?c) (offset + ?n)))"
      by (rule talks_trans)
    then show ?thesis using True
      by (subst nv_write_loop.simps) (simp add: Let_def split_beta)
  next
    case False
    then show ?thesis using c by (subst nv_write_loop.simps) (auto simp: Let_def split_beta)
  qed
qed

lemma write_nvram_talks [talking]:
  "talks a self \<Longrightarrow> talks a (snd (swtpm_tpm2_write_nvram env self nvindex attrs data lock))"
  unfolding swtpm_tpm2_write_nvram_def swtpm_tpm2_nv_write_def
  by (intro talking talks_trans [OF _ nv_write_loop_talks])

text \<open>The templates of all keys are short.\<close>

definition pk_small :: "pk_params \<Rightarrow> bool" where
  "pk_small pk \<longleftrightarrow> length (pk_authpolicy pk) \<le> 64 \<and> length (pk_schemedata pk) \<le> 10 \<and> length (pk_nonce pk) \<le> 514 \<and>
     (case pk_nonce2 pk of None \<Rightarrow> True | Some n \<Rightarrow> length n \<le> 514)"

lemmas table_defs = NONCE_EMPTY_def NONCE_RSA2048_def NONCE_RSA3072_def NONCE_RSA4096_def NONCE_ECC_256_def
  NONCE_ECC_384_def NONCE_ECC_521_def NONCE_IDEVID_def NONCE_IAK_def PolicyA_SHA256_def PolicyB_SHA384_def PolicyB_SHA512_def
  Attestation_PolicyIDevIDKey_SHA256_def Attestation_PolicyIDevIDKey_SHA384_def Attestation_PolicyIDevIDKey_SHA512_def
  Signing_PolicyIDevIDKey_SHA256_def Signing_PolicyIDevIDKey_SHA384_def Signing_PolicyIDevIDKey_SHA512_def null_authpolicy_def

lemma tables_small:
  "list_all (\<lambda>ek. pk_small (ek_pk ek)) ek_params_table" "list_all pk_small spk_params_table"
  "list_all pk_small iak_params_table" "list_all pk_small idevid_params_table"
  by (simp_all add: ek_params_table_def spk_params_table_def iak_params_table_def idevid_params_table_def pk_small_def table_defs)

lemma found_small:
  "get_ek_params algo param = Some ek \<Longrightarrow> pk_small (ek_pk ek)"
  "get_spk_params algo param = Some pk \<Longrightarrow> pk_small pk"
  "get_iak_params algo param = Some pk \<Longrightarrow> pk_small pk"
  "get_idevid_params algo param = Some pk \<Longrightarrow> pk_small pk"
  using tables_small
  by (auto simp: get_ek_params_def get_spk_params_def get_iak_params_def get_idevid_params_def find_Some_iff list_all_length)

lemma length_symkeydata: "length (create_symkeydata pk) = (if pk_symkey_len pk = 0 then 2 else 6)"
  by (simp add: create_symkeydata_def)

lemma length_public:
  "length (public_head alg keyflags pk) =
     10 + length (pk_authpolicy pk) + length (create_symkeydata pk) + length (pk_schemedata pk)"
  "pk_small pk \<Longrightarrow> length (rsa_public keyflags pk) \<le> 2000" "pk_small pk \<Longrightarrow> length (ecc_public keyflags pk) \<le> 2000"
  by (auto simp: public_head_def rsa_public_def ecc_public_def memconcat_def length_symkeydata pk_small_def split: option.splits)

lemma createprimary_talks:
  "length public \<le> 2000 \<Longrightarrow> talks a self \<Longrightarrow>
   talks a (snd (swtpm_tpm2_createprimary env self primaryhandle ektemplate public duration))"
  unfolding swtpm_tpm2_createprimary_def createprimary_req_def
  by (intro talks_if talks_transfer tpm_request_ok talks_pair) simp_all

lemma createprimary_key_talks:
  "pk_small pk \<Longrightarrow> talks a self \<Longrightarrow>
   talks a (snd (swtpm_tpm2_createprimary_rsa env self primaryhandle keyflags pk off ektemplate want))"
  "pk_small pk \<Longrightarrow> talks a self \<Longrightarrow>
   talks a (snd (swtpm_tpm2_createprimary_ecc env self primaryhandle keyflags pk off ektemplate want))"
  unfolding swtpm_tpm2_createprimary_rsa_def swtpm_tpm2_createprimary_ecc_def Let_def
  using createprimary_talks [OF length_public(2), of pk a self env primaryhandle ektemplate keyflags "pk_duration pk"]
    createprimary_talks [OF length_public(3), of pk a self env primaryhandle ektemplate keyflags "pk_duration pk"]
  by (auto split: prod.split option.split)

lemma create_spk_talks [talking]: "talks a self \<Longrightarrow> talks a (snd (swtpm_tpm2_create_spk env self algo param))"
  unfolding swtpm_tpm2_create_spk_def swtpm_tpm2_createprimary_spk_ecc_def swtpm_tpm2_createprimary_spk_rsa_def
  by (cases algo; cases "get_spk_params algo param"; simp;
      intro talking createprimary_key_talks; simp add: found_small(2))

lemma create_endorsed_talks:
  "pk_small pk \<Longrightarrow> talks a self \<Longrightarrow> talks a (snd (create_endorsed env self algo pk perm_handle))"
  unfolding create_endorsed_def
  by (cases algo; simp; intro talking createprimary_key_talks; simp)

lemma create_iak_talks [talking]: "talks a self \<Longrightarrow> talks a (snd (swtpm_tpm2_create_iak env self algo param))"
  unfolding swtpm_tpm2_create_iak_def
  by (cases "get_iak_params algo param") (simp_all add: create_endorsed_talks found_small(3))

lemma create_idevid_talks [talking]: "talks a self \<Longrightarrow> talks a (snd (swtpm_tpm2_create_idevid env self algo param))"
  unfolding swtpm_tpm2_create_idevid_def
  by (cases "get_idevid_params algo param") (simp_all add: create_endorsed_talks found_small(4))

lemma ek_setup_small:
  "ek_rsa_setup ek n s d = Some (keyflags, pk, off) \<Longrightarrow> pk_small (ek_pk ek) \<Longrightarrow> pk_small pk"
  "ek_ecc_setup ek s d = Some (keyflags, pk, off) \<Longrightarrow> pk_small (ek_pk ek) \<Longrightarrow> pk_small pk"
  by (auto simp: ek_rsa_setup_def ek_ecc_setup_def pk_small_def Let_def split: if_splits option.splits)

lemma createprimary_ek_talks:
  "talks a self \<Longrightarrow> talks a (snd (swtpm_tpm2_createprimary_ek_rsa env self n s d t))"
  "pk_small (ek_pk ek) \<Longrightarrow> talks a self \<Longrightarrow> talks a (snd (swtpm_tpm2_createprimary_ek_ecc env self ek s d t))"
  unfolding swtpm_tpm2_createprimary_ek_rsa_def swtpm_tpm2_createprimary_ek_ecc_def
  by (auto split: option.split intro: createprimary_key_talks dest: found_small(1) ek_setup_small)

lemma create_ek_talks [talking]:
  "talks a self \<Longrightarrow> talks a (snd (swtpm_tpm2_create_ek env self algo param s d lock))"
proof (cases "get_ek_params algo param")
  case (Some ek)
  then show "talks a self \<Longrightarrow> ?thesis" unfolding swtpm_tpm2_create_ek_def
    by (cases algo; simp; intro talking createprimary_ek_talks; simp add: found_small(1))
qed (simp add: swtpm_tpm2_create_ek_def)

lemma activate_loop_length:
  "activate_loop all banks m (act, sel) = Inr (act', sel') \<Longrightarrow> length sel \<le> 60 \<Longrightarrow> length sel' \<le> 60"
  by (induction all banks m "(act, sel)" arbitrary: act sel rule: activate_loop.induct)
    (auto simp: Let_def concat_buf_def split: if_splits)

lemma deactivate_loop_length:
  "deactivate_loop chosen banks (n, sel) = Some (n', sel') \<Longrightarrow> length sel \<le> 60 \<Longrightarrow> length sel' \<le> 60"
  by (induction chosen banks "(n, sel)" arbitrary: n sel rule: deactivate_loop.induct)
    (auto simp: concat_buf_def split: if_splits)

lemma set_active_pcr_banks_talks [talking]:
  "talks a self \<Longrightarrow> talks a (snd (swtpm_tpm2_set_active_pcr_banks env self banks all))"
proof -
  assume t: "talks a self"
  have c: "length sel \<le> 60 \<Longrightarrow> talks a (snd (simple_cmd env self (tpm_request TPM2_ST_SESSIONS TPM2_CC_PCR_ALLOCATE
      [htobe32 TPM2_RH_PLATFORM @ authblock_len, tpm2_authblock, htobe32 n, sel]) TPM2_DURATION_SHORT))" for n sel
    by (rule talks_trans [OF t simple_cmd_talks]) simp
  show ?thesis unfolding swtpm_tpm2_set_active_pcr_banks_def Let_def
    by (auto split: sum.split option.split prod.split intro!: t dest!: activate_loop_length deactivate_loop_length)
      (metis c [simplified] snd_conv)+
qed

lemma write_certs_talk [talking]:
  "talks a self \<Longrightarrow> talks a (snd (swtpm_tpm2_write_ek_cert_nvram env self algo param lock data))"
  "talks a self \<Longrightarrow> talks a (snd (swtpm_tpm2_write_platform_cert_nvram env self lock data))"
  "talks a self \<Longrightarrow> talks a (snd (swtpm_tpm2_write_iak_cert_nvram env self lock data))"
  "talks a self \<Longrightarrow> talks a (snd (swtpm_tpm2_write_idevid_cert_nvram env self lock data))"
  unfolding swtpm_tpm2_write_ek_cert_nvram_def swtpm_tpm2_write_platform_cert_nvram_def
    swtpm_tpm2_write_iak_cert_nvram_def swtpm_tpm2_write_idevid_cert_nvram_def swtpm_tpm2_write_cert_nvram_def
  by (intro talking; assumption)+

lemma get_active_profile_talks [talking]:
  "talks a self \<Longrightarrow> talks a (snd (swtpm_tpm2_get_active_profile env self))"
  unfolding swtpm_tpm2_get_active_profile_def by (rule ctrl_talks)

end
