(* ===== verification/SetupKeys.thy ===== *)
theory SetupKeys
  imports SetupTpm2
begin

section \<open>swtpm\_setup: the keys it creates\<close>

text \<open>
  Against a TPM that does what the TPM 2 specification says, the keys of swtpm\_setup are found in the answers, with one exception,
  and what happens when the TPM refuses to make a key permanent.
\<close>

subsection \<open>Where the public key is in the answer\<close>

text \<open>
  A TPM answers TPM2_CreatePrimary with the transient handle and the public area of the new key: the template with the key in its last field,
  \<open>unique\<close>, the modulus or the two coordinates. \<open>tpm_makes_key\<close> says so of an environment for the parameters of a key, under every primary
  handle and with any flags, \<open>tpm_creates\<close> also that the TPM accepts all other commands.
\<close>

datatype pubkey = RsaKey bytes | EccKey bytes bytes

fun unique_of :: "pubkey \<Rightarrow> bytes" where
  "unique_of (RsaKey m) = htobe16 (of_nat (length m)) @ m"
| "unique_of (EccKey x y) = htobe16 (of_nat (length x)) @ x @ htobe16 (of_nat (length y)) @ y"

fun key_fits :: "pk_params \<Rightarrow> pubkey \<Rightarrow> bool" where
  "key_fits pk (RsaKey m) \<longleftrightarrow> pk_keyalgo pk = KEYALGO_RSA \<and> length m = pk_keysize pk"
| "key_fits pk (EccKey x y) \<longleftrightarrow> pk_keyalgo pk = KEYALGO_ECC \<and> length x = pk_keysize pk \<and> length y = pk_keysize pk"

definition template_of :: "u32 \<Rightarrow> pk_params \<Rightarrow> bytes" where
  "template_of keyflags pk = (if pk_keyalgo pk = KEYALGO_RSA then rsa_public keyflags pk else ecc_public keyflags pk)"

definition template_head :: "u32 \<Rightarrow> pk_params \<Rightarrow> bytes" where
  "template_head keyflags pk = public_head (if pk_keyalgo pk = KEYALGO_RSA then TPM2_ALG_RSA else TPM2_ALG_ECC) keyflags pk"

definition created_answer :: "u32 \<Rightarrow> bytes \<Rightarrow> bytes \<Rightarrow> bytes \<Rightarrow> bytes" where
  "created_answer handle head uniq rest =
     (let body = htobe16 (of_nat (length head + length uniq)) @ head @ uniq @ rest
      in htobe16 TPM2_ST_SESSIONS @ htobe32 (of_nat (18 + length body)) @ htobe32 0 @ htobe32 handle @
           htobe32 (of_nat (length body)) @ body)"

definition accepts :: "'p setup_env \<Rightarrow> bytes \<Rightarrow> bool" where
  "accepts env req \<longleftrightarrow> (\<forall>t p. fst (env_exchange env False req t p) =
     Exchange (Some (length req)) True (Some (htobe16 TPM2_ST_NO_SESSIONS @ htobe32 10 @ htobe32 0)))"

definition tpm_makes_key :: "'p setup_env \<Rightarrow> pk_params \<Rightarrow> pubkey \<Rightarrow> u32 \<Rightarrow> bytes \<Rightarrow> bool" where
  "tpm_makes_key env pk key handle rest \<longleftrightarrow> key_fits pk key \<and>
     (\<forall>primaryhandle keyflags t p.
        (let req = createprimary_req primaryhandle (template_of keyflags pk) in
         fst (env_exchange env False req t p) = Exchange (Some (length req)) True
           (Some (created_answer handle (template_head keyflags pk) (unique_of key) rest))))"

definition tpm_creates :: "'p setup_env \<Rightarrow> pk_params \<Rightarrow> pubkey \<Rightarrow> u32 \<Rightarrow> bytes \<Rightarrow> bool" where
  "tpm_creates env pk key handle rest \<longleftrightarrow> tpm_makes_key env pk key handle rest \<and>
     (\<forall>req. be32toh (mem_read req 6 4) \<noteq> TPM2_CC_CREATEPRIMARY \<longrightarrow> accepts env req)"

lemma tpm_creates_key: "tpm_creates env pk key handle rest \<Longrightarrow> tpm_makes_key env pk key handle rest"
  by (simp add: tpm_creates_def)

fun keyparam_of :: "string option \<Rightarrow> pubkey \<Rightarrow> string option" where
  "keyparam_of descr (RsaKey m) = print_as_hex m"
| "keyparam_of descr (EccKey x y) =
     (case (print_as_hex x, print_as_hex y, descr) of
        (Some sx, Some sy, Some d) \<Rightarrow> Some (''x='' @ sx @ '',y='' @ sy @ '',id='' @ d)
      | _ \<Rightarrow> None)"

text \<open>The offset of \<open>unique\<close> in the answer, and that the tables and the code for endorsement keys have it.\<close>

definition key_offset :: "pk_params \<Rightarrow> nat" where
  "key_offset pk = 30 + length (pk_authpolicy pk) + length (create_symkeydata pk) + length (pk_schemedata pk)"

definition pk_ready :: "pk_params \<Rightarrow> nat \<Rightarrow> bool" where
  "pk_ready pk off \<longleftrightarrow> off = key_offset pk \<and> pk_small pk \<and> 0 < pk_keysize pk \<and> pk_keysize pk \<le> 512"

lemma tables_ready:
  "list_all (\<lambda>pk. pk_ready pk (pk_off pk)) spk_params_table" "list_all (\<lambda>pk. pk_ready pk (pk_off pk)) iak_params_table"
  "list_all (\<lambda>pk. pk_matches KEYALGO_RSA 4096 pk \<or> pk_ready pk (pk_off pk)) idevid_params_table"
  by (simp_all add: spk_params_table_def iak_params_table_def idevid_params_table_def pk_ready_def pk_small_def
      key_offset_def create_symkeydata_def pk_matches_def table_defs)

lemma found_ready:
  "get_spk_params algo param = Some pk \<Longrightarrow> pk_ready pk (pk_off pk) \<and> pk_keyalgo pk = algo"
  "get_iak_params algo param = Some pk \<Longrightarrow> pk_ready pk (pk_off pk) \<and> pk_keyalgo pk = algo"
  "get_idevid_params algo param = Some pk \<Longrightarrow> \<not> (algo = KEYALGO_RSA \<and> param = 4096) \<Longrightarrow>
     pk_ready pk (pk_off pk) \<and> pk_keyalgo pk = algo"
  using tables_ready
  by (auto simp: get_spk_params_def get_iak_params_def get_idevid_params_def find_Some_iff list_all_length pk_matches_def)

lemma ek_table_cases:
  "list_all (\<lambda>ek. \<forall>s d. case (if pk_keyalgo (ek_pk ek) = KEYALGO_RSA
        then ek_rsa_setup ek (unat (pk_keyalgo_param (ek_pk ek))) s d else ek_ecc_setup ek s d) of
      Some (keyflags, pk, off) \<Rightarrow> pk_ready pk off \<and> length (template_of keyflags pk) \<le> 512 \<and>
         (pk = ek_pk ek \<or> pk = (ek_pk ek)\<lparr>pk_symkey_len := 0\<rparr>)
    | None \<Rightarrow> False) ek_params_table"
  by (simp add: ek_params_table_def ek_rsa_setup_def ek_ecc_setup_def pk_ready_def pk_small_def key_offset_def
      create_symkeydata_def template_of_def rsa_public_def ecc_public_def public_head_def memconcat_def table_defs Let_def)

lemma mem_read_take_append:
  "length a = off \<Longrightarrow> off + n \<le> m \<Longrightarrow> mem_read (take m (a @ b)) off n = take n b"
  by (simp add: mem_read_def drop_take)

lemma transfer_ok:
  assumes "fst (env_exchange env False req t (sw_peer self)) = Exchange (Some (length req)) True (Some ans)"
    and "10 \<le> length ans" "be32toh (mem_read (take 4096 ans) 6 4) = 0"
  shows "fst (transfer env self req False (Some n) t) = (0, take n (take 4096 ans))"
    and "fst (transfer env self req False None t) = (0, [])"
  using assms by (auto simp: transfer_def split_beta Let_def)

lemma accepts_simple_cmd: "accepts env req \<Longrightarrow> fst (simple_cmd env self req t) = 0"
  using transfer_ok(2) [of env req t self "htobe16 TPM2_ST_NO_SESSIONS @ htobe32 10 @ htobe32 0"]
  by (auto simp: accepts_def simple_cmd_def split_beta mem_read_def)

lemma answer_split:
  "created_answer handle head uniq rest = (htobe16 TPM2_ST_SESSIONS @ htobe32 (of_nat (20 + length head + length uniq + length rest)) @
     htobe32 0 @ htobe32 handle @ htobe32 (of_nat (2 + length head + length uniq + length rest)) @
     htobe16 (of_nat (length head + length uniq)) @ head) @ uniq @ rest"
  by (simp add: created_answer_def Let_def add.assoc)

lemma createprimary_created:
  assumes "tpm_makes_key env pk key handle rest" "pk_small pk"
    and "case ektemplate of None \<Rightarrow> True | Some len \<Rightarrow> length (template_of keyflags pk) \<le> len"
  shows "fst (swtpm_tpm2_createprimary env self primaryhandle ektemplate (template_of keyflags pk) t) =
     Some (take 2048 (created_answer handle (template_head keyflags pk) (unique_of key) rest), handle)"
proof -
  let ?a = "created_answer handle (template_head keyflags pk) (unique_of key) rest"
  let ?req = "createprimary_req primaryhandle (template_of keyflags pk)"
  have x: "fst (env_exchange env False ?req t (sw_peer self)) = Exchange (Some (length ?req)) True (Some ?a)"
    using assms(1) by (simp add: tpm_makes_key_def Let_def)
  have l: "14 \<le> length ?a" by (simp add: answer_split)
  have rc: "be32toh (mem_read (take 4096 ?a) 6 4) = 0"
    by (simp add: answer_split mem_read_def drop_take)
  have h: "be32toh (mem_read (take 2048 ?a) 10 4) = handle"
    by (simp add: answer_split mem_read_def drop_take)
  have "fst (transfer env self ?req False (Some 2048) t) = (0, take 2048 ?a)"
    using transfer_ok(1) [OF x _ rc, of 2048] l by simp
  then show ?thesis using assms(3) l h
    by (auto simp: swtpm_tpm2_createprimary_def split_beta split: option.split)
qed

lemma offset_head: "pk_ready pk off \<Longrightarrow> off = 20 + length (template_head keyflags pk)"
  by (simp add: pk_ready_def key_offset_def template_head_def length_public)

lemma offset_small: "pk_ready pk off \<Longrightarrow> off \<le> 120"
  by (auto simp: pk_ready_def key_offset_def pk_small_def length_symkeydata)

text \<open>With the right offset the two functions find the key.\<close>

lemma createprimary_rsa_created:
  assumes tpm: "tpm_makes_key env pk (RsaKey m) handle rest" and ready: "pk_ready pk off"
    and room: "case ektemplate of None \<Rightarrow> True | Some len \<Rightarrow> length (template_of keyflags pk) \<le> len"
  shows "fst (swtpm_tpm2_createprimary_rsa env self primaryhandle keyflags pk off ektemplate want) =
     Some \<lparr>pr_handle = handle, pr_template = template_of keyflags pk, pr_keyparam = (if want then print_as_hex m else None)\<rparr>"
proof -
  have fits: "key_fits pk (RsaKey m)" using tpm by (simp add: tpm_makes_key_def)
  have small: "pk_small pk" "length m \<le> 512" "length m < 2 ^ 16" using ready fits by (simp_all add: pk_ready_def)
  define pre where "pre = htobe16 TPM2_ST_SESSIONS @ htobe32 (of_nat (20 + length (template_head keyflags pk) + (2 + length m) + length rest)) @
     htobe32 0 @ htobe32 handle @ htobe32 (of_nat (2 + length (template_head keyflags pk) + (2 + length m) + length rest)) @
     htobe16 (of_nat (length (template_head keyflags pk) + (2 + length m))) @ template_head keyflags pk"
  define resp where "resp = take 2048 (created_answer handle (template_head keyflags pk) (unique_of (RsaKey m)) rest)"
  have a: "resp = take 2048 (pre @ htobe16 (of_nat (length m)) @ m @ rest)"
    unfolding resp_def pre_def answer_split by simp
  have lp: "length pre = off" unfolding pre_def using offset_head [OF ready, of keyflags] by simp
  note off = offset_small [OF ready]
  have len: "off + 2 + length m \<le> length resp" using small off lp by (simp add: a)
  have r1: "mem_read resp off 2 = htobe16 (of_nat (length m))"
    unfolding a by (subst mem_read_take_append) (use lp off in auto)
  have r2: "mem_read resp (off + 2) (length m) = m"
    using mem_read_take_append [of "pre @ htobe16 (of_nat (length m))" "off + 2" "length m" 2048 "m @ rest"] lp off small
    by (simp add: a)
  have u: "unat (of_nat (length m) :: u16) = length m" using small by (simp add: unsigned_of_nat take_bit_nat_eq_self)
  have k: "pk_keysize pk = length m" "rsa_public keyflags pk = template_of keyflags pk" using fits by (simp_all add: template_of_def)
  have "fst (swtpm_tpm2_createprimary env self primaryhandle ektemplate (template_of keyflags pk) (pk_duration pk)) =
      Some (resp, handle)"
    using createprimary_created [OF tpm small(1) room] resp_def by simp
  then show ?thesis using len r2
    by (simp add: swtpm_tpm2_createprimary_rsa_def split_beta Let_def r1 u k)
qed

lemma createprimary_ecc_created:
  assumes tpm: "tpm_makes_key env pk (EccKey x y) handle rest" and ready: "pk_ready pk off"
    and room: "case ektemplate of None \<Rightarrow> True | Some len \<Rightarrow> length (template_of keyflags pk) \<le> len"
  shows "fst (swtpm_tpm2_createprimary_ecc env self primaryhandle keyflags pk off ektemplate want) =
     Some \<lparr>pr_handle = handle, pr_template = template_of keyflags pk,
       pr_keyparam = (if want then keyparam_of (pk_keydescription pk) (EccKey x y) else None)\<rparr>"
proof -
  have fits: "key_fits pk (EccKey x y)" using tpm by (simp add: tpm_makes_key_def)
  define n where "n = length x"
  have small: "pk_small pk" "n \<le> 512" "n < 2 ^ 16" "length y = n" using ready fits by (simp_all add: pk_ready_def n_def)
  define head where "head = template_head keyflags pk"
  define pre where "pre = htobe16 TPM2_ST_SESSIONS @ htobe32 (of_nat (20 + length head + (4 + n + n) + length rest)) @
     htobe32 0 @ htobe32 handle @ htobe32 (of_nat (2 + length head + (4 + n + n) + length rest)) @
     htobe16 (of_nat (length head + (4 + n + n))) @ head"
  define resp where "resp = take 2048 (created_answer handle head (unique_of (EccKey x y)) rest)"
  have a: "resp = take 2048 (pre @ htobe16 (of_nat n) @ x @ htobe16 (of_nat n) @ y @ rest)"
    unfolding resp_def pre_def answer_split using small n_def by (simp add: algebra_simps)
  have lp: "length pre = off" unfolding pre_def head_def using offset_head [OF ready, of keyflags] by simp
  note off = offset_small [OF ready]
  have len: "off + 2 + n + 2 + n \<le> length resp" using small off lp n_def by (simp add: a)
  have r1: "mem_read resp off 2 = htobe16 (of_nat n)"
    unfolding a by (subst mem_read_take_append) (use lp off in auto)
  have r2: "mem_read resp (off + 2) n = x"
    using mem_read_take_append [of "pre @ htobe16 (of_nat n)" "off + 2" n 2048 "x @ htobe16 (of_nat n) @ y @ rest"]
      lp off small n_def by (simp add: a)
  have r3: "mem_read resp (off + 2 + n) 2 = htobe16 (of_nat n)"
    using mem_read_take_append [of "pre @ htobe16 (of_nat n) @ x" "off + 2 + n" 2 2048 "htobe16 (of_nat n) @ y @ rest"]
      lp off small n_def by (simp add: a)
  have r4: "mem_read resp (off + 2 + n + 2) n = y"
    using mem_read_take_append [of "pre @ htobe16 (of_nat n) @ x @ htobe16 (of_nat n)" "off + 2 + n + 2" n 2048 "y @ rest"]
      lp off small n_def by (simp add: a)
  have u: "unat (of_nat n :: u16) = n" using small by (simp add: unsigned_of_nat take_bit_nat_eq_self)
  have k: "pk_keysize pk = n" "ecc_public keyflags pk = template_of keyflags pk"
    using fits n_def by (simp_all add: template_of_def)
  have "fst (swtpm_tpm2_createprimary env self primaryhandle ektemplate (template_of keyflags pk) (pk_duration pk)) =
      Some (resp, handle)"
    using createprimary_created [OF tpm small(1) room] resp_def head_def by simp
  then show ?thesis using len r2 r3 r4
    by (simp add: swtpm_tpm2_createprimary_ecc_def split_beta Let_def r1 u k)
qed

lemma accepted_commands:
  assumes "tpm_creates env pk key handle rest"
  shows "fst (swtpm_tpm2_evictcontrol env self h p) = 0" "fst (swtpm_tpm2_flushcontext env self h) = 0"
    "fst (swtpm_tpm2_nvdefinespace env self nvindex attrs len) = 0" "fst (swtpm_tpm2_nv_writelock env self nvindex) = 0"
proof -
  have a: "ordinal \<noteq> TPM2_CC_CREATEPRIMARY \<Longrightarrow> fst (simple_cmd env self (tpm_request tag ordinal parts) t) = 0"
    for ordinal tag parts t
    using assms by (intro accepts_simple_cmd) (simp add: tpm_creates_def tpm_request_def mem_read_def Let_def)
  show "fst (swtpm_tpm2_evictcontrol env self h p) = 0" "fst (swtpm_tpm2_flushcontext env self h) = 0"
    "fst (swtpm_tpm2_nvdefinespace env self nvindex attrs len) = 0" "fst (swtpm_tpm2_nv_writelock env self nvindex) = 0"
    by (simp_all add: swtpm_tpm2_evictcontrol_def evictcontrol_req_def swtpm_tpm2_flushcontext_def swtpm_tpm2_nvdefinespace_def
        swtpm_tpm2_nv_writelock_def Let_def a)
qed

lemma accepted_nv_write:
  assumes "tpm_creates env pk key handle rest"
  shows "fst (nv_write_loop env nvindex data self offset) = 0"
  using assms
proof (induction env nvindex data self offset rule: nv_write_loop.induct)
  case (1 env nvindex data self offset)
  let ?n = "min (length data - offset) 1024"
  have "accepts env (nv_write_req nvindex (mem_read data offset ?n) offset)"
    using "1.prems" by (simp add: tpm_creates_def nv_write_req_def tpm_request_def mem_read_def Let_def)
  then have c: "fst (simple_cmd env self (nv_write_req nvindex (mem_read data offset ?n) offset) TPM2_DURATION_SHORT) = 0"
    by (rule accepts_simple_cmd)
  show ?case
    by (subst nv_write_loop.simps)
      (use 1 c in \<open>auto simp: Let_def split: prod.split\<close>)
qed

lemma accepted_write_nvram:
  "tpm_creates env pk key handle rest \<Longrightarrow> fst (swtpm_tpm2_write_nvram env self nvindex attrs data lock) = 0"
  by (simp add: swtpm_tpm2_write_nvram_def swtpm_tpm2_nv_write_def split_beta accepted_commands accepted_nv_write)

lemma create_endorsed_created:
  assumes tpm: "tpm_creates env pk key handle rest" and ready: "pk_ready pk (pk_off pk)"
  shows "fst (create_endorsed env self (pk_keyalgo pk) pk perm_handle) =
    (0, keyparam_of (pk_keydescription pk) key, pk_keydescription pk)"
proof -
  have "key_fits pk key" using tpm by (simp add: tpm_creates_def tpm_makes_key_def)
  then show ?thesis
    using tpm_creates_key [OF tpm] ready createprimary_rsa_created [of env pk _ handle rest "pk_off pk" _ None]
      createprimary_ecc_created [of env pk _ _ handle rest "pk_off pk" _ None] accepted_commands [OF tpm]
    by (cases key) (auto simp: create_endorsed_def split_beta)
qed

lemma spk_created:
  assumes tpm: "tpm_makes_key env pk key handle rest" and get: "get_spk_params algo param = Some pk"
  shows "fst (swtpm_tpm2_create_spk env self algo param) = 0 \<longleftrightarrow>
    fst (swtpm_tpm2_flushcontext env (snd (swtpm_tpm2_evictcontrol env
       (snd (if algo = KEYALGO_ECC then swtpm_tpm2_createprimary_spk_ecc env self param
             else swtpm_tpm2_createprimary_spk_rsa env self param)) handle TPM2_SPK_HANDLE)) handle) = 0"
proof -
  have "key_fits pk key" using tpm by (simp add: tpm_makes_key_def)
  then show ?thesis
    using tpm get found_ready(1) [OF get] createprimary_rsa_created [of env pk _ handle rest "pk_off pk" _ None]
      createprimary_ecc_created [of env pk _ _ handle rest "pk_off pk" _ None]
    by (cases key)
      (auto simp: swtpm_tpm2_create_spk_def swtpm_tpm2_createprimary_spk_ecc_def swtpm_tpm2_createprimary_spk_rsa_def split_beta)
qed

lemma ek_setup_ready:
  assumes "get_ek_params algo param = Some ek"
  obtains keyflags pk off where
    "algo = KEYALGO_RSA \<Longrightarrow> ek_rsa_setup ek param s d = Some (keyflags, pk, off)"
    "algo \<noteq> KEYALGO_RSA \<Longrightarrow> ek_ecc_setup ek s d = Some (keyflags, pk, off)"
    "pk_ready pk off" "length (template_of keyflags pk) \<le> 512" "pk_keyalgo (ek_pk ek) = algo"
    "pk = ek_pk ek \<or> pk = (ek_pk ek)\<lparr>pk_symkey_len := 0\<rparr>"
proof -
  have m: "pk_matches algo param (ek_pk ek)" and i: "ek \<in> set ek_params_table"
    using assms by (auto simp: get_ek_params_def find_Some_iff)
  then have a: "pk_keyalgo (ek_pk ek) = algo" "unat (pk_keyalgo_param (ek_pk ek)) = param" by (auto simp: pk_matches_def)
  have c: "case (if algo = KEYALGO_RSA then ek_rsa_setup ek param s d else ek_ecc_setup ek s d) of
      Some (keyflags, pk, off) \<Rightarrow> pk_ready pk off \<and> length (template_of keyflags pk) \<le> 512 \<and>
        (pk = ek_pk ek \<or> pk = (ek_pk ek)\<lparr>pk_symkey_len := 0\<rparr>)
    | None \<Rightarrow> False"
    using ek_table_cases i unfolding list_all_iff a [symmetric] by blast
  obtain keyflags pk off where
    "(if algo = KEYALGO_RSA then ek_rsa_setup ek param s d else ek_ecc_setup ek s d) = Some (keyflags, pk, off)"
    "pk_ready pk off" "length (template_of keyflags pk) \<le> 512" "pk = ek_pk ek \<or> pk = (ek_pk ek)\<lparr>pk_symkey_len := 0\<rparr>"
    using c by (simp split: option.splits prod.splits)
  then show thesis using a by (intro that [of keyflags pk off]) simp_all
qed

lemma create_ek_created:
  assumes tpm: "tpm_creates env (ek_pk ek) key handle rest" "tpm_creates env ((ek_pk ek)\<lparr>pk_symkey_len := 0\<rparr>) key handle rest"
    and get: "get_ek_params algo param = Some ek"
  shows "fst (swtpm_tpm2_create_ek env self algo param s d lock) =
    (0, keyparam_of (pk_keydescription (ek_pk ek)) key, pk_keydescription (ek_pk ek))"
proof -
  obtain keyflags pk off where e:
    "algo = KEYALGO_RSA \<Longrightarrow> ek_rsa_setup ek param s d = Some (keyflags, pk, off)"
    "algo \<noteq> KEYALGO_RSA \<Longrightarrow> ek_ecc_setup ek s d = Some (keyflags, pk, off)"
    "pk_ready pk off" "length (template_of keyflags pk) \<le> 512" "pk_keyalgo (ek_pk ek) = algo"
    "pk = ek_pk ek \<or> pk = (ek_pk ek)\<lparr>pk_symkey_len := 0\<rparr>"
    by (rule ek_setup_ready [OF get]) blast
  have tpm': "tpm_creates env pk key handle rest" using tpm e(6) by blast
  have fits: "key_fits (ek_pk ek) key" using tpm(1) by (simp add: tpm_creates_def tpm_makes_key_def)
  have same: "pk_keydescription pk = pk_keydescription (ek_pk ek)" using e(6) by auto
  note tail = swtpm_tpm2_create_ek_def split_beta accepted_commands [OF tpm'] accepted_write_nvram [OF tpm']
  show ?thesis
  proof (cases key)
    case (RsaKey m)
    then have algo: "algo = KEYALGO_RSA" using fits e(5) by auto
    have "fst (swtpm_tpm2_createprimary_rsa env self TPM2_RH_ENDORSEMENT keyflags pk off (Some 512) True) =
        Some \<lparr>pr_handle = handle, pr_template = template_of keyflags pk, pr_keyparam = print_as_hex m\<rparr>" for self
      using createprimary_rsa_created [of env pk m handle rest off keyflags "Some 512"] tpm_creates_key [OF tpm'] e RsaKey by simp
    then show ?thesis using e(1) algo get RsaKey
      by (simp add: tail swtpm_tpm2_createprimary_ek_rsa_def)
  next
    case (EccKey x y)
    then have algo: "algo = KEYALGO_ECC" using fits e(5) by auto
    have "fst (swtpm_tpm2_createprimary_ecc env self TPM2_RH_ENDORSEMENT keyflags pk off (Some 512) True) =
        Some \<lparr>pr_handle = handle, pr_template = template_of keyflags pk,
          pr_keyparam = keyparam_of (pk_keydescription pk) key\<rparr>" for self
      using createprimary_ecc_created [of env pk x y handle rest off keyflags "Some 512"] tpm_creates_key [OF tpm'] e EccKey
      by (simp del: keyparam_of.simps)
    then show ?thesis using e(2) algo get same
      by (simp add: tail swtpm_tpm2_createprimary_ek_ecc_def)
  qed
qed

text \<open>
  C19. Keys are created as asked: against a TPM that creates the key and accepts the other commands, swtpm\_setup finds the public key at the
  offset it uses for every kind and size of key, reports it and succeeds, for storage keys, endorsement
  keys with any use, attestation keys and device identity keys; device identity keys of 4096 bit RSA are the one exception.
\<close>

theorem created_keys_read:
  assumes "tpm_creates env pk key handle rest" "tpm_creates env (pk\<lparr>pk_symkey_len := 0\<rparr>) key handle rest"
  shows "(get_spk_params algo param = Some pk \<longrightarrow> fst (swtpm_tpm2_create_spk env self algo param) = 0) \<and>
    (\<forall>ek. get_ek_params algo param = Some ek \<and> ek_pk ek = pk \<longrightarrow>
       fst (swtpm_tpm2_create_ek env self algo param allowsigning decryption lock_nvram) =
         (0, keyparam_of (pk_keydescription pk) key, pk_keydescription pk)) \<and>
    (get_iak_params algo param = Some pk \<longrightarrow>
       fst (swtpm_tpm2_create_iak env self algo param) = (0, keyparam_of (pk_keydescription pk) key, pk_keydescription pk)) \<and>
    (get_idevid_params algo param = Some pk \<and> \<not> (algo = KEYALGO_RSA \<and> param = 4096) \<longrightarrow>
       fst (swtpm_tpm2_create_idevid env self algo param) = (0, keyparam_of (pk_keydescription pk) key, pk_keydescription pk))"
proof (intro conjI allI impI; (elim conjE)?)
  assume p: "get_spk_params algo param = Some pk"
  show "fst (swtpm_tpm2_create_spk env self algo param) = 0"
    using spk_created [OF tpm_creates_key [OF assms(1)] p] accepted_commands(2) [OF assms(1)] by blast
next
  fix ek assume p: "get_ek_params algo param = Some ek" "ek_pk ek = pk"
  show "fst (swtpm_tpm2_create_ek env self algo param allowsigning decryption lock_nvram) =
      (0, keyparam_of (pk_keydescription pk) key, pk_keydescription pk)"
    using create_ek_created [of env ek key handle rest algo param] assms p by simp
next
  assume p: "get_iak_params algo param = Some pk"
  show "fst (swtpm_tpm2_create_iak env self algo param) = (0, keyparam_of (pk_keydescription pk) key, pk_keydescription pk)"
    using create_endorsed_created [OF assms(1), of self TPM2_IAK_HANDLE] found_ready(2) [OF p] p
    by (simp add: swtpm_tpm2_create_iak_def)
next
  assume p: "get_idevid_params algo param = Some pk" "\<not> (algo = KEYALGO_RSA \<and> param = 4096)"
  show "fst (swtpm_tpm2_create_idevid env self algo param) = (0, keyparam_of (pk_keydescription pk) key, pk_keydescription pk)"
    using create_endorsed_created [OF assms(1), of self TPM2_IDEVID_HANDLE] found_ready(3) [OF p(1,2)] p(1)
    by (simp add: swtpm_tpm2_create_idevid_def)
qed

text \<open>A TPM that creates one key, and a swtpm object, for the examples.\<close>

definition example_tpm :: "pk_params \<Rightarrow> pubkey \<Rightarrow> u32 \<Rightarrow> unit setup_env" where
  "example_tpm pk key handle =
     \<lparr>env_exchange = (\<lambda>use_ctrl req t p. (Exchange (Some (length req)) True (Some
        (if be32toh (mem_read req 6 4) = TPM2_CC_CREATEPRIMARY
         then created_answer handle (template_head (be32toh (mem_read req 39 4)) pk) (unique_of key) []
         else htobe16 TPM2_ST_NO_SESSIONS @ htobe32 10 @ htobe32 0)), p)),
      env_mkstemp = (\<lambda>p. (Some ''pid'', p)), env_socketpair = (\<lambda>p. (Some (3, 4), p)), env_spawn = (\<lambda>argv p. (Some 100, p)),
      env_alive = (\<lambda>pid p. (True, p)), env_pidfile_written = (\<lambda>p. (True, p)), env_kill = (\<lambda>pid p. p), env_wait = (\<lambda>pid p. p),
      env_close = (\<lambda>fd p. p), env_unlink = (\<lambda>name p. p), env_behind = []\<rparr>"

definition example_swtpm :: "unit swtpm" where
  "example_swtpm = swtpm2_new [''swtpm'', ''socket''] ''dir:///tmp'' None None None (-1) None ()"

lemma template_flags:
  "mem_read (template_of keyflags pk) 4 4 = htobe32 keyflags" "8 \<le> length (template_of keyflags pk)"
  by (simp_all add: template_of_def rsa_public_def ecc_public_def public_head_def memconcat_def mem_read_def)

lemma example_tpm_creates:
  assumes "key_fits pk key"
  shows "tpm_creates (example_tpm pk key handle) pk key handle []"
proof -
  have "mem_read (createprimary_req h (template_of keyflags pk)) 39 4 = htobe32 keyflags" for h keyflags
    using template_flags [of keyflags pk]
    by (simp add: createprimary_req_def tpm_request_def memconcat_def Let_def mem_read_def)
  moreover have "mem_read (createprimary_req h public) 6 4 = htobe32 TPM2_CC_CREATEPRIMARY" for h public
    by (simp add: createprimary_req_def tpm_request_def memconcat_def Let_def mem_read_def)
  ultimately show ?thesis using assms
    by (simp add: tpm_creates_def tpm_makes_key_def accepts_def example_tpm_def Let_def)
qed

definition example_iak :: pk_params where
  "example_iak = hd iak_params_table"

lemma example_iak_facts:
  "key_fits example_iak (EccKey (replicate 32 7) (replicate 32 9))" "example_iak\<lparr>pk_symkey_len := 0\<rparr> = example_iak"
  "get_iak_params KEYALGO_ECC 3 = Some example_iak" "pk_keydescription example_iak = Some ''secp256r1''"
  by (simp_all add: example_iak_def iak_params_table_def get_iak_params_def pk_matches_def)

theorem created_keys_read_witness:
  "fst (swtpm_tpm2_create_iak (example_tpm example_iak (EccKey (replicate 32 7) (replicate 32 9)) 0x80000000)
       example_swtpm KEYALGO_ECC 3) =
     (0, keyparam_of (Some ''secp256r1'') (EccKey (replicate 32 7) (replicate 32 9)), Some ''secp256r1'')"
  using created_keys_read [where pk = example_iak and algo = KEYALGO_ECC and param = 3 and self = example_swtpm and handle = "0x80000000"]
    example_iak_facts example_tpm_creates [OF example_iak_facts(1), of "0x80000000"]
  by (simp del: keyparam_of.simps)

lemma idevid_rsa4096:
  assumes "get_idevid_params KEYALGO_RSA 4096 = Some pk"
  shows "pk_off pk = 104" "key_offset pk = 88" "pk_small pk" "pk_keysize pk = 512" "pk_keyalgo pk = KEYALGO_RSA"
  using assms
  by (auto simp: get_idevid_params_def idevid_params_table_def pk_matches_def key_offset_def create_symkeydata_def pk_small_def table_defs)

text \<open>
  C39. The exception: for a device identity key of 4096 bit RSA the table has the offset of a key with a SHA512
  policy, but the policy is SHA384. The code reads two bytes of the modulus as its length and gives up, unless these
  bytes happen to be 2 and 0.
\<close>

theorem idevid_rsa4096_fails:
  assumes "tpm_makes_key env pk (RsaKey m) handle rest" "get_idevid_params KEYALGO_RSA 4096 = Some pk"
    and "mem_read m 14 2 \<noteq> [2, 0]"
  shows "fst (swtpm_tpm2_create_idevid env self KEYALGO_RSA 4096) = (1, None, None)"
proof -
  note pk = idevid_rsa4096 [OF assms(2)]
  define head where "head = template_head (pk_keyflags pk) pk"
  define resp where "resp = take 2048 (created_answer handle head (unique_of (RsaKey m)) rest)"
  have m: "length m = 512" using assms(1) pk by (simp add: tpm_makes_key_def)
  have h: "length head = 68" using pk by (simp add: head_def template_head_def length_public key_offset_def)
  have r: "fst (swtpm_tpm2_createprimary env self TPM2_RH_ENDORSEMENT None (template_of (pk_keyflags pk) pk) (pk_duration pk)) =
      Some (resp, handle)" for self
    using createprimary_created [OF assms(1) pk(3), where ektemplate = None] by (simp add: resp_def head_def)
  have "mem_read resp 104 2 = mem_read m 14 2"
    using m h by (simp add: resp_def answer_split mem_read_def drop_take)
  moreover have "htobe16 (512 :: u16) = [2, 0]" by (code_simp)
  ultimately have "be16toh (mem_read resp 104 2) \<noteq> 512"
    using assms(3) htobe_be16toh [of "mem_read m 14 2"] m by auto
  then have "unat (be16toh (mem_read resp 104 2)) \<noteq> 512"
    by (metis of_nat_numeral of_nat_unat ucast_id)
  moreover have "rsa_public (pk_keyflags pk) pk = template_of (pk_keyflags pk) pk" using pk by (simp add: template_of_def)
  ultimately show ?thesis using r pk assms(2)
    by (simp add: swtpm_tpm2_create_idevid_def create_endorsed_def swtpm_tpm2_createprimary_rsa_def Let_def split_beta)
qed

definition example_idevid :: pk_params where
  "example_idevid = last idevid_params_table"

lemma example_idevid_facts:
  "key_fits example_idevid (RsaKey (replicate 512 7))" "get_idevid_params KEYALGO_RSA 4096 = Some example_idevid"
  by (simp_all add: example_idevid_def idevid_params_table_def get_idevid_params_def pk_matches_def)

lemma replicate_numeral_two: "replicate 2 x = [x, x]"
  by (simp add: numeral_2_eq_2)

theorem idevid_rsa4096_fails_witness:
  "fst (swtpm_tpm2_create_idevid (example_tpm example_idevid (RsaKey (replicate 512 7)) 0x80000000) example_swtpm
     KEYALGO_RSA 4096) = (1, None, None)"
  by (rule idevid_rsa4096_fails [OF tpm_creates_key [OF example_tpm_creates [OF example_idevid_facts(1)]] example_idevid_facts(2)])
    (simp add: mem_read_def replicate_numeral_two)

subsection \<open>A key that is not made permanent\<close>

text \<open>
  When the TPM creates and flushes a storage key but refuses to make it permanent, \<open>swtpm_tpm2_create_spk\<close> still returns
  success: the result of \<open>evictcontrol\<close> is only logged and then overwritten. \<open>create_iak\<close> and \<open>create_idevid\<close> do the same.
\<close>

theorem spk_not_permanent_reported_ok:
  assumes "tpm_makes_key env pk key handle rest" "get_spk_params algo param = Some pk"
    and "\<forall>s. fst (swtpm_tpm2_evictcontrol env s handle TPM2_SPK_HANDLE) = 1"
    and "\<forall>s. fst (swtpm_tpm2_flushcontext env s handle) = 0"
  shows "fst (swtpm_tpm2_create_spk env self algo param) = 0"
  using spk_created [OF assms(1,2)] assms(4) by blast

text \<open>A TPM without room for another permanent key.\<close>

definition full_tpm :: "pk_params \<Rightarrow> pubkey \<Rightarrow> u32 \<Rightarrow> unit setup_env" where
  "full_tpm pk key handle =
     (example_tpm pk key handle)\<lparr>env_exchange := (\<lambda>use_ctrl req t p.
        if be32toh (mem_read req 6 4) = TPM2_CC_EVICTCONTROL
        then (Exchange (Some (length req)) True (Some (htobe16 TPM2_ST_NO_SESSIONS @ htobe32 10 @ htobe32 0x14b)), p)
        else env_exchange (example_tpm pk key handle) use_ctrl req t p)\<rparr>"

definition example_spk :: pk_params where
  "example_spk = hd spk_params_table"

lemma full_tpm_facts:
  assumes "key_fits pk key"
  shows "tpm_makes_key (full_tpm pk key handle) pk key handle []"
    "\<forall>s. fst (swtpm_tpm2_evictcontrol (full_tpm pk key handle) s h p) = 1"
    "\<forall>s. fst (swtpm_tpm2_flushcontext (full_tpm pk key handle) s h) = 0"
proof -
  have o: "mem_read (tpm_request tag ordinal parts) 6 4 = htobe32 ordinal" for tag ordinal parts
    by (simp add: tpm_request_def memconcat_def Let_def mem_read_def)
  have "tpm_makes_key (example_tpm pk key handle) pk key handle []"
    by (rule tpm_creates_key [OF example_tpm_creates [OF assms]])
  then show "tpm_makes_key (full_tpm pk key handle) pk key handle []"
    by (simp add: tpm_makes_key_def full_tpm_def createprimary_req_def o)
  show "\<forall>s. fst (swtpm_tpm2_evictcontrol (full_tpm pk key handle) s h p) = 1"
    by (simp add: swtpm_tpm2_evictcontrol_def evictcontrol_req_def simple_cmd_def transfer_def full_tpm_def o Let_def)
      (simp add: mem_read_def)
  show "\<forall>s. fst (swtpm_tpm2_flushcontext (full_tpm pk key handle) s h) = 0"
    by (simp add: swtpm_tpm2_flushcontext_def simple_cmd_def transfer_def full_tpm_def example_tpm_def o Let_def)
      (simp add: mem_read_def)
qed

lemma example_spk_facts:
  "key_fits example_spk (EccKey (replicate 32 7) (replicate 32 9))" "get_spk_params KEYALGO_ECC 3 = Some example_spk"
  by (simp_all add: example_spk_def spk_params_table_def get_spk_params_def pk_matches_def)

theorem spk_not_permanent_reported_ok_witness:
  "fst (swtpm_tpm2_create_spk (full_tpm example_spk (EccKey (replicate 32 7) (replicate 32 9)) 0x80000000)
     example_swtpm KEYALGO_ECC 3) = 0"
  using full_tpm_facts [OF example_spk_facts(1), of "0x80000000"] example_spk_facts(2)
  by (intro spk_not_permanent_reported_ok) blast+

end
