(* ===== verification/SetupStore.thy ===== *)
theory SetupStore
  imports SetupKeys
begin

section \<open>swtpm\_setup: NVRAM areas and PCR banks\<close>

text \<open>
  What the requests of swtpm\_setup make of a TPM's NVRAM and PCR banks: certificates and templates arrive in an area as they
  are, the list of banks is read back as the TPM has it, and the banks that get activated are those of a reference definition.
\<close>

subsection \<open>Writing an area\<close>

text \<open>The requests that writing data needs, piece by piece.\<close>

function nv_pieces :: "u32 \<Rightarrow> bytes \<Rightarrow> nat \<Rightarrow> bytes list" where
  "nv_pieces nvindex data offset =
     (if offset < length data then
        nv_write_req nvindex (mem_read data offset (min (length data - offset) 1024)) offset #
          nv_pieces nvindex data (offset + min (length data - offset) 1024)
      else [])"
  by pat_completeness auto
termination
  by (relation "measure (\<lambda>(nvindex, data, offset). length data - offset)") auto

declare nv_pieces.simps [simp del]

text \<open>
  The NVRAM of a TPM and what it does with a request, as the TPM 2 specification describes TPM2\_NV\_DefineSpace, TPM2\_NV\_Write and
  TPM2\_NV\_WriteLock: each needs the platform hierarchy with the empty password as authorization; only an index that is not defined yet can be
  defined, with the given size and some contents; a write goes to the index of the request, within its area, unless it is locked. Any other
  request changes nothing.
\<close>

record nv_area =
  na_attrs :: u32
  na_data :: bytes
  na_locked :: bool

type_synonym nv_memory = "u32 \<Rightarrow> nv_area option"

definition platform_auth :: "bytes \<Rightarrow> bool" where
  "platform_auth rest \<longleftrightarrow> take 13 rest = authblock_len @ tpm2_authblock"

definition tpm_nv_define :: "(nat \<Rightarrow> byte) \<Rightarrow> nv_memory \<Rightarrow> bytes \<Rightarrow> nv_memory" where
  "tpm_nv_define fill m params =
     (let nvindex = be32toh (mem_read params 4 4) in
      if be16toh (mem_read params 0 2) \<noteq> 0 \<or> be16toh (mem_read params 2 2) \<noteq> 14 \<or> be16toh (mem_read params 14 2) \<noteq> 0 \<or>
         m nvindex \<noteq> None
      then m
      else m(nvindex \<mapsto> \<lparr>na_attrs = be32toh (mem_read params 10 4),
             na_data = map fill [0..<unat (be16toh (mem_read params 16 2))], na_locked = False\<rparr>))"

definition tpm_nv_write :: "nv_memory \<Rightarrow> u32 \<Rightarrow> bytes \<Rightarrow> nv_memory" where
  "tpm_nv_write m nvindex params =
     (let n = unat (be16toh (mem_read params 0 2)); offset = unat (be16toh (mem_read params (2 + n) 2)) in
      case m nvindex of
        None \<Rightarrow> m
      | Some a \<Rightarrow>
          if na_locked a \<or> length (na_data a) < offset + n then m
          else m(nvindex \<mapsto> a\<lparr>na_data := mem_write (na_data a) offset (mem_read params 2 n)\<rparr>))"

definition tpm_nv_writelock :: "nv_memory \<Rightarrow> u32 \<Rightarrow> nv_memory" where
  "tpm_nv_writelock m nvindex = (case m nvindex of None \<Rightarrow> m | Some a \<Rightarrow> m(nvindex \<mapsto> a\<lparr>na_locked := True\<rparr>))"

definition tpm_nv_command :: "(nat \<Rightarrow> byte) \<Rightarrow> nv_memory \<Rightarrow> bytes \<Rightarrow> nv_memory" where
  "tpm_nv_command fill m req =
     (let ordinal = be32toh (mem_read req 6 4); handles = drop 10 req; nvindex = be32toh (mem_read handles 4 4) in
      if be16toh (mem_read req 0 2) \<noteq> TPM2_ST_SESSIONS \<or> be32toh (mem_read req 2 4) \<noteq> of_nat (length req) \<or>
         be32toh (mem_read handles 0 4) \<noteq> TPM2_RH_PLATFORM
      then m
      else if ordinal = TPM2_CC_NV_DEFINESPACE \<and> platform_auth (drop 4 handles) then tpm_nv_define fill m (drop 17 handles)
      else if ordinal = TPM2_CC_NV_WRITE \<and> platform_auth (drop 8 handles) then tpm_nv_write m nvindex (drop 21 handles)
      else if ordinal = TPM2_CC_NV_WRITELOCK \<and> platform_auth (drop 8 handles) then tpm_nv_writelock m nvindex
      else m)"

lemma tpm_request_fields:
  "mem_read (tpm_request tag ordinal parts) 0 2 = htobe16 tag"
  "mem_read (tpm_request tag ordinal parts) 2 4 = htobe32 (of_nat (length (tpm_request tag ordinal parts)))"
  "mem_read (tpm_request tag ordinal parts) 6 4 = htobe32 ordinal" "drop 10 (tpm_request tag ordinal parts) = concat parts"
  by (simp_all add: tpm_request_def memconcat_def mem_read_def Let_def)

lemma simple_cmd_sent: "sw_sent (snd (simple_cmd env self req t)) = sw_sent self @ [(False, req)]"
  by (simp add: simple_cmd_def transfer_def split: prod.split)

lemma nv_write_loop_sent:
  "fst (nv_write_loop env nvindex data self offset) = 0 \<Longrightarrow>
   sw_sent (snd (nv_write_loop env nvindex data self offset)) = sw_sent self @ map (Pair False) (nv_pieces nvindex data offset)"
proof (induction env nvindex data self offset rule: nv_write_loop.induct)
  case (1 env nvindex data self offset)
  let ?n = "min (length data - offset) 1024"
  let ?c = "simple_cmd env self (nv_write_req nvindex (mem_read data offset ?n) offset) TPM2_DURATION_SHORT"
  show ?case
  proof (cases "offset < length data")
    case True
    then have s: "nv_write_loop env nvindex data self offset =
        (if fst ?c \<noteq> 0 then (1, snd ?c) else nv_write_loop env nvindex data (snd ?c) (offset + ?n))"
      by (subst nv_write_loop.simps) (simp add: Let_def split_beta)
    then have ok: "fst ?c = 0" "fst (nv_write_loop env nvindex data (snd ?c) (offset + ?n)) = 0"
      using "1.prems" by (auto split: if_splits)
    have "sw_sent (snd (nv_write_loop env nvindex data (snd ?c) (offset + ?n))) =
        sw_sent (snd ?c) @ map (Pair False) (nv_pieces nvindex data (offset + ?n))"
      using "1.IH" True ok by (metis prod.collapse)
    then show ?thesis using True s ok
      by (simp add: simple_cmd_sent nv_pieces.simps [of nvindex data offset])
  qed (simp add: nv_write_loop.simps nv_pieces.simps)
qed

text \<open>The three steps of an area: define it, write it, lock it.\<close>

definition nvdefine_req :: "u32 \<Rightarrow> u32 \<Rightarrow> u16 \<Rightarrow> bytes" where
  "nvdefine_req nvindex nvindexattrs data_len =
     tpm_request TPM2_ST_SESSIONS TPM2_CC_NV_DEFINESPACE
       [htobe32 TPM2_RH_PLATFORM @ authblock_len, tpm2_authblock, htobe16 0 @ htobe16 14,
        htobe32 nvindex @ htobe16 TPM2_ALG_SHA256 @ htobe32 nvindexattrs @ htobe16 0 @ htobe16 data_len]"

definition nvlock_req :: "u32 \<Rightarrow> bytes" where
  "nvlock_req nvindex = tpm_request TPM2_ST_SESSIONS TPM2_CC_NV_WRITELOCK
     [htobe32 TPM2_RH_PLATFORM @ htobe32 nvindex @ authblock_len, tpm2_authblock]"

lemma authblock_length [simp]: "length tpm2_authblock = 9"
  by (simp add: tpm2_authblock_def)

lemma nvdefine_effect:
  assumes "m nvindex = None"
  shows "tpm_nv_command fill m (nvdefine_req nvindex attrs n) =
    m(nvindex \<mapsto> \<lparr>na_attrs = attrs, na_data = map fill [0..<unat n], na_locked = False\<rparr>)"
proof -
  let ?h = "htobe32 TPM2_RH_PLATFORM @ authblock_len @ tpm2_authblock @
      htobe16 0 @ htobe16 14 @ htobe32 nvindex @ htobe16 TPM2_ALG_SHA256 @ htobe32 attrs @ htobe16 0 @ htobe16 n"
  have d: "drop 10 (nvdefine_req nvindex attrs n) = ?h"
    unfolding nvdefine_req_def tpm_request_fields by simp
  have p: "mem_read ?h 0 4 = htobe32 TPM2_RH_PLATFORM" "platform_auth (drop 4 ?h)"
    "drop 17 ?h = htobe16 0 @ htobe16 14 @ htobe32 nvindex @ htobe16 TPM2_ALG_SHA256 @ htobe32 attrs @ htobe16 0 @ htobe16 n"
    by (simp_all add: mem_read_def platform_auth_def)
  have e: "tpm_nv_define fill m (htobe16 0 @ htobe16 14 @ htobe32 nvindex @ htobe16 TPM2_ALG_SHA256 @ htobe32 attrs @ htobe16 0 @ htobe16 n) =
      m(nvindex \<mapsto> \<lparr>na_attrs = attrs, na_data = map fill [0..<unat n], na_locked = False\<rparr>)"
    using assms by (simp add: tpm_nv_define_def mem_read_def Let_def)
  show ?thesis
    unfolding tpm_nv_command_def Let_def d p(1,3) e
    unfolding nvdefine_req_def tpm_request_fields using p(2) by simp
qed

lemma nv_handles:
  "mem_read (htobe32 TPM2_RH_PLATFORM @ htobe32 nvindex @ authblock_len @ tpm2_authblock @ xs) 0 4 = htobe32 TPM2_RH_PLATFORM"
  "mem_read (htobe32 TPM2_RH_PLATFORM @ htobe32 nvindex @ authblock_len @ tpm2_authblock @ xs) 4 4 = htobe32 nvindex"
  "platform_auth (drop 8 (htobe32 TPM2_RH_PLATFORM @ htobe32 nvindex @ authblock_len @ tpm2_authblock @ xs))"
  "drop 21 (htobe32 TPM2_RH_PLATFORM @ htobe32 nvindex @ authblock_len @ tpm2_authblock @ xs) = xs"
  by (simp_all add: mem_read_def platform_auth_def)

lemma nvlock_effect:
  "tpm_nv_command fill m (nvlock_req nvindex) = tpm_nv_writelock m nvindex"
proof -
  have d: "drop 10 (nvlock_req nvindex) = htobe32 TPM2_RH_PLATFORM @ htobe32 nvindex @ authblock_len @ tpm2_authblock @ []"
    unfolding nvlock_req_def tpm_request_fields by simp
  show ?thesis
    unfolding tpm_nv_command_def Let_def d nv_handles
    unfolding nvlock_req_def tpm_request_fields using nv_handles(3) [of nvindex "[]"] by simp
qed

lemma nv_write_req_effect:
  assumes "length chunk \<le> 1024" "offset < 2 ^ 16" "m nvindex = Some a" "\<not> na_locked a" "offset + length chunk \<le> length (na_data a)"
  shows "tpm_nv_command fill m (nv_write_req nvindex chunk offset) = m(nvindex \<mapsto> a\<lparr>na_data := mem_write (na_data a) offset chunk\<rparr>)"
proof -
  let ?p = "htobe16 (of_nat (length chunk)) @ chunk @ htobe16 (of_nat offset)"
  have u: "unat (of_nat (length chunk) :: u16) = length chunk" "unat (of_nat offset :: u16) = offset"
    using assms by (simp_all add: unsigned_of_nat take_bit_nat_eq_self)
  have d: "drop 10 (nv_write_req nvindex chunk offset) =
      htobe32 TPM2_RH_PLATFORM @ htobe32 nvindex @ authblock_len @ tpm2_authblock @ ?p"
    unfolding nv_write_req_def tpm_request_fields by simp
  have m: "mem_read ?p 0 2 = htobe16 (of_nat (length chunk))" "mem_read ?p 2 (length chunk) = chunk"
    "mem_read ?p (2 + length chunk) 2 = htobe16 (of_nat offset)"
    by (simp_all add: mem_read_def)
  have w: "tpm_nv_write m nvindex ?p = m(nvindex \<mapsto> a\<lparr>na_data := mem_write (na_data a) offset chunk\<rparr>)"
    unfolding tpm_nv_write_def Let_def m endian_roundtrip0 u using assms(3-5) m by simp
  show ?thesis
    unfolding tpm_nv_command_def Let_def d nv_handles w
    unfolding nv_write_req_def tpm_request_fields using nv_handles(3) [of nvindex ?p] w by simp
qed

lemma nv_pieces_effect:
  "length data \<le> 2 ^ 16 \<Longrightarrow> length area = length data \<Longrightarrow> offset \<le> length data \<Longrightarrow> take offset area = take offset data \<Longrightarrow>
   foldl (tpm_nv_command fill) (m(nvindex \<mapsto> \<lparr>na_attrs = attrs, na_data = area, na_locked = False\<rparr>)) (nv_pieces nvindex data offset) =
     m(nvindex \<mapsto> \<lparr>na_attrs = attrs, na_data = data, na_locked = False\<rparr>)"
proof (induction nvindex data offset arbitrary: area rule: nv_pieces.induct)
  case (1 nvindex data offset)
  let ?m = "\<lambda>area. m(nvindex \<mapsto> \<lparr>na_attrs = attrs, na_data = area, na_locked = False\<rparr>)"
  show ?case
  proof (cases "offset < length data")
    case True
    define n where "n = min (length data - offset) 1024"
    define area' where "area' = mem_write area offset (mem_read data offset n)"
    have n: "offset + n \<le> length data" "n \<le> 1024" using True by (auto simp: n_def)
    have l: "length (mem_read data offset n) = n" using n by simp
    have a: "length area' = length data" using 1 n by (simp add: area'_def mem_write_def mem_read_def)
    have t: "take (offset + n) area' = take (offset + n) data"
      using 1 n by (simp add: area'_def mem_write_def mem_read_def take_add)
    have "foldl (tpm_nv_command fill) (?m area') (nv_pieces nvindex data (offset + n)) = ?m data"
      by (rule "1.IH" [OF True, of area', folded n_def]) (use "1.prems"(1) a t n in simp_all)
    moreover have "tpm_nv_command fill (?m area) (nv_write_req nvindex (mem_read data offset n) offset) = ?m area'"
      using nv_write_req_effect [of "mem_read data offset n" offset "?m area" nvindex
          "\<lparr>na_attrs = attrs, na_data = area, na_locked = False\<rparr>" fill] l n True "1.prems"
      by (simp add: area'_def)
    ultimately show ?thesis
      using True by (simp only: nv_pieces.simps [of nvindex data offset] n_def [symmetric] if_True foldl.simps)
  next
    case False
    then show ?thesis using 1 by (simp add: nv_pieces.simps)
  qed
qed

text \<open>
  C23. When \<open>swtpm_tpm2_write_nvram\<close> succeeds, the requests it has sent, carried out by a TPM on which the index is not defined yet, define
  exactly this index with the given attributes, with exactly the data in its area, locked if asked for, and leave every other index alone. The data are
  less than 64 KiB.
\<close>

theorem nvram_area_written:
  assumes "fst (swtpm_tpm2_write_nvram env self nvindex nvindexattrs data lock_nvram) = 0" "length data < 2 ^ 16" "m nvindex = None"
  shows "\<exists>reqs. sw_sent (snd (swtpm_tpm2_write_nvram env self nvindex nvindexattrs data lock_nvram)) =
      sw_sent self @ map (Pair False) reqs \<and>
    foldl (tpm_nv_command fill) m reqs =
      m(nvindex \<mapsto> \<lparr>na_attrs = nvindexattrs, na_data = data, na_locked = lock_nvram\<rparr>)"
proof -
  let ?d = "swtpm_tpm2_nvdefinespace env self nvindex nvindexattrs (of_nat (length data))"
  let ?w = "nv_write_loop env nvindex data (snd ?d) 0"
  let ?reqs = "nvdefine_req nvindex nvindexattrs (of_nat (length data)) # nv_pieces nvindex data 0 @
        (if lock_nvram then [nvlock_req nvindex] else [])"
  have d: "?d = simple_cmd env self (nvdefine_req nvindex nvindexattrs (of_nat (length data))) TPM2_DURATION_SHORT"
    by (simp add: swtpm_tpm2_nvdefinespace_def nvdefine_req_def Let_def memconcat_def)
  have l: "swtpm_tpm2_nv_writelock env s nvindex = simple_cmd env s (nvlock_req nvindex) TPM2_DURATION_SHORT" for s
    by (simp add: swtpm_tpm2_nv_writelock_def nvlock_req_def)
  have w: "fst ?d = 0" "fst ?w = 0"
    using assms(1) by (auto simp: swtpm_tpm2_write_nvram_def swtpm_tpm2_nv_write_def split_beta split: if_splits)
  have "sw_sent (snd (swtpm_tpm2_write_nvram env self nvindex nvindexattrs data lock_nvram)) = sw_sent self @ map (Pair False) ?reqs"
    using w nv_write_loop_sent [OF w(2)]
    by (simp add: swtpm_tpm2_write_nvram_def swtpm_tpm2_nv_write_def split_beta l simple_cmd_sent d)
  moreover have "unat (of_nat (length data) :: u16) = length data"
    using assms(2) by (simp add: unsigned_of_nat take_bit_nat_eq_self)
  then have "foldl (tpm_nv_command fill) m ?reqs = m(nvindex \<mapsto> \<lparr>na_attrs = nvindexattrs, na_data = data, na_locked = lock_nvram\<rparr>)"
    using assms(2) nv_pieces_effect [of data "map fill [0..<length data]" 0 fill m nvindex nvindexattrs]
    by (simp add: nvdefine_effect [of m nvindex, OF assms(3)] nvlock_effect tpm_nv_writelock_def)
  ultimately show ?thesis by blast
qed

theorem nvram_area_written_witness:
  "\<exists>reqs. sw_sent (snd (swtpm_tpm2_write_nvram (example_tpm example_iak (EccKey (replicate 32 7) (replicate 32 9)) 0)
        example_swtpm 0x01c00002 0 [1, 2, 3] True)) = map (Pair False) reqs \<and>
    foldl (tpm_nv_command (\<lambda>i. 0xff)) Map.empty reqs = [0x01c00002 \<mapsto> \<lparr>na_attrs = 0, na_data = [1, 2, 3], na_locked = True\<rparr>]"
  using nvram_area_written [OF accepted_write_nvram [OF example_tpm_creates [OF example_iak_facts(1)]],
      of "[1, 2, 3]" Map.empty "0x01c00002" 0 example_swtpm 0 True "\<lambda>i. 0xff"]
  by (simp add: example_swtpm_def swtpm2_new_def swtpm_init_def)

subsection \<open>Reading the banks\<close>

text \<open>
  The names of the banks table are distinct, so names and algorithms correspond.
\<close>

lemma bank_names:
  "get_name_for_bank alg = Some name \<Longrightarrow> get_hashalg_by_bankname name = alg"
  "get_hashalg_by_bankname name = alg \<Longrightarrow> alg \<noteq> 0 \<Longrightarrow> get_name_for_bank alg = Some name"
  by (auto simp: get_name_for_bank_def get_hashalg_by_bankname_def banks_to_names_def split: if_splits)

definition bank_name :: "u16 \<Rightarrow> string" where
  "bank_name alg = (case get_name_for_bank alg of Some name \<Rightarrow> name | None \<Rightarrow> fmt_02lx (unat alg))"

text \<open>The answer of a TPM to TPM2\_GetCapability for its PCR banks, each an algorithm and a selection of PCRs.\<close>

definition encode_bank :: "u16 \<times> bytes \<Rightarrow> bytes" where
  "encode_bank b = htobe16 (fst b) @ [of_nat (length (snd b))] @ snd b"

definition pcrs_answer :: "(u16 \<times> bytes) list \<Rightarrow> bytes" where
  "pcrs_answer banks =
     (let body = concat (map encode_bank banks)
      in htobe16 TPM2_ST_NO_SESSIONS @ htobe32 (of_nat (19 + length body)) @ htobe32 0 @ [0] @ htobe32 TPM2_CAP_PCRS @
           htobe16 0 @ htobe16 (of_nat (length banks)) @ body)"

lemma pcr_banks_loop_encoded:
  assumes "list_all (\<lambda>b. length (snd b) < 256) banks"
  shows "length pre = offset \<Longrightarrow> pcr_banks_loop (pre @ concat (map encode_bank banks)) (length banks) offset =
     Some (map (bank_name \<circ> fst) banks)"
  using assms
proof (induction banks arbitrary: pre offset)
  case (Cons b banks)
  have n: "unat (of_nat (length (snd b)) :: byte) = length (snd b)"
    using Cons.prems by (simp add: unsigned_of_nat take_bit_nat_eq_self)
  let ?r = "pre @ encode_bank b @ concat (map encode_bank banks)"
  have l: "offset + 2 + 1 \<le> length ?r" using Cons.prems by (simp add: encode_bank_def)
  have r: "mem_read ?r offset 2 = htobe16 (fst b)" "?r ! (offset + 2) = of_nat (length (snd b))"
    using Cons.prems by (auto simp: encode_bank_def mem_read_def nth_append)
  have "pcr_banks_loop ((pre @ encode_bank b) @ concat (map encode_bank banks)) (length banks)
      (offset + 2 + 1 + length (snd b)) = Some (map (bank_name \<circ> fst) banks)"
    using Cons.prems by (intro Cons.IH) (simp_all add: encode_bank_def)
  then show ?case using l r n
    by (simp add: bank_name_def Let_def)
qed simp

text \<open>
  The banks of a TPM are read back: when the TPM answers with at most 20 banks in at most 256 bytes,
  \<open>swtpm_tpm2_get_all_pcr_banks\<close> returns their names in order, and names and algorithms of known banks correspond.
\<close>

theorem pcr_banks_read:
  assumes "\<forall>req t. fst (env_exchange env False req t (sw_peer self)) =
      Exchange (Some (length req)) True (Some (pcrs_answer banks))"
    and "length banks \<le> 20" "list_all (\<lambda>b. length (snd b) < 256) banks" "length (pcrs_answer banks) \<le> 256"
  shows "fst (swtpm_tpm2_get_all_pcr_banks env self) = Some (map (bank_name \<circ> fst) banks)"
proof -
  let ?req = "tpm_request TPM2_ST_NO_SESSIONS TPM2_CC_GETCAPABILITY [htobe32 TPM2_CAP_PCRS @ htobe32 0 @ htobe32 64]"
  let ?pre = "htobe16 TPM2_ST_NO_SESSIONS @ htobe32 (of_nat (19 + length (concat (map encode_bank banks)))) @ htobe32 0 @ [0] @
      htobe32 TPM2_CAP_PCRS @ htobe16 0 @ htobe16 (of_nat (length banks))"
  have a: "pcrs_answer banks = ?pre @ concat (map encode_bank banks)" by (simp add: pcrs_answer_def Let_def)
  have n: "unat (of_nat (length banks) :: u16) = length banks"
    using assms(2) by (simp add: unsigned_of_nat take_bit_nat_eq_self)
  have c: "be16toh (mem_read (pcrs_answer banks) 17 2) = of_nat (length banks)" "19 \<le> length (pcrs_answer banks)"
    "be32toh (mem_read (pcrs_answer banks) 6 4) = 0"
    by (simp_all add: pcrs_answer_def mem_read_def Let_def)
  have big: "\<not> 20 < (of_nat (length banks) :: u16)" using assms(2) n by (simp add: word_less_nat_alt)
  have "fst (transfer env self ?req False (Some 256) TPM2_DURATION_MEDIUM) = (0, take 256 (take 4096 (pcrs_answer banks)))"
    by (rule transfer_ok(1)) (use assms c in simp_all)
  then have "fst (transfer env self ?req False (Some 256) TPM2_DURATION_MEDIUM) = (0, pcrs_answer banks)"
    using assms(4) by simp
  moreover have "pcr_banks_loop (pcrs_answer banks) (length banks) 19 = Some (map (bank_name \<circ> fst) banks)"
    unfolding a by (rule pcr_banks_loop_encoded) (use assms(3) in simp_all)
  ultimately show ?thesis using c n big
    by (simp add: swtpm_tpm2_get_all_pcr_banks_def Let_def split_beta)
qed

definition example_banks :: "(u16 \<times> bytes) list" where
  "example_banks = [(TPM2_ALG_SHA1, [0, 0, 0]), (TPM2_ALG_SHA256, [0xff, 0xff, 0xff]), (0x77, [0, 0, 0])]"

theorem pcr_banks_read_witness:
  "fst (swtpm_tpm2_get_all_pcr_banks
      ((example_tpm example_iak (RsaKey []) 0)\<lparr>env_exchange := \<lambda>c req t p.
         (Exchange (Some (length req)) True (Some (pcrs_answer example_banks)), p)\<rparr>) example_swtpm) =
     Some [''sha1'', ''sha256'', ''77'']"
proof -
  have "map (bank_name \<circ> fst) example_banks = [''sha1'', ''sha256'', ''77'']" by code_simp
  moreover have "length (pcrs_answer example_banks) \<le> 256"
    by (simp add: pcrs_answer_def example_banks_def encode_bank_def Let_def)
  ultimately show ?thesis
    using pcr_banks_read [of "(example_tpm example_iak (RsaKey []) 0)\<lparr>env_exchange := \<lambda>c req t p.
         (Exchange (Some (length req)) True (Some (pcrs_answer example_banks)), p)\<rparr>" example_swtpm example_banks]
    by (simp add: example_banks_def)
qed

subsection \<open>Activating banks\<close>

text \<open>
  The reference: the banks to activate are the chosen ones the TPM has and the program knows, each once, in the order
  of the choice; the other banks of the TPM that were not chosen are deactivated.
\<close>

fun firsts :: "string list \<Rightarrow> string list \<Rightarrow> string list" where
  "firsts seen [] = []"
| "firsts seen (b # bs) = (if b \<in> set seen then firsts seen bs else b # firsts (b # seen) bs)"

definition usable :: "string list \<Rightarrow> string \<Rightarrow> bool" where
  "usable all b \<longleftrightarrow> b \<in> set all \<and> get_hashalg_by_bankname b \<noteq> 0"

definition on_select :: "string \<Rightarrow> bytes" where
  "on_select b = htobe16 (get_hashalg_by_bankname b) @ [3, 0xff, 0xff, 0xff]"

definition off_select :: "string \<Rightarrow> bytes" where
  "off_select b = htobe16 (get_hashalg_by_bankname b) @ [3, 0, 0, 0]"

definition allocate_spec ::
  "'p setup_env \<Rightarrow> 'p swtpm \<Rightarrow> string list \<Rightarrow> string list \<Rightarrow> (int \<times> string list option) \<times> 'p swtpm"
where
  "allocate_spec env self chosen all =
     (let act = firsts [] (filter (usable all) chosen); others = filter (\<lambda>b. b \<notin> set chosen) all;
          n = length act + length others;
          req = tpm_request TPM2_ST_SESSIONS TPM2_CC_PCR_ALLOCATE
            [htobe32 TPM2_RH_PLATFORM @ authblock_len, tpm2_authblock, htobe32 (of_nat n),
             concat (map on_select act) @ concat (map off_select others)]
      in if act = [] \<or> n > 10 then ((1, None), self)
         else case simple_cmd env self req TPM2_DURATION_SHORT of (ret, self) \<Rightarrow>
           ((if ret \<noteq> 0 then 1 else 0, if ret \<noteq> 0 then None else Some act), self))"

lemma bank_index_set: "b \<in> set all \<longleftrightarrow> bank_index all b < length all"
  by (induction all) auto

lemma bank_index_nth: "bank_index all b < length all \<Longrightarrow> all ! bank_index all b = b"
  by (induction all) auto

lemma bank_index_inj: "a \<in> set all \<Longrightarrow> b \<in> set all \<Longrightarrow> bank_index all a = bank_index all b \<longleftrightarrow> a = b"
  using bank_index_nth bank_index_set by metis

text \<open>A bit of the mask stands for each bank already taken.\<close>

definition marks :: "string list \<Rightarrow> string list \<Rightarrow> u64 \<Rightarrow> bool" where
  "marks all taken m \<longleftrightarrow> (\<forall>b\<in>set all. bit m (bank_index all b) \<longleftrightarrow> b \<in> set taken)"

lemma mask_test:
  assumes "j < 64"
  shows "(m :: u64) AND push_bit j 1 = 0 \<longleftrightarrow> \<not> bit m j"
proof
  assume "m AND push_bit j 1 = 0"
  then have "\<not> bit (m AND push_bit j 1) j" by simp
  then show "\<not> bit m j" using assms by (simp add: bit_simps)
next
  assume "\<not> bit m j"
  then show "m AND push_bit j 1 = 0" by (intro bit_word_eqI) (auto simp: bit_simps)
qed

lemma mask_set: "j < 64 \<Longrightarrow> bit ((m :: u64) OR push_bit j 1) i \<longleftrightarrow> bit m i \<or> i = j"
  by (auto simp: bit_simps)

lemma marks_add:
  "marks all taken m \<Longrightarrow> b \<in> set all \<Longrightarrow> length all \<le> 64 \<Longrightarrow>
   marks all (b # taken) (m OR push_bit (bank_index all b) 1)"
  unfolding marks_def
proof
  fix a assume m: "\<forall>b\<in>set all. bit m (bank_index all b) \<longleftrightarrow> b \<in> set taken" and b: "b \<in> set all" "length all \<le> 64"
    and a: "a \<in> set all"
  have "bank_index all b < 64" using b bank_index_set [of b all] by simp
  then have "bit (m OR push_bit (bank_index all b) 1) (bank_index all a) \<longleftrightarrow> bit m (bank_index all a) \<or> bank_index all a = bank_index all b"
    by (rule mask_set)
  then show "bit (m OR push_bit (bank_index all b) 1) (bank_index all a) \<longleftrightarrow> a \<in> set (b # taken)"
    using m a bank_index_inj [OF a b(1)] by auto
qed

lemma activate_loop_spec:
  assumes "length all \<le> 64"
  shows "marks all taken m \<Longrightarrow> length sel + 6 * length (firsts taken (filter (usable all) banks)) \<le> 60 \<Longrightarrow>
    activate_loop all banks m (act, sel) =
      Inr (act @ firsts taken (filter (usable all) banks), sel @ concat (map on_select (firsts taken (filter (usable all) banks))))"
proof (induction banks arbitrary: m taken act sel)
  case (Cons b banks)
  let ?j = "bank_index all b"
  show ?case
  proof (cases "usable all b \<and> b \<notin> set taken")
    case True
    then have b: "b \<in> set all" "?j < length all" "get_hashalg_by_bankname b \<noteq> 0" by (auto simp: usable_def bank_index_set)
    then have t: "m AND push_bit ?j 1 = 0"
      using Cons.prems(1) True assms by (subst mask_test) (auto simp: marks_def)
    have room: "concat_buf (60 - length sel) [htobe16 (get_hashalg_by_bankname b) @ [3, 0xff, 0xff, 0xff]] = Some (on_select b)"
      using Cons.prems(2) True by (simp add: concat_buf_def on_select_def)
    have "activate_loop all banks (m OR push_bit ?j 1) (act @ [b], sel @ on_select b) =
        Inr ((act @ [b]) @ firsts (b # taken) (filter (usable all) banks),
             (sel @ on_select b) @ concat (map on_select (firsts (b # taken) (filter (usable all) banks))))"
      using Cons.prems True
      by (intro Cons.IH marks_add [OF Cons.prems(1) b(1) assms]) (simp add: on_select_def)
    then show ?thesis using True b t room
      by (simp add: Let_def del: push_bit_of_1)
  next
    case False
    have skip: "\<not> (?j < length all \<and> get_hashalg_by_bankname b \<noteq> 0) \<or> m AND push_bit ?j 1 \<noteq> 0"
    proof (cases "usable all b")
      case True
      with False have "b \<in> set taken" "b \<in> set all" by (auto simp: usable_def)
      then show ?thesis using Cons.prems(1) assms mask_test [of ?j m] bank_index_set by (auto simp: marks_def)
    qed (simp add: usable_def bank_index_set)
    have "firsts taken (filter (usable all) (b # banks)) = firsts taken (filter (usable all) banks)"
      using False by auto
    then show ?thesis using skip Cons by (auto simp: Let_def)
  qed
qed simp

lemma deactivate_loop_spec:
  "length sel \<le> 60 \<Longrightarrow> deactivate_loop chosen banks (n, sel) =
     (let others = filter (\<lambda>b. b \<notin> set chosen) banks
      in if length sel + 6 * length others \<le> 60 then Some (n + length others, sel @ concat (map off_select others)) else None)"
  by (induction chosen banks "(n, sel)" arbitrary: n sel rule: deactivate_loop.induct)
    (auto simp: Let_def concat_buf_def off_select_def)

lemma firsts_distinct: "distinct (firsts seen bs)" "set (firsts seen bs) \<subseteq> set bs - set seen"
  by (induction seen bs rule: firsts.induct) auto

lemma known_banks: "get_hashalg_by_bankname b \<noteq> 0 \<Longrightarrow> b \<in> snd ` set banks_to_names"
  by (auto simp: get_hashalg_by_bankname_def find_Some_iff split: option.splits intro!: rev_image_eqI nth_mem)

lemma few_activated: "length (firsts [] (filter (usable all) chosen)) \<le> 8"
proof -
  let ?f = "firsts [] (filter (usable all) chosen)"
  have "set ?f \<subseteq> snd ` set banks_to_names"
    using firsts_distinct(2) [of "[]" "filter (usable all) chosen"] known_banks by (auto simp: usable_def)
  then have "card (set ?f) \<le> card (snd ` set banks_to_names)" by (intro card_mono) simp_all
  also have "\<dots> \<le> length banks_to_names" by (metis card_length length_map set_map)
  finally show ?thesis using distinct_card [OF firsts_distinct(1), of "[]"] by (simp add: banks_to_names_def)
qed

lemma length_selects:
  "length (concat (map on_select bs)) = 6 * length bs" "length (concat (map off_select bs)) = 6 * length bs"
  by (induction bs) (simp_all add: on_select_def off_select_def)

text \<open>
  C22. The loops over indices, masks and the fixed buffer do what the reference says, for the up to 20 banks a TPM can have here:
  every usable chosen bank is activated once, every bank not chosen is deactivated, and more than ten banks are an error.
\<close>

theorem pcr_banks_allocated:
  assumes "length all_pcr_banks \<le> 20"
  shows "swtpm_tpm2_set_active_pcr_banks env self pcr_banks all_pcr_banks = allocate_spec env self pcr_banks all_pcr_banks"
proof -
  define act where "act = firsts [] (filter (usable all_pcr_banks) pcr_banks)"
  define others where "others = filter (\<lambda>b. b \<notin> set pcr_banks) all_pcr_banks"
  have a: "length act \<le> 8" unfolding act_def by (rule few_activated)
  have "activate_loop all_pcr_banks pcr_banks 0 ([], []) = Inr (act, concat (map on_select act))"
    using activate_loop_spec [of all_pcr_banks "[]" 0 "[]" pcr_banks "[]"] assms a
    by (simp add: marks_def act_def)
  moreover have "deactivate_loop pcr_banks all_pcr_banks (length act, concat (map on_select act)) =
      (if length act + length others \<le> 10
       then Some (length act + length others, concat (map on_select act) @ concat (map off_select others)) else None)"
  proof -
    have "length (concat (map on_select act)) \<le> 60" using a by (simp only: length_selects)
    then show ?thesis using deactivate_loop_spec [of "concat (map on_select act)" pcr_banks all_pcr_banks "length act"]
      by (simp only: length_selects others_def Let_def) auto
  qed
  ultimately show ?thesis
    unfolding swtpm_tpm2_set_active_pcr_banks_def allocate_spec_def act_def [symmetric] others_def [symmetric] Let_def
    by (auto split: prod.split)
qed

theorem pcr_banks_allocated_witness:
  "fst (swtpm_tpm2_set_active_pcr_banks (example_tpm example_iak (RsaKey []) 0) example_swtpm
     [''sha256'', ''md5'', ''sha256''] [''sha1'', ''sha256'']) = (0, Some [''sha256''])"
proof -
  let ?env = "example_tpm example_iak (RsaKey []) 0"
  have c: "fst (simple_cmd ?env example_swtpm (tpm_request tag TPM2_CC_PCR_ALLOCATE parts) t) = 0" for tag parts t
    by (rule accepts_simple_cmd) (simp add: accepts_def example_tpm_def tpm_request_def mem_read_def Let_def)
  have u: "firsts [] (filter (usable [''sha1'', ''sha256'']) [''sha256'', ''md5'', ''sha256'']) = [''sha256'']"
    "filter (\<lambda>b. b \<notin> set [''sha256'', ''md5'', ''sha256'']) [''sha1'', ''sha256''] = [''sha1'']"
    by code_simp+
  show ?thesis
    using pcr_banks_allocated [of "[''sha1'', ''sha256'']" ?env example_swtpm "[''sha256'', ''md5'', ''sha256'']"] c
    unfolding allocate_spec_def u Let_def by (simp add: split_beta)
qed

text \<open>
  A bank without a name is deactivated by the algorithm identifier 0: a TPM with such a bank that was not chosen gets a request for
  an algorithm it does not have.
\<close>

lemma unknown_bank_selects_zero: "get_name_for_bank alg = None \<Longrightarrow> off_select (bank_name alg) = [0, 0, 3, 0, 0, 0]"
proof -
  assume a: "get_name_for_bank alg = None"
  have "hd (fmt_02lx n) \<noteq> CHR ''s''" for n
  proof -
    have d: "k < 16 \<Longrightarrow> ''0123456789abcdef'' ! k \<noteq> CHR ''s''" for k :: nat
      using nth_mem [of k "''0123456789abcdef''"] by auto
    have "hd (hex_digits n) \<noteq> CHR ''s''" for n
    proof (induction n rule: hex_digits.induct)
      case (1 n)
      have "hex_digits k \<noteq> []" for k by (simp add: hex_digits.simps [of k])
      then show ?case using 1 d by (subst hex_digits.simps) auto
    qed
    then show ?thesis by (simp add: fmt_02lx_def)
  qed
  then have "get_hashalg_by_bankname (fmt_02lx n) = 0" for n
    by (auto simp: get_hashalg_by_bankname_def banks_to_names_def) (metis list.sel(1))+
  moreover have "htobe16 0 = [0, 0]" by code_simp
  ultimately show ?thesis using a by (simp add: off_select_def bank_name_def)
qed

end
