(* ===== verification/SetupTpm12.thy ===== *)
theory SetupTpm12
  imports SetupTpm2
begin

section \<open>swtpm\_setup: TPM 1.2 commands\<close>

text \<open>
  The TPM 1.2 part of src/src/swtpm_setup/swtpm.c. The cryptographic functions of OpenSSL that taking ownership
  uses are the record \<open>tpm12_crypto\<close>: making a public key object of a modulus, encrypting with OAEP (the number tells
  the two calls apart), SHA1 and HMAC.
\<close>

abbreviation TPM_TAG_RQU_COMMAND :: u16 where "TPM_TAG_RQU_COMMAND \<equiv> 0x00c1"
abbreviation TPM_TAG_RQU_AUTH1_COMMAND :: u16 where "TPM_TAG_RQU_AUTH1_COMMAND \<equiv> 0x00c2"
abbreviation TPM_ORD_OIAP :: u32 where "TPM_ORD_OIAP \<equiv> 0x0000000a"
abbreviation TPM_ORD_TAKE_OWNERSHIP :: u32 where "TPM_ORD_TAKE_OWNERSHIP \<equiv> 0x0000000d"
abbreviation TPM_ORD_PHYSICAL_ENABLE :: u32 where "TPM_ORD_PHYSICAL_ENABLE \<equiv> 0x0000006f"
abbreviation TPM_ORD_PHYSICAL_SET_DEACTIVATED :: u32 where "TPM_ORD_PHYSICAL_SET_DEACTIVATED \<equiv> 0x00000072"
abbreviation TPM_ORD_NV_DEFINE_SPACE :: u32 where "TPM_ORD_NV_DEFINE_SPACE \<equiv> 0x000000cc"
abbreviation TPM_ORD_NV_WRITE_VALUE :: u32 where "TPM_ORD_NV_WRITE_VALUE \<equiv> 0x000000cd"
abbreviation TSC_ORD_PHYSICAL_PRESENCE :: u32 where "TSC_ORD_PHYSICAL_PRESENCE \<equiv> 0x4000000a"
abbreviation TPM_PHYSICAL_PRESENCE_CMD_ENABLE :: u16 where "TPM_PHYSICAL_PRESENCE_CMD_ENABLE \<equiv> 0x0020"
abbreviation TPM_PHYSICAL_PRESENCE_PRESENT :: u16 where "TPM_PHYSICAL_PRESENCE_PRESENT \<equiv> 0x0008"
abbreviation TPM_NV_INDEX_D_BIT :: u32 where "TPM_NV_INDEX_D_BIT \<equiv> 0x10000000"
abbreviation TPM_NV_INDEX_EKCERT :: u32 where "TPM_NV_INDEX_EKCERT \<equiv> 0xf000"
abbreviation TPM_NV_INDEX_PLATFORMCERT :: u32 where "TPM_NV_INDEX_PLATFORMCERT \<equiv> 0xf002"
abbreviation TPM_NV_INDEX_LOCK :: u32 where "TPM_NV_INDEX_LOCK \<equiv> 0xffffffff"
abbreviation TPM_NV_PER_OWNERREAD :: u32 where "TPM_NV_PER_OWNERREAD \<equiv> 0x00020000"
abbreviation TPM_NV_PER_OWNERWRITE :: u32 where "TPM_NV_PER_OWNERWRITE \<equiv> 0x00000002"
abbreviation TPM_DURATION_SHORT :: int where "TPM_DURATION_SHORT \<equiv> 2000"
abbreviation TPM_DURATION_MEDIUM :: int where "TPM_DURATION_MEDIUM \<equiv> 7500"
abbreviation TPM_DURATION_LONG :: int where "TPM_DURATION_LONG \<equiv> 15000"

subsection \<open>Initialization\<close>

definition swtpm_tpm12_tsc_physicalpresence :: "'p setup_env \<Rightarrow> 'p swtpm \<Rightarrow> u16 \<Rightarrow> int \<times> 'p swtpm" where
  "swtpm_tpm12_tsc_physicalpresence env self physicalpresence =
     simple_cmd env self (tpm_request TPM_TAG_RQU_COMMAND TSC_ORD_PHYSICAL_PRESENCE [htobe16 physicalpresence]) TPM_DURATION_MEDIUM"

definition swtpm_tpm12_physical_enable :: "'p setup_env \<Rightarrow> 'p swtpm \<Rightarrow> int \<times> 'p swtpm" where
  "swtpm_tpm12_physical_enable env self =
     simple_cmd env self (tpm_request TPM_TAG_RQU_COMMAND TPM_ORD_PHYSICAL_ENABLE []) TPM_DURATION_SHORT"

definition swtpm_tpm12_physical_set_deactivated :: "'p setup_env \<Rightarrow> 'p swtpm \<Rightarrow> byte \<Rightarrow> int \<times> 'p swtpm" where
  "swtpm_tpm12_physical_set_deactivated env self state =
     simple_cmd env self (tpm_request TPM_TAG_RQU_COMMAND TPM_ORD_PHYSICAL_SET_DEACTIVATED [[state]]) TPM_DURATION_SHORT"

definition swtpm_tpm12_run_swtpm_bios :: "'p setup_env \<Rightarrow> 'p swtpm \<Rightarrow> int \<times> 'p swtpm" where
  "swtpm_tpm12_run_swtpm_bios env self =
     (case swtpm_tpm12_tsc_physicalpresence env self TPM_PHYSICAL_PRESENCE_CMD_ENABLE of (ret, self) \<Rightarrow>
        if ret \<noteq> 0 then (1, self)
        else case swtpm_tpm12_tsc_physicalpresence env self TPM_PHYSICAL_PRESENCE_PRESENT of (ret, self) \<Rightarrow>
          if ret \<noteq> 0 then (1, self)
          else case swtpm_tpm12_physical_enable env self of (ret, self) \<Rightarrow>
            if ret \<noteq> 0 then (1, self)
            else case swtpm_tpm12_physical_set_deactivated env self 0 of (ret, self) \<Rightarrow>
              (if ret \<noteq> 0 then 1 else 0, self))"

subsection \<open>The endorsement key\<close>

text \<open>The request is a constant of the code, with its size field written out.\<close>

definition create_ek_request :: bytes where
  "create_ek_request =
    [0x00, 0xc1, 0x00, 0x00, 0x00, 0x36, 0x00, 0x00, 0x00, 0x78, 0x38, 0xf0, 0x30, 0x81, 0x07, 0x2b,
     0x0c, 0xa9, 0x10, 0x98, 0x08, 0xc0, 0x4b, 0x05, 0x11, 0xc9, 0x50, 0x23, 0x52, 0xc4, 0x00, 0x00,
     0x00, 0x01, 0x00, 0x03, 0x00, 0x02, 0x00, 0x00, 0x00, 0x0c, 0x00, 0x00, 0x08, 0x00, 0x00, 0x00,
     0x00, 0x02, 0x00, 0x00, 0x00, 0x00]"

definition swtpm_tpm12_create_endorsement_keypair :: "'p setup_env \<Rightarrow> 'p swtpm \<Rightarrow> bytes option \<times> 'p swtpm" where
  "swtpm_tpm12_create_endorsement_keypair env self =
     (case transfer env self create_ek_request False (Some 512) TPM_DURATION_LONG of ((ret, tpmresp), self) \<Rightarrow>
        (if ret \<noteq> 0 then None
         else if length tpmresp < 34 + 4 then None
         else if be32toh (mem_read tpmresp 34 4) \<noteq> 256 then None
         else if length tpmresp < 38 + 256 then None
         else Some (mem_read tpmresp 38 256),
         self))"

subsection \<open>Ownership\<close>

abbreviation SHA_DIGEST_LENGTH :: nat where "SHA_DIGEST_LENGTH \<equiv> 20"

definition swtpm_tpm12_oiap :: "'p setup_env \<Rightarrow> 'p swtpm \<Rightarrow> (u32 \<times> bytes) option \<times> 'p swtpm" where
  "swtpm_tpm12_oiap env self =
     (case transfer env self (tpm_request TPM_TAG_RQU_COMMAND TPM_ORD_OIAP []) False (Some 64) TPM_DURATION_SHORT of
        ((ret, tpmresp), self) \<Rightarrow>
          (if ret \<noteq> 0 then None
           else if length tpmresp < 10 + 4 \<or> length tpmresp < 14 + SHA_DIGEST_LENGTH then None
           else Some (be32toh (mem_read tpmresp 10 4), mem_read tpmresp 14 SHA_DIGEST_LENGTH),
           self))"

record tpm12_crypto =
  rsa_public_ok :: "bytes \<Rightarrow> bool"
  rsa_encrypt :: "bytes \<Rightarrow> nat \<Rightarrow> bytes \<Rightarrow> bytes option"
  sha1_digest :: "bytes \<Rightarrow> bytes"
  hmac_sha1 :: "bytes \<Rightarrow> bytes \<Rightarrow> bytes"

definition srk_key12 :: bytes where
  "srk_key12 =
     (let tpm_rsa_key_parms = memconcat [htobe32 2048 @ htobe32 2 @ htobe32 0];
          tpm_key_parms = memconcat [htobe32 1 @ htobe16 3 @ htobe16 1 @ htobe32 (of_nat (length tpm_rsa_key_parms)), tpm_rsa_key_parms]
      in memconcat [htobe16 0x0028 @ htobe16 0 @ htobe16 0x0011 @ htobe32 0 @ [1], tpm_key_parms, htobe32 0 @ htobe32 0 @ htobe32 0])"

definition nonce_odd :: bytes where
  "nonce_odd = [1, 2, 3, 4, 5, 6] @ replicate 14 0"

text \<open>
  The request is put together in a buffer of 1024 bytes in two steps around the computation of the owner's authorization; when a
  step does not fit, the function ends with \<open>ret\<close> as \<open>swtpm_tpm12_oiap\<close> left it, that is with 0.
\<close>

definition swtpm_tpm12_take_ownership ::
  "tpm12_crypto \<Rightarrow> 'p setup_env \<Rightarrow> 'p swtpm \<Rightarrow> bytes \<Rightarrow> bytes \<Rightarrow> bytes \<Rightarrow> int \<times> 'p swtpm"
where
  "swtpm_tpm12_take_ownership cr env self ownerpass_digest srkpass_digest pubek =
     (if \<not> rsa_public_ok cr pubek then (1, self)
      else case (rsa_encrypt cr pubek 0 ownerpass_digest, rsa_encrypt cr pubek 1 srkpass_digest) of
        (Some enc_owner_auth, Some enc_srk_auth) \<Rightarrow>
          (case swtpm_tpm12_oiap env self of
             (None, self) \<Rightarrow> (1, self)
           | (Some (auth_handle, nonce_even), self) \<Rightarrow>
               (case concat_buf 1024
                       [htobe16 TPM_TAG_RQU_AUTH1_COMMAND @ htobe32 0 @ htobe32 TPM_ORD_TAKE_OWNERSHIP,
                        htobe16 0x0005 @ htobe32 (of_nat (length enc_owner_auth)), enc_owner_auth,
                        htobe32 (of_nat (length enc_srk_auth)), enc_srk_auth, srk_key12] of
                  None \<Rightarrow> (0, self)
                | Some req \<Rightarrow>
                    (let in_param_digest = sha1_digest cr (drop 6 req);
                         in_auth_setup_params = memconcat [nonce_even, nonce_odd, [0]];
                         owner_auth = hmac_sha1 cr ownerpass_digest (memconcat [in_param_digest, in_auth_setup_params])
                     in case concat_buf (1024 - length req) [htobe32 auth_handle, nonce_odd, [0], owner_auth] of
                          None \<Rightarrow> (0, self)
                        | Some tail \<Rightarrow>
                            (let req = req @ tail
                             in simple_cmd env self (mem_write req 2 (htobe32 (of_nat (length req)))) TPM_DURATION_LONG))))
      | _ \<Rightarrow> (1, self))"

subsection \<open>NVRAM areas\<close>

definition swtpm_tpm12_nv_define_space :: "'p setup_env \<Rightarrow> 'p swtpm \<Rightarrow> u32 \<Rightarrow> u32 \<Rightarrow> nat \<Rightarrow> int \<times> 'p swtpm" where
  "swtpm_tpm12_nv_define_space env self nvindex nvindexattrs area_size =
     (let zeroes = replicate SHA_DIGEST_LENGTH 0;
          pcr_info_short = memconcat [htobe16 3 @ [0, 0, 0, 0x1f], zeroes];
          nv_data_public = memconcat [htobe16 0x0018 @ htobe32 nvindex, pcr_info_short, pcr_info_short,
            htobe16 0x0017 @ htobe32 nvindexattrs @ [0, 0, 0] @ htobe32 (of_nat area_size)]
      in simple_cmd env self (tpm_request TPM_TAG_RQU_COMMAND TPM_ORD_NV_DEFINE_SPACE [nv_data_public, zeroes]) TPM_DURATION_SHORT)"

definition swtpm_tpm12_nv_write_value :: "'p setup_env \<Rightarrow> 'p swtpm \<Rightarrow> u32 \<Rightarrow> bytes \<Rightarrow> int \<times> 'p swtpm" where
  "swtpm_tpm12_nv_write_value env self nvindex data =
     simple_cmd env self (tpm_request TPM_TAG_RQU_COMMAND TPM_ORD_NV_WRITE_VALUE
       [htobe32 nvindex @ htobe32 0 @ htobe32 (of_nat (length data)), data]) TPM_DURATION_SHORT"

definition tpm12_write_cert :: "'p setup_env \<Rightarrow> 'p swtpm \<Rightarrow> u32 \<Rightarrow> bytes \<Rightarrow> int \<times> 'p swtpm" where
  "tpm12_write_cert env self nvindex data =
     (case swtpm_tpm12_nv_define_space env self nvindex (TPM_NV_PER_OWNERREAD OR TPM_NV_PER_OWNERWRITE) (length data) of
        (ret, self) \<Rightarrow>
          if ret \<noteq> 0 then (1, self)
          else case swtpm_tpm12_nv_write_value env self nvindex data of (ret, self) \<Rightarrow> (if ret \<noteq> 0 then 1 else 0, self))"

definition swtpm_tpm12_write_ek_cert_nvram :: "'p setup_env \<Rightarrow> 'p swtpm \<Rightarrow> bytes \<Rightarrow> int \<times> 'p swtpm" where
  "swtpm_tpm12_write_ek_cert_nvram env self data =
     tpm12_write_cert env self (TPM_NV_INDEX_EKCERT OR TPM_NV_INDEX_D_BIT) data"

definition swtpm_tpm12_write_platform_cert_nvram :: "'p setup_env \<Rightarrow> 'p swtpm \<Rightarrow> bytes \<Rightarrow> int \<times> 'p swtpm" where
  "swtpm_tpm12_write_platform_cert_nvram env self data =
     tpm12_write_cert env self (TPM_NV_INDEX_PLATFORMCERT OR TPM_NV_INDEX_D_BIT) data"

definition swtpm_tpm12_nv_lock :: "'p setup_env \<Rightarrow> 'p swtpm \<Rightarrow> int \<times> 'p swtpm" where
  "swtpm_tpm12_nv_lock env self = swtpm_tpm12_nv_define_space env self TPM_NV_INDEX_LOCK 0 0"

subsection \<open>Well formed requests\<close>

lemma raw_request_ok:
  assumes "10 \<le> length req" "length req \<le> 4096" "be32toh (mem_read req 2 4) = of_nat (length req)"
  shows "request_ok (False, req)"
  using assms by (auto simp: request_ok.simps SWTPM_IO_Read_def Let_def)

lemma concat_from_Some: "concat_from buflen out parts = Some res \<Longrightarrow> res = out @ concat parts \<and> (parts = [] \<or> length res \<le> buflen)"
  by (induction buflen out parts rule: concat_from.induct) (auto split: if_splits)

lemma concat_buf_Some: "concat_buf buflen parts = Some res \<Longrightarrow> parts \<noteq> [] \<Longrightarrow> res = concat parts \<and> length res \<le> buflen"
  using concat_from_Some by (fastforce simp: concat_buf_def)

lemma tpm12_small_talks:
  "talks self (snd (swtpm_tpm12_tsc_physicalpresence env self pp))"
  "talks self (snd (swtpm_tpm12_physical_enable env self))"
  "talks self (snd (swtpm_tpm12_physical_set_deactivated env self st))"
  "talks self (snd (swtpm_tpm12_nv_define_space env self nvindex attrs n))"
  by (simp_all add: swtpm_tpm12_tsc_physicalpresence_def swtpm_tpm12_physical_enable_def swtpm_tpm12_physical_set_deactivated_def
      swtpm_tpm12_nv_define_space_def memconcat_def Let_def simple_cmd_talks)

lemmas tpm12_small_talks_after [talking] = talks_trans [OF _ tpm12_small_talks(1)] talks_trans [OF _ tpm12_small_talks(2)]
  talks_trans [OF _ tpm12_small_talks(3)] talks_trans [OF _ tpm12_small_talks(4)]

lemma run_swtpm_bios_talks [talking]: "talks a self \<Longrightarrow> talks a (snd (swtpm_tpm12_run_swtpm_bios env self))"
  unfolding swtpm_tpm12_run_swtpm_bios_def by (intro talking)

lemma create_ek_request_ok: "request_ok (False, create_ek_request)"
proof (rule raw_request_ok)
  show "be32toh (mem_read create_ek_request 2 4) = of_nat (length create_ek_request)" by code_simp
qed (simp_all add: create_ek_request_def)

lemma create_endorsement_keypair_talks [talking]:
  "talks a self \<Longrightarrow> talks a (snd (swtpm_tpm12_create_endorsement_keypair env self))"
  unfolding swtpm_tpm12_create_endorsement_keypair_def
  by (intro talks_transfer create_ek_request_ok talks_pair) simp_all

lemma oiap_talks [talking]: "talks a self \<Longrightarrow> talks a (snd (swtpm_tpm12_oiap env self))"
  unfolding swtpm_tpm12_oiap_def by (intro talks_transfer tpm_request_ok talks_pair) simp_all

lemma simple_cmd_ok_talks: "request_ok (False, req) \<Longrightarrow> talks self (snd (simple_cmd env self req t))"
  using transfer_talks [of False req self env None t] by (auto simp: simple_cmd_def split: prod.split)

lemma take_ownership_request_ok:
  assumes "concat_buf 1024 (hdr # parts) = Some req" "length hdr = 10" "concat_buf (1024 - length req) (h # hs) = Some tail"
  shows "request_ok (False, mem_write (req @ tail) 2 (htobe32 (of_nat (length (req @ tail)))))"
proof -
  have l: "10 \<le> length req" "length req \<le> 1024" "length tail \<le> 1024 - length req"
    using concat_buf_Some [OF assms(1)] concat_buf_Some [OF assms(3)] assms(2) by auto
  show ?thesis
    by (rule raw_request_ok) (use l in \<open>simp_all add: mem_write_def mem_read_def\<close>)
qed

lemma take_ownership_talks [talking]:
  assumes "talks a self"
  shows "talks a (snd (swtpm_tpm12_take_ownership cr env self owner srk pubek))"
proof -
  have c: "talks a s \<Longrightarrow> request_ok (False, req) \<Longrightarrow> talks a (snd (simple_cmd env s req t))" for s req t
    by (rule talks_trans [OF _ simple_cmd_ok_talks])
  show ?thesis unfolding swtpm_tpm12_take_ownership_def Let_def
    using oiap_talks [OF assms, of env] assms
    by (auto split: option.split prod.split intro!: c take_ownership_request_ok [unfolded length_append of_nat_add])
qed

lemma write_cert12_talks [talking]:
  assumes "talks a self" "length data \<le> 4074"
  shows "talks a (snd (swtpm_tpm12_write_ek_cert_nvram env self data))"
    "talks a (snd (swtpm_tpm12_write_platform_cert_nvram env self data))"
proof -
  have w: "talks b (snd (swtpm_tpm12_nv_write_value env s i data))" if "talks b s" for b s i
    unfolding swtpm_tpm12_nv_write_value_def
    by (rule talks_trans [OF that simple_cmd_talks]) (use assms(2) in simp)
  have "talks a (snd (tpm12_write_cert env self i data))" for i
    unfolding tpm12_write_cert_def by (intro talking w assms)
  then show "talks a (snd (swtpm_tpm12_write_ek_cert_nvram env self data))"
    "talks a (snd (swtpm_tpm12_write_platform_cert_nvram env self data))"
    by (simp_all add: swtpm_tpm12_write_ek_cert_nvram_def swtpm_tpm12_write_platform_cert_nvram_def)
qed

lemma nv_lock_talks [talking]: "talks a self \<Longrightarrow> talks a (snd (swtpm_tpm12_nv_lock env self))"
  unfolding swtpm_tpm12_nv_lock_def by (intro talking)

text \<open>
  With the 256 byte key of TPM 1.2 the request for the ownership fits; a longer one is not sent, and success is returned.
\<close>

lemma take_ownership_too_long:
  assumes "rsa_public_ok cr pubek" "rsa_encrypt cr pubek 0 owner = Some c1" "rsa_encrypt cr pubek 1 srk = Some c2"
    and "fst (swtpm_tpm12_oiap env self) = Some (h, nonce)" "length c1 + length c2 > 957"
  shows "swtpm_tpm12_take_ownership cr env self owner srk pubek = (0, snd (swtpm_tpm12_oiap env self))"
  using assms
  by (simp add: swtpm_tpm12_take_ownership_def split_beta concat_buf_def srk_key12_def memconcat_def Let_def)

end
