(* ===== verification/SetupConfig.thy ===== *)
theory SetupConfig
  imports Common
begin

section \<open>swtpm\_setup: configuration files\<close>

text \<open>
  The configuration file functions of src/src/swtpm_setup/swtpm_setup_utils.c and the string functions of
  src/src/utils/swtpm_utils.c they use, with the defaults that swtpm_setup.c takes from the file. A file is a string without zero
  bytes; \<open>getenv\<close> is the environment.
\<close>

abbreviation NL :: char where "NL \<equiv> CHR 0x0A"

subsection \<open>Strings\<close>

text \<open>\<open>strstr\<close>: what is before the first occurrence of a pattern and what is behind it.\<close>

fun strstr :: "string \<Rightarrow> string \<Rightarrow> (string \<times> string) option" where
  "strstr pat [] = (if pat = [] then Some ([], []) else None)"
| "strstr pat (c # cs) =
     (if take (length pat) (c # cs) = pat then Some ([], drop (length pat) (c # cs))
      else map_option (apfst (Cons c)) (strstr pat cs))"

lemma strstr_split: "strstr pat s = Some (pre, post) \<Longrightarrow> s = pre @ pat @ post"
proof (induction pat s arbitrary: pre rule: strstr.induct)
  case (2 pat c cs)
  show ?case
  proof (cases "take (length pat) (c # cs) = pat")
    case True
    then show ?thesis using 2 append_take_drop_id [of "length pat" "c # cs"] by auto
  next
    case False
    then show ?thesis using 2 by auto
  qed
qed (auto split: if_splits)

function resolve_string :: "(string \<Rightarrow> string option) \<Rightarrow> string \<Rightarrow> string" where
  "resolve_string getenv inp =
     (case strstr ''${'' inp of
        None \<Rightarrow> inp
      | Some (pre, rest) \<Rightarrow>
          (case strstr ''}'' rest of
             None \<Rightarrow> pre @ ''${'' @ rest
           | Some (name, rest) \<Rightarrow>
               pre @ (case getenv name of None \<Rightarrow> '''' | Some v \<Rightarrow> v) @ resolve_string getenv rest))"
  by pat_completeness auto
termination
  by (relation "measure (\<lambda>(getenv, inp). length inp)") (auto dest!: strstr_split)

declare resolve_string.simps [simp del]

definition g_strchomp :: "string \<Rightarrow> string" where
  "g_strchomp s = rev (dropWhile isspace (rev s))"

text \<open>
  \<open>str_replace\<close> counts the occurrences, allocates the length it computes from them, and copies piece by piece. A copy
  past the end of the buffer is \<open>None\<close>; the copies of the replacement and of the tail stop at the end of the buffer.
\<close>

function count_occ :: "string \<Rightarrow> string \<Rightarrow> nat" where
  "count_occ torep s =
     (if torep = [] then 0 else case strstr torep s of None \<Rightarrow> 0 | Some (pre, rest) \<Rightarrow> 1 + count_occ torep rest)"
  by pat_completeness auto
termination
  by (relation "measure (\<lambda>(torep, s). length s)") (auto dest!: strstr_split)

declare count_occ.simps [simp del]

function replace_loop :: "nat \<Rightarrow> string \<Rightarrow> string \<Rightarrow> string \<Rightarrow> string \<Rightarrow> string option" where
  "replace_loop res_len torep rep s out =
     (if torep = [] then None
      else case strstr torep s of
        None \<Rightarrow> Some (out @ take (res_len - length out) s)
      | Some (pre, rest) \<Rightarrow>
          if length out + length pre > res_len then None
          else if length out + length pre + length rep > res_len then None
          else replace_loop res_len torep rep rest (out @ pre @ rep))"
  by pat_completeness auto
termination
  by (relation "measure (\<lambda>(res_len, torep, rep, s, out). length s)") (auto dest!: strstr_split)

declare replace_loop.simps [simp del]

definition str_replace :: "string \<Rightarrow> string \<Rightarrow> string \<Rightarrow> string option" where
  "str_replace inp torep rep =
     (if torep = [] then None
      else replace_loop (length inp - count_occ torep inp * length torep + count_occ torep inp * length rep) torep rep inp '''')"

subsection \<open>Configuration values\<close>

text \<open>The lines of a file that are not empty.\<close>

function read_file_lines :: "string \<Rightarrow> string list" where
  "read_file_lines buffer =
     (if buffer = [] then []
      else let line = takeWhile (\<lambda>c. c \<noteq> NL) buffer; rest = drop (length line + 1) buffer
           in (if line = [] then [] else [line]) @ read_file_lines rest)"
  by pat_completeness auto
termination
  by (relation "measure length") (auto simp: Let_def)

declare read_file_lines.simps [simp del]

text \<open>The match of a line with the regular expression for a name: the name at the start, white space, an equals sign, white space, the value.\<close>

definition config_match :: "string \<Rightarrow> string \<Rightarrow> string option" where
  "config_match configname line =
     (if take (length configname) line = configname then
        (case dropWhile isspace (drop (length configname) line) of
           [] \<Rightarrow> None
         | c # rest \<Rightarrow>
             if c = CHR ''='' then Some (takeWhile (\<lambda>c. c \<noteq> CHR ''#'' \<and> c \<noteq> NL) (dropWhile isspace rest)) else None)
      else None)"

fun get_config_value :: "(string \<Rightarrow> string option) \<Rightarrow> string list \<Rightarrow> string \<Rightarrow> string option" where
  "get_config_value getenv [] configname = None"
| "get_config_value getenv (line # lines) configname =
     (case config_match configname line of
        Some v \<Rightarrow> Some (resolve_string getenv (g_strchomp v))
      | None \<Rightarrow> get_config_value getenv lines configname)"

text \<open>The defaults from the configuration file; \<open>DEFAULT_PCR_BANKS\<close> is set when the program is built.\<close>

definition get_default_pcr_banks :: "string \<Rightarrow> (string \<Rightarrow> string option) \<Rightarrow> string list \<Rightarrow> string" where
  "get_default_pcr_banks DEFAULT_PCR_BANKS getenv config_file_lines =
     (case map_option g_strstrip (get_config_value getenv config_file_lines ''active_pcr_banks'') of
        None \<Rightarrow> DEFAULT_PCR_BANKS
      | Some banks \<Rightarrow> if banks = [] then DEFAULT_PCR_BANKS else banks)"

definition get_default_rsa_keysize :: "(string \<Rightarrow> string option) \<Rightarrow> string list \<Rightarrow> string" where
  "get_default_rsa_keysize getenv config_file_lines =
     (case map_option g_strstrip (get_config_value getenv config_file_lines ''rsa_keysize'') of
        None \<Rightarrow> ''2048''
      | Some ks \<Rightarrow> if ks = [] then ''2048'' else ks)"

definition get_default_profile :: "(string \<Rightarrow> string option) \<Rightarrow> string list \<Rightarrow> string option" where
  "get_default_profile getenv config_file_lines =
     map_option g_strstrip (get_config_value getenv config_file_lines ''profile'')"

subsection \<open>Replacing\<close>

text \<open>The reference: every occurrence, from the left, is replaced.\<close>

function replace_all :: "string \<Rightarrow> string \<Rightarrow> string \<Rightarrow> string" where
  "replace_all torep rep s =
     (if torep = [] then s
      else case strstr torep s of None \<Rightarrow> s | Some (pre, rest) \<Rightarrow> pre @ rep @ replace_all torep rep rest)"
  by pat_completeness auto
termination
  by (relation "measure (\<lambda>(torep, rep, s). length s)") (auto dest!: strstr_split)

declare replace_all.simps [simp del]

lemma count_occ_fits: "count_occ torep s * length torep \<le> length s"
proof (induction torep s rule: count_occ.induct)
  case (1 torep s)
  show ?case
  proof (cases "torep = [] \<or> strstr torep s = None")
    case False
    then obtain pre rest where s: "strstr torep s = Some (pre, rest)" by auto
    then have "length s = length pre + length torep + length rest" by (auto dest: strstr_split)
    moreover have "count_occ torep rest * length torep \<le> length rest" using "1.IH" False s by blast
    ultimately show ?thesis using False s by (simp add: count_occ.simps [of torep s])
  qed (auto simp: count_occ.simps [of torep s])
qed

lemma length_replace_all:
  "torep \<noteq> [] \<Longrightarrow> length (replace_all torep rep s) =
     length s - count_occ torep s * length torep + count_occ torep s * length rep"
proof (induction torep rep s rule: replace_all.induct)
  case (1 torep rep s)
  show ?case
  proof (cases "strstr torep s")
    case (Some pr)
    obtain pre rest where pr: "pr = (pre, rest)" by (cases pr)
    have l: "length s = length pre + length torep + length rest" using Some pr by (auto dest: strstr_split)
    have "length (replace_all torep rep rest) =
        length rest - count_occ torep rest * length torep + count_occ torep rest * length rep"
      using "1.IH" [OF _ Some pr [symmetric]] "1.prems" by blast
    then show ?thesis using Some pr "1.prems" l count_occ_fits [of torep rest]
      by (simp add: replace_all.simps [of torep rep s] count_occ.simps [of torep s] algebra_simps)
  qed (simp add: replace_all.simps count_occ.simps "1.prems")
qed

lemma replace_loop_all:
  "torep \<noteq> [] \<Longrightarrow> res_len = length out + length (replace_all torep rep s) \<Longrightarrow>
   replace_loop res_len torep rep s out = Some (out @ replace_all torep rep s)"
proof (induction res_len torep rep s out rule: replace_loop.induct)
  case (1 res_len torep rep s out)
  show ?case
  proof (cases "strstr torep s")
    case (Some pr)
    obtain pre rest where pr: "pr = (pre, rest)" by (cases pr)
    then have a: "replace_all torep rep s = pre @ rep @ replace_all torep rep rest"
      using Some "1.prems" by (simp add: replace_all.simps [of torep rep s])
    have "replace_loop res_len torep rep rest (out @ pre @ rep) = Some ((out @ pre @ rep) @ replace_all torep rep rest)"
      using "1.prems" a by (intro "1.IH" [OF _ Some pr [symmetric]]) simp_all
    then show ?thesis using "1.prems" a Some pr by (subst replace_loop.simps) simp
  next
    case None
    then show ?thesis using "1.prems" by (simp add: replace_loop.simps replace_all.simps)
  qed
qed

text \<open>
  \<open>str_replace\<close> computes the right length, writes within it, and its result is the string with every occurrence replaced.
\<close>

theorem str_replace_exact:
  assumes "torep \<noteq> []"
  shows "str_replace inp torep rep = Some (replace_all torep rep inp)"
  unfolding str_replace_def
  using assms replace_loop_all [OF assms, of _ "[]" rep inp] length_replace_all [OF assms, of rep inp] by simp

theorem str_replace_exact_witness: "str_replace ''a b c'' '' '' ''__'' = Some ''a__b__c''"
proof -
  have "replace_all '' '' ''__'' ''a b c'' = ''a__b__c''" by (simp add: replace_all.simps)
  then show ?thesis using str_replace_exact [of "'' ''" "''a b c''" "''__''"] by simp
qed

subsection \<open>Reading back a configuration\<close>

text \<open>
  A configuration file of lines \<open>name = value\<close>, with names of letters, digits and such, and values without comments, line ends, references to
  the environment and white space at their ends.
\<close>

definition config_name :: "string \<Rightarrow> bool" where
  "config_name k \<longleftrightarrow> k \<noteq> [] \<and> list_all (\<lambda>c. \<not> isspace c \<and> c \<noteq> CHR ''='' \<and> c \<noteq> CHR ''#'') k"

definition config_value :: "string \<Rightarrow> bool" where
  "config_value v \<longleftrightarrow> CHR ''#'' \<notin> set v \<and> NL \<notin> set v \<and> strstr ''${'' v = None \<and>
     (v \<noteq> [] \<longrightarrow> \<not> isspace (hd v) \<and> \<not> isspace (last v))"

definition config_line :: "string \<times> string \<Rightarrow> string" where
  "config_line kv = fst kv @ '' = '' @ snd kv"

definition config_text :: "(string \<times> string) list \<Rightarrow> string" where
  "config_text kvs = concat (map (\<lambda>kv. config_line kv @ [NL]) kvs)"

lemma read_file_lines_step:
  "NL \<notin> set l \<Longrightarrow> l \<noteq> [] \<Longrightarrow> read_file_lines (l @ [NL] @ rest) = l # read_file_lines rest"
proof -
  assume l: "NL \<notin> set l" "l \<noteq> []"
  have "takeWhile (\<lambda>c. c \<noteq> NL) (l @ [NL] @ rest) = l"
    using l by (subst takeWhile_append2) auto
  then show ?thesis using l by (subst read_file_lines.simps) (simp add: Let_def)
qed

lemma config_line_nonl: "config_name (fst kv) \<Longrightarrow> config_value (snd kv) \<Longrightarrow> NL \<notin> set (config_line kv) \<and> config_line kv \<noteq> []"
  by (auto simp: config_name_def config_value_def config_line_def list_all_iff isspace_def)

lemma read_config_text:
  "list_all (\<lambda>kv. config_name (fst kv) \<and> config_value (snd kv)) kvs \<Longrightarrow> read_file_lines (config_text kvs) = map config_line kvs"
proof (induction kvs)
  case (Cons kv kvs)
  then have "NL \<notin> set (config_line kv)" "config_line kv \<noteq> []" using config_line_nonl by auto
  then show ?case using Cons read_file_lines_step [of "config_line kv" "config_text kvs"] by (simp add: config_text_def)
qed (simp add: config_text_def read_file_lines.simps)

lemma g_strchomp_value: "config_value v \<Longrightarrow> g_strchomp v = v"
proof (cases "v = []")
  case False
  assume "config_value v"
  then have "\<not> isspace (hd (rev v))" using False by (simp add: config_value_def hd_rev)
  then have "dropWhile isspace (rev v) = rev v" using False by (cases "rev v") auto
  then show ?thesis by (simp add: g_strchomp_def)
qed (simp add: g_strchomp_def)

lemma dropWhile_value: "config_value v \<Longrightarrow> dropWhile isspace (CHR '' '' # v) = v"
  by (cases v) (auto simp: config_value_def isspace_def)

lemma config_match_line:
  assumes "config_name k" "config_name (fst kv)" "config_value (snd kv)"
  shows "config_match k (config_line kv) = (if k = fst kv then Some (snd kv) else None)"
proof (cases "k = fst kv")
  case True
  have "takeWhile (\<lambda>c. c \<noteq> CHR ''#'' \<and> c \<noteq> NL) (snd kv) = snd kv"
    using assms(3) by (auto simp: config_value_def takeWhile_eq_all_conv)
  then show ?thesis using True dropWhile_value [OF assms(3)]
    by (simp add: config_match_def config_line_def isspace_def)
next
  case False
  show ?thesis
  proof (cases "take (length k) (config_line kv) = k")
    case pre: True
    have "length k < length (fst kv) \<or> length k = length (fst kv) \<or> length (fst kv) < length k" by auto
    moreover have "length k \<noteq> length (fst kv)" using pre False by (auto simp: config_line_def)
    moreover have "\<not> length (fst kv) < length k"
    proof
      assume l: "length (fst kv) < length k"
      then have "k ! length (fst kv) = CHR '' ''"
        using pre by (metis append_Cons config_line_def nth_append_length nth_take)
      then show False using assms(1) l by (auto simp: config_name_def list_all_length isspace_def)
    qed
    ultimately have l: "length k < length (fst kv)" by blast
    then have "drop (length k) (config_line kv) = fst kv ! length k # drop (Suc (length k)) (config_line kv)"
      by (simp add: config_line_def Cons_nth_drop_Suc)
    moreover have "\<not> isspace (fst kv ! length k)" "fst kv ! length k \<noteq> CHR ''=''"
      using assms(2) l by (auto simp: config_name_def list_all_length)
    ultimately show ?thesis using pre False by (simp add: config_match_def)
  qed (use False in \<open>simp add: config_match_def\<close>)
qed

text \<open>
  Reading back a configuration file gives for every name the value of its first line, and no value for other names; a name that is the beginning
  of another, as \<open>create_certs_tool\<close> is of \<open>create_certs_tool_config\<close>, is not mistaken for it.
\<close>

theorem config_roundtrip:
  assumes "list_all (\<lambda>kv. config_name (fst kv) \<and> config_value (snd kv)) kvs" "config_name k"
  shows "get_config_value getenv (read_file_lines (config_text kvs)) k = map_of kvs k"
proof -
  have "get_config_value getenv (map config_line kvs) k = map_of kvs k"
    using assms(1)
  proof (induction kvs)
    case (Cons kv kvs)
    then have kv: "config_match k (config_line kv) = (if k = fst kv then Some (snd kv) else None)" "config_value (snd kv)"
      using config_match_line [OF assms(2), of kv] by auto
    have "strstr ''${'' (snd kv) = None" using kv(2) by (simp add: config_value_def)
    then have "resolve_string getenv (snd kv) = snd kv" by (simp add: resolve_string.simps)
    then show ?case using Cons kv by (simp add: g_strchomp_value eq_commute)
  qed simp
  then show ?thesis by (simp add: read_config_text [OF assms(1)])
qed

theorem config_roundtrip_witness:
  "get_config_value (\<lambda>name. None)
     (read_file_lines (config_text [(''create_certs_tool_config'', ''/etc/ca.conf''), (''create_certs_tool'', ''/usr/bin/ca'')]))
     ''create_certs_tool'' = Some ''/usr/bin/ca''"
  using config_roundtrip [of "[(''create_certs_tool_config'', ''/etc/ca.conf''), (''create_certs_tool'', ''/usr/bin/ca'')]"
      "''create_certs_tool''" "\<lambda>name. None"]
  by (simp add: config_name_def config_value_def isspace_def)

end
