(* ===== verification/Setup.thy ===== *)
theory Setup
  imports SetupStore SetupTpm12 SetupConfig
begin

section \<open>swtpm\_setup: manufacturing a TPM\<close>

text \<open>
  The flows of src/src/swtpm_setup/swtpm_setup.c: creating keys and certificates for a TPM 2 or a TPM 1.2 by driving a swtpm
  process. \<open>setup_host\<close> is the host the program runs on, as functions of the outside state: files, the tool that makes certificates, and
  the parsers of JSON and of X.509 certificates of the libraries.
\<close>

subsection \<open>Flags and tables\<close>

abbreviation SETUP_CREATE_EK_F :: u32 where "SETUP_CREATE_EK_F \<equiv> 0x1"
abbreviation SETUP_TAKEOWN_F :: u32 where "SETUP_TAKEOWN_F \<equiv> 0x2"
abbreviation SETUP_EK_CERT_F :: u32 where "SETUP_EK_CERT_F \<equiv> 0x4"
abbreviation SETUP_PLATFORM_CERT_F :: u32 where "SETUP_PLATFORM_CERT_F \<equiv> 0x8"
abbreviation SETUP_LOCK_NVRAM_F :: u32 where "SETUP_LOCK_NVRAM_F \<equiv> 0x10"
abbreviation SETUP_SRKPASS_ZEROS_F :: u32 where "SETUP_SRKPASS_ZEROS_F \<equiv> 0x20"
abbreviation SETUP_OWNERPASS_ZEROS_F :: u32 where "SETUP_OWNERPASS_ZEROS_F \<equiv> 0x40"
abbreviation SETUP_STATE_OVERWRITE_F :: u32 where "SETUP_STATE_OVERWRITE_F \<equiv> 0x80"
abbreviation SETUP_STATE_NOT_OVERWRITE_F :: u32 where "SETUP_STATE_NOT_OVERWRITE_F \<equiv> 0x100"
abbreviation SETUP_TPM2_F :: u32 where "SETUP_TPM2_F \<equiv> 0x200"
abbreviation SETUP_ALLOW_SIGNING_F :: u32 where "SETUP_ALLOW_SIGNING_F \<equiv> 0x400"
abbreviation SETUP_TPM2_ECC_F :: u32 where "SETUP_TPM2_ECC_F \<equiv> 0x800"
abbreviation SETUP_CREATE_SPK_F :: u32 where "SETUP_CREATE_SPK_F \<equiv> 0x1000"
abbreviation SETUP_DECRYPTION_F :: u32 where "SETUP_DECRYPTION_F \<equiv> 0x4000"
abbreviation SETUP_WRITE_EK_CERT_FILES_F :: u32 where "SETUP_WRITE_EK_CERT_FILES_F \<equiv> 0x8000"
abbreviation SETUP_RECONFIGURE_F :: u32 where "SETUP_RECONFIGURE_F \<equiv> 0x10000"
abbreviation SETUP_IAK_F :: u32 where "SETUP_IAK_F \<equiv> 0x40000"
abbreviation SETUP_IDEVID_F :: u32 where "SETUP_IDEVID_F \<equiv> 0x80000"

definition flag_set :: "u32 \<Rightarrow> u32 \<Rightarrow> bool" where
  "flag_set flags f \<longleftrightarrow> flags AND f \<noteq> 0"

record certfile =
  cf_flag :: u32
  cf_filename :: string
  cf_type :: string

definition flags_to_certfiles :: "certfile list" where
  "flags_to_certfiles =
    [\<lparr>cf_flag = SETUP_EK_CERT_F, cf_filename = ''ek.cert'', cf_type = ''ek''\<rparr>,
     \<lparr>cf_flag = SETUP_PLATFORM_CERT_F, cf_filename = ''platform.cert'', cf_type = ''platform''\<rparr>,
     \<lparr>cf_flag = SETUP_IAK_F, cf_filename = ''iak.cert'', cf_type = ''iak''\<rparr>,
     \<lparr>cf_flag = SETUP_IDEVID_F, cf_filename = ''idevid.cert'', cf_type = ''idevid''\<rparr>]"

definition keyalgo_choices :: "(string \<times> keyalgo \<times> nat) list" where
  "keyalgo_choices =
    [(''rsa2048'', KEYALGO_RSA, 2048), (''rsa3072'', KEYALGO_RSA, 3072), (''rsa4096'', KEYALGO_RSA, 4096),
     (''ecc_nist_p384'', KEYALGO_ECC, 4), (''secp384r1'', KEYALGO_ECC, 4), (''ecc_nist_p256'', KEYALGO_ECC, 3),
     (''secp256r1'', KEYALGO_ECC, 3), (''ecc_nist_p521'', KEYALGO_ECC, 5), (''secp521r1'', KEYALGO_ECC, 5)]"

record ek_certificate_data =
  ecd_needed :: bool
  ecd_id :: bytes
  ecd_serial :: bytes

text \<open>
  \<open>h_json\<close> parses JSON and gives the value of a member as a number and as a string; \<open>h_x509\<close> gives
  the authority key identifier and the serial number of a certificate; \<open>h_garbage\<close> is what a string that was never written holds.
\<close>

record 'p setup_host =
  h_read_file :: "string \<Rightarrow> 'p \<Rightarrow> bytes option \<times> 'p"
  h_read_text :: "string \<Rightarrow> 'p \<Rightarrow> string option \<times> 'p"
  h_write_file :: "string \<Rightarrow> bytes \<Rightarrow> 'p \<Rightarrow> bool \<times> 'p"
  h_chmod :: "string \<Rightarrow> 'p \<Rightarrow> bool \<times> 'p"
  h_unlink :: "string \<Rightarrow> 'p \<Rightarrow> 'p"
  h_find_program :: "string \<Rightarrow> string option"
  h_run :: "string list \<Rightarrow> 'p \<Rightarrow> bool \<times> 'p"
  h_getenv :: "string \<Rightarrow> string option"
  h_json :: "bytes \<Rightarrow> (string \<Rightarrow> string \<Rightarrow> (int \<times> string) option) option"
  h_x509 :: "bytes \<Rightarrow> (bytes option \<times> bytes option) option"
  h_crypto :: tpm12_crypto
  h_garbage :: string
  h_logfile :: "string option"

text \<open>An operation on the outside state only.\<close>

definition on_world :: "('p \<Rightarrow> 'a \<times> 'p) \<Rightarrow> 'p swtpm \<Rightarrow> 'a \<times> 'p swtpm" where
  "on_world f self = (case f (sw_peer self) of (a, p) \<Rightarrow> (a, self\<lparr>sw_peer := p\<rparr>))"

definition unlink_file :: "'p setup_host \<Rightarrow> string \<Rightarrow> 'p swtpm \<Rightarrow> 'p swtpm" where
  "unlink_file h name self = self\<lparr>sw_peer := h_unlink h name (sw_peer self)\<rparr>"

subsection \<open>Certificates\<close>

text \<open>
  The parameters for the certificate tool from the answer of CMD\_GET\_INFO. When the answer is not JSON, the function
  returns 0 without parameters; a missing member is an error.
\<close>

definition parser_rules :: "(string \<times> string \<times> bool \<times> string) list" where
  "parser_rules =
    [(''TPMSpecification'', ''family'', False, ''--tpm-spec-family''), (''TPMSpecification'', ''level'', True, ''--tpm-spec-level''),
     (''TPMSpecification'', ''revision'', True, ''--tpm-spec-revision''), (''TPMAttributes'', ''manufacturer'', False, ''--tpm-manufacturer''),
     (''TPMAttributes'', ''model'', False, ''--tpm-model''), (''TPMAttributes'', ''version'', False, ''--tpm-version'')]"

fun apply_rules ::
  "(string \<Rightarrow> string \<Rightarrow> (int \<times> string) option) \<Rightarrow> (string \<times> string \<times> bool \<times> string) list \<Rightarrow> string list \<Rightarrow> string list option"
where
  "apply_rules js [] params = Some params"
| "apply_rules js ((node1, node2, is_int, optname) # rules) params =
     (case js node1 node2 of
        None \<Rightarrow> None
      | Some (i, s) \<Rightarrow> apply_rules js rules (params @ [optname, if is_int then dec_int i else s]))"

definition tpm_get_specs_and_attributes ::
  "'p setup_host \<Rightarrow> 'p setup_env \<Rightarrow> 'p swtpm \<Rightarrow> (int \<times> string list) \<times> 'p swtpm"
where
  "tpm_get_specs_and_attributes h env self =
     (case swtpm_ctrl_get_tpm_specs_and_attrs env self of
        (None, self) \<Rightarrow> ((1, []), self)
      | (Some json, self) \<Rightarrow>
          (case h_json h json of
             None \<Rightarrow> ((0, []), self)
           | Some js \<Rightarrow>
               (case apply_rules js parser_rules [] of
                  None \<Rightarrow> ((1, []), self)
                | Some params \<Rightarrow> ((0, params), self))))"

text \<open>
  The command line of the tool, with \<open>_\<close> at index 2 for the type; an array with a null pointer for the key
  ends there.
\<close>

definition certs_cmd ::
  "'p setup_host \<Rightarrow> u32 \<Rightarrow> u32 \<Rightarrow> string list \<Rightarrow> string \<Rightarrow> string \<Rightarrow> string option \<Rightarrow> string option \<Rightarrow> string option \<Rightarrow>
   string list \<Rightarrow> string list"
where
  "certs_cmd h flags cert_flags config_lines tool_path certsdir key_params vmid tpm_serial_num params =
     (let params = (if flag_set flags SETUP_TPM2_F then params @ [''--tpm2''] else params);
          key_opt = (if flag_set cert_flags (SETUP_EK_CERT_F OR SETUP_PLATFORM_CERT_F) then ''--ek'' else ''--key'');
          cmd = [tool_path, ''--type'', ''_'', key_opt] @ (case key_params of None \<Rightarrow> [] | Some k \<Rightarrow> [k, ''--dir'', certsdir]);
          cmd = (if flag_set flags SETUP_ALLOW_SIGNING_F then
                   cmd @ [''--allow-signing''] @ (if flag_set flags SETUP_DECRYPTION_F then [''--decryption''] else [])
                 else cmd);
          cmd = cmd @ (case h_logfile h of None \<Rightarrow> [] | Some lf \<Rightarrow> [''--logfile'', lf]);
          cmd = cmd @ (case vmid of None \<Rightarrow> [] | Some v \<Rightarrow> [''--vmid'', v]);
          cmd = cmd @ params;
          cmd = cmd @ (case get_config_value (h_getenv h) config_lines ''create_certs_tool_config'' of
                         None \<Rightarrow> [] | Some c \<Rightarrow> [''--configfile'', c]);
          cmd = cmd @ (case get_config_value (h_getenv h) config_lines ''create_certs_tool_options'' of
                         None \<Rightarrow> [] | Some c \<Rightarrow> [''--optsfile'', c])
      in cmd @ (case tpm_serial_num of None \<Rightarrow> [] | Some n \<Rightarrow> [''--tpm-serial-num'', n]))"

fun run_certs_tool :: "'p setup_host \<Rightarrow> u32 \<Rightarrow> string list \<Rightarrow> certfile list \<Rightarrow> 'p swtpm \<Rightarrow> int \<times> 'p swtpm" where
  "run_certs_tool h cert_flags cmd [] self = (0, self)"
| "run_certs_tool h cert_flags cmd (ftc # ftcs) self =
     (if flag_set cert_flags (cf_flag ftc) then
        (case on_world (h_run h (cmd[2 := cf_type ftc])) self of (ok, self) \<Rightarrow>
           if \<not> ok then (1, self) else run_certs_tool h cert_flags cmd ftcs self)
      else run_certs_tool h cert_flags cmd ftcs self)"

definition call_create_certs ::
  "'p setup_host \<Rightarrow> 'p setup_env \<Rightarrow> u32 \<Rightarrow> u32 \<Rightarrow> string \<Rightarrow> string \<Rightarrow> string option \<Rightarrow> string option \<Rightarrow> string option \<Rightarrow>
   'p swtpm \<Rightarrow> int \<times> 'p swtpm"
where
  "call_create_certs h env flags cert_flags config_file certsdir key_params vmid tpm_serial_num self =
     (case tpm_get_specs_and_attributes h env self of ((ret, params), self) \<Rightarrow>
        if ret \<noteq> 0 then (ret, self)
        else case on_world (h_read_text h config_file) self of
          (None, self) \<Rightarrow> (1, self)
        | (Some content, self) \<Rightarrow>
            (let config_lines = read_file_lines content in
             case get_config_value (h_getenv h) config_lines ''create_certs_tool'' of
               None \<Rightarrow> (0, self)
             | Some tool \<Rightarrow>
                 (case h_find_program h tool of
                    None \<Rightarrow> (1, self)
                  | Some tool_path \<Rightarrow>
                      run_certs_tool h cert_flags
                        (certs_cmd h flags cert_flags config_lines tool_path certsdir key_params vmid tpm_serial_num params)
                        flags_to_certfiles self)))"

definition create_certfile_name :: "string \<Rightarrow> string \<Rightarrow> string \<Rightarrow> string" where
  "create_certfile_name user_certsdir key_type key_description =
     user_certsdir @ ''/'' @ key_type @ ''-'' @ key_description @ ''.crt''"

definition certfile_move_or_delete ::
  "'p setup_host \<Rightarrow> u32 \<Rightarrow> bool \<Rightarrow> string \<Rightarrow> string option \<Rightarrow> string \<Rightarrow> string \<Rightarrow> 'p swtpm \<Rightarrow> int \<times> 'p swtpm"
where
  "certfile_move_or_delete h flags preserve certname user_certsdir key_type key_description self =
     (case (if preserve \<and> flag_set flags SETUP_WRITE_EK_CERT_FILES_F then user_certsdir else None) of
        None \<Rightarrow> (0, unlink_file h certname self)
      | Some dir \<Rightarrow>
          (case on_world (h_read_file h certname) self of
             (None, self) \<Rightarrow> (1, unlink_file h certname self)
           | (Some content, self) \<Rightarrow>
               (let cf = create_certfile_name dir key_type key_description;
                    offset = (if \<not> flag_set flags SETUP_TPM2_F \<and> length content \<ge> 8 then 7 else 0)
                in case on_world (h_write_file h cf (drop offset content)) self of (ok, self) \<Rightarrow>
                     if \<not> ok then (1, unlink_file h certname self)
                     else case on_world (h_chmod h cf) self of (ok, self) \<Rightarrow>
                       (if ok then 0 else 1, unlink_file h certname self))))"

definition tpm2_extract_certificate_data ::
  "'p setup_host \<Rightarrow> bytes \<Rightarrow> ek_certificate_data \<Rightarrow> int \<times> ek_certificate_data"
where
  "tpm2_extract_certificate_data h certdata ecd =
     (if \<not> ecd_needed ecd then (0, ecd)
      else case h_x509 h certdata of
        None \<Rightarrow> (1, ecd)
      | Some (None, _) \<Rightarrow> (1, ecd)
      | Some (Some akid, serial) \<Rightarrow>
          (let ecd = ecd\<lparr>ecd_id := take 32 akid\<rparr>
           in case serial of
                None \<Rightarrow> (1, ecd)
              | Some bn \<Rightarrow> if length bn > 20 then (1, ecd) else (0, ecd\<lparr>ecd_serial := bn\<rparr>)))"

text \<open>
  \<open>ecd\<close> is \<open>None\<close> where the code passes a null pointer; it is returned because the code fills it in.
\<close>

definition persist_cert ::
  "'p setup_env \<Rightarrow> u32 \<Rightarrow> certfile \<Rightarrow> keyalgo \<Rightarrow> nat \<Rightarrow> bytes \<Rightarrow> 'p swtpm \<Rightarrow> int \<times> 'p swtpm"
where
  "persist_cert env flags ftc algo param filecontent self =
     (let lock = flag_set flags SETUP_LOCK_NVRAM_F in
      if cf_flag ftc = SETUP_IAK_F then swtpm_tpm2_write_iak_cert_nvram env self lock filecontent
      else if cf_flag ftc = SETUP_IDEVID_F then swtpm_tpm2_write_idevid_cert_nvram env self lock filecontent
      else if cf_flag ftc = SETUP_EK_CERT_F then swtpm_tpm2_write_ek_cert_nvram env self algo param lock filecontent
      else swtpm_tpm2_write_platform_cert_nvram env self lock filecontent)"

definition tpm2_persist_certificate ::
  "'p setup_host \<Rightarrow> 'p setup_env \<Rightarrow> u32 \<Rightarrow> string \<Rightarrow> certfile \<Rightarrow> keyalgo \<Rightarrow> nat \<Rightarrow> string option \<Rightarrow> string \<Rightarrow> string \<Rightarrow>
   ek_certificate_data option \<Rightarrow> 'p swtpm \<Rightarrow> (int \<times> ek_certificate_data option) \<times> 'p swtpm"
where
  "tpm2_persist_certificate h env flags certsdir ftc algo param user_certsdir key_type key_description ecd self =
     (let certname = certsdir @ ''/'' @ cf_filename ftc in
      case on_world (h_read_file h certname) self of
        (None, self) \<Rightarrow> ((1, ecd), unlink_file h certname self)
      | (Some filecontent, self) \<Rightarrow>
          (case (case ecd of
                   None \<Rightarrow> (0, None)
                 | Some e \<Rightarrow> map_prod id Some (tpm2_extract_certificate_data h filecontent e)) of
             (ret, ecd) \<Rightarrow>
               if ret \<noteq> 0 then ((1, ecd), unlink_file h certname self)
               else case persist_cert env flags ftc algo param filecontent self of (ret, self) \<Rightarrow>
                 if ret \<noteq> 0 then ((1, ecd), unlink_file h certname self)
                 else case certfile_move_or_delete h flags
                        (flag_set (cf_flag ftc) (SETUP_EK_CERT_F OR SETUP_IAK_F OR SETUP_IDEVID_F))
                        certname user_certsdir key_type key_description self of
                   (ret, self) \<Rightarrow> ((ret, ecd), self)))"

subsection \<open>Endorsement keys and their certificates\<close>

fun persist_loop ::
  "'p setup_host \<Rightarrow> 'p setup_env \<Rightarrow> u32 \<Rightarrow> u32 \<Rightarrow> string \<Rightarrow> keyalgo \<Rightarrow> nat \<Rightarrow> string option \<Rightarrow> string \<Rightarrow> certfile list \<Rightarrow>
   ek_certificate_data option \<Rightarrow> 'p swtpm \<Rightarrow> (int \<times> ek_certificate_data option) \<times> 'p swtpm"
where
  "persist_loop h env flags cert_flags certsdir algo param user_certsdir key_description [] ecd self = ((0, ecd), self)"
| "persist_loop h env flags cert_flags certsdir algo param user_certsdir key_description (ftc # ftcs) ecd self =
     (if flag_set cert_flags (cf_flag ftc) then
        (let is_ek = flag_set (cf_flag ftc) SETUP_EK_CERT_F in
         case tpm2_persist_certificate h env flags certsdir ftc algo param user_certsdir
                (if is_ek then ''ek'' else '''') key_description (if is_ek then ecd else None) self of
           ((ret, ecd'), self) \<Rightarrow>
             (let ecd = (if is_ek then ecd' else ecd) in
              if ret \<noteq> 0 then ((1, ecd), self)
              else persist_loop h env flags cert_flags certsdir algo param user_certsdir key_description ftcs ecd self))
      else persist_loop h env flags cert_flags certsdir algo param user_certsdir key_description ftcs ecd self)"

definition tpm2_create_ek_and_cert ::
  "'p setup_host \<Rightarrow> 'p setup_env \<Rightarrow> u32 \<Rightarrow> string \<Rightarrow> string \<Rightarrow> string option \<Rightarrow> keyalgo \<Rightarrow> nat \<Rightarrow> string option \<Rightarrow>
   ek_certificate_data option \<Rightarrow> 'p swtpm \<Rightarrow> (int \<times> ek_certificate_data option) \<times> 'p swtpm"
where
  "tpm2_create_ek_and_cert h env flags config_file certsdir vmid algo param user_certsdir ecd self =
     (case (if flag_set flags SETUP_CREATE_EK_F
            then swtpm_tpm2_create_ek env self algo param (flag_set flags SETUP_ALLOW_SIGNING_F)
                   (flag_set flags SETUP_DECRYPTION_F) (flag_set flags SETUP_LOCK_NVRAM_F)
            else ((0, None, Some ''''), self)) of
        ((ret, key_params, key_description), self) \<Rightarrow>
          if ret \<noteq> 0 then ((1, ecd), self)
          else
            let cert_flags = flags AND (SETUP_EK_CERT_F OR SETUP_PLATFORM_CERT_F) in
            if cert_flags = 0 then ((0, ecd), self)
            else case call_create_certs h env flags cert_flags config_file certsdir key_params vmid None self of (ret, self) \<Rightarrow>
              if ret \<noteq> 0 then ((1, ecd), self)
              else persist_loop h env flags cert_flags certsdir algo param user_certsdir
                     (case key_description of None \<Rightarrow> '''' | Some d \<Rightarrow> d) flags_to_certfiles ecd self)"

definition tpm2_create_eks_and_certs ::
  "'p setup_host \<Rightarrow> 'p setup_env \<Rightarrow> u32 \<Rightarrow> string \<Rightarrow> string \<Rightarrow> string option \<Rightarrow> keyalgo \<times> nat \<Rightarrow> keyalgo \<times> nat \<Rightarrow> string option \<Rightarrow>
   ek_certificate_data \<Rightarrow> 'p swtpm \<Rightarrow> (int \<times> ek_certificate_data) \<times> 'p swtpm"
where
  "tpm2_create_eks_and_certs h env flags config_file certsdir vmid ek1 ek2 user_certsdir ecd self =
     (case tpm2_create_ek_and_cert h env flags config_file certsdir vmid (fst ek1) (snd ek1) user_certsdir (Some ecd) self of
        ((ret, ecd'), self) \<Rightarrow>
          (let ecd = (case ecd' of None \<Rightarrow> ecd | Some e \<Rightarrow> e) in
           if ret \<noteq> 0 then ((1, ecd), self)
           else if snd ek1 = snd ek2 \<and> fst ek1 = fst ek2 then ((0, ecd), self)
           else case tpm2_create_ek_and_cert h env (flags AND NOT SETUP_PLATFORM_CERT_F) config_file certsdir vmid
                       (fst ek2) (snd ek2) user_certsdir None self of
             ((ret, _), self) \<Rightarrow> ((ret, ecd), self)))"

subsection \<open>Attestation and identity keys\<close>

definition hex_or_garbage :: "'p setup_host \<Rightarrow> bytes \<Rightarrow> string" where
  "hex_or_garbage h bs = (case print_as_hex bs of None \<Rightarrow> h_garbage h | Some s \<Rightarrow> s)"

abbreviation TPM2_CAP_TPM_PROPERTIES :: u32 where "TPM2_CAP_TPM_PROPERTIES \<equiv> 6"
abbreviation TPM2_PT_MANUFACTURER :: u32 where "TPM2_PT_MANUFACTURER \<equiv> 0x105"

definition tpm2_create_tpm_serial_num ::
  "'p setup_host \<Rightarrow> 'p setup_env \<Rightarrow> ek_certificate_data \<Rightarrow> 'p swtpm \<Rightarrow> string option \<times> 'p swtpm"
where
  "tpm2_create_tpm_serial_num h env ecd self =
     (case swtpm_tpm2_get_capability env self TPM2_CAP_TPM_PROPERTIES TPM2_PT_MANUFACTURER of
        (None, self) \<Rightarrow> (None, self)
      | (Some res, self) \<Rightarrow>
          (let code = map (\<lambda>b. char_of (unat b)) (takeWhile (\<lambda>b. b \<noteq> 0) (htobe32 res))
           in (Some (code @ '':'' @ hex_or_garbage h (ecd_id ecd) @ '':'' @ hex_or_garbage h (ecd_serial ecd)), self)))"

fun iak_idevid_loop ::
  "'p setup_host \<Rightarrow> 'p setup_env \<Rightarrow> u32 \<Rightarrow> u32 \<Rightarrow> string \<Rightarrow> string \<Rightarrow> string option \<Rightarrow> keyalgo \<times> nat \<Rightarrow> keyalgo \<times> nat \<Rightarrow> string option \<Rightarrow>
   string option \<Rightarrow> certfile list \<Rightarrow> 'p swtpm \<Rightarrow> int \<times> 'p swtpm"
where
  "iak_idevid_loop h env flags cert_flags config_file certsdir vmid iak idevid user_certsdir serial [] self = (0, self)"
| "iak_idevid_loop h env flags cert_flags config_file certsdir vmid iak idevid user_certsdir serial (ftc # ftcs) self =
     (if \<not> flag_set cert_flags (cf_flag ftc) \<or> cf_flag ftc \<noteq> SETUP_IAK_F \<and> cf_flag ftc \<noteq> SETUP_IDEVID_F then
        iak_idevid_loop h env flags cert_flags config_file certsdir vmid iak idevid user_certsdir serial ftcs self
      else
        let is_iak = cf_flag ftc = SETUP_IAK_F;
            (algo, param) = (if is_iak then iak else idevid)
        in case (if is_iak then swtpm_tpm2_create_iak env self algo param else swtpm_tpm2_create_idevid env self algo param) of
             ((ret, key_params, key_description), self) \<Rightarrow>
               if ret \<noteq> 0 then (1, self)
               else case call_create_certs h env flags (cf_flag ftc) config_file certsdir key_params vmid serial self of (ret, self) \<Rightarrow>
                 if ret \<noteq> 0 then (1, self)
                 else case tpm2_persist_certificate h env flags certsdir ftc algo param user_certsdir
                        (if is_iak then ''iak'' else ''idevid'') (case key_description of None \<Rightarrow> '''' | Some d \<Rightarrow> d) None self of
                   ((ret, _), self) \<Rightarrow>
                     if ret \<noteq> 0 then (1, self)
                     else iak_idevid_loop h env flags cert_flags config_file certsdir vmid iak idevid user_certsdir serial ftcs self)"

definition tpm2_create_iak_idevid_and_certs ::
  "'p setup_host \<Rightarrow> 'p setup_env \<Rightarrow> u32 \<Rightarrow> string \<Rightarrow> string \<Rightarrow> string option \<Rightarrow> keyalgo \<times> nat \<Rightarrow> keyalgo \<times> nat \<Rightarrow> string option \<Rightarrow>
   ek_certificate_data \<Rightarrow> 'p swtpm \<Rightarrow> int \<times> 'p swtpm"
where
  "tpm2_create_iak_idevid_and_certs h env flags config_file certsdir vmid iak idevid user_certsdir ecd self =
     (let cert_flags = (if fst iak \<noteq> KEYALGO_NONE then SETUP_IAK_F else 0) OR (if fst idevid \<noteq> KEYALGO_NONE then SETUP_IDEVID_F else 0) in
      if cert_flags = 0 then (0, self)
      else case tpm2_create_tpm_serial_num h env ecd self of (serial, self) \<Rightarrow>
        iak_idevid_loop h env flags cert_flags config_file certsdir vmid iak idevid user_certsdir serial flags_to_certfiles self)"

subsection \<open>PCR banks and the profile\<close>

definition tpm2_activate_pcr_banks :: "'p setup_env \<Rightarrow> string \<Rightarrow> 'p swtpm \<Rightarrow> int \<times> 'p swtpm" where
  "tpm2_activate_pcr_banks env pcr_banks self =
     (if pcr_banks = ''-'' then (0, self)
      else case swtpm_tpm2_get_all_pcr_banks env self of
        (None, self) \<Rightarrow> (1, self)
      | (Some all_pcr_banks, self) \<Rightarrow>
          (case swtpm_tpm2_set_active_pcr_banks env self (g_strsplit_comma pcr_banks) all_pcr_banks of
             ((ret, _), self) \<Rightarrow> (ret, self)))"

text \<open>The check on the format of the active profile: a closing brace, and before the last one a colon.\<close>

definition log_active_profile :: "'p setup_env \<Rightarrow> 'p swtpm \<Rightarrow> int \<times> 'p swtpm" where
  "log_active_profile env self =
     (case swtpm_tpm2_get_active_profile env self of
        (None, self) \<Rightarrow> (1, self)
      | (Some profile, self) \<Rightarrow>
          (let before = rev (tl (dropWhile (\<lambda>b. b \<noteq> 0x7d) (rev profile))) in
           (if 0x7d \<notin> set profile then 1 else if 0x3a \<notin> set before then 1 else 0, self)))"

subsection \<open>A TPM 2\<close>

text \<open>The arguments of \<open>init_tpm2\<close> and \<open>init_tpm\<close>, in one record.\<close>

record setup_args =
  sa_flags :: u32
  sa_prg_l :: "string list"
  sa_config_file :: string
  sa_state_path :: string
  sa_vmid :: "string option"
  sa_pcr_banks :: string
  sa_keyopt :: "string option"
  sa_ek1 :: "keyalgo \<times> nat"
  sa_ek2 :: "keyalgo \<times> nat"
  sa_iak :: "keyalgo \<times> nat"
  sa_idevid :: "keyalgo \<times> nat"
  sa_certsdir :: string
  sa_user_certsdir :: "string option"
  sa_json_profile :: "string option"
  sa_json_profile_fd :: int
  sa_remove_disabled :: "string option"
  sa_ownerpass :: "string option"
  sa_srkpass :: "string option"

text \<open>
  The creation of keys and certificates, skipped when a TPM is reconfigured: \<open>Inl\<close> is the way out of \<open>init_tpm2\<close>
  that does not stop swtpm, taken when the active profile cannot be shown.
\<close>

definition tpm2_manufacture ::
  "'p setup_host \<Rightarrow> 'p setup_env \<Rightarrow> setup_args \<Rightarrow> 'p swtpm \<Rightarrow> (int + int) \<times> 'p swtpm"
where
  "tpm2_manufacture h env a self =
     (if flag_set (sa_flags a) SETUP_RECONFIGURE_F then (Inr 0, self)
      else case log_active_profile env self of (ret, self) \<Rightarrow>
        if ret \<noteq> 0 then (Inl ret, self)
        else case (if flag_set (sa_flags a) SETUP_CREATE_SPK_F
                   then (if flag_set (sa_flags a) SETUP_TPM2_ECC_F then swtpm_tpm2_create_spk env self KEYALGO_ECC 4
                         else swtpm_tpm2_create_spk env self KEYALGO_RSA 3072)
                   else (0, self)) of (ret, self) \<Rightarrow>
          if ret \<noteq> 0 then (Inr ret, self)
          else
            let ecd = \<lparr>ecd_needed = fst (sa_iak a) \<noteq> KEYALGO_NONE \<or> fst (sa_idevid a) \<noteq> KEYALGO_NONE, ecd_id = [], ecd_serial = []\<rparr> in
            case tpm2_create_eks_and_certs h env (sa_flags a) (sa_config_file a) (sa_certsdir a) (sa_vmid a) (sa_ek1 a) (sa_ek2 a)
                   (sa_user_certsdir a) ecd self of ((ret, ecd), self) \<Rightarrow>
              if ret \<noteq> 0 then (Inr ret, self)
              else case tpm2_create_iak_idevid_and_certs h env (sa_flags a) (sa_config_file a) (sa_certsdir a) (sa_vmid a)
                          (sa_iak a) (sa_idevid a) (sa_user_certsdir a) ecd self of (ret, self) \<Rightarrow> (Inr ret, self))"

definition init_tpm2 :: "'p setup_host \<Rightarrow> 'p setup_env \<Rightarrow> setup_args \<Rightarrow> 'p \<Rightarrow> int \<times> 'p swtpm" where
  "init_tpm2 h env a world =
     (let self = swtpm2_new (sa_prg_l a) (sa_state_path a) (sa_keyopt a) (h_logfile h) (sa_json_profile a)
            (sa_json_profile_fd a) (sa_remove_disabled a) world
      in case swtpm_start env (h_logfile h) self of (ret, self) \<Rightarrow>
           if ret \<noteq> 0 then (ret, self)
           else case tpm2_manufacture h env a self of
             (Inl ret, self) \<Rightarrow> (ret, self)
           | (Inr ret, self) \<Rightarrow>
               (case (if ret \<noteq> 0 then (ret, self)
                      else case tpm2_activate_pcr_banks env (sa_pcr_banks a) self of (ret, self) \<Rightarrow>
                        if ret \<noteq> 0 then (ret, self) else swtpm_tpm2_shutdown env self) of
                  (ret, self) \<Rightarrow> (ret, swtpm_destroy env self)))"

subsection \<open>A TPM 1.2\<close>

definition pass_digest :: "'p setup_host \<Rightarrow> bool \<Rightarrow> string \<Rightarrow> string option \<Rightarrow> bytes" where
  "pass_digest h zeros default_pass pass =
     sha1_digest (h_crypto h)
       (case pass of
          None \<Rightarrow> if zeros then replicate SHA_DIGEST_LENGTH 0 else map (\<lambda>c. of_nat (char_code c)) default_pass
        | Some p \<Rightarrow> map (\<lambda>c. of_nat (char_code c)) p)"

definition tpm12_get_ownerpass_digest :: "'p setup_host \<Rightarrow> u32 \<Rightarrow> string option \<Rightarrow> bytes" where
  "tpm12_get_ownerpass_digest h flags ownerpass = pass_digest h (flag_set flags SETUP_OWNERPASS_ZEROS_F) ''ooo'' ownerpass"

definition tpm12_get_srkpass_digest :: "'p setup_host \<Rightarrow> u32 \<Rightarrow> string option \<Rightarrow> bytes" where
  "tpm12_get_srkpass_digest h flags srkpass = pass_digest h (flag_set flags SETUP_SRKPASS_ZEROS_F) ''sss'' srkpass"

definition tpm12_take_ownership ::
  "'p setup_host \<Rightarrow> 'p setup_env \<Rightarrow> u32 \<Rightarrow> string option \<Rightarrow> string option \<Rightarrow> bytes \<Rightarrow> 'p swtpm \<Rightarrow> int \<times> 'p swtpm"
where
  "tpm12_take_ownership h env flags ownerpass srkpass pubek self =
     swtpm_tpm12_take_ownership (h_crypto h) env self (tpm12_get_ownerpass_digest h flags ownerpass)
       (tpm12_get_srkpass_digest h flags srkpass) pubek"

text \<open>The loop over the certificates of a TPM 1.2; a certificate that cannot be read is not unlinked.\<close>

fun tpm12_certs_loop ::
  "'p setup_host \<Rightarrow> 'p setup_env \<Rightarrow> u32 \<Rightarrow> u32 \<Rightarrow> string \<Rightarrow> string option \<Rightarrow> certfile list \<Rightarrow> 'p swtpm \<Rightarrow> int \<times> 'p swtpm"
where
  "tpm12_certs_loop h env flags cert_flags certsdir user_certsdir [] self = (0, self)"
| "tpm12_certs_loop h env flags cert_flags certsdir user_certsdir (ftc # ftcs) self =
     (if flag_set cert_flags (cf_flag ftc) then
        (let certname = certsdir @ ''/'' @ cf_filename ftc; is_ek = flag_set (cf_flag ftc) SETUP_EK_CERT_F in
         case on_world (h_read_file h certname) self of
           (None, self) \<Rightarrow> (1, self)
         | (Some filecontent, self) \<Rightarrow>
             (case (if cf_flag ftc = SETUP_EK_CERT_F then swtpm_tpm12_write_ek_cert_nvram env self filecontent
                    else swtpm_tpm12_write_platform_cert_nvram env self filecontent) of (ret, self) \<Rightarrow>
                if ret \<noteq> 0 then (1, unlink_file h certname self)
                else case certfile_move_or_delete h flags is_ek certname user_certsdir (if is_ek then ''ek'' else '''')
                            ''rsa2048'' self of (ret, self) \<Rightarrow>
                  if ret \<noteq> 0 then (1, self)
                  else tpm12_certs_loop h env flags cert_flags certsdir user_certsdir ftcs self))
      else tpm12_certs_loop h env flags cert_flags certsdir user_certsdir ftcs self)"

definition tpm12_create_certs ::
  "'p setup_host \<Rightarrow> 'p setup_env \<Rightarrow> u32 \<Rightarrow> string \<Rightarrow> string \<Rightarrow> string option \<Rightarrow> string option \<Rightarrow> string option \<Rightarrow> 'p swtpm \<Rightarrow> int \<times> 'p swtpm"
where
  "tpm12_create_certs h env flags config_file certsdir ekparam vmid user_certsdir self =
     (let cert_flags = flags AND (SETUP_EK_CERT_F OR SETUP_PLATFORM_CERT_F) in
      case call_create_certs h env flags cert_flags config_file certsdir ekparam vmid None self of (ret, self) \<Rightarrow>
        if ret \<noteq> 0 then (1, self)
        else tpm12_certs_loop h env flags cert_flags certsdir user_certsdir flags_to_certfiles self)"

definition tpm12_manufacture :: "'p setup_host \<Rightarrow> 'p setup_env \<Rightarrow> setup_args \<Rightarrow> 'p swtpm \<Rightarrow> int \<times> 'p swtpm" where
  "tpm12_manufacture h env a self =
     (if \<not> flag_set (sa_flags a) SETUP_CREATE_EK_F then (0, self)
      else case swtpm_tpm12_create_endorsement_keypair env self of
        (None, self) \<Rightarrow> (1, self)
      | (Some pubek, self) \<Rightarrow>
          (case (if flag_set (sa_flags a) SETUP_TAKEOWN_F
                 then tpm12_take_ownership h env (sa_flags a) (sa_ownerpass a) (sa_srkpass a) pubek self else (0, self)) of
             (ret, self) \<Rightarrow>
               if ret \<noteq> 0 then (ret, self)
               else if flag_set (sa_flags a) SETUP_EK_CERT_F
                 then tpm12_create_certs h env (sa_flags a) (sa_config_file a) (sa_certsdir a) (print_as_hex pubek)
                        (sa_vmid a) (sa_user_certsdir a) self
                 else (0, self)))"

definition init_tpm :: "'p setup_host \<Rightarrow> 'p setup_env \<Rightarrow> setup_args \<Rightarrow> 'p \<Rightarrow> int \<times> 'p swtpm" where
  "init_tpm h env a world =
     (let self = swtpm12_new (sa_prg_l a) (sa_state_path a) (sa_keyopt a) (h_logfile h) world
      in case swtpm_start env (h_logfile h) self of (ret, self) \<Rightarrow>
           if ret \<noteq> 0 then (ret, self)
           else case (case swtpm_tpm12_run_swtpm_bios env self of (ret, self) \<Rightarrow>
                  if ret \<noteq> 0 then (ret, self)
                  else case tpm12_manufacture h env a self of (ret, self) \<Rightarrow>
                    if ret \<noteq> 0 then (ret, self)
                    else if flag_set (sa_flags a) SETUP_LOCK_NVRAM_F then swtpm_tpm12_nv_lock env self else (ret, self)) of
             (ret, self) \<Rightarrow> (ret, swtpm_destroy env self))"

subsection \<open>Existing state\<close>

text \<open>
  Whether existing state may be overwritten, from the exit status and the output of \<open>swtpm --print-states\<close> (\<open>None\<close> when it
  could not be run or failed): 0 go on, 1 an error, 2 end without an error.
\<close>

definition print_states_argv :: "'p setup_host \<Rightarrow> string list \<Rightarrow> u32 \<Rightarrow> string \<Rightarrow> string list" where
  "print_states_argv h swtpm_prg_l flags path =
     swtpm_prg_l @ [''--print-states'', ''--tpmstate'', ''backend-uri='' @ path] @
       (if flag_set flags SETUP_TPM2_F then [''--tpm2''] else []) @
       (case h_logfile h of None \<Rightarrow> [] | Some lf \<Rightarrow> [''--log'', ''file='' @ lf])"

definition check_state_overwrite :: "u32 \<Rightarrow> string option \<Rightarrow> int" where
  "check_state_overwrite flags output =
     (case output of
        None \<Rightarrow> 1
      | Some standard_output \<Rightarrow>
          if strstr TPM_PERMANENT_ALL_NAME standard_output \<noteq> None then
            (if flag_set flags SETUP_STATE_NOT_OVERWRITE_F then 2
             else if flag_set flags SETUP_STATE_OVERWRITE_F then 0 else 1)
          else 0)"

end
