(* ===== verification/SetupProps.thy ===== *)
theory SetupProps
  imports Setup Server
begin

section \<open>swtpm\_setup: properties of the flows\<close>

text \<open>
  Whatever the TPM, the host and the tools answer: the requests of a whole run are well formed for the server's reading functions, except those
  that write a long certificate into a TPM 1.2; the swtpm process that was started has ended at the end of a run, with one exception; and
  what the server sends and takes is what swtpm\_setup reads and gives.
\<close>

subsection \<open>Every request of a run is well formed\<close>

lemma on_world_talks [talking]: "talks a self \<Longrightarrow> talks a (snd (on_world f self))"
  by (auto simp: on_world_def talks_def split: prod.split)

lemma unlink_talks [talking]: "talks a self \<Longrightarrow> talks a (unlink_file h name self)"
  by (simp add: unlink_file_def talks_def)

lemma talks_case2 [talking]:
  "talks self (snd r) \<Longrightarrow> (\<And>x y s. talks self s \<Longrightarrow> talks self (snd (g x y s))) \<Longrightarrow> talks self (snd (case r of ((x, y), s) \<Rightarrow> g x y s))"
  by (auto split: prod.split)

lemma talks_case3:
  "talks self (snd r) \<Longrightarrow> (\<And>x y z s. talks self s \<Longrightarrow> talks self (snd (g x y z s))) \<Longrightarrow>
   talks self (snd (case r of ((x, y, z), s) \<Rightarrow> g x y z s))"
  by (auto split: prod.split)

lemma specs_talks [talking]: "talks a self \<Longrightarrow> talks a (snd (tpm_get_specs_and_attributes h env self))"
  unfolding tpm_get_specs_and_attributes_def swtpm_ctrl_get_tpm_specs_and_attrs_def
  by (intro talking)

lemma run_certs_tool_talks [talking]:
  "talks a self \<Longrightarrow> talks a (snd (run_certs_tool h cert_flags cmd ftcs self))"
proof (induction ftcs arbitrary: self)
  case (Cons ftc ftcs)
  show ?case unfolding run_certs_tool.simps by (intro talking Cons)
qed simp

lemma call_create_certs_talks [talking]:
  "talks a self \<Longrightarrow> talks a (snd (call_create_certs h env flags cert_flags config certsdir key_params vmid serial self))"
  unfolding call_create_certs_def Let_def by (intro talking)

lemma certfile_talks [talking]:
  "talks a self \<Longrightarrow> talks a (snd (certfile_move_or_delete h flags preserve certname dir key_type descr self))"
  unfolding certfile_move_or_delete_def Let_def by (intro talking)

lemma persist_talks [talking]:
  "talks a self \<Longrightarrow>
   talks a (snd (tpm2_persist_certificate h env flags certsdir ftc algo param dir key_type descr ecd self))"
proof -
  have c: "talks a s \<Longrightarrow> talks a (snd (persist_cert env flags ftc algo param content s))" for s content
    unfolding persist_cert_def Let_def by (intro talking)
  have v: "(\<And>x y. talks a (snd (g x y))) \<Longrightarrow> talks a (snd (case v of (x, y) \<Rightarrow> g x y))" for v :: "int \<times> ek_certificate_data option" and g
    by (cases v) simp
  show "talks a self \<Longrightarrow> ?thesis"
    unfolding tpm2_persist_certificate_def Let_def by (intro talking v c)
qed

lemma persist_loop_talks [talking]:
  "talks a self \<Longrightarrow>
   talks a (snd (persist_loop h env flags cert_flags certsdir algo param dir descr ftcs ecd self))"
proof (induction ftcs arbitrary: ecd self)
  case (Cons ftc ftcs)
  show ?case unfolding persist_loop.simps Let_def by (intro talking Cons)
qed simp

lemma ek_and_cert_talks [talking]:
  "talks a self \<Longrightarrow> talks a (snd (tpm2_create_ek_and_cert h env flags config certsdir vmid algo param dir ecd self))"
  unfolding tpm2_create_ek_and_cert_def Let_def by (intro talks_case3 talking)

lemma eks_and_certs_talks [talking]:
  "talks a self \<Longrightarrow> talks a (snd (tpm2_create_eks_and_certs h env flags config certsdir vmid ek1 ek2 dir ecd self))"
  unfolding tpm2_create_eks_and_certs_def Let_def by (intro talking)

lemma serial_num_talks [talking]: "talks a self \<Longrightarrow> talks a (snd (tpm2_create_tpm_serial_num h env ecd self))"
  unfolding tpm2_create_tpm_serial_num_def Let_def by (intro talking)

lemma iak_idevid_loop_talks [talking]:
  "talks a self \<Longrightarrow>
   talks a (snd (iak_idevid_loop h env flags cert_flags config certsdir vmid iak idevid dir serial ftcs self))"
proof (induction ftcs arbitrary: self)
  case (Cons ftc ftcs)
  have v: "(\<And>x y. talks a (snd (g x y))) \<Longrightarrow> talks a (snd (case v of (x, y) \<Rightarrow> g x y))" for v :: "keyalgo \<times> nat" and g
    by (cases v) simp
  show ?case unfolding iak_idevid_loop.simps Let_def by (intro v talks_case3 talking Cons)
qed simp

lemma iak_idevid_talks [talking]:
  "talks a self \<Longrightarrow>
   talks a (snd (tpm2_create_iak_idevid_and_certs h env flags config certsdir vmid iak idevid dir ecd self))"
  unfolding tpm2_create_iak_idevid_and_certs_def Let_def by (intro talking)

lemma activate_talks [talking]: "talks a self \<Longrightarrow> talks a (snd (tpm2_activate_pcr_banks env banks self))"
  unfolding tpm2_activate_pcr_banks_def by (intro talking)

lemma log_active_profile_talks [talking]: "talks a self \<Longrightarrow> talks a (snd (log_active_profile env self))"
  unfolding log_active_profile_def Let_def by (intro talking)

lemma tpm2_manufacture_talks [talking]: "talks a self \<Longrightarrow> talks a (snd (tpm2_manufacture h env args self))"
  unfolding tpm2_manufacture_def Let_def by (intro talking)

text \<open>
  For a TPM 1.2 a certificate is written in one request, whatever its size: with more than 4074 bytes the request does not fit into the
  server's buffer. \<open>talks12\<close> is \<open>talks\<close> with such requests allowed.
\<close>

definition nv_write_value_req :: "u32 \<Rightarrow> bytes \<Rightarrow> bytes" where
  "nv_write_value_req nvindex data =
     tpm_request TPM_TAG_RQU_COMMAND TPM_ORD_NV_WRITE_VALUE [htobe32 nvindex @ htobe32 0 @ htobe32 (of_nat (length data)), data]"

definition long_write :: "bool \<times> bytes \<Rightarrow> bool" where
  "long_write r \<longleftrightarrow> (\<exists>nvindex data. 4074 < length data \<and> r = (False, nv_write_value_req nvindex data))"

lemma nv_write_value_sent:
  "sw_sent (snd (swtpm_tpm12_nv_write_value env self nvindex data)) = sw_sent self @ [(False, nv_write_value_req nvindex data)]"
  by (simp add: swtpm_tpm12_nv_write_value_def nv_write_value_req_def simple_cmd_sent)

lemma long_write_not_ok:
  assumes "long_write r"
  shows "\<not> request_ok r"
proof -
  obtain nvindex data where r: "4074 < length data" "r = (False, nv_write_value_req nvindex data)"
    using assms by (auto simp: long_write_def)
  then have "4096 < length (nv_write_value_req nvindex data)"
    by (simp add: nv_write_value_req_def tpm_request_def memconcat_def Let_def)
  then show ?thesis
    using r(2) by (auto simp: request_ok.simps SWTPM_IO_Read_def Let_def dest: arg_cong [where f = length])
qed

definition talks12 :: "'p swtpm \<Rightarrow> 'p swtpm \<Rightarrow> bool" where
  "talks12 self self' \<longleftrightarrow>
     (\<exists>rs. list_all (\<lambda>r. request_ok r \<or> long_write r) rs \<and> sw_sent self' = sw_sent self @ rs) \<and> sw_pid self' = sw_pid self"

lemma talks_talks12: "talks self self' \<Longrightarrow> talks12 self self'"
  by (fastforce simp: talks_def talks12_def list_all_iff)

lemma talks12_trans: "talks12 a b \<Longrightarrow> talks12 b c \<Longrightarrow> talks12 a c"
  by (fastforce simp: talks12_def)

lemma talks12_after: "talks12 a b \<Longrightarrow> talks b c \<Longrightarrow> talks12 a c"
  using talks12_trans talks_talks12 by blast

lemma talks12_bind:
  "talks12 self (snd x) \<Longrightarrow> (\<And>a s. talks12 self s \<Longrightarrow> talks12 self (snd (g a s))) \<Longrightarrow> talks12 self (snd (case x of (a, s) \<Rightarrow> g a s))"
  by (cases x) simp

lemma nv_write_value_talks12: "talks12 self (snd (swtpm_tpm12_nv_write_value env self nvindex data))"
proof (cases "length data \<le> 4074")
  case True
  then show ?thesis
    unfolding swtpm_tpm12_nv_write_value_def by (intro talks_talks12 simple_cmd_talks) simp
next
  case False
  then have "long_write (False, nv_write_value_req nvindex data)" unfolding long_write_def not_le by blast
  moreover have "sw_pid (snd (swtpm_tpm12_nv_write_value env self nvindex data)) = sw_pid self"
    by (simp add: swtpm_tpm12_nv_write_value_def simple_cmd_def transfer_def split: prod.split)
  ultimately show ?thesis by (simp add: talks12_def nv_write_value_sent)
qed

lemma write_cert12_talks12:
  "talks12 self (snd (swtpm_tpm12_write_ek_cert_nvram env self data))"
  "talks12 self (snd (swtpm_tpm12_write_platform_cert_nvram env self data))"
proof -
  have "talks12 self (snd (tpm12_write_cert env self i data))" for i
    unfolding tpm12_write_cert_def
    by (intro talks12_bind talks_talks12 [OF tpm12_small_talks(4)])
      (auto simp: split_beta intro: talks12_trans nv_write_value_talks12)
  then show "talks12 self (snd (swtpm_tpm12_write_ek_cert_nvram env self data))"
    "talks12 self (snd (swtpm_tpm12_write_platform_cert_nvram env self data))"
    by (simp_all add: swtpm_tpm12_write_ek_cert_nvram_def swtpm_tpm12_write_platform_cert_nvram_def)
qed

lemma tpm12_certs_loop_talks12: "talks12 self (snd (tpm12_certs_loop h env flags cert_flags certsdir dir ftcs self))"
proof (induction ftcs arbitrary: self)
  case (Cons ftc ftcs)
  have rd: "talks12 self (snd (on_world (h_read_file h n) self))" for n
    by (intro talks_talks12 talking)
  have u: "talks12 a s \<Longrightarrow> talks12 a (unlink_file h n s)" for a s n
    by (erule talks12_after) (intro talking)
  have m: "talks12 a s \<Longrightarrow> talks12 a (snd (certfile_move_or_delete h flags p n dir kt ds s))" for a s p n kt ds
    by (erule talks12_after) (intro talking)
  have l: "talks12 a s \<Longrightarrow> talks12 a (snd (tpm12_certs_loop h env flags cert_flags certsdir dir ftcs s))" for a s
    by (erule talks12_trans) (rule Cons.IH)
  show ?case
    unfolding tpm12_certs_loop.simps Let_def
    by (auto simp: Cons.IH intro!: talks12_bind rd u m l talks12_trans [OF _ write_cert12_talks12(1)]
        talks12_trans [OF _ write_cert12_talks12(2)] split: option.split)
qed (simp add: talks12_def)

lemma tpm12_manufacture_talks12: "talks12 self (snd (tpm12_manufacture h env args self))"
proof -
  have c: "talks12 s (snd (tpm12_create_certs h env flags config certsdir ekparam vmid dir s))" for s flags config certsdir ekparam vmid dir
    unfolding tpm12_create_certs_def Let_def
    by (auto simp: split_beta intro: talks_talks12 [OF call_create_certs_talks [OF talks_refl]] talks12_trans tpm12_certs_loop_talks12)
  have e: "talks12 self (snd (swtpm_tpm12_create_endorsement_keypair env self))"
    by (intro talks_talks12 talking)
  have o: "talks12 a s \<Longrightarrow> talks12 a (snd (tpm12_take_ownership h env flags op sp pubek s))" for a s flags op sp pubek
    unfolding tpm12_take_ownership_def by (erule talks12_after) (intro talking)
  have c': "talks12 a s \<Longrightarrow> talks12 a (snd (tpm12_create_certs h env flags config certsdir ekparam vmid dir s))"
    for a s flags config certsdir ekparam vmid dir
    by (erule talks12_trans) (rule c)
  show ?thesis
    unfolding tpm12_manufacture_def
    by (auto simp: talks_talks12 intro!: talks12_bind e o c' split: option.split)
qed

text \<open>With certificates that fit every request is well formed.\<close>

definition small_certs :: "'p setup_host \<Rightarrow> bool" where
  "small_certs h \<longleftrightarrow> (\<forall>name p content. fst (h_read_file h name p) = Some content \<longrightarrow> length content \<le> 4074)"

lemma talks_read_cert:
  assumes "small_certs h" "talks a self" "\<And>s. talks a s \<Longrightarrow> talks a (snd (x s))"
    and "\<And>c s. talks a s \<Longrightarrow> length c \<le> 4074 \<Longrightarrow> talks a (snd (f c s))"
  shows "talks a (snd (case on_world (h_read_file h name) self of (v, s) \<Rightarrow> (case v of None \<Rightarrow> x s | Some c \<Rightarrow> f c s)))"
  using assms on_world_talks [OF assms(2), of "h_read_file h name"]
  by (auto simp: small_certs_def on_world_def split_beta split: option.split)

lemma tpm12_certs_loop_talks [talking]:
  assumes "small_certs h"
  shows "talks a self \<Longrightarrow> talks a (snd (tpm12_certs_loop h env flags cert_flags certsdir dir ftcs self))"
proof (induction ftcs arbitrary: self)
  case (Cons ftc ftcs)
  show ?case unfolding tpm12_certs_loop.simps Let_def by (intro talks_read_cert talking Cons assms)
qed simp

lemma tpm12_create_certs_talks [talking]:
  "small_certs h \<Longrightarrow> talks a self \<Longrightarrow> talks a (snd (tpm12_create_certs h env flags config certsdir ekparam vmid dir self))"
  unfolding tpm12_create_certs_def Let_def by (intro talking)

lemma tpm12_manufacture_talks [talking]:
  "small_certs h \<Longrightarrow> talks a self \<Longrightarrow> talks a (snd (tpm12_manufacture h env args self))"
  unfolding tpm12_manufacture_def tpm12_take_ownership_def by (intro talking)

text \<open>Starting and stopping.\<close>

definition well_sent :: "'p swtpm \<Rightarrow> bool" where
  "well_sent self \<longleftrightarrow> list_all request_ok (sw_sent self)"

lemma talks_well_sent: "talks self self' \<Longrightarrow> well_sent self \<Longrightarrow> well_sent self'"
  by (auto simp: talks_def well_sent_def)

definition long_sent :: "'p swtpm \<Rightarrow> bool" where
  "long_sent self \<longleftrightarrow> list_all (\<lambda>r. request_ok r \<longleftrightarrow> \<not> long_write r) (sw_sent self)"

lemma well_sent_long: "well_sent self \<Longrightarrow> long_sent self"
  using long_write_not_ok by (auto simp: well_sent_def long_sent_def list_all_iff)

lemma talks12_long_sent: "talks12 self self' \<Longrightarrow> long_sent self \<Longrightarrow> long_sent self'"
  using long_write_not_ok by (fastforce simp: talks12_def long_sent_def list_all_iff)

lemma close_comm_keeps [simp]:
  "sw_sent (swtpm_close_comm env self all) = sw_sent self" "sw_pid (swtpm_close_comm env self all) = sw_pid self"
  by (simp_all add: swtpm_close_comm_def split_beta Let_def)


lemma stop_facts:
  "well_sent self \<Longrightarrow> well_sent (swtpm_stop env self)" "0 \<le> sw_pid self \<Longrightarrow> sw_pid (swtpm_stop env self) = 0"
  "sw_pid self \<le> 0 \<Longrightarrow> sw_sent (swtpm_stop env self) = sw_sent self \<and> sw_pid (swtpm_stop env self) = sw_pid self"
  using talks_well_sent [OF ctrl_shutdown_talks, of self env]
  by (auto simp: swtpm_stop_def well_sent_def Let_def split_beta)

lemma long_sent_stop: "long_sent self \<Longrightarrow> long_sent (swtpm_stop env self)"
  using talks12_long_sent [OF talks_talks12 [OF ctrl_shutdown_talks], of self env]
  by (auto simp: swtpm_stop_def long_sent_def Let_def split_beta)

lemma long_sent_ops:
  "long_sent self \<Longrightarrow> long_sent (snd (tpm12_manufacture h env args self))"
  "long_sent self \<Longrightarrow> long_sent (snd (swtpm_tpm12_run_swtpm_bios env self))"
  "long_sent self \<Longrightarrow> long_sent (snd (swtpm_tpm12_nv_lock env self))"
proof -
  have t: "talks12 self (snd (swtpm_tpm12_run_swtpm_bios env self))" "talks12 self (snd (swtpm_tpm12_nv_lock env self))"
    by (intro talks_talks12 talking)+
  show "long_sent self \<Longrightarrow> long_sent (snd (tpm12_manufacture h env args self))"
    "long_sent self \<Longrightarrow> long_sent (snd (swtpm_tpm12_run_swtpm_bios env self))"
    "long_sent self \<Longrightarrow> long_sent (snd (swtpm_tpm12_nv_lock env self))"
    using talks12_long_sent t tpm12_manufacture_talks12 by blast+
qed

lemma start_end_facts [simp]:
  "fst (start_end env name ret self) = ret" "sw_sent (snd (start_end env name ret self)) = sw_sent self"
  "sw_pid (snd (start_end env name ret self)) = sw_pid self"
  by (simp_all add: start_end_def Let_def)

lemma start_sent: "sw_sent (snd (swtpm_start env logfile self)) = sw_sent self"
  by (auto simp: swtpm_start_def Let_def stop_facts(3) split: prod.split option.split bool.split)

lemma new_sent [simp]: "sw_sent (swtpm2_new a b c d e f g w) = []" "sw_sent (swtpm12_new a b c d w) = []"
  by (simp_all add: swtpm2_new_def swtpm12_new_def swtpm_init_def)

text \<open>
  C20. Every request of a whole run on a TPM 2 is well formed, whatever the peer, the tools and the host answer: the server's
  reading functions take each control command and each TPM command as exactly one request and its size field is right. On a
  TPM 1.2 the requests that are not are exactly those which write more than 4074 bytes with TPM\_NV\_WriteValue, since a certificate is
  written in one command whatever its size; when no certificate file is larger than 4074 bytes there are none.
\<close>

theorem setup_requests_well_formed:
  "list_all request_ok (sw_sent (snd (init_tpm2 h env args world))) \<and>
   list_all (\<lambda>r. request_ok r \<longleftrightarrow> \<not> long_write r) (sw_sent (snd (init_tpm h env args world))) \<and>
   (small_certs h \<longrightarrow> list_all request_ok (sw_sent (snd (init_tpm h env args world))))"
proof -
  have s2: "well_sent (snd (swtpm_start env l (swtpm2_new a b c d e f g world)))" for a b c d e f g l
    by (simp add: well_sent_def start_sent)
  have s1: "well_sent (snd (swtpm_start env l (swtpm12_new a b c d world)))" for a b c d l
    by (simp add: well_sent_def start_sent)
  have d: "well_sent self \<Longrightarrow> well_sent (swtpm_destroy env self)" for self
    by (simp add: swtpm_destroy_def stop_facts)
  have m2: "well_sent self \<Longrightarrow> well_sent (snd (tpm2_manufacture h env args self))"
      "well_sent self \<Longrightarrow> well_sent (snd (tpm2_activate_pcr_banks env banks self))"
      "well_sent self \<Longrightarrow> well_sent (snd (swtpm_tpm2_shutdown env self))" for self banks
    by (meson talks_well_sent talking)+
  have m1: "small_certs h \<Longrightarrow> well_sent self \<Longrightarrow> well_sent (snd (tpm12_manufacture h env args self))"
      "well_sent self \<Longrightarrow> well_sent (snd (swtpm_tpm12_run_swtpm_bios env self))"
      "well_sent self \<Longrightarrow> well_sent (snd (swtpm_tpm12_nv_lock env self))" for self
    by (meson talks_well_sent talking)+
  have "well_sent (snd (init_tpm2 h env args world))"
    unfolding init_tpm2_def Let_def using s2
    by (auto simp: split_beta d m2 split: sum.split)
  moreover have "small_certs h \<Longrightarrow> well_sent (snd (init_tpm h env args world))"
    unfolding init_tpm_def Let_def using s1
    by (auto simp: split_beta d m1)
  moreover have "long_sent (snd (init_tpm h env args world))"
    unfolding init_tpm_def Let_def using s1
    by (auto simp: split_beta long_sent_stop long_sent_ops well_sent_long swtpm_destroy_def)
  ultimately show ?thesis by (simp add: well_sent_def long_sent_def)
qed

subsection \<open>The swtpm process at the end of a run\<close>

definition spawns_pids :: "'p setup_env \<Rightarrow> bool" where
  "spawns_pids env \<longleftrightarrow> (\<forall>argv p pid. fst (env_spawn env argv p) = Some pid \<longrightarrow> 0 < pid)"



lemma start_ok_pid:
  "spawns_pids env \<Longrightarrow> fst (swtpm_start env logfile self) = 0 \<Longrightarrow> 0 < sw_pid (snd (swtpm_start env logfile self))"
  by (auto simp: swtpm_start_def Let_def spawns_pids_def split: prod.splits option.splits bool.splits) (metis fst_conv)+





definition started :: "'p setup_host \<Rightarrow> 'p setup_env \<Rightarrow> setup_args \<Rightarrow> bool \<Rightarrow> 'p \<Rightarrow> int \<times> 'p swtpm" where
  "started h env a is_tpm2 world =
     swtpm_start env (h_logfile h)
       (if is_tpm2 then swtpm2_new (sa_prg_l a) (sa_state_path a) (sa_keyopt a) (h_logfile h) (sa_json_profile a)
            (sa_json_profile_fd a) (sa_remove_disabled a) world
        else swtpm12_new (sa_prg_l a) (sa_state_path a) (sa_keyopt a) (h_logfile h) world)"




text \<open>
  A start that fails because the pid file was not written in time, after 1000 looks, leaves the process: nothing stops it, only the sockets
  are closed.
\<close>

lemma start_timeout_leaves_swtpm:
  assumes "env_mkstemp env (sw_peer self) = (Some pidname, p1)" "env_socketpair env p1 = (Some ctrl, p2)"
    and "env_socketpair env p2 = (Some data, p3)" "wait_pidfile env pid 1000 p4 = (None, p5)"
    and "env_spawn env (start_argv self logfile pidname @ server_argv (snd data) (snd ctrl)) p3 = (Some pid, p4)"
  shows "fst (swtpm_start env logfile self) = 1 \<and> sw_pid (snd (swtpm_start env logfile self)) = pid \<and>
    sw_sent (snd (swtpm_start env logfile self)) = sw_sent self"
  unfolding swtpm_start_def using assms by (simp add: Let_def)

text \<open>
  The exception: when the active profile cannot be read or has not the expected format, \<open>init_tpm2\<close> returns an error and leaves
  the swtpm process it started running, with its sockets open.
\<close>

theorem profile_error_leaves_swtpm:
  assumes "spawns_pids env" "fst (started h env args True world) = 0" "\<not> flag_set (sa_flags args) SETUP_RECONFIGURE_F"
    and "fst (log_active_profile env (snd (started h env args True world))) \<noteq> 0"
  shows "fst (init_tpm2 h env args world) \<noteq> 0 \<and> 0 < sw_pid (snd (init_tpm2 h env args world)) \<and>
    sw_ctrl_fds (snd (init_tpm2 h env args world)) = sw_ctrl_fds (snd (started h env args True world))"
proof -
  define s where "s = snd (started h env args True world)"
  have pid: "0 < sw_pid s" using start_ok_pid [OF assms(1)] assms(2) unfolding s_def started_def by blast
  have "init_tpm2 h env args world = log_active_profile env s"
    using assms(2-4) unfolding init_tpm2_def started_def s_def tpm2_manufacture_def by (simp add: split_beta Let_def)
  moreover have "talks s (snd (log_active_profile env s))" by (intro talking)
  ultimately show ?thesis using assms(4) pid by (simp add: s_def talks_def)
qed

text \<open>A host without files and tools, arguments, and a swtpm that never answers, for the examples.\<close>

definition example_host :: "'p setup_host" where
  "example_host =
     \<lparr>h_read_file = (\<lambda>name p. (None, p)), h_read_text = (\<lambda>name p. (None, p)), h_write_file = (\<lambda>name content p. (False, p)),
      h_chmod = (\<lambda>name p. (False, p)), h_unlink = (\<lambda>name p. p), h_find_program = (\<lambda>name. None), h_run = (\<lambda>argv p. (False, p)),
      h_getenv = (\<lambda>name. None), h_json = (\<lambda>json. None), h_x509 = (\<lambda>cert. None),
      h_crypto = \<lparr>rsa_public_ok = (\<lambda>m. False), rsa_encrypt = (\<lambda>m n d. None), sha1_digest = (\<lambda>d. replicate 20 0),
        hmac_sha1 = (\<lambda>k d. replicate 20 0)\<rparr>,
      h_garbage = '''', h_logfile = None\<rparr>"

definition example_args :: "u32 \<Rightarrow> setup_args" where
  "example_args flags =
     \<lparr>sa_flags = flags, sa_prg_l = [''swtpm'', ''socket''], sa_config_file = ''swtpm_setup.conf'', sa_state_path = ''dir:///tmp'',
      sa_vmid = None, sa_pcr_banks = ''-'', sa_keyopt = None, sa_ek1 = (KEYALGO_RSA, 2048), sa_ek2 = (KEYALGO_ECC, 4),
      sa_iak = (KEYALGO_NONE, 0), sa_idevid = (KEYALGO_NONE, 0), sa_certsdir = ''/tmp'', sa_user_certsdir = None,
      sa_json_profile = None, sa_json_profile_fd = -1, sa_remove_disabled = None, sa_ownerpass = None, sa_srkpass = None\<rparr>"

definition silent_env :: "unit setup_env" where
  "silent_env = (example_tpm example_iak (RsaKey []) 0)\<lparr>env_exchange := \<lambda>use_ctrl req t p. (Exchange (Some (length req)) False None, p)\<rparr>"


lemma wait_one:
  "fst (env_alive env pid p) \<Longrightarrow> fst (env_pidfile_written env (snd (env_alive env pid p))) \<Longrightarrow> 0 < n \<Longrightarrow>
   wait_pidfile env pid n p = (Some True, snd (env_pidfile_written env (snd (env_alive env pid p))))"
  by (cases n) (auto simp: split_beta)

lemma example_started:
  "spawns_pids silent_env" "fst (started example_host silent_env (example_args f) b ()) = 0" "small_certs example_host"
  by (simp_all add: spawns_pids_def started_def silent_env_def example_tpm_def swtpm_start_def example_host_def small_certs_def start_end_def
      Let_def swtpm2_new_def swtpm12_new_def swtpm_init_def wait_one)

lemma flag_examples: "flag_set SETUP_RECONFIGURE_F SETUP_RECONFIGURE_F" "\<not> flag_set 0 SETUP_RECONFIGURE_F"
  by (simp_all add: flag_set_def)



theorem profile_error_leaves_swtpm_witness:
  "0 < sw_pid (snd (init_tpm2 example_host silent_env (example_args 0) ()))"
proof -
  have "fst (log_active_profile silent_env self) \<noteq> 0" for self
    by (simp add: log_active_profile_def swtpm_tpm2_get_active_profile_def do_cmd_get_info_def transfer_def silent_env_def Let_def)
  then show ?thesis
    using profile_error_leaves_swtpm [OF example_started(1) example_started(2), of 0] flag_examples by (simp add: example_args_def)
qed

theorem setup_requests_well_formed_witness:
  "list_all request_ok (sw_sent (snd (init_tpm example_host silent_env (example_args 0) ())))"
  using setup_requests_well_formed [of example_host silent_env "example_args 0" "()"] example_started(3) by blast

subsection \<open>swtpm\_setup and the server\<close>

text \<open>
  What swtpm\_setup learns from CMD\_GET\_INFO is what the server has: against the server's own \<open>cmd_get_info\<close> the result is the
  information from libtpms up to its first 3072 bytes. The answer says that there is more, but \<open>do_cmd_get_info\<close> does not ask for it.
\<close>

theorem get_info_from_server:
  assumes "\<forall>body t p. length body = 16 \<longrightarrow> fst (env_exchange env True (htobe32 CMD_GET_INFO @ body) t p) =
      Exchange (Some 20) True (Some (cmd_get_info d c body))"
    and "TPMLIB_GetInfo (d_lib d) (w_lib (c_world c)) info_flags = Some info" "info \<noteq> []" "0 \<notin> set info" "length info < 2 ^ 31"
  shows "fst (do_cmd_get_info env self info_flags) = Some (take 3072 info)"
proof -
  let ?body = "htobe64 info_flags @ htobe32 0 @ htobe32 0"
  let ?req = "htobe32 CMD_GET_INFO @ htobe64 info_flags @ htobe32 0 @ htobe32 0"
  define len where "len = min (length info + 1) 3072"
  define ans where "ans = htobe32 0 @ htobe32 (of_nat (length info + 1)) @ htobe32 (of_nat len) @ take len (info @ [0])"
  have x: "fst (env_exchange env True ?req CMD_DURATION_SHORT (sw_peer self)) = Exchange (Some 20) True (Some ans)"
    using assms(1) [rule_format, of ?body] assms(2,3)
    by (simp add: cmd_get_info_def mem_read_def Let_def ans_def len_def)
  have l: "length ans = 12 + len" "len \<le> 3072" by (simp_all add: ans_def len_def)
  have r: "mem_read ans 0 4 = htobe32 0" "mem_read ans 8 4 = htobe32 (of_nat len)" "drop 12 ans = take len (info @ [0])"
    by (simp_all add: ans_def mem_read_def)
  have u: "unat (of_nat len :: u32) = len" "unat (12 + of_nat len :: u32) = 12 + len"
    using l(2) by (simp_all add: unsigned_of_nat take_bit_nat_eq_self unat_word_ariths)
  have t: "fst (transfer env self ?req True (Some 16384) CMD_DURATION_SHORT) = (0, ans)"
    using x l r by (simp add: transfer_def split_beta Let_def)
  have "takeWhile (\<lambda>b. b \<noteq> 0) (take len (take len (info @ [0]) @ env_behind env)) = take 3072 info"
  proof (cases "length info + 1 \<le> 3072")
    case True
    then have "take len (info @ [0]) = info @ [0]" "len = length (info @ [0])" by (simp_all add: len_def)
    moreover have "\<forall>x\<in>set info. x \<noteq> 0" using assms(4) by auto
    ultimately show ?thesis using True by simp
  next
    case False
    then have "take len (take len (info @ [0]) @ env_behind env) = take 3072 info" by (simp add: len_def)
    moreover have "takeWhile (\<lambda>b. b \<noteq> 0) (take 3072 info) = take 3072 info"
    proof -
      have "\<forall>x\<in>set (take 3072 info). x \<noteq> 0" using assms(4) set_take_subset [of 3072 info] by blast
      then show ?thesis by (simp only: takeWhile_eq_all_conv)
    qed
    ultimately show ?thesis by simp
  qed
  then show ?thesis using t l r u
    by (simp add: do_cmd_get_info_def Let_def split_beta)
qed

theorem get_info_from_server_witness:
  "fst (do_cmd_get_info (silent_env\<lparr>env_exchange := \<lambda>c req t p. (Exchange (Some 20) True
       (Some (cmd_get_info example_deps
          (example_ctrl TPMLIB_TPM_VERSION_2 0 True []) (drop 4 req))), p)\<rparr>) example_swtpm 1) = Some [0x7b, 0x7d]"
  using get_info_from_server [of "silent_env\<lparr>env_exchange := \<lambda>c req t p. (Exchange (Some 20) True
       (Some (cmd_get_info example_deps
          (example_ctrl TPMLIB_TPM_VERSION_2 0 True []) (drop 4 req))), p)\<rparr>"
      example_deps "example_ctrl TPMLIB_TPM_VERSION_2 0 True []"
      1 "[0x7b, 0x7d]" example_swtpm]
  by (simp add: example_deps_def example_lib_def)

text \<open>
  The option for the state that swtpm\_setup gives swtpm is understood by swtpm's option parser: for a path that is a legal option value, swtpm
  uses exactly this path and locks the storage.
\<close>

theorem setup_state_option_understood:
  assumes "opt_value_ok path" "sw_state_path self = path"
    and "\<forall>n. opt_alloc (ce_opt env) n" "\<forall>s. ce_strdup env s"
  shows "start_argv self logfile pidname ! (length (sw_exec_l self) + 2) = ''--tpmstate'' \<and>
    handle_tpmstate_options env ts (Some (start_argv self logfile pidname ! (length (sw_exec_l self) + 3))) =
      (0, ts\<lparr>g_backend_uri := Some path, g_tpmstate_mode := 416, g_tpmstate_mode_is_default := True, g_tpmstate_do_locking := True,
             g_tpmstate_make_backup := False, g_tpmstate_do_fsync := False\<rparr>)"
proof -
  let ?ws = "[(tpmstate_opt_desc ! 2, Some path), (tpmstate_opt_desc ! 3, None)]"
  have argv: "\<exists>rest. start_argv self logfile pidname = sw_exec_l self @
      [''--flags'', ''not-need-init,startup-clear'', ''--tpmstate'', ''backend-uri='' @ path @ '',lock''] @ rest"
    using assms(2) by (auto simp: start_argv_def Let_def split: option.split)
  have w: "write_options ?ws = ''backend-uri='' @ path @ '',lock''"
    by (simp add: tpmstate_opt_desc_def desc_def)
  have "options_parse (ce_opt env) (write_options ?ws) tpmstate_opt_desc = typed_values (ce_opt env) ?ws"
    using parse_written [of tpmstate_opt_desc "ce_opt env" ?ws "[]"] assms(1,3)
    by (simp add: options_parse_def sum.map_id0 [unfolded id_def] id_def tpmstate_opt_desc_def desc_def opt_name_ok_def)
  moreover have "typed_values (ce_opt env) ?ws =
      Inr [\<lparr>o_name = ''backend-uri'', o_value = OptString path\<rparr>, \<lparr>o_name = ''lock'', o_value = OptBool True\<rparr>]"
    using assms(3) by (simp add: tpmstate_opt_desc_def desc_def written_value_def option_value_parse_def strcaseeq_def)
  ultimately have p: "options_parse (ce_opt env) (''backend-uri='' @ path @ '',lock'') tpmstate_opt_desc =
      Inr [\<lparr>o_name = ''backend-uri'', o_value = OptString path\<rparr>, \<lparr>o_name = ''lock'', o_value = OptBool True\<rparr>]"
    unfolding w by simp
  have "handle_tpmstate_options env ts (Some (''backend-uri='' @ path @ '',lock'')) =
      (0, ts\<lparr>g_backend_uri := Some path, g_tpmstate_mode := 416, g_tpmstate_mode_is_default := True, g_tpmstate_do_locking := True,
             g_tpmstate_make_backup := False, g_tpmstate_do_fsync := False\<rparr>)"
    unfolding handle_tpmstate_options_def parse_tpmstate_options_def option.case p using assms(4)
    by (simp add: option_get_mode_t_def option_get_string_def option_get_bool_def tpmstate_set_backend_uri_def Let_def)
  then show ?thesis using argv by (auto simp: nth_append)
qed

theorem setup_state_option_understood_witness:
  "handle_tpmstate_options (example_common (\<lambda>f. None)) (example_settings False)
     (Some (start_argv example_swtpm None ''/tmp/pid'' ! 5)) =
   (0, (example_settings False)\<lparr>g_backend_uri := Some ''dir:///tmp'', g_tpmstate_mode := 416, g_tpmstate_mode_is_default := True,
      g_tpmstate_do_locking := True, g_tpmstate_make_backup := False, g_tpmstate_do_fsync := False\<rparr>)"
proof -
  have "length (sw_exec_l example_swtpm) = 2" "sw_state_path example_swtpm = ''dir:///tmp''"
    by (simp_all add: example_swtpm_def swtpm2_new_def swtpm_init_def)
  then show ?thesis
    using setup_state_option_understood [of "''dir:///tmp''" example_swtpm "example_common (\<lambda>f. None)" None "''/tmp/pid''" "example_settings False"]
    by (simp add: opt_value_ok_def example_common_def Options.example_env_def)
qed

text \<open>
  The length in an answer to CMD\_GET\_INFO is checked after adding 12 in 32 bits: an answer of twelve bytes with the length \<open>2\<^sup>3\<^sup>2 - 1\<close>
  passes, and bytes behind the answer are copied.
\<close>

lemma get_info_length_wraps:
  assumes "fst (env_exchange env True (htobe32 CMD_GET_INFO @ htobe64 info_flags @ htobe32 0 @ htobe32 0) CMD_DURATION_SHORT (sw_peer self)) =
      Exchange (Some 20) True (Some (htobe32 0 @ htobe32 n @ htobe32 (-1)))"
  shows "fst (do_cmd_get_info env self info_flags) = Some (takeWhile (\<lambda>b. b \<noteq> 0) (take (2 ^ 32 - 1) (env_behind env)))"
proof -
  let ?req = "htobe32 CMD_GET_INFO @ htobe64 info_flags @ htobe32 0 @ htobe32 0"
  define ans where "ans = htobe32 0 @ htobe32 n @ htobe32 (-1)"
  have a: "length ans = 12" "mem_read ans 0 4 = htobe32 0" "mem_read ans 8 4 = htobe32 (-1)" by (simp_all add: ans_def mem_read_def)
  have "fst (transfer env self ?req True (Some 16384) CMD_DURATION_SHORT) = (0, ans)"
    using assms a by (simp add: transfer_def split_beta Let_def ans_def [symmetric])
  moreover have "unat (12 + (-1) :: u32) = 11" "unat (-1 :: u32) = 2 ^ 32 - 1"
    by (simp_all add: unsigned_minus_1_eq_mask mask_eq_exp_minus_1)
  ultimately show ?thesis using a
    by (simp add: do_cmd_get_info_def Let_def split_beta)
qed

end
