(* ===== verification/Cuse.thy ===== *)
theory Cuse
  imports CtrlChannel
begin

section \<open>The CUSE interface (src/src/swtpm/cuse_tpm.c, threadpool.c)\<close>

text \<open>
  swtpm as a character device: a client opens the device, writes a command and reads the
  response, and controls the TPM with ioctls. Long commands run in a worker thread. The state is the
  file's static variables, its operations are the functions that FUSE calls; each gives the
  replies it sends, in order, so that "one reply per request" is a statement about the list.

  A handler runs under \<open>file_ops_lock\<close>, so it is one step; the worker thread is another. \<open>thread_busy\<close> says that
  a message for the worker is waiting or in work; \<open>worker_thread\<close> is what the worker then does, from reading
  \<open>ptm_req_len\<close> to \<open>worker_thread_mark_done\<close>. A handler that waits for the worker (\<open>worker_thread_wait_done\<close>) has
  the worker's step before its own. The structures of tpm_ioctl.h are in the order of a little endian host.

  A result \<open>None\<close> is undefined behaviour: a NULL pointer or memory behind a buffer is read, or written.
\<close>

subsection \<open>State\<close>

record stateblob_desc =
  cs_blobtype :: u32
  cs_decrypt :: bool
  cs_is_encrypted :: bool
  cs_data :: "bytes option"

record stateblob =
  sb_type :: byte
  sb_data :: "bytes option"
  sb_length :: u32
  sb_is_encrypted :: bool

datatype tx_state_type =
  TX_STATE_CLOSED | TX_STATE_RW_COMMAND | TX_STATE_SET_STATE_BLOB | TX_STATE_GET_STATE_BLOB

record transfer_state =
  tx_mode :: tx_state_type
  tx_blobtype :: u32
  tx_blob_is_encrypted :: bool
  tx_offset :: u32

record ('t, 's) cuse =
  cu_world :: "('t, 's) world"
  cu_tpmversion :: TPMLIB_TPMVersion
  ptm_request :: "bytes option"
  cu_resp :: response
  ptm_read_offset :: nat
  ptm_req_len :: u32
  cu_locality :: byte
  tpm_running :: bool
  cu_locality_flags :: u32
  g_lastCommand :: u32
  g_disable_auto_shutdown :: bool
  g_incoming_migration :: bool
  g_storage_locked :: bool
  g_release_lock_outgoing :: bool
  g_locking_retries :: u32
  g_json_profile :: "string option"
  cached_stateblob :: stateblob_desc
  tx_state :: transfer_state
  cu_stateblob :: stateblob
  thread_busy :: bool
  cu_pool :: bool
  cu_captured :: "(bytes \<times> bool) list"
  cu_exit :: bool

text \<open>
  The answers of the system: opening and creating the state directory, creating the thread
  pool, and what the stack holds where a structure is not initialized.
\<close>

record cuse_env =
  ce_opendir :: "string \<Rightarrow> bool"
  ce_mkdir :: "string \<Rightarrow> bool"
  ce_thread_pool_new :: bool
  ce_stack :: bytes

datatype fuse_reply =
    Reply_err int
  | Reply_open
  | Reply_buf bytes
  | Reply_write nat
  | Reply_ioctl bytes
  | Reply_ioctl_retry nat

abbreviation EIO :: int where "EIO \<equiv> 5"
abbreviation EBUSY :: int where "EBUSY \<equiv> 16"
abbreviation EINVAL :: int where "EINVAL \<equiv> 22"

abbreviation TPM_REQ_MAX :: nat where "TPM_REQ_MAX \<equiv> 4096"
abbreviation PTM_STATE_BLOB_SIZE :: nat where "PTM_STATE_BLOB_SIZE \<equiv> 3072"

text \<open>What the code records with \<open>pcap_packet_record_write\<close> here; \<open>True\<close> marks a command.\<close>

definition capture_packet :: "('t, 's) cuse \<Rightarrow> bytes \<Rightarrow> bool \<Rightarrow> ('t, 's) cuse" where
  "capture_packet c packet is_cmd = c\<lparr>cu_captured := cu_captured c @ [(packet, is_cmd)]\<rparr>"

definition response_bytes :: "response \<Rightarrow> bytes" where
  "response_bytes r = (case rbuffer r of None \<Rightarrow> [] | Some b \<Rightarrow> take (unat (rlength r)) b)"

definition set_tx :: "('t, 's) cuse \<Rightarrow> tx_state_type \<Rightarrow> ('t, 's) cuse" where
  "set_tx c st = c\<lparr>tx_state := (tx_state c)\<lparr>tx_mode := st\<rparr>\<rparr>"

definition cu_nv_upd :: "('t, 's) cuse \<Rightarrow> 's nvstate \<Rightarrow> ('t, 's) cuse" where
  "cu_nv_upd c nv = c\<lparr>cu_world := (cu_world c)\<lparr>w_nv := nv\<rparr>\<rparr>"

definition cu_lib_upd :: "('t, 's) cuse \<Rightarrow> 't \<Rightarrow> ('t, 's) cuse" where
  "cu_lib_upd c t = c\<lparr>cu_world := (cu_world c)\<lparr>w_lib := t\<rparr>\<rparr>"

subsection \<open>NVRAM locking\<close>

definition ensure_locked_storage :: "('t, 's) cuse \<Rightarrow> bool \<times> ('t, 's) cuse" where
  "ensure_locked_storage c =
     (if g_storage_locked c then (True, c)
      else case SWTPM_NVRAM_Lock_Storage (w_nv (cu_world c)) (unat (g_locking_retries c)) of
        (res, nv) \<Rightarrow>
          let c1 = cu_nv_upd c nv in
          if res = TPM_RETRY then (True, c1)
          else if res \<noteq> TPM_SUCCESS then (False, c1)
          else (True, c1\<lparr>g_storage_locked := True, g_incoming_migration := False, g_locking_retries := 0\<rparr>))"

definition unlock_nvram :: "'s nvram_backend_ops \<Rightarrow> ('t, 's) cuse \<Rightarrow> u32 \<Rightarrow> ('t, 's) cuse" where
  "unlock_nvram ops c retries =
     (cu_nv_upd c (SWTPM_NVRAM_Unlock ops (w_nv (cu_world c))))
       \<lparr>g_storage_locked := False, g_locking_retries := retries\<rparr>"

subsection \<open>The cached state blob\<close>

definition cached_stateblob_is_loaded :: "stateblob_desc \<Rightarrow> u32 \<Rightarrow> bool \<Rightarrow> bool" where
  "cached_stateblob_is_loaded s blobtype decrypt =
     (cs_data s \<noteq> None \<and> cs_blobtype s = blobtype \<and> cs_decrypt s = decrypt)"

definition cached_stateblob_free :: "('t, 's) cuse \<Rightarrow> ('t, 's) cuse" where
  "cached_stateblob_free c = c\<lparr>cached_stateblob := (cached_stateblob c)\<lparr>cs_data := None\<rparr>\<rparr>"

text \<open>\<open>data_length\<close> is the length of the data, and 0 without data.\<close>

definition cached_stateblob_get_bloblength :: "stateblob_desc \<Rightarrow> u32" where
  "cached_stateblob_get_bloblength s = (case cs_data s of None \<Rightarrow> 0 | Some d \<Rightarrow> of_nat (length d))"

definition cached_stateblob_get :: "stateblob_desc \<Rightarrow> u32 \<Rightarrow> bytes option" where
  "cached_stateblob_get s offset =
     (case cs_data s of
        None \<Rightarrow> None
      | Some d \<Rightarrow> if offset > cached_stateblob_get_bloblength s then None else Some (drop (unat offset) d))"

text \<open>
  \<open>SWTPM_NVRAM_GetStateBlob\<close> clears \<open>data\<close> and fills it in at the end; \<open>is_encrypted\<close> is read only while
  there are data.
\<close>

definition cached_stateblob_load ::
  "('t, 's) deps \<Rightarrow> ('t, 's) cuse \<Rightarrow> u32 \<Rightarrow> bool \<Rightarrow> (TPM_RESULT \<times> ('t, 's) cuse) option"
where
  "cached_stateblob_load d c blobtype decrypt =
     (case tpmlib_get_blobname blobtype of
        None \<Rightarrow> Some (TPM_BAD_PARAMETER, c)
      | Some blobname \<Rightarrow>
      let c1 = cached_stateblob_free c in
      case g_nvram_backend_ops (w_nv (cu_world c)) of
        None \<Rightarrow> None
      | Some ops \<Rightarrow>
          (case (if blobtype = PTM_BLOB_TYPE_VOLATILE
                 then SWTPM_NVRAM_Store_Volatile (d_crypto d) (nv_lib d) (w_lib (cu_world c)) ops (w_nv (cu_world c))
                 else (0, w_nv (cu_world c))) of (res, nv1) \<Rightarrow>
           case (if res \<noteq> 0 then Some (res, cached_stateblob c1, nv1)
                 else case SWTPM_NVRAM_GetStateBlob (d_crypto d) ops nv1 0 blobname decrypt of
                   (None, enc, nv2) \<Rightarrow> None
                 | (Some (Inl res2), enc, nv2) \<Rightarrow> Some (res2, cached_stateblob c1, nv2)
                 | (Some (Inr blob), enc, nv2) \<Rightarrow>
                     Some (0, \<lparr>cs_blobtype = blobtype, cs_decrypt = decrypt, cs_is_encrypted = enc,
                               cs_data = Some blob\<rparr>, nv2)) of
             None \<Rightarrow> None
           | Some (res2, cached, nv2) \<Rightarrow>
               let nv3 = (if blobtype = PTM_BLOB_TYPE_VOLATILE
                          then snd (SWTPM_NVRAM_DeleteName ops nv2 0 blobname False) else nv2);
                   c2 = (cu_nv_upd c1 nv3)\<lparr>cached_stateblob := cached\<rparr>
               in Some (res2, if blobtype = PTM_BLOB_TYPE_SAVESTATE
                              then unlock_nvram ops c2 DEFAULT_LOCKING_RETRIES else c2)))"

text \<open>The bytes copied to a buffer of \<open>destlen\<close> bytes, and whether the blob is encrypted.\<close>

definition cached_stateblob_copy :: "stateblob_desc \<Rightarrow> nat \<Rightarrow> u32 \<Rightarrow> bytes \<times> bool" where
  "cached_stateblob_copy s destlen srcoffset =
     (case cs_data s of
        None \<Rightarrow> ([], False)
      | Some d \<Rightarrow>
          if unat srcoffset < length d
          then (take (min (length d - unat srcoffset) destlen) (drop (unat srcoffset) d), cs_is_encrypted s)
          else ([], False))"

subsection \<open>The worker thread\<close>

text \<open>A response of libtpms in the response buffer.\<close>

definition process_into :: "('t, 's) deps \<Rightarrow> ('t, 's) cuse \<Rightarrow> bytes \<Rightarrow> TPM_RESULT \<times> ('t, 's) cuse" where
  "process_into d c command =
     (case lt_Process (base_lib d) (cu_world c) command of
        ((rc, rsp), w) \<Rightarrow>
          (rc, c\<lparr>cu_world := w, ptm_read_offset := 0,
                 cu_resp := \<lparr>rbuffer = Some rsp, rlength = of_nat (length rsp),
                             rTotal = max (rTotal (cu_resp c)) (of_nat (length rsp))\<rparr>\<rparr>))"

definition worker_thread :: "('t, 's) deps \<Rightarrow> ('t, 's) cuse \<Rightarrow> ('t, 's) cuse option" where
  "worker_thread d c =
     (case ptm_request c of
        None \<Rightarrow> None
      | Some b \<Rightarrow>
          if unat (ptm_req_len c) > length b then None
          else Some ((snd (process_into d c (take (unat (ptm_req_len c)) b)))\<lparr>thread_busy := False\<rparr>))"

definition worker_thread_wait_done :: "('t, 's) deps \<Rightarrow> ('t, 's) cuse \<Rightarrow> ('t, 's) cuse option" where
  "worker_thread_wait_done d c = (if thread_busy c then worker_thread d c else Some c)"

definition worker_thread_mark_busy :: "('t, 's) cuse \<Rightarrow> ('t, 's) cuse" where
  "worker_thread_mark_busy c = c\<lparr>thread_busy := True\<rparr>"

definition worker_thread_is_busy :: "('t, 's) cuse \<Rightarrow> bool" where
  "worker_thread_is_busy c = thread_busy c"

definition worker_thread_end :: "('t, 's) deps \<Rightarrow> ('t, 's) cuse \<Rightarrow> ('t, 's) cuse option" where
  "worker_thread_end d c =
     (if cu_pool c
      then (case worker_thread_wait_done d c of None \<Rightarrow> None | Some c1 \<Rightarrow> Some (c1\<lparr>cu_pool := False\<rparr>))
      else Some c)"

subsection \<open>Starting and stopping the TPM\<close>

text \<open>The directory is opened or created, then the pool, the request buffer and libtpms.\<close>

definition tpm_start ::
  "('t, 's) deps \<Rightarrow> cuse_env \<Rightarrow> ('t, 's) cuse \<Rightarrow> u32 \<Rightarrow> TPMLIB_TPMVersion \<Rightarrow> string option
     \<Rightarrow> (int \<times> TPM_RESULT \<times> ('t, 's) cuse) option"
where
  "tpm_start d e c flags version profile =
     (case tpmstate_get_backend_uri (nv_tpmstate (w_nv (cu_world c))) of (uri, ts) \<Rightarrow>
        let c1 = cu_nv_upd c ((w_nv (cu_world c))\<lparr>nv_tpmstate := ts\<rparr>) in
        if uri = None \<or> \<not> starts_with ''dir://'' (the uri) then Some (-1, TPM_FAIL, c1)
        else
          let tpmdir = drop 6 (the uri) in
          if \<not> ce_opendir e tpmdir \<and> \<not> ce_mkdir e tpmdir then Some (-1, TPM_FAIL, c1)
          else if \<not> ce_thread_pool_new e then Some (-1, TPM_FAIL, c1\<lparr>cu_pool := False\<rparr>)
          else if ptm_request c1 = None \<and> \<not> malloc_ok (d_crypto d) 4096
          then Some (-1, TPM_FAIL, c1\<lparr>cu_pool := False\<rparr>)
          else
            let c2 = c1\<lparr>cu_pool := True,
                        ptm_request := Some (case ptm_request c1 of Some b \<Rightarrow> b | None \<Rightarrow> replicate 4096 0),
                        g_storage_locked := \<not> g_incoming_migration c1\<rparr>
            in case tpmlib_start (base_lib d) (d_ossl d) (cu_world c2) flags version
                      (g_storage_locked c2) profile of
                 None \<Rightarrow> None
               | Some (res, w) \<Rightarrow>
                   if res \<noteq> TPM_SUCCESS then Some (-1, res, c2\<lparr>cu_world := w, cu_pool := False\<rparr>)
                   else Some (0, res, c2\<lparr>cu_world := w\<rparr>))"

definition tpm_end :: "('t, 's) deps \<Rightarrow> ('t, 's) cuse \<Rightarrow> ('t, 's) cuse option" where
  "tpm_end d c0 =
     (case worker_thread_end d c0 of
        None \<Rightarrow> None
      | Some c \<Rightarrow>
          let (w, lc) = (if tpm_running c \<and> \<not> g_disable_auto_shutdown c
                         then (case tpmlib_maybe_send_tpm2_shutdown (base_lib d) (cu_tpmversion c)
                                      (cu_world c) (g_lastCommand c) of (w, lc, sent) \<Rightarrow> (w, lc))
                         else (cu_world c, g_lastCommand c))
          in Some (c\<lparr>cu_world := w\<lparr>w_lib := lt_Terminate (d_lib d) (w_lib w)\<rparr>,
                     g_lastCommand := lc, tpm_running := False\<rparr>))"

definition ptm_write_fatal_error_response ::
  "('t, 's) deps \<Rightarrow> ('t, 's) cuse \<Rightarrow> TPMLIB_TPMVersion \<Rightarrow> ('t, 's) cuse"
where
  "ptm_write_fatal_error_response d c version =
     c\<lparr>cu_resp := tpmlib_write_fatal_error_response (malloc_ok (d_crypto d)) (cu_resp c) version,
       ptm_read_offset := 0\<rparr>"

definition ptm_send_startup :: "('t, 's) deps \<Rightarrow> ('t, 's) cuse \<Rightarrow> u16 \<Rightarrow> int \<times> ('t, 's) cuse" where
  "ptm_send_startup d c st =
     (case tpmlib_create_startup_cmd st (cu_tpmversion c) (replicate 12 0) of (buffer, command_length) \<Rightarrow>
        if command_length = 0 then (0, c)
        else
          let command = take command_length buffer;
              c1 = (capture_packet c command True)\<lparr>g_lastCommand := tpmlib_get_cmd_ordinal command\<rparr>
          in case process_into d c1 command of
               (rc, c2) \<Rightarrow> (if rc \<noteq> 0 then -1 else 0, capture_packet c2 (response_bytes (cu_resp c2)) False))"

subsection \<open>read()\<close>

text \<open>
  \<open>fuse_reply_buf\<close> of \<open>len\<close> bytes at \<open>ptm_response + ptm_read_offset\<close>: memory that is not there is undefined.
\<close>

definition ptm_read_result ::
  "('t, 's) deps \<Rightarrow> ('t, 's) cuse \<Rightarrow> nat \<Rightarrow> (fuse_reply list \<times> ('t, 's) cuse) option"
where
  "ptm_read_result d c0 maxlen =
     (case (if tpm_running c0 then worker_thread_wait_done d c0 else Some c0) of
        None \<Rightarrow> None
      | Some c \<Rightarrow>
          let res_len = unat (rlength (cu_resp c));
              off = ptm_read_offset c;
              len = (if off < res_len then min maxlen (res_len - off) else 0)
          in if len = 0 then Some ([Reply_buf []], c)
             else case rbuffer (cu_resp c) of
               None \<Rightarrow> None
             | Some b \<Rightarrow>
                 if off + len > length b then None
                 else Some ([Reply_buf (mem_read b off len)], c\<lparr>ptm_read_offset := off + len\<rparr>))"

definition ptm_read_stateblob :: "('t, 's) cuse \<Rightarrow> nat \<Rightarrow> fuse_reply list \<times> ('t, 's) cuse" where
  "ptm_read_stateblob c maxlen =
     (case cached_stateblob_get (cached_stateblob c) (tx_offset (tx_state c)) of
        None \<Rightarrow> ([Reply_err EIO], set_tx c TX_STATE_RW_COMMAND)
      | Some buf \<Rightarrow>
          let tocopy = min maxlen (length buf);
              c1 = c\<lparr>tx_state := (tx_state c)\<lparr>tx_offset := tx_offset (tx_state c) + of_nat tocopy\<rparr>\<rparr>
          in ([Reply_buf (take tocopy buf)],
              if length buf < maxlen then set_tx c1 TX_STATE_RW_COMMAND else c1))"

definition ptm_read ::
  "('t, 's) deps \<Rightarrow> ('t, 's) cuse \<Rightarrow> nat \<Rightarrow> (fuse_reply list \<times> ('t, 's) cuse) option"
where
  "ptm_read d c maxlen =
     (case tx_mode (tx_state c) of
        TX_STATE_RW_COMMAND \<Rightarrow> ptm_read_result d c maxlen
      | TX_STATE_SET_STATE_BLOB \<Rightarrow> Some ([Reply_err EIO], set_tx c TX_STATE_RW_COMMAND)
      | TX_STATE_GET_STATE_BLOB \<Rightarrow> Some (ptm_read_stateblob c maxlen)
      | TX_STATE_CLOSED \<Rightarrow> Some ([], c))"

subsection \<open>State blobs\<close>

definition stateblob_clear :: "stateblob \<Rightarrow> stateblob" where
  "stateblob_clear s = s\<lparr>sb_data := None, sb_length := 0, sb_type := 0\<rparr>"

text \<open>
  The blob is collected in a static variable whose \<open>type\<close> has 8 bits. The new length is computed in 32
  bits; when it wraps, \<open>memcpy\<close> writes behind the buffer of that length.
\<close>

definition ptm_set_stateblob_append ::
  "('t, 's) deps \<Rightarrow> ('t, 's) cuse \<Rightarrow> u32 \<Rightarrow> bytes \<Rightarrow> bool \<Rightarrow> bool \<Rightarrow> (TPM_RESULT \<times> ('t, 's) cuse) option"
where
  "ptm_set_stateblob_append d c blobtype data is_encrypted is_last =
     (let s0 = cu_stateblob c;
          fresh = (ucast (sb_type s0) \<noteq> blobtype);
          s = (if fresh then \<lparr>sb_type = ucast blobtype, sb_data = None, sb_length = 0, sb_is_encrypted = is_encrypted\<rparr>
               else s0);
          newlen = sb_length s + of_nat (length data)
      in if fresh \<and> data = [] then Some (0, c\<lparr>cu_stateblob := s\<rparr>)
         else if \<not> malloc_ok (d_crypto d) (unat newlen)
         then Some (TPM_FAIL, c\<lparr>cu_stateblob := stateblob_clear s\<rparr>)
         else if unat (sb_length s) + length data > unat newlen then None
         else
           let blob = (case sb_data s of None \<Rightarrow> [] | Some b \<Rightarrow> b) @ data;
               c1 = c\<lparr>cu_stateblob := s\<lparr>sb_data := Some blob, sb_length := newlen\<rparr>\<rparr>
           in if \<not> is_last then Some (0, c1)
              else case SWTPM_NVRAM_SetStateBlob (d_crypto d) (nv_lib d) (w_lib (cu_world c))
                          (nv_globals (w_nv (cu_world c))) blob (sb_is_encrypted s) blobtype of
                (res, t) \<Rightarrow>
                  Some (res, set_tx ((cu_lib_upd c t)\<lparr>cu_stateblob := stateblob_clear s\<rparr>) TX_STATE_RW_COMMAND))"

text \<open>The structure \<open>ptm_setstate\<close>: flags, type, length, data; the result replaces the flags.\<close>

definition ptm_set_stateblob ::
  "('t, 's) deps \<Rightarrow> ('t, 's) cuse \<Rightarrow> bytes \<Rightarrow> (fuse_reply list \<times> ('t, 's) cuse) option"
where
  "ptm_set_stateblob d c pss =
     (let is_encrypted = (le32toh (mem_read pss 0 4) AND PTM_STATE_FLAG_ENCRYPTED \<noteq> 0);
          blobtype = le32toh (mem_read pss 4 4);
          len = unat (le32toh (mem_read pss 8 4));
          is_last = (PTM_STATE_BLOB_SIZE \<noteq> len);
          respond = (\<lambda>res. [Reply_ioctl (mem_write pss 0 (htole32 res))])
      in if len > PTM_STATE_BLOB_SIZE then Some (respond TPM_BAD_PARAMETER, c)
         else
           let c1 = c\<lparr>tx_state := \<lparr>tx_mode = TX_STATE_SET_STATE_BLOB, tx_blobtype = blobtype,
                                  tx_blob_is_encrypted = is_encrypted, tx_offset = 0\<rparr>\<rparr>
           in case ptm_set_stateblob_append d c1 blobtype (mem_read pss 12 len) is_encrypted is_last of
                None \<Rightarrow> None
              | Some (res, c2) \<Rightarrow>
                  Some (respond res, if res \<noteq> 0 then set_tx c2 TX_STATE_RW_COMMAND else c2))"

definition ptm_get_stateblob_part ::
  "('t, 's) deps \<Rightarrow> ('t, 's) cuse \<Rightarrow> u32 \<Rightarrow> nat \<Rightarrow> u32 \<Rightarrow> bool
     \<Rightarrow> (TPM_RESULT \<times> bytes \<times> bool \<times> ('t, 's) cuse) option"
where
  "ptm_get_stateblob_part d c blobtype buffer_size offset decrypt =
     (case (if cached_stateblob_is_loaded (cached_stateblob c) blobtype decrypt then Some (0, c)
            else cached_stateblob_load d c blobtype decrypt) of
        None \<Rightarrow> None
      | Some (res, c1) \<Rightarrow>
          if res \<noteq> 0 then Some (res, [], False, c1)
          else case cached_stateblob_copy (cached_stateblob c1) buffer_size offset of
            (data, enc) \<Rightarrow> Some (0, data, enc, c1))"

text \<open>
  The structure \<open>ptm_getstate\<close>: flags, type, offset. The response is written over it: result, flags, total
  length, length, data. The type that goes into \<open>tx_state\<close> is read after that.
\<close>

definition ptm_get_stateblob ::
  "('t, 's) deps \<Rightarrow> ('t, 's) cuse \<Rightarrow> bytes \<Rightarrow> (fuse_reply list \<times> ('t, 's) cuse) option"
where
  "ptm_get_stateblob d c pgs =
     (let decrypt = (le32toh (mem_read pgs 0 4) AND PTM_STATE_FLAG_DECRYPTED \<noteq> 0);
          blobtype = le32toh (mem_read pgs 4 4);
          offset = le32toh (mem_read pgs 8 4)
      in case ptm_get_stateblob_part d c blobtype PTM_STATE_BLOB_SIZE offset decrypt of
           None \<Rightarrow> None
         | Some (res, data, enc, c1) \<Rightarrow>
             let totlength = cached_stateblob_get_bloblength (cached_stateblob c1);
                 copied = of_nat (length data) :: u32;
                 resp = mem_write pgs 0 (htole32 res @ htole32 (if enc then PTM_STATE_FLAG_ENCRYPTED else 0) @
                          htole32 totlength @ htole32 copied @ data);
                 tx = (if res = 0 \<and> offset + copied < totlength
                       then \<lparr>tx_mode = TX_STATE_GET_STATE_BLOB, tx_blobtype = le32toh (mem_read resp 4 4),
                             tx_blob_is_encrypted = enc, tx_offset = copied\<rparr>
                       else (tx_state c1)\<lparr>tx_mode := TX_STATE_RW_COMMAND\<rparr>)
             in Some ([Reply_ioctl resp], c1\<lparr>tx_state := tx\<rparr>))"

subsection \<open>write(), open(), release()\<close>

definition ptm_write_stateblob ::
  "('t, 's) deps \<Rightarrow> ('t, 's) cuse \<Rightarrow> bytes \<Rightarrow> (fuse_reply list \<times> ('t, 's) cuse) option"
where
  "ptm_write_stateblob d c buf =
     (case ptm_set_stateblob_append d c (tx_blobtype (tx_state c)) buf (tx_blob_is_encrypted (tx_state c))
             (buf = []) of
        None \<Rightarrow> None
      | Some (res, c1) \<Rightarrow>
          if res \<noteq> 0 then Some ([Reply_err EIO], set_tx c1 TX_STATE_RW_COMMAND)
          else Some ([Reply_write (length buf)], c1))"

text \<open>The command is queued for the worker thread or processed at once.\<close>

definition submit_command :: "('t, 's) deps \<Rightarrow> ('t, 's) cuse \<Rightarrow> bytes \<Rightarrow> ('t, 's) cuse option" where
  "submit_command d c command =
     (if tpmlib_is_request_cancelable (cu_tpmversion c) command
      then (case ptm_request c of
              None \<Rightarrow> None
            | Some b \<Rightarrow>
                if length command > length b then None
                else Some (worker_thread_mark_busy (c\<lparr>ptm_request := Some (mem_write b 0 command)\<rparr>)))
      else Some (snd (process_into d c command)))"

text \<open>The two lengths are assigned before the lock is taken, so also when the request is refused.\<close>

definition ptm_write_cmd ::
  "('t, 's) deps \<Rightarrow> ('t, 's) cuse \<Rightarrow> bytes \<Rightarrow> (fuse_reply list \<times> ('t, 's) cuse) option"
where
  "ptm_write_cmd d c0 buf =
     (let c = c0\<lparr>ptm_req_len := of_nat (length buf), cu_resp := (cu_resp c0)\<lparr>rlength := 0\<rparr>\<rparr> in
      if \<not> tpm_running c
      then Some ([Reply_write (unat (ptm_req_len c))], ptm_write_fatal_error_response d c (cu_tpmversion c))
      else case ensure_locked_storage c of (ok, c1) \<Rightarrow>
        if \<not> ok then Some ([Reply_err EIO], c1)
        else if worker_thread_is_busy c1 then Some ([Reply_err EBUSY], c1)
        else
          let req_len = min (unat (ptm_req_len c1)) TPM_REQ_MAX;
              command = take req_len buf;
              c2 = c1\<lparr>ptm_req_len := of_nat req_len\<rparr>
          in case tpmlib_process (malloc_ok (d_crypto d)) (cu_resp c2) command (cu_locality_flags c2)
                    (cu_locality c2) (cu_tpmversion c2) of
               (rc, r, loc) \<Rightarrow>
                 let c3 = c2\<lparr>cu_resp := r, cu_locality := loc\<rparr> in
                 if rlength r \<noteq> 0 then Some ([Reply_write req_len], c3\<lparr>ptm_read_offset := 0\<rparr>)
                 else
                   let c4 = capture_packet c3 command True;
                       lc = tpmlib_get_cmd_ordinal command;
                       c5 = (if lc \<noteq> TPM_ORDINAL_NONE then c4\<lparr>g_lastCommand := lc\<rparr> else c4)
                   in case submit_command d c5 command of
                        None \<Rightarrow> None
                      | Some c6 \<Rightarrow>
                          Some ([Reply_write req_len], capture_packet c6 (response_bytes (cu_resp c6)) False))"

definition ptm_write ::
  "('t, 's) deps \<Rightarrow> ('t, 's) cuse \<Rightarrow> bytes \<Rightarrow> (fuse_reply list \<times> ('t, 's) cuse) option"
where
  "ptm_write d c buf =
     (case tx_mode (tx_state c) of
        TX_STATE_RW_COMMAND \<Rightarrow> ptm_write_cmd d c buf
      | TX_STATE_GET_STATE_BLOB \<Rightarrow> Some ([Reply_err EIO], set_tx c TX_STATE_RW_COMMAND)
      | TX_STATE_SET_STATE_BLOB \<Rightarrow> ptm_write_stateblob d c buf
      | TX_STATE_CLOSED \<Rightarrow> Some ([], c))"

definition ptm_open :: "('t, 's) cuse \<Rightarrow> fuse_reply list \<times> ('t, 's) cuse" where
  "ptm_open c =
     (if tx_mode (tx_state c) \<noteq> TX_STATE_CLOSED then ([Reply_err EBUSY], c)
      else ([Reply_open], set_tx c TX_STATE_RW_COMMAND))"

definition ptm_release :: "('t, 's) cuse \<Rightarrow> fuse_reply list \<times> ('t, 's) cuse" where
  "ptm_release c = ([Reply_err 0], set_tx c TX_STATE_CLOSED)"

subsection \<open>ioctl()\<close>

datatype ptm_cmd =
    PTM_GET_CAPABILITY | PTM_INIT | PTM_SHUTDOWN | PTM_GET_TPMESTABLISHED | PTM_SET_LOCALITY
  | PTM_HASH_START | PTM_HASH_DATA | PTM_HASH_END | PTM_CANCEL_TPM_CMD | PTM_STORE_VOLATILE
  | PTM_RESET_TPMESTABLISHED | PTM_GET_STATEBLOB | PTM_SET_STATEBLOB | PTM_STOP | PTM_GET_CONFIG
  | PTM_SET_DATAFD | PTM_SET_BUFFERSIZE | PTM_GET_INFO | PTM_LOCK_STORAGE | PTM_OTHER

text \<open>The first switch: the commands that wait for the worker thread while the TPM runs.\<close>

fun ioctl_waits :: "ptm_cmd \<Rightarrow> bool" where
  "ioctl_waits PTM_INIT = True"
| "ioctl_waits PTM_SHUTDOWN = True"
| "ioctl_waits PTM_GET_TPMESTABLISHED = True"
| "ioctl_waits PTM_RESET_TPMESTABLISHED = True"
| "ioctl_waits PTM_HASH_START = True"
| "ioctl_waits PTM_HASH_DATA = True"
| "ioctl_waits PTM_HASH_END = True"
| "ioctl_waits PTM_STORE_VOLATILE = True"
| "ioctl_waits PTM_GET_STATEBLOB = True"
| "ioctl_waits PTM_SET_STATEBLOB = True"
| "ioctl_waits _ = False"

definition reply_res :: "TPM_RESULT \<Rightarrow> fuse_reply list" where
  "reply_res res = [Reply_ioctl (htole32 res)]"

definition cuse_caps :: "u64" where
  "cuse_caps = foldr (OR) (map (\<lambda>i. push_bit i 1) [0, 1, 2, 3, 4, 5, 6, 7, 8, 9, 10, 11, 13, 14, 16]) 0"

definition ioctl_get_capability :: "nat \<Rightarrow> fuse_reply list" where
  "ioctl_get_capability out_bufsz =
     (if out_bufsz \<noteq> 8 then [Reply_ioctl_retry 1] else [Reply_ioctl (htole64 cuse_caps)])"

definition ioctl_init ::
  "('t, 's) deps \<Rightarrow> cuse_env \<Rightarrow> ('t, 's) cuse \<Rightarrow> bytes \<Rightarrow> (fuse_reply list \<times> ('t, 's) cuse) option"
where
  "ioctl_init d e c in_buf =
     (if length in_buf \<noteq> 4 then Some ([Reply_ioctl_retry 1], c)
      else case tpm_end d c of
        None \<Rightarrow> None
      | Some c1 \<Rightarrow>
          (case tpm_start d e c1 (le32toh in_buf) (cu_tpmversion c1) (g_json_profile c1) of
             None \<Rightarrow> None
           | Some (rc, res, c2) \<Rightarrow>
               Some (reply_res res,
                     if rc < 0 then c2 else c2\<lparr>tpm_running := True, g_json_profile := None\<rparr>)))"

text \<open>\<open>PTM_STOP\<close> and \<open>PTM_SHUTDOWN\<close> free the response, its length stays.\<close>

definition ioctl_stop :: "('t, 's) deps \<Rightarrow> ('t, 's) cuse \<Rightarrow> (fuse_reply list \<times> ('t, 's) cuse) option" where
  "ioctl_stop d c =
     (case tpm_end d c of
        None \<Rightarrow> None
      | Some c1 \<Rightarrow> Some (reply_res TPM_SUCCESS, c1\<lparr>cu_resp := (cu_resp c1)\<lparr>rbuffer := None\<rparr>\<rparr>))"

definition ioctl_get_tpmestablished :: "('t, 's) deps \<Rightarrow> ('t, 's) cuse \<Rightarrow> nat \<Rightarrow> fuse_reply list" where
  "ioctl_get_tpmestablished d c out_bufsz =
     (if \<not> tpm_running c then reply_res TPM_BAD_ORDINAL
      else if out_bufsz \<noteq> 8 then [Reply_ioctl_retry 1]
      else case TPM_IO_TpmEstablished_Get (d_lib d) (w_lib (cu_world c)) of
        (res, b) \<Rightarrow> [Reply_ioctl (htole32 res @ [if b then 1 else 0, 0, 0, 0])])"

text \<open>The locality is set for the call and restored. The branch for a bad locality sends no reply.\<close>

definition ioctl_reset_tpmestablished ::
  "('t, 's) deps \<Rightarrow> ('t, 's) cuse \<Rightarrow> bytes \<Rightarrow> fuse_reply list \<times> ('t, 's) cuse"
where
  "ioctl_reset_tpmestablished d c in_buf =
     (if \<not> tpm_running c then (reply_res TPM_BAD_ORDINAL, c)
      else if length in_buf \<noteq> 4 then ([Reply_ioctl_retry 4], c)
      else if in_buf ! 0 > 4 then ([], c)
      else
        let orig_locality = cu_locality c;
            c1 = c\<lparr>cu_locality := in_buf ! 0\<rparr>
        in case TPM_IO_TpmEstablished_Reset (d_lib d) (cu_locality c1) (w_lib (cu_world c1)) of
             (res, t) \<Rightarrow> (reply_res res, (cu_lib_upd c1 t)\<lparr>cu_locality := orig_locality\<rparr>))"

definition ioctl_set_locality :: "('t, 's) cuse \<Rightarrow> bytes \<Rightarrow> fuse_reply list \<times> ('t, 's) cuse" where
  "ioctl_set_locality c in_buf =
     (if length in_buf \<noteq> 4 then ([Reply_ioctl_retry 4], c)
      else if in_buf ! 0 > 4 \<or> (in_buf ! 0 = 4 \<and> cu_locality_flags c AND LOCALITY_FLAG_REJECT_LOCALITY_4 \<noteq> 0)
      then (reply_res TPM_BAD_LOCALITY, c)
      else (reply_res TPM_SUCCESS, c\<lparr>cu_locality := in_buf ! 0\<rparr>))"

definition ioctl_simple :: "('t \<Rightarrow> TPM_RESULT \<times> 't) \<Rightarrow> ('t, 's) cuse \<Rightarrow> fuse_reply list \<times> ('t, 's) cuse" where
  "ioctl_simple f c =
     (if \<not> tpm_running c then (reply_res TPM_BAD_ORDINAL, c)
      else case f (w_lib (cu_world c)) of (res, t) \<Rightarrow> (reply_res res, cu_lib_upd c t))"

definition ioctl_hash_data ::
  "('t, 's) deps \<Rightarrow> ('t, 's) cuse \<Rightarrow> bytes \<Rightarrow> fuse_reply list \<times> ('t, 's) cuse"
where
  "ioctl_hash_data d c in_buf =
     (if \<not> tpm_running c then (reply_res TPM_BAD_ORDINAL, c)
      else if length in_buf \<noteq> 4100 then ([Reply_ioctl_retry 4], c)
      else
        let len = unat (le32toh (mem_read in_buf 0 4)) in
        case (if len \<le> 4096
              then TPM_IO_Hash_Data (d_lib d) (w_lib (cu_world c)) (mem_read in_buf 4 len)
              else (TPM_FAIL, w_lib (cu_world c))) of
          (res, t) \<Rightarrow> ([Reply_ioctl (mem_write in_buf 0 (htole32 res))], cu_lib_upd c t))"

definition ioctl_store_volatile ::
  "('t, 's) deps \<Rightarrow> ('t, 's) cuse \<Rightarrow> (fuse_reply list \<times> ('t, 's) cuse) option"
where
  "ioctl_store_volatile d c =
     (if \<not> tpm_running c then Some (reply_res TPM_BAD_ORDINAL, c)
      else case g_nvram_backend_ops (w_nv (cu_world c)) of
        None \<Rightarrow> None
      | Some ops \<Rightarrow>
          (case SWTPM_NVRAM_Store_Volatile (d_crypto d) (nv_lib d) (w_lib (cu_world c)) ops (w_nv (cu_world c)) of
             (res, nv) \<Rightarrow> Some (reply_res res, cached_stateblob_free (cu_nv_upd c nv))))"

definition ioctl_get_stateblob ::
  "('t, 's) deps \<Rightarrow> ('t, 's) cuse \<Rightarrow> bytes \<Rightarrow> (fuse_reply list \<times> ('t, 's) cuse) option"
where
  "ioctl_get_stateblob d c in_buf =
     (if \<not> tpm_running c then Some (reply_res TPM_BAD_ORDINAL, c)
      else if length in_buf \<noteq> 3088 then Some ([Reply_ioctl_retry 4], c)
      else ptm_get_stateblob d c in_buf)"

text \<open>The result also says whether the program is to end.\<close>

definition ioctl_set_stateblob ::
  "('t, 's) deps \<Rightarrow> ('t, 's) cuse \<Rightarrow> bytes \<Rightarrow> (fuse_reply list \<times> bool \<times> ('t, 's) cuse) option"
where
  "ioctl_set_stateblob d c in_buf =
     (if tpm_running c then Some (reply_res TPM_BAD_ORDINAL, False, c)
      else
        let c1 = cu_nv_upd c (snd (SWTPM_NVRAM_Init (d_dir_ops d) (d_linear_ops d) (w_nv (cu_world c)))) in
        case ensure_locked_storage c1 of
          (ok, c2) \<Rightarrow>
            if \<not> ok then Some ([Reply_err EIO], True, c2)
            else if length in_buf \<noteq> 3084 then Some ([Reply_ioctl_retry 4], False, c2)
            else (case ptm_set_stateblob d c2 in_buf of
                    None \<Rightarrow> None
                  | Some (rs, c3) \<Rightarrow> Some (rs, False, c3)))"

definition ioctl_get_config :: "('t, 's) cuse \<Rightarrow> nat \<Rightarrow> fuse_reply list" where
  "ioctl_get_config c out_bufsz =
     (if out_bufsz \<noteq> 8 then [Reply_ioctl_retry 4]
      else
        let g = nv_globals (w_nv (cu_world c)) in
        [Reply_ioctl (htole32 0 @ htole32 ((if SWTPM_NVRAM_Has_FileKey g then 1 else 0) OR
                                           (if SWTPM_NVRAM_Has_MigrationKey g then 2 else 0)))])"

text \<open>For the next commands the size of the output is tested and the input is read; both have the same size.\<close>

definition ioctl_set_buffersize ::
  "('t, 's) deps \<Rightarrow> ('t, 's) cuse \<Rightarrow> bytes \<Rightarrow> nat \<Rightarrow> (fuse_reply list \<times> ('t, 's) cuse) option"
where
  "ioctl_set_buffersize d c in_buf out_bufsz =
     (if out_bufsz \<noteq> 16 then Some ([Reply_ioctl_retry 4], c)
      else if length in_buf < 4 then None
      else
        let buffersize = le32toh (mem_read in_buf 0 4) in
        if buffersize > 0 \<and> tpm_running c then Some (reply_res TPM_BAD_ORDINAL, c)
        else case TPMLIB_SetBufferSize (d_lib d) (w_lib (cu_world c)) buffersize of
          ((bs, minsize, maxsize), t) \<Rightarrow>
            Some ([Reply_ioctl (htole32 TPM_SUCCESS @ htole32 bs @ htole32 minsize @ htole32 maxsize)],
                  cu_lib_upd c t))"

text \<open>The bytes behind the text in the answer are those of the stack.\<close>

definition ioctl_get_info ::
  "('t, 's) deps \<Rightarrow> cuse_env \<Rightarrow> ('t, 's) cuse \<Rightarrow> bytes \<Rightarrow> nat \<Rightarrow> fuse_reply list option"
where
  "ioctl_get_info d e c in_buf out_bufsz =
     (if out_bufsz \<noteq> 3088 then Some [Reply_ioctl_retry 4]
      else if length in_buf < 12 then None
      else case TPMLIB_GetInfo (d_lib d) (w_lib (cu_world c)) (le64toh (mem_read in_buf 0 8)) of
        None \<Rightarrow> Some (reply_res TPM_SIZE)
      | Some info_data \<Rightarrow>
          let offset = unat (le32toh (mem_read in_buf 8 4)) in
          if offset \<ge> length info_data then Some (reply_res TPM_BAD_PARAMETER)
          else
            let len = min (length info_data + 1 - offset) 3072 in
            Some [Reply_ioctl (mem_write (ce_stack e) 0
                    (htole32 0 @ htole32 (of_nat (length info_data + 1)) @ htole32 (of_nat len) @
                     mem_read (info_data @ [0]) offset len))])"

definition ioctl_lock_storage ::
  "('t, 's) cuse \<Rightarrow> bytes \<Rightarrow> nat \<Rightarrow> (fuse_reply list \<times> ('t, 's) cuse) option"
where
  "ioctl_lock_storage c in_buf out_bufsz =
     (if out_bufsz \<noteq> 4 then Some ([Reply_ioctl_retry 4], c)
      else if length in_buf < 4 then None
      else case ensure_locked_storage (c\<lparr>g_locking_retries := le32toh (mem_read in_buf 0 4)\<rparr>) of
        (ok, c1) \<Rightarrow> Some (reply_res (if ok then TPM_SUCCESS else TPM_FAIL), c1))"

definition no_exit ::
  "(fuse_reply list \<times> ('t, 's) cuse) option \<Rightarrow> (fuse_reply list \<times> bool \<times> ('t, 's) cuse) option"
where
  "no_exit r = (case r of None \<Rightarrow> None | Some (rs, c) \<Rightarrow> Some (rs, False, c))"

text \<open>The second switch, up to \<open>cleanup\<close>.\<close>

fun ioctl_dispatch ::
  "('t, 's) deps \<Rightarrow> cuse_env \<Rightarrow> ('t, 's) cuse \<Rightarrow> ptm_cmd \<Rightarrow> bytes \<Rightarrow> nat
     \<Rightarrow> (fuse_reply list \<times> bool \<times> ('t, 's) cuse) option"
where
  "ioctl_dispatch d e c PTM_GET_CAPABILITY i n = Some (ioctl_get_capability n, False, c)"
| "ioctl_dispatch d e c PTM_INIT i n = no_exit (ioctl_init d e c i)"
| "ioctl_dispatch d e c PTM_STOP i n = no_exit (ioctl_stop d c)"
| "ioctl_dispatch d e c PTM_SHUTDOWN i n =
     (case ioctl_stop d c of None \<Rightarrow> None | Some (rs, c1) \<Rightarrow> Some (rs, True, c1))"
| "ioctl_dispatch d e c PTM_GET_TPMESTABLISHED i n = Some (ioctl_get_tpmestablished d c n, False, c)"
| "ioctl_dispatch d e c PTM_RESET_TPMESTABLISHED i n = no_exit (Some (ioctl_reset_tpmestablished d c i))"
| "ioctl_dispatch d e c PTM_SET_LOCALITY i n = no_exit (Some (ioctl_set_locality c i))"
| "ioctl_dispatch d e c PTM_HASH_START i n =
     no_exit (Some (ioctl_simple (TPM_IO_Hash_Start (d_lib d) (cu_locality c)) c))"
| "ioctl_dispatch d e c PTM_HASH_DATA i n = no_exit (Some (ioctl_hash_data d c i))"
| "ioctl_dispatch d e c PTM_HASH_END i n = no_exit (Some (ioctl_simple (TPM_IO_Hash_End (d_lib d)) c))"
| "ioctl_dispatch d e c PTM_CANCEL_TPM_CMD i n = no_exit (Some (ioctl_simple (TPMLIB_CancelCommand (d_lib d)) c))"
| "ioctl_dispatch d e c PTM_STORE_VOLATILE i n = no_exit (ioctl_store_volatile d c)"
| "ioctl_dispatch d e c PTM_GET_STATEBLOB i n = no_exit (ioctl_get_stateblob d c i)"
| "ioctl_dispatch d e c PTM_SET_STATEBLOB i n = ioctl_set_stateblob d c i"
| "ioctl_dispatch d e c PTM_GET_CONFIG i n = Some (ioctl_get_config c n, False, c)"
| "ioctl_dispatch d e c PTM_SET_BUFFERSIZE i n = no_exit (ioctl_set_buffersize d c i n)"
| "ioctl_dispatch d e c PTM_GET_INFO i n =
     (case ioctl_get_info d e c i n of None \<Rightarrow> None | Some rs \<Rightarrow> Some (rs, False, c))"
| "ioctl_dispatch d e c PTM_LOCK_STORAGE i n = no_exit (ioctl_lock_storage c i n)"
| "ioctl_dispatch d e c PTM_SET_DATAFD i n = Some ([Reply_err EINVAL], False, c)"
| "ioctl_dispatch d e c PTM_OTHER i n = Some ([Reply_err EINVAL], False, c)"

text \<open>What \<open>ptm_cleanup\<close> does to the state: the backend URI is freed, the NVRAM layer shut down.\<close>

definition ptm_cleanup :: "('t, 's) cuse \<Rightarrow> ('t, 's) cuse" where
  "ptm_cleanup c =
     (let nv = w_nv (cu_world c) in
      cu_nv_upd c (SWTPM_NVRAM_Shutdown (nv\<lparr>nv_tpmstate := (nv_tpmstate nv)\<lparr>g_backend_uri := None\<rparr>\<rparr>)))"

definition ptm_ioctl ::
  "('t, 's) deps \<Rightarrow> cuse_env \<Rightarrow> ('t, 's) cuse \<Rightarrow> ptm_cmd \<Rightarrow> bytes \<Rightarrow> nat
     \<Rightarrow> (fuse_reply list \<times> ('t, 's) cuse) option"
where
  "ptm_ioctl d e c0 cmd in_buf out_bufsz =
     (case (if ioctl_waits cmd \<and> tpm_running c0 then worker_thread_wait_done d c0 else Some c0) of
        None \<Rightarrow> None
      | Some c \<Rightarrow>
          (case ioctl_dispatch d e c cmd in_buf out_bufsz of
             None \<Rightarrow> None
           | Some (rs, exit_prg, c1) \<Rightarrow>
               Some (rs, if exit_prg then (ptm_cleanup c1)\<lparr>cu_exit := True\<rparr> else c1)))"

text \<open>The part of \<open>main\<close> from \<open>worker_thread_init\<close> on: start at once and send Startup; \<open>False\<close> ends the program.\<close>

definition cuse_main_start ::
  "('t, 's) deps \<Rightarrow> cuse_env \<Rightarrow> ('t, 's) cuse \<Rightarrow> bool \<Rightarrow> u16 \<Rightarrow> (bool \<times> ('t, 's) cuse) option"
where
  "cuse_main_start d e c need_init_cmd st =
     (case (if \<not> need_init_cmd
            then (case tpm_start d e c 0 (cu_tpmversion c) (g_json_profile c) of
                    None \<Rightarrow> None
                  | Some (rc, res, c1) \<Rightarrow>
                      Some (if rc < 0 then (False, c1)
                            else (True, c1\<lparr>tpm_running := True, g_json_profile := None\<rparr>)))
            else Some (True, c)) of
        None \<Rightarrow> None
      | Some (ok, c1) \<Rightarrow>
          if \<not> ok then Some (False, c1)
          else if st \<noteq> 0 then (case ptm_send_startup d c1 st of (rc, c2) \<Rightarrow> Some (rc \<ge> 0, c2))
          else Some (True, c1))"

end
