(* ===== verification/Ioctl.thy ===== *)
theory Ioctl
  imports Cuse
begin

section \<open>The control client (src/src/swtpm_ioctl/tpm_ioctl.c)\<close>

text \<open>
  swtpm_ioctl sends one control command to a running swtpm, by ioctl to the CUSE device or over a socket to the
  control channel. The connection is a record of system calls on a state that stands for the other
  side; the file of a saved blob is its content. Messages are the bytes of the structures of
  tpm_ioctl.h, in host order for a device and big endian for a socket.

  The loops that depend on what the other side answers have fuel; the result \<open>None\<close> says that the fuel is used up and
  the program still runs.
\<close>

subsection \<open>Sending a command\<close>

record 'x ioctl_conn =
  cn_fstat :: "'x \<Rightarrow> bool option"
  cn_ioctl :: "'x \<Rightarrow> ptm_cmd \<Rightarrow> bytes \<Rightarrow> bytes option \<times> 'x"
  cn_writev :: "'x \<Rightarrow> bytes \<Rightarrow> int \<times> 'x"
  cn_poll :: "'x \<Rightarrow> int \<times> 'x"
  cn_read :: "'x \<Rightarrow> nat \<Rightarrow> bytes option \<times> 'x"
  cn_write :: "'x \<Rightarrow> bytes \<Rightarrow> int \<times> 'x"

text \<open>
  The ioctl numbers: \<open>_IOR\<close> and \<open>_IOWR\<close> of type 'P' with number and size (\<open>cn_fstat\<close> says whether the
  descriptor is a character device).
\<close>

definition IOC :: "u32 \<Rightarrow> u32 \<Rightarrow> u32 \<Rightarrow> u32" where
  "IOC dir nr sz = push_bit 30 dir OR push_bit 16 sz OR push_bit 8 0x50 OR nr"

fun ptm_number :: "ptm_cmd \<Rightarrow> u32" where
  "ptm_number PTM_GET_CAPABILITY = IOC 2 0 8"
| "ptm_number PTM_INIT = IOC 3 1 4"
| "ptm_number PTM_SHUTDOWN = IOC 2 2 4"
| "ptm_number PTM_GET_TPMESTABLISHED = IOC 2 3 8"
| "ptm_number PTM_SET_LOCALITY = IOC 3 4 4"
| "ptm_number PTM_HASH_START = IOC 2 5 4"
| "ptm_number PTM_HASH_DATA = IOC 3 6 4100"
| "ptm_number PTM_HASH_END = IOC 2 7 4"
| "ptm_number PTM_CANCEL_TPM_CMD = IOC 2 8 4"
| "ptm_number PTM_STORE_VOLATILE = IOC 2 9 4"
| "ptm_number PTM_RESET_TPMESTABLISHED = IOC 3 10 4"
| "ptm_number PTM_GET_STATEBLOB = IOC 3 11 3088"
| "ptm_number PTM_SET_STATEBLOB = IOC 3 12 3084"
| "ptm_number PTM_STOP = IOC 2 13 4"
| "ptm_number PTM_GET_CONFIG = IOC 2 14 8"
| "ptm_number PTM_SET_DATAFD = IOC 2 15 4"
| "ptm_number PTM_SET_BUFFERSIZE = IOC 3 16 16"
| "ptm_number PTM_GET_INFO = IOC 3 17 3088"
| "ptm_number PTM_LOCK_STORAGE = IOC 3 18 4"
| "ptm_number PTM_OTHER = 0"

definition ioctl_to_cmd :: "u32 \<Rightarrow> u32" where
  "ioctl_to_cmd ioctlnum = (drop_bit 0 ioctlnum AND 255) + 1"

definition devtoh32 :: "bool \<Rightarrow> bytes \<Rightarrow> u32" where
  "devtoh32 is_chardev b = (if is_chardev then le32toh b else be32toh b)"

definition htodev32 :: "bool \<Rightarrow> u32 \<Rightarrow> bytes" where
  "htodev32 is_chardev w = (if is_chardev then htole32 w else htobe32 w)"

definition htodev64 :: "bool \<Rightarrow> u64 \<Rightarrow> bytes" where
  "htodev64 is_chardev w = (if is_chardev then htole64 w else htobe64 w)"

text \<open>The return value, the message buffer afterwards, and the other side.\<close>

definition ctrlcmd :: "'x ioctl_conn \<Rightarrow> 'x \<Rightarrow> ptm_cmd \<Rightarrow> bytes \<Rightarrow> nat \<Rightarrow> nat \<Rightarrow> int \<times> bytes \<times> 'x" where
  "ctrlcmd cn x cmd msg msg_len_in msg_len_out =
     (case cn_fstat cn x of
        None \<Rightarrow> (-1, msg, x)
      | Some True \<Rightarrow>
          (case cn_ioctl cn x cmd msg of
             (None, x1) \<Rightarrow> (-1, msg, x1)
           | (Some msg1, x1) \<Rightarrow> (0, msg1, x1))
      | Some False \<Rightarrow>
          (case cn_writev cn x (htobe32 (ioctl_to_cmd (ptm_number cmd)) @ take msg_len_in msg) of (n, x1) \<Rightarrow>
             if n > 0 then
               if msg_len_out > 0 then
                 (case cn_poll cn x1 of (p, x2) \<Rightarrow>
                    if p = 1 then
                      (case cn_read cn x2 msg_len_out of
                         (None, x3) \<Rightarrow> (-1, msg, x3)
                       | (Some b, x3) \<Rightarrow> (int (length b), mem_write msg 0 b, x3))
                    else if p = 0 then (-1, msg, x2)
                    else (p, msg, x2))
               else (0, msg, x1)
             else (n, msg, x1)))"

text \<open>A command without parameters: return value, result, the other side.\<close>

definition ctrlcmd_res :: "'x ioctl_conn \<Rightarrow> 'x \<Rightarrow> bool \<Rightarrow> ptm_cmd \<Rightarrow> bytes \<Rightarrow> int \<times> u32 \<times> 'x" where
  "ctrlcmd_res cn x is_chardev cmd res =
     (case ctrlcmd cn x cmd res 0 4 of (n, res1, x1) \<Rightarrow> (n, devtoh32 is_chardev res1, x1))"

subsection \<open>Hashing\<close>

text \<open>The loop over a string on the command line, of which \<open>input\<close> is left; \<open>n\<close> and \<open>res\<close> as they are.\<close>

function hash_string_loop ::
  "'x ioctl_conn \<Rightarrow> bool \<Rightarrow> 'x \<Rightarrow> bytes \<Rightarrow> int \<Rightarrow> u32 \<Rightarrow> bytes \<Rightarrow> int \<times> u32 \<times> 'x"
where
  "hash_string_loop cn is_chardev x hdata n res input =
     (if input = [] then (n, res, x)
      else
        let tocopy = min (length input) 4096;
            hdata1 = mem_write hdata 0 (htodev32 is_chardev (of_nat tocopy) @ take tocopy input)
        in case ctrlcmd cn x PTM_HASH_DATA hdata1 (4 + tocopy) 4 of (n1, hdata2, x1) \<Rightarrow>
             let res1 = devtoh32 is_chardev hdata2 in
             if n1 < 0 \<or> res1 \<noteq> 0 then (n1, res1, x1)
             else hash_string_loop cn is_chardev x1 hdata2 n1 res1 (drop tocopy input))"
  by auto
termination by (relation "measure (\<lambda>(_, _, _, _, _, _, input). length input)") auto

text \<open>The loop over the standard input, of which \<open>input\<close> is left.\<close>

function hash_stdin_loop ::
  "'x ioctl_conn \<Rightarrow> bool \<Rightarrow> 'x \<Rightarrow> bytes \<Rightarrow> bytes \<Rightarrow> int \<times> u32 \<times> 'x"
where
  "hash_stdin_loop cn is_chardev x hdata input =
     (let chunk = take 4096 input;
          eof = (length input < 4096);
          hdata1 = mem_write hdata 0 (htodev32 is_chardev (of_nat (length chunk)) @ chunk)
      in case ctrlcmd cn x PTM_HASH_DATA hdata1 (4 + length chunk) 4 of (n, hdata2, x1) \<Rightarrow>
           let res = devtoh32 is_chardev hdata2 in
           if n < 0 \<or> res \<noteq> 0 \<or> eof then (n, res, x1)
           else hash_stdin_loop cn is_chardev x1 hdata2 (drop 4096 input))"
  by auto
termination by (relation "measure (\<lambda>(_, _, _, _, input). length input)") auto

declare hash_string_loop.simps [simp del] hash_stdin_loop.simps [simp del]

definition do_hash_start_data_end ::
  "'x ioctl_conn \<Rightarrow> 'x \<Rightarrow> bool \<Rightarrow> bytes option \<Rightarrow> bytes \<Rightarrow> int \<times> 'x"
where
  "do_hash_start_data_end cn x is_chardev input stdin =
     (case input of
        None \<Rightarrow> (1, x)
      | Some inp \<Rightarrow>
          (case ctrlcmd_res cn x is_chardev PTM_HASH_START (replicate 4 0) of (n, res, x1) \<Rightarrow>
             if n < 0 \<or> res \<noteq> 0 then (1, x1)
             else case (if inp = [0x2d] then hash_stdin_loop cn is_chardev x1 (replicate 4100 0) stdin
                        else hash_string_loop cn is_chardev x1 (replicate 4100 0) n res inp) of (n2, res2, x2) \<Rightarrow>
               if n2 < 0 \<or> res2 \<noteq> 0 then (1, x2)
               else case ctrlcmd_res cn x2 is_chardev PTM_HASH_END (replicate 4 0) of (n3, res3, x3) \<Rightarrow>
                 if n3 < 0 \<or> res3 \<noteq> 0 then (1, x3) else (0, x3)))"

subsection \<open>Saving a state blob\<close>

definition get_blobtype :: "string option \<Rightarrow> u32" where
  "get_blobtype blobname =
     (case blobname of
        None \<Rightarrow> 0
      | Some s \<Rightarrow>
          if s = ''permanent'' then PTM_BLOB_TYPE_PERMANENT
          else if s = ''volatile'' then PTM_BLOB_TYPE_VOLATILE
          else if s = ''savestate'' then PTM_BLOB_TYPE_SAVESTATE else 0)"

text \<open>
  The file: whether it opens, and the return value of writing some bytes behind its content. The result of the
  loops is \<open>had_error\<close>, \<open>remain\<close> and the content.
\<close>

record out_file =
  of_open :: bool
  of_write :: "bytes \<Rightarrow> bytes \<Rightarrow> int"

definition outfile_write :: "out_file \<Rightarrow> bytes \<Rightarrow> bytes \<Rightarrow> int \<times> bytes" where
  "outfile_write f content data = (let n = of_write f content data in (n, content @ take (nat n) data))"

primrec save_read_loop ::
  "nat \<Rightarrow> 'x ioctl_conn \<Rightarrow> 'x \<Rightarrow> out_file \<Rightarrow> nat \<Rightarrow> int \<Rightarrow> bytes \<Rightarrow> (bool \<times> int \<times> bytes \<times> 'x) option"
where
  "save_read_loop 0 cn x f buffersize remain content = None"
| "save_read_loop (Suc fuel) cn x f buffersize remain content =
     (case cn_read cn x buffersize of
        (None, x1) \<Rightarrow> Some (True, remain, content, x1)
      | (Some b, x1) \<Rightarrow>
          let remain1 = remain - int (length b) in
          case outfile_write f content b of (n, content1) \<Rightarrow>
            if n < 0 then Some (True, remain1, content1, x1)
            else if remain1 \<le> 0 then Some (False, remain1, content1, x1)
            else save_read_loop fuel cn x1 f buffersize remain1 content1)"

text \<open>\<open>TPM_NON_FATAL\<close> marks results that are not treated as errors.\<close>

abbreviation TPM_NON_FATAL :: u32 where "TPM_NON_FATAL \<equiv> 0x800"

text \<open>
  The outer loop; \<open>offset\<close> has 16 bits. The number of received bytes is that of the socket's answer behind
  the header of 16 bytes, or the length the device reports.
\<close>

primrec save_loop ::
  "nat \<Rightarrow> 'x ioctl_conn \<Rightarrow> (nat \<Rightarrow> bool) \<Rightarrow> bool \<Rightarrow> u32 \<Rightarrow> out_file \<Rightarrow> nat \<Rightarrow> 'x \<Rightarrow> bytes \<Rightarrow> u16 \<Rightarrow> int \<Rightarrow> bytes
     \<Rightarrow> (bool \<times> int \<times> bytes \<times> 'x) option"
where
  "save_loop 0 cn malloc is_chardev bt f buffersize x pgs offset remain content = None"
| "save_loop (Suc fuel) cn malloc is_chardev bt f buffersize x pgs offset remain content =
     (let pgs1 = mem_write pgs 0 (htodev32 is_chardev PTM_STATE_FLAG_DECRYPTED @ htodev32 is_chardev bt @
                                  htodev32 is_chardev (ucast offset))
      in case ctrlcmd cn x PTM_GET_STATEBLOB pgs1 12 3088 of (n, resp, x1) \<Rightarrow>
        let res = devtoh32 is_chardev resp;
            totlength = devtoh32 is_chardev (mem_read resp 8 4);
            len = devtoh32 is_chardev (mem_read resp 12 4)
        in if n < 0 then Some (True, remain, content, x1)
           else if res \<noteq> 0 \<and> res AND TPM_NON_FATAL = 0 then Some (True, remain, content, x1)
           else
             let remain1 = (if remain = -1 then int (unat totlength) else remain);
                 recvd = (if is_chardev then min (unat len) 3072 else nat (n - 16))
             in if \<not> is_chardev \<and> n - 16 < 0 then Some (True, remain1, content, x1)
                else case outfile_write f content (mem_read resp 16 recvd) of (numbytes, content1) \<Rightarrow>
                  if numbytes < 0 \<or> nat numbytes \<noteq> recvd then Some (True, remain1, content1, x1)
                  else
                    let remain2 = remain1 - int recvd in
                    if unat offset + recvd \<ge> unat totlength then Some (False, remain2, content1, x1)
                    else if buffersize \<noteq> 0 then
                      (if \<not> malloc buffersize then Some (True, remain2, content1, x1)
                       else save_read_loop fuel cn x1 f buffersize remain2 content1)
                    else save_loop fuel cn malloc is_chardev bt f buffersize x1 resp (offset + ucast len) remain2 content1)"

definition do_save_state_blob ::
  "nat \<Rightarrow> 'x ioctl_conn \<Rightarrow> (nat \<Rightarrow> bool) \<Rightarrow> 'x \<Rightarrow> bool \<Rightarrow> string option \<Rightarrow> out_file \<Rightarrow> nat \<Rightarrow> (int \<times> bytes \<times> 'x) option"
where
  "do_save_state_blob fuel cn malloc x is_chardev blobtype f buffersize =
     (let bt = get_blobtype blobtype in
      if bt = 0 then Some (1, [], x)
      else if \<not> of_open f then Some (1, [], x)
      else case save_loop fuel cn malloc is_chardev bt f (if is_chardev then buffersize else 4096) x
                  (replicate 3088 0) 0 (-1) [] of
        None \<Rightarrow> None
      | Some (had_error, remain, content, x1) \<Rightarrow>
          Some (if had_error \<or> remain \<noteq> 0 then 1 else 0, content, x1))"

subsection \<open>Loading a state blob\<close>

text \<open>
  The file: its content, if it opens, whether \<open>fstat\<close> works, and at which offsets reading fails. A packet of
  \<open>PTM_SET_STATEBLOB\<close> has flags, type, length and data; bytes that are not set are 0.
\<close>

record in_file =
  if_content :: "bytes option"
  if_fstat :: bool
  if_read_fails :: "nat \<Rightarrow> bool"

definition setstate_header :: "bool \<Rightarrow> u32 \<Rightarrow> nat \<Rightarrow> bytes" where
  "setstate_header is_chardev bt len = htodev32 is_chardev 0 @ htodev32 is_chardev bt @ htodev32 is_chardev (of_nat len)"

text \<open>With ioctls only: packets of 3072 bytes until one is not full. The result is \<open>had_error\<close>.\<close>

function load_ioctl_loop ::
  "'x ioctl_conn \<Rightarrow> bool \<Rightarrow> u32 \<Rightarrow> in_file \<Rightarrow> 'x \<Rightarrow> bytes \<Rightarrow> nat \<Rightarrow> bytes \<Rightarrow> bool \<times> 'x"
where
  "load_ioctl_loop cn is_chardev bt f x pss offset rest =
     (if if_read_fails f offset then (True, x)
      else
        let data = take 3072 rest;
            pss1 = mem_write pss 0 (setstate_header is_chardev bt (length data) @ data);
            returnsize = (if length data < 3072 then 3084 else 0)
        in case ctrlcmd cn x PTM_SET_STATEBLOB pss1 (12 + length data) returnsize of (n, pss2, x1) \<Rightarrow>
             if n < 0 then (True, x1)
             else if devtoh32 is_chardev pss2 \<noteq> 0 then (True, x1)
             else if length data < 3072 then (False, x1)
             else load_ioctl_loop cn is_chardev bt f x1 pss2 (offset + 3072) (drop 3072 rest))"
  by auto
termination by (relation "measure (\<lambda>(_, _, _, _, _, _, _, rest). length rest)") auto

text \<open>
  With \<open>write()\<close>: on a socket one write and the answer, on a device writes until one is short and a last ioctl. The
  loop is entered with a buffer of at least one byte; the test for 0 is there for the recursion only.
\<close>

function load_write_loop ::
  "'x ioctl_conn \<Rightarrow> bool \<Rightarrow> u32 \<Rightarrow> in_file \<Rightarrow> nat \<Rightarrow> 'x \<Rightarrow> bytes \<Rightarrow> nat \<Rightarrow> bytes \<Rightarrow> bool \<times> 'x"
where
  "load_write_loop cn is_chardev bt f buffersize x pss offset rest =
     (if if_read_fails f offset then (True, x)
      else
        let data = take buffersize rest in
        case cn_write cn x data of (n, x1) \<Rightarrow>
          if n \<noteq> int (length data) then (True, x1)
          else if \<not> is_chardev then
            (case cn_read cn x1 4 of
               (None, x2) \<Rightarrow> (True, x2)
             | (Some b, x2) \<Rightarrow> (length b \<noteq> 4 \<or> devtoh32 is_chardev b \<noteq> 0, x2))
          else if length data < buffersize then
            (case ctrlcmd cn x1 PTM_SET_STATEBLOB (mem_write pss 0 (setstate_header is_chardev bt 0)) 12 4 of
               (n2, pss2, x2) \<Rightarrow> (n2 < 0 \<or> devtoh32 is_chardev pss2 \<noteq> 0, x2))
          else if buffersize = 0 then (True, x1)
          else load_write_loop cn is_chardev bt f buffersize x1 pss (offset + length data) (drop buffersize rest))"
  by auto
termination by (relation "measure (\<lambda>(_, _, _, _, _, _, _, _, rest). length rest)") auto

declare load_ioctl_loop.simps [simp del] load_write_loop.simps [simp del]

definition do_load_state_blob ::
  "'x ioctl_conn \<Rightarrow> (nat \<Rightarrow> bool) \<Rightarrow> 'x \<Rightarrow> bool \<Rightarrow> string option \<Rightarrow> in_file option \<Rightarrow> nat \<Rightarrow> int \<times> 'x"
where
  "do_load_state_blob cn malloc x is_chardev blobtype file buffersize0 =
     (let bt = get_blobtype blobtype in
      if bt = 0 then (1, x)
      else case file of
        None \<Rightarrow> (1, x)
      | Some f \<Rightarrow>
      case if_content f of
        None \<Rightarrow> (1, x)
      | Some content \<Rightarrow>
          if \<not> is_chardev \<and> \<not> if_fstat f then (1, x)
          else
            let buffersize = (if is_chardev then buffersize0 else length content) in
            case (if buffersize = 0 then load_ioctl_loop cn is_chardev bt f x (replicate 3084 0) 0 content
                  else if \<not> malloc buffersize then (True, x)
                  else case ctrlcmd cn x PTM_SET_STATEBLOB
                              (mem_write (replicate 3084 0) 0
                                 (setstate_header is_chardev bt (if is_chardev then 0 else buffersize))) 12 0 of
                    (n, pss, x1) \<Rightarrow>
                      if n < 0 then (True, x1)
                      else if devtoh32 is_chardev pss \<noteq> 0 then (True, x1)
                      else load_write_loop cn is_chardev bt f buffersize x1 pss 0 content) of
              (had_error, x2) \<Rightarrow> (if had_error then 1 else 0, x2))"

subsection \<open>Command line\<close>

text \<open>\<open>sscanf(s, "%u", &port)\<close>: blanks, a sign, digits; the rest is ignored. The value wraps at 32 bits.\<close>

abbreviation DEFAULT_TCP_PORT :: nat where "DEFAULT_TCP_PORT \<equiv> 6546"

definition is_blank :: "char \<Rightarrow> bool" where
  "is_blank c = (c \<in> {CHR '' '', CHR 0x09, CHR 0x0a, CHR 0x0b, CHR 0x0c, CHR 0x0d})"

definition is_dec :: "char \<Rightarrow> bool" where
  "is_dec c = (of_char c \<ge> (48 :: nat) \<and> of_char c \<le> (57 :: nat))"

definition scan_unsigned :: "string \<Rightarrow> u32 option" where
  "scan_unsigned s =
     (let s1 = dropWhile is_blank s;
          (neg, s2) = (case s1 of c # cs \<Rightarrow> if c = CHR ''-'' then (True, cs) else if c = CHR ''+'' then (False, cs) else (False, s1)
                                | [] \<Rightarrow> (False, []));
          digits = takeWhile is_dec s2;
          v = foldl (\<lambda>n c. n * 10 + (of_char c - 48)) (0 :: nat) digits
      in if digits = [] then None else Some (if neg then - of_nat v else of_nat v))"

text \<open>
  \<open>strrchr\<close> as the index of the last colon. The result is host and port, \<open>None\<close> the return value -1; \<open>strdup_ok\<close>
  says whether there is memory. swtpm_bios has the same function with another default port.
\<close>

definition last_colon :: "string \<Rightarrow> nat option" where
  "last_colon s = (if CHR '':'' \<in> set s then Some (length s - Suc (length (takeWhile (\<lambda>c. c \<noteq> CHR '':'') (rev s)))) else None)"

definition tcp_optarg :: "nat \<Rightarrow> bool \<Rightarrow> string \<Rightarrow> (string \<times> nat) option" where
  "tcp_optarg default_port strdup_ok opt_arg =
     (case last_colon opt_arg of
        None \<Rightarrow> if strdup_ok then Some (opt_arg, default_port) else None
      | Some pos \<Rightarrow>
          let portstr = drop (Suc pos) opt_arg;
              port = (case scan_unsigned portstr of
                        None \<Rightarrow> None
                      | Some p \<Rightarrow> if unat p \<ge> 65536 then None else Some (unat p))
          in if pos = 0 then
               (case (if portstr = [] then Some default_port else port) of
                  None \<Rightarrow> None
                | Some p \<Rightarrow> if strdup_ok then Some (''127.0.0.1'', p) else None)
             else (case port of
                     None \<Rightarrow> None
                   | Some p \<Rightarrow> if strdup_ok then Some (take pos opt_arg, p) else None))"

definition parse_tcp_optarg :: "bool \<Rightarrow> string \<Rightarrow> (string \<times> nat) option" where
  "parse_tcp_optarg = tcp_optarg DEFAULT_TCP_PORT"

subsection \<open>The commands of main\<close>

text \<open>The branches of \<open>main\<close> after the connection is open: exit status, what is printed, the other side.\<close>

datatype client_cmd =
    Get_Caps | Init | Get_Established | Reset_Established byte | Shutdown | Stop | Set_Locality byte
  | Hash "bytes option" | Cancel | Store_Volatile | Save "string option" out_file | Load "string option" "in_file option"
  | Get_Config | Set_Buffersize u32 | Get_Info u64 | Lock_Storage u32

datatype printed = P_Caps u32 | P_Established byte | P_Config u32 | P_Sizes u32 u32 u32 | P_Info bytes

abbreviation EXIT_SUCCESS :: int where "EXIT_SUCCESS \<equiv> 0"
abbreviation EXIT_FAILURE :: int where "EXIT_FAILURE \<equiv> 1"

text \<open>A command whose answer begins with a result; \<open>show\<close> is what is printed of a good answer.\<close>

definition result_cmd ::
  "'x ioctl_conn \<Rightarrow> 'x \<Rightarrow> bool \<Rightarrow> ptm_cmd \<Rightarrow> bytes \<Rightarrow> nat \<Rightarrow> nat \<Rightarrow> (bytes \<Rightarrow> printed list) \<Rightarrow> int \<times> printed list \<times> 'x"
where
  "result_cmd cn x is_chardev cmd msg len_in len_out show =
     (case ctrlcmd cn x cmd msg len_in len_out of (n, resp, x1) \<Rightarrow>
        if n < 0 \<or> devtoh32 is_chardev resp \<noteq> 0 then (EXIT_FAILURE, [], x1) else (EXIT_SUCCESS, show resp, x1))"

definition cmd_c :: "'x ioctl_conn \<Rightarrow> 'x \<Rightarrow> bool \<Rightarrow> int \<times> printed list \<times> 'x" where
  "cmd_c cn x is_chardev =
     (case ctrlcmd cn x PTM_GET_CAPABILITY (replicate 8 0) 0 8 of (n, cap, x1) \<Rightarrow>
        if n < 0 then (EXIT_FAILURE, [], x1)
        else (EXIT_SUCCESS, [P_Caps (if is_chardev then ucast (le64toh cap) else be32toh (mem_read cap 4 4))], x1))"

text \<open>The text up to its end is printed; the offset of the next request is what was read.\<close>

primrec info_loop ::
  "nat \<Rightarrow> 'x ioctl_conn \<Rightarrow> bool \<Rightarrow> u64 \<Rightarrow> 'x \<Rightarrow> bytes \<Rightarrow> u32 \<Rightarrow> printed list \<Rightarrow> (int \<times> printed list \<times> 'x) option"
where
  "info_loop 0 cn is_chardev info_flags x pgi bytes_read out = None"
| "info_loop (Suc fuel) cn is_chardev info_flags x pgi bytes_read out =
     (let pgi1 = mem_write pgi 0 (htodev64 is_chardev info_flags @ htodev32 is_chardev bytes_read) in
      case ctrlcmd cn x PTM_GET_INFO pgi1 16 3084 of (n, resp, x1) \<Rightarrow>
        if n < 0 \<or> devtoh32 is_chardev resp \<noteq> 0 then Some (EXIT_FAILURE, out, x1)
        else
          let len = devtoh32 is_chardev (mem_read resp 8 4) in
          if unat len > 3072 then Some (EXIT_FAILURE, out, x1)
          else
            let bytes_read1 = bytes_read + len;
                out1 = out @ [P_Info (takeWhile (\<lambda>b. b \<noteq> 0) (mem_read resp 12 (unat len)))]
            in if bytes_read1 < devtoh32 is_chardev (mem_read resp 4 4)
               then info_loop fuel cn is_chardev info_flags x1 resp bytes_read1 out1
               else Some (EXIT_SUCCESS, out1, x1))"

definition exit_status :: "int \<times> 'x \<Rightarrow> int \<times> printed list \<times> 'x" where
  "exit_status r = (if fst r \<noteq> 0 then EXIT_FAILURE else EXIT_SUCCESS, [], snd r)"

text \<open>The number of retries of \<open>--lock-storage\<close> is read from the command line and not sent.\<close>

fun client_main ::
  "nat \<Rightarrow> 'x ioctl_conn \<Rightarrow> (nat \<Rightarrow> bool) \<Rightarrow> 'x \<Rightarrow> bool \<Rightarrow> nat \<Rightarrow> bytes \<Rightarrow> client_cmd \<Rightarrow> (int \<times> printed list \<times> 'x) option"
where
  "client_main fuel cn malloc x is_chardev buffersize stdin Get_Caps = Some (cmd_c cn x is_chardev)"
| "client_main fuel cn malloc x is_chardev buffersize stdin Init =
     Some (result_cmd cn x is_chardev PTM_INIT (htodev32 is_chardev PTM_INIT_FLAG_DELETE_VOLATILE) 4 4 (\<lambda>r. []))"
| "client_main fuel cn malloc x is_chardev buffersize stdin Get_Established =
     Some (result_cmd cn x is_chardev PTM_GET_TPMESTABLISHED (replicate 8 0) 0 8 (\<lambda>r. [P_Established (r ! 4)]))"
| "client_main fuel cn malloc x is_chardev buffersize stdin (Reset_Established l) =
     Some (result_cmd cn x is_chardev PTM_RESET_TPMESTABLISHED [l, 0, 0, 0] 1 4 (\<lambda>r. []))"
| "client_main fuel cn malloc x is_chardev buffersize stdin Shutdown =
     Some (result_cmd cn x is_chardev PTM_SHUTDOWN (replicate 4 0) 0 4 (\<lambda>r. []))"
| "client_main fuel cn malloc x is_chardev buffersize stdin Stop =
     Some (result_cmd cn x is_chardev PTM_STOP (replicate 4 0) 0 4 (\<lambda>r. []))"
| "client_main fuel cn malloc x is_chardev buffersize stdin (Set_Locality l) =
     Some (result_cmd cn x is_chardev PTM_SET_LOCALITY [l, 0, 0, 0] 1 4 (\<lambda>r. []))"
| "client_main fuel cn malloc x is_chardev buffersize stdin (Hash input) =
     Some (exit_status (do_hash_start_data_end cn x is_chardev input stdin))"
| "client_main fuel cn malloc x is_chardev buffersize stdin Cancel =
     Some (result_cmd cn x is_chardev PTM_CANCEL_TPM_CMD (replicate 4 0) 0 4 (\<lambda>r. []))"
| "client_main fuel cn malloc x is_chardev buffersize stdin Store_Volatile =
     Some (result_cmd cn x is_chardev PTM_STORE_VOLATILE (replicate 4 0) 0 4 (\<lambda>r. []))"
| "client_main fuel cn malloc x is_chardev buffersize stdin (Save blobtype f) =
     map_option (\<lambda>(r, content, x1). exit_status (r, x1))
       (do_save_state_blob fuel cn malloc x is_chardev blobtype f buffersize)"
| "client_main fuel cn malloc x is_chardev buffersize stdin (Load blobtype f) =
     Some (exit_status (do_load_state_blob cn malloc x is_chardev blobtype f buffersize))"
| "client_main fuel cn malloc x is_chardev buffersize stdin Get_Config =
     Some (result_cmd cn x is_chardev PTM_GET_CONFIG (replicate 8 0) 0 8
       (\<lambda>r. [P_Config (devtoh32 is_chardev (mem_read r 4 4))]))"
| "client_main fuel cn malloc x is_chardev buffersize stdin (Set_Buffersize n) =
     Some (result_cmd cn x is_chardev PTM_SET_BUFFERSIZE (htodev32 is_chardev n @ replicate 12 0) 4 16
       (\<lambda>r. [P_Sizes (devtoh32 is_chardev (mem_read r 4 4)) (devtoh32 is_chardev (mem_read r 8 4))
               (devtoh32 is_chardev (mem_read r 12 4))]))"
| "client_main fuel cn malloc x is_chardev buffersize stdin (Get_Info info_flags) =
     info_loop fuel cn is_chardev info_flags x (replicate 3088 0) 0 []"
| "client_main fuel cn malloc x is_chardev buffersize stdin (Lock_Storage retries) =
     Some (result_cmd cn x is_chardev PTM_LOCK_STORAGE (htodev32 is_chardev 0) 4 4 (\<lambda>r. []))"

end
