(* ===== verification/CuseEquiv.thy ===== *)
theory CuseEquiv
  imports Cuse Server
begin

section \<open>The two front ends agree\<close>

text \<open>
  cuse_tpm.c and ctrlchannel.c implement the same requests twice. This theory relates them: the state of the
  CUSE interface seen as the state of the control channel (\<open>ctrl_of\<close>), an ioctl as the control command
  with the same meaning (\<open>ctrl_request\<close>), and for each ioctl that has one the lemma that both do
  the same to the TPM, the NVRAM and the settings, and give the same answer, integers in the other byte order. The transfers
  of state blobs differ by design and have their own theory.
\<close>

definition ctrl_of :: "('t, 's) cuse \<Rightarrow> ('t, 's) ctrl" where
  "ctrl_of c =
     \<lparr>c_world = cu_world c,
      c_mlp = \<lparr>ml_flags = 0, ml_fd = -1, locality_flags = cu_locality_flags c, tpmversion = cu_tpmversion c,
               startupType = 0, lastCommand = g_lastCommand c, disable_auto_shutdown = g_disable_auto_shutdown c,
               incoming_migration = g_incoming_migration c, storage_locked = g_storage_locked c,
               release_lock_outgoing = g_release_lock_outgoing c, locking_retries = g_locking_retries c,
               json_profile = g_json_profile c\<rparr>,
      c_locality = cu_locality c, c_running = tpm_running c, c_terminate = False,
      c_reads = [], c_sent = [], c_wfails = [], c_open = True\<rparr>"

text \<open>The sizes FUSE passes for each ioctl: those of the structure in its number.\<close>

fun ioctl_sized :: "ptm_cmd \<Rightarrow> bytes \<Rightarrow> nat \<Rightarrow> bool" where
  "ioctl_sized PTM_GET_CAPABILITY i n = (i = [] \<and> n = 8)"
| "ioctl_sized PTM_INIT i n = (length i = 4 \<and> n = 4)"
| "ioctl_sized PTM_GET_TPMESTABLISHED i n = (i = [] \<and> n = 8)"
| "ioctl_sized PTM_SET_LOCALITY i n = (length i = 4 \<and> n = 4)"
| "ioctl_sized PTM_HASH_DATA i n = (length i = 4100 \<and> n = 4100)"
| "ioctl_sized PTM_RESET_TPMESTABLISHED i n = (length i = 4 \<and> n = 4)"
| "ioctl_sized PTM_GET_STATEBLOB i n = (length i = 3088 \<and> n = 3088)"
| "ioctl_sized PTM_SET_STATEBLOB i n = (length i = 3084 \<and> n = 3084)"
| "ioctl_sized PTM_GET_CONFIG i n = (i = [] \<and> n = 8)"
| "ioctl_sized PTM_SET_BUFFERSIZE i n = (length i = 16 \<and> n = 16)"
| "ioctl_sized PTM_GET_INFO i n = (length i = 3088 \<and> n = 3088)"
| "ioctl_sized PTM_LOCK_STORAGE i n = (length i = 4 \<and> n = 4)"
| "ioctl_sized cmd i n = (i = [] \<and> n = 4)"

text \<open>
  The request on the control channel. Left out: the capabilities, which have another format, the state
  blobs, a hash of more than the 4096 bytes of the structure, and the bad locality that the ioctl does not answer.
\<close>

fun ctrl_request :: "ptm_cmd \<Rightarrow> bytes \<Rightarrow> (u32 \<times> bytes) option" where
  "ctrl_request PTM_INIT i = Some (CMD_INIT, htobe32 (le32toh i))"
| "ctrl_request PTM_STOP i = Some (CMD_STOP, [])"
| "ctrl_request PTM_SHUTDOWN i = Some (CMD_SHUTDOWN, [])"
| "ctrl_request PTM_GET_TPMESTABLISHED i = Some (CMD_GET_TPMESTABLISHED, [])"
| "ctrl_request PTM_RESET_TPMESTABLISHED i =
     (if i ! 0 > 4 then None else Some (CMD_RESET_TPMESTABLISHED, take 1 i))"
| "ctrl_request PTM_SET_LOCALITY i = Some (CMD_SET_LOCALITY, take 1 i)"
| "ctrl_request PTM_HASH_START i = Some (CMD_HASH_START, [])"
| "ctrl_request PTM_HASH_DATA i =
     (let len = le32toh (mem_read i 0 4) in
      if unat len > 4096 then None else Some (CMD_HASH_DATA, htobe32 len @ mem_read i 4 (unat len)))"
| "ctrl_request PTM_HASH_END i = Some (CMD_HASH_END, [])"
| "ctrl_request PTM_CANCEL_TPM_CMD i = Some (CMD_CANCEL_TPM_CMD, [])"
| "ctrl_request PTM_STORE_VOLATILE i = Some (CMD_STORE_VOLATILE, [])"
| "ctrl_request PTM_GET_CONFIG i = Some (CMD_GET_CONFIG, [])"
| "ctrl_request PTM_SET_BUFFERSIZE i = Some (CMD_SET_BUFFERSIZE, htobe32 (le32toh (mem_read i 0 4)))"
| "ctrl_request PTM_GET_INFO i =
     Some (CMD_GET_INFO, htobe64 (le64toh (mem_read i 0 8)) @ htobe32 (le32toh (mem_read i 8 4)) @ htobe32 0)"
| "ctrl_request PTM_LOCK_STORAGE i = Some (CMD_LOCK_STORAGE, htobe32 (le32toh (mem_read i 0 4)))"
| "ctrl_request cmd i = None"

text \<open>What \<open>PTM_INIT\<close> needs of its surroundings beyond the control channel: a directory that opens, a thread pool.\<close>

definition cuse_can_start :: "('t, 's) deps \<Rightarrow> cuse_env \<Rightarrow> ('t, 's) world \<Rightarrow> bool" where
  "cuse_can_start d e w \<longleftrightarrow>
     (\<exists>p. g_backend_uri (nv_tpmstate (w_nv w)) = Some (''dir://'' @ p) \<and>
          (ce_opendir e p \<or> ce_mkdir e p)) \<and>
     ce_thread_pool_new e \<and> malloc_ok (d_crypto d) 4096"

text \<open>
  Both front ends did the same: the same state, one answer each. The control channel sends integers in big endian, the device in
  the byte order of the host (taken to be little endian): the answer of the device is that of the control channel with each
  integer reversed, and what is left of the structure that FUSE copies. \<open>answer_fields\<close> has the sizes of the integers behind the result.
\<close>

fun swap_fields :: "nat list \<Rightarrow> bytes \<Rightarrow> bytes" where
  "swap_fields [] bs = bs"
| "swap_fields (k # ks) bs = rev (take k bs) @ swap_fields ks (drop k bs)"

fun answer_fields :: "ptm_cmd \<Rightarrow> nat list" where
  "answer_fields PTM_GET_CONFIG = [4]"
| "answer_fields PTM_SET_BUFFERSIZE = [4, 4, 4]"
| "answer_fields PTM_GET_INFO = [4, 4]"
| "answer_fields _ = []"

definition same_answer :: "nat list \<Rightarrow> fuse_reply list \<Rightarrow> bytes \<Rightarrow> bool" where
  "same_answer ks rs out \<longleftrightarrow> (\<exists>rest. rs = [Reply_ioctl (swap_fields (4 # ks) out @ rest)])"

definition agree ::
  "nat list \<Rightarrow> (fuse_reply list \<times> bool \<times> ('t, 's) cuse) option \<Rightarrow> ('t, 's) ctrl option \<Rightarrow> bool"
where
  "agree ks x y \<longleftrightarrow>
     (case x of
        None \<Rightarrow> y = None
      | Some (rs, ex, c) \<Rightarrow>
          (\<exists>out. y = Some ((ctrl_of c)\<lparr>c_terminate := ex, c_sent := [out]\<rparr>) \<and> same_answer ks rs out))"

lemma rev_htobe32 [simp]: "rev (htobe32 x) = htole32 x"
  by (simp add: htobe32_def htole32_def)

lemma swap_fields_Nil [simp]: "swap_fields ks [] = []"
  by (induction ks) simp_all

lemma swap_fields_res [simp]: "swap_fields (4 # ks) (htobe32 res @ out) = htole32 res @ swap_fields ks out"
  by simp

lemma swap_fields_res0 [simp]: "swap_fields (4 # ks) (htobe32 res) = htole32 res"
  by simp

lemma same_res [simp]: "same_answer ks (reply_res res) (htobe32 res') \<longleftrightarrow> res = res'"
proof
  assume "same_answer ks (reply_res res) (htobe32 res')"
  then obtain rest where "htole32 res = htole32 res' @ rest"
    unfolding same_answer_def reply_res_def swap_fields_res0 by auto
  then have "le32toh (htole32 res) = le32toh (htole32 res' @ rest)" by (rule arg_cong)
  then show "res = res'" by (simp only: endian_roundtrip endian_roundtrip0)
next
  assume "res = res'"
  then show "same_answer ks (reply_res res) (htobe32 res')"
    unfolding same_answer_def reply_res_def swap_fields_res0 by simp
qed

lemma agree_None [simp]: "agree ks None None"
  by (simp add: agree_def)

lemma agree_reply:
  "ctrl_of c' = c1 \<Longrightarrow> same_answer ks rs out \<Longrightarrow> agree ks (no_exit (Some (rs, c'))) (reply (out, c1))"
  by (auto simp: agree_def no_exit_def reply_def send_resp_def ctrl_of_def)

lemma agree_same:
  "same_answer ks rs out \<Longrightarrow> agree ks (Some (rs, False, c)) (reply (out, ctrl_of c))"
  using agree_reply [of c "ctrl_of c" ks rs out] by (simp add: no_exit_def)

lemma ctrl_of_simps [simp]:
  "c_world (ctrl_of c) = cu_world c" "c_locality (ctrl_of c) = cu_locality c" "c_running (ctrl_of c) = tpm_running c"
  "tpmversion (c_mlp (ctrl_of c)) = cu_tpmversion c" "locality_flags (c_mlp (ctrl_of c)) = cu_locality_flags c"
  "c_wfails (ctrl_of c) = []" "c_sent (ctrl_of c) = []" "json_profile (c_mlp (ctrl_of c)) = g_json_profile c"
  "storage_locked (c_mlp (ctrl_of c)) = g_storage_locked c" "locking_retries (c_mlp (ctrl_of c)) = g_locking_retries c"
  "incoming_migration (c_mlp (ctrl_of c)) = g_incoming_migration c"
  "disable_auto_shutdown (c_mlp (ctrl_of c)) = g_disable_auto_shutdown c" "lastCommand (c_mlp (ctrl_of c)) = g_lastCommand c"
  by (simp_all add: ctrl_of_def)

lemma ctrl_of_upd:
  "ctrl_of (cu_lib_upd c t) = libst_upd (ctrl_of c) t" "ctrl_of (cu_nv_upd c nv) = nv_upd (ctrl_of c) nv"
  "ctrl_of (c\<lparr>cu_locality := l\<rparr>) = (ctrl_of c)\<lparr>c_locality := l\<rparr>"
  "ctrl_of (c\<lparr>cu_resp := r\<rparr>) = ctrl_of c" "ctrl_of (c\<lparr>cu_pool := b\<rparr>) = ctrl_of c"
  "ctrl_of (cached_stateblob_free c) = ctrl_of c"
  by (simp_all add: ctrl_of_def cu_lib_upd_def cu_nv_upd_def libst_upd_def nv_upd_def cached_stateblob_free_def)

subsection \<open>Command by command\<close>

lemma simple_agrees:
  "agree [] (no_exit (Some (ioctl_simple f c))) (reply (cmd_simple f (ctrl_of c) []))"
  by (cases "f (w_lib (cu_world c))", cases "tpm_running c")
    (auto simp: ioctl_simple_def cmd_simple_def err_not_running_def ptm_res_def ctrl_of_upd intro!: agree_reply)

lemma set_locality_agrees:
  assumes "length i = 4"
  shows "agree [] (no_exit (Some (ioctl_set_locality c i))) (reply (cmd_set_locality (ctrl_of c) (take 1 i)))"
  using assms by (auto simp: ioctl_set_locality_def cmd_set_locality_def ptm_res_def ctrl_of_upd intro!: agree_reply)

lemma reset_established_agrees:
  assumes "length i = 4" "i ! 0 \<le> 4"
  shows "agree [] (no_exit (Some (ioctl_reset_tpmestablished d c i)))
    (reply (cmd_reset_tpmestablished d (ctrl_of c) (take 1 i)))"
  using assms
  by (cases "TPM_IO_TpmEstablished_Reset (d_lib d) (i ! 0) (w_lib (cu_world c))")
    (auto simp: ioctl_reset_tpmestablished_def cmd_reset_tpmestablished_def err_not_running_def ptm_res_def
      ctrl_of_def cu_lib_upd_def libst_upd_def Let_def intro!: agree_reply)

lemma get_established_agrees:
  "agree [] (Some (ioctl_get_tpmestablished d c 8, False, c)) (reply (cmd_get_tpmestablished d (ctrl_of c) [], ctrl_of c))"
  by (cases "TPM_IO_TpmEstablished_Get (d_lib d) (w_lib (cu_world c))")
    (auto simp: ioctl_get_tpmestablished_def cmd_get_tpmestablished_def err_not_running_def ptm_res_def
      same_answer_def reply_res_def intro!: agree_same)

lemma mem_read_le_prefix:
  "4 \<le> length i \<Longrightarrow> le32toh (mem_write i 0 (htole32 r)) = r"
  by (simp add: mem_write_def)

lemma hash_data_agrees:
  assumes "length i = 4100" "len = le32toh (mem_read i 0 4)" "unat len \<le> 4096"
  shows "agree [] (no_exit (Some (ioctl_hash_data d c i)))
    (reply_option (cmd_hash_data d (ctrl_of c) (htobe32 len @ mem_read i 4 (unat len))))"
proof (cases "tpm_running c")
  case True
  obtain res t where h: "TPM_IO_Hash_Data (d_lib d) (w_lib (cu_world c)) (mem_read i 4 (unat len)) = (res, t)"
    by fastforce
  have l: "length (mem_read i 4 (unat len)) = unat len" using assms by simp
  have "cmd_hash_data d (ctrl_of c) (htobe32 len @ mem_read i 4 (unat len)) =
      Some (htobe32 res, libst_upd (ctrl_of c) t)"
    using True h l by (simp add: cmd_hash_data_def mem_read_def [of "htobe32 len @ _" 0] Let_def del: mem_read_0)
  moreover have "ioctl_hash_data d c i = ([Reply_ioctl (mem_write i 0 (htole32 res))], cu_lib_upd c t)"
    using True assms h by (simp add: ioctl_hash_data_def Let_def)
  moreover have "same_answer [] [Reply_ioctl (mem_write i 0 (htole32 res))] (htobe32 res)"
    by (simp add: same_answer_def mem_write_def)
  ultimately show ?thesis
    by (simp add: reply_option_def agree_reply ctrl_of_upd)
next
  case False
  then show ?thesis
    by (simp add: ioctl_hash_data_def cmd_hash_data_def reply_option_def err_not_running_def ptm_res_def agree_reply)
qed

lemma store_volatile_agrees:
  "agree [] (no_exit (ioctl_store_volatile d c)) (reply_option (cmd_store_volatile d (ctrl_of c) []))"
proof (cases "tpm_running c \<and> g_nvram_backend_ops (w_nv (cu_world c)) \<noteq> None")
  case True
  then obtain ops res nv where "g_nvram_backend_ops (w_nv (cu_world c)) = Some ops"
    "SWTPM_NVRAM_Store_Volatile (d_crypto d) (nv_lib d) (w_lib (cu_world c)) ops (w_nv (cu_world c)) = (res, nv)"
    by fastforce
  with True show ?thesis
    by (simp add: ioctl_store_volatile_def cmd_store_volatile_def reply_option_def ptm_res_def agree_reply ctrl_of_upd)
next
  case False
  then show ?thesis
    by (auto simp: ioctl_store_volatile_def cmd_store_volatile_def reply_option_def err_not_running_def ptm_res_def
      no_exit_def agree_same split: option.splits)
qed

lemma get_config_agrees:
  "agree [4] (Some (ioctl_get_config c 8, False, c)) (reply (cmd_get_config (ctrl_of c) [], ctrl_of c))"
  by (rule agree_same) (simp add: ioctl_get_config_def cmd_get_config_def same_answer_def Let_def)

lemma set_buffersize_agrees:
  assumes "length i = 16"
  shows "agree [4, 4, 4] (no_exit (ioctl_set_buffersize d c i 16))
    (reply (cmd_set_buffersize d (ctrl_of c) (htobe32 (le32toh (mem_read i 0 4)))))"
proof -
  obtain bs mn mx t where "TPMLIB_SetBufferSize (d_lib d) (w_lib (cu_world c)) (le32toh (mem_read i 0 4)) = ((bs, mn, mx), t)"
    by (metis prod.exhaust)
  then show ?thesis
    using assms
    by (auto simp: ioctl_set_buffersize_def cmd_set_buffersize_def err_running_def ptm_res_def Let_def ctrl_of_upd
      same_answer_def reply_res_def mem_read_def [of "htobe32 _" 0] intro!: agree_reply simp del: mem_read_0)
qed

lemma get_info_agrees:
  assumes "length i = 3088" "length (ce_stack e) = 3088"
  shows "agree [4, 4] (case ioctl_get_info d e c i 3088 of None \<Rightarrow> None | Some rs \<Rightarrow> Some (rs, False, c))
    (reply (cmd_get_info d (ctrl_of c)
       (htobe64 (le64toh (mem_read i 0 8)) @ htobe32 (le32toh (mem_read i 8 4)) @ htobe32 0), ctrl_of c))"
proof -
  let ?fl = "le64toh (mem_read i 0 8)" and ?off = "le32toh (mem_read i 8 4)"
  have m: "mem_read (htobe64 ?fl @ htobe32 ?off @ htobe32 0) 0 8 = htobe64 ?fl"
    "mem_read (htobe64 ?fl @ htobe32 ?off @ htobe32 0) 8 4 = htobe32 ?off"
    by (simp_all add: mem_read_def)
  have "\<exists>rs out. ioctl_get_info d e c i 3088 = Some rs \<and> same_answer [4, 4] rs out \<and>
      cmd_get_info d (ctrl_of c) (htobe64 ?fl @ htobe32 ?off @ htobe32 0) = out"
    using assms
    by (auto simp: ioctl_get_info_def cmd_get_info_def m Let_def err_memory_def err_bad_input_def ptm_res_def
      same_answer_def reply_res_def mem_write_def simp del: mem_read_0 split: option.splits)
  then show ?thesis by (auto intro: agree_same)
qed

lemma ensure_locked_agrees:
  "mainloop_ensure_locked_storage (ctrl_of c) =
     (case ensure_locked_storage c of (ok, c1) \<Rightarrow> (ok, ctrl_of c1))"
  by (cases "SWTPM_NVRAM_Lock_Storage (w_nv (cu_world c)) (unat (g_locking_retries c))")
    (auto simp: mainloop_ensure_locked_storage_def ensure_locked_storage_def Let_def ctrl_of_def cu_nv_upd_def)

lemma lock_storage_agrees:
  assumes "length i = 4"
  shows "agree [] (no_exit (ioctl_lock_storage c i 4))
    (reply (cmd_lock_storage (ctrl_of c) (htobe32 (le32toh (mem_read i 0 4)))))"
proof -
  let ?n = "le32toh (mem_read i 0 4)"
  have u: "(ctrl_of c)\<lparr>c_mlp := (c_mlp (ctrl_of c))\<lparr>locking_retries := ?n\<rparr>\<rparr> = ctrl_of (c\<lparr>g_locking_retries := ?n\<rparr>)"
    by (simp add: ctrl_of_def)
  have m: "mem_read (htobe32 ?n) 0 4 = htobe32 ?n" by (simp add: mem_read_def)
  obtain ok c1 where "ensure_locked_storage (c\<lparr>g_locking_retries := ?n\<rparr>) = (ok, c1)" by fastforce
  then show ?thesis
    using assms
    by (simp add: ioctl_lock_storage_def cmd_lock_storage_def m Let_def u ensure_locked_agrees agree_reply del: mem_read_0)
qed

subsection \<open>Starting and stopping\<close>

lemma tpm_end_idle:
  assumes "\<not> thread_busy c"
  shows "\<exists>c1. tpm_end d c = Some c1 \<and> ctrl_of c1 = stop_tpm d (ctrl_of c) \<and> cu_world c1 = c_world (stop_tpm d (ctrl_of c))
    \<and> ptm_request c1 = ptm_request c \<and> cu_tpmversion c1 = cu_tpmversion c \<and> g_json_profile c1 = g_json_profile c"
  using assms
  by (cases "tpmlib_maybe_send_tpm2_shutdown (base_lib d) (cu_tpmversion c) (cu_world c) (g_lastCommand c)")
    (auto simp: tpm_end_def worker_thread_end_def worker_thread_wait_done_def stop_tpm_def Let_def ctrl_of_def)

lemma stop_agrees:
  assumes "\<not> thread_busy c"
  shows "agree [] (no_exit (ioctl_stop d c)) (reply (cmd_stop d (ctrl_of c) []))"
    and "agree [] (case ioctl_stop d c of None \<Rightarrow> None | Some (rs, c1) \<Rightarrow> Some (rs, True, c1))
           (reply (cmd_shutdown d (ctrl_of c) []))"
proof -
  obtain c1 where c1: "tpm_end d c = Some c1" "ctrl_of c1 = stop_tpm d (ctrl_of c)"
    using tpm_end_idle [OF assms] by blast
  then show "agree [] (no_exit (ioctl_stop d c)) (reply (cmd_stop d (ctrl_of c) []))"
    by (simp add: ioctl_stop_def cmd_stop_def ptm_res_def agree_reply ctrl_of_upd)
  have "send_resp ((stop_tpm d (ctrl_of c))\<lparr>c_terminate := True\<rparr>) (htobe32 0) =
      (ctrl_of c1)\<lparr>c_terminate := True, c_sent := [htobe32 0]\<rparr>"
    unfolding c1(2) [symmetric] by (simp add: send_resp_def)
  then show "agree [] (case ioctl_stop d c of None \<Rightarrow> None | Some (rs, c1) \<Rightarrow> Some (rs, True, c1))
       (reply (cmd_shutdown d (ctrl_of c) []))"
    using c1 by (auto simp: ioctl_stop_def cmd_shutdown_def ptm_res_def agree_def reply_def ctrl_of_upd)
qed

text \<open>With the URI set, asking for it changes nothing.\<close>

lemma tpm_start_can:
  assumes "cuse_can_start d e (cu_world c)"
  shows "\<exists>b. tpm_start d e c flags v profile =
    (let c2 = c\<lparr>cu_pool := True, ptm_request := Some b, g_storage_locked := \<not> g_incoming_migration c\<rparr>
     in case tpmlib_start (base_lib d) (d_ossl d) (cu_world c) flags v (\<not> g_incoming_migration c) profile of
          None \<Rightarrow> None
        | Some (res, w) \<Rightarrow>
            if res \<noteq> TPM_SUCCESS then Some (-1, res, c2\<lparr>cu_world := w, cu_pool := False\<rparr>)
            else Some (0, res, c2\<lparr>cu_world := w\<rparr>))"
proof -
  obtain p where p: "g_backend_uri (nv_tpmstate (w_nv (cu_world c))) = Some (''dir://'' @ p)"
      "ce_opendir e p \<or> ce_mkdir e p" "ce_thread_pool_new e" "malloc_ok (d_crypto d) 4096"
    using assms unfolding cuse_can_start_def by blast
  have u: "tpmstate_get_backend_uri (nv_tpmstate (w_nv (cu_world c))) =
      (Some (''dir://'' @ p), nv_tpmstate (w_nv (cu_world c)))"
    using p(1) by (simp add: tpmstate_get_backend_uri_def)
  have n: "cu_nv_upd c ((w_nv (cu_world c))\<lparr>nv_tpmstate := nv_tpmstate (w_nv (cu_world c))\<rparr>) = c"
    by (simp add: cu_nv_upd_def)
  have s: "starts_with ''dir://'' (''dir://'' @ p)" "drop 6 (''dir://'' @ p) = p"
    by (simp_all add: starts_with_def)
  show ?thesis
    unfolding tpm_start_def u prod.case n
    using p(2-4) s by (auto simp: Let_def split: option.splits)
qed

lemma init_agrees:
  assumes "\<not> thread_busy c" "length i = 4" "cuse_can_start d e (c_world (stop_tpm d (ctrl_of c)))"
  shows "agree [] (no_exit (ioctl_init d e c i)) (reply_option (cmd_init d (ctrl_of c) (htobe32 (le32toh i))))"
proof -
  obtain c1 where c1: "tpm_end d c = Some c1" "ctrl_of c1 = stop_tpm d (ctrl_of c)"
      "cuse_can_start d e (cu_world c1)" "cu_tpmversion c1 = cu_tpmversion c" "g_json_profile c1 = g_json_profile c"
    using tpm_end_idle [OF assms(1), of d] assms(3) by auto
  obtain b where b: "tpm_start d e c1 (le32toh i) (cu_tpmversion c1) (g_json_profile c1) =
    (let c2 = c1\<lparr>cu_pool := True, ptm_request := Some b, g_storage_locked := \<not> g_incoming_migration c1\<rparr>
     in case tpmlib_start (base_lib d) (d_ossl d) (cu_world c1) (le32toh i) (cu_tpmversion c1)
               (\<not> g_incoming_migration c1) (g_json_profile c1) of
          None \<Rightarrow> None
        | Some (res, w) \<Rightarrow>
            if res \<noteq> TPM_SUCCESS then Some (-1, res, c2\<lparr>cu_world := w, cu_pool := False\<rparr>)
            else Some (0, res, c2\<lparr>cu_world := w\<rparr>))"
    using tpm_start_can [OF c1(3)] by blast
  show ?thesis
  proof (cases "tpmlib_start (base_lib d) (d_ossl d) (cu_world c1) (le32toh i) (cu_tpmversion c1)
               (\<not> g_incoming_migration c1) (g_json_profile c1)")
    case None
    then show ?thesis
      using assms(2) c1(1) b
      by (simp add: ioctl_init_def cmd_init_def c1(2) [symmetric] Let_def no_exit_def reply_option_def)
  next
    case (Some x)
    obtain res w where x: "x = (res, w)" by fastforce
    define k where "k = (ctrl_of c1)\<lparr>c_mlp := (c_mlp (ctrl_of c1))\<lparr>storage_locked := \<not> g_incoming_migration c1\<rparr>, c_world := w\<rparr>"
    define k' where "k' = (if res = 0 then k\<lparr>c_running := True, c_mlp := (c_mlp k)\<lparr>json_profile := None\<rparr>\<rparr> else k)"
    have "cmd_init d (ctrl_of c) (htobe32 (le32toh i)) = Some (htobe32 res, k')"
      using Some x by (simp add: cmd_init_def c1(2) [symmetric] Let_def ptm_res_def k_def k'_def)
    moreover define c2 where "c2 = c1\<lparr>cu_pool := (res = 0), ptm_request := Some b,
        g_storage_locked := \<not> g_incoming_migration c1, cu_world := w, tpm_running := (res = 0 \<or> tpm_running c1),
        g_json_profile := (if res = 0 then None else g_json_profile c1)\<rparr>"
    moreover have "ioctl_init d e c i = Some (reply_res res, c2)"
      using Some x assms(2) c1(1) b by (simp add: ioctl_init_def Let_def c2_def)
    moreover have "ctrl_of c2 = k'" by (simp add: ctrl_of_def k_def k'_def c2_def)
    ultimately show ?thesis by (simp add: reply_option_def agree_reply)
  qed
qed

subsection \<open>The theorem\<close>

lemmas agreements = simple_agrees set_locality_agrees reset_established_agrees get_established_agrees
  hash_data_agrees [OF _ refl] store_volatile_agrees get_config_agrees set_buffersize_agrees get_info_agrees
  lock_storage_agrees stop_agrees init_agrees

text \<open>
  C6. CUSE and control channel agree on the requests that \<open>ctrl_request\<close> translates: all but the capabilities, the transfer of
  state blobs, setting the data descriptor, hashing more than 4096 bytes at once and resetting the established bit with a locality
  above 4. While no command runs in the worker thread, such an ioctl with the size of its structure, and for \<open>PTM_INIT\<close> with
  the state in a directory that opens or can be made, a thread pool and memory for a request,
  does to the TPM, the NVRAM, the locality and the settings exactly what the control command with the same
  contents does, both answer once and with the same bytes but for the byte order of integers, and both are undefined or end the
  program in the same cases.
\<close>

theorem cuse_agrees_with_ctrlchannel:
  assumes "\<not> thread_busy c" "ctrl_request cmd i = Some (ccmd, body)" "ioctl_sized cmd i n"
    and "length (ce_stack e) = 3088"
    and "cmd = PTM_INIT \<Longrightarrow> cuse_can_start d e (c_world (stop_tpm d (ctrl_of c)))"
  shows "agree (answer_fields cmd) (ioctl_dispatch d e c cmd i n) (ctrl_dispatch d (ctrl_of c) ccmd body None)"
  using assms
  by (cases cmd) (auto simp: ctrl_dispatch_def Let_def not_less simp del: mem_read_0 One_nat_def intro: agreements split: if_splits)

subsection \<open>A concrete device\<close>

definition example_cuse :: "bool \<Rightarrow> (bytes list, dirstate) cuse" where
  "example_cuse running =
     \<lparr>cu_world = example_world Map.empty, cu_tpmversion = TPMLIB_TPM_VERSION_2, ptm_request = Some (replicate 4096 0),
      cu_resp = \<lparr>rbuffer = None, rlength = 0, rTotal = 0\<rparr>, ptm_read_offset = 0, ptm_req_len = 0, cu_locality = 0,
      tpm_running = running, cu_locality_flags = 0, g_lastCommand = 0, g_disable_auto_shutdown = False,
      g_incoming_migration = False, g_storage_locked = True, g_release_lock_outgoing = False, g_locking_retries = 0,
      g_json_profile = None,
      cached_stateblob = \<lparr>cs_blobtype = 0, cs_decrypt = False, cs_is_encrypted = False, cs_data = None\<rparr>,
      tx_state = \<lparr>tx_mode = TX_STATE_RW_COMMAND, tx_blobtype = 0, tx_blob_is_encrypted = False, tx_offset = 0\<rparr>,
      cu_stateblob = \<lparr>sb_type = 0, sb_data = None, sb_length = 0, sb_is_encrypted = False\<rparr>,
      thread_busy = False, cu_pool = running, cu_captured = [], cu_exit = False\<rparr>"

definition example_cuse_env :: cuse_env where
  "example_cuse_env = \<lparr>ce_opendir = (\<lambda>_. True), ce_mkdir = (\<lambda>_. False), ce_thread_pool_new = True,
     ce_stack = replicate 3088 0xaa\<rparr>"

theorem cuse_agrees_with_ctrlchannel_witness:
  "agree [] (ioctl_dispatch example_deps example_cuse_env (example_cuse False) PTM_INIT (htole32 1) 4)
     (ctrl_dispatch example_deps (ctrl_of (example_cuse False)) CMD_INIT (htobe32 1) None)"
proof (rule cuse_agrees_with_ctrlchannel [where cmd = PTM_INIT, simplified answer_fields.simps])
  show "cuse_can_start example_deps example_cuse_env (c_world (stop_tpm example_deps (ctrl_of (example_cuse False))))"
    by (simp add: cuse_can_start_def stop_tpm_def example_cuse_def example_cuse_env_def example_defs
      example_settings_def example_crypto_def)
qed (simp_all add: example_cuse_def example_cuse_env_def)

end
