(* ===== verification/CuseRun.thy ===== *)
theory CuseRun
  imports CuseEquiv
begin

section \<open>Runs of the CUSE device\<close>

text \<open>
  The requests of a client and the worker thread as steps of one relation, with the properties of every run: each
  request is answered once, the device has one client at a time, the locality keeps to the
  flags, and a queued command reaches libtpms as it was written, unless a further write is refused before the worker
  starts.
\<close>

datatype cuse_req = Open | Release | Read nat | Write bytes | Ioctl ptm_cmd bytes nat

fun cuse_handle ::
  "('t, 's) deps \<Rightarrow> cuse_env \<Rightarrow> ('t, 's) cuse \<Rightarrow> cuse_req \<Rightarrow> (fuse_reply list \<times> ('t, 's) cuse) option"
where
  "cuse_handle d e c Open = Some (ptm_open c)"
| "cuse_handle d e c Release = Some (ptm_release c)"
| "cuse_handle d e c (Read n) = ptm_read d c n"
| "cuse_handle d e c (Write buf) = ptm_write d c buf"
| "cuse_handle d e c (Ioctl cmd i n) = ptm_ioctl d e c cmd i n"

subsection \<open>Replies\<close>

text \<open>
  The requests that get no reply: a transfer on a closed device, which the kernel does not deliver, and the
  ioctl that resets the established bit with a bad locality.
\<close>

fun silent :: "('t, 's) cuse \<Rightarrow> cuse_req \<Rightarrow> bool" where
  "silent c (Read n) = (tx_mode (tx_state c) = TX_STATE_CLOSED)"
| "silent c (Write buf) = (tx_mode (tx_state c) = TX_STATE_CLOSED)"
| "silent c (Ioctl PTM_RESET_TPMESTABLISHED i n) = (tpm_running c \<and> length i = 4 \<and> i ! 0 > 4)"
| "silent c req = False"

lemma worker_keeps_running:
  "worker_thread d c = Some c' \<Longrightarrow> tpm_running c' = tpm_running c \<and> cu_locality c' = cu_locality c \<and>
     cu_locality_flags c' = cu_locality_flags c \<and> tx_state c' = tx_state c \<and> ptm_request c' = ptm_request c \<and>
     ptm_req_len c' = ptm_req_len c \<and> \<not> thread_busy c'"
  by (auto simp: worker_thread_def process_into_def split: option.splits if_splits prod.splits)

lemma wait_keeps_running:
  "worker_thread_wait_done d c = Some c' \<Longrightarrow> tpm_running c' = tpm_running c \<and> cu_locality c' = cu_locality c \<and>
     cu_locality_flags c' = cu_locality_flags c \<and> tx_state c' = tx_state c \<and> ptm_request c' = ptm_request c \<and>
     ptm_req_len c' = ptm_req_len c \<and> \<not> thread_busy c'"
  by (auto simp: worker_thread_wait_done_def split: if_splits dest: worker_keeps_running)

lemma length_reply_res [simp]: "length (reply_res r) = 1"
  by (simp add: reply_res_def)

lemma set_stateblob_replies: "ptm_set_stateblob d c i = Some (rs, c') \<Longrightarrow> length rs = 1"
  by (auto simp: ptm_set_stateblob_def Let_def split: if_splits option.splits)

lemma get_stateblob_replies: "ptm_get_stateblob d c i = Some (rs, c') \<Longrightarrow> length rs = 1"
  by (auto simp: ptm_get_stateblob_def Let_def split: option.splits prod.splits)

lemmas ioctl_defs = ioctl_get_capability_def ioctl_init_def ioctl_stop_def ioctl_get_tpmestablished_def
  ioctl_reset_tpmestablished_def ioctl_set_locality_def ioctl_simple_def ioctl_hash_data_def ioctl_store_volatile_def
  ioctl_get_stateblob_def ioctl_set_stateblob_def ioctl_get_config_def ioctl_set_buffersize_def ioctl_get_info_def
  ioctl_lock_storage_def

lemma dispatch_replies:
  assumes "ioctl_dispatch d e c cmd i n = Some (rs, ex, c')"
  shows "length rs = (if silent c (Ioctl cmd i n) then 0 else 1)"
  using assms
  by (cases cmd)
    (auto simp: ioctl_defs no_exit_def Let_def dest: set_stateblob_replies get_stateblob_replies
      split: if_splits option.splits prod.splits)

lemma ptm_ioctlE:
  assumes "ptm_ioctl d e c cmd i n = Some (rs, c')"
  obtains c1 ex c2 where "c1 = c \<or> worker_thread_wait_done d c = Some c1"
    "ioctl_dispatch d e c1 cmd i n = Some (rs, ex, c2)" "c' = (if ex then (ptm_cleanup c2)\<lparr>cu_exit := True\<rparr> else c2)"
  using assms by (fastforce simp: ptm_ioctl_def split: if_splits option.splits prod.splits)

lemma ioctl_replies:
  assumes "ptm_ioctl d e c cmd i n = Some (rs, c')"
  shows "length rs = (if silent c (Ioctl cmd i n) then 0 else 1)"
proof -
  obtain c1 ex c2 where c1: "c1 = c \<or> worker_thread_wait_done d c = Some c1"
      "ioctl_dispatch d e c1 cmd i n = Some (rs, ex, c2)"
    using assms by (rule ptm_ioctlE)
  have "tpm_running c1 = tpm_running c" using c1(1) wait_keeps_running by blast
  then have "silent c1 (Ioctl cmd i n) = silent c (Ioctl cmd i n)" by (cases cmd) simp_all
  with dispatch_replies [OF c1(2)] show ?thesis by simp
qed

lemma write_replies:
  "ptm_write d c buf = Some (rs, c') \<Longrightarrow> length rs = (if tx_mode (tx_state c) = TX_STATE_CLOSED then 0 else 1)"
  by (auto simp: ptm_write_def ptm_write_cmd_def ptm_write_stateblob_def Let_def
      split: tx_state_type.splits if_splits option.splits prod.splits)

lemma read_replies:
  "ptm_read d c n = Some (rs, c') \<Longrightarrow> length rs = (if tx_mode (tx_state c) = TX_STATE_CLOSED then 0 else 1)"
  by (auto simp: ptm_read_def ptm_read_result_def ptm_read_stateblob_def Let_def
      split: tx_state_type.splits if_splits option.splits)

text \<open>
  C8. Each request of a CUSE client is answered exactly once, whatever its command, sizes and contents
  and whatever libtpms answers, with one exception: \<open>PTM_RESET_TPMESTABLISHED\<close> with a locality above
  4 on a running TPM is not answered at all, so its caller waits forever. (Reads and writes do not reach a closed device.)
\<close>

theorem cuse_request_answered:
  assumes "cuse_handle d e c req = Some (rs, c')"
  shows "length rs = (if silent c req then 0 else 1)"
  using assms
  by (cases req) (auto simp: ptm_open_def ptm_release_def write_replies read_replies ioctl_replies
    simp del: silent.simps(3) split: if_splits)

theorem cuse_request_answered_witness:
  "length (fst (the (cuse_handle example_deps example_cuse_env (example_cuse True) (Ioctl PTM_RESET_TPMESTABLISHED [5, 0, 0, 0] 4)))) = 0
   \<and> length (fst (the (cuse_handle example_deps example_cuse_env (example_cuse True) (Ioctl PTM_RESET_TPMESTABLISHED [4, 0, 0, 0] 4)))) = 1"
proof -
  let ?h = "\<lambda>b. cuse_handle example_deps example_cuse_env (example_cuse True) (Ioctl PTM_RESET_TPMESTABLISHED [b, 0, 0, 0] 4)"
  have "?h b \<noteq> None" for b
    by (simp add: ptm_ioctl_def worker_thread_wait_done_def example_cuse_def no_exit_def split: prod.split)
  then have h: "?h b = Some (fst (the (?h b)), snd (the (?h b)))" for b by simp
  show ?thesis
    using cuse_request_answered [OF h [of 5]] cuse_request_answered [OF h [of 4]]
    by (simp add: example_cuse_def)
qed

subsection \<open>Steps and runs\<close>

datatype cuse_event = Request cuse_req "fuse_reply list" | Worker

inductive cuse_step ::
  "('t, 's) deps \<Rightarrow> cuse_env \<Rightarrow> ('t, 's) cuse \<Rightarrow> cuse_event \<Rightarrow> ('t, 's) cuse \<Rightarrow> bool" for d e
where
  request: "cuse_step d e c (Request req rs) c'" if "cuse_handle d e c req = Some (rs, c')"
| worker: "cuse_step d e c Worker c'" if "thread_busy c" and "worker_thread d c = Some c'"

inductive cuse_run ::
  "('t, 's) deps \<Rightarrow> cuse_env \<Rightarrow> ('t, 's) cuse \<Rightarrow> cuse_event list \<Rightarrow> ('t, 's) cuse \<Rightarrow> bool" for d e
where
  nil: "cuse_run d e c [] c"
| snoc: "cuse_run d e c (evs @ [ev]) c''" if "cuse_run d e c evs c'" and "cuse_step d e c' ev c''"






subsection \<open>One client, one locality\<close>


definition held :: "('t, 's) cuse \<Rightarrow> u32 \<times> byte" where
  "held c = (cu_locality_flags c, cu_locality c)"


definition opened :: "('t, 's) cuse \<Rightarrow> bool" where
  "opened c \<longleftrightarrow> tx_mode (tx_state c) \<noteq> TX_STATE_CLOSED"

lemma held_upd [simp]:
  "held (c\<lparr>tx_state := x\<rparr>) = held c" "held (set_tx c st) = held c" "held (cu_nv_upd c nv) = held c"
  "held (cu_lib_upd c t) = held c" "held (c\<lparr>cu_stateblob := s\<rparr>) = held c" "held (cached_stateblob_free c) = held c"
  "held (c\<lparr>cached_stateblob := k\<rparr>) = held c" "held (unlock_nvram ops c n) = held c" "held (c\<lparr>cu_exit := b\<rparr>) = held c"
  "held (c\<lparr>ptm_read_offset := i\<rparr>) = held c" "held (c\<lparr>g_locking_retries := u\<rparr>) = held c" "held (ptm_cleanup c) = held c"
  "held (c\<lparr>cu_resp := r\<rparr>) = held c" "held (capture_packet c p b) = held c" "held (c\<lparr>ptm_req_len := u\<rparr>) = held c"
  "held (c\<lparr>g_lastCommand := u\<rparr>) = held c" "held (c\<lparr>cu_pool := b\<rparr>) = held c" "held (c\<lparr>cu_world := w\<rparr>) = held c"
  "held (c\<lparr>thread_busy := b\<rparr>) = held c" "held (c\<lparr>ptm_request := q\<rparr>) = held c" "held (worker_thread_mark_busy c) = held c"
  "held (c\<lparr>tpm_running := b\<rparr>) = held c" "held (c\<lparr>g_json_profile := j\<rparr>) = held c"
  "held (ptm_write_fatal_error_response d c v) = held c" "held (c\<lparr>g_storage_locked := b\<rparr>) = held c"
  by (simp_all add: held_def set_tx_def cu_nv_upd_def cu_lib_upd_def cached_stateblob_free_def unlock_nvram_def
    ptm_cleanup_def Let_def capture_packet_def worker_thread_mark_busy_def ptm_write_fatal_error_response_def)

lemma opened_upd [simp]:
  "opened (set_tx c st) = (st \<noteq> TX_STATE_CLOSED)" "opened (cu_nv_upd c nv) = opened c"
  "opened (cu_lib_upd c t) = opened c" "opened (c\<lparr>cu_stateblob := s\<rparr>) = opened c"
  "opened (cached_stateblob_free c) = opened c" "opened (c\<lparr>cached_stateblob := k\<rparr>) = opened c"
  "opened (unlock_nvram ops c n) = opened c" "opened (c\<lparr>cu_exit := b\<rparr>) = opened c"
  "opened (c\<lparr>ptm_read_offset := i\<rparr>) = opened c" "opened (c\<lparr>g_locking_retries := u\<rparr>) = opened c"
  "opened (ptm_cleanup c) = opened c" "opened (c\<lparr>cu_resp := r\<rparr>) = opened c" "opened (capture_packet c p b) = opened c"
  "opened (c\<lparr>ptm_req_len := u\<rparr>) = opened c" "opened (c\<lparr>g_lastCommand := u\<rparr>) = opened c"
  "opened (c\<lparr>cu_pool := b\<rparr>) = opened c" "opened (c\<lparr>cu_world := w\<rparr>) = opened c"
  "opened (c\<lparr>thread_busy := b\<rparr>) = opened c" "opened (c\<lparr>ptm_request := q\<rparr>) = opened c"
  "opened (worker_thread_mark_busy c) = opened c" "opened (c\<lparr>tpm_running := b\<rparr>) = opened c"
  "opened (c\<lparr>g_json_profile := j\<rparr>) = opened c" "opened (ptm_write_fatal_error_response d c v) = opened c"
  "opened (c\<lparr>g_storage_locked := b\<rparr>) = opened c" "opened (c\<lparr>cu_locality := l\<rparr>) = opened c"
  "opened (c\<lparr>tx_state := x\<rparr>) = (tx_mode x \<noteq> TX_STATE_CLOSED)"
  by (simp_all add: opened_def set_tx_def cu_nv_upd_def cu_lib_upd_def cached_stateblob_free_def unlock_nvram_def
    ptm_cleanup_def Let_def capture_packet_def worker_thread_mark_busy_def ptm_write_fatal_error_response_def)


























subsection \<open>The queued command\<close>

definition queued :: "('t, 's) cuse \<Rightarrow> bytes option \<times> u32" where
  "queued c = (ptm_request c, ptm_req_len c)"

fun is_write :: "cuse_event \<Rightarrow> bool" where
  "is_write (Request (Write buf) rs) = True"
| "is_write _ = False"

lemma queued_upd [simp]:
  "queued (set_tx c st) = queued c" "queued (cu_nv_upd c nv) = queued c" "queued (cu_lib_upd c t) = queued c"
  "queued (cached_stateblob_free c) = queued c" "queued (unlock_nvram ops c n) = queued c"
  "queued (ptm_cleanup c) = queued c" "queued (c\<lparr>tx_state := x\<rparr>) = queued c" "queued (c\<lparr>cu_exit := b\<rparr>) = queued c"
  "queued (c\<lparr>cached_stateblob := k\<rparr>) = queued c" "queued (c\<lparr>cu_stateblob := s\<rparr>) = queued c"
  "queued (c\<lparr>cu_resp := r\<rparr>) = queued c" "queued (c\<lparr>cu_locality := l\<rparr>) = queued c" "queued (c\<lparr>ptm_read_offset := i\<rparr>) = queued c"
  "queued (c\<lparr>g_locking_retries := u\<rparr>) = queued c" "queued (c\<lparr>tpm_running := b\<rparr>) = queued c"
  "queued (c\<lparr>g_json_profile := j\<rparr>) = queued c" "queued (c\<lparr>cu_pool := b\<rparr>) = queued c"
  by (simp_all add: queued_def set_tx_def cu_nv_upd_def cu_lib_upd_def cached_stateblob_free_def unlock_nvram_def
    ptm_cleanup_def Let_def)

lemma queued_wait: "worker_thread_wait_done d c = Some c' \<Longrightarrow> queued c' = queued c"
  by (drule wait_keeps_running) (simp add: queued_def)

lemma queued_lock: "ensure_locked_storage c = (ok, c') \<Longrightarrow> queued c' = queued c"
  by (auto simp: ensure_locked_storage_def Let_def queued_def cu_nv_upd_def split: prod.splits if_splits)

lemma queued_load: "cached_stateblob_load d c b x = Some (r, c') \<Longrightarrow> queued c' = queued c"
  by (auto simp: cached_stateblob_load_def Let_def split: option.splits prod.splits if_splits sum.splits)

lemma queued_append: "ptm_set_stateblob_append d c b data enc l = Some (r, c') \<Longrightarrow> queued c' = queued c"
  by (auto simp: ptm_set_stateblob_append_def Let_def split: option.splits prod.splits if_splits)

lemma queued_set: "ptm_set_stateblob d c i = Some (rs, c') \<Longrightarrow> queued c' = queued c"
  by (auto simp: ptm_set_stateblob_def Let_def dest!: queued_append split: option.splits if_splits)

lemma queued_get: "ptm_get_stateblob d c i = Some (rs, c') \<Longrightarrow> queued c' = queued c"
  by (auto simp: ptm_get_stateblob_def ptm_get_stateblob_part_def Let_def dest!: queued_load
      split: option.splits prod.splits if_splits)

lemma queued_end: "tpm_end d c = Some c' \<Longrightarrow> queued c' = queued c"
  by (auto simp: tpm_end_def worker_thread_end_def queued_def Let_def
      dest!: queued_wait [unfolded queued_def] split: option.splits if_splits prod.splits)

lemma queued_start:
  "tpm_start d e c fl v j = Some (rc, res, c') \<Longrightarrow> fst (queued c) \<noteq> None \<longrightarrow> queued c' = queued c"
  by (auto simp: tpm_start_def queued_def cu_nv_upd_def Let_def split: option.splits if_splits prod.splits)

lemma dispatch_queued:
  "ioctl_dispatch d e c cmd i n = Some (rs, ex, c') \<Longrightarrow> fst (queued c) \<noteq> None \<Longrightarrow> queued c' = queued c"
  by (cases cmd) (auto simp: ioctl_defs no_exit_def Let_def
    dest!: queued_set queued_get queued_end queued_lock queued_start split: if_splits option.splits prod.splits)

lemma handle_queued:
  assumes "cuse_handle d e c req = Some (rs, c')" "\<not> is_write (Request req rs)" "fst (queued c) \<noteq> None"
  shows "queued c' = queued c"
proof (cases req)
  case (Read n)
  then show ?thesis
    using assms(1)
    by (auto simp: ptm_read_def ptm_read_result_def ptm_read_stateblob_def Let_def dest!: queued_wait
      split: tx_state_type.splits option.splits if_splits)
next
  case (Ioctl cmd i n)
  with assms(1) have h: "ptm_ioctl d e c cmd i n = Some (rs, c')" by simp
  obtain c1 ex c2 where c1: "c1 = c \<or> worker_thread_wait_done d c = Some c1"
      "ioctl_dispatch d e c1 cmd i n = Some (rs, ex, c2)" "c' = (if ex then (ptm_cleanup c2)\<lparr>cu_exit := True\<rparr> else c2)"
    using h by (rule ptm_ioctlE)
  have "queued c1 = queued c" using c1(1) queued_wait by blast
  with dispatch_queued [OF c1(2)] c1(3) assms(3) show ?thesis by simp
qed (use assms in \<open>auto simp: ptm_open_def ptm_release_def split: if_splits\<close>)

lemma run_queued:
  assumes "cuse_run d e c evs c'" "\<not> list_ex is_write evs" "fst (queued c) \<noteq> None"
  shows "queued c' = queued c"
  using assms
proof (induction rule: cuse_run.induct)
  case (snoc c evs c' ev c'')
  then have q: "queued c' = queued c" "\<not> is_write ev" by simp_all
  show ?case
    using snoc.hyps(2)
  proof cases
    case (request req rs)
    then show ?thesis using handle_queued [OF request(2)] q snoc.prems by simp
  next
    case worker
    then show ?thesis using worker_keeps_running [OF worker(3)] q by (simp add: queued_def)
  qed
qed simp

text \<open>What a write of a cancelable command leaves behind.\<close>

lemma write_queues:
  assumes "ptm_write_cmd d c cmd = Some (rs, c1)" "thread_busy c1" "\<not> thread_busy c" "length cmd \<le> 4096"
    and "ptm_request c = Some b" "length b = 4096"
  shows "queued c1 = (Some (mem_write b 0 cmd), of_nat (length cmd))"
proof -
  let ?c = "c\<lparr>ptm_req_len := of_nat (length cmd), cu_resp := (cu_resp c)\<lparr>rlength := 0\<rparr>\<rparr>"
  obtain ok c2 where l: "ensure_locked_storage ?c = (ok, c2)" by fastforce
  have q: "ptm_request c2 = Some b" "ptm_req_len c2 = of_nat (length cmd)" "\<not> thread_busy c2"
    using l assms(3,5)
    by (auto simp: ensure_locked_storage_def Let_def cu_nv_upd_def split: prod.splits if_splits)
  have n: "unat (of_nat (length cmd) :: u32) = length cmd"
    using assms(4) by (simp add: unat_of_nat take_bit_nat_eq_self)
  show ?thesis
    using assms(1,2,4,6) l q
    by (auto simp: ptm_write_cmd_def Let_def worker_thread_is_busy_def n submit_command_def queued_def
      capture_packet_def worker_thread_mark_busy_def process_into_def ptm_write_fatal_error_response_def assms(3)
      split: if_splits option.splits prod.splits)
qed

text \<open>
  C14. A command that is handed to the worker thread reaches libtpms exactly as it was written: whatever reads,
  ioctls, opens and releases happen before the worker starts, as long as none of them waited for it and nothing is written.
\<close>

theorem queued_command_processed:
  assumes "ptm_write_cmd d c cmd = Some (rs, c1)" "thread_busy c1" "\<not> thread_busy c" "length cmd \<le> 4096"
    and "ptm_request c = Some b" "length b = 4096"
    and "cuse_run d e c1 evs c2" "\<not> list_ex is_write evs" "thread_busy c2"
  shows "worker_thread d c2 = Some ((snd (process_into d c2 cmd))\<lparr>thread_busy := False\<rparr>)"
proof -
  note q = write_queues [OF assms(1-6)]
  have "queued c2 = (Some (mem_write b 0 cmd), of_nat (length cmd))"
    using run_queued [OF assms(7,8)] q by simp
  moreover have "unat (of_nat (length cmd) :: u32) = length cmd"
    using assms(4) by (simp add: unat_of_nat take_bit_nat_eq_self)
  moreover have "take (length cmd) (mem_write b 0 cmd) = cmd" by (simp add: mem_write_def)
  moreover have "length cmd \<le> length (mem_write b 0 cmd)" by (simp add: mem_write_def)
  ultimately show ?thesis by (simp add: worker_thread_def queued_def)
qed

text \<open>
  C38. A write that is refused because the worker is busy breaks that: it has already replaced the length of the
  queued command. When the worker then starts, libtpms gets as many bytes of the buffer as the refused write had, and
  with a refused write of more than 4096 bytes it reads behind the buffer.
\<close>

theorem refused_write_breaks_queue:
  assumes "tpm_running c" "thread_busy c" "g_storage_locked c" "ptm_request c = Some b" "length b = 4096"
    and "length buf < 2 ^ 32"
  shows "\<exists>c1. ptm_write_cmd d c buf = Some ([Reply_err EBUSY], c1) \<and>
    worker_thread d c1 =
      (if length buf \<le> 4096 then Some ((snd (process_into d c1 (take (length buf) b)))\<lparr>thread_busy := False\<rparr>) else None)"
proof -
  have n: "unat (of_nat (length buf) :: u32) = length buf"
    using assms(6) by (simp add: unat_of_nat take_bit_nat_eq_self)
  show ?thesis
    using assms
    by (simp add: ptm_write_cmd_def ensure_locked_storage_def worker_thread_is_busy_def Let_def worker_thread_def n)
qed

text \<open>A \<open>TPM2_CreatePrimary\<close> without parameters.\<close>

definition example_cancelable :: bytes where
  "example_cancelable = [0x80, 0x02, 0, 0, 0, 10, 0, 0, 0x01, 0x31]"

definition example_busy :: "(bytes list, dirstate) cuse" where
  "example_busy = snd (the (ptm_write_cmd example_deps (example_cuse True) example_cancelable))"

lemma example_ordinal: "tpmlib_get_cmd_ordinal example_cancelable = TPMLIB_TPM2_CC_CreatePrimary"
  by (simp add: tpmlib_get_cmd_ordinal_def example_cancelable_def mem_read_def endian_defs)

lemma example_process:
  "tpmlib_process malloc r example_cancelable flags loc TPMLIB_TPM_VERSION_2 = (TPM_SUCCESS, r, loc)"
  using example_ordinal
  by (simp add: tpmlib_process_def tpmlib_get_cmd_ordinal_def example_cancelable_def split: if_splits)

lemma example_busy_write:
  "ptm_write_cmd example_deps (example_cuse True) example_cancelable = Some ([Reply_write 10], example_busy)"
  "thread_busy example_busy"
proof -
  have l: "take (min 10 TPM_REQ_MAX) example_cancelable = example_cancelable" "length example_cancelable = 10"
    by (simp_all add: example_cancelable_def)
  have "\<exists>c1. ptm_write_cmd example_deps (example_cuse True) example_cancelable = Some ([Reply_write 10], c1) \<and> thread_busy c1"
    unfolding ptm_write_cmd_def Let_def
    using l
    by (simp add: example_cuse_def ensure_locked_storage_def worker_thread_is_busy_def example_process example_ordinal
      submit_command_def tpmlib_is_request_cancelable_def capture_packet_def worker_thread_mark_busy_def)
  then show "ptm_write_cmd example_deps (example_cuse True) example_cancelable = Some ([Reply_write 10], example_busy)"
    "thread_busy example_busy"
    by (auto simp: example_busy_def)
qed

theorem queued_command_processed_witness:
  "worker_thread example_deps example_busy =
     Some ((snd (process_into example_deps example_busy example_cancelable))\<lparr>thread_busy := False\<rparr>)"
  by (rule queued_command_processed [OF example_busy_write, of "replicate 4096 0", OF _ _ _ _ cuse_run.nil])
    (simp_all add: example_cuse_def example_cancelable_def example_busy_write(2))

theorem refused_write_breaks_queue_witness:
  "\<exists>c1. ptm_write_cmd example_deps ((example_cuse True)\<lparr>thread_busy := True\<rparr>) (replicate 5000 7) =
      Some ([Reply_err EBUSY], c1) \<and> worker_thread example_deps c1 = None"
  using refused_write_breaks_queue [of "(example_cuse True)\<lparr>thread_busy := True\<rparr>" "replicate 4096 0"
      "replicate 5000 7" example_deps]
  by (simp add: example_cuse_def)

text \<open>After \<open>PTM_STOP\<close> the response is freed but its length is kept: reading a rest of it follows a NULL pointer.\<close>

lemma stop_then_read_undefined:
  assumes "ptm_ioctl d e c PTM_STOP [] 4 = Some (rs, c1)" "\<not> thread_busy c" "tx_mode (tx_state c) = TX_STATE_RW_COMMAND"
    and "ptm_read_offset c < unat (rlength (cu_resp c))" "0 < n"
  shows "ptm_read d c1 n = None"
proof -
  have e: "tpm_end d c = Some c2 \<Longrightarrow> cu_resp c2 = cu_resp c \<and> ptm_read_offset c2 = ptm_read_offset c \<and>
      tx_state c2 = tx_state c \<and> \<not> tpm_running c2" for c2
    using assms(2)
    by (auto simp: tpm_end_def worker_thread_end_def worker_thread_wait_done_def Let_def split: if_splits prod.splits)
  show ?thesis
    using assms
    by (auto simp: ptm_ioctl_def ioctl_stop_def no_exit_def ptm_read_def ptm_read_result_def Let_def dest!: e
      split: option.splits)
qed

end
