(* ===== verification/CuseBlob.thy ===== *)
theory CuseBlob
  imports CuseRun
begin

section \<open>State blobs over the CUSE device\<close>

text \<open>
  The protocols of tpm_ioctl.h by which a client transfers a state blob in pieces: with \<open>PTM_SET_STATEBLOB\<close> until a
  packet is not full, and with \<open>PTM_GET_STATEBLOB\<close> followed by \<open>read()\<close>. Both deliver exactly the blob; the
  places where the device keeps something from an earlier transfer are shown as well.
\<close>

subsection \<open>Upload\<close>

text \<open>The client's packets: full ones, then one that is not full.\<close>

function chunks :: "bytes \<Rightarrow> bytes list" where
  "chunks b = (if length b < PTM_STATE_BLOB_SIZE then [b] else take PTM_STATE_BLOB_SIZE b # chunks (drop PTM_STATE_BLOB_SIZE b))"
  by auto
termination by (relation "measure length") auto

declare chunks.simps [simp del]

definition setstate_struct :: "u32 \<Rightarrow> u32 \<Rightarrow> bytes \<Rightarrow> bytes" where
  "setstate_struct flags blobtype chunk =
     htole32 flags @ htole32 blobtype @ htole32 (of_nat (length chunk)) @ chunk @
     replicate (PTM_STATE_BLOB_SIZE - length chunk) 0"

fun upload ::
  "('t, 's) deps \<Rightarrow> cuse_env \<Rightarrow> ('t, 's) cuse \<Rightarrow> u32 \<Rightarrow> u32 \<Rightarrow> bytes list \<Rightarrow> (TPM_RESULT \<times> ('t, 's) cuse) option"
where
  "upload d e c flags blobtype [] = Some (0, c)"
| "upload d e c flags blobtype (b # bs) =
     (case ptm_ioctl d e c PTM_SET_STATEBLOB (setstate_struct flags blobtype b) 3084 of
        Some ([Reply_ioctl r], c1) \<Rightarrow>
          if le32toh r \<noteq> 0 then Some (le32toh r, c1) else upload d e c1 flags blobtype bs
      | _ \<Rightarrow> None)"

text \<open>What collecting a blob depends on, and what it keeps: the NVRAM is initialized again with every packet.\<close>

definition collects :: "('t, 's) cuse \<Rightarrow> u32 \<Rightarrow> bool \<Rightarrow> bytes \<Rightarrow> bool" where
  "collects c blobtype enc acc \<longleftrightarrow>
     (if ucast (sb_type (cu_stateblob c)) = blobtype
      then sb_is_encrypted (cu_stateblob c) = enc \<and> sb_length (cu_stateblob c) = of_nat (length acc) \<and>
           (case sb_data (cu_stateblob c) of None \<Rightarrow> [] | Some b \<Rightarrow> b) = acc
      else acc = [])"

lemma init_globals: "nv_globals (snd (SWTPM_NVRAM_Init dops lops nv)) = nv_globals nv"
  by (simp add: SWTPM_NVRAM_Init_def Let_def split: option.splits prod.splits)

lemma lock_globals: "nv_globals (snd (SWTPM_NVRAM_Lock_Storage nv n)) = nv_globals nv"
  by (simp add: SWTPM_NVRAM_Lock_Storage_def split: option.splits prod.splits)

lemma setstate_fields:
  assumes "length b \<le> PTM_STATE_BLOB_SIZE"
  shows "length (setstate_struct flags bt b) = 3084" "mem_read (setstate_struct flags bt b) 0 4 = htole32 flags"
    "mem_read (setstate_struct flags bt b) 4 4 = htole32 bt"
    "mem_read (setstate_struct flags bt b) 8 4 = htole32 (of_nat (length b))"
    "mem_read (setstate_struct flags bt b) 12 (length b) = b"
    "unat (of_nat (length b) :: u32) = length b"
  using assms by (simp_all add: setstate_struct_def mem_read_def unat_of_nat take_bit_nat_eq_self)

definition sb_started :: "('t, 's) cuse \<Rightarrow> u32 \<Rightarrow> bool \<Rightarrow> stateblob" where
  "sb_started c bt enc =
     (if ucast (sb_type (cu_stateblob c)) \<noteq> bt
      then \<lparr>sb_type = ucast bt, sb_data = None, sb_length = 0, sb_is_encrypted = enc\<rparr> else cu_stateblob c)"

lemma append_eq:
  assumes "collects c bt enc acc" "bt \<in> {1, 2, 3}" "\<forall>n. malloc_ok (d_crypto d) n"
    and "length acc + length b < 2 ^ 32" "b = [] \<longrightarrow> ucast (sb_type (cu_stateblob c)) = bt"
  shows "ptm_set_stateblob_append d c bt b enc l =
    (if \<not> l
     then Some (0, c\<lparr>cu_stateblob := (sb_started c bt enc)\<lparr>sb_data := Some (acc @ b), sb_length := of_nat (length (acc @ b))\<rparr>\<rparr>)
     else case SWTPM_NVRAM_SetStateBlob (d_crypto d) (nv_lib d) (w_lib (cu_world c)) (nv_globals (w_nv (cu_world c)))
                 (acc @ b) enc bt of
       (res, t) \<Rightarrow> Some (res, set_tx ((cu_lib_upd c t)\<lparr>cu_stateblob := stateblob_clear (sb_started c bt enc)\<rparr>)
                         TX_STATE_RW_COMMAND))"
proof -
  have s: "sb_length (sb_started c bt enc) = of_nat (length acc)" "sb_is_encrypted (sb_started c bt enc) = enc"
    "(case sb_data (sb_started c bt enc) of None \<Rightarrow> [] | Some x \<Rightarrow> x) = acc"
    "\<not> (ucast (sb_type (cu_stateblob c)) \<noteq> bt \<and> b = [])"
    using assms(1,5) by (auto simp: sb_started_def collects_def split: if_splits)
  have n: "unat (of_nat (length acc) + of_nat (length b) :: u32) = length acc + length b"
    "unat (of_nat (length acc) :: u32) = length acc"
    using assms(4) by (simp_all add: unat_of_nat take_bit_nat_eq_self flip: of_nat_add)
  show ?thesis
    unfolding ptm_set_stateblob_append_def Let_def sb_started_def [symmetric]
    using s n assms(3) by auto
qed

lemma collects_started:
  assumes "bt \<in> {1, 2, 3}" "collects c bt enc acc"
  shows "ucast (sb_type (sb_started c bt enc)) = bt"
    and "collects (c'\<lparr>cu_stateblob := (sb_started c bt enc)\<lparr>sb_data := Some x, sb_length := of_nat (length x)\<rparr>\<rparr>) bt enc x"
proof -
  have u: "ucast (ucast bt :: byte) = bt" using assms(1) by auto
  then show t: "ucast (sb_type (sb_started c bt enc)) = bt" by (simp add: sb_started_def)
  have "sb_is_encrypted (sb_started c bt enc) = enc" using assms(2) by (simp add: sb_started_def collects_def)
  with t show "collects (c'\<lparr>cu_stateblob := (sb_started c bt enc)\<lparr>sb_data := Some x, sb_length := of_nat (length x)\<rparr>\<rparr>) bt enc x"
    by (simp add: collects_def)
qed

text \<open>
  A device that accepts packets: no TPM runs, and the storage is locked already or, as on a device that has just been
  started, the lock is obtained with the retries that are left once the NVRAM has been initialized.
\<close>

definition nv_init :: "('t, 's) deps \<Rightarrow> ('t, 's) cuse \<Rightarrow> ('t, 's) cuse" where
  "nv_init d c = cu_nv_upd c (snd (SWTPM_NVRAM_Init (d_dir_ops d) (d_linear_ops d) (w_nv (cu_world c))))"

definition can_lock :: "('t, 's) deps \<Rightarrow> ('t, 's) cuse \<Rightarrow> bool" where
  "can_lock d c \<longleftrightarrow> g_storage_locked c \<or>
     fst (SWTPM_NVRAM_Lock_Storage (w_nv (cu_world (nv_init d c))) (unat (g_locking_retries c))) = TPM_SUCCESS"

definition takes_packets :: "('t, 's) deps \<Rightarrow> ('t, 's) cuse \<Rightarrow> bool" where
  "takes_packets d c \<longleftrightarrow> \<not> tpm_running c \<and> can_lock d c"

definition nv_ready :: "('t, 's) deps \<Rightarrow> ('t, 's) cuse \<Rightarrow> ('t, 's) cuse" where
  "nv_ready d c = snd (ensure_locked_storage (nv_init d c))"

definition set_mode :: "('t, 's) deps \<Rightarrow> ('t, 's) cuse \<Rightarrow> u32 \<Rightarrow> bool \<Rightarrow> ('t, 's) cuse" where
  "set_mode d c bt enc =
     (nv_ready d c)\<lparr>tx_state := \<lparr>tx_mode = TX_STATE_SET_STATE_BLOB, tx_blobtype = bt, tx_blob_is_encrypted = enc, tx_offset = 0\<rparr>\<rparr>"

lemma lock_obtained:
  assumes "can_lock d c"
  shows "ensure_locked_storage (nv_init d c) = (True, nv_ready d c)" "g_storage_locked (nv_ready d c)"
proof -
  have i: "g_storage_locked (nv_init d c) = g_storage_locked c" "g_locking_retries (nv_init d c) = g_locking_retries c"
    by (simp_all add: nv_init_def cu_nv_upd_def)
  show "ensure_locked_storage (nv_init d c) = (True, nv_ready d c)" "g_storage_locked (nv_ready d c)"
    using assms i
    by (auto simp: nv_ready_def ensure_locked_storage_def can_lock_def Let_def cu_nv_upd_def split: prod.splits)
qed

lemma nv_ready_simps [simp]:
  "cu_stateblob (nv_ready d c) = cu_stateblob c" "tpm_running (nv_ready d c) = tpm_running c"
  "w_lib (cu_world (nv_ready d c)) = w_lib (cu_world c)"
  "nv_globals (w_nv (cu_world (nv_ready d c))) = nv_globals (w_nv (cu_world c))"
  using lock_globals [of "w_nv (cu_world (nv_init d c))" "unat (g_locking_retries (nv_init d c))"]
  by (auto simp: nv_ready_def ensure_locked_storage_def nv_init_def cu_nv_upd_def init_globals Let_def split: prod.splits)

lemma set_mode_simps [simp]:
  "collects (set_mode d c bt enc) bt' enc' acc = collects c bt' enc' acc" "sb_started (set_mode d c bt enc) bt' enc' = sb_started c bt' enc'"
  "w_lib (cu_world (set_mode d c bt enc)) = w_lib (cu_world c)"
  "nv_globals (w_nv (cu_world (set_mode d c bt enc))) = nv_globals (w_nv (cu_world c))"
  "cu_stateblob (set_mode d c bt enc) = cu_stateblob c"
  by (simp_all add: set_mode_def collects_def sb_started_def)

lemma takes_more_packets:
  assumes "takes_packets d c"
  shows "takes_packets d ((set_mode d c bt enc)\<lparr>cu_stateblob := s\<rparr>)"
  using assms lock_obtained(2) [of d c] by (simp add: takes_packets_def can_lock_def set_mode_def)

lemma collects_set_tx: "collects (set_tx c st) bt enc acc = collects c bt enc acc"
  by (simp add: collects_def set_tx_def)

lemma ioctl_packet:
  assumes "takes_packets d c" "length b \<le> PTM_STATE_BLOB_SIZE"
  shows "ptm_ioctl d e c PTM_SET_STATEBLOB (setstate_struct flags bt b) 3084 =
    (case ptm_set_stateblob_append d (set_mode d c bt (flags AND PTM_STATE_FLAG_ENCRYPTED \<noteq> 0)) bt b
            (flags AND PTM_STATE_FLAG_ENCRYPTED \<noteq> 0) (length b \<noteq> PTM_STATE_BLOB_SIZE) of
       None \<Rightarrow> None
     | Some (res, c2) \<Rightarrow>
         Some ([Reply_ioctl (mem_write (setstate_struct flags bt b) 0 (htole32 res))],
               if res \<noteq> 0 then set_tx c2 TX_STATE_RW_COMMAND else c2))"
proof -
  have "\<not> tpm_running c" "ensure_locked_storage (cu_nv_upd c (snd (SWTPM_NVRAM_Init (d_dir_ops d) (d_linear_ops d)
      (w_nv (cu_world c))))) = (True, nv_ready d c)"
    using assms(1) lock_obtained(1) [of d c] by (simp_all add: takes_packets_def nv_init_def)
  then show ?thesis
    using assms(2) setstate_fields [OF assms(2)]
    by (auto simp: ptm_ioctl_def ioctl_set_stateblob_def Let_def ptm_set_stateblob_def set_mode_def
        split: option.splits prod.splits simp del: mem_read_0)
qed

lemma packet_result [simp]: "length b \<le> PTM_STATE_BLOB_SIZE \<Longrightarrow>
  le32toh (mem_write (setstate_struct flags bt b) 0 (htole32 res)) = res"
  by (rule mem_read_le_prefix) (simp add: setstate_fields)

lemma chunks_induct [case_names last more]:
  fixes b :: bytes
  assumes "\<And>b. length b < PTM_STATE_BLOB_SIZE \<Longrightarrow> P b"
    and "\<And>b. length b \<ge> PTM_STATE_BLOB_SIZE \<Longrightarrow> P (drop PTM_STATE_BLOB_SIZE b) \<Longrightarrow> P b"
  shows "P b"
  by (induction b rule: chunks.induct) (metis assms not_le)

text \<open>The result and the state of libtpms after the blob \<open>blob\<close> is handed over as a whole.\<close>

definition set_whole :: "('t, 's) deps \<Rightarrow> ('t, 's) cuse \<Rightarrow> bytes \<Rightarrow> bool \<Rightarrow> u32 \<Rightarrow> TPM_RESULT \<times> 't" where
  "set_whole d c blob enc bt =
     SWTPM_NVRAM_SetStateBlob (d_crypto d) (nv_lib d) (w_lib (cu_world c)) (nv_globals (w_nv (cu_world c))) blob enc bt"

lemma upload_collects:
  assumes "takes_packets d c" "collects c bt enc acc" "bt \<in> {1, 2, 3}" "\<forall>n. malloc_ok (d_crypto d) n"
    and "length acc + length b < 2 ^ 32" "b = [] \<longrightarrow> ucast (sb_type (cu_stateblob c)) = bt"
    and "enc = (flags AND PTM_STATE_FLAG_ENCRYPTED \<noteq> 0)"
  shows "\<exists>c1. upload d e c flags bt (chunks b) = Some (fst (set_whole d c (acc @ b) enc bt), c1) \<and>
    w_lib (cu_world c1) = snd (set_whole d c (acc @ b) enc bt) \<and>
    tx_mode (tx_state c1) = TX_STATE_RW_COMMAND \<and> sb_type (cu_stateblob c1) = 0 \<and> sb_data (cu_stateblob c1) = None"
  using assms
proof (induction b arbitrary: c acc rule: chunks_induct)
  case (last b)
  let ?c = "set_mode d c bt enc"
  have a: "ptm_set_stateblob_append d ?c bt b enc True =
      (case set_whole d c (acc @ b) enc bt of (res, t) \<Rightarrow>
         Some (res, set_tx ((cu_lib_upd ?c t)\<lparr>cu_stateblob := stateblob_clear (sb_started c bt enc)\<rparr>) TX_STATE_RW_COMMAND))"
    using append_eq [of ?c bt enc acc d b True] last by (simp add: set_whole_def)
  obtain res t where w: "set_whole d c (acc @ b) enc bt = (res, t)" by fastforce
  show ?case
    using last a w
    by (simp add: chunks.simps [of b] ioctl_packet set_tx_def cu_lib_upd_def stateblob_clear_def)
next
  case (more b)
  let ?c = "set_mode d c bt enc" and ?b = "take PTM_STATE_BLOB_SIZE b"
  define c1 where "c1 = ?c\<lparr>cu_stateblob := (sb_started c bt enc)\<lparr>sb_data := Some (acc @ ?b), sb_length := of_nat (length (acc @ ?b))\<rparr>\<rparr>"
  have nonempty: "b \<noteq> []" "?b \<noteq> []" using more(1) by auto
  have lb: "length ?b = PTM_STATE_BLOB_SIZE" using more(1) by simp
  have a: "ptm_set_stateblob_append d ?c bt ?b enc False = Some (0, c1)"
    using append_eq [of ?c bt enc acc d ?b False] more nonempty by (simp add: c1_def)
  have w: "set_whole d c1 x en bt = set_whole d c x en bt" for x en
    by (simp add: set_whole_def c1_def)
  have c1p: "takes_packets d c1" "collects c1 bt enc (acc @ ?b)" "ucast (sb_type (cu_stateblob c1)) = bt"
    subgoal unfolding c1_def by (rule takes_more_packets [OF more.prems(1)])
    subgoal unfolding c1_def by (rule collects_started(2) [OF more.prems(3,2)])
    subgoal using collects_started(1) [OF more.prems(3,2)] by (simp add: c1_def)
    done
  have "\<exists>c2. upload d e c1 flags bt (chunks (drop PTM_STATE_BLOB_SIZE b)) =
        Some (fst (set_whole d c1 ((acc @ ?b) @ drop PTM_STATE_BLOB_SIZE b) enc bt), c2) \<and>
      w_lib (cu_world c2) = snd (set_whole d c1 ((acc @ ?b) @ drop PTM_STATE_BLOB_SIZE b) enc bt) \<and>
      tx_mode (tx_state c2) = TX_STATE_RW_COMMAND \<and> sb_type (cu_stateblob c2) = 0 \<and> sb_data (cu_stateblob c2) = None"
    by (rule more.IH [OF c1p(1,2) more.prems(3,4) _ _ more.prems(7)]) (use c1p(3) more in auto)
  then show ?case
    using more(1) a lb ioctl_packet [OF more.prems(1), of ?b e flags bt] more.prems(7)
    by (simp add: chunks.simps [of b] w)
qed

text \<open>
  C15. Upload: a client sends a state blob in packets of 3072 bytes, the last one shorter, to a device on which no
  TPM is running, whose storage is locked already or can be locked now, as on a device that has just been started, and
  which has no unfinished blob of that type; memory can be allocated. It gets the result of \<open>SWTPM_NVRAM_SetStateBlob\<close> on exactly
  the whole blob, libtpms is in the state that call leads to, and the device is back to commands with nothing left over.
\<close>

theorem cuse_upload:
  assumes "\<not> tpm_running c" "can_lock d c" "ucast (sb_type (cu_stateblob c)) \<noteq> bt" "bt \<in> {1, 2, 3}"
    and "\<forall>n. malloc_ok (d_crypto d) n" "blob \<noteq> []" "length blob < 2 ^ 32"
  shows "\<exists>c1. upload d e c flags bt (chunks blob) =
      Some (fst (set_whole d c blob (flags AND PTM_STATE_FLAG_ENCRYPTED \<noteq> 0) bt), c1) \<and>
    w_lib (cu_world c1) = snd (set_whole d c blob (flags AND PTM_STATE_FLAG_ENCRYPTED \<noteq> 0) bt) \<and>
    tx_mode (tx_state c1) = TX_STATE_RW_COMMAND \<and> cu_stateblob c1 = (cu_stateblob c1)\<lparr>sb_type := 0, sb_data := None\<rparr>"
proof -
  have "\<exists>c1. upload d e c flags bt (chunks blob) =
      Some (fst (set_whole d c ([] @ blob) (flags AND PTM_STATE_FLAG_ENCRYPTED \<noteq> 0) bt), c1) \<and>
    w_lib (cu_world c1) = snd (set_whole d c ([] @ blob) (flags AND PTM_STATE_FLAG_ENCRYPTED \<noteq> 0) bt) \<and>
    tx_mode (tx_state c1) = TX_STATE_RW_COMMAND \<and> sb_type (cu_stateblob c1) = 0 \<and> sb_data (cu_stateblob c1) = None"
    by (rule upload_collects [OF _ _ assms(4,5)]) (use assms in \<open>auto simp: takes_packets_def collects_def\<close>)
  then show ?thesis by auto
qed

text \<open>A device as it is started: the storage is not locked yet.\<close>

definition fresh_cuse :: "(bytes list, dirstate) cuse" where
  "fresh_cuse = (example_cuse False)\<lparr>g_storage_locked := False\<rparr>"

lemma fresh_cuse_locks: "can_lock example_deps fresh_cuse"
  by code_simp

theorem cuse_upload_witness:
  "\<not> g_storage_locked fresh_cuse \<and>
   (\<exists>c1. upload example_deps example_cuse_env fresh_cuse 0 1 (chunks (replicate 4000 7)) =
      Some (fst (set_whole example_deps fresh_cuse (replicate 4000 7) False 1), c1) \<and>
    tx_mode (tx_state c1) = TX_STATE_RW_COMMAND)"
  using cuse_upload [of fresh_cuse example_deps 1 "replicate 4000 7" example_cuse_env 0] fresh_cuse_locks
  by (auto simp: fresh_cuse_def example_cuse_def example_deps_def example_crypto_def)

text \<open>
  An upload that was given up leaves its packets behind, and closing the device does not remove them: the next
  upload of the same type hands over the old packets in front of the new blob, and with the old
  flag whether it is encrypted.
\<close>

theorem abandoned_upload_prefixes_next:
  assumes "\<not> tpm_running c" "can_lock d c" "ucast (sb_type (cu_stateblob c)) \<noteq> bt" "bt \<in> {1, 2, 3}"
    and "\<forall>n. malloc_ok (d_crypto d) n" "length old = PTM_STATE_BLOB_SIZE" "length old + length blob < 2 ^ 32"
  shows "\<exists>c1 c3. upload d e c flags bt [old] = Some (0, c1) \<and>
    upload d e (snd (ptm_open (snd (ptm_release c1)))) flags bt (chunks blob) =
      Some (fst (set_whole d c (old @ blob) (flags AND PTM_STATE_FLAG_ENCRYPTED \<noteq> 0) bt), c3)"
proof -
  let ?enc = "flags AND PTM_STATE_FLAG_ENCRYPTED \<noteq> 0"
  let ?c = "set_mode d c bt ?enc"
  have col: "collects c bt ?enc []" "old \<noteq> []" using assms(3,6) by (auto simp: collects_def)
  have ac: "takes_packets d c" using assms(1,2) by (simp add: takes_packets_def)
  define c1 where "c1 = ?c\<lparr>cu_stateblob := (sb_started c bt ?enc)\<lparr>sb_data := Some old, sb_length := of_nat (length old)\<rparr>\<rparr>"
  have "ptm_set_stateblob_append d ?c bt old ?enc False = Some (0, c1)"
    using append_eq [of ?c bt ?enc "[]" d old False] assms(4-7) col by (simp add: c1_def)
  then have up: "upload d e c flags bt [old] = Some (0, c1)"
    using assms(6) ioctl_packet [OF ac, of old e flags bt] by simp
  define c2 where "c2 = snd (ptm_open (snd (ptm_release c1)))"
  have c2: "c2 = set_tx (set_tx c1 TX_STATE_CLOSED) TX_STATE_RW_COMMAND"
    by (simp add: c2_def ptm_open_def ptm_release_def set_tx_def)
  have p: "takes_packets d c2" "collects c2 bt ?enc old" "ucast (sb_type (cu_stateblob c2)) = bt"
    "set_whole d c2 x ?enc bt = set_whole d c x ?enc bt" for x
    subgoal using takes_more_packets [OF ac] lock_obtained(2) [of d c] ac
      by (simp add: c2 c1_def takes_packets_def can_lock_def set_tx_def set_mode_def)
    subgoal unfolding c2 c1_def collects_set_tx by (rule collects_started(2) [OF assms(4) col(1)])
    subgoal using collects_started(1) [OF assms(4) col(1)] by (simp add: c2 c1_def set_tx_def)
    subgoal by (simp add: c2 c1_def set_tx_def set_whole_def)
    done
  have "\<exists>c3. upload d e c2 flags bt (chunks blob) = Some (fst (set_whole d c2 (old @ blob) ?enc bt), c3) \<and>
      w_lib (cu_world c3) = snd (set_whole d c2 (old @ blob) ?enc bt) \<and>
      tx_mode (tx_state c3) = TX_STATE_RW_COMMAND \<and> sb_type (cu_stateblob c3) = 0 \<and> sb_data (cu_stateblob c3) = None"
    by (rule upload_collects [OF p(1,2) assms(4,5,7) _ refl]) (simp add: p(3))
  then have "\<exists>c3. upload d e c2 flags bt (chunks blob) = Some (fst (set_whole d c (old @ blob) ?enc bt), c3)"
    unfolding p(4) by blast
  then show ?thesis using up unfolding c2_def by blast
qed

theorem abandoned_upload_prefixes_next_witness:
  "\<exists>c1 c3. upload example_deps example_cuse_env (example_cuse False) 0 1 [replicate 3072 7] = Some (0, c1) \<and>
    upload example_deps example_cuse_env (snd (ptm_open (snd (ptm_release c1)))) 0 1 (chunks [1, 2, 3]) =
      Some (fst (set_whole example_deps (example_cuse False) (replicate 3072 7 @ [1, 2, 3]) False 1), c3)"
  using abandoned_upload_prefixes_next [of "example_cuse False" example_deps 1 "replicate 3072 7" "[1, 2, 3]" example_cuse_env 0]
  by (auto simp: can_lock_def example_cuse_def example_deps_def example_crypto_def)

subsection \<open>Download\<close>

text \<open>
  The client reads until a read is short. Every read but the last has at least one byte, so the bytes of the
  blob plus one are enough fuel.
\<close>

fun read_until_short ::
  "('t, 's) deps \<Rightarrow> nat \<Rightarrow> ('t, 's) cuse \<Rightarrow> nat \<Rightarrow> (bytes \<times> ('t, 's) cuse) option"
where
  "read_until_short d 0 c k = None"
| "read_until_short d (Suc fuel) c k =
     (case ptm_read d c k of
        Some ([Reply_buf b], c1) \<Rightarrow>
          if length b < k then Some (b, c1)
          else (case read_until_short d fuel c1 k of None \<Rightarrow> None | Some (bs, c2) \<Rightarrow> Some (b @ bs, c2))
      | _ \<Rightarrow> None)"

definition getstate_struct :: "u32 \<Rightarrow> u32 \<Rightarrow> u32 \<Rightarrow> bytes" where
  "getstate_struct flags blobtype offset = htole32 flags @ htole32 blobtype @ htole32 offset @ replicate 3076 0"

text \<open>A transfer with \<open>read()\<close> that has come to \<open>offset\<close>.\<close>

definition transferring :: "('t, 's) cuse \<Rightarrow> bytes \<Rightarrow> nat \<Rightarrow> bool" where
  "transferring c blob offset \<longleftrightarrow>
     tx_mode (tx_state c) = TX_STATE_GET_STATE_BLOB \<and> cs_data (cached_stateblob c) = Some blob \<and>
     tx_offset (tx_state c) = of_nat offset \<and> offset \<le> length blob \<and> length blob < 2 ^ 32"

lemma read_step:
  assumes "transferring c blob offset" "0 < k"
  shows "\<exists>c1. ptm_read d c k = Some ([Reply_buf (take k (drop offset blob))], c1) \<and>
    (if length blob - offset < k then tx_mode (tx_state c1) = TX_STATE_RW_COMMAND else transferring c1 blob (offset + k))"
proof -
  have u: "unat (of_nat offset :: u32) = offset" "unat (of_nat (length blob) :: u32) = length blob"
    using assms(1) by (simp_all add: transferring_def unat_of_nat take_bit_nat_eq_self)
  have g: "cached_stateblob_get (cached_stateblob c) (tx_offset (tx_state c)) = Some (drop offset blob)"
    using assms(1) u
    by (simp add: transferring_def cached_stateblob_get_def cached_stateblob_get_bloblength_def word_less_nat_alt)
  have m: "min k (length (drop offset blob)) = k" if "\<not> length blob - offset < k"
    using that by simp
  show ?thesis
    using assms g m by (auto simp: ptm_read_def ptm_read_stateblob_def Let_def transferring_def set_tx_def)
qed

lemma read_rest:
  assumes "transferring c blob offset" "0 < k" "length blob - offset < fuel"
  shows "\<exists>c1. read_until_short d fuel c k = Some (drop offset blob, c1) \<and> tx_mode (tx_state c1) = TX_STATE_RW_COMMAND"
  using assms
proof (induction fuel arbitrary: c offset)
  case (Suc fuel)
  obtain c1 where c1: "ptm_read d c k = Some ([Reply_buf (take k (drop offset blob))], c1)"
      "if length blob - offset < k then tx_mode (tx_state c1) = TX_STATE_RW_COMMAND else transferring c1 blob (offset + k)"
    using read_step [OF Suc.prems(1,2)] by blast
  show ?case
  proof (cases "length blob - offset < k")
    case True
    then show ?thesis using c1 by simp
  next
    case False
    then have t: "transferring c1 blob (offset + k)" using c1(2) by simp
    have "length blob - (offset + k) < fuel" using Suc.prems(2,3) False by simp
    from Suc.IH [OF t Suc.prems(2) this] obtain c2 where
      "read_until_short d fuel c1 k = Some (drop (offset + k) blob, c2)" "tx_mode (tx_state c2) = TX_STATE_RW_COMMAND"
      by blast
    moreover have "take k (drop offset blob) @ drop (offset + k) blob = drop offset blob"
      by (metis append_take_drop_id drop_drop add.commute)
    ultimately show ?thesis using c1(1) False by auto
  qed
qed simp

lemma getstate_fields:
  "length (getstate_struct flags bt offset) = 3088" "mem_read (getstate_struct flags bt offset) 0 4 = htole32 flags"
  "mem_read (getstate_struct flags bt offset) 4 4 = htole32 bt" "mem_read (getstate_struct flags bt offset) 8 4 = htole32 offset"
  by (simp_all add: getstate_struct_def mem_read_def)

text \<open>The answer to \<open>PTM_GET_STATEBLOB\<close> while the blob is in the cache.\<close>

definition getstate_answer :: "bytes \<Rightarrow> bool \<Rightarrow> u32 \<Rightarrow> bytes" where
  "getstate_answer blob enc offset =
     (let data = take PTM_STATE_BLOB_SIZE (drop (unat offset) blob) in
      htole32 0 @ htole32 (if enc \<and> unat offset < length blob then PTM_STATE_FLAG_ENCRYPTED else 0) @
      htole32 (of_nat (length blob)) @ htole32 (of_nat (length data)) @ data)"

lemma get_cached:
  assumes "cs_data (cached_stateblob c) = Some blob" "cs_blobtype (cached_stateblob c) = bt"
    and "cs_decrypt (cached_stateblob c) = (flags AND PTM_STATE_FLAG_DECRYPTED \<noteq> 0)" "length blob < 2 ^ 32"
    and "length pgs = 3088" "mem_read pgs 0 4 = htole32 flags" "mem_read pgs 4 4 = htole32 bt" "mem_read pgs 8 4 = htole32 offset"
  shows "\<exists>r c1. ptm_get_stateblob d c pgs = Some ([Reply_ioctl r], c1) \<and> length r = 3088 \<and>
    c1 = c\<lparr>tx_state := tx_state c1\<rparr> \<and>
    take (16 + length (take PTM_STATE_BLOB_SIZE (drop (unat offset) blob))) r =
      getstate_answer blob (cs_is_encrypted (cached_stateblob c)) offset \<and>
    tx_offset (tx_state c1) =
      (if unat offset + PTM_STATE_BLOB_SIZE < length blob then of_nat PTM_STATE_BLOB_SIZE else tx_offset (tx_state c)) \<and>
    tx_mode (tx_state c1) =
      (if unat offset + PTM_STATE_BLOB_SIZE < length blob then TX_STATE_GET_STATE_BLOB else TX_STATE_RW_COMMAND)"
proof -
  let ?data = "take PTM_STATE_BLOB_SIZE (drop (unat offset) blob)"
  have u: "unat (of_nat (length blob) :: u32) = length blob" "unat (of_nat (length ?data) :: u32) = length ?data"
    using assms(4) by (simp_all add: unat_of_nat take_bit_nat_eq_self)
  have p: "ptm_get_stateblob_part d c bt PTM_STATE_BLOB_SIZE offset (flags AND PTM_STATE_FLAG_DECRYPTED \<noteq> 0) =
      Some (0, ?data, cs_is_encrypted (cached_stateblob c) \<and> unat offset < length blob, c)"
    using assms(1-3)
    by (auto simp: ptm_get_stateblob_part_def cached_stateblob_is_loaded_def cached_stateblob_copy_def min_def)
  have lt: "offset + of_nat (length ?data) < of_nat (length blob) \<longleftrightarrow> unat offset + PTM_STATE_BLOB_SIZE < length blob"
  proof -
    have "unat (offset + of_nat (length ?data)) = unat offset + length ?data"
    proof (cases "unat offset < length blob")
      case True
      then have "unat offset + length ?data < 2 ^ 32" using assms(4) by simp
      then show ?thesis using u(2) by (simp add: unat_word_ariths)
    qed simp
    then show ?thesis using u by (auto simp: word_less_nat_alt)
  qed
  show ?thesis
    unfolding ptm_get_stateblob_def assms(6-8) endian_roundtrip0 p Let_def
    using assms(1,5) lt
    by (auto simp: cached_stateblob_get_bloblength_def getstate_answer_def Let_def mem_write_def)
qed

text \<open>Loading the cache is what the control channel does to fetch a blob.\<close>

lemma load_fetches:
  assumes "fetch_state d (cu_world c) bt decrypt = Some (0, blob, enc, nv)" "blob \<noteq> []"
  shows "\<exists>c0. cached_stateblob_load d c bt decrypt = Some (0, c0) \<and> cached_stateblob c0 =
      \<lparr>cs_blobtype = bt, cs_decrypt = decrypt, cs_is_encrypted = enc, cs_data = Some blob\<rparr> \<and> tx_state c0 = tx_state c \<and>
      tpm_running c0 = tpm_running c \<and> thread_busy c0 = thread_busy c"
proof -
  obtain name ops where n: "tpmlib_get_blobname bt = Some name" "g_nvram_backend_ops (w_nv (cu_world c)) = Some ops"
    using assms by (auto simp: fetch_state_def split: option.splits)
  obtain res nv1 where s: "(if bt = PTM_BLOB_TYPE_VOLATILE
      then SWTPM_NVRAM_Store_Volatile (d_crypto d) (nv_lib d) (w_lib (cu_world c)) ops (w_nv (cu_world c))
      else (TPM_SUCCESS, w_nv (cu_world c))) = (res, nv1)" by fastforce
  have res: "res = 0" using assms n s by (auto simp: fetch_state_def split: if_splits)
  obtain g enc' nv2 where g: "SWTPM_NVRAM_GetStateBlob (d_crypto d) ops nv1 0 name decrypt = (g, enc', nv2)"
    by (metis prod.exhaust)
  have "g = Some (Inr blob)" "enc' = enc"
    using assms n s res g by (auto simp: fetch_state_def split: option.splits sum.splits)
  then show ?thesis
    using n s res g
    by (auto simp: cached_stateblob_load_def Let_def unlock_nvram_def cu_nv_upd_def cached_stateblob_free_def)
qed

text \<open>
  C16. Download: with nothing in the cache, \<open>PTM_GET_STATEBLOB\<close> at offset 0 followed by reads of any size until one is short
  delivers exactly the blob that the control channel would send for the same request, and the device
  is back to commands afterwards; for a blob of at most 3072 bytes the ioctl alone does.
\<close>

theorem cuse_download:
  assumes "tpm_running c" "\<not> thread_busy c" "cs_data (cached_stateblob c) = None" "0 < k" "length blob < 2 ^ 32"
    and "fetch_state d (cu_world c) bt (flags AND PTM_STATE_FLAG_DECRYPTED \<noteq> 0) = Some (0, blob, enc, nv)" "blob \<noteq> []"
  shows "\<exists>r c1. ptm_ioctl d e c PTM_GET_STATEBLOB (getstate_struct flags bt 0) 3088 = Some ([Reply_ioctl r], c1) \<and>
    le32toh r = 0 \<and>
    (if length blob \<le> PTM_STATE_BLOB_SIZE
     then mem_read r 16 (length blob) = blob \<and> tx_mode (tx_state c1) = TX_STATE_RW_COMMAND
     else \<exists>rest c2. read_until_short d (length blob) c1 k = Some (rest, c2) \<and>
            mem_read r 16 PTM_STATE_BLOB_SIZE @ rest = blob \<and> tx_mode (tx_state c2) = TX_STATE_RW_COMMAND)"
proof -
  let ?dec = "flags AND PTM_STATE_FLAG_DECRYPTED \<noteq> 0"
  obtain c0 where c0: "cached_stateblob_load d c bt ?dec = Some (0, c0)" "cached_stateblob c0 =
      \<lparr>cs_blobtype = bt, cs_decrypt = ?dec, cs_is_encrypted = enc, cs_data = Some blob\<rparr>"
    using load_fetches [OF assms(6,7)] by blast
  have same: "ptm_get_stateblob d c (getstate_struct flags bt 0) = ptm_get_stateblob d c0 (getstate_struct flags bt 0)"
    unfolding ptm_get_stateblob_def getstate_fields endian_roundtrip0 ptm_get_stateblob_part_def
    using assms(3) c0 by (simp add: cached_stateblob_is_loaded_def)
  obtain r c1 where r: "ptm_get_stateblob d c0 (getstate_struct flags bt 0) = Some ([Reply_ioctl r], c1)"
      "take (16 + length (take PTM_STATE_BLOB_SIZE blob)) r = getstate_answer blob enc 0" "cached_stateblob c1 = cached_stateblob c0"
      "tx_offset (tx_state c1) = (if PTM_STATE_BLOB_SIZE < length blob then of_nat PTM_STATE_BLOB_SIZE else tx_offset (tx_state c0))"
      "tx_mode (tx_state c1) = (if PTM_STATE_BLOB_SIZE < length blob then TX_STATE_GET_STATE_BLOB else TX_STATE_RW_COMMAND)"
    using get_cached [OF _ _ _ assms(5) getstate_fields, where c = c0 and d = d] c0(2) by (fastforce dest: arg_cong [where f = cached_stateblob])
  have io: "ptm_ioctl d e c PTM_GET_STATEBLOB (getstate_struct flags bt 0) 3088 = Some ([Reply_ioctl r], c1)"
    using assms(1,2) r(1) same
    by (simp add: ptm_ioctl_def worker_thread_wait_done_def ioctl_get_stateblob_def getstate_fields no_exit_def)
  have "take 4 r = take 4 (getstate_answer blob enc 0)"
    using arg_cong [OF r(2), of "take 4"] by (simp add: min_def)
  then have r0: "le32toh r = 0" by (simp add: getstate_answer_def Let_def le32toh_def htole32_def of_le_le_bytes)
  have data: "mem_read r 16 (length (take PTM_STATE_BLOB_SIZE blob)) = take PTM_STATE_BLOB_SIZE blob"
    using arg_cong [OF r(2), of "drop 16"]
    by (simp add: mem_read_def take_drop getstate_answer_def Let_def add.commute)
  show ?thesis
  proof (cases "length blob \<le> PTM_STATE_BLOB_SIZE")
    case True
    then show ?thesis using io r0 data r(5) by auto
  next
    case False
    then have "transferring c1 blob PTM_STATE_BLOB_SIZE"
      using r(3-5) c0(2) assms(5) by (simp add: transferring_def)
    moreover have "length blob - PTM_STATE_BLOB_SIZE < length blob" using False by simp
    ultimately obtain c2 where
      "read_until_short d (length blob) c1 k = Some (drop PTM_STATE_BLOB_SIZE blob, c2)"
      "tx_mode (tx_state c2) = TX_STATE_RW_COMMAND" using read_rest [OF _ assms(4)] by blast
    then show ?thesis using io r0 data False by auto
  qed
qed

text \<open>
  The cache outlives what it was loaded from: while a blob is in the cache, the answer does not depend on the NVRAM or
  the TPM any more, so a state that has changed since then is not seen.
\<close>

lemma cached_blob_is_stale:
  assumes "cs_data (cached_stateblob c) = Some blob" "cs_blobtype (cached_stateblob c) = bt"
    and "cs_decrypt (cached_stateblob c) = (flags AND PTM_STATE_FLAG_DECRYPTED \<noteq> 0)"
  shows "map_option fst (ptm_get_stateblob d (c\<lparr>cu_world := w\<rparr>) (getstate_struct flags bt offset)) =
    map_option fst (ptm_get_stateblob d c (getstate_struct flags bt offset))"
  unfolding ptm_get_stateblob_def getstate_fields endian_roundtrip0 ptm_get_stateblob_part_def
  using assms by (simp add: cached_stateblob_is_loaded_def Let_def split: prod.split)

text \<open>
  A read after an ioctl with an offset goes on behind the length of the ioctl's data, not behind the data
  themselves: the bytes from 3072 on come again.
\<close>

lemma read_after_offset_repeats:
  assumes "cs_data (cached_stateblob c) = Some blob" "cs_blobtype (cached_stateblob c) = bt"
    and "cs_decrypt (cached_stateblob c) = (flags AND PTM_STATE_FLAG_DECRYPTED \<noteq> 0)" "length blob < 2 ^ 32" "0 < k"
    and "ptm_get_stateblob d c (getstate_struct flags bt offset) = Some (rs, c1)"
    and "unat offset + PTM_STATE_BLOB_SIZE < length blob"
  shows "\<exists>c2. ptm_read d c1 k = Some ([Reply_buf (take k (drop PTM_STATE_BLOB_SIZE blob))], c2)"
proof -
  obtain r c1' where g: "ptm_get_stateblob d c (getstate_struct flags bt offset) = Some ([Reply_ioctl r], c1')"
      "c1' = c\<lparr>tx_state := tx_state c1'\<rparr>" "tx_offset (tx_state c1') = of_nat PTM_STATE_BLOB_SIZE"
      "tx_mode (tx_state c1') = TX_STATE_GET_STATE_BLOB"
    using get_cached [OF assms(1-4) getstate_fields, where d = d and offset = offset] assms(7) by auto
  have "cached_stateblob c1' = cached_stateblob c" by (subst g(2)) simp
  then have "transferring c1 blob PTM_STATE_BLOB_SIZE"
    using g assms(1,4,6,7) by (simp add: transferring_def)
  from read_step [OF this assms(5)] show ?thesis by blast
qed

text \<open>A device with a stored permanent state, and its blob.\<close>

definition example_stored :: "(bytes list, dirstate) world" where
  "example_stored = (example_world Map.empty)\<lparr>w_nv := snd (SWTPM_NVRAM_StoreData example_crypto nvram_dir_ops
     (w_nv (example_world Map.empty)) [5, 6, 7] 0 TPM_PERMANENT_ALL_NAME)\<rparr>"

definition example_blob :: bytes where
  "example_blob = [2, 1, 0, 10, 0, 4, 0, 0, 0, 25, 0, 4, 0, 0, 0, 9, 0, 1, 0, 0, 0, 3, 5, 6, 7]"

lemma example_fetch:
  "map_option (\<lambda>(res, blob, enc, nv). (res, blob, enc)) (fetch_state example_deps example_stored 1 True) =
     Some (0, example_blob, False)"
  by code_simp

theorem cuse_download_witness:
  "\<exists>r c1. ptm_ioctl example_deps example_cuse_env ((example_cuse True)\<lparr>cu_world := example_stored\<rparr>)
       PTM_GET_STATEBLOB (getstate_struct 1 1 0) 3088 = Some ([Reply_ioctl r], c1) \<and>
     le32toh r = 0 \<and> mem_read r 16 25 = example_blob"
proof -
  obtain nv where f: "fetch_state example_deps example_stored 1 (1 AND PTM_STATE_FLAG_DECRYPTED \<noteq> 0) =
      Some (0, example_blob, False, nv)"
    using example_fetch by auto
  have "\<exists>r c1. ptm_ioctl example_deps example_cuse_env ((example_cuse True)\<lparr>cu_world := example_stored\<rparr>)
       PTM_GET_STATEBLOB (getstate_struct 1 1 0) 3088 = Some ([Reply_ioctl r], c1) \<and>
     le32toh r = 0 \<and>
     (if length example_blob \<le> PTM_STATE_BLOB_SIZE
      then mem_read r 16 (length example_blob) = example_blob \<and> tx_mode (tx_state c1) = TX_STATE_RW_COMMAND
      else \<exists>rest c2. read_until_short example_deps (length example_blob) c1 1 = Some (rest, c2) \<and>
             mem_read r 16 PTM_STATE_BLOB_SIZE @ rest = example_blob \<and> tx_mode (tx_state c2) = TX_STATE_RW_COMMAND)"
    by (rule cuse_download [of _ _ _ _ _ _ False nv])
      (use f in \<open>simp_all add: example_cuse_def example_blob_def\<close>)
  moreover have "length example_blob = 25" by (simp add: example_blob_def)
  ultimately show ?thesis by auto
qed

end
