(* ===== verification/IoctlLink.thy ===== *)
theory IoctlLink
  imports Ioctl CuseBlob
begin

section \<open>swtpm_ioctl and swtpm together\<close>

text \<open>
  The client of \<^verbatim>\<open>Ioctl\<close> connected to the server of \<^verbatim>\<open>CtrlChannel\<close>: what is written waits in the socket until
  the client polls or reads, then the server takes it off and its answers wait for the client. So the loops of
  the client are proved against the real handlers, and state blobs and hash data are followed from the
  file of the client to libtpms.
\<close>

subsection \<open>The connection\<close>

record ('t, 's) sock =
  k_ctrl :: "('t, 's) ctrl"
  k_in :: bytes
  k_out :: bytes

text \<open>The bytes behind the first 4104 come in pieces that fit the server's buffer.\<close>

function pieces :: "bytes \<Rightarrow> bytes list" where
  "pieces b = (if b = [] then [] else take 4088 b # pieces (drop 4088 b))"
  by auto
termination by (relation "measure length") auto

declare pieces.simps [simp del]

lemma concat_pieces [simp]: "concat (pieces b) = b"
  by (induction b rule: pieces.induct) (subst pieces.simps, simp)

lemma pieces_ok: "ch \<in> set (pieces b) \<Longrightarrow> ch \<noteq> [] \<and> length ch \<le> 4088"
  by (induction b rule: pieces.induct) (subst (asm) (2) pieces.simps, auto split: if_splits)

definition serve :: "('t, 's) deps \<Rightarrow> ('t, 's) sock \<Rightarrow> ('t, 's) sock" where
  "serve d k =
     (if k_in k = [] then k
      else
        let c = (k_ctrl k)\<lparr>c_reads := map Some (pieces (drop sizeof_input (k_in k)))\<rparr> in
        case ctrlchannel_process_fd d c [RChunk (take sizeof_input (k_in k)), RDeadline] None of
          None \<Rightarrow> k\<lparr>k_in := [], k_ctrl := (k_ctrl k)\<lparr>c_open := False\<rparr>\<rparr>
        | Some c1 \<Rightarrow>
            k\<lparr>k_ctrl := c1, k_in := [],
              k_out := k_out k @ concat (drop (length (c_sent (k_ctrl k))) (c_sent c1))\<rparr>)"

definition sock_conn :: "('t, 's) deps \<Rightarrow> ('t, 's) sock ioctl_conn" where
  "sock_conn d =
     \<lparr>cn_fstat = (\<lambda>k. Some False),
      cn_ioctl = (\<lambda>k cmd msg. (None, k)),
      cn_writev = (\<lambda>k b. (int (length b), k\<lparr>k_in := k_in k @ b\<rparr>)),
      cn_poll = (\<lambda>k. let k1 = serve d k in (if k_out k1 = [] then 0 else 1, k1)),
      cn_read = (\<lambda>k n. let k1 = serve d k in (Some (take n (k_out k1)), k1\<lparr>k_out := drop n (k_out k1)\<rparr>)),
      cn_write = (\<lambda>k b. (int (length b), k\<lparr>k_in := k_in k @ b\<rparr>))\<rparr>"

text \<open>A connection on which nothing is under way.\<close>

definition idle_sock :: "('t, 's) sock \<Rightarrow> bool" where
  "idle_sock k \<longleftrightarrow> k_in k = [] \<and> k_out k = [] \<and> c_open (k_ctrl k) \<and> c_wfails (k_ctrl k) = [] \<and> c_reads (k_ctrl k) = []"

lemma serve_out [simp]: "k_in k = [] \<Longrightarrow> serve d k = k"
  by (simp add: serve_def)

lemma ioctl_numbers:
  "ioctl_to_cmd (ptm_number PTM_GET_STATEBLOB) = CMD_GET_STATEBLOB" "ioctl_to_cmd (ptm_number PTM_SET_STATEBLOB) = CMD_SET_STATEBLOB"
  "ioctl_to_cmd (ptm_number PTM_HASH_START) = CMD_HASH_START" "ioctl_to_cmd (ptm_number PTM_HASH_DATA) = CMD_HASH_DATA"
  "ioctl_to_cmd (ptm_number PTM_HASH_END) = CMD_HASH_END" "ioctl_to_cmd (ptm_number PTM_GET_CAPABILITY) = CMD_GET_CAPABILITY"
  "ioctl_to_cmd (ptm_number PTM_INIT) = CMD_INIT" "ioctl_to_cmd (ptm_number PTM_STOP) = CMD_STOP"
  "ioctl_to_cmd (ptm_number PTM_SHUTDOWN) = CMD_SHUTDOWN" "ioctl_to_cmd (ptm_number PTM_SET_LOCALITY) = CMD_SET_LOCALITY"
  "ioctl_to_cmd (ptm_number PTM_GET_TPMESTABLISHED) = CMD_GET_TPMESTABLISHED"
  "ioctl_to_cmd (ptm_number PTM_RESET_TPMESTABLISHED) = CMD_RESET_TPMESTABLISHED"
  "ioctl_to_cmd (ptm_number PTM_CANCEL_TPM_CMD) = CMD_CANCEL_TPM_CMD" "ioctl_to_cmd (ptm_number PTM_STORE_VOLATILE) = CMD_STORE_VOLATILE"
  "ioctl_to_cmd (ptm_number PTM_GET_CONFIG) = CMD_GET_CONFIG" "ioctl_to_cmd (ptm_number PTM_SET_DATAFD) = CMD_SET_DATAFD"
  "ioctl_to_cmd (ptm_number PTM_SET_BUFFERSIZE) = CMD_SET_BUFFERSIZE" "ioctl_to_cmd (ptm_number PTM_GET_INFO) = CMD_GET_INFO"
  "ioctl_to_cmd (ptm_number PTM_LOCK_STORAGE) = CMD_LOCK_STORAGE"
  by (simp_all add: ioctl_to_cmd_def IOC_def)

declare ptm_number.simps [simp del]

subsection \<open>One command over the socket\<close>

lemma recv_whole:
  assumes "recv_needed req = length req" "4 \<le> length req" "length req \<le> sizeof_input"
  shows "ctrlchannel_recv_cmd [RChunk req, RDeadline] [] = Some req"
  using recv_cmd_split [of "[req]" "[RDeadline]"] assms by auto

text \<open>A request that the server receives as a whole is dispatched, and its one answer is what the client reads.\<close>

lemma ctrlcmd_sock:
  assumes "idle_sock k" "req = htobe32 (ioctl_to_cmd (ptm_number cmd)) @ take len_in msg"
    and "recv_needed req = length req" "length req \<le> sizeof_input" "0 < len_out"
    and "ctrl_dispatch d (k_ctrl k) (ioctl_to_cmd (ptm_number cmd)) (take len_in msg) None = Some c1"
    and "c_sent c1 = c_sent (k_ctrl k) @ [out]" "out \<noteq> []"
  shows "ctrlcmd (sock_conn d) k cmd msg len_in len_out =
    (int (min len_out (length out)), mem_write msg 0 (take len_out out), k\<lparr>k_ctrl := c1, k_out := drop len_out out\<rparr>)"
proof -
  have l: "4 \<le> length req" using assms(2) by simp
  have r: "ctrlchannel_recv_cmd [RChunk (take sizeof_input req), RDeadline] [] = Some req"
    using recv_whole [OF assms(3) l assms(4)] assms(4) by simp
  have q: "be32toh (mem_read req 0 4) = ioctl_to_cmd (ptm_number cmd)" "drop 4 req = take len_in msg"
    using assms(2) by (simp_all add: mem_read_def)
  have i: "(k_ctrl k)\<lparr>c_reads := []\<rparr> = k_ctrl k" "c_open (k_ctrl k)" "k_in k = []" "k_out k = []"
    using assms(1) by (simp_all add: idle_sock_def)
  have p: "pieces (drop sizeof_input req) = []" using assms(4) by (simp add: pieces.simps)
  have s: "serve d (k\<lparr>k_in := req\<rparr>) = k\<lparr>k_ctrl := c1, k_out := out\<rparr>"
    unfolding serve_def using l i p assms(6,7) r q
    by (auto simp: ctrlchannel_process_fd_def simp del: ctrlchannel_recv_cmd.simps mem_read_0)
  show ?thesis
    using i assms(2,5,8) s l
    by (simp add: ctrlcmd_def sock_conn_def Let_def min.commute)
qed

subsection \<open>Saving\<close>

definition file_ok :: "out_file \<Rightarrow> bool" where
  "file_ok f \<longleftrightarrow> of_open f \<and> (\<forall>content data. of_write f content data = int (length data))"

lemma outfile_write_ok: "file_ok f \<Longrightarrow> outfile_write f content data = (int (length data), content @ data)"
  by (simp add: outfile_write_def file_ok_def)

lemma save_read_rest:
  assumes "k_in k = []" "k_out k \<noteq> []" "file_ok f" "0 < bs" "length (k_out k) \<le> fuel"
  shows "save_read_loop fuel (sock_conn d) k f bs (int (length (k_out k))) content =
    Some (False, 0, content @ k_out k, k\<lparr>k_out := []\<rparr>)"
  using assms
proof (induction fuel arbitrary: k content)
  case (Suc fuel)
  let ?k1 = "k\<lparr>k_out := drop bs (k_out k)\<rparr>"
  have rd: "cn_read (sock_conn d) k bs = (Some (take bs (k_out k)), ?k1)"
    using Suc.prems(1) by (simp add: sock_conn_def Let_def)
  show ?case
  proof (cases "drop bs (k_out k) = []")
    case True
    then show ?thesis using rd Suc.prems by (simp add: Let_def outfile_write_ok)
  next
    case False
    have rem: "int (length (k_out k)) - int (length (take bs (k_out k))) = int (length (k_out ?k1))"
      using False by simp
    have "save_read_loop fuel (sock_conn d) ?k1 f bs (int (length (k_out ?k1))) (content @ take bs (k_out k)) =
        Some (False, 0, (content @ take bs (k_out k)) @ k_out ?k1, ?k1\<lparr>k_out := []\<rparr>)"
      using Suc.prems False by (intro Suc.IH) auto
    moreover have "0 < int (length (k_out ?k1))" using False by simp
    ultimately show ?thesis
      using rd Suc.prems(3) unfolding save_read_loop.simps rd prod.case option.case Let_def rem
      by (simp add: outfile_write_ok)
  qed
qed simp

lemma get_blobtype_ok:
  "get_blobtype (Some name) \<noteq> 0 \<Longrightarrow> get_blobtype (Some name) \<in> {1, 2, 3}"
  by (auto simp: get_blobtype_def split: if_splits)

text \<open>The answer of the server to the request of \<open>do_save_state_blob\<close>.\<close>

lemma save_request:
  assumes "idle_sock k" "c_running (k_ctrl k)" "fetch_state d (c_world (k_ctrl k)) bt True = Some (0, blob, enc, nv)"
    and "g_nvram_backend_ops nv \<noteq> None" "length blob < 2 ^ 32"
  shows "\<exists>c1. ctrlcmd (sock_conn d) k PTM_GET_STATEBLOB
      (mem_write (replicate 3088 0) 0 (htodev32 False PTM_STATE_FLAG_DECRYPTED @ htodev32 False bt @ htodev32 False 0)) 12 3088 =
    (int (min 3088 (16 + length blob)),
     mem_write (mem_write (replicate 3088 0) 0 (htodev32 False PTM_STATE_FLAG_DECRYPTED @ htodev32 False bt @ htodev32 False 0)) 0
       (take 3088 (htobe32 0 @ htobe32 (if enc then PTM_STATE_FLAG_ENCRYPTED else 0) @
          htobe32 (of_nat (length blob)) @ htobe32 (of_nat (length blob)) @ blob)),
     k\<lparr>k_ctrl := c1, k_out := drop 3072 blob\<rparr>)"
proof -
  let ?body = "htobe32 PTM_STATE_FLAG_DECRYPTED @ htobe32 bt @ htobe32 0"
  let ?msg = "mem_write (replicate 3088 0) 0 (htodev32 False PTM_STATE_FLAG_DECRYPTED @ htodev32 False bt @ htodev32 False 0)"
  let ?out = "htobe32 0 @ htobe32 (if enc then PTM_STATE_FLAG_ENCRYPTED else 0) @
          htobe32 (of_nat (length blob)) @ htobe32 (of_nat (length blob)) @ blob"
  have b: "take 12 ?msg = ?body" by (simp add: mem_write_def htodev32_def)
  have m: "mem_read ?body 0 4 = htobe32 PTM_STATE_FLAG_DECRYPTED" "mem_read ?body 4 4 = htobe32 bt" "mem_read ?body 8 4 = htobe32 0"
    by (simp_all add: mem_read_def)
  obtain ops where ops: "g_nvram_backend_ops nv = Some ops" using assms(4) by blast
  have sr: "send_resp (nv_upd (k_ctrl k) nv) ?out = (nv_upd (k_ctrl k) nv)\<lparr>c_sent := c_sent (k_ctrl k) @ [?out]\<rparr>"
    "c_open (nv_upd (k_ctrl k) nv)"
    using assms(1) by (simp_all add: send_resp_def nv_upd_def idle_sock_def)
  define c0 where "c0 = (nv_upd (k_ctrl k) nv)\<lparr>c_sent := c_sent (k_ctrl k) @ [?out]\<rparr>"
  define c1 where "c1 = (if bt = PTM_BLOB_TYPE_SAVESTATE then mainloop_unlock_nvram ops c0 DEFAULT_LOCKING_RETRIES else c0)"
  have c0: "c_open c0" "send_resp (nv_upd (k_ctrl k) nv) ?out = c0" using sr by (simp_all add: c0_def)
  have c1: "ctrl_dispatch d (k_ctrl k) CMD_GET_STATEBLOB ?body None = Some c1"
    using assms(2,3) c0 ops
    by (simp add: ctrl_dispatch_def cmd_get_stateblob_def ctrlchannel_return_state_def m c1_def Let_def del: mem_read_0)
  have sent: "c_sent c1 = c_sent (k_ctrl k) @ [?out]" by (simp add: c1_def c0_def mainloop_unlock_nvram_def)
  have need: "recv_needed (htobe32 CMD_GET_STATEBLOB @ ?body) = length (htobe32 CMD_GET_STATEBLOB @ ?body)"
    by (simp add: recv_needed_def Let_def)
  have r: "ctrlcmd (sock_conn d) k PTM_GET_STATEBLOB ?msg 12 3088 =
      (int (min 3088 (length ?out)), mem_write ?msg 0 (take 3088 ?out), k\<lparr>k_ctrl := c1, k_out := drop 3088 ?out\<rparr>)"
    by (rule ctrlcmd_sock [OF assms(1), of "htobe32 CMD_GET_STATEBLOB @ ?body"])
      (use b c1 sent need in \<open>simp_all add: ioctl_numbers\<close>)
  have l: "length ?out = 16 + length blob" "drop 3088 ?out = drop 3072 blob" by simp_all
  show ?thesis by (rule exI [of _ c1]) (use r in \<open>simp only: l\<close>)
qed

text \<open>
  \<open>swtpm_ioctl --save\<close> over the control channel stores exactly the state: against a running server that can fetch
  the blob, and with a file that can be written, the program ends with success and the file holds precisely the blob,
  whatever its size; one round of the loop per byte plus two is fuel enough.
\<close>

lemma ioctl_save_blob:
  assumes "idle_sock k" "c_running (k_ctrl k)" "get_blobtype (Some name) = bt" "bt \<noteq> 0" "file_ok f" "malloc 4096"
    and "fetch_state d (c_world (k_ctrl k)) bt True = Some (0, blob, enc, nv)" "g_nvram_backend_ops nv \<noteq> None"
    and "length blob < 2 ^ 32" "length blob + 2 \<le> fuel"
  shows "\<exists>k1. do_save_state_blob fuel (sock_conn d) malloc k False (Some name) f bs = Some (0, blob, k1) \<and> k_out k1 = []"
proof -
  let ?hdr = "htobe32 0 @ htobe32 (if enc then PTM_STATE_FLAG_ENCRYPTED else 0) @
          htobe32 (of_nat (length blob)) @ htobe32 (of_nat (length blob))"
  let ?msg = "mem_write (replicate 3088 0) 0 (htodev32 False PTM_STATE_FLAG_DECRYPTED @ htodev32 False bt @ htodev32 False 0)"
  define resp where "resp = mem_write ?msg 0 (take 3088 (?hdr @ blob))"
  define N m where "N = int (min 3088 (16 + length blob))" and "m = length (take 3072 blob)"
  have N: "N - 16 = int m" "\<not> N < 0" "\<not> N < 16" "nat (N - 16) = m" by (simp_all add: N_def m_def)
  obtain c1 where r: "ctrlcmd (sock_conn d) k PTM_GET_STATEBLOB ?msg 12 3088 =
      (N, resp, k\<lparr>k_ctrl := c1, k_out := drop 3072 blob\<rparr>)"
    using save_request [OF assms(1,2,7-9)] unfolding resp_def N_def by auto
  have f: "devtoh32 False resp = 0" "devtoh32 False (mem_read resp 8 4) = of_nat (length blob)"
    "mem_read resp 16 m = take 3072 blob" "length (take 3072 blob) = m"
    by (simp_all add: resp_def m_def devtoh32_def mem_write_def mem_read_def min_def)
  have u: "unat (of_nat (length blob) :: u32) = length blob"
    using assms(9) by (simp add: unat_of_nat take_bit_nat_eq_self)
  obtain fuel' where fuel: "fuel = Suc fuel'" using assms(10) by (cases fuel) auto
  have io: "k_in k = []" using assms(1) by (simp add: idle_sock_def)
  have step: "save_loop fuel (sock_conn d) malloc False bt f 4096 k (replicate 3088 0) 0 (-1) [] =
    (if m \<ge> length blob
     then Some (False, int (length blob) - int m, take 3072 blob, k\<lparr>k_ctrl := c1, k_out := drop 3072 blob\<rparr>)
     else save_read_loop fuel' (sock_conn d) (k\<lparr>k_ctrl := c1, k_out := drop 3072 blob\<rparr>) f 4096
            (int (length blob) - int m) (take 3072 blob))"
    unfolding fuel save_loop.simps Let_def unsigned_0
    using r f u N assms(5,6) by (simp add: outfile_write_ok del: length_take)
  have rest: "save_read_loop fuel' (sock_conn d) (k\<lparr>k_ctrl := c1, k_out := drop 3072 blob\<rparr>) f 4096
      (int (length blob) - int m) (take 3072 blob) =
      Some (False, 0, blob, k\<lparr>k_ctrl := c1, k_out := []\<rparr>)" if "length blob > 3072"
    using save_read_rest [of "k\<lparr>k_ctrl := c1, k_out := drop 3072 blob\<rparr>" f 4096 fuel' d "take 3072 blob"]
      that io assms(5,10) fuel by (simp add: m_def)
  have "\<exists>k1. save_loop fuel (sock_conn d) malloc False bt f 4096 k (replicate 3088 0) 0 (-1) [] = Some (False, 0, blob, k1)
      \<and> k_out k1 = []"
    using step rest by (cases "length blob > 3072") (auto simp: m_def)
  then show ?thesis
    using assms(3,4,5) by (auto simp: do_save_state_blob_def Let_def file_ok_def)
qed

subsection \<open>Loading\<close>

text \<open>
  A server that can take a state: its storage is locked already, or, as on a server that has just been started, the
  lock is obtained once the NVRAM has been initialized.
\<close>

definition nv_start :: "('t, 's) deps \<Rightarrow> ('t, 's) ctrl \<Rightarrow> ('t, 's) ctrl" where
  "nv_start d c = nv_upd c (snd (SWTPM_NVRAM_Init (d_dir_ops d) (d_linear_ops d) (w_nv (c_world c))))"

definition lockable :: "('t, 's) deps \<Rightarrow> ('t, 's) ctrl \<Rightarrow> bool" where
  "lockable d c \<longleftrightarrow> fst (mainloop_ensure_locked_storage (nv_start d c))"

lemma lockable_reads:
  assumes "lockable d c"
  obtains c1 where "mainloop_ensure_locked_storage (nv_start d (c\<lparr>c_reads := rs\<rparr>)) = (True, c1)"
    "c_reads c1 = rs" "c_open c1 = c_open c" "c_sent c1 = c_sent c" "c_wfails c1 = c_wfails c"
    "w_lib (c_world c1) = w_lib (c_world c)" "nv_globals (w_nv (c_world c1)) = nv_globals (w_nv (c_world c))"
proof -
  let ?nv = "snd (SWTPM_NVRAM_Init (d_dir_ops d) (d_linear_ops d) (w_nv (c_world c)))"
  obtain res nv where l: "SWTPM_NVRAM_Lock_Storage ?nv (unat (locking_retries (c_mlp c))) = (res, nv)" by fastforce
  then have "nv_globals nv = nv_globals (w_nv (c_world c))"
    using lock_globals [of ?nv "unat (locking_retries (c_mlp c))"] by (simp add: init_globals)
  then show ?thesis
    using assms l that [of "snd (mainloop_ensure_locked_storage (nv_start d (c\<lparr>c_reads := rs\<rparr>)))"]
    by (auto simp: lockable_def mainloop_ensure_locked_storage_def nv_start_def nv_upd_def Let_def init_globals split: if_splits)
qed

text \<open>The requests of \<open>do_load_state_blob\<close> on a socket: the header in one write, the blob in the next.\<close>

lemma load_received:
  assumes "idle_sock k" "length blob \<le> 512 * 1024" "blob \<noteq> []" "bt \<in> {1, 2, 3}"
    and "\<not> c_running (k_ctrl k)" "lockable d (k_ctrl k)" "malloc_ok (d_crypto d) (length blob)"
    and "req = htobe32 CMD_SET_STATEBLOB @ htobe32 0 @ htobe32 bt @ htobe32 (of_nat (length blob)) @ blob"
    and "SWTPM_NVRAM_SetStateBlob (d_crypto d) (nv_lib d) (w_lib (c_world (k_ctrl k)))
           (nv_globals (w_nv (c_world (k_ctrl k)))) blob False bt = (res, t)"
  shows "\<exists>c1. serve d (k\<lparr>k_in := req\<rparr>) = k\<lparr>k_ctrl := c1, k_out := htobe32 res\<rparr> \<and> w_lib (c_world c1) = t \<and>
    nv_globals (w_nv (c_world c1)) = nv_globals (w_nv (c_world (k_ctrl k)))"
proof -
  let ?hdr = "htobe32 0 @ htobe32 bt @ htobe32 (of_nat (length blob))"
  let ?first = "take 4088 blob" and ?ps = "pieces (drop 4088 blob)"
  have lr: "length req = 16 + length blob" "req = htobe32 CMD_SET_STATEBLOB @ ?hdr @ blob" using assms(8) by simp_all
  have split: "take sizeof_input req = htobe32 CMD_SET_STATEBLOB @ ?hdr @ ?first" "drop sizeof_input req = drop 4088 blob"
    unfolding lr(2) by simp_all
  have u: "unat (of_nat (length blob) :: u32) = length blob"
    using assms(2) by (simp add: unat_of_nat take_bit_nat_eq_self)
  have m: "mem_read ?hdr 0 4 = htobe32 0" "mem_read ?hdr 4 4 = htobe32 bt" "mem_read ?hdr 8 4 = htobe32 (of_nat (length blob))"
    by (simp_all add: mem_read_def)
  have m2: "mem_read (htobe32 CMD_SET_STATEBLOB @ ?hdr @ ?first) 0 4 = htobe32 CMD_SET_STATEBLOB"
    "mem_read (htobe32 CMD_SET_STATEBLOB @ ?hdr @ ?first) 12 4 = htobe32 (of_nat (length blob))"
    by (simp_all add: mem_read_def)
  have need: "recv_needed (htobe32 CMD_SET_STATEBLOB @ ?hdr @ ?first) = 16 + length blob"
    unfolding recv_needed_def Let_def m2 by (simp add: u)
  have rcv: "ctrlchannel_recv_cmd [RChunk (take sizeof_input req), RDeadline] [] =
      Some (htobe32 CMD_SET_STATEBLOB @ ?hdr @ ?first)"
    unfolding split using need by (auto simp: Let_def)
  define c where "c = (k_ctrl k)\<lparr>c_reads := map Some ?ps\<rparr>"
  obtain c0 where lk: "mainloop_ensure_locked_storage (nv_start d c) = (True, c0)" and c0: "c_reads c0 = map Some ?ps"
      "c_open c0" "c_sent c0 = c_sent (k_ctrl k)" "c_wfails c0 = c_wfails (k_ctrl k)"
      "w_lib (c_world c0) = w_lib (c_world (k_ctrl k))" "nv_globals (w_nv (c_world c0)) = nv_globals (w_nv (c_world (k_ctrl k)))"
    using lockable_reads [OF assms(6), of "map Some ?ps"] assms(1) unfolding c_def idle_sock_def by metis
  define c2 where "c2 = c0\<lparr>c_terminate := False\<rparr>"
  have op: "c_open c" "\<not> c_running c" using assms(1,5) by (simp_all add: c_def idle_sock_def)
  have w: "w_lib (c_world c2) = w_lib (c_world (k_ctrl k))" "nv_globals (w_nv (c_world c2)) = nv_globals (w_nv (c_world (k_ctrl k)))"
    using c0 by (simp_all add: c2_def)
  have rs: "ctrlchannel_receive_state d c2 (?hdr @ ?first) = Some (send_resp (libst_upd (c2\<lparr>c_reads := []\<rparr>) t) (htobe32 res))"
    using receive_state_split [of ?hdr ?first ?ps d c2 "[]"] assms(2,3,7,9) pieces_ok
    unfolding m w by (simp add: c2_def c0)
  define c1 where "c1 = send_resp (libst_upd (c2\<lparr>c_reads := []\<rparr>) t) (htobe32 res)"
  have "ctrlchannel_process_fd d c [RChunk (take sizeof_input req), RDeadline] None = Some c1"
    unfolding ctrlchannel_process_fd_def rcv option.case m2
    using op lk rs
    by (simp add: ctrl_dispatch_def cmd_set_stateblob_def Let_def nv_start_def [symmetric] c1_def c2_def [symmetric])
  moreover have "c_sent c1 = c_sent (k_ctrl k) @ [htobe32 res]" "w_lib (c_world c1) = t"
    "nv_globals (w_nv (c_world c1)) = nv_globals (w_nv (c_world (k_ctrl k)))"
    using assms(1) c0 by (simp_all add: c1_def send_resp_def libst_upd_def c2_def idle_sock_def)
  moreover have "k\<lparr>k_ctrl := c1, k_in := [], k_out := x\<rparr> = k\<lparr>k_ctrl := c1, k_out := x\<rparr>" for x
    using assms(1) by (cases k) (simp add: idle_sock_def)
  ultimately show ?thesis
    using assms(1) lr unfolding serve_def split(2) by (intro exI [of _ c1]) (auto simp: c_def [symmetric] idle_sock_def)
qed

text \<open>
  \<open>swtpm_ioctl --load\<close> over the control channel: for a file of at most 512 KiB that is not empty the server gives libtpms
  exactly the file's content through \<open>SWTPM_NVRAM_SetStateBlob\<close>, in however many pieces it arrives, and the program ends
  with success exactly when that call does.
\<close>

lemma ioctl_load_blob:
  assumes "idle_sock k" "\<not> c_running (k_ctrl k)" "lockable d (k_ctrl k)"
    and "get_blobtype (Some name) = bt" "bt \<noteq> 0" "if_content f = Some blob" "if_fstat f" "\<not> if_read_fails f 0"
    and "blob \<noteq> []" "length blob \<le> 512 * 1024" "malloc (length blob)" "malloc_ok (d_crypto d) (length blob)"
    and "SWTPM_NVRAM_SetStateBlob (d_crypto d) (nv_lib d) (w_lib (c_world (k_ctrl k)))
           (nv_globals (w_nv (c_world (k_ctrl k)))) blob False bt = (res, t)"
  shows "\<exists>k1. do_load_state_blob (sock_conn d) malloc k False (Some name) (Some f) bs = (if res = 0 then 0 else 1, k1) \<and>
    w_lib (c_world (k_ctrl k1)) = t"
proof -
  let ?hdr = "htobe32 0 @ htobe32 bt @ htobe32 (of_nat (length blob))"
  let ?req = "htobe32 CMD_SET_STATEBLOB @ ?hdr @ blob"
  have bt: "bt \<in> {1, 2, 3}" using get_blobtype_ok assms(4,5) by blast
  have io: "k_in k = []" "k_out k = []" using assms(1) by (simp_all add: idle_sock_def)
  obtain c1 where sv: "serve d (k\<lparr>k_in := ?req\<rparr>) = k\<lparr>k_ctrl := c1, k_out := htobe32 res\<rparr>" "w_lib (c_world c1) = t"
    using load_received [OF assms(1,10,9) bt assms(2,3,12) _ assms(13)] by auto
  have h: "take 12 (mem_write (replicate 3084 0) 0 (setstate_header False bt (length blob))) = ?hdr"
    "devtoh32 False (mem_write (replicate 3084 0) 0 (setstate_header False bt (length blob))) = 0"
    by (simp_all add: mem_write_def setstate_header_def htodev32_def devtoh32_def)
  have cc: "ctrlcmd (sock_conn d) k PTM_SET_STATEBLOB (mem_write (replicate 3084 0) 0 (setstate_header False bt (length blob))) 12 0 =
      (0, mem_write (replicate 3084 0) 0 (setstate_header False bt (length blob)), k\<lparr>k_in := htobe32 CMD_SET_STATEBLOB @ ?hdr\<rparr>)"
    unfolding ctrlcmd_def h(1) ioctl_numbers by (simp add: sock_conn_def io)
  have lw: "load_write_loop (sock_conn d) False bt f (length blob) (k\<lparr>k_in := htobe32 CMD_SET_STATEBLOB @ ?hdr\<rparr>) pss 0 blob =
      (res \<noteq> 0, k\<lparr>k_ctrl := c1, k_out := []\<rparr>)" for pss
    using assms(8) sv(1)
    by (subst load_write_loop.simps) (simp add: sock_conn_def Let_def devtoh32_def)
  show ?thesis
    using assms(4-7,9,11) cc lw h(2) sv(2)
    by (simp add: do_load_state_blob_def Let_def)
qed

subsection \<open>Hashing\<close>

text \<open>What libtpms is to see: the pieces one after the other until one fails.\<close>

primrec hash_seq :: "('t \<Rightarrow> bytes \<Rightarrow> TPM_RESULT \<times> 't) \<Rightarrow> 't \<Rightarrow> bytes list \<Rightarrow> TPM_RESULT \<times> 't" where
  "hash_seq h t [] = (0, t)"
| "hash_seq h t (c # cs) = (case h t c of (res, t1) \<Rightarrow> if res \<noteq> 0 then (res, t1) else hash_seq h t1 cs)"

definition hash_spec :: "('t, 's) libtpms_io \<Rightarrow> byte \<Rightarrow> 't \<Rightarrow> bytes list \<Rightarrow> TPM_RESULT \<times> 't" where
  "hash_spec lib loc t cs =
     (case TPM_IO_Hash_Start lib loc t of (r1, t1) \<Rightarrow>
        if r1 \<noteq> 0 then (r1, t1)
        else case hash_seq (TPM_IO_Hash_Data lib) t1 cs of (r2, t2) \<Rightarrow>
          if r2 \<noteq> 0 then (r2, t2) else TPM_IO_Hash_End lib t2)"

function hash_pieces :: "bytes \<Rightarrow> bytes list" where
  "hash_pieces b = (if b = [] then [] else take 4096 b # hash_pieces (drop 4096 b))"
  by auto
termination by (relation "measure length") auto

declare hash_pieces.simps [simp del]

lemma concat_hash_pieces [simp]: "concat (hash_pieces b) = b"
  by (induction b rule: hash_pieces.induct) (subst hash_pieces.simps, simp)

text \<open>The connection after a command that was answered with one result and changed libtpms to \<open>t\<close>.\<close>

definition after_res :: "('t, 's) sock \<Rightarrow> 't \<Rightarrow> TPM_RESULT \<Rightarrow> ('t, 's) sock" where
  "after_res k t res = k\<lparr>k_ctrl := (libst_upd (k_ctrl k) t)\<lparr>c_sent := c_sent (k_ctrl k) @ [htobe32 res]\<rparr>\<rparr>"

lemma after_res_simps [simp]:
  "idle_sock (after_res k t res) = idle_sock k" "c_running (k_ctrl (after_res k t res)) = c_running (k_ctrl k)"
  "w_lib (c_world (k_ctrl (after_res k t res))) = t" "c_locality (k_ctrl (after_res k t res)) = c_locality (k_ctrl k)"
  by (simp_all add: after_res_def idle_sock_def libst_upd_def)

lemma result_sock:
  assumes "idle_sock k" "req = htobe32 (ioctl_to_cmd (ptm_number cmd)) @ take len_in msg"
    and "recv_needed req = length req" "length req \<le> sizeof_input" "4 \<le> length msg"
    and "ctrl_dispatch d (k_ctrl k) (ioctl_to_cmd (ptm_number cmd)) (take len_in msg) None =
      reply (htobe32 res, libst_upd (k_ctrl k) t)"
  shows "\<exists>msg1. ctrlcmd (sock_conn d) k cmd msg len_in 4 = (4, msg1, after_res k t res) \<and> devtoh32 False msg1 = res \<and>
    length msg1 = length msg"
proof -
  define c1 where "c1 = (libst_upd (k_ctrl k) t)\<lparr>c_sent := c_sent (k_ctrl k) @ [htobe32 res]\<rparr>"
  have "ctrl_dispatch d (k_ctrl k) (ioctl_to_cmd (ptm_number cmd)) (take len_in msg) None = Some c1"
    using assms(1,6) by (simp add: reply_def send_resp_def c1_def idle_sock_def libst_upd_def)
  then have "ctrlcmd (sock_conn d) k cmd msg len_in 4 =
      (int (min 4 (length (htobe32 res))), mem_write msg 0 (take 4 (htobe32 res)), k\<lparr>k_ctrl := c1, k_out := drop 4 (htobe32 res)\<rparr>)"
    by (intro ctrlcmd_sock [OF assms(1-4)]) (simp_all add: c1_def)
  moreover have "k\<lparr>k_ctrl := c1, k_out := []\<rparr> = after_res k t res"
    using assms(1) by (cases k) (simp add: after_res_def c1_def idle_sock_def)
  moreover have "length (mem_write msg 0 (htobe32 res)) = length msg"
    using assms(5) by (intro length_mem_write) simp
  ultimately show ?thesis by (simp add: devtoh32_def mem_write_def)
qed

lemma hash_data_request:
  assumes "c_running c" "length data \<le> 4096" "TPM_IO_Hash_Data (d_lib d) (w_lib (c_world c)) data = (res, t)"
  shows "cmd_hash_data d c (htobe32 (of_nat (length data)) @ data) = Some (htobe32 res, libst_upd c t)"
    and "recv_needed (htobe32 CMD_HASH_DATA @ htobe32 (of_nat (length data)) @ data) = 8 + length data"
proof -
  have u: "unat (of_nat (length data) :: u32) = length data"
    using assms(2) by (simp add: unat_of_nat take_bit_nat_eq_self)
  have m: "mem_read (htobe32 (of_nat (length data)) @ data) 0 4 = htobe32 (of_nat (length data))"
    "mem_read (htobe32 CMD_HASH_DATA @ htobe32 (of_nat (length data)) @ data) 0 4 = htobe32 CMD_HASH_DATA"
    "mem_read (htobe32 CMD_HASH_DATA @ htobe32 (of_nat (length data)) @ data) 4 4 = htobe32 (of_nat (length data))"
    by (simp_all add: mem_read_def)
  show "cmd_hash_data d c (htobe32 (of_nat (length data)) @ data) = Some (htobe32 res, libst_upd c t)"
    unfolding cmd_hash_data_def m using assms u by (simp add: Let_def hash_data_loop.simps)
  show "recv_needed (htobe32 CMD_HASH_DATA @ htobe32 (of_nat (length data)) @ data) = 8 + length data"
    unfolding recv_needed_def Let_def m by (simp add: u)
qed

lemma hash_data_sock:
  assumes "idle_sock k" "c_running (k_ctrl k)" "length data \<le> 4096" "length hdata = 4100"
    and "TPM_IO_Hash_Data (d_lib d) (w_lib (c_world (k_ctrl k))) data = (res, t)"
  shows "\<exists>msg1. ctrlcmd (sock_conn d) k PTM_HASH_DATA
      (mem_write hdata 0 (htodev32 False (of_nat (length data)) @ data)) (4 + length data) 4 =
      (4, msg1, after_res k t res) \<and> devtoh32 False msg1 = res \<and> length msg1 = 4100"
proof -
  let ?msg = "mem_write hdata 0 (htodev32 False (of_nat (length data)) @ data)"
  let ?body = "htobe32 (of_nat (length data)) @ data"
  have b: "take (4 + length data) ?msg = ?body" "length ?msg = 4100"
    using assms(3,4) by (simp_all add: mem_write_def htodev32_def)
  note h = hash_data_request [OF assms(2,3,5)]
  have d: "ctrl_dispatch d (k_ctrl k) CMD_HASH_DATA ?body None = reply (htobe32 res, libst_upd (k_ctrl k) t)"
    using h(1) by (simp add: ctrl_dispatch_def reply_option_def)
  show ?thesis
    using result_sock [OF assms(1), of "htobe32 CMD_HASH_DATA @ ?body" PTM_HASH_DATA "4 + length data" ?msg d res t]
      b d h(2) assms(3) by (simp add: ioctl_numbers)
qed

lemma simple_sock:
  assumes "idle_sock k" "c_running (k_ctrl k)" "cmd = PTM_HASH_START \<and> fn = TPM_IO_Hash_Start (d_lib d) (c_locality (k_ctrl k)) \<or>
      cmd = PTM_HASH_END \<and> fn = TPM_IO_Hash_End (d_lib d)"
    and "fn (w_lib (c_world (k_ctrl k))) = (res, t)"
  shows "ctrlcmd_res (sock_conn d) k False cmd (replicate 4 0) = (4, res, after_res k t res)"
proof -
  have d: "ctrl_dispatch d (k_ctrl k) (ioctl_to_cmd (ptm_number cmd)) [] None = reply (htobe32 res, libst_upd (k_ctrl k) t)"
    using assms(2-4) by (auto simp: ioctl_numbers ctrl_dispatch_def cmd_simple_def ptm_res_def)
  have n: "recv_needed (htobe32 (ioctl_to_cmd (ptm_number cmd))) = 4"
    using assms(3) by (auto simp: ioctl_numbers recv_needed_def Let_def)
  have "\<exists>msg1. ctrlcmd (sock_conn d) k cmd (replicate 4 0) 0 4 = (4, msg1, after_res k t res) \<and> devtoh32 False msg1 = res \<and>
      length msg1 = length (replicate 4 (0 :: byte))"
    by (rule result_sock [OF assms(1) refl]) (use d n in simp_all)
  then show ?thesis by (auto simp: ctrlcmd_res_def)
qed

lemma hash_string_sock:
  assumes "idle_sock k" "c_running (k_ctrl k)" "length hdata = 4100" "0 \<le> n"
    and "hash_seq (TPM_IO_Hash_Data (d_lib d)) (w_lib (c_world (k_ctrl k))) (hash_pieces input) = (res, t)"
  shows "\<exists>n1 k1. hash_string_loop (sock_conn d) False k hdata n 0 input = (n1, res, k1) \<and> 0 \<le> n1 \<and> idle_sock k1 \<and>
    c_running (k_ctrl k1) \<and> w_lib (c_world (k_ctrl k1)) = t"
  using assms
proof (induction input arbitrary: k hdata n rule: hash_pieces.induct)
  case (1 input)
  show ?case
  proof (cases "input = []")
    case True
    then show ?thesis using 1(2-6) by (simp add: hash_string_loop.simps hash_pieces.simps)
  next
    case False
    let ?data = "take 4096 input"
    obtain r1 t1 where h: "TPM_IO_Hash_Data (d_lib d) (w_lib (c_world (k_ctrl k))) ?data = (r1, t1)" by fastforce
    have l: "min (length input) 4096 = length ?data" "take (length ?data) input = ?data" "drop (length ?data) input = drop 4096 input"
      by (simp_all add: min_def)
    obtain msg1 where m: "ctrlcmd (sock_conn d) k PTM_HASH_DATA
        (mem_write hdata 0 (htodev32 False (of_nat (length ?data)) @ ?data)) (4 + length ?data) 4 =
        (4, msg1, after_res k t1 r1)" "devtoh32 False msg1 = r1" "length msg1 = 4100"
      using hash_data_sock [OF 1(2,3) _ 1(4) h] by auto
    have step: "hash_string_loop (sock_conn d) False k hdata n 0 input =
        (if r1 \<noteq> 0 then (4, r1, after_res k t1 r1)
         else hash_string_loop (sock_conn d) False (after_res k t1 r1) msg1 4 0 (drop 4096 input))"
      unfolding hash_string_loop.simps [of _ _ _ _ _ _ input] l Let_def using False m by simp
    have seq: "(res, t) = (if r1 \<noteq> 0 then (r1, t1) else hash_seq (TPM_IO_Hash_Data (d_lib d)) t1 (hash_pieces (drop 4096 input)))"
      using 1(6) False h by (simp add: hash_pieces.simps [of input])
    show ?thesis
    proof (cases "r1 = 0")
      case True
      have "hash_seq (TPM_IO_Hash_Data (d_lib d)) (w_lib (c_world (k_ctrl (after_res k t1 r1)))) (hash_pieces (drop 4096 input)) = (res, t)"
        using seq True by simp
      from 1(1) [OF False _ _ m(3) _ this, of 4] step True 1(2,3) show ?thesis by auto
    next
      case False
      then show ?thesis using step seq 1(2,3) by simp
    qed
  qed
qed

text \<open>
  C17. \<open>swtpm_ioctl -h\<close> over the control channel makes libtpms hash exactly the given bytes: it starts the hash in the
  current locality, gets the bytes in order in pieces of 4096 and ends the hash, stopping at the first error; the
  program ends with success exactly when all of it succeeded.
\<close>

theorem ioctl_hash:
  assumes "idle_sock k" "c_running (k_ctrl k)" "input \<noteq> [0x2d]"
    and "hash_spec (d_lib d) (c_locality (k_ctrl k)) (w_lib (c_world (k_ctrl k))) (hash_pieces input) = (res, t)"
  shows "\<exists>k1. do_hash_start_data_end (sock_conn d) k False (Some input) stdin = (if res = 0 then 0 else 1, k1) \<and>
    w_lib (c_world (k_ctrl k1)) = t \<and> concat (hash_pieces input) = input"
proof -
  let ?lib = "d_lib d"
  obtain r1 t1 where s1: "TPM_IO_Hash_Start ?lib (c_locality (k_ctrl k)) (w_lib (c_world (k_ctrl k))) = (r1, t1)" by fastforce
  note c1 = simple_sock [OF assms(1,2) disjI1, OF conjI, OF refl refl s1]
  show ?thesis
  proof (cases "r1 = 0")
    case False
    then show ?thesis using c1 s1 assms(4) by (simp add: do_hash_start_data_end_def hash_spec_def)
  next
    case True
    obtain r2 t2 where s2: "hash_seq (TPM_IO_Hash_Data ?lib) t1 (hash_pieces input) = (r2, t2)" by fastforce
    obtain n2 k2 where l2: "hash_string_loop (sock_conn d) False (after_res k t1 r1) (replicate 4100 0) 4 0 input = (n2, r2, k2)"
        "0 \<le> n2" "idle_sock k2" "c_running (k_ctrl k2)" "w_lib (c_world (k_ctrl k2)) = t2"
      using hash_string_sock [of "after_res k t1 r1" "replicate 4100 0" 4 d input r2 t2] assms(1,2) s2 by auto
    show ?thesis
    proof (cases "r2 = 0")
      case False
      then show ?thesis using True c1 s1 s2 l2 assms(3,4) by (simp add: do_hash_start_data_end_def hash_spec_def)
    next
      case r2: True
      obtain r3 t3 where s3: "TPM_IO_Hash_End ?lib (w_lib (c_world (k_ctrl k2))) = (r3, t3)" by fastforce
      note c3 = simple_sock [OF l2(3,4) disjI2, OF conjI, OF refl refl s3]
      have "(r3, t3) = (res, t)"
        using assms(4) s1 s2 s3 True r2 l2(5) by (simp add: hash_spec_def)
      then show ?thesis using True r2 c1 c3 l2 assms(3) by (simp add: do_hash_start_data_end_def)
    qed
  qed
qed


subsection \<open>Instances\<close>

text \<open>The example server with its stored state on the other side of a socket, and the files of the client.\<close>

definition example_sock :: "bool \<Rightarrow> (bytes list, dirstate) sock" where
  "example_sock running =
     \<lparr>k_ctrl = (example_ctrl TPMLIB_TPM_VERSION_2 0 running [])\<lparr>c_world := example_stored\<rparr>, k_in = [], k_out = []\<rparr>"

definition example_out :: out_file where
  "example_out = \<lparr>of_open = True, of_write = (\<lambda>content data. int (length data))\<rparr>"

definition example_in :: "bytes \<Rightarrow> in_file" where
  "example_in b = \<lparr>if_content = Some b, if_fstat = True, if_read_fails = (\<lambda>_. False)\<rparr>"

lemma example_sock_simps [simp]:
  "idle_sock (example_sock running)" "c_running (k_ctrl (example_sock running)) = running"
  "c_world (k_ctrl (example_sock running)) = example_stored" "storage_locked (c_mlp (k_ctrl (example_sock running)))"
  "c_locality (k_ctrl (example_sock running)) = 0" "file_ok example_out"
  by (simp_all add: example_sock_def idle_sock_def example_ctrl_def example_params_def file_ok_def example_out_def)

theorem ioctl_hash_witness:
  "\<exists>k1. do_hash_start_data_end (sock_conn example_deps) (example_sock True) False (Some [9, 8]) [] =
     (if (0 :: u32) = 0 then 0 else 1, k1) \<and> w_lib (c_world (k_ctrl k1)) = w_lib example_stored @ [[9, 8]] \<and>
     concat (hash_pieces [9, 8]) = [9, 8]"
  by (rule ioctl_hash) (simp_all add: hash_spec_def hash_pieces.simps example_deps_def example_lib_def)

end
