(* ===== verification/IoctlDevice.thy ===== *)
theory IoctlDevice
  imports IoctlLink
begin

section \<open>swtpm_ioctl on the CUSE device, and from one host to another\<close>

text \<open>
  The client of \<^verbatim>\<open>Ioctl\<close> on the device of \<^verbatim>\<open>Cuse\<close>: every system call is a request to the device. The first part
  shows when saving a blob through ioctls ends and with what; the second follows a state from the NVRAM of one host
  through a file to libtpms on another.
\<close>

subsection \<open>The device\<close>

definition cuse_conn :: "('t, 's) deps \<Rightarrow> cuse_env \<Rightarrow> ('t, 's) cuse ioctl_conn" where
  "cuse_conn d e =
     \<lparr>cn_fstat = (\<lambda>c. Some True),
      cn_ioctl = (\<lambda>c cmd msg.
        case ptm_ioctl d e c cmd msg (length msg) of
          Some ([Reply_ioctl r], c1) \<Rightarrow> (Some r, c1)
        | Some (rs, c1) \<Rightarrow> (None, c1)
        | None \<Rightarrow> (None, c)),
      cn_writev = (\<lambda>c b. (-1, c)), cn_poll = (\<lambda>c. (-1, c)),
      cn_read = (\<lambda>c n.
        case ptm_read d c n of
          Some ([Reply_buf b], c1) \<Rightarrow> (Some b, c1)
        | Some (rs, c1) \<Rightarrow> (None, c1)
        | None \<Rightarrow> (None, c)),
      cn_write = (\<lambda>c b. (-1, c))\<rparr>"

text \<open>The blob is in the cache, and the device answers at once.\<close>

definition serves :: "('t, 's) cuse \<Rightarrow> u32 \<Rightarrow> bytes \<Rightarrow> bool" where
  "serves c bt blob \<longleftrightarrow> tpm_running c \<and> \<not> thread_busy c \<and> cs_data (cached_stateblob c) = Some blob \<and>
     cs_blobtype (cached_stateblob c) = bt \<and> cs_decrypt (cached_stateblob c) \<and> length blob < 2 ^ 32"

lemma answer_fields:
  assumes "take (16 + length (take 3072 (drop (unat offset) blob))) r = getstate_answer blob enc offset" "length blob < 2 ^ 32"
  shows "le32toh r = 0" "le32toh (mem_read r 8 4) = of_nat (length blob)"
    "le32toh (mem_read r 12 4) = of_nat (length (take 3072 (drop (unat offset) blob)))"
    "mem_read r 16 (length (take 3072 (drop (unat offset) blob))) = take 3072 (drop (unat offset) blob)"
proof -
  let ?data = "take 3072 (drop (unat offset) blob)"
  define n where "n = 16 + length ?data"
  have p: "mem_read r i k = mem_read (getstate_answer blob enc offset) i k" if "i + k \<le> n" for i k
  proof -
    have "mem_read r i k = mem_read (take n r) i k"
      using that by (simp add: mem_read_def drop_take min_def)
    then show ?thesis using assms(1) by (simp add: n_def)
  qed
  have z: "le32toh r = le32toh (mem_read r 0 4)" by (simp add: le32toh_def)
  show "le32toh r = 0" unfolding z using p [of 0 4]
    by (simp add: n_def getstate_answer_def Let_def mem_read_def)
  show "le32toh (mem_read r 8 4) = of_nat (length blob)"
    using p [of 8 4] by (simp add: n_def getstate_answer_def Let_def mem_read_def)
  show "le32toh (mem_read r 12 4) = of_nat (length ?data)"
    using p [of 12 4] by (simp add: n_def getstate_answer_def Let_def mem_read_def)
  show "mem_read r 16 (length ?data) = ?data"
    using p [of 16 "length ?data"] by (simp add: n_def getstate_answer_def Let_def mem_read_def min_def split: if_splits)
qed

text \<open>One round of the loop.\<close>

lemma save_device_step:
  assumes "serves c bt blob" "length pgs = 3088" "file_ok f" and data: "data = take 3072 (drop (unat offset) blob)"
  shows "\<exists>resp c1. serves c1 bt blob \<and> length resp = 3088 \<and>
    (\<forall>fuel. save_loop (Suc fuel) (cuse_conn d e) malloc True bt f 0 c pgs offset remain content =
      (let remain1 = (if remain = -1 then int (length blob) else remain) - int (length data) in
       if length blob \<le> unat offset + length data then Some (False, remain1, content @ data, c1)
       else save_loop fuel (cuse_conn d e) malloc True bt f 0 c1 resp (offset + of_nat (length data)) remain1 (content @ data)))"
proof -
  define pgs1 where "pgs1 = mem_write pgs 0 (htodev32 True PTM_STATE_FLAG_DECRYPTED @ htodev32 True bt @ htodev32 True (ucast offset))"
  have pg: "length pgs1 = 3088" "mem_read pgs1 0 4 = htole32 PTM_STATE_FLAG_DECRYPTED" "mem_read pgs1 4 4 = htole32 bt"
    "mem_read pgs1 8 4 = htole32 (ucast offset)"
    using assms(2) by (simp_all add: pgs1_def mem_write_def mem_read_def htodev32_def)
  have uo: "unat (ucast offset :: u32) = unat offset" 
    using unsigned_less [of offset, where 'a = nat] by (simp add: unsigned_ucast_eq take_bit_nat_eq_self)
  have s: "tpm_running c" "\<not> thread_busy c" "cs_data (cached_stateblob c) = Some blob" "cs_blobtype (cached_stateblob c) = bt"
    "cs_decrypt (cached_stateblob c) = (PTM_STATE_FLAG_DECRYPTED AND PTM_STATE_FLAG_DECRYPTED \<noteq> 0)" "length blob < 2 ^ 32"
    using assms(1) by (simp_all add: serves_def)
  obtain r c1 where r: "ptm_get_stateblob d c pgs1 = Some ([Reply_ioctl r], c1)" "length r = 3088"
      "c1 = c\<lparr>tx_state := tx_state c1\<rparr>"
      "take (16 + length (take PTM_STATE_BLOB_SIZE (drop (unat (ucast offset :: u32)) blob))) r =
        getstate_answer blob (cs_is_encrypted (cached_stateblob c)) (ucast offset)"
    using get_cached [OF s(3-6) pg] by blast
  have "tpm_running c1 = tpm_running c" "thread_busy c1 = thread_busy c" "cached_stateblob c1 = cached_stateblob c"
    by (subst r(3), simp)+
  then have sv: "serves c1 bt blob" using assms(1) by (simp add: serves_def)
  have cc: "ctrlcmd (cuse_conn d e) c PTM_GET_STATEBLOB pgs1 12 3088 = (0, r, c1)"
    using r(1) s(1,2) pg(1)
    by (simp add: ctrlcmd_def cuse_conn_def ptm_ioctl_def worker_thread_wait_done_def ioctl_get_stateblob_def no_exit_def)
  note af = answer_fields [OF r(4) s(6), unfolded uo, folded data]
  have ld: "length data \<le> 3072" by (simp add: data)
  have un: "unat (of_nat (length data) :: u32) = length data" "unat (of_nat (length blob) :: u32) = length blob"
    "ucast (of_nat (length data) :: u32) = (of_nat (length data) :: u16)"
    using ld s(6) by (simp_all add: unat_of_nat take_bit_nat_eq_self unsigned_of_nat)
  have mn: "min (length data) 3072 = length data" using ld by simp
  show ?thesis
  proof (intro exI [of _ r] exI [of _ c1] conjI allI)
    fix fuel
    show "save_loop (Suc fuel) (cuse_conn d e) malloc True bt f 0 c pgs offset remain content =
      (let remain1 = (if remain = -1 then int (length blob) else remain) - int (length data) in
       if length blob \<le> unat offset + length data then Some (False, remain1, content @ data, c1)
       else save_loop fuel (cuse_conn d e) malloc True bt f 0 c1 r (offset + of_nat (length data)) remain1 (content @ data))"
      unfolding save_loop.simps Let_def pgs1_def [symmetric] cc prod.case devtoh32_def if_True af un mn
      by (simp add: outfile_write_ok [OF assms(3)] af)
  qed (use sv r(2) in auto)
qed

lemma save_device_ends:
  assumes "serves c bt blob" "length pgs = 3088" "file_ok f" "unat offset = 3072 * i" "unat offset \<le> length blob"
    and "length blob \<le> 67584" "22 - i < fuel"
    and "(if remain = -1 then int (length blob) else remain) = int (length blob) - int (unat offset)"
  shows "\<exists>c1. save_loop fuel (cuse_conn d e) malloc True bt f 0 c pgs offset remain (take (unat offset) blob) =
    Some (False, 0, blob, c1) \<and> serves c1 bt blob"
  using assms
proof (induction fuel arbitrary: c pgs offset remain i)
  case (Suc fuel)
  let ?data = "take 3072 (drop (unat offset) blob)"
  obtain resp c1 where s: "serves c1 bt blob" "length resp = 3088"
      "\<And>fuel. save_loop (Suc fuel) (cuse_conn d e) malloc True bt f 0 c pgs offset remain (take (unat offset) blob) =
      (let remain1 = int (length blob) - int (unat offset) - int (length ?data) in
       if length blob \<le> unat offset + length ?data then Some (False, remain1, take (unat offset) blob @ ?data, c1)
       else save_loop fuel (cuse_conn d e) malloc True bt f 0 c1 resp (offset + of_nat (length ?data)) remain1
              (take (unat offset) blob @ ?data))"
    using save_device_step [OF Suc.prems(1-3) refl, where offset = offset and d = d and e = e and malloc = malloc and remain = remain
        and content = "take (unat offset) blob"]
    unfolding Suc.prems(8) by blast
  have cat: "take (unat offset) blob @ ?data = take (unat offset + 3072) blob" by (simp add: take_add)
  show ?case
  proof (cases "length blob \<le> unat offset + 3072")
    case True
    then have z: "length blob \<le> unat offset + length ?data" "int (length blob) - int (unat offset) - int (length ?data) = 0"
      using Suc.prems(5) by auto
    show ?thesis using s(1) z(1) cat True unfolding s(3) Let_def z(2) by (simp del: length_take length_drop)
  next
    case False
    have ld: "length ?data = 3072" using False by simp
    have "i < 21" using False Suc.prems(4,6) by simp
    then have un: "unat (offset + 3072) = 3072 * Suc i"
      using Suc.prems(4) by (simp add: unat_word_ariths)
    have "\<exists>c2. save_loop fuel (cuse_conn d e) malloc True bt f 0 c1 resp (offset + 3072) (int (length blob) - int (unat offset) - 3072)
        (take (unat (offset + 3072)) blob) = Some (False, 0, blob, c2) \<and> serves c2 bt blob"
      using s(1,2) Suc.prems(3,4,6,7) un False by (intro Suc.IH [of _ _ _ "Suc i"]) auto
    moreover have "unat offset + 3072 = unat (offset + 3072)" using un Suc.prems(4) by simp
    ultimately show ?thesis using cat False unfolding s(3) Let_def ld by simp
  qed
qed simp

text \<open>An offset of 16 bits in steps of 3072 stays a multiple of 1024, so the end of a longer blob is never reached.\<close>

lemma save_device_hangs:
  assumes "serves c bt blob" "length pgs = 3088" "file_ok f" "1024 dvd unat offset" "67584 < length blob"
  shows "save_loop fuel (cuse_conn d e) malloc True bt f 0 c pgs offset remain content = None"
  using assms
proof (induction fuel arbitrary: c pgs offset remain content)
  case (Suc fuel)
  let ?data = "take 3072 (drop (unat offset) blob)"
  obtain resp c1 where s: "serves c1 bt blob" "length resp = 3088"
      "\<And>fuel. save_loop (Suc fuel) (cuse_conn d e) malloc True bt f 0 c pgs offset remain content =
      (let remain1 = (if remain = -1 then int (length blob) else remain) - int (length ?data) in
       if length blob \<le> unat offset + length ?data then Some (False, remain1, content @ ?data, c1)
       else save_loop fuel (cuse_conn d e) malloc True bt f 0 c1 resp (offset + of_nat (length ?data)) remain1 (content @ ?data))"
    using save_device_step [OF Suc.prems(1-3) refl, where offset = offset and d = d and e = e and malloc = malloc and remain = remain
        and content = content] by blast
  obtain q where q: "unat offset = 1024 * q" using Suc.prems(4) by blast
  then have "q < 64" using unsigned_less [of offset, where 'a = nat] by simp
  then have ld: "length ?data = 3072" "\<not> length blob \<le> unat offset + 3072" using Suc.prems(5) q by simp_all
  have "unat (offset + 3072) = (unat offset + 3072) mod 2 ^ 16" by (simp add: unat_word_ariths)
  also have "1024 dvd (unat offset + 3072) mod 2 ^ 16"
    by (rule dvd_mod) (use Suc.prems(4) in \<open>simp_all add: dvd_add\<close>)
  finally have "1024 dvd unat (offset + 3072)" .
  from Suc.IH [OF s(1,2) Suc.prems(3) this Suc.prems(5)] ld show ?case unfolding s(3) Let_def by simp
qed simp

text \<open>
  C18. \<open>swtpm_ioctl --save\<close> on the CUSE device with ioctls, which is what it does when \<open>SWTPM_IOCTL_BUFFERSIZE\<close> is not set: the file is exactly
  the blob, after at most 22 rounds, if the blob has at most 67584 bytes, and for every longer blob the program never ends,
  because the offset is kept in 16 bits and wraps before it reaches the end.
\<close>

theorem ioctl_save_device:
  assumes "tpm_running c" "\<not> thread_busy c" "cs_data (cached_stateblob c) = None" "file_ok f"
    and "get_blobtype (Some name) = bt" "bt \<noteq> 0" "fetch_state d (cu_world c) bt True = Some (0, blob, enc, nv)"
    and "blob \<noteq> []" "length blob < 2 ^ 32"
  shows "if length blob \<le> 67584
    then \<forall>fuel \<ge> 23. \<exists>c1. do_save_state_blob fuel (cuse_conn d e) malloc c True (Some name) f 0 = Some (0, blob, c1)
    else \<forall>fuel. do_save_state_blob fuel (cuse_conn d e) malloc c True (Some name) f 0 = None"
proof -
  obtain c0 where c0: "cached_stateblob_load d c bt True = Some (0, c0)" "serves c0 bt blob"
    using load_fetches [OF assms(7,8)] assms(1,2,9) by (auto simp: serves_def)
  define pgs1 where "pgs1 = mem_write (replicate 3088 0) 0
    (htodev32 True PTM_STATE_FLAG_DECRYPTED @ htodev32 True bt @ htodev32 True (ucast (0 :: u16)))"
  have pg: "length pgs1 = 3088" "mem_read pgs1 0 4 = htole32 PTM_STATE_FLAG_DECRYPTED" "mem_read pgs1 4 4 = htole32 bt"
    "mem_read pgs1 8 4 = htole32 0"
    by (simp_all add: pgs1_def mem_write_def mem_read_def htodev32_def)
  have sv: "cs_data (cached_stateblob c0) = Some blob" "cs_blobtype (cached_stateblob c0) = bt"
    "cs_decrypt (cached_stateblob c0) = (PTM_STATE_FLAG_DECRYPTED AND PTM_STATE_FLAG_DECRYPTED \<noteq> 0)"
    using c0(2) by (simp_all add: serves_def)
  obtain r c1 where "ptm_get_stateblob d c0 pgs1 = Some ([Reply_ioctl r], c1)"
    using get_cached [OF sv assms(9) pg] by blast
  moreover have "ptm_get_stateblob d c pgs1 = ptm_get_stateblob d c0 pgs1"
    unfolding ptm_get_stateblob_def pg endian_roundtrip0 ptm_get_stateblob_part_def
    using assms(3) c0 by (simp add: cached_stateblob_is_loaded_def serves_def)
  ultimately have "ctrlcmd (cuse_conn d e) c PTM_GET_STATEBLOB pgs1 12 3088 = ctrlcmd (cuse_conn d e) c0 PTM_GET_STATEBLOB pgs1 12 3088"
    using assms(1,2) c0(2) pg(1)
    by (simp add: ctrlcmd_def cuse_conn_def ptm_ioctl_def worker_thread_wait_done_def ioctl_get_stateblob_def no_exit_def serves_def)
  then have same: "save_loop fuel (cuse_conn d e) malloc True bt f 0 c (replicate 3088 0) 0 (-1) [] =
      save_loop fuel (cuse_conn d e) malloc True bt f 0 c0 (replicate 3088 0) 0 (-1) []" for fuel
    by (cases fuel) (simp_all only: save_loop.simps pgs1_def [symmetric] Let_def)
  show ?thesis
  proof (cases "length blob \<le> 67584")
    case True
    have e: "\<exists>c1. save_loop fuel (cuse_conn d e) malloc True bt f 0 c (replicate 3088 0) 0 (-1) [] = Some (False, 0, blob, c1)"
      if "23 \<le> fuel" for fuel
      using save_device_ends [OF c0(2) _ assms(4), where pgs = "replicate 3088 0" and offset = 0 and i = 0 and fuel = fuel
          and remain = "-1"] True that
      unfolding same by fastforce
    then show ?thesis
      using True assms(4-6) by (fastforce simp: do_save_state_blob_def file_ok_def)
  next
    case False
    then show ?thesis
      using save_device_hangs [OF c0(2) _ assms(4), of "replicate 3088 0" 0] assms(4-6)
      by (simp add: do_save_state_blob_def same file_ok_def)
  qed
qed


theorem ioctl_save_device_witness:
  "\<exists>c1. do_save_state_blob 23 (cuse_conn example_deps example_cuse_env) (\<lambda>_. True)
     ((example_cuse True)\<lparr>cu_world := example_stored\<rparr>) True (Some ''permanent'') example_out 0 = Some (0, example_blob, c1)"
proof -
  let ?c = "(example_cuse True)\<lparr>cu_world := example_stored\<rparr>"
  obtain nv where f: "fetch_state example_deps example_stored 1 True = Some (0, example_blob, False, nv)"
    using example_fetch by auto
  have "if length example_blob \<le> 67584
    then \<forall>fuel \<ge> 23. \<exists>c1. do_save_state_blob fuel (cuse_conn example_deps example_cuse_env) (\<lambda>_. True) ?c True
      (Some ''permanent'') example_out 0 = Some (0, example_blob, c1)
    else \<forall>fuel. do_save_state_blob fuel (cuse_conn example_deps example_cuse_env) (\<lambda>_. True) ?c True
      (Some ''permanent'') example_out 0 = None"
    by (rule ioctl_save_device [where bt = 1 and nv = nv and enc = False])
      (use f in \<open>simp_all add: get_blobtype_def example_cuse_def example_blob_def\<close>)
  then show ?thesis by (simp add: example_blob_def)
qed

subsection \<open>From one host to another\<close>

lemma StoreData_keeps_ops:
  "SWTPM_NVRAM_StoreData cr ops nv x n name = (rc, nv') \<Longrightarrow> g_nvram_backend_ops nv' = g_nvram_backend_ops nv"
  by (auto simp: SWTPM_NVRAM_StoreData_def SWTPM_NVRAM_StoreData_Intern_def Let_def split: prod.splits sum.splits)

lemma statefile_name:
  assumes "bt = PTM_BLOB_TYPE_PERMANENT \<or> bt = PTM_BLOB_TYPE_SAVESTATE" "tpmlib_get_blobname bt = Some name"
  shows "state_name name" "bt \<noteq> PTM_BLOB_TYPE_VOLATILE" "bt \<noteq> 0"
  using assms by (auto simp: tpmlib_get_blobname_def state_name_def)

text \<open>
  C4. Migration by swtpm_ioctl over the control channel: what libtpms last stored on the first host reaches libtpms on the
  second, with the same keys, when one runs \<open>swtpm_ioctl --save\<close> there and \<open>swtpm_ioctl --load\<close> of the file here. The first
  host keeps its state in a directory and its TPM runs; on the second no TPM runs yet and its storage is locked already or
  can be locked when the state arrives, as on a server that has just been started. The first program
  succeeds whatever the keys and the size; the second gives libtpms exactly the stored data and ends with success exactly
  when libtpms takes them. The stored data and the headers around it fit into 512 KiB, the client can write its file, and memory
  can be allocated.
\<close>

theorem ioctl_migration:
  fixes d :: "('t, dirstate) deps" and d2 :: "('u, 's) deps"
  assumes "crypto_ok (d_crypto d)" "d_crypto d2 = d_crypto d" "globals_wf (nv_globals nvs)"
    and "dir_inv (nv_tpmstate nvs) (nv_backend nvs)" "dir_calm (nv_backend nvs)" "g_nvram_backend_ops nvs = Some nvram_dir_ops"
    and "get_blobtype (Some tname) = bt" "bt = PTM_BLOB_TYPE_PERMANENT \<or> bt = PTM_BLOB_TYPE_SAVESTATE"
    and "tpmlib_get_blobname bt = Some name" "tpmlib_blobtype_to_statetype bt = Some st"
    and "SWTPM_NVRAM_StoreData (d_crypto d) nvram_dir_ops nvs x 0 name = (0, w_nv (c_world (k_ctrl a)))"
    and "idle_sock a" "c_running (k_ctrl a)" "length x + 410 \<le> 512 * 1024" "length x + 412 \<le> fuel"
    and "idle_sock b" "\<not> c_running (k_ctrl b)" "lockable d2 (k_ctrl b)"
    and "filekey (nv_globals (w_nv (c_world (k_ctrl b)))) = filekey (nv_globals nvs)"
    and "migrationkey (nv_globals (w_nv (c_world (k_ctrl b)))) = migrationkey (nv_globals nvs)"
    and "file_ok f" "\<forall>n. malloc n"
    and "TPMLIB_SetState (nv_lib d2) (w_lib (c_world (k_ctrl b))) st (Some x) = (res, t)"
  shows "\<exists>blob a1 b1. do_save_state_blob fuel (sock_conn d) malloc a False (Some tname) f bs = Some (0, blob, a1) \<and>
    do_load_state_blob (sock_conn d2) malloc b False (Some tname)
      (Some \<lparr>if_content = Some blob, if_fstat = True, if_read_fails = (\<lambda>_. False)\<rparr>) bs = (if res = 0 then 0 else 1, b1) \<and>
    w_lib (c_world (k_ctrl b1)) = t"
proof -
  let ?nv = "w_nv (c_world (k_ctrl a))"
  note nm = statefile_name [OF assms(8,9)]
  have i: "dir.nv_inv nvs" using assms(3,4) by (simp add: dir.nv_inv_def)
  have len: "length x + 2000 < 2 ^ 31" "length x + 5000 < 2 ^ 31" using assms(14) by simp_all
  note v = dir.StoreData_view [OF assms(1) i nm(1) len(1) _ assms(11)]
  have ops: "g_nvram_backend_ops ?nv = Some nvram_dir_ops"
    using StoreData_keeps_ops [OF assms(11)] assms(6) by simp
  obtain blob enc nv2 where g: "SWTPM_NVRAM_GetStateBlob (d_crypto d) nvram_dir_ops ?nv 0 name True = (Some (Inr blob), enc, nv2)"
      "enc = (\<not> True \<and> SWTPM_NVRAM_Has_FileKey (nv_globals ?nv))" "10 < length blob" "length blob \<le> length x + 410"
      "g_nvram_backend_ops nv2 = g_nvram_backend_ops ?nv"
    and set: "\<And>g (lib :: 'u tpmlib) t. filekey g = filekey (nv_globals ?nv) \<Longrightarrow> migrationkey g = migrationkey (nv_globals ?nv) \<Longrightarrow>
         SWTPM_NVRAM_SetStateBlob (d_crypto d) lib t g blob enc bt = TPMLIB_SetState lib t st (Some x)"
    by (rule dir.GetStateBlob_migrates [OF assms(1) _ _ nm(1) _ len(2) assms(10), of ?nv 0 True])
      (use v assms(5) in auto)
  have f: "fetch_state d (c_world (k_ctrl a)) bt True = Some (0, blob, enc, nv2)"
    using g(1) nm(2) ops assms(9) by (simp add: fetch_state_def)
  have lb: "length blob < 2 ^ 32" "length blob + 2 \<le> fuel" "blob \<noteq> []" "length blob \<le> 512 * 1024"
    using g(3,4) assms(14,15) by auto
  have o: "g_nvram_backend_ops nv2 \<noteq> None" using g(5) ops by simp
  obtain a1 where s: "do_save_state_blob fuel (sock_conn d) malloc a False (Some tname) f bs = Some (0, blob, a1)"
    using ioctl_save_blob [OF assms(12,13,7) nm(3) assms(21) _ f o lb(1,2), of malloc bs] assms(22) by auto
  have m: "malloc_ok (d_crypto d2) (length blob)" using assms(1,2) by (simp add: crypto_ok_def)
  have "SWTPM_NVRAM_SetStateBlob (d_crypto d2) (nv_lib d2) (w_lib (c_world (k_ctrl b)))
      (nv_globals (w_nv (c_world (k_ctrl b)))) blob False bt = (res, t)"
    using set [of "nv_globals (w_nv (c_world (k_ctrl b)))" "nv_lib d2"] g(2) assms(2,19,20,23) v(6,7) by simp
  then obtain b1 where "do_load_state_blob (sock_conn d2) malloc b False (Some tname)
      (Some \<lparr>if_content = Some blob, if_fstat = True, if_read_fails = (\<lambda>_. False)\<rparr>) bs = (if res = 0 then 0 else 1, b1)"
      "w_lib (c_world (k_ctrl b1)) = t"
    using ioctl_load_blob [OF assms(16-18,7) nm(3) _ _ _ lb(3,4) _ m, where malloc = malloc and bs = bs
        and f = "\<lparr>if_content = Some blob, if_fstat = True, if_read_fails = (\<lambda>_. False)\<rparr>"] assms(22) by auto
  with s show ?thesis by blast
qed

lemma example_store: "fst (SWTPM_NVRAM_StoreData (d_crypto example_deps) nvram_dir_ops (w_nv (example_world Map.empty)) [5, 6, 7] 0
    TPM_PERMANENT_ALL_NAME) = 0"
  by code_simp

text \<open>A server as it is started: no backend chosen, the storage not locked, nothing stored.\<close>

definition fresh_sock :: "(bytes list, dirstate) sock" where
  "fresh_sock = \<lparr>k_ctrl = (let c = example_ctrl TPMLIB_TPM_VERSION_2 0 False [] in
       c\<lparr>c_world := (c_world c)\<lparr>w_nv := (w_nv (c_world c))\<lparr>g_nvram_backend_ops := None\<rparr>\<rparr>,
         c_mlp := (c_mlp c)\<lparr>storage_locked := False\<rparr>\<rparr>), k_in = [], k_out = []\<rparr>"

lemma fresh_sock_lockable: "lockable example_deps (k_ctrl fresh_sock)"
  by code_simp

theorem ioctl_migration_witness:
  "\<exists>blob a1 b1. do_save_state_blob 500 (sock_conn example_deps) (\<lambda>_. True) (example_sock True) False (Some ''permanent'')
       example_out 0 = Some (0, blob, a1) \<and>
     do_load_state_blob (sock_conn example_deps) (\<lambda>_. True) fresh_sock False (Some ''permanent'')
       (Some \<lparr>if_content = Some blob, if_fstat = True, if_read_fails = (\<lambda>_. False)\<rparr>) 0 = (if (0 :: u32) = 0 then 0 else 1, b1) \<and>
     w_lib (c_world (k_ctrl b1)) = [[5, 6, 7]]"
proof -
  let ?NV = "w_nv (example_world Map.empty)"
  have st: "SWTPM_NVRAM_StoreData (d_crypto example_deps) nvram_dir_ops ?NV [5, 6, 7] 0 TPM_PERMANENT_ALL_NAME =
      (0, w_nv (c_world (k_ctrl (example_sock True))))"
    using example_store by (simp add: example_stored_def example_deps_def prod_eq_iff)
  have wf: "globals_wf (nv_globals ?NV)" "crypto_ok (d_crypto example_deps)"
    "dir_inv (nv_tpmstate ?NV) (nv_backend ?NV)" "dir_calm (nv_backend ?NV)" "g_nvram_backend_ops ?NV = Some nvram_dir_ops"
    by (simp_all add: example_world_def example_globals_wf example_deps_def example_crypto_ok dir_inv_example dir_calm_def example_dir_def)
  have b: "idle_sock fresh_sock" "\<not> c_running (k_ctrl fresh_sock)" "w_lib (c_world (k_ctrl fresh_sock)) = []"
    "nv_globals (w_nv (c_world (k_ctrl fresh_sock))) = nv_globals ?NV"
    by (simp_all add: fresh_sock_def idle_sock_def example_ctrl_def example_world_def)
  show ?thesis
    by (rule ioctl_migration [where nvs = ?NV and bt = 1 and name = TPM_PERMANENT_ALL_NAME and st = TPMLIB_STATE_PERMANENT
          and x = "[5, 6, 7]"])
      (use st wf b fresh_sock_lockable in \<open>simp_all add: get_blobtype_def tpmlib_get_blobname_def tpmlib_blobtype_to_statetype_def
         example_stored_def example_world_def nv_lib_def example_deps_def example_lib_def tpmlib.defs\<close>)
qed

subsection \<open>Smaller facts\<close>

text \<open>A server that goes away while a blob is saved leaves the client in its loop: reading 0 bytes is not an end for it.\<close>

lemma save_spins_at_eof:
  assumes "\<And>y. cn_read cn y bs = (Some [], y)" "\<And>content. of_write f content [] = 0" "0 < remain"
  shows "save_read_loop fuel cn x f bs remain content = None"
  using assms by (induction fuel arbitrary: content) (simp_all add: outfile_write_def)

text \<open>The number of retries given to \<open>--lock-storage\<close> has no effect.\<close>

lemma lock_storage_retries_ignored:
  "client_main fuel cn malloc x is_chardev bs stdin (Lock_Storage m) = client_main fuel cn malloc x is_chardev bs stdin (Lock_Storage n)"
  by simp

end
