(* ===== verification/Algos.thy ===== *)
theory Algos
  imports Common
begin

section \<open>Algorithms disabled by OpenSSL (src/src/swtpm/check_algos.c, profile.c)\<close>

text \<open>
  A profile says which algorithms a TPM 2 offers. swtpm tests which of them OpenSSL has disabled, to decide whether FIPS mode
  has to be turned off or SHA1 signatures turned on (\<open>check_ossl_algorithms_are_disabled\<close>), or removes them from the
  profile (\<open>profile_remove_fips_disabled_algorithms\<close>). The string arrays of utils.c, the tables and the JSON
  functions of utils.c are modelled with them; OpenSSL 3 and the JSON library are records of functions.
\<close>

subsection \<open>String arrays (src/src/swtpm/utils.c)\<close>

text \<open>\<open>strncmp(a, b, n) == 0\<close> for strings without NUL.\<close>

definition strncmp_eq :: "string \<Rightarrow> string \<Rightarrow> nat \<Rightarrow> bool" where
  "strncmp_eq a b n = (take n a = take n b)"

fun strv_strncmp :: "string list \<Rightarrow> string \<Rightarrow> nat \<Rightarrow> nat option" where
  "strv_strncmp [] s n = None"
| "strv_strncmp (x # xs) s n = (if strncmp_eq x s n then Some 0 else map_option Suc (strv_strncmp xs s n))"

text \<open>The entry at \<open>i\<close> is overwritten by moving all later ones one down.\<close>

definition strv_cut :: "string list \<Rightarrow> nat \<Rightarrow> string list" where
  "strv_cut array i = take i array @ drop (Suc i) array"

definition strv_match :: "string \<Rightarrow> int \<Rightarrow> string \<Rightarrow> bool" where
  "strv_match cmp len s = (len < 0 \<and> s = cmp \<or> len > 0 \<and> strncmp_eq s cmp (nat len))"

function strv_remove_loop :: "(string \<Rightarrow> bool) \<Rightarrow> string list \<Rightarrow> nat \<Rightarrow> nat \<Rightarrow> string list \<times> nat" where
  "strv_remove_loop p array i num =
     (if i < length array then
        if p (array ! i) then strv_remove_loop p (strv_cut array i) i (num + 1)
        else strv_remove_loop p array (i + 1) num
      else (array, num))"
  by auto
termination by (relation "measure (\<lambda>(_, array, i, _). length array - i)") (auto simp: strv_cut_def)

definition strv_remove :: "string list \<Rightarrow> string \<Rightarrow> int \<Rightarrow> string list \<times> nat" where
  "strv_remove array toremove len = strv_remove_loop (strv_match toremove len) array 0 0"

text \<open>\<open>gencmpstr\<close> gives the string to compare and its length, -1 for the whole string.\<close>

function strv_dedup_loop :: "(string \<Rightarrow> string \<times> int) \<Rightarrow> string list \<Rightarrow> nat \<Rightarrow> nat \<Rightarrow> string list \<times> nat" where
  "strv_dedup_loop gencmpstr array i num =
     (if i < length array then
        (case gencmpstr (array ! i) of (cmp, len) \<Rightarrow>
           if list_ex (strv_match cmp len) (drop (Suc i) array)
           then strv_dedup_loop gencmpstr (strv_cut array i) i (num + 1)
           else strv_dedup_loop gencmpstr array (i + 1) num)
      else (array, num))"
  by auto
termination by (relation "measure (\<lambda>(_, array, i, _). length array - i)") (auto simp: strv_cut_def)

declare strv_remove_loop.simps [simp del] strv_dedup_loop.simps [simp del]

definition strv_dedup :: "string list \<Rightarrow> (string \<Rightarrow> string \<times> int) option \<Rightarrow> string list \<times> nat" where
  "strv_dedup array gencmpstr =
     strv_dedup_loop (case gencmpstr of Some g \<Rightarrow> g | None \<Rightarrow> (\<lambda>s. (s, int (length s)))) array 0 0"

definition strv_extend :: "string list option \<Rightarrow> string list \<Rightarrow> string list" where
  "strv_extend array ext = (case array of None \<Rightarrow> ext | Some xs \<Rightarrow> xs @ ext)"

subsection \<open>Testing OpenSSL\<close>

text \<open>Keys and digests are handles.\<close>

record ossl =
  EVP_CIPHER_fetch :: "string \<Rightarrow> bool"
  d2i_PrivateKey :: "bytes \<Rightarrow> nat option"
  EVP_PKEY_CTX_new :: "nat option \<Rightarrow> bool"
  EVP_get_digestbyname :: "string \<Rightarrow> nat option"
  EVP_MD_size :: "nat \<Rightarrow> nat"
  EVP_PKEY_encrypt_init :: "nat \<Rightarrow> int"
  EVP_PKEY_sign_init :: "nat \<Rightarrow> int"
  EVP_PKEY_verify_init :: "nat \<Rightarrow> int"
  EVP_PKEY_CTX_set_rsa_padding :: "nat \<Rightarrow> nat \<Rightarrow> int"
  EVP_PKEY_CTX_set_signature_md :: "nat \<Rightarrow> nat \<Rightarrow> int"
  EVP_PKEY_encrypt :: "nat \<Rightarrow> nat \<Rightarrow> bytes \<Rightarrow> int"
  EVP_PKEY_sign :: "nat \<Rightarrow> nat \<Rightarrow> nat \<Rightarrow> bytes \<Rightarrow> int"
  HMAC_NULL :: "nat option \<Rightarrow> bool"
  asprintf_ok :: "string \<Rightarrow> bool"

definition rsa2048_der :: bytes where
  "rsa2048_der = [
     48, 130, 4, 189, 2, 1, 0, 48, 13, 6, 9, 42, 134, 72, 134, 247, 13, 1, 1, 1,
     5, 0, 4, 130, 4, 167, 48, 130, 4, 163, 2, 1, 0, 2, 130, 1, 1, 0, 168, 225,
     67, 142, 216, 117, 113, 48, 148, 180, 240, 66, 18, 67, 90, 198, 179, 23, 255, 48, 41, 52,
     241, 57, 36, 43, 174, 96, 248, 31, 179, 41, 193, 247, 122, 7, 188, 10, 151, 35, 52, 5,
     32, 184, 212, 186, 24, 246, 167, 231, 108, 90, 117, 174, 232, 215, 185, 197, 91, 100, 215, 207,
     215, 41, 99, 94, 0, 101, 29, 228, 115, 122, 24, 37, 5, 65, 9, 50, 254, 200, 198, 44,
     27, 88, 67, 128, 187, 235, 253, 247, 38, 33, 163, 45, 238, 221, 115, 214, 58, 173, 216, 113,
     112, 88, 192, 25, 130, 236, 216, 78, 224, 251, 20, 165, 10, 185, 35, 7, 29, 144, 174, 205,
     103, 84, 11, 44, 64, 172, 249, 30, 40, 21, 33, 44, 195, 82, 68, 173, 172, 63, 228, 197,
     140, 220, 214, 254, 64, 179, 12, 64, 150, 178, 18, 191, 81, 234, 210, 11, 96, 90, 23, 15,
     34, 126, 180, 131, 25, 30, 213, 243, 241, 187, 220, 59, 97, 162, 217, 110, 82, 155, 228, 36,
     218, 226, 85, 250, 9, 232, 155, 242, 62, 20, 137, 231, 46, 202, 145, 184, 81, 226, 165, 115,
     38, 145, 21, 99, 224, 90, 139, 224, 218, 81, 109, 231, 31, 189, 96, 22, 26, 165, 134, 35,
     215, 122, 205, 209, 9, 196, 63, 43, 241, 107, 68, 21, 168, 107, 200, 228, 132, 232, 3, 128,
     245, 118, 46, 71, 158, 165, 235, 225, 33, 52, 125, 65, 107, 25, 2, 3, 1, 0, 1, 2,
     130, 1, 0, 5, 105, 124, 173, 3, 254, 85, 131, 137, 76, 120, 35, 161, 234, 179, 42, 201,
     124, 4, 35, 82, 186, 189, 221, 71, 45, 184, 47, 166, 219, 251, 53, 164, 31, 238, 114, 247,
     129, 126, 96, 244, 46, 146, 227, 33, 124, 26, 71, 51, 79, 205, 14, 228, 21, 24, 36, 171,
     177, 41, 177, 228, 97, 166, 131, 78, 202, 41, 40, 148, 105, 233, 18, 121, 90, 28, 94, 62,
     113, 122, 45, 76, 126, 134, 220, 208, 2, 252, 226, 189, 247, 144, 235, 4, 139, 249, 10, 243,
     70, 163, 8, 69, 182, 178, 243, 65, 42, 192, 33, 159, 119, 253, 169, 70, 58, 216, 202, 96,
     151, 62, 137, 15, 181, 8, 241, 238, 78, 187, 126, 210, 68, 59, 23, 66, 54, 177, 226, 80,
     225, 153, 18, 236, 165, 110, 81, 212, 10, 176, 39, 205, 23, 118, 178, 78, 17, 50, 88, 142,
     233, 87, 231, 11, 160, 13, 216, 246, 223, 3, 236, 250, 243, 132, 165, 120, 139, 127, 100, 248,
     233, 224, 69, 157, 228, 105, 213, 108, 54, 166, 145, 66, 36, 151, 115, 199, 37, 40, 18, 168,
     52, 60, 50, 193, 19, 226, 185, 241, 85, 100, 240, 227, 243, 247, 96, 76, 183, 7, 239, 191,
     105, 124, 68, 28, 222, 242, 145, 167, 77, 93, 131, 120, 196, 87, 219, 241, 119, 12, 203, 181,
     216, 132, 252, 16, 70, 204, 45, 68, 185, 222, 1, 1, 10, 5, 47, 17, 45, 215, 5, 2,
     129, 129, 0, 208, 245, 83, 22, 0, 165, 55, 208, 43, 1, 131, 91, 204, 228, 203, 157, 26,
     238, 180, 241, 217, 139, 139, 62, 186, 187, 141, 172, 152, 161, 115, 93, 52, 127, 113, 41, 181,
     63, 214, 59, 230, 34, 114, 34, 114, 244, 84, 150, 254, 228, 33, 220, 99, 19, 231, 219, 184,
     25, 172, 228, 254, 202, 237, 242, 78, 194, 145, 135, 129, 163, 54, 203, 197, 99, 165, 188, 116,
     249, 55, 185, 3, 70, 186, 39, 221, 189, 77, 35, 251, 195, 43, 165, 32, 149, 57, 37, 2,
     230, 36, 123, 170, 160, 36, 30, 177, 27, 226, 30, 183, 55, 142, 181, 109, 212, 38, 240, 50,
     129, 55, 213, 33, 71, 58, 141, 247, 222, 175, 117, 2, 129, 129, 0, 206, 230, 37, 28, 56,
     194, 197, 142, 159, 101, 135, 160, 161, 114, 223, 254, 161, 179, 48, 164, 157, 123, 52, 1, 220,
     192, 196, 155, 174, 198, 141, 245, 28, 114, 113, 62, 248, 34, 119, 146, 246, 24, 140, 109, 246,
     234, 248, 99, 186, 190, 179, 215, 134, 233, 203, 133, 221, 71, 231, 196, 75, 246, 100, 152, 193,
     230, 147, 120, 247, 43, 69, 114, 144, 99, 99, 59, 111, 10, 92, 199, 209, 239, 190, 111, 85,
     142, 7, 72, 98, 64, 254, 120, 58, 133, 194, 32, 201, 61, 65, 69, 2, 225, 28, 24, 195,
     0, 83, 44, 168, 210, 110, 227, 168, 204, 89, 252, 253, 158, 7, 37, 190, 96, 243, 120, 1,
     146, 156, 149, 2, 129, 129, 0, 140, 232, 130, 40, 218, 50, 143, 218, 158, 197, 156, 113, 49,
     80, 48, 70, 55, 61, 53, 99, 201, 209, 162, 10, 161, 29, 140, 194, 17, 2, 254, 170, 161,
     150, 55, 23, 107, 20, 43, 65, 165, 69, 33, 54, 61, 210, 169, 160, 81, 46, 65, 239, 62,
     24, 212, 71, 132, 116, 59, 245, 8, 36, 140, 36, 212, 27, 188, 203, 102, 14, 76, 11, 73,
     134, 146, 226, 236, 246, 138, 47, 7, 24, 144, 188, 5, 121, 124, 37, 129, 198, 241, 13, 159,
     85, 65, 125, 197, 224, 176, 69, 124, 160, 20, 251, 101, 111, 106, 34, 80, 102, 244, 163, 63,
     246, 202, 115, 59, 123, 139, 204, 251, 109, 238, 252, 129, 99, 247, 105, 2, 129, 128, 65, 242,
     55, 87, 228, 123, 168, 110, 138, 61, 217, 90, 8, 187, 205, 203, 162, 140, 179, 239, 116, 70,
     165, 208, 6, 37, 231, 68, 220, 19, 107, 129, 249, 252, 60, 62, 94, 230, 213, 136, 33, 42,
     183, 240, 0, 232, 234, 29, 23, 147, 219, 76, 210, 50, 200, 237, 53, 23, 203, 54, 213, 35,
     134, 242, 237, 178, 233, 196, 127, 187, 234, 25, 215, 13, 230, 190, 53, 233, 110, 163, 62, 54,
     21, 83, 245, 72, 28, 232, 36, 113, 36, 234, 251, 116, 80, 233, 20, 91, 146, 231, 69, 64,
     173, 44, 243, 82, 178, 48, 36, 235, 85, 238, 248, 137, 146, 17, 66, 97, 81, 83, 229, 119,
     143, 130, 235, 181, 104, 117, 2, 129, 128, 17, 237, 235, 18, 63, 100, 71, 98, 178, 32, 176,
     16, 137, 151, 220, 72, 42, 223, 221, 43, 42, 44, 163, 16, 241, 79, 79, 226, 115, 22, 58,
     29, 30, 86, 116, 165, 212, 72, 14, 178, 20, 104, 197, 218, 122, 233, 118, 33, 226, 80, 57,
     6, 216, 53, 91, 59, 130, 159, 132, 30, 185, 66, 1, 29, 213, 51, 87, 122, 59, 225, 99,
     246, 118, 250, 147, 153, 3, 87, 228, 115, 194, 140, 85, 158, 120, 76, 77, 164, 192, 246, 238,
     173, 115, 67, 32, 137, 49, 52, 228, 143, 151, 230, 255, 187, 243, 59, 25, 116, 246, 248, 241,
     38, 87, 182, 30, 180, 58, 167, 31, 221, 89, 5, 102, 146, 160, 128, 241, 137]"

definition rsa1024_der :: bytes where
  "rsa1024_der = [
     48, 130, 2, 118, 2, 1, 0, 48, 13, 6, 9, 42, 134, 72, 134, 247, 13, 1, 1, 1,
     5, 0, 4, 130, 2, 96, 48, 130, 2, 92, 2, 1, 0, 2, 129, 129, 0, 174, 221, 244,
     68, 156, 56, 119, 156, 218, 21, 203, 100, 186, 80, 225, 64, 249, 145, 240, 82, 55, 36, 253,
     94, 127, 41, 52, 212, 183, 223, 24, 203, 32, 195, 129, 45, 102, 253, 86, 204, 125, 123, 90,
     149, 196, 151, 32, 129, 56, 211, 144, 113, 194, 220, 2, 19, 54, 218, 45, 131, 31, 95, 208,
     181, 171, 147, 33, 247, 217, 75, 181, 61, 81, 16, 148, 0, 83, 242, 9, 244, 42, 106, 231,
     119, 124, 16, 15, 124, 146, 130, 155, 68, 254, 38, 136, 68, 248, 168, 159, 89, 58, 211, 79,
     146, 178, 6, 246, 89, 228, 146, 202, 219, 124, 228, 165, 41, 120, 88, 113, 32, 175, 147, 149,
     193, 15, 3, 255, 131, 2, 3, 1, 0, 1, 2, 129, 128, 1, 93, 11, 173, 137, 70, 75,
     112, 118, 166, 218, 218, 35, 53, 196, 59, 220, 118, 77, 216, 102, 67, 172, 146, 19, 13, 192,
     50, 180, 104, 81, 234, 43, 140, 58, 178, 158, 237, 244, 194, 77, 108, 43, 205, 165, 37, 196,
     132, 29, 108, 80, 225, 2, 50, 242, 245, 49, 101, 76, 27, 140, 160, 19, 161, 131, 179, 24,
     8, 240, 91, 210, 127, 232, 59, 157, 80, 90, 223, 222, 12, 239, 89, 66, 7, 40, 238, 105,
     46, 131, 201, 176, 30, 223, 135, 44, 241, 30, 230, 92, 23, 92, 72, 1, 143, 110, 68, 19,
     19, 135, 186, 108, 197, 170, 110, 194, 19, 197, 184, 136, 174, 98, 9, 243, 191, 246, 18, 80,
     49, 2, 65, 0, 216, 75, 164, 139, 252, 146, 238, 210, 12, 84, 168, 230, 190, 127, 82, 135,
     220, 147, 195, 228, 175, 94, 128, 253, 131, 42, 112, 108, 158, 151, 80, 119, 245, 125, 68, 121,
     48, 135, 142, 232, 50, 237, 4, 202, 146, 106, 146, 186, 189, 221, 121, 112, 133, 104, 70, 241,
     165, 14, 60, 107, 200, 214, 2, 107, 2, 65, 0, 206, 247, 119, 100, 166, 188, 90, 87, 221,
     69, 105, 220, 222, 251, 5, 44, 122, 212, 242, 68, 170, 215, 147, 10, 217, 35, 28, 9, 36,
     235, 169, 224, 32, 252, 196, 184, 198, 251, 44, 168, 148, 99, 234, 190, 130, 198, 71, 28, 162,
     194, 200, 67, 81, 248, 122, 226, 7, 217, 30, 66, 211, 209, 173, 73, 2, 65, 0, 175, 211,
     149, 216, 130, 34, 131, 103, 86, 196, 191, 100, 139, 184, 254, 195, 24, 201, 57, 246, 61, 165,
     10, 32, 139, 46, 197, 163, 86, 172, 84, 170, 159, 114, 12, 102, 163, 207, 158, 153, 29, 68,
     213, 159, 66, 180, 197, 192, 110, 53, 138, 209, 176, 113, 27, 50, 182, 101, 67, 50, 175, 89,
     97, 47, 2, 64, 96, 66, 102, 172, 80, 132, 79, 252, 135, 180, 110, 29, 69, 52, 56, 222,
     204, 46, 88, 147, 169, 101, 228, 68, 234, 98, 210, 250, 73, 202, 181, 210, 193, 100, 238, 214,
     5, 237, 242, 130, 97, 169, 235, 23, 58, 89, 159, 223, 104, 175, 241, 86, 166, 60, 76, 98,
     238, 69, 132, 54, 142, 175, 249, 201, 2, 64, 115, 24, 40, 100, 129, 247, 124, 232, 67, 149,
     145, 19, 176, 51, 129, 224, 198, 142, 130, 239, 170, 213, 58, 88, 241, 35, 117, 234, 223, 86,
     55, 184, 195, 62, 167, 171, 142, 143, 208, 113, 117, 2, 222, 123, 145, 87, 190, 114, 109, 248,
     208, 136, 65, 51, 234, 230, 243, 251, 55, 252, 143, 96, 174, 41]"

definition check_cipher :: "ossl \<Rightarrow> string option \<Rightarrow> nat \<Rightarrow> nat \<Rightarrow> bool" where
  "check_cipher ol ciphername unused1 unused2 = (case ciphername of None \<Rightarrow> True | Some n \<Rightarrow> \<not> EVP_CIPHER_fetch ol n)"

definition get_rsakey :: "ossl \<Rightarrow> nat \<Rightarrow> nat option" where
  "get_rsakey ol sz =
     (if sz = 1024 then d2i_PrivateKey ol rsa1024_der
      else if sz = 2048 then d2i_PrivateKey ol rsa2048_der
      else None)"

abbreviation RSA_PKCS1_PADDING :: nat where "RSA_PKCS1_PADDING \<equiv> 1"
abbreviation RSA_NO_PADDING :: nat where "RSA_NO_PADDING \<equiv> 3"
abbreviation RSA_PKCS1_PSS_PADDING :: nat where "RSA_PKCS1_PSS_PADDING \<equiv> 6"

text \<open>The tests say whether something is \<open>bad\<close>.\<close>

definition check_rsa_encryption :: "ossl \<Rightarrow> string option \<Rightarrow> nat \<Rightarrow> nat \<Rightarrow> bool" where
  "check_rsa_encryption ol unused keysize padding =
     (let pkey = get_rsakey ol keysize;
          inlen = (if padding = RSA_NO_PADDING then keysize div 8 else 1)
      in case pkey of
           None \<Rightarrow> True
         | Some k \<Rightarrow>
             \<not> EVP_PKEY_CTX_new ol pkey \<or> EVP_PKEY_encrypt_init ol k \<le> 0 \<or> EVP_PKEY_CTX_set_rsa_padding ol k padding \<le> 0 \<or>
             EVP_PKEY_encrypt ol k padding (replicate inlen 0) \<le> 0)"

definition check_rsa_sign :: "ossl \<Rightarrow> string option \<Rightarrow> nat \<Rightarrow> nat \<Rightarrow> bool" where
  "check_rsa_sign ol hashname keysize padding =
     (let pkey = get_rsakey ol keysize;
          md = Option.bind hashname (EVP_get_digestbyname ol)
      in case (pkey, md) of
           (Some k, Some m) \<Rightarrow>
             \<not> EVP_PKEY_CTX_new ol pkey \<or> EVP_PKEY_sign_init ol k \<le> 0 \<or> EVP_PKEY_CTX_set_rsa_padding ol k padding \<le> 0 \<or>
             EVP_PKEY_CTX_set_signature_md ol k m \<le> 0 \<or> EVP_PKEY_sign ol k padding m (replicate (EVP_MD_size ol m) 0) \<le> 0
         | _ \<Rightarrow> True)"

definition check_rsa_verify :: "ossl \<Rightarrow> string option \<Rightarrow> nat \<Rightarrow> nat \<Rightarrow> bool" where
  "check_rsa_verify ol hashname keysize padding =
     (let pkey = get_rsakey ol keysize;
          md = Option.bind hashname (EVP_get_digestbyname ol)
      in case (pkey, md) of
           (Some k, Some m) \<Rightarrow>
             \<not> EVP_PKEY_CTX_new ol pkey \<or> EVP_PKEY_verify_init ol k \<le> 0 \<or> EVP_PKEY_CTX_set_rsa_padding ol k padding \<le> 0 \<or>
             EVP_PKEY_CTX_set_signature_md ol k m \<le> 0
         | _ \<Rightarrow> True)"

definition check_hmac :: "ossl \<Rightarrow> string option \<Rightarrow> nat \<Rightarrow> nat \<Rightarrow> bool" where
  "check_hmac ol hashname unused1 unused2 = HMAC_NULL ol (Option.bind hashname (EVP_get_digestbyname ol))"

subsection \<open>Tables\<close>

record algorithms_tests =
  at_disabled_type :: u32
  at_names :: "string list"
  at_algname :: "string option"
  at_keysize :: nat
  at_padding :: nat
  at_testfn :: "ossl \<Rightarrow> string option \<Rightarrow> nat \<Rightarrow> nat \<Rightarrow> bool"
  at_fix_flags :: u32

definition ossl_config_disabled :: "algorithms_tests list" where
  "ossl_config_disabled =
    [\<lparr>at_disabled_type = DISABLED_BY_FIPS OR DISABLED_BY_CONFIG, at_names = [''camellia''],
      at_algname = Some ''CAMELLIA-128-CFB'', at_keysize = 0, at_padding = 0, at_testfn = check_cipher,
      at_fix_flags = FIX_DISABLE_FIPS\<rparr>,
     \<lparr>at_disabled_type = DISABLED_BY_FIPS OR DISABLED_BY_CONFIG, at_names = [''camellia''],
      at_algname = Some ''CAMELLIA-256-CFB'', at_keysize = 0, at_padding = 0, at_testfn = check_cipher,
      at_fix_flags = FIX_DISABLE_FIPS\<rparr>,
     \<lparr>at_disabled_type = DISABLED_BY_FIPS OR DISABLED_BY_CONFIG, at_names = [''tdes''],
      at_algname = Some ''DES-EDE3-CFB'', at_keysize = 0, at_padding = 0, at_testfn = check_cipher,
      at_fix_flags = FIX_DISABLE_FIPS\<rparr>,
     \<lparr>at_disabled_type = DISABLED_BY_FIPS, at_names = [''rsaes''],
      at_algname = None, at_keysize = 2048, at_padding = RSA_PKCS1_PADDING, at_testfn = check_rsa_encryption,
      at_fix_flags = FIX_DISABLE_FIPS\<rparr>,
     \<lparr>at_disabled_type = DISABLED_BY_FIPS, at_names = [''ecc-nist-p192''],
      at_algname = Some ''SHA256'', at_keysize = 1024, at_padding = RSA_PKCS1_PSS_PADDING, at_testfn = check_rsa_sign,
      at_fix_flags = 0\<rparr>,
     \<lparr>at_disabled_type = DISABLED_SHA1_SIGNATURES, at_names = [''rsa'', ''sha1'', ''rsapss''],
      at_algname = Some ''SHA1'', at_keysize = 1024, at_padding = RSA_PKCS1_PSS_PADDING, at_testfn = check_rsa_sign,
      at_fix_flags = FIX_ENABLE_SHA1_SIGNATURES\<rparr>,
     \<lparr>at_disabled_type = DISABLED_SHA1_SIGNATURES, at_names = [''rsa'', ''sha1'', ''rsassa''],
      at_algname = Some ''SHA1'', at_keysize = 1024, at_padding = RSA_PKCS1_PADDING, at_testfn = check_rsa_sign,
      at_fix_flags = FIX_ENABLE_SHA1_SIGNATURES\<rparr>,
     \<lparr>at_disabled_type = DISABLED_SHA1_SIGNATURES, at_names = [''rsa'', ''sha1'', ''rsapss''],
      at_algname = Some ''SHA1'', at_keysize = 2048, at_padding = RSA_PKCS1_PSS_PADDING, at_testfn = check_rsa_sign,
      at_fix_flags = FIX_ENABLE_SHA1_SIGNATURES\<rparr>,
     \<lparr>at_disabled_type = DISABLED_SHA1_SIGNATURES, at_names = [''rsa'', ''sha1'', ''rsassa''],
      at_algname = Some ''SHA1'', at_keysize = 2048, at_padding = RSA_PKCS1_PADDING, at_testfn = check_rsa_sign,
      at_fix_flags = FIX_ENABLE_SHA1_SIGNATURES\<rparr>]"

text \<open>Name, related keyword with its length, 0 for none.\<close>

definition ossl_fips_disabled_algorithms :: "(string \<times> string option \<times> nat) list" where
  "ossl_fips_disabled_algorithms =
    [(''camellia'', Some ''camellia-min-size='', 18), (''tdes'', Some ''tdes-min-size='', 14), (''rsaes'', None, 0),
     (''ecc-nist-p192'', None, 0)]"

record key_sizes =
  ks_names :: "string list"
  ks_keyword :: string
  ks_min_size :: nat
  ks_algname :: "string option"
  ks_keysize :: nat
  ks_padding :: nat
  ks_testfn :: "ossl \<Rightarrow> string option \<Rightarrow> nat \<Rightarrow> nat \<Rightarrow> bool"

definition fips_key_sizes :: "key_sizes list" where
  "fips_key_sizes =
    [\<lparr>ks_names = [''ecc-nist''], ks_keyword = ''ecc-min-size='', ks_min_size = 224, ks_algname = Some ''SHA256'',
      ks_keysize = 1024, ks_padding = RSA_PKCS1_PSS_PADDING, ks_testfn = check_rsa_sign\<rparr>,
     \<lparr>ks_names = [''rsa''], ks_keyword = ''rsa-min-size='', ks_min_size = 2048, ks_algname = Some ''SHA256'',
      ks_keysize = 1024, ks_padding = RSA_PKCS1_PSS_PADDING, ks_testfn = check_rsa_sign\<rparr>]"

subsection \<open>Checking\<close>

text \<open>The arguments of \<open>strv_contains_all\<close> are swapped on purpose: the entries about the given algorithms.\<close>

definition at_test :: "ossl \<Rightarrow> algorithms_tests \<Rightarrow> bool" where
  "at_test ol e = at_testfn e ol (at_algname e) (at_keysize e) (at_padding e)"

definition check_ossl_algorithm_is_disabled :: "ossl \<Rightarrow> string list \<Rightarrow> bool" where
  "check_ossl_algorithm_is_disabled ol tpm_algorithms =
     list_ex (\<lambda>e. strv_contains_all (at_names e) tpm_algorithms \<and> at_test ol e) ossl_config_disabled"

text \<open>\<open>strtoul\<close> in base 10 with \<open>errno\<close> and the rest: without digits 0 and the argument, a negative number wraps.\<close>

definition strtoul10 :: "string \<Rightarrow> nat \<times> bool \<times> string" where
  "strtoul10 s =
     (case strto 10 s of
        None \<Rightarrow> (0, False, s)
      | Some (n, rest) \<Rightarrow>
          if \<bar>n\<bar> > 2 ^ 64 - 1 then (2 ^ 64 - 1, True, rest) else (nat (n mod 2 ^ 64), False, rest))"

fun config_loop :: "ossl \<Rightarrow> string list \<Rightarrow> u32 \<Rightarrow> bool \<Rightarrow> algorithms_tests list \<Rightarrow> u32 \<Rightarrow> u32" where
  "config_loop ol algorithms disabled_filter stop [] fix_flags = fix_flags"
| "config_loop ol algorithms disabled_filter stop (e # es) fix_flags =
     (if disabled_filter \<noteq> 0 \<and> at_disabled_type e AND disabled_filter = 0
      then config_loop ol algorithms disabled_filter stop es fix_flags
      else if stop \<and> at_fix_flags e AND NOT fix_flags = 0
      then config_loop ol algorithms disabled_filter stop es fix_flags
      else if strv_contains_all algorithms (at_names e) \<and> at_test ol e
      then config_loop ol algorithms disabled_filter stop es (fix_flags OR at_fix_flags e)
      else config_loop ol algorithms disabled_filter stop es fix_flags)"

fun key_size_loop :: "string list \<Rightarrow> key_sizes list \<Rightarrow> u32 \<Rightarrow> u32" where
  "key_size_loop algorithms [] fix_flags = fix_flags"
| "key_size_loop algorithms (k # ks) fix_flags =
     (if strv_contains_all algorithms (ks_names k) then
        (case strv_strncmp algorithms (ks_keyword k) (length (ks_keyword k)) of
           Some j \<Rightarrow>
             if fst (strtoul10 (drop (length (ks_keyword k)) (algorithms ! j))) < ks_min_size k
             then fix_flags OR FIX_DISABLE_FIPS
             else key_size_loop algorithms ks fix_flags
         | None \<Rightarrow> key_size_loop algorithms ks fix_flags)
      else key_size_loop algorithms ks fix_flags)"

definition check_ossl_algorithms_are_disabled :: "ossl \<Rightarrow> string list \<Rightarrow> u32 \<Rightarrow> bool \<Rightarrow> u32" where
  "check_ossl_algorithms_are_disabled ol algorithms disabled_filter stop_on_first_disabled =
     (let fix_flags = config_loop ol algorithms disabled_filter stop_on_first_disabled ossl_config_disabled 0
      in if disabled_filter AND DISABLED_BY_FIPS \<noteq> 0 \<and> fix_flags AND FIX_DISABLE_FIPS = 0
         then key_size_loop algorithms fips_key_sizes fix_flags else fix_flags)"

subsection \<open>Removing\<close>

definition algorithms_gencmpstr :: "string \<Rightarrow> string \<times> int" where
  "algorithms_gencmpstr input =
     (input, if CHR ''='' \<in> set input then int (length (takeWhile (\<lambda>c. c \<noteq> CHR ''='') input)) else -1)"

definition remove_entry :: "ossl \<Rightarrow> bool \<Rightarrow> string \<times> string option \<times> nat \<Rightarrow> string list \<Rightarrow> string list" where
  "remove_entry ol force e algorithms =
     (case e of (name, related, related_len) \<Rightarrow>
        if \<not> force \<and> \<not> check_ossl_algorithm_is_disabled ol [name] then algorithms
        else
          let algorithms1 = fst (strv_remove algorithms name (-1)) in
          case related of
            None \<Rightarrow> algorithms1
          | Some r \<Rightarrow> fst (strv_remove algorithms1 r (int related_len)))"

text \<open>With the return value 1 the array is as it was left.\<close>

fun adjust_loop :: "ossl \<Rightarrow> bool \<Rightarrow> key_sizes list \<Rightarrow> string list \<Rightarrow> int \<times> string list" where
  "adjust_loop ol force [] algorithms = (0, algorithms)"
| "adjust_loop ol force (k # ks) algorithms =
     (if \<not> force \<and> \<not> ks_testfn k ol (ks_algname k) (ks_keysize k) (ks_padding k)
      then adjust_loop ol force ks algorithms
      else
        let l = length (ks_keyword k);
            statement = ks_keyword k @ dec (ks_min_size k)
        in case strv_strncmp algorithms (ks_keyword k) l of
             Some j \<Rightarrow>
               (case strtoul10 (drop l (algorithms ! j)) of (v, erange, end_ptr) \<Rightarrow>
                  if erange \<or> end_ptr \<noteq> [] then (1, algorithms)
                  else if v \<ge> ks_min_size k then adjust_loop ol force ks algorithms
                  else if \<not> asprintf_ok ol statement then (1, algorithms)
                  else adjust_loop ol force ks (algorithms[j := statement]))
           | None \<Rightarrow>
               if \<not> asprintf_ok ol statement then (1, algorithms)
               else adjust_loop ol force ks (algorithms @ [statement]))"

definition check_ossl_fips_disabled_remove_algorithms :: "ossl \<Rightarrow> string list \<Rightarrow> bool \<Rightarrow> int \<times> string list" where
  "check_ossl_fips_disabled_remove_algorithms ol algorithms force =
     adjust_loop ol force fips_key_sizes
       (fst (strv_dedup (fold (remove_entry ol force) ossl_fips_disabled_algorithms algorithms) (Some algorithms_gencmpstr)))"

definition fips_attributes :: "string list" where
  "fips_attributes = [''no-sha1-signing'', ''no-sha1-verification'', ''no-unpadded-encryption'']"

definition fips_hmac_attributes :: "string list" where
  "fips_hmac_attributes = [''no-sha1-hmac-creation'', ''no-sha1-hmac-verification'']"

definition has_attributes :: "string list option \<Rightarrow> string list \<Rightarrow> bool" where
  "has_attributes attributes needles = (case attributes of None \<Rightarrow> False | Some xs \<Rightarrow> strv_contains_all xs needles)"

definition add_attribute :: "string \<Rightarrow> bool \<Rightarrow> string list option \<Rightarrow> string list option" where
  "add_attribute a bad attributes =
     (if \<not> has_attributes attributes [a] \<and> bad then Some (strv_extend attributes [a]) else attributes)"

definition check_hmac_sha1 :: "ossl \<Rightarrow> string list option \<Rightarrow> string list option" where
  "check_hmac_sha1 ol attributes =
     (if has_attributes attributes [''no-sha1-hmac''] \<or> has_attributes attributes fips_hmac_attributes then attributes
      else if attributes = None \<and> check_hmac ol (Some ''SHA1'') 0 0
      then Some (strv_extend attributes [''no-sha1-hmac''])
      else attributes)"

definition check_ossl_fips_disabled_set_attributes :: "ossl \<Rightarrow> string list option \<Rightarrow> bool \<Rightarrow> string list option" where
  "check_ossl_fips_disabled_set_attributes ol attributes force =
     (if force then
        if \<not> has_attributes attributes [''fips-host''] \<and> \<not> has_attributes attributes fips_attributes
        then Some (strv_extend attributes fips_attributes) else attributes
      else if has_attributes attributes [''fips-host''] then check_hmac_sha1 ol attributes
      else
        let a1 = add_attribute ''no-sha1-signing'' (check_rsa_sign ol (Some ''SHA1'') 2048 RSA_PKCS1_PSS_PADDING) attributes;
            a2 = add_attribute ''no-sha1-verification'' (check_rsa_verify ol (Some ''SHA1'') 2048 RSA_PKCS1_PSS_PADDING) a1;
            a3 = add_attribute ''no-unpadded-encryption'' (check_rsa_encryption ol None 2048 RSA_NO_PADDING) a2
        in check_hmac_sha1 ol a3)"

subsection \<open>JSON (src/src/swtpm/utils.c)\<close>

text \<open>
  The nodes of a parsed text, where \<open>JOther\<close> is a value that is neither object, array nor string, with its text, and the two operations of
  the JSON library: parsing, \<open>None\<close> for an error and \<open>Some None\<close> for a text without a root, and generating the text.
\<close>

datatype json = JObject "(string \<times> json) list" | JArray "json list" | JString string | JOther string

record json_lib =
  json_load :: "string \<Rightarrow> json option option"
  json_to_data :: "json \<Rightarrow> string"

definition read_member :: "json \<Rightarrow> string \<Rightarrow> json option" where
  "read_member j key = (case j of JObject m \<Rightarrow> map_of m key | _ \<Rightarrow> None)"

definition json_elements :: "json \<Rightarrow> json list" where
  "json_elements j = (case j of JArray xs \<Rightarrow> xs | JObject m \<Rightarrow> map snd m | _ \<Rightarrow> [])"

definition json_root :: "json_lib \<Rightarrow> string \<Rightarrow> json option" where
  "json_root jl input = (case json_load jl input of None \<Rightarrow> None | Some r \<Rightarrow> r)"

definition json_get_map_key_value :: "json_lib \<Rightarrow> string \<Rightarrow> string \<Rightarrow> int \<times> string option" where
  "json_get_map_key_value jl json_input key =
     (case json_root jl json_input of
        None \<Rightarrow> (-1, None)
      | Some root \<Rightarrow>
          (case read_member root key of
             None \<Rightarrow> (-2, None)
           | Some (JString v) \<Rightarrow> (0, Some v)
           | Some _ \<Rightarrow> (-1, None)))"

fun set_member :: "(string \<times> json) list \<Rightarrow> string \<Rightarrow> json \<Rightarrow> (string \<times> json) list" where
  "set_member [] key v = [(key, v)]"
| "set_member ((k, x) # m) key v = (if k = key then (k, v) # m else (k, x) # set_member m key v)"

definition json_set_map_key_value :: "json_lib \<Rightarrow> string \<Rightarrow> string \<Rightarrow> string \<Rightarrow> int \<times> string" where
  "json_set_map_key_value jl json_string key value =
     (case json_root jl json_string of
        None \<Rightarrow> (-1, json_string)
      | Some root \<Rightarrow>
          (0, json_to_data jl (case root of JObject m \<Rightarrow> JObject (set_member m key (JString value)) | j \<Rightarrow> j)))"

definition json_get_submap_value :: "json_lib \<Rightarrow> string \<Rightarrow> string \<Rightarrow> string \<Rightarrow> string option" where
  "json_get_submap_value jl json_input field_name field_name2 =
     (case json_root jl json_input of
        None \<Rightarrow> None
      | Some root \<Rightarrow>
          (case read_member root field_name of
             None \<Rightarrow> None
           | Some j \<Rightarrow> (case read_member j field_name2 of Some (JString v) \<Rightarrow> Some v | _ \<Rightarrow> None)))"

text \<open>
  The reader of the JSON library is taken to be back at the array after each element, as it is for the profiles of libtpms, whose
  entries all have the field.
\<close>

fun array_entry_loop :: "json list \<Rightarrow> string \<Rightarrow> string \<Rightarrow> string \<Rightarrow> string option" where
  "array_entry_loop [] field1_name field1_value field2_name = None"
| "array_entry_loop (j # js) field1_name field1_value field2_name =
     (if read_member j field1_name = Some (JString field1_value)
      then (case read_member j field2_name of Some (JString v) \<Rightarrow> Some v | _ \<Rightarrow> None)
      else array_entry_loop js field1_name field1_value field2_name)"

definition json_get_array_entry_value ::
  "json_lib \<Rightarrow> string \<Rightarrow> string \<Rightarrow> string \<Rightarrow> string \<Rightarrow> string \<Rightarrow> string option"
where
  "json_get_array_entry_value jl json_input field0_name field1_name field1_value field2_name =
     (case json_root jl json_input of
        None \<Rightarrow> None
      | Some root \<Rightarrow>
          (case read_member root field0_name of
             None \<Rightarrow> None
           | Some j \<Rightarrow> array_entry_loop (json_elements j) field1_name field1_value field2_name))"

subsection \<open>Profiles (src/src/swtpm/profile.c)\<close>

fun g_strjoinv_comma :: "string list \<Rightarrow> string" where
  "g_strjoinv_comma [] = ''''"
| "g_strjoinv_comma [x] = x"
| "g_strjoinv_comma (x # y # xs) = x @ '','' @ g_strjoinv_comma (y # xs)"

text \<open>
  \<open>info\<close> is what libtpms says about its profiles, \<open>None\<close> a NULL pointer, which the JSON functions do not
  survive. The result is the return value and the profile.
\<close>

definition profile_remove_fips_disabled_algorithms ::
  "json_lib \<Rightarrow> ossl \<Rightarrow> string option \<Rightarrow> string \<Rightarrow> bool \<Rightarrow> (int \<times> string) option"
where
  "profile_remove_fips_disabled_algorithms jl ol info profile force =
     (case json_get_map_key_value jl profile ''Name'' of (ret, name) \<Rightarrow>
      if ret \<noteq> 0 \<or> name = None \<or> (the name \<noteq> ''custom'' \<and> \<not> strncmp_eq (the name) ''custom:'' 7) then Some (-2, profile)
      else case json_get_map_key_value jl profile ''Algorithms'' of (ret, value) \<Rightarrow>
      if ret = -1 then Some (-1, profile)
      else
        case (if ret = -2
              then map_option (\<lambda>i. json_get_array_entry_value jl i ''AvailableProfiles'' ''Name'' ''custom'' ''Algorithms'') info
              else Some value) of
          None \<Rightarrow> None
        | Some None \<Rightarrow> Some (-1, profile)
        | Some (Some v) \<Rightarrow>
            (case check_ossl_fips_disabled_remove_algorithms ol (g_strsplit_comma v) force of (rc, algorithms) \<Rightarrow>
             if rc \<noteq> 0 then Some (-1, profile)
             else case json_set_map_key_value jl profile ''Algorithms'' (g_strjoinv_comma algorithms) of (rc, p1) \<Rightarrow>
             if rc \<noteq> 0 then Some (-1, p1)
             else case json_get_map_key_value jl p1 ''Attributes'' of (ret, attrs) \<Rightarrow>
             if ret = -1 then Some (-1, p1)
             else case check_ossl_fips_disabled_set_attributes ol (map_option g_strsplit_comma attrs) force of
               None \<Rightarrow> Some (0, p1)
             | Some attributes \<Rightarrow>
                 (case json_set_map_key_value jl p1 ''Attributes'' (g_strjoinv_comma attributes) of (rc, p2) \<Rightarrow>
                    Some (if rc \<noteq> 0 then -1 else 0, p2))))"

subsection \<open>String arrays against lists\<close>

lemma strv_cut_simps:
  assumes "i < length array"
  shows "i \<le> length (strv_cut array i)" "take i (strv_cut array i) = take i array" "drop i (strv_cut array i) = drop (Suc i) array"
  using assms by (simp_all add: strv_cut_def min_def)

lemma strv_remove_loop_filter:
  "i \<le> length array \<Longrightarrow> strv_remove_loop p array i num =
     (take i array @ filter (\<lambda>s. \<not> p s) (drop i array), num + length (filter p (drop i array)))"
proof (induction p array i num rule: strv_remove_loop.induct)
  case (1 p array i num)
  show ?case
  proof (cases "i < length array")
    case True
    then have d: "drop i array = array ! i # drop (Suc i) array" by (simp add: Cons_nth_drop_Suc)
    note c = strv_cut_simps [OF True]
    show ?thesis
    proof (cases "p (array ! i)")
      case p: True
      show ?thesis
        using 1(1) [OF True p c(1)] True p by (subst strv_remove_loop.simps) (simp add: c d)
    next
      case p: False
      have "take (Suc i) array = take i array @ [array ! i]" using True by (simp add: take_Suc_conv_app_nth)
      then show ?thesis
        using 1(2) [OF True p] True p by (subst strv_remove_loop.simps) (simp add: d)
    qed
  next
    case False
    then show ?thesis using 1(3) by (subst strv_remove_loop.simps) simp
  qed
qed

lemma strv_remove_filter:
  "strv_remove array s len = (filter (\<lambda>x. \<not> strv_match s len x) array, length (filter (strv_match s len) array))"
  by (simp add: strv_remove_def strv_remove_loop_filter)

text \<open>What is kept: an entry that no later one equals in the sense of \<open>gencmpstr\<close>.\<close>

fun dedup_spec :: "(string \<Rightarrow> string \<times> int) \<Rightarrow> string list \<Rightarrow> string list" where
  "dedup_spec g [] = []"
| "dedup_spec g (x # xs) =
     (if list_ex (case g x of (cmp, len) \<Rightarrow> strv_match cmp len) xs then dedup_spec g xs else x # dedup_spec g xs)"

lemma strv_dedup_loop_spec:
  "i \<le> length array \<Longrightarrow> fst (strv_dedup_loop g array i num) = take i array @ dedup_spec g (drop i array)"
proof (induction g array i num rule: strv_dedup_loop.induct)
  case (1 g array i num)
  show ?case
  proof (cases "i < length array")
    case True
    then have d: "drop i array = array ! i # drop (Suc i) array" by (simp add: Cons_nth_drop_Suc)
    obtain cmp len where g: "g (array ! i) = (cmp, len)" by fastforce
    note c = strv_cut_simps [OF True]
    show ?thesis
    proof (cases "list_ex (strv_match cmp len) (drop (Suc i) array)")
      case p: True
      show ?thesis
        using 1(1) [OF True g [symmetric] p c(1)] True p g by (subst strv_dedup_loop.simps) (simp add: c d)
    next
      case p: False
      have "take (Suc i) array = take i array @ [array ! i]" using True by (simp add: take_Suc_conv_app_nth)
      then show ?thesis
        using 1(2) [OF True g [symmetric] p] True p g by (subst strv_dedup_loop.simps) (simp add: d)
    qed
  next
    case False
    then show ?thesis using 1(3) by (subst strv_dedup_loop.simps) simp
  qed
qed

lemma strv_dedup_spec: "fst (strv_dedup array (Some g)) = dedup_spec g array"
  by (simp add: strv_dedup_def strv_dedup_loop_spec)

lemma set_dedup_spec: "set (dedup_spec g xs) \<subseteq> set xs"
  by (induction g xs rule: dedup_spec.induct) auto

end
