(* ===== verification/AlgosProps.thy ===== *)
theory AlgosProps
  imports Algos
begin

section \<open>Properties of the algorithm checks\<close>

text \<open>
  The two uses of the tests of \<^verbatim>\<open>Algos\<close> fit together: what is left of a profile after the removal needs no change of OpenSSL.
\<close>

subsection \<open>The flag to stop early\<close>

lemma or_absorb: "(a :: u32) AND NOT f = 0 \<Longrightarrow> f OR a = f"
  by (rule bit_eqI) (metis bit_and_iff bit_not_iff bit_or_iff bit_0_eq bot_apply bot_bool_def bit_imp_le_length possible_bit_word)

lemma config_loop_stop:
  "config_loop ol algorithms fl True es f = config_loop ol algorithms fl False es f"
  by (induction es arbitrary: f) (auto simp: or_absorb)

text \<open>
  C27. Stopping early only saves tests: whether \<open>stop_on_first_disabled\<close> is given or not, the flags that say how OpenSSL
  has to be changed are the same, for all algorithms, filters and answers of OpenSSL.
\<close>

theorem stop_on_first_same_flags:
  "check_ossl_algorithms_are_disabled ol algorithms disabled_filter True =
   check_ossl_algorithms_are_disabled ol algorithms disabled_filter False"
  by (simp add: check_ossl_algorithms_are_disabled_def config_loop_stop)

subsection \<open>What is removed\<close>

lemma strv_contains_one [simp]: "strv_contains_all xs [n] \<longleftrightarrow> n \<in> set xs"
  by (simp add: strv_contains_all_def)

lemma strv_match_exact [simp]: "strv_match s (-1) x \<longleftrightarrow> x = s"
  by (simp add: strv_match_def)

lemma set_remove_entry:
  "set (remove_entry ol force (n, r, l) xs) \<subseteq> set xs"
  "n \<in> set (remove_entry ol force (n, r, l) xs) \<Longrightarrow> \<not> force \<and> \<not> check_ossl_algorithm_is_disabled ol [n]"
  by (auto simp: remove_entry_def strv_remove_filter Let_def split: if_splits option.splits)

lemma set_fold_remove:
  "set (fold (remove_entry ol force) es xs) \<subseteq> set xs"
  "(n, r, l) \<in> set es \<Longrightarrow> n \<in> set (fold (remove_entry ol force) es xs) \<Longrightarrow>
     \<not> force \<and> \<not> check_ossl_algorithm_is_disabled ol [n]"
proof (induction es arbitrary: xs)
  case (Cons e es)
  obtain n' r' l' where e: "e = (n', r', l')" by (cases e)
  { case 1 then show ?case using Cons(1) [of "remove_entry ol force e xs"] set_remove_entry(1) e by fastforce }
  { case 2
    show ?case
    proof (cases "(n, r, l) = e")
      case True
      then show ?thesis
        using 2(2) Cons(1) [of "remove_entry ol force e xs"] set_remove_entry(2) [of n ol force r l xs] by auto
    next
      case False
      then show ?thesis using 2 Cons(2) [of "remove_entry ol force e xs"] by auto
    qed }
qed simp_all

subsection \<open>Key sizes\<close>

lemma strv_strncmp_Some:
  "strv_strncmp xs s n = Some j \<Longrightarrow> j < length xs \<and> strncmp_eq (xs ! j) s n"
  by (induction xs arbitrary: j) (auto split: if_splits)

lemma strv_strncmp_update:
  "j < length xs \<Longrightarrow> strncmp_eq (xs ! j) s n = strncmp_eq y s n \<Longrightarrow> strv_strncmp (xs[j := y]) s n = strv_strncmp xs s n"
  by (induction xs arbitrary: j) (auto split: nat.splits)

lemma strv_strncmp_append:
  "strv_strncmp (xs @ [y]) s n =
     (case strv_strncmp xs s n of Some j \<Rightarrow> Some j | None \<Rightarrow> if strncmp_eq y s n then Some (length xs) else None)"
  by (induction xs) (auto split: option.splits)

text \<open>The first statement about a key size, if there is one, has at least the required size.\<close>

definition size_ok :: "string list \<Rightarrow> key_sizes \<Rightarrow> bool" where
  "size_ok xs k \<longleftrightarrow> (\<forall>j. strv_strncmp xs (ks_keyword k) (length (ks_keyword k)) = Some j \<longrightarrow>
     ks_min_size k \<le> fst (strtoul10 (drop (length (ks_keyword k)) (xs ! j))))"

text \<open>There is such a statement.\<close>

definition size_stated :: "string list \<Rightarrow> key_sizes \<Rightarrow> bool" where
  "size_stated xs k \<longleftrightarrow> (\<exists>j. strv_strncmp xs (ks_keyword k) (length (ks_keyword k)) = Some j \<and>
     ks_min_size k \<le> fst (strtoul10 (drop (length (ks_keyword k)) (xs ! j))))"

lemma size_stated_ok: "size_stated xs k \<Longrightarrow> size_ok xs k"
  by (auto simp: size_ok_def size_stated_def)

lemma key_size_loop_ok:
  "(\<And>k. k \<in> set ks \<Longrightarrow> size_ok xs k) \<Longrightarrow> key_size_loop xs ks f = f"
  by (induction ks) (fastforce simp: size_ok_def split: option.splits)+

lemma adjust_loop_Cons:
  "adjust_loop ol force (k # ks) xs =
     (case adjust_loop ol force [k] xs of (rc, ys) \<Rightarrow> if rc \<noteq> 0 then (rc, ys) else adjust_loop ol force ks ys)"
  by (simp add: Let_def split: option.split prod.split)

lemma adjust_one:
  assumes "adjust_loop ol force [k] xs = (0, ys)" "strtoul10 (dec (ks_min_size k)) = (ks_min_size k, False, [])"
  shows "set ys \<subseteq> set xs \<union> {ks_keyword k @ dec (ks_min_size k)}"
    and "force \<or> ks_testfn k ol (ks_algname k) (ks_keysize k) (ks_padding k) \<Longrightarrow> size_stated ys k"
    and "length (ks_keyword k') = length (ks_keyword k) \<Longrightarrow> ks_keyword k' \<noteq> ks_keyword k \<Longrightarrow> size_stated xs k' \<Longrightarrow> size_stated ys k'"
proof -
  let ?l = "length (ks_keyword k)" and ?s = "ks_keyword k @ dec (ks_min_size k)"
  consider "ys = xs" "size_stated xs k \<or> \<not> force \<and> \<not> ks_testfn k ol (ks_algname k) (ks_keysize k) (ks_padding k)"
    | j where "strv_strncmp xs (ks_keyword k) ?l = Some j" "ys = xs[j := ?s]"
    | "strv_strncmp xs (ks_keyword k) ?l = None" "ys = xs @ [?s]"
    using assms(1) by (fastforce simp: Let_def size_stated_def split: if_splits option.splits prod.splits)
  note cs = this
  have self: "strncmp_eq ?s (ks_keyword k) ?l" "drop ?l ?s = dec (ks_min_size k)" by (simp_all add: strncmp_eq_def)
  show "set ys \<subseteq> set xs \<union> {?s}" using cs by cases (auto dest: set_update_subset_insert [THEN subsetD])
  show "size_stated ys k" if "force \<or> ks_testfn k ol (ks_algname k) (ks_keysize k) (ks_padding k)"
    using cs
  proof cases
    case (2 j)
    then have "strv_strncmp ys (ks_keyword k) ?l = Some j" "ys ! j = ?s"
      using strv_strncmp_Some [OF 2(1)] self by (simp_all add: strv_strncmp_update)
    then show ?thesis using self assms(2) by (simp add: size_stated_def)
  next
    case 3
    then show ?thesis using self assms(2) by (simp add: size_stated_def strv_strncmp_append)
  qed (use that in auto)
  show "size_stated ys k'" if k': "length (ks_keyword k') = ?l" "ks_keyword k' \<noteq> ks_keyword k" "size_stated xs k'"
    using cs
  proof cases
    case 1 then show ?thesis using k'(3) by simp
  next
    case (2 j)
    have ne: "\<not> strncmp_eq (xs ! j) (ks_keyword k') ?l" "\<not> strncmp_eq ?s (ks_keyword k') ?l"
      using strv_strncmp_Some [OF 2(1)] k' by (simp_all add: strncmp_eq_def)
    then have e: "strv_strncmp ys (ks_keyword k') ?l = strv_strncmp xs (ks_keyword k') ?l"
      using 2 strv_strncmp_Some [OF 2(1)] by (simp add: strv_strncmp_update)
    have "ys ! i = xs ! i" if "strv_strncmp xs (ks_keyword k') ?l = Some i" for i
      using strv_strncmp_Some [OF that] ne(1) 2(2) by (cases "i = j") auto
    then show ?thesis using k'(1,3) e by (auto simp: size_stated_def)
  next
    case 3
    have ne: "\<not> strncmp_eq ?s (ks_keyword k') ?l" using k' by (simp add: strncmp_eq_def)
    then show ?thesis
      using k'(1,3) 3(2) strv_strncmp_Some [of xs "ks_keyword k'" ?l]
      by (auto simp: size_stated_def strv_strncmp_append nth_append split: option.splits)
  qed
qed

subsection \<open>A profile after the removal\<close>

lemma fips_key_sizes_adjusted:
  assumes "adjust_loop ol force fips_key_sizes xs = (0, ys)"
    and "force \<or> check_rsa_sign ol (Some ''SHA256'') 1024 RSA_PKCS1_PSS_PADDING"
  shows "set ys \<subseteq> set xs \<union> {''ecc-min-size=224'', ''rsa-min-size=2048''}"
    and "k \<in> set fips_key_sizes \<Longrightarrow> size_stated ys k"
proof -
  define k1 k2 where "k1 = fips_key_sizes ! 0" and "k2 = fips_key_sizes ! 1"
  have ks: "fips_key_sizes = [k1, k2]" by (simp add: k1_def k2_def fips_key_sizes_def)
  have d: "dec 224 = ''224''" "dec 2048 = ''2048''" by (simp_all add: dec.simps)
  have st: "strtoul10 (dec (ks_min_size k1)) = (ks_min_size k1, False, [])" "strtoul10 (dec (ks_min_size k2)) = (ks_min_size k2, False, [])"
    by (simp_all add: k1_def k2_def fips_key_sizes_def d) (code_simp, code_simp)
  obtain zs where z: "adjust_loop ol force [k1] xs = (0, zs)" "adjust_loop ol force [k2] zs = (0, ys)"
    using assms(1) unfolding ks adjust_loop_Cons [of ol force k1 "[k2]" xs] by (auto split: prod.splits if_splits simp del: adjust_loop.simps)
  have t: "force \<or> ks_testfn k1 ol (ks_algname k1) (ks_keysize k1) (ks_padding k1)" "force \<or> ks_testfn k2 ol (ks_algname k2) (ks_keysize k2) (ks_padding k2)"
    using assms(2) by (simp_all add: k1_def k2_def fips_key_sizes_def)
  have kw: "length (ks_keyword k1) = length (ks_keyword k2)" "ks_keyword k1 \<noteq> ks_keyword k2"
    "ks_keyword k1 @ dec (ks_min_size k1) = ''ecc-min-size=224''" "ks_keyword k2 @ dec (ks_min_size k2) = ''rsa-min-size=2048''"
    by (simp_all add: k1_def k2_def fips_key_sizes_def d)
  note a1 = adjust_one [OF z(1) st(1)] and a2 = adjust_one [OF z(2) st(2)]
  show "set ys \<subseteq> set xs \<union> {''ecc-min-size=224'', ''rsa-min-size=2048''}" using a1(1) a2(1) kw(3,4) by auto
  show "size_stated ys k" if "k \<in> set fips_key_sizes"
    using that a2(2) [OF t(2)] a2(3) [OF kw(1,2) a1(2) [OF t(1)]] by (auto simp: ks)
qed

lemma no_flag:
  assumes "\<And>e. e \<in> set es \<Longrightarrow> at_disabled_type e AND fl \<noteq> 0 \<Longrightarrow> at_fix_flags e = 0 \<or>
      \<not> (strv_contains_all xs (at_names e) \<and> at_test ol e)" "fl \<noteq> 0"
  shows "config_loop ol xs fl stop es 0 = 0"
  using assms
proof (induction es)
  case (Cons a es)
  have "config_loop ol xs fl stop es 0 = 0" using Cons by simp
  moreover have "at_disabled_type a AND fl \<noteq> 0 \<Longrightarrow> at_fix_flags a = 0 \<or>
      \<not> (strv_contains_all xs (at_names a) \<and> at_test ol a)" using Cons.prems by simp
  ultimately show ?case using Cons.prems(2) by (cases "at_disabled_type a AND fl = 0") auto
qed simp

lemma removed_gone:
  assumes "check_ossl_fips_disabled_remove_algorithms ol algorithms force = (0, left)"
    and "force \<or> check_rsa_sign ol (Some ''SHA256'') 1024 RSA_PKCS1_PSS_PADDING"
  shows "set left \<subseteq> set algorithms \<union> {''ecc-min-size=224'', ''rsa-min-size=2048''}"
    and "k \<in> set fips_key_sizes \<Longrightarrow> size_stated left k"
    and "n \<in> set left \<Longrightarrow> (n, r, l) \<in> set ossl_fips_disabled_algorithms \<Longrightarrow> \<not> force \<and> \<not> check_ossl_algorithm_is_disabled ol [n]"
proof -
  let ?r = "fold (remove_entry ol force) ossl_fips_disabled_algorithms algorithms"
  have ad: "adjust_loop ol force fips_key_sizes (dedup_spec algorithms_gencmpstr ?r) = (0, left)"
    using assms(1) by (simp add: check_ossl_fips_disabled_remove_algorithms_def strv_dedup_spec)
  note f = fips_key_sizes_adjusted [OF ad assms(2)]
  show "set left \<subseteq> set algorithms \<union> {''ecc-min-size=224'', ''rsa-min-size=2048''}"
    using f(1) set_dedup_spec [of algorithms_gencmpstr ?r] set_fold_remove(1) [of ol force ossl_fips_disabled_algorithms algorithms] by blast
  show "size_stated left k" if "k \<in> set fips_key_sizes" by (rule f(2) [OF that])
  assume n: "n \<in> set left" "(n, r, l) \<in> set ossl_fips_disabled_algorithms"
  have "n \<noteq> ''ecc-min-size=224''" "n \<noteq> ''rsa-min-size=2048''"
    using n(2) by (auto simp: ossl_fips_disabled_algorithms_def)
  then have "n \<in> set ?r" using f(1) n(1) set_dedup_spec [of algorithms_gencmpstr ?r] by auto
  from set_fold_remove(2) [OF n(2) this] show "\<not> force \<and> \<not> check_ossl_algorithm_is_disabled ol [n]" .
qed

lemma removed_no_flag:
  assumes "check_ossl_fips_disabled_remove_algorithms ol algorithms force = (0, left)"
    and "force \<or> check_rsa_sign ol (Some ''SHA256'') 1024 RSA_PKCS1_PSS_PADDING" "force \<or> ol' = ol"
    and "fl = DISABLED_BY_FIPS \<or> fl = DISABLED_BY_CONFIG"
  shows "config_loop ol' left fl stop ossl_config_disabled 0 = 0"
    and "k \<in> set fips_key_sizes \<Longrightarrow> size_ok left k"
proof -
  note gone = removed_gone(3) [OF assms(1,2)]
  have "at_fix_flags e = 0 \<or> \<not> (strv_contains_all left (at_names e) \<and> at_test ol' e)"
    if e: "e \<in> set ossl_config_disabled" "at_disabled_type e AND fl \<noteq> 0" for e
  proof (rule ccontr)
    assume c: "\<not> ?thesis"
    obtain n r l where n: "at_names e = [n]" "(n, r, l) \<in> set ossl_fips_disabled_algorithms"
      using e c assms(4) by (auto simp: ossl_config_disabled_def ossl_fips_disabled_algorithms_def)
    then have d: "\<not> force" "\<not> check_ossl_algorithm_is_disabled ol [n]" using gone [OF _ n(2)] c by auto
    moreover have "check_ossl_algorithm_is_disabled ol [n]"
      using c n(1) e(1) d(1) assms(3) unfolding check_ossl_algorithm_is_disabled_def list_ex_iff by (intro bexI [of _ e]) simp_all
    ultimately show False by simp
  qed
  then show "config_loop ol' left fl stop ossl_config_disabled 0 = 0" using assms(4) by (intro no_flag) auto
  show "size_ok left k" if "k \<in> set fips_key_sizes" by (rule size_stated_ok [OF removed_gone(2) [OF assms(1,2) that]])
qed

text \<open>
  Removing what FIPS mode disables is enough: when \<open>check_ossl_fips_disabled_remove_algorithms\<close> succeeds on a list of algorithms,
  the check on what is left finds no reason to turn FIPS mode off, for a forced removal whatever OpenSSL answers, and for a
  removal of what OpenSSL has disabled when OpenSSL refuses short keys.
\<close>

theorem removed_algorithms_fit_fips:
  assumes "check_ossl_fips_disabled_remove_algorithms ol algorithms force = (0, left)"
    and "force \<or> check_rsa_sign ol (Some ''SHA256'') 1024 RSA_PKCS1_PSS_PADDING"
  shows "check_ossl_algorithms_are_disabled ol left DISABLED_BY_FIPS stop = 0"
  using removed_no_flag(1) [OF assms, where ol' = ol and fl = DISABLED_BY_FIPS and stop = stop]
    removed_no_flag(2) [OF assms, where ol' = ol and fl = DISABLED_BY_FIPS]
  by (simp add: check_ossl_algorithms_are_disabled_def key_size_loop_ok)

subsection \<open>The removal in a profile, and the start of swtpm with it\<close>

text \<open>
  The strings of the JSON library are C strings in UTF-8: no zero byte, and behind each first byte of a character the bytes that may
  follow it. A node is valid if its strings are, and no member comes twice.
\<close>

definition utf8_lead :: "nat \<Rightarrow> (nat \<times> nat) list option" where
  "utf8_lead c =
     (if 0 < c \<and> c < 0x80 then Some []
      else if 0xc2 \<le> c \<and> c \<le> 0xdf then Some [(0x80, 0xbf)]
      else if c = 0xe0 then Some [(0xa0, 0xbf), (0x80, 0xbf)]
      else if c = 0xed then Some [(0x80, 0x9f), (0x80, 0xbf)]
      else if 0xe1 \<le> c \<and> c \<le> 0xef then Some [(0x80, 0xbf), (0x80, 0xbf)]
      else if c = 0xf0 then Some [(0x90, 0xbf), (0x80, 0xbf), (0x80, 0xbf)]
      else if 0xf1 \<le> c \<and> c \<le> 0xf3 then Some [(0x80, 0xbf), (0x80, 0xbf), (0x80, 0xbf)]
      else if c = 0xf4 then Some [(0x80, 0x8f), (0x80, 0xbf), (0x80, 0xbf)]
      else None)"

fun utf8_from :: "(nat \<times> nat) list \<Rightarrow> string \<Rightarrow> bool" where
  "utf8_from st [] = (st = [])"
| "utf8_from [] (c # s) = (case utf8_lead (of_char c) of None \<Rightarrow> False | Some st \<Rightarrow> utf8_from st s)"
| "utf8_from ((lo, hi) # st) (c # s) = (lo \<le> of_char c \<and> of_char c \<le> hi \<and> utf8_from st s)"

abbreviation utf8 :: "string \<Rightarrow> bool" where "utf8 \<equiv> utf8_from []"

fun json_valid :: "json \<Rightarrow> bool" where
  "json_valid (JObject m) = (distinct (map fst m) \<and> (\<forall>(k, j) \<in> set m. utf8 k \<and> json_valid j))"
| "json_valid (JArray js) = (\<forall>j \<in> set js. json_valid j)"
| "json_valid (JString s) = utf8 s"
| "json_valid (JOther s) = True"

text \<open>
  What the JSON library promises: the nodes of a parsed text are valid, and when a member of a parsed object is set to a string, the text generated
  from the object is parsed to the same object.
\<close>

definition json_ok :: "json_lib \<Rightarrow> bool" where
  "json_ok jl \<longleftrightarrow>
     (\<forall>s j. json_load jl s = Some (Some j) \<longrightarrow> json_valid j) \<and>
     (\<forall>s m key v. json_load jl s = Some (Some (JObject m)) \<and> utf8 key \<and> utf8 v \<longrightarrow>
        json_load jl (json_to_data jl (JObject (set_member m key (JString v)))) = Some (Some (JObject (set_member m key (JString v)))))"

lemma utf8_append: "utf8_from st a \<Longrightarrow> utf8 b \<Longrightarrow> utf8_from st (a @ b)"
  by (induction st a rule: utf8_from.induct) (auto split: option.splits)

lemma utf8_lead_range: "utf8_lead c = Some st \<Longrightarrow> (lo, hi) \<in> set st \<Longrightarrow> 0x80 \<le> lo"
  by (auto simp: utf8_lead_def split: if_splits)

lemma utf8_comma: "\<forall>(lo, hi) \<in> set st. 0x80 \<le> lo \<Longrightarrow> utf8_from st (a @ '','' @ b) \<Longrightarrow> utf8_from st a \<and> utf8 b"
proof (induction st a rule: utf8_from.induct)
  case (1 st)
  then show ?case by (cases st) (auto simp: utf8_lead_def)
next
  case (2 c s)
  then show ?case using utf8_lead_range by (fastforce split: option.splits)
qed auto

lemma utf8_split_acc:
  "utf8 (rev acc @ s) \<Longrightarrow> x \<in> set (split_comma acc s) \<Longrightarrow> utf8 x"
proof (induction acc s rule: split_comma.induct)
  case (2 acc c s)
  show ?case
  proof (cases "c = CHR '',''")
    case True
    then show ?thesis using 2 utf8_comma [of "[]" "rev acc" s] by auto
  qed (use 2 in auto)
qed simp

lemma utf8_split: "utf8 s \<Longrightarrow> x \<in> set (g_strsplit_comma s) \<Longrightarrow> utf8 x"
  using utf8_split_acc [of "[]" s x] by (simp add: g_strsplit_comma_def split: if_splits)

lemma utf8_join: "\<forall>x \<in> set xs. utf8 x \<Longrightarrow> utf8 (g_strjoinv_comma xs)"
  by (induction xs rule: g_strjoinv_comma.induct) (auto intro!: utf8_append simp: utf8_lead_def)

lemma read_member_valid: "json_valid j \<Longrightarrow> read_member j key = Some x \<Longrightarrow> json_valid x"
  by (cases j) (auto simp: read_member_def dest!: map_of_SomeD)

lemma json_root_valid: "json_ok jl \<Longrightarrow> json_root jl s = Some j \<Longrightarrow> json_valid j"
  by (auto simp: json_ok_def json_root_def split: option.splits)

lemma get_key_utf8:
  assumes "json_ok jl" "json_get_map_key_value jl s key = (ret, Some v)"
  shows "utf8 v"
proof -
  obtain j where "json_root jl s = Some j" "read_member j key = Some (JString v)"
    using assms(2) by (auto simp: json_get_map_key_value_def split: option.splits json.splits)
  then show ?thesis using json_root_valid [OF assms(1)] read_member_valid [of j key "JString v"] by auto
qed

lemma array_entry_utf8: "\<forall>j \<in> set js. json_valid j \<Longrightarrow> array_entry_loop js f1 v1 f2 = Some v \<Longrightarrow> utf8 v"
  by (induction js) (auto split: if_splits option.splits json.splits dest: read_member_valid)

lemma get_array_utf8:
  assumes "json_ok jl" "json_get_array_entry_value jl s f0 f1 v1 f2 = Some v"
  shows "utf8 v"
proof -
  obtain root j where j: "json_root jl s = Some root" "read_member root f0 = Some j"
      "array_entry_loop (json_elements j) f1 v1 f2 = Some v"
    using assms(2) by (auto simp: json_get_array_entry_value_def split: option.splits)
  have "json_valid j" using read_member_valid [OF json_root_valid [OF assms(1) j(1)] j(2)] .
  then have "\<forall>x \<in> set (json_elements j). json_valid x" by (cases j) (auto simp: json_elements_def)
  then show ?thesis using array_entry_utf8 j(3) by blast
qed

lemma map_of_set_member: "map_of (set_member m key v) = (map_of m)(key \<mapsto> v)"
  by (induction m key v rule: set_member.induct) (auto simp: fun_eq_iff)

lemma split_comma_no_comma: "CHR '','' \<notin> set acc \<Longrightarrow> x \<in> set (split_comma acc s) \<Longrightarrow> CHR '','' \<notin> set x"
  by (induction acc s rule: split_comma.induct) (auto split: if_splits)

lemma g_strsplit_no_comma: "x \<in> set (g_strsplit_comma s) \<Longrightarrow> CHR '','' \<notin> set x"
  using split_comma_no_comma [of "''''" x s] by (auto simp: g_strsplit_comma_def split: if_splits)

lemma split_comma_append:
  "CHR '','' \<notin> set x \<Longrightarrow> split_comma acc (x @ s) = split_comma (rev x @ acc) s"
  by (induction x arbitrary: acc) auto

lemma split_join_acc:
  "\<forall>x\<in>set (y # ys). CHR '','' \<notin> set x \<Longrightarrow> split_comma acc (g_strjoinv_comma (y # ys)) = (rev acc @ y) # ys"
proof (induction ys arbitrary: y acc)
  case Nil
  then show ?case using split_comma_append [of y acc "[]"] by simp
next
  case (Cons z zs)
  then show ?case using split_comma_append [of y acc "'','' @ g_strjoinv_comma (z # zs)"] by simp
qed

lemma split_join:
  assumes "\<forall>x\<in>set xs. CHR '','' \<notin> set x"
  shows "g_strsplit_comma (g_strjoinv_comma xs) = (if g_strjoinv_comma xs = '''' then [] else xs)"
  using assms split_join_acc [of _ _ "''''"] by (cases xs) (auto simp: g_strsplit_comma_def)

lemma join_empty: "g_strjoinv_comma xs = '''' \<Longrightarrow> x \<in> set xs \<Longrightarrow> x = ''''"
  by (induction xs rule: g_strjoinv_comma.induct) auto

text \<open>The parts of a successful removal.\<close>

lemma json_set_get:
  assumes "json_ok jl" "json_root jl s = Some (JObject m)" "utf8 key" "utf8 v" "p = json_to_data jl (JObject (set_member m key (JString v)))"
  shows "json_set_map_key_value jl s key v = (0, p)" "json_root jl p = Some (JObject (set_member m key (JString v)))"
    and "json_get_map_key_value jl p k =
      (if k = key then (0, Some v) else json_get_map_key_value jl s k)"
proof -
  show s: "json_set_map_key_value jl s key v = (0, p)" using assms(2,5) by (simp add: json_set_map_key_value_def)
  have "json_load jl s = Some (Some (JObject m))" using assms(2) by (auto simp: json_root_def split: option.splits)
  then show p: "json_root jl p = Some (JObject (set_member m key (JString v)))"
    using assms(1,3-5) by (simp add: json_ok_def json_root_def)
  show "json_get_map_key_value jl p k = (if k = key then (0, Some v) else json_get_map_key_value jl s k)"
    by (simp add: json_get_map_key_value_def p assms(2) read_member_def map_of_set_member)
qed

lemma utf8_names: "utf8 ''Algorithms''" "utf8 ''Attributes''" "utf8 ''ecc-min-size=224''" "utf8 ''rsa-min-size=2048''"
  "\<forall>x \<in> set fips_attributes. utf8 x" "utf8 ''no-sha1-hmac''"
  by code_simp+

lemma set_attributes_utf8:
  assumes "check_ossl_fips_disabled_set_attributes ol attributes True = Some as"
    and "\<forall>as0. attributes = Some as0 \<longrightarrow> (\<forall>x \<in> set as0. utf8 x)" "x \<in> set as"
  shows "utf8 x"
  using assms utf8_names(5)
  by (auto simp: check_ossl_fips_disabled_set_attributes_def strv_extend_def split: if_splits option.splits)

lemma profile_removed:
  assumes ok: "json_ok jl" and "profile_remove_fips_disabled_algorithms jl ol info profile True = Some (0, p')"
  obtains v left attrs attrs' where
    "check_ossl_fips_disabled_remove_algorithms ol (g_strsplit_comma v) True = (0, left)"
    "json_get_map_key_value jl p' ''Algorithms'' = (0, Some (g_strjoinv_comma left))"
    "check_ossl_fips_disabled_set_attributes ol (map_option g_strsplit_comma attrs) True = attrs'"
    "attrs' \<noteq> None \<Longrightarrow> json_get_map_key_value jl p' ''Attributes'' = (0, Some (g_strjoinv_comma (the attrs')))"
proof -
  obtain m where m: "json_root jl profile = Some (JObject m)"
    using assms(2) by (auto simp: profile_remove_fips_disabled_algorithms_def json_get_map_key_value_def read_member_def
      split: option.splits json.splits if_splits)
  obtain ret val where g: "json_get_map_key_value jl profile ''Algorithms'' = (ret, val)" by fastforce
  obtain v where v0: "(if ret = -2
      then map_option (\<lambda>i. json_get_array_entry_value jl i ''AvailableProfiles'' ''Name'' ''custom'' ''Algorithms'') info
      else Some val) = Some (Some v)" "utf8 v"
    using assms(2) g get_key_utf8 [OF ok, of profile "''Algorithms''"] get_array_utf8 [OF ok]
    unfolding profile_remove_fips_disabled_algorithms_def g prod.case
    by (cases "ret = -2"; cases info) (auto split: prod.splits if_splits option.splits)
  obtain rc left where l: "check_ossl_fips_disabled_remove_algorithms ol (g_strsplit_comma v) True = (rc, left)" by fastforce
  have rc: "rc = 0"
    and rest: "(case json_set_map_key_value jl profile ''Algorithms'' (g_strjoinv_comma left) of (rc, p1) \<Rightarrow>
             if rc \<noteq> 0 then Some (-1, p1)
             else case json_get_map_key_value jl p1 ''Attributes'' of (ret, attrs) \<Rightarrow>
             if ret = -1 then Some (-1, p1)
             else case check_ossl_fips_disabled_set_attributes ol (map_option g_strsplit_comma attrs) True of
               None \<Rightarrow> Some (0, p1)
             | Some attributes \<Rightarrow>
                 (case json_set_map_key_value jl p1 ''Attributes'' (g_strjoinv_comma attributes) of (rc, p2) \<Rightarrow>
                    Some (if rc \<noteq> 0 then -1 else 0, p2))) = Some (0 :: int, p')"
    using assms(2) unfolding profile_remove_fips_disabled_algorithms_def g prod.case v0(1) option.case l
    by (auto simp del: case_prod_conv split: if_splits prod.splits)
  note v = l [unfolded rc] v0(2)
  have "\<forall>x \<in> set left. utf8 x" using removed_gone(1) [OF v(1)] utf8_split [OF v(2)] utf8_names by auto
  then have u: "utf8 (g_strjoinv_comma left)" by (rule utf8_join)
  define p1 where "p1 = json_to_data jl (JObject (set_member m ''Algorithms'' (JString (g_strjoinv_comma left))))"
  note s1 = json_set_get [OF ok m utf8_names(1) u p1_def]
  obtain ret attrs where a: "json_get_map_key_value jl p1 ''Attributes'' = (ret, attrs)" by fastforce
  define attrs' where "attrs' = check_ossl_fips_disabled_set_attributes ol (map_option g_strsplit_comma attrs) True"
  show ?thesis
  proof (cases attrs')
    case None
    then have "p' = p1" using rest a s1(1) by (auto simp: attrs'_def split: if_splits)
    then show ?thesis using that [OF v(1) _ attrs'_def [symmetric]] s1(3) None by simp
  next
    case (Some as)
    have "\<forall>as0. map_option g_strsplit_comma attrs = Some as0 \<longrightarrow> (\<forall>x \<in> set as0. utf8 x)"
      using a get_key_utf8 [OF ok, of p1 "''Attributes''" ret] utf8_split by (cases attrs) auto
    then have "\<forall>x \<in> set as. utf8 x"
      using set_attributes_utf8 [of ol "map_option g_strsplit_comma attrs" as] Some by (auto simp: attrs'_def)
    then have ua: "utf8 (g_strjoinv_comma as)" by (rule utf8_join)
    note s2 = json_set_get [OF ok s1(2) utf8_names(2) ua refl]
    have "json_set_map_key_value jl p1 ''Attributes'' (g_strjoinv_comma as) = (0, p')"
      using rest a s1(1) Some s2(1) by (auto simp: attrs'_def split: if_splits)
    then show ?thesis using that [OF v(1) _ attrs'_def [symmetric]] s1(3) s2(1,3) Some by simp
  qed
qed

lemma forced_attributes:
  assumes "check_ossl_fips_disabled_set_attributes ol (map_option g_strsplit_comma attrs) True = attrs'"
  obtains as where "attrs' = Some as" "g_strsplit_comma (g_strjoinv_comma as) = as"
    "strv_contains_all as [''fips-host''] \<or> strv_contains_all as [''no-sha1-signing'', ''no-sha1-verification'']"
proof -
  obtain as where as: "attrs' = Some as" "''fips-host'' \<in> set as \<or> set fips_attributes \<subseteq> set as"
    and nc: "\<forall>x\<in>set as. CHR '','' \<notin> set x"
    using assms g_strsplit_no_comma
    by (auto simp: check_ossl_fips_disabled_set_attributes_def has_attributes_def strv_extend_def strv_contains_all_def list_all_iff
      fips_attributes_def split: if_splits option.splits)
  have "g_strjoinv_comma as \<noteq> ''''" using as(2) join_empty [of as] by (auto simp: fips_attributes_def)
  then show ?thesis
    using that as split_join [OF nc] by (auto simp: strv_contains_all_def fips_attributes_def)
qed

text \<open>
  What a TPM started with a profile says about its algorithms, compared with those of the profile: it has no algorithm the profile does not have, in
  whatever order, and the minimal key size it states for a kind of key is at least that of the profile, if the profile states one.
\<close>

definition keyword_of :: "string \<Rightarrow> string" where
  "keyword_of x = takeWhile (\<lambda>c. c \<noteq> CHR ''='') x"

definition size_of :: "string \<Rightarrow> nat" where
  "size_of x = fst (strtoul10 (tl (dropWhile (\<lambda>c. c \<noteq> CHR ''='') x)))"

definition reports :: "string list \<Rightarrow> string list \<Rightarrow> bool" where
  "reports prof enabled \<longleftrightarrow>
     (\<forall>x \<in> set enabled.
        if CHR ''='' \<in> set x
        then \<forall>y \<in> set prof. CHR ''='' \<in> set y \<and> keyword_of y = keyword_of x \<longrightarrow> size_of y \<le> size_of x
        else x \<in> set prof)"

lemma statement_parts:
  assumes "strncmp_eq x kw (length kw)" "kw = k0 @ ''=''" "CHR ''='' \<notin> set k0"
  shows "CHR ''='' \<in> set x" "keyword_of x = k0" "size_of x = fst (strtoul10 (drop (length kw) x))"
proof -
  have "take (length kw) x = kw" using assms(1) by (simp add: strncmp_eq_def)
  then have x: "x = k0 @ CHR ''='' # drop (length kw) x" using append_take_drop_id [of "length kw" x] assms(2) by simp
  have a: "\<forall>c \<in> set k0. c \<noteq> CHR ''=''" using assms(3) by auto
  show "CHR ''='' \<in> set x" by (subst x) simp
  show "keyword_of x = k0" unfolding keyword_of_def by (subst x) (use a in simp)
  have "tl (dropWhile (\<lambda>c. c \<noteq> CHR ''='') x) = drop (length kw) x" by (subst x) (use a in simp)
  then show "size_of x = fst (strtoul10 (drop (length kw) x))" by (simp add: size_of_def)
qed

lemma reported_size_ok:
  assumes "reports prof enabled" "size_stated prof k" "k \<in> set fips_key_sizes"
  shows "size_ok enabled k"
proof -
  obtain k0 where k0: "ks_keyword k = k0 @ ''=''" "CHR ''='' \<notin> set k0"
    using assms(3) that [of "''ecc-min-size''"] that [of "''rsa-min-size''"] by (auto simp: fips_key_sizes_def)
  obtain i where i: "strv_strncmp prof (ks_keyword k) (length (ks_keyword k)) = Some i"
    "ks_min_size k \<le> fst (strtoul10 (drop (length (ks_keyword k)) (prof ! i)))"
    using assms(2) by (auto simp: size_stated_def)
  note y = strv_strncmp_Some [OF i(1)]
  have "ks_min_size k \<le> fst (strtoul10 (drop (length (ks_keyword k)) (enabled ! j)))"
    if j: "strv_strncmp enabled (ks_keyword k) (length (ks_keyword k)) = Some j" for j
  proof -
    note x = strv_strncmp_Some [OF j]
    have "size_of (prof ! i) \<le> size_of (enabled ! j)"
      using assms(1) x y statement_parts(1,2) [OF _ k0] unfolding reports_def by (metis nth_mem)
    then show ?thesis using i(2) statement_parts(3) [OF _ k0] x y by simp
  qed
  then show ?thesis by (simp add: size_ok_def)
qed

lemma reported_no_flag:
  assumes "check_ossl_fips_disabled_remove_algorithms ol algorithms True = (0, left)" "reports left enabled"
    and fl: "fl = DISABLED_BY_FIPS \<or> fl = DISABLED_BY_CONFIG"
  shows "check_ossl_algorithms_are_disabled ol' enabled fl stop = 0"
proof -
  have gone: "n \<notin> set enabled" if "(n, r, l) \<in> set ossl_fips_disabled_algorithms" for n r l
  proof
    assume "n \<in> set enabled"
    moreover have "CHR ''='' \<notin> set n" using that by (auto simp: ossl_fips_disabled_algorithms_def)
    ultimately have "n \<in> set left" using assms(2) by (auto simp: reports_def)
    then show False using removed_gone(3) [OF assms(1) _ _ that] by simp
  qed
  have "at_fix_flags e = 0 \<or> \<not> (strv_contains_all enabled (at_names e) \<and> at_test ol' e)"
    if "e \<in> set ossl_config_disabled" "at_disabled_type e AND fl \<noteq> 0" for e
    using that fl gone [of "''camellia''"] gone [of "''tdes''"] gone [of "''rsaes''"]
    by (auto simp: ossl_config_disabled_def ossl_fips_disabled_algorithms_def)
  then have "config_loop ol' enabled fl stop ossl_config_disabled 0 = 0" using fl by (intro no_flag) auto
  then show ?thesis
    using reported_size_ok [OF assms(2) removed_gone(2) [OF assms(1)]]
    by (simp add: check_ossl_algorithms_are_disabled_def key_size_loop_ok)
qed

text \<open>
  C24. A custom profile from which the algorithms disabled on a FIPS host were removed by force needs no change of OpenSSL: when the TPM that
  runs with the changed profile reports, in whatever order, no algorithm the profile does not have, no smaller key size and at least the profile's
  attributes, then the check at its start, \<open>tpmlib_maybe_configure_openssl\<close>, succeeds, neither turns FIPS mode off nor allows
  SHA1 signatures, whatever OpenSSL has disabled. The JSON library parses what it generated from a parsed object.
\<close>

theorem fips_profile_keeps_openssl:
  assumes "json_ok jl" "profile_remove_fips_disabled_algorithms jl ol info profile True = Some (0, p')"
    and "enabled_algorithms env = Some algs" "enabled_attributes env = Some attrs"
    and "\<forall>ps. json_get_map_key_value jl p' ''Algorithms'' = (0, Some ps) \<longrightarrow> reports (g_strsplit_comma ps) (g_strsplit_comma algs)"
    and "\<forall>ps. json_get_map_key_value jl p' ''Attributes'' = (0, Some ps) \<longrightarrow> set (g_strsplit_comma ps) \<subseteq> set (g_strsplit_comma attrs)"
    and "ossl_probe env = (\<lambda>fips sha1. check_ossl_algorithms_are_disabled (lib fips sha1))"
  shows "tpmlib_maybe_configure_openssl env TPMLIB_TPM_VERSION_2 = (True, env)"
proof -
  obtain v left attrs0 attrs' where
    r: "check_ossl_fips_disabled_remove_algorithms ol (g_strsplit_comma v) True = (0, left)"
    and al: "json_get_map_key_value jl p' ''Algorithms'' = (0, Some (g_strjoinv_comma left))"
    and at: "check_ossl_fips_disabled_set_attributes ol (map_option g_strsplit_comma attrs0) True = attrs'"
    and at': "attrs' \<noteq> None \<Longrightarrow> json_get_map_key_value jl p' ''Attributes'' = (0, Some (g_strjoinv_comma (the attrs')))"
    by (rule profile_removed [OF assms(1,2)]) blast
  obtain as where as: "attrs' = Some as" "g_strsplit_comma (g_strjoinv_comma as) = as"
    "strv_contains_all as [''fips-host''] \<or> strv_contains_all as [''no-sha1-signing'', ''no-sha1-verification'']"
    by (rule forced_attributes [OF at])
  have nc: "\<forall>x\<in>set left. CHR '','' \<notin> set x"
    using removed_gone(1) [OF r] g_strsplit_no_comma [of _ v] by auto
  have "g_strjoinv_comma left \<noteq> ''''"
  proof
    assume e: "g_strjoinv_comma left = ''''"
    have "size_stated left (hd fips_key_sizes)" by (rule removed_gone(2) [OF r]) (simp_all add: fips_key_sizes_def)
    then obtain i where "i < length left" "strncmp_eq (left ! i) (ks_keyword (hd fips_key_sizes)) (length (ks_keyword (hd fips_key_sizes)))"
      using strv_strncmp_Some unfolding size_stated_def by blast
    then show False using join_empty [OF e, of "left ! i"] by (simp add: strncmp_eq_def fips_key_sizes_def)
  qed
  then have "reports left (g_strsplit_comma algs)" using assms(5) al split_join [OF nc] by simp
  note z = reported_no_flag [OF r this]
  have "set as \<subseteq> set (g_strsplit_comma attrs)" using assms(6) at' as(1,2) by simp
  then have s: "tpmlib_check_attributes_disable_sha1_signatures env"
    using as(3) by (auto simp: tpmlib_check_attributes_disable_sha1_signatures_def assms(4) strv_contains_all_def list_all_iff Let_def)
  show ?thesis
    using s z by (simp add: tpmlib_maybe_configure_openssl_def tpmlib_check_need_disable_fips_mode_def configure_sha1_and_config_def
      tpmlib_check_need_enable_sha1_signatures_def tpmlib_check_need_modify_ossl_config_def tpmlib_check_disabled_algorithms_def assms(3,7))
qed

text \<open>
  When the profile has attributes, or one of the tests before has added one, HMAC with SHA1 is not tested any more: a profile with
  the attribute only against SHA1 signatures keeps HMAC with SHA1 though OpenSSL has disabled it.
\<close>

lemma hmac_sha1_not_tested:
  assumes "attributes \<noteq> None \<or> check_rsa_sign ol (Some ''SHA1'') 2048 RSA_PKCS1_PSS_PADDING"
    and "check_ossl_fips_disabled_set_attributes ol attributes False = Some as" "''no-sha1-hmac'' \<in> set as"
  shows "\<exists>as0. attributes = Some as0 \<and> ''no-sha1-hmac'' \<in> set as0"
  using assms
  by (auto simp: check_ossl_fips_disabled_set_attributes_def check_hmac_sha1_def add_attribute_def has_attributes_def strv_extend_def
    Let_def split: if_splits option.splits)

text \<open>Without a function for the string to compare, \<open>strv_dedup\<close> takes a later string that only begins with an entry for a duplicate.\<close>

lemma dedup_takes_prefixes:
  "fst (strv_dedup [''rsa'', ''rsassa''] None) = [''rsassa'']"
  by code_simp

subsection \<open>Instances\<close>

text \<open>A text format for JSON nodes that can be parsed back, strings with a mark before each character.\<close>

definition enc_str :: "string \<Rightarrow> string" where
  "enc_str s = concat (map (\<lambda>c. [CHR ''x'', c]) s) @ ''.''"

fun dec_str :: "string \<Rightarrow> (string \<times> string) option" where
  "dec_str (c # r) =
     (if c = CHR ''.'' then Some ([], r)
      else case r of [] \<Rightarrow> None | d # r1 \<Rightarrow> map_option (\<lambda>(s, r2). (d # s, r2)) (dec_str r1))"
| "dec_str [] = None"

fun enc_json :: "json \<Rightarrow> string" where
  "enc_json (JObject m) = ''{'' @ concat (map (\<lambda>(k, j). '','' @ enc_str k @ enc_json j) m) @ ''}''"
| "enc_json (JArray js) = ''['' @ concat (map (\<lambda>j. '','' @ enc_json j) js) @ '']''"
| "enc_json (JString s) = ''s'' @ enc_str s"
| "enc_json (JOther s) = ''n'' @ enc_str s"

fun parse_json :: "nat \<Rightarrow> string \<Rightarrow> (json \<times> string) option"
  and parse_members :: "nat \<Rightarrow> string \<Rightarrow> ((string \<times> json) list \<times> string) option"
  and parse_array :: "nat \<Rightarrow> string \<Rightarrow> (json list \<times> string) option"
where
  "parse_json (Suc f) (c # s) =
     (if c = CHR ''{'' then map_option (\<lambda>(m, r). (JObject m, r)) (parse_members f s)
      else if c = CHR ''['' then map_option (\<lambda>(js, r). (JArray js, r)) (parse_array f s)
      else if c = CHR ''s'' then map_option (\<lambda>(t, r). (JString t, r)) (dec_str s)
      else map_option (\<lambda>(t, r). (JOther t, r)) (dec_str s))"
| "parse_json _ _ = None"
| "parse_members (Suc f) (c # s) =
     (if c = CHR ''}'' then Some ([], s)
      else case dec_str s of
        None \<Rightarrow> None
      | Some (k, s1) \<Rightarrow>
          (case parse_json f s1 of
             None \<Rightarrow> None
           | Some (j, s2) \<Rightarrow> map_option (\<lambda>(m, r). ((k, j) # m, r)) (parse_members f s2)))"
| "parse_members _ _ = None"
| "parse_array (Suc f) (c # s) =
     (if c = CHR '']'' then Some ([], s)
      else case parse_json f s of
        None \<Rightarrow> None
      | Some (j, s1) \<Rightarrow> map_option (\<lambda>(js, r). (j # js, r)) (parse_array f s1))"
| "parse_array _ _ = None"

definition example_json :: json_lib where
  "example_json = \<lparr>json_load = (\<lambda>s. case parse_json (length s) s of
       Some (j, []) \<Rightarrow> if json_valid j then Some (Some j) else None | _ \<Rightarrow> None),
     json_to_data = enc_json\<rparr>"

lemma dec_enc_str [simp]: "dec_str (enc_str s @ r) = Some (s, r)"
  by (induction s) (simp_all add: enc_str_def)

lemma parse_members_enc:
  assumes "\<And>k j f r. (k, j) \<in> set m \<Longrightarrow> length (enc_json j) \<le> f \<Longrightarrow> parse_json f (enc_json j @ r) = Some (j, r)"
    and "length (concat (map (\<lambda>(k, j). '','' @ enc_str k @ enc_json j) m) @ ''}'') \<le> f"
  shows "parse_members f (concat (map (\<lambda>(k, j). '','' @ enc_str k @ enc_json j) m) @ ''}'' @ r) = Some (m, r)"
  using assms
proof (induction m arbitrary: f)
  case Nil
  then show ?case by (cases f) simp_all
next
  case (Cons a m)
  obtain k j where a: "a = (k, j)" by fastforce
  obtain f' where f: "f = Suc f'" using Cons.prems(2) by (cases f) (simp_all add: a)
  have "parse_json f' (enc_json j @ concat (map (\<lambda>(k, j). '','' @ enc_str k @ enc_json j) m) @ ''}'' @ r) =
      Some (j, concat (map (\<lambda>(k, j). '','' @ enc_str k @ enc_json j) m) @ ''}'' @ r)"
    using Cons.prems(2) by (intro Cons.prems(1) [of k]) (simp_all add: a f)
  moreover have "parse_members f' (concat (map (\<lambda>(k, j). '','' @ enc_str k @ enc_json j) m) @ ''}'' @ r) = Some (m, r)"
    by (rule Cons.IH) (use Cons.prems(2) in \<open>auto simp: a f intro: Cons.prems(1)\<close>)
  ultimately show ?case by (simp add: a f)
qed

lemma parse_array_enc:
  assumes "\<And>j f r. j \<in> set js \<Longrightarrow> length (enc_json j) \<le> f \<Longrightarrow> parse_json f (enc_json j @ r) = Some (j, r)"
    and "length (concat (map (\<lambda>j. '','' @ enc_json j) js) @ '']'') \<le> f"
  shows "parse_array f (concat (map (\<lambda>j. '','' @ enc_json j) js) @ '']'' @ r) = Some (js, r)"
  using assms
proof (induction js arbitrary: f)
  case Nil
  then show ?case by (cases f) simp_all
next
  case (Cons j js)
  obtain f' where f: "f = Suc f'" using Cons.prems(2) by (cases f) simp_all
  have "parse_json f' (enc_json j @ concat (map (\<lambda>j. '','' @ enc_json j) js) @ '']'' @ r) =
      Some (j, concat (map (\<lambda>j. '','' @ enc_json j) js) @ '']'' @ r)"
    using Cons.prems(2) by (intro Cons.prems(1)) (simp_all add: f)
  moreover have "parse_array f' (concat (map (\<lambda>j. '','' @ enc_json j) js) @ '']'' @ r) = Some (js, r)"
    by (rule Cons.IH) (use Cons.prems(2) in \<open>auto simp: f intro: Cons.prems(1)\<close>)
  ultimately show ?case by (simp add: f)
qed

lemma parse_enc_json: "length (enc_json j) \<le> f \<Longrightarrow> parse_json f (enc_json j @ r) = Some (j, r)"
proof (induction j arbitrary: f r rule: enc_json.induct)
  case (1 m)
  then obtain f' where f: "f = Suc f'" by (cases f) simp_all
  have "parse_members f' (concat (map (\<lambda>(k, j). '','' @ enc_str k @ enc_json j) m) @ ''}'' @ r) = Some (m, r)"
    using 1 by (intro parse_members_enc) (auto simp: f)
  then show ?case by (simp add: f)
next
  case (2 js)
  then obtain f' where f: "f = Suc f'" by (cases f) simp_all
  have "parse_array f' (concat (map (\<lambda>j. '','' @ enc_json j) js) @ '']'' @ r) = Some (js, r)"
    using 2 by (intro parse_array_enc) (auto simp: f)
  then show ?case by (simp add: f)
next
  case (3 s)
  then show ?case by (cases f) simp_all
next
  case 4
  then show ?case by (cases f) simp_all
qed

lemma set_member_keys: "fst ` set (set_member m key x) = insert key (fst ` set m)"
  by (induction m key x rule: set_member.induct) auto

lemma set_member_valid: "json_valid (JObject m) \<Longrightarrow> utf8 key \<Longrightarrow> utf8 v \<Longrightarrow> json_valid (JObject (set_member m key (JString v)))"
  by (induction m key "JString v" rule: set_member.induct) (auto simp: set_member_keys)

lemma example_json_ok: "json_ok example_json"
proof -
  have g: "json_load example_json (json_to_data example_json j) = Some (Some j)" if "json_valid j" for j
    using parse_enc_json [of j "length (enc_json j)" "[]"] that by (simp add: example_json_def)
  have l: "json_valid j" if "json_load example_json s = Some (Some j)" for s j
    using that by (auto simp: example_json_def split: option.splits list.splits if_splits)
  show ?thesis unfolding json_ok_def using l g set_member_valid by blast
qed

text \<open>An OpenSSL that has only SHA1 signatures disabled, and a profile.\<close>

definition example_openssl :: ossl where
  "example_openssl = \<lparr>EVP_CIPHER_fetch = (\<lambda>_. True), d2i_PrivateKey = (\<lambda>b. Some (length b)), EVP_PKEY_CTX_new = (\<lambda>_. True),
     EVP_get_digestbyname = (\<lambda>n. Some (if n = ''SHA1'' then 20 else 32)), EVP_MD_size = (\<lambda>n. n),
     EVP_PKEY_encrypt_init = (\<lambda>_. 1), EVP_PKEY_sign_init = (\<lambda>_. 1), EVP_PKEY_verify_init = (\<lambda>_. 1),
     EVP_PKEY_CTX_set_rsa_padding = (\<lambda>_ _. 1), EVP_PKEY_CTX_set_signature_md = (\<lambda>_ m. if m = 20 then -1 else 1),
     EVP_PKEY_encrypt = (\<lambda>_ _ _. 1), EVP_PKEY_sign = (\<lambda>_ _ _ _. 1), HMAC_NULL = (\<lambda>_. False), asprintf_ok = (\<lambda>_. True)\<rparr>"

lemma example_removed:
  "check_ossl_fips_disabled_remove_algorithms example_openssl
     [''rsa'', ''camellia'', ''camellia-min-size=128'', ''rsa-min-size=1024'', ''sha1'', ''rsa-min-size=1536''] True =
   (0, [''rsa'', ''sha1'', ''rsa-min-size=2048'', ''ecc-min-size=224''])"
  by code_simp

theorem removed_algorithms_fit_fips_witness:
  "check_ossl_algorithms_are_disabled example_openssl [''rsa'', ''sha1'', ''rsa-min-size=2048'', ''ecc-min-size=224'']
     DISABLED_BY_FIPS True = 0"
  by (rule removed_algorithms_fit_fips [OF example_removed]) simp

definition example_profile :: string where
  "example_profile = enc_json (JObject [(''Name'', JString ''custom:x''), (''Algorithms'', JString ''rsa,rsaes,sha1'')])"

definition example_profile_after :: string where
  "example_profile_after = enc_json (JObject [(''Name'', JString ''custom:x''),
     (''Algorithms'', JString ''rsa,sha1,ecc-min-size=224,rsa-min-size=2048''),
     (''Attributes'', JString ''no-sha1-signing,no-sha1-verification,no-unpadded-encryption'')])"

lemma example_profile_removed:
  "profile_remove_fips_disabled_algorithms example_json example_openssl None example_profile True = Some (0, example_profile_after)"
  "json_get_map_key_value example_json example_profile_after ''Algorithms'' = (0, Some ''rsa,sha1,ecc-min-size=224,rsa-min-size=2048'')"
  "json_get_map_key_value example_json example_profile_after ''Attributes'' =
     (0, Some ''no-sha1-signing,no-sha1-verification,no-unpadded-encryption'')"
  by code_simp+

definition example_fips_host :: ossl_env where
  "example_fips_host = \<lparr>fips_mode_enabled = True, fips_mode_disable_fails = True,
     enabled_algorithms = Some ''rsa,rsa-min-size=2048,sha1'',
     enabled_attributes = Some ''no-unpadded-encryption,no-sha1-signing,no-sha1-verification'',
     ossl_probe = (\<lambda>fips sha1. check_ossl_algorithms_are_disabled example_openssl), setenv_fails = True, sha1_env_set = False\<rparr>"

lemma example_reports:
  "reports (g_strsplit_comma ''rsa,sha1,ecc-min-size=224,rsa-min-size=2048'') (g_strsplit_comma ''rsa,rsa-min-size=2048,sha1'')"
  "set (g_strsplit_comma ''no-sha1-signing,no-sha1-verification,no-unpadded-encryption'') \<subseteq>
     set (g_strsplit_comma ''no-unpadded-encryption,no-sha1-signing,no-sha1-verification'')"
  by code_simp+

theorem fips_profile_keeps_openssl_witness:
  "tpmlib_maybe_configure_openssl example_fips_host TPMLIB_TPM_VERSION_2 = (True, example_fips_host)"
  by (rule fips_profile_keeps_openssl [OF example_json_ok example_profile_removed(1),
        where algs = "''rsa,rsa-min-size=2048,sha1''" and attrs = "''no-unpadded-encryption,no-sha1-signing,no-sha1-verification''"])
    (use example_reports in \<open>simp_all add: example_profile_removed example_fips_host_def\<close>)

end
