(* ===== verification/Bios.thy ===== *)
theory Bios
  imports Ioctl Options SwtpmIo
begin

section \<open>The BIOS emulator (src/src/swtpm_bios/tpm_bios.c)\<close>

text \<open>
  swtpm_bios sends a TPM the commands a BIOS sends at boot: Startup, and for a TPM 1.2 the commands that assert physical
  presence, enable and activate it, a self test, and giving up physical presence or, for a TPM 2, the platform password.
  Each command is sent on a connection of its own. The connection is a record of system calls on a state that stands for
  the other side.
\<close>

subsection \<open>Connections\<close>

text \<open>
  \<open>be_socket\<close>, \<open>be_connect\<close>: the Unix socket; \<open>be_getaddrinfo\<close>: for each address the descriptor of the socket and whether it
  connects; \<open>be_urandom\<close>: \<open>None\<close> if it cannot be opened, else what is read; \<open>be_stack\<close>: the bytes of the variable
  \<open>perm_flags\<close>, which is not initialized; \<open>be_signal_ok\<close>: whether the signal SIGPIPE can be ignored.
\<close>

record 'x bios_env =
  be_getenv :: "string \<Rightarrow> string option"
  be_socket :: "'x \<Rightarrow> int"
  be_connect :: "'x \<Rightarrow> string \<Rightarrow> bool"
  be_getaddrinfo :: "'x \<Rightarrow> string \<Rightarrow> string \<Rightarrow> (int \<times> bool) list option"
  be_open :: "'x \<Rightarrow> string \<Rightarrow> int"
  be_write :: "'x \<Rightarrow> bytes \<Rightarrow> int \<times> 'x"
  be_select :: "'x \<Rightarrow> nat \<Rightarrow> int \<times> 'x"
  be_read :: "'x \<Rightarrow> nat \<Rightarrow> bytes option \<times> 'x"
  be_close :: "'x \<Rightarrow> 'x"
  be_urandom :: "bytes option option"
  be_stack :: bytes
  be_signal_ok :: bool

record bios_target =
  g_tpm_device :: "string option"
  g_tcp_hostname :: "string option"
  g_tcp_port :: nat
  g_unix_path :: "string option"

abbreviation BIOS_TCP_PORT :: nat where "BIOS_TCP_PORT \<equiv> 6545"

definition bios_parse_tcp_optarg :: "bool \<Rightarrow> string \<Rightarrow> (string \<times> nat) option" where
  "bios_parse_tcp_optarg = tcp_optarg BIOS_TCP_PORT"

text \<open>The first address that connects; a socket that cannot be made is skipped.\<close>

fun connect_loop :: "int \<Rightarrow> (int \<times> bool) list \<Rightarrow> int" where
  "connect_loop fd [] = fd"
| "connect_loop fd ((s, ok) # ais) = (if s < 0 then connect_loop s ais else if ok then s else connect_loop (-1) ais)"

definition connect_tcp :: "'x bios_env \<Rightarrow> 'x \<Rightarrow> string \<Rightarrow> nat \<Rightarrow> int" where
  "connect_tcp env x host port =
     (case be_getaddrinfo env x host (take 9 (dec port)) of
        None \<Rightarrow> -1
      | Some ais \<Rightarrow> connect_loop (-1) ais)"

definition open_device :: "'x bios_env \<Rightarrow> 'x \<Rightarrow> string option \<Rightarrow> int" where
  "open_device env x devname =
     be_open env x (case devname of
        Some d \<Rightarrow> d
      | None \<Rightarrow> (case be_getenv env ''TPM_DEVICE'' of Some d \<Rightarrow> d | None \<Rightarrow> ''/dev/tpm0''))"

text \<open>\<open>atoi\<close> as an unsigned number. A Unix socket with descriptor 0 is not connected.\<close>

definition atoi_unsigned :: "string \<Rightarrow> nat" where
  "atoi_unsigned s = (case strto 10 s of None \<Rightarrow> 0 | Some (n, rest) \<Rightarrow> nat (n mod 2 ^ 32))"

definition bios_open_connection :: "'x bios_env \<Rightarrow> 'x \<Rightarrow> bios_target \<Rightarrow> int" where
  "bios_open_connection env x g =
     (if g_tpm_device g \<noteq> None then open_device env x (g_tpm_device g)
      else case g_tcp_hostname g of
        Some h \<Rightarrow> connect_tcp env x h (g_tcp_port g)
      | None \<Rightarrow>
      (case g_unix_path g of
         Some path \<Rightarrow>
           if length path + 1 > 108 then -1
           else
             let fd = be_socket env x in
             if fd > 0 then if be_connect env x path then fd else -1 else fd
       | None \<Rightarrow>
           if be_getenv env ''TCSD_USE_TCP_DEVICE'' \<noteq> None
           then connect_tcp env x
                  (case be_getenv env ''TCSD_TCP_DEVICE_HOSTNAME'' of Some h \<Rightarrow> h | None \<Rightarrow> ''localhost'')
                  (case be_getenv env ''TCSD_TCP_DEVICE_PORT'' of Some p \<Rightarrow> atoi_unsigned p | None \<Rightarrow> BIOS_TCP_PORT)
           else open_device env x None))"

subsection \<open>A command and its response\<close>

abbreviation TPM_DURATION_SHORT :: nat where "TPM_DURATION_SHORT \<equiv> 20"
abbreviation TPM_DURATION_LONG :: nat where "TPM_DURATION_LONG \<equiv> 600"

text \<open>The return value, the error code, which keeps its value unless there is a response, the buffer \<open>res\<close>, and the other side.\<close>

definition talk ::
  "'x bios_env \<Rightarrow> bios_target \<Rightarrow> 'x \<Rightarrow> bytes \<Rightarrow> nat \<Rightarrow> u32 \<Rightarrow> bytes \<Rightarrow> int \<times> u32 \<times> bytes \<times> 'x"
where
  "talk env g x cmd to_seconds tpm_errcode res =
     (if bios_open_connection env x g < 0 then (-1, tpm_errcode, res, x)
      else case be_write env x cmd of (len, x1) \<Rightarrow>
        if len < 0 \<or> nat len \<noteq> length cmd then (-1, tpm_errcode, res, be_close env x1)
        else case be_select env x1 to_seconds of (n, x2) \<Rightarrow>
          if n \<le> 0 then (-1, tpm_errcode, res, be_close env x2)
          else case be_read env x2 1024 of
            (None, x3) \<Rightarrow> (-1, tpm_errcode, res, be_close env x3)
          | (Some buffer, x3) \<Rightarrow>
              if length buffer < 10 then (-1, tpm_errcode, res, be_close env x3)
              else
                let pkt_len = be32toh (mem_read buffer 2 4) in
                if of_nat (length buffer) \<noteq> pkt_len then (-1, tpm_errcode, res, be_close env x3)
                else (0, be32toh (mem_read buffer 6 4), mem_write res 0 (take (min (unat pkt_len) (length res)) buffer),
                      be_close env x3))"

definition tpm_cmd :: "u16 \<Rightarrow> u32 \<Rightarrow> bytes \<Rightarrow> bytes" where
  "tpm_cmd tag ordinal params = htobe16 tag @ htobe32 (of_nat (10 + length params)) @ htobe32 ordinal @ params"

definition TPM_Startup :: "byte \<Rightarrow> bytes" where
  "TPM_Startup parm = tpm_cmd 0x00c1 0x99 (htobe16 (ucast parm))"

definition TSC_PhysicalPresence :: "u16 \<Rightarrow> bytes" where
  "TSC_PhysicalPresence physical_presence = tpm_cmd 0x00c1 0x4000000a (htobe16 physical_presence)"

definition TPM_GetCapability_Subcap :: "u32 \<Rightarrow> u32 \<Rightarrow> bytes" where
  "TPM_GetCapability_Subcap cap subcap = tpm_cmd 0x00c1 0x65 (htobe32 cap @ htobe32 4 @ htobe32 subcap)"

definition TPM_PhysicalEnable :: bytes where
  "TPM_PhysicalEnable = tpm_cmd 0x00c1 0x6f []"

definition TPM_PhysicalSetDeactivated :: "byte \<Rightarrow> bytes" where
  "TPM_PhysicalSetDeactivated parm = tpm_cmd 0x00c1 0x72 [parm]"

definition TPM_ContinueSelfTest :: bytes where
  "TPM_ContinueSelfTest = tpm_cmd 0x00c1 0x53 []"

definition TPM2_Startup :: "u16 \<Rightarrow> bytes" where
  "TPM2_Startup startup_type = tpm_cmd 0x8001 0x144 (htobe16 startup_type)"

definition TPM2_IncrementalSelfTest :: bytes where
  "TPM2_IncrementalSelfTest = tpm_cmd 0x8001 0x142 (htobe32 1 @ htobe16 0x000b)"

definition TPM2_HierarchyChangeAuth :: "bytes \<Rightarrow> bytes" where
  "TPM2_HierarchyChangeAuth newauth =
     tpm_cmd 0x8002 0x129 (htobe32 0x4000000c @ htobe32 9 @ (htobe32 0x40000009 @ htobe16 0 @ [1] @ htobe16 0) @ htobe16 20 @ newauth)"

subsection \<open>The sequences\<close>

text \<open>The local variables: \<open>ret\<close>, \<open>tpm_errcode\<close>, \<open>tpm_error\<close>, \<open>perm_flags\<close>, and the other side.\<close>

record 'x bios_state =
  bs_ret :: int
  bs_errcode :: u32
  bs_error :: bool
  bs_flags :: bytes
  bs_peer :: 'x

text \<open>A command whose response is only looked at for its result; the second form is for a command with a response.\<close>

definition bios_cmd :: "'x bios_env \<Rightarrow> bios_target \<Rightarrow> bytes \<Rightarrow> nat \<Rightarrow> 'x bios_state \<Rightarrow> 'x bios_state" where
  "bios_cmd env g cmd to s =
     (case talk env g (bs_peer s) cmd to (bs_errcode s) [] of (ret, errcode, res, x) \<Rightarrow>
        s\<lparr>bs_ret := ret, bs_errcode := errcode, bs_error := bs_error s \<or> errcode \<noteq> 0, bs_peer := x\<rparr>)"

definition bios_getflags :: "'x bios_env \<Rightarrow> bios_target \<Rightarrow> 'x bios_state \<Rightarrow> 'x bios_state" where
  "bios_getflags env g s =
     (case talk env g (bs_peer s) (TPM_GetCapability_Subcap 4 0x108) TPM_DURATION_SHORT (bs_errcode s) (bs_flags s) of
        (ret, errcode, res, x) \<Rightarrow>
          s\<lparr>bs_ret := ret, bs_errcode := errcode, bs_error := bs_error s \<or> errcode \<noteq> 0, bs_flags := res, bs_peer := x\<rparr>)"

definition bios_if :: "bool \<Rightarrow> ('x bios_state \<Rightarrow> 'x bios_state) \<Rightarrow> 'x bios_state \<Rightarrow> 'x bios_state" where
  "bios_if cond f s = (if bs_ret s = 0 \<and> cond then f s else s)"

text \<open>The flag for a deactivated TPM is byte 18 of the response.\<close>

definition check_reset :: "bool \<Rightarrow> 'x bios_state \<Rightarrow> 'x bios_state" where
  "check_reset ensure_activated s = (if ensure_activated \<and> bs_flags s ! 18 \<noteq> 0 then s\<lparr>bs_ret := 0x81\<rparr> else s)"

definition bios_exit :: "'x bios_state \<Rightarrow> int \<times> 'x" where
  "bios_exit s = (if bs_ret s = 0 \<and> bs_error s then 0x80 else bs_ret s, bs_peer s)"

definition bios_start :: "'x bios_env \<Rightarrow> 'x \<Rightarrow> 'x bios_state" where
  "bios_start env x = \<lparr>bs_ret = 0, bs_errcode = 0, bs_error = False, bs_flags = be_stack env, bs_peer = x\<rparr>"

definition tpm12_bios ::
  "'x bios_env \<Rightarrow> bios_target \<Rightarrow> 'x \<Rightarrow> bool \<Rightarrow> bool \<Rightarrow> byte \<Rightarrow> bool \<Rightarrow> bool \<Rightarrow> int \<times> 'x"
where
  "tpm12_bios env g x do_more contselftest startupparm unassert_pp ensure_activated =
     (let cmd = (\<lambda>c. bios_cmd env g c TPM_DURATION_SHORT);
          s1 = bios_if (startupparm \<noteq> 0xff) (cmd (TPM_Startup startupparm)) (bios_start env x);
          s2 = bios_if do_more (cmd (TSC_PhysicalPresence 0x20)) s1;
          s3 = bios_if do_more (cmd (TSC_PhysicalPresence 0x8)) s2;
          s4 = bios_if (do_more \<and> ensure_activated) (bios_getflags env g) s3;
          s5 = bios_if do_more (cmd TPM_PhysicalEnable) s4;
          s6 = bios_if do_more (\<lambda>s. check_reset ensure_activated (cmd (TPM_PhysicalSetDeactivated 0) s)) s5;
          s7 = bios_if contselftest (bios_cmd env g TPM_ContinueSelfTest TPM_DURATION_LONG) s6;
          s8 = bios_if unassert_pp (cmd (TSC_PhysicalPresence 0x20)) s7;
          s9 = bios_if unassert_pp (cmd (TSC_PhysicalPresence (0x10 OR 0x4))) s8
      in bios_exit s9)"

text \<open>The random password: when it cannot be read, no command is sent and the error code stays.\<close>

definition bios_password :: "'x bios_env \<Rightarrow> bios_target \<Rightarrow> 'x bios_state \<Rightarrow> 'x bios_state" where
  "bios_password env g s =
     (let failed = s\<lparr>bs_ret := -1, bs_error := bs_error s \<or> bs_errcode s \<noteq> 0\<rparr> in
      case be_urandom env of
        None \<Rightarrow> failed
      | Some None \<Rightarrow> failed
      | Some (Some b) \<Rightarrow>
          if length b < 20 then failed
          else bios_cmd env g (TPM2_HierarchyChangeAuth (take 20 b)) TPM_DURATION_SHORT s)"

definition tpm2_bios :: "'x bios_env \<Rightarrow> bios_target \<Rightarrow> 'x \<Rightarrow> bool \<Rightarrow> byte \<Rightarrow> bool \<Rightarrow> int \<times> 'x" where
  "tpm2_bios env g x contselftest startupparm set_password =
     (let s1 = bios_if (startupparm \<noteq> 0xff) (bios_cmd env g (TPM2_Startup (ucast startupparm)) TPM_DURATION_SHORT) (bios_start env x);
          s2 = bios_if contselftest (bios_cmd env g TPM2_IncrementalSelfTest TPM_DURATION_SHORT) s1;
          s3 = bios_if set_password (bios_password env g) s2
      in bios_exit s3)"

subsection \<open>Options\<close>

text \<open>The options that \<open>getopt\<close> delivers; \<open>Opt_bad\<close> stands for one it does not know. Without memory the program ends.\<close>

datatype bios_opt =
    Opt_device string | Opt_tcp string | Opt_unix string | Opt_c | Opt_d | Opt_h | Opt_v | Opt_n | Opt_s | Opt_o | Opt_cs | Opt_ea
  | Opt_u | Opt_tpm2 | Opt_bad

record bios_params =
  bp_target :: bios_target
  bp_do_more :: bool
  bp_ensure_activated :: bool
  bp_contselftest :: bool
  bp_startupparm :: byte
  bp_startupparm_tpm2 :: byte
  bp_unassert_pp :: bool
  bp_tpm2 :: bool

definition bios_defaults :: bios_params where
  "bios_defaults =
     \<lparr>bp_target = \<lparr>g_tpm_device = None, g_tcp_hostname = None, g_tcp_port = BIOS_TCP_PORT, g_unix_path = None\<rparr>,
      bp_do_more = True, bp_ensure_activated = False, bp_contselftest = False, bp_startupparm = 1, bp_startupparm_tpm2 = 0,
      bp_unassert_pp = False, bp_tpm2 = False\<rparr>"

text \<open>\<open>Inl\<close> is an exit status. There is no case for \<open>-v\<close>, which the usage lists.\<close>

fun bios_option :: "(string \<Rightarrow> bool) \<Rightarrow> bios_params \<Rightarrow> bios_opt \<Rightarrow> int + bios_params" where
  "bios_option strdup_ok p (Opt_device d) =
     (if strdup_ok d then Inr (p\<lparr>bp_target := (bp_target p)\<lparr>g_tpm_device := Some d\<rparr>\<rparr>) else Inl 1)"
| "bios_option strdup_ok p (Opt_tcp a) =
     (case bios_parse_tcp_optarg (strdup_ok a) a of
        None \<Rightarrow> Inl 1
      | Some (h, port) \<Rightarrow> Inr (p\<lparr>bp_target := (bp_target p)\<lparr>g_tcp_hostname := Some h, g_tcp_port := port\<rparr>\<rparr>))"
| "bios_option strdup_ok p (Opt_unix u) =
     (if strdup_ok u then Inr (p\<lparr>bp_target := (bp_target p)\<lparr>g_unix_path := Some u\<rparr>\<rparr>) else Inl 1)"
| "bios_option strdup_ok p Opt_c = Inr (p\<lparr>bp_startupparm := 1, bp_startupparm_tpm2 := 0, bp_do_more := True\<rparr>)"
| "bios_option strdup_ok p Opt_d = Inr (p\<lparr>bp_startupparm := 3, bp_startupparm_tpm2 := 0xff, bp_do_more := False\<rparr>)"
| "bios_option strdup_ok p Opt_h = Inl 0"
| "bios_option strdup_ok p Opt_n = Inr (p\<lparr>bp_startupparm := 0xff, bp_startupparm_tpm2 := 0xff, bp_do_more := True\<rparr>)"
| "bios_option strdup_ok p Opt_s = Inr (p\<lparr>bp_startupparm := 2, bp_startupparm_tpm2 := 1, bp_do_more := True\<rparr>)"
| "bios_option strdup_ok p Opt_o = Inr (p\<lparr>bp_do_more := False\<rparr>)"
| "bios_option strdup_ok p Opt_cs = Inr (p\<lparr>bp_contselftest := True\<rparr>)"
| "bios_option strdup_ok p Opt_ea = Inr (p\<lparr>bp_ensure_activated := True\<rparr>)"
| "bios_option strdup_ok p Opt_u = Inr (p\<lparr>bp_unassert_pp := True\<rparr>)"
| "bios_option strdup_ok p Opt_tpm2 = Inr (p\<lparr>bp_tpm2 := True\<rparr>)"
| "bios_option strdup_ok p _ = Inl 1"

fun bios_options :: "(string \<Rightarrow> bool) \<Rightarrow> bios_params \<Rightarrow> bios_opt list \<Rightarrow> int + bios_params" where
  "bios_options strdup_ok p [] = Inr p"
| "bios_options strdup_ok p (opt # opts) =
     (case bios_option strdup_ok p opt of Inl e \<Rightarrow> Inl e | Inr p1 \<Rightarrow> bios_options strdup_ok p1 opts)"

definition bios_main :: "'x bios_env \<Rightarrow> (string \<Rightarrow> bool) \<Rightarrow> 'x \<Rightarrow> bios_opt list \<Rightarrow> int \<times> 'x" where
  "bios_main env strdup_ok x opts =
     (case bios_options strdup_ok bios_defaults opts of
        Inl e \<Rightarrow> (e, x)
      | Inr p \<Rightarrow>
          if \<not> be_signal_ok env then (1, x)
          else if bp_tpm2 p
          then tpm2_bios env (bp_target p) x (bp_contselftest p) (bp_startupparm_tpm2 p) (bp_unassert_pp p)
          else tpm12_bios env (bp_target p) x (bp_do_more p) (bp_contselftest p) (bp_startupparm p) (bp_unassert_pp p)
                 (bp_ensure_activated p))"

subsection \<open>Requests\<close>

text \<open>
  A request is well formed when the server reads it as one request with its buffer of 4096 bytes and the size field is its length.
\<close>

definition bios_request_ok :: "bytes \<Rightarrow> bool" where
  "bios_request_ok req \<longleftrightarrow>
     SWTPM_IO_Read 0 4096 [RdBytes req] = (Inr req, []) \<and> be32toh (mem_read req 2 4) = of_nat (length req)"

lemma tpm_cmd_ok:
  assumes "length params \<le> 4000"
  shows "bios_request_ok (tpm_cmd tag ordinal params)"
proof -
  have "mem_read (tpm_cmd tag ordinal params) 2 4 = htobe32 (of_nat (10 + length params))"
    by (simp add: tpm_cmd_def mem_read_def)
  moreover have "length (tpm_cmd tag ordinal params) = 10 + length params" by (simp add: tpm_cmd_def)
  moreover from this have "tpm_cmd tag ordinal params \<noteq> []" by auto
  ultimately show ?thesis
    using assms by (simp add: bios_request_ok_def SWTPM_IO_Read_def Let_def)
qed

lemma bios_commands_ok [simp]:
  "bios_request_ok (TPM_Startup b)" "bios_request_ok (TSC_PhysicalPresence p)" "bios_request_ok (TPM_GetCapability_Subcap c sc)"
  "bios_request_ok TPM_PhysicalEnable" "bios_request_ok (TPM_PhysicalSetDeactivated b)" "bios_request_ok TPM_ContinueSelfTest"
  "bios_request_ok (TPM2_Startup st)" "bios_request_ok TPM2_IncrementalSelfTest"
  "length auth = 20 \<Longrightarrow> bios_request_ok (TPM2_HierarchyChangeAuth auth)"
  by (auto simp: TPM_Startup_def TSC_PhysicalPresence_def TPM_GetCapability_Subcap_def TPM_PhysicalEnable_def
    TPM_PhysicalSetDeactivated_def TPM_ContinueSelfTest_def TPM2_Startup_def TPM2_IncrementalSelfTest_def
    TPM2_HierarchyChangeAuth_def intro!: tpm_cmd_ok)

text \<open>The same environment that also keeps what is written.\<close>

definition logged :: "'x bios_env \<Rightarrow> ('x \<times> bytes list) bios_env" where
  "logged env =
     \<lparr>be_getenv = be_getenv env, be_socket = be_socket env \<circ> fst, be_connect = be_connect env \<circ> fst,
      be_getaddrinfo = be_getaddrinfo env \<circ> fst, be_open = be_open env \<circ> fst,
      be_write = (\<lambda>(x, l) b. map_prod id (\<lambda>x1. (x1, l @ [b])) (be_write env x b)),
      be_select = (\<lambda>(x, l) t. map_prod id (\<lambda>x1. (x1, l)) (be_select env x t)),
      be_read = (\<lambda>(x, l) n. map_prod id (\<lambda>x1. (x1, l)) (be_read env x n)),
      be_close = map_prod (be_close env) id, be_urandom = be_urandom env, be_stack = be_stack env, be_signal_ok = be_signal_ok env\<rparr>"

lemma talk_logged:
  "talk (logged env) g x cmd to e res = (r, e1, res1, x1) \<Longrightarrow> snd x1 = snd x \<or> snd x1 = snd x @ [cmd]"
  by (cases x) (auto simp: talk_def logged_def Let_def map_prod_def split: prod.splits option.splits if_splits)

text \<open>A step that sends only well formed requests.\<close>

definition sends_ok :: "(('x \<times> bytes list) bios_state \<Rightarrow> ('x \<times> bytes list) bios_state) \<Rightarrow> bool" where
  "sends_ok f \<longleftrightarrow> (\<forall>s. list_all bios_request_ok (snd (bs_peer s)) \<longrightarrow> list_all bios_request_ok (snd (bs_peer (f s))))"

lemma sends_ok_cmd [simp]: "bios_request_ok cmd \<Longrightarrow> sends_ok (bios_cmd (logged env) g cmd to)"
  unfolding sends_ok_def bios_cmd_def using talk_logged [of env g _ cmd] by (fastforce split: prod.splits)

lemma sends_ok_getflags [simp]: "sends_ok (bios_getflags (logged env) g)"
  unfolding sends_ok_def bios_getflags_def using talk_logged [of env g _ "TPM_GetCapability_Subcap 4 0x108"]
  by (fastforce split: prod.splits)

lemma sends_ok_if: "sends_ok f \<Longrightarrow> list_all bios_request_ok (snd (bs_peer s)) \<Longrightarrow> list_all bios_request_ok (snd (bs_peer (bios_if c f s)))"
  by (simp add: sends_ok_def bios_if_def)

lemma sends_ok_reset: "sends_ok f \<Longrightarrow> sends_ok (\<lambda>s. check_reset c (f s))"
  by (simp add: sends_ok_def check_reset_def)

lemma sends_ok_password: "sends_ok (bios_password (logged env) g)"
  using sends_ok_cmd [of "TPM2_HierarchyChangeAuth _" env g TPM_DURATION_SHORT]
  by (auto simp: sends_ok_def bios_password_def Let_def split: option.splits)

text \<open>
  C26. Whatever the options and however the connections and the TPM behave, every request swtpm_bios writes is one TPM command with
  the right size field, which the server reads as one request.
\<close>

theorem bios_requests_well_formed:
  "list_all bios_request_ok (snd (snd (bios_main (logged env) strdup_ok (x, []) opts)))"
proof -
  have s: "list_all bios_request_ok (snd (bs_peer (bios_start (logged env) (x, []))))" by (simp add: bios_start_def)
  have "list_all bios_request_ok (snd (snd (tpm2_bios (logged env) g (x, []) cst st pw)))" for g cst st pw
    unfolding tpm2_bios_def bios_exit_def Let_def snd_conv by (intro sends_ok_if s sends_ok_password) simp_all
  moreover have "list_all bios_request_ok (snd (snd (tpm12_bios (logged env) g (x, []) dm cst st pp ea)))" for g dm cst st pp ea
    unfolding tpm12_bios_def bios_exit_def Let_def snd_conv by (intro sends_ok_if s sends_ok_reset) simp_all
  ultimately show ?thesis by (simp add: bios_main_def split: sum.split)
qed

subsection \<open>With a TPM that answers\<close>

text \<open>
  \<open>f\<close> is the TPM: from its state and a request the response and the new state. The other side keeps the requests. How the
  connection is opened is that of \<open>base\<close>; it has to succeed each time.
\<close>

definition tpm_env ::
  "('t \<times> bytes list \<times> bytes) bios_env \<Rightarrow> ('t \<Rightarrow> bytes \<Rightarrow> bytes \<times> 't) \<Rightarrow> bytes \<Rightarrow> bytes \<Rightarrow> ('t \<times> bytes list \<times> bytes) bios_env"
where
  "tpm_env base f rnd stack =
     base\<lparr>be_write := (\<lambda>(t, l, r) b. (int (length b), case f t b of (rsp, t1) \<Rightarrow> (t1, l @ [b], rsp))),
      be_select := (\<lambda>x _. (1, x)), be_read := (\<lambda>(t, l, r) n. (Some (take n r), (t, l, drop n r))), be_close := (\<lambda>x. x),
      be_urandom := Some (Some rnd), be_stack := stack\<rparr>"

definition connects :: "'x bios_env \<Rightarrow> bios_target \<Rightarrow> bool" where
  "connects base g \<longleftrightarrow> (\<forall>x. 0 \<le> bios_open_connection base x g)"

lemma open_tpm_env: "bios_open_connection (tpm_env base f rnd stack) x g = bios_open_connection base x g"
proof -
  let ?env = "tpm_env base f rnd stack"
  have e: "be_getenv ?env = be_getenv base" "be_socket ?env = be_socket base" "be_connect ?env = be_connect base"
    "be_getaddrinfo ?env = be_getaddrinfo base" "be_open ?env = be_open base"
    by (simp_all add: tpm_env_def)
  show ?thesis unfolding bios_open_connection_def open_device_def connect_tcp_def e ..
qed

definition resp_ok :: "bytes \<Rightarrow> bool" where
  "resp_ok rsp \<longleftrightarrow> 10 \<le> length rsp \<and> length rsp \<le> 1024 \<and> be32toh (mem_read rsp 2 4) = of_nat (length rsp)"

definition answers :: "('t \<Rightarrow> bytes \<Rightarrow> bytes \<times> 't) \<Rightarrow> bool" where
  "answers f \<longleftrightarrow> (\<forall>t c. resp_ok (fst (f t c)))"

definition resp_code :: "bytes \<Rightarrow> u32" where
  "resp_code rsp = be32toh (mem_read rsp 6 4)"

fun run_cmds :: "('t \<Rightarrow> bytes \<Rightarrow> bytes \<times> 't) \<Rightarrow> 't \<Rightarrow> bytes list \<Rightarrow> bytes list \<times> 't" where
  "run_cmds f t [] = ([], t)"
| "run_cmds f t (c # cs) = (case f t c of (rsp, t1) \<Rightarrow> case run_cmds f t1 cs of (rs, t2) \<Rightarrow> (rsp # rs, t2))"

lemma run_cmds_append:
  "run_cmds f t (cs @ ds) = (case run_cmds f t cs of (rs, t1) \<Rightarrow> case run_cmds f t1 ds of (qs, t2) \<Rightarrow> (rs @ qs, t2))"
  by (induction cs arbitrary: t) (auto split: prod.splits)

text \<open>The program has sent \<open>cs\<close> and goes on; \<open>bs_error\<close> says whether one of the responses was an error.\<close>

definition sent_so_far :: "('t \<Rightarrow> bytes \<Rightarrow> bytes \<times> 't) \<Rightarrow> 't \<Rightarrow> ('t \<times> bytes list \<times> bytes) bios_state \<Rightarrow> bytes list \<Rightarrow> bool" where
  "sent_so_far f t s cs \<longleftrightarrow> bs_ret s = 0 \<and> fst (bs_peer s) = snd (run_cmds f t cs) \<and> fst (snd (bs_peer s)) = cs \<and>
     bs_error s = (\<exists>r\<in>set (fst (run_cmds f t cs)). resp_code r \<noteq> 0)"

lemma talk_tpm:
  assumes "answers f" "connects base g"
  shows "talk (tpm_env base f rnd stack) g (t, l, r) cmd to e res =
    (0, resp_code (fst (f t cmd)), mem_write res 0 (take (length res) (fst (f t cmd))),
     (snd (f t cmd), l @ [cmd], []))"
proof -
  obtain rsp t1 where f: "f t cmd = (rsp, t1)" by fastforce
  then have r: "10 \<le> length rsp" "length rsp \<le> 1024" "be32toh (mem_read rsp 2 4) = of_nat (length rsp)"
    using assms(1) unfolding answers_def resp_ok_def by (metis fst_conv)+
  have "unat (of_nat (length rsp) :: u32) = length rsp" using r(2) by (simp add: unat_of_nat take_bit_nat_eq_self)
  moreover have "\<not> bios_open_connection (tpm_env base f rnd stack) x g < 0" for x
    unfolding open_tpm_env using assms(2) unfolding connects_def not_less by blast
  moreover have "take (min (length rsp) (length res)) rsp = take (length res) rsp" by (simp add: min_def)
  ultimately show ?thesis using f r by (simp add: talk_def tpm_env_def Let_def resp_code_def)
qed

lemma bios_cmd_flags [simp]: "bs_flags (bios_if c (bios_cmd env g cmd to) s) = bs_flags s"
  by (simp add: bios_if_def bios_cmd_def split: prod.split)

lemma bios_cmd_sent:
  assumes "sent_so_far f t s cs" "answers f" "connects base g"
  shows "sent_so_far f t (bios_if c (bios_cmd (tpm_env base f rnd stack) g cmd to) s) (cs @ (if c then [cmd] else []))"
proof -
  obtain t1 l r where p: "bs_peer s = (t1, l, r)" by (cases "bs_peer s")
  obtain rsp t2 where f: "f t1 cmd = (rsp, t2)" by fastforce
  note k = talk_tpm [where t = t1 and cmd = cmd and rnd = rnd and stack = stack, OF assms(2,3)]
  show ?thesis
    using assms(1) p f k by (auto simp: sent_so_far_def bios_if_def bios_cmd_def run_cmds_append split: prod.splits)
qed

lemma sent_step:
  assumes "answers f" "connects base g" "sent_so_far f t s cs" "ds = cs @ (if c then [cmd] else [])"
  shows "sent_so_far f t (bios_if c (bios_cmd (tpm_env base f rnd stack) g cmd to) s) ds"
  using bios_cmd_sent [OF assms(3,1,2)] assms(4) by simp

lemma bios_exit_sent:
  assumes "sent_so_far f t s cs"
  shows "\<exists>r. bios_exit s = (if \<exists>r\<in>set (fst (run_cmds f t cs)). resp_code r \<noteq> 0 then 0x80 else 0, snd (run_cmds f t cs), cs, r)"
  using assms by (cases "bs_peer s") (auto simp: sent_so_far_def bios_exit_def)

lemma bios_start_sent: "sent_so_far f t (bios_start (tpm_env base f rnd stack) (t, [], r)) []"
  by (simp add: sent_so_far_def bios_start_def)

text \<open>
  A TPM 2 to which every connection succeeds and which answers every request gets exactly the commands that were asked for, in the order Startup, self test, platform
  password, each once and whatever it answers to the others, and the exit status is 0 exactly when all succeeded, else 128.
\<close>

theorem tpm2_bios_sequence:
  assumes "answers f" "connects base g" "20 \<le> length rnd"
    and "cs = (if st \<noteq> 0xff then [TPM2_Startup (ucast st)] else []) @ (if cst then [TPM2_IncrementalSelfTest] else []) @
      (if pw then [TPM2_HierarchyChangeAuth (take 20 rnd)] else [])"
  shows "\<exists>r. tpm2_bios (tpm_env base f rnd stack) g (t, [], r0) cst st pw =
    (if \<exists>r\<in>set (fst (run_cmds f t cs)). resp_code r \<noteq> 0 then 0x80 else 0, snd (run_cmds f t cs), cs, r)"
proof -
  have pw: "bios_password (tpm_env base f rnd stack) g = bios_cmd (tpm_env base f rnd stack) g (TPM2_HierarchyChangeAuth (take 20 rnd)) TPM_DURATION_SHORT"
    using assms(3) by (auto simp: bios_password_def tpm_env_def fun_eq_iff)
  note step = bios_cmd_sent [OF _ assms(1,2)]
  show ?thesis
    unfolding tpm2_bios_def Let_def pw assms(4)
    by (rule bios_exit_sent) (use step [OF step [OF step [OF bios_start_sent]]] in \<open>simp only: append_Nil append_assoc\<close>)
qed


text \<open>Reading the flags is a command too, and the flag then is the one of its response.\<close>

lemma bios_getflags_sent:
  assumes "sent_so_far f t s cs" "answers f" "connects base g"
  shows "sent_so_far f t (bios_if c (bios_getflags (tpm_env base f rnd stack) g) s) (cs @ (if c then [TPM_GetCapability_Subcap 4 0x108] else []))"
    and "c \<Longrightarrow> bs_flags (bios_if c (bios_getflags (tpm_env base f rnd stack) g) s) =
      (let rsp = fst (f (snd (run_cmds f t cs)) (TPM_GetCapability_Subcap 4 0x108))
       in mem_write (bs_flags s) 0 (take (length (bs_flags s)) rsp))"
proof -
  let ?cmd = "TPM_GetCapability_Subcap 4 0x108"
  obtain t1 l r where p: "bs_peer s = (t1, l, r)" by (cases "bs_peer s")
  obtain rsp t2 where f: "f t1 ?cmd = (rsp, t2)" by fastforce
  note k = talk_tpm [where t = t1 and cmd = ?cmd and rnd = rnd and stack = stack, OF assms(2,3)]
  show "sent_so_far f t (bios_if c (bios_getflags (tpm_env base f rnd stack) g) s) (cs @ (if c then [?cmd] else []))"
    using assms(1) p f k by (auto simp: sent_so_far_def bios_if_def bios_getflags_def run_cmds_append split: prod.splits)
  show "bs_flags (bios_if c (bios_getflags (tpm_env base f rnd stack) g) s) =
      (let rsp = fst (f (snd (run_cmds f t cs)) ?cmd) in mem_write (bs_flags s) 0 (take (length (bs_flags s)) rsp))" if c
    using that assms(1) p k by (simp add: bios_if_def bios_getflags_def sent_so_far_def)
qed

lemma bios_if_reset:
  "bs_ret s = 0 \<Longrightarrow> bios_if c (\<lambda>s. check_reset ea (h s)) s = (if c then check_reset ea (bios_if c h s) else bios_if c h s)"
  by (simp add: bios_if_def)

lemma mem_write_prefix_nth: "i < length xs \<Longrightarrow> mem_write xs 0 (take (length xs) ys) ! i = (if i < length ys then ys ! i else xs ! i)"
  by (auto simp: mem_write_def nth_append)

text \<open>The commands of a TPM 1.2 up to the point where a deactivated TPM ends the program, and the ones after it.\<close>

definition tpm12_first :: "bool \<Rightarrow> byte \<Rightarrow> bytes list" where
  "tpm12_first do_more startupparm =
     (if startupparm \<noteq> 0xff then [TPM_Startup startupparm] else []) @
     (if do_more then [TSC_PhysicalPresence 0x20, TSC_PhysicalPresence 0x8] else [])"

definition tpm12_enable :: "bool \<Rightarrow> bool \<Rightarrow> bytes list" where
  "tpm12_enable do_more ensure_activated =
     (if do_more \<and> ensure_activated then [TPM_GetCapability_Subcap 4 0x108] else []) @
     (if do_more then [TPM_PhysicalEnable, TPM_PhysicalSetDeactivated 0] else [])"

definition tpm12_rest :: "bool \<Rightarrow> bool \<Rightarrow> bytes list" where
  "tpm12_rest contselftest unassert_pp =
     (if contselftest then [TPM_ContinueSelfTest] else []) @
     (if unassert_pp then [TSC_PhysicalPresence 0x20, TSC_PhysicalPresence 0x14] else [])"

text \<open>
  The flag that is tested is byte 18 of the response to the request for the flags, which the TPM gets after the first commands. A shorter response, as
  that for an error, does not reach this byte, and what the variable held before is tested: it is not initialized.
\<close>

definition deactivated_flag :: "('t \<Rightarrow> bytes \<Rightarrow> bytes \<times> 't) \<Rightarrow> bytes \<Rightarrow> 't \<Rightarrow> bytes list \<Rightarrow> bool" where
  "deactivated_flag f stack t cs \<longleftrightarrow>
     (let rsp = fst (f (snd (run_cmds f t cs)) (TPM_GetCapability_Subcap 4 0x108))
      in (if 18 < length rsp then rsp ! 18 else stack ! 18) \<noteq> 0)"

text \<open>
  C25. A TPM 1.2 to which every connection succeeds and which answers every request gets exactly the commands that were asked for, in order
  and each once. When the program has to make sure that the TPM is active and the byte for the flag is not 0, it ends after activating the TPM with
  status 129, which asks for a reset; else all commands are sent and the status is 0 exactly when all succeeded, else 128. The
  byte is the TPM's answer when its response has more than 18 bytes, and the uninitialized \<open>stack\<close> otherwise.
\<close>

theorem tpm12_bios_sequence:
  assumes "answers f" "connects base g" "19 \<le> length stack"
    and "cs = tpm12_first dm sp @ tpm12_enable dm ea"
  shows "\<exists>r. tpm12_bios (tpm_env base f rnd stack) g (t, [], r0) dm cst sp pp ea =
    (if dm \<and> ea \<and> deactivated_flag f stack t (tpm12_first dm sp) then (0x81, snd (run_cmds f t cs), cs, r)
     else (if \<exists>r\<in>set (fst (run_cmds f t (cs @ tpm12_rest cst pp))). resp_code r \<noteq> 0 then 0x80 else 0,
           snd (run_cmds f t (cs @ tpm12_rest cst pp)), cs @ tpm12_rest cst pp, r))"
proof -
  let ?env = "tpm_env base f rnd stack"
  let ?if = "\<lambda>c cmd. bios_if c (bios_cmd ?env g cmd TPM_DURATION_SHORT)"
  define s1 where "s1 = ?if dm (TSC_PhysicalPresence 8) (?if dm (TSC_PhysicalPresence 0x20)
    (?if (sp \<noteq> 0xff) (TPM_Startup sp) (bios_start ?env (t, [], r0))))"
  define s2 where "s2 = bios_if (dm \<and> ea) (bios_getflags ?env g) s1"
  define s3 where "s3 = ?if dm (TPM_PhysicalSetDeactivated 0) (?if dm TPM_PhysicalEnable s2)"
  define rest where "rest = (\<lambda>s. ?if pp (TSC_PhysicalPresence 0x14) (?if pp (TSC_PhysicalPresence 0x20)
    (bios_if cst (bios_cmd ?env g TPM_ContinueSelfTest TPM_DURATION_LONG) s)))"
  define reset where "reset \<longleftrightarrow> dm \<and> ea \<and> deactivated_flag f stack t (tpm12_first dm sp)"
  note step = sent_step [OF assms(1,2)]
  have s1: "sent_so_far f t s1 (tpm12_first dm sp)"
    unfolding s1_def tpm12_first_def by (rule step, rule step, rule step, rule bios_start_sent, rule refl, rule refl) simp
  note flags = bios_getflags_sent [OF s1 assms(1,2), where c = "dm \<and> ea" and rnd = rnd and stack = stack, folded s2_def]
  have s3: "sent_so_far f t s3 cs"
    unfolding s3_def assms(4) tpm12_enable_def by (rule step, rule step, rule flags(1), rule refl) simp
  have "bs_flags s3 ! 18 \<noteq> 0 \<longleftrightarrow> deactivated_flag f stack t (tpm12_first dm sp)" if "dm \<and> ea"
  proof -
    have "bs_flags s3 = bs_flags s2" by (simp add: s3_def)
    moreover have "bs_flags s1 = stack" by (simp add: s1_def bios_start_def tpm_env_def)
    ultimately show ?thesis
      using flags(2) that mem_write_prefix_nth [of 18 stack] assms(3) by (simp add: Let_def deactivated_flag_def)
  qed
  moreover have ret: "bs_ret (?if dm TPM_PhysicalEnable s2) = 0"
    using step [OF flags(1) refl] by (simp add: sent_so_far_def)
  ultimately have s4: "bios_if dm (\<lambda>s. check_reset ea (bios_cmd ?env g (TPM_PhysicalSetDeactivated 0) TPM_DURATION_SHORT s)) (?if dm TPM_PhysicalEnable s2) =
    (if reset then s3\<lparr>bs_ret := 0x81\<rparr> else s3)"
    unfolding bios_if_reset [OF ret] s3_def [symmetric] by (auto simp: reset_def check_reset_def)
  have all: "sent_so_far f t (rest s3) (cs @ tpm12_rest cst pp)"
    unfolding rest_def tpm12_rest_def by (rule step, rule step, rule step, rule s3, rule refl, rule refl) simp
  have "tpm12_bios ?env g (t, [], r0) dm cst sp pp ea =
    bios_exit (rest (if reset then s3\<lparr>bs_ret := 0x81\<rparr> else s3))"
    unfolding tpm12_bios_def Let_def s4 [symmetric] rest_def s2_def s1_def by simp
  moreover have "\<exists>r. bios_exit (rest (s3\<lparr>bs_ret := 0x81\<rparr>)) = (0x81, snd (run_cmds f t cs), cs, r)"
    using s3 by (cases "bs_peer s3") (simp add: rest_def bios_if_def bios_exit_def sent_so_far_def)
  ultimately show ?thesis using bios_exit_sent [OF all] unfolding reset_def [symmetric] by (cases reset) simp_all
qed


subsection \<open>An example\<close>

text \<open>A TPM that counts the requests and answers 30 bytes; the byte for the flag is 1, and self tests fail.\<close>

definition example_bios_tpm :: "int \<Rightarrow> bytes \<Rightarrow> bytes \<times> int" where
  "example_bios_tpm n req =
     (htobe16 0x00c4 @ htobe32 30 @ htobe32 (if be32toh (mem_read req 6 4) \<in> {0x53, 0x142} then 1 else 0) @
      replicate 8 0 @ [1] @ replicate 11 0, n + 1)"

definition example_target :: bios_target where
  "example_target = \<lparr>g_tpm_device = None, g_tcp_hostname = Some ''localhost'', g_tcp_port = BIOS_TCP_PORT, g_unix_path = None\<rparr>"

text \<open>Only the second address connects.\<close>

definition example_connection :: "(int \<times> bytes list \<times> bytes) bios_env" where
  "example_connection =
     \<lparr>be_getenv = (\<lambda>_. None), be_socket = (\<lambda>_. -1), be_connect = (\<lambda>_ _. False), be_getaddrinfo = (\<lambda>_ _ _. Some [(3, False), (4, True)]),
      be_open = (\<lambda>_ _. -1), be_write = (\<lambda>x b. (-1, x)), be_select = (\<lambda>x _. (-1, x)), be_read = (\<lambda>x n. (None, x)), be_close = (\<lambda>x. x),
      be_urandom = None, be_stack = [], be_signal_ok = True\<rparr>"

lemma example_connects: "connects example_connection example_target"
  by (simp add: connects_def bios_open_connection_def example_target_def connect_tcp_def example_connection_def)

lemma tpm_cmd_ordinal: "be32toh (mem_read (tpm_cmd tag ordinal params) 6 4) = ordinal"
  by (simp add: tpm_cmd_def mem_read_def)

lemma example_bios_tpm_response:
  "length (fst (example_bios_tpm n req)) = 30" "be32toh (mem_read (fst (example_bios_tpm n req)) 2 4) = 30"
  "resp_code (fst (example_bios_tpm n req)) = (if be32toh (mem_read req 6 4) \<in> {0x53, 0x142} then 1 else 0)"
  "fst (example_bios_tpm n req) ! 18 = 1" "snd (example_bios_tpm n req) = n + 1"
  by (simp_all add: example_bios_tpm_def resp_code_def mem_read_def nth_append)

lemma example_bios_tpm_answers: "answers example_bios_tpm"
  by (simp add: answers_def resp_ok_def example_bios_tpm_response)

lemma run_cmds_step:
  "fst (run_cmds f t (c # cs)) = fst (f t c) # fst (run_cmds f (snd (f t c)) cs)"
  "snd (run_cmds f t (c # cs)) = snd (run_cmds f (snd (f t c)) cs)"
  by (simp_all split: prod.split)

text \<open>Startup succeeds, the self test fails, the password is still set, and the status is 128.\<close>

theorem tpm2_bios_sequence_witness:
  "\<exists>r. tpm2_bios (tpm_env example_connection example_bios_tpm (replicate 20 7) []) example_target (0, [], []) True 0 True =
     (0x80, 3, [TPM2_Startup 0, TPM2_IncrementalSelfTest, TPM2_HierarchyChangeAuth (replicate 20 7)], r)"
  using tpm2_bios_sequence [where f = example_bios_tpm and g = example_target and stack = "[]" and rnd = "replicate 20 7" and t = 0
    and st = 0 and cst = True and pw = True and ?r0.0 = "[]", OF example_bios_tpm_answers example_connects _ refl]
  by (simp add: example_target_def example_bios_tpm_response run_cmds_step TPM2_IncrementalSelfTest_def tpm_cmd_ordinal del: run_cmds.simps(2))

text \<open>
  The TPM reports the flag: the self test is not sent. A TPM that answers every request with an error of ten bytes makes the program ask for a reset
  or not as the uninitialized byte has it.
\<close>

definition failing_tpm :: "int \<Rightarrow> bytes \<Rightarrow> bytes \<times> int" where
  "failing_tpm n req = (htobe16 0x00c4 @ htobe32 10 @ htobe32 1, n + 1)"

lemma failing_tpm_answers: "answers failing_tpm" "length (fst (failing_tpm n req)) = 10" "snd (failing_tpm n req) = n + 1"
  "resp_code (fst (failing_tpm n req)) = 1"
  by (simp_all add: answers_def resp_ok_def failing_tpm_def mem_read_def resp_code_def)

theorem tpm12_bios_sequence_witness:
  "(\<exists>r. tpm12_bios (tpm_env example_connection example_bios_tpm [] (replicate 30 0)) example_target (0, [], []) True True 1 False True =
     (0x81, 6, [TPM_Startup 1, TSC_PhysicalPresence 0x20, TSC_PhysicalPresence 8, TPM_GetCapability_Subcap 4 0x108,
                TPM_PhysicalEnable, TPM_PhysicalSetDeactivated 0], r)) \<and>
   fst (tpm12_bios (tpm_env example_connection failing_tpm [] (replicate 30 0)) example_target (0, [], []) True True 1 False True) = 0x80 \<and>
   fst (tpm12_bios (tpm_env example_connection failing_tpm [] (replicate 30 1)) example_target (0, [], []) True True 1 False True) = 0x81"
proof (intro conjI)
  note seq = tpm12_bios_sequence [OF _ example_connects _ refl, where rnd = "[]" and t = 0
    and dm = True and ea = True and sp = 1 and cst = True and pp = False and ?r0.0 = "[]"]
  show "\<exists>r. tpm12_bios (tpm_env example_connection example_bios_tpm [] (replicate 30 0)) example_target (0, [], []) True True 1 False True =
     (0x81, 6, [TPM_Startup 1, TSC_PhysicalPresence 0x20, TSC_PhysicalPresence 8, TPM_GetCapability_Subcap 4 0x108,
                TPM_PhysicalEnable, TPM_PhysicalSetDeactivated 0], r)"
    using seq [OF example_bios_tpm_answers, where stack = "replicate 30 0"]
    by (simp add: deactivated_flag_def tpm12_first_def tpm12_enable_def example_bios_tpm_response Let_def
      run_cmds_step del: run_cmds.simps(2))
  show "fst (tpm12_bios (tpm_env example_connection failing_tpm [] (replicate 30 0)) example_target (0, [], []) True True 1 False True) = 0x80"
    using seq [OF failing_tpm_answers(1), where stack = "replicate 30 0"]
    by (auto simp: deactivated_flag_def tpm12_first_def tpm12_enable_def tpm12_rest_def failing_tpm_answers Let_def
      run_cmds_step simp del: run_cmds.simps(2))
  show "fst (tpm12_bios (tpm_env example_connection failing_tpm [] (replicate 30 1)) example_target (0, [], []) True True 1 False True) = 0x81"
    using seq [OF failing_tpm_answers(1), where stack = "replicate 30 1"]
    by (auto simp: deactivated_flag_def tpm12_first_def tpm12_enable_def failing_tpm_answers Let_def
      run_cmds_step simp del: run_cmds.simps(2))
qed

end
