(* ===== verification/Spec2Isabelle.thy ===== *)
theory Spec2Isabelle
  imports Server LinearSafety Pcap SetupProps IoctlDevice AlgosProps Bios
begin

text \<open>
  \<^bold>\<open>swtpm, a TPM emulator around libtpms: model and correctness of its core.\<close>

  swtpm gives libtpms, the library with the TPM itself, a process: it keeps the TPM's state in
  files, answers a control channel, and passes TPM commands from a data connection to the
  library. The program's parts, as they call each other, and the theories that model them
  (paths below src/src/swtpm/):

  \<^item> \<^verbatim>\<open>Tlv\<close>: tlv.c, the tag-length-value records of an encrypted blob;
  \<^item> \<^verbatim>\<open>Aes\<close>: swtpm_aes.c, AES-CBC with the PKCS padding swtpm does itself;
  \<^item> \<^verbatim>\<open>Blob\<close>: the first half of swtpm_nvstore.c, how state is encrypted, authenticated (HMAC over data
    and IV, SHA256 in the old version) and given a header;
  \<^item> \<^verbatim>\<open>Nvstore\<close>: the second half of swtpm_nvstore.c and tpmstate.c: choice of the backend, load, store, delete,
    lock, and the state blobs of a migration (GetStateBlob, SetStateBlob); SetStateBlob leads to tpmlib.c and libtpms;
  \<^item> \<^verbatim>\<open>Backend\<close>: \<open>struct nvram_backend_ops\<close> as a locale, with what the NVRAM layer gets from any backend;
  \<^item> \<^verbatim>\<open>FileIO\<close>: the file functions of utils.c (\<open>file_write\<close>, \<open>file_read\<close>, \<open>write_full\<close>, \<open>read_eintr\<close>, \<open>pathjoin\<close>) over a
    directory whose system calls can fail, be interrupted or be short;
  \<^item> \<^verbatim>\<open>Dir\<close>: swtpm_nvstore_dir.c, a directory with one file per blob: temporary files, backups, locking;
  \<^item> \<^verbatim>\<open>Linear\<close>, \<^verbatim>\<open>LinearLayout\<close>, \<^verbatim>\<open>LinearBackend\<close>, \<^verbatim>\<open>LinearSafety\<close>: swtpm_nvstore_linear.c, all blobs in one region with a
    header; \<^verbatim>\<open>LinearFile\<close>: swtpm_nvstore_linear_file.c, the region as a memory-mapped file;
  \<^item> \<^verbatim>\<open>TpmLib\<close>: tpmlib.c (and the option splitting of utils.c), starting and stopping the TPM, response headers, localities;
  \<^item> \<^verbatim>\<open>CtrlChannel\<close>: ctrlchannel.c, the control channel: receiving requests, every command, transferring state blobs;
  \<^item> \<^verbatim>\<open>SwtpmIo\<close>: swtpm_io.c, the data connection;
  \<^item> \<^verbatim>\<open>MainLoop\<close>: mainloop.c and the SIGTERM handler of swtpm.c, the server's loop;
  \<^item> \<^verbatim>\<open>Server\<close>: properties of the control channel and the loop together; this theory: properties across the storage;
  \<^item> \<^verbatim>\<open>Options\<close>: options.c, parsing comma separated options into typed values; \<^verbatim>\<open>Key\<close>: key.c, key and password files;
    \<^verbatim>\<open>Common\<close>: common.c, what each command line option does with the globals of the other parts;
  \<^item> \<^verbatim>\<open>Algos\<close>: check_algos.c, profile.c, and the string arrays and JSON functions of utils.c: which algorithms of a profile OpenSSL
    has disabled, and removing them; \<^verbatim>\<open>AlgosProps\<close>: properties, also together with the start of a TPM in \<^verbatim>\<open>TpmLib\<close>;
  \<^item> \<^verbatim>\<open>Pcap\<close>: pcap.c, the packet capture of the TPM traffic;
  \<^item> \<^verbatim>\<open>Cuse\<close>: cuse_tpm.c with threadpool.c, the second front end: a character device with read, write and ioctls, and a
    worker thread for commands that can be cancelled. \<^verbatim>\<open>CuseEquiv\<close>: its ioctls against the commands of the control channel;
    \<^verbatim>\<open>CuseRun\<close>: its runs as a step relation; \<^verbatim>\<open>CuseBlob\<close>: the transfer of state blobs.

  swtpm_ioctl (src/src/swtpm_ioctl/tpm_ioctl.c) is the client of both front ends: \<^verbatim>\<open>Ioctl\<close> models it over a record of
  system calls, \<^verbatim>\<open>IoctlLink\<close> connects it by a socket to the control channel, \<^verbatim>\<open>IoctlDevice\<close> to the CUSE device, and
  follows a state from one host to another.

  swtpm_bios (src/src/swtpm_bios/tpm_bios.c), in \<^verbatim>\<open>Bios\<close>, sends a TPM the commands of a BIOS at boot, each on a connection of its own.

  swtpm_setup (below src/src/swtpm_setup/, with src/src/utils/) manufactures a TPM: it starts swtpm on a
  pair of sockets, sends it TPM commands that create keys and NVRAM areas, has a tool sign the certificates, and stops it:

  \<^item> \<^verbatim>\<open>SetupTables\<close>: the constants, templates and tables of swtpm.c (key parameters, PCR banks, nonces, policies);
  \<^item> \<^verbatim>\<open>SetupLink\<close>: the object \<open>struct swtpm\<close>: starting and stopping the process, transferring a command,
    the control command \<open>CMD_GET_INFO\<close>;
  \<^item> \<^verbatim>\<open>SetupTpm2\<close>, \<^verbatim>\<open>SetupTpm12\<close>: the TPM 2 and TPM 1.2 operations of swtpm.c, the bytes of every command included;
    \<^verbatim>\<open>SetupKeys\<close> and \<^verbatim>\<open>SetupStore\<close>: properties of creating keys, of NVRAM areas and PCR banks;
  \<^item> \<^verbatim>\<open>SetupConfig\<close>: swtpm_setup_utils.c and swtpm_utils.c, reading configuration files;
  \<^item> \<^verbatim>\<open>Setup\<close>: swtpm_setup.c, the flows that initialize a TPM; \<^verbatim>\<open>SetupProps\<close>: properties of the flows and of
    swtpm_setup together with the server above.

  \<^bold>\<open>How code becomes definitions.\<close> One definition per function, under the function's name, and one
  per phase where a function is long (named in the manifest with its lines). Global variables are records
  that are passed through: \<open>nvram_globals\<close> and \<open>nvstate\<close> (swtpm_nvstore.c), \<open>tpmstate\<close> (tpmstate.c), \<open>linear_state\<close>
  (\<open>state\<close> of swtpm_nvstore_linear.c), \<open>mmap_state\<close>, \<open>mainLoopParams\<close> and \<open>mstate\<close> (the locals of \<open>mainLoop\<close>). A
  \<open>TPM_RESULT\<close> is a 32 bit word; a call that returns data is a sum, \<open>Inl\<close> the error. Lengths that the code keeps in
  32 bits are words and wrap; a length given to an \<open>int\<close> parameter of libcrypto is read as signed; buffers are lists of bytes. A NULL
  pointer that the code would follow is the result \<open>None\<close>, and so is a read of the control channel that blocks for ever because the client
  sends nothing more and keeps the connection open. Loops over a buffer are recursive functions over that
  list, so they terminate by construction; the loops that receive the rest of a state blob or of hash data have fuel, one round per coming
  read, and \<^verbatim>\<open>Server\<close> shows exactly when they end. The loops of swtpm_ioctl that depend on what the other side answers
  (\<open>save_loop\<close>, \<open>save_read_loop\<close>, \<open>info_loop\<close>) have fuel, \<open>None\<close> meaning that they still run: a blob needs at most one round per
  byte plus two over a socket and 22 rounds over the device, and the theorems state how much is enough or that none
  is. \<open>mainLoop\<close>, which
  is meant to run forever, takes the results of the coming \<open>poll\<close> calls as a list and says whether it still waits.

  \<^bold>\<open>What is a parameter.\<close> libtpms (\<open>libtpms\<close>, \<open>tpmlib\<close>), libcrypto (\<open>crypto\<close>) and the environment of the
  OpenSSL configuration (\<open>ossl_env\<close>) are records of functions; \<open>crypto_ok\<close> states that decryption undoes
  encryption, for blocks whose length fits an \<open>int\<close>, and that digests have their length. The operating system is explicit: \<open>dirstate\<close> is a directory
  with a list of coming faults and the history of its contents, \<open>mmap_state\<close> a file with its durable and mapped
  bytes, the sockets are lists of what the coming reads and writes do. For swtpm_setup the TPM behind the
  sockets, the processes and the timing are functions of \<open>setup_env\<close>, the programs that create certificates
  and the file system of the state \<open>setup_host\<close>, SHA1 and RSA \<open>tpm12_crypto\<close>; its loops that wait for a
  socket or for the process end count the 500 or 1000 rounds that the code allows. For the CUSE device
  \<open>cuse_env\<close> says whether directories and the thread pool can be made and what is on the stack; the kernel's requests are
  events of the step relation \<open>cuse_step\<close>. For swtpm_ioctl \<open>ioctl_conn\<close> has the system calls on the connection, \<open>out_file\<close> and
  \<open>in_file\<close> its files; \<open>sock_conn\<close> and \<open>cuse_conn\<close> are instances in which the models of the two servers answer. For the algorithm checks \<open>ossl\<close> has the
  functions of OpenSSL 3 and \<open>json_lib\<close> those of the JSON library, with \<open>json_ok\<close> for its laws: parsed nodes have UTF-8 strings and no member
  twice, and a text generated from a parsed object in which a string was set parses to that object; for swtpm_bios \<open>bios_env\<close> has the system
  calls. \<open>os_processes\<close> says what \<open>kill\<close> and \<open>waitpid\<close> do to the process that swtpm_setup started, and \<open>tpm_nv_command\<close> what a TPM 2 does
  with the requests for NVRAM areas.

  \<^bold>\<open>What is shown.\<close>
  \<^item> Storage: a sequence of stores and deletes behaves as a map for both backends (below), a store into a
    directory is atomic under every failure and kill, backups keep the old state unless the file's presence cannot be
    tested, and restoring is an involution (\<^verbatim>\<open>Dir\<close>), the linear layout is kept, files do not overlap and compaction moves no file's
    bytes (\<^verbatim>\<open>LinearLayout\<close>, \<^verbatim>\<open>LinearSafety\<close>), a flush of the region is durable (\<^verbatim>\<open>LinearFile\<close>).
  \<^item> Encoding: TLV and AES round trips, decrypted data is authentic (in the first blob version only intact), a blob without its key is refused
    (\<^verbatim>\<open>Tlv\<close>, \<^verbatim>\<open>Aes\<close>, \<^verbatim>\<open>Blob\<close>, \<^verbatim>\<open>Nvstore\<close>), migration carries the state between hosts (below).
  \<^item> Server: each request is answered once but for three named cases, commands that need a running TPM are refused without one,
    the locality between the events of a run, framing on both channels, TPM2_Shutdown, termination by SIGTERM, and that
    exactly a client that stalls in the middle of a blob or of hash data blocks the server
    (\<^verbatim>\<open>Server\<close>, \<^verbatim>\<open>SwtpmIo\<close>, \<^verbatim>\<open>TpmLib\<close>).
  \<^item> Defects: theorems that show where the code falls short of its comments or manual: the lock given up with
    the save state, requests cut short, a SIGTERM lost, a blob lost when the linear store cannot grow, a
    bounds check that wraps, a flush that misses bytes, a locality set past the limit, a client that can block the server, a binary key file that is
    used as a shorter key, checksums in a capture that drop a carry (\<^verbatim>\<open>Common\<close>, \<^verbatim>\<open>Pcap\<close>).
  \<^item> Options: printing and parsing options is a round trip and every value has the type its option declares
    (\<^verbatim>\<open>Options\<close>), hexadecimal key files (\<^verbatim>\<open>Key\<close>), the record format of the capture (\<^verbatim>\<open>Pcap\<close>).
  \<^item> swtpm_setup: every byte string it sends is one request of the right length for the server, whatever the TPM
    answers, except for a long certificate on a TPM 1.2; a swtpm that was started does not run any more at the end and has been waited
    for, except after an error about the profile; public keys are read out of the responses at the right
    offsets; NVRAM areas hold what was written, under the index they were defined with; exactly the chosen PCR banks are allocated; the option with the
    state directory and the control request that it sends are understood by the server's model
    (\<^verbatim>\<open>SetupKeys\<close>, \<^verbatim>\<open>SetupStore\<close>, \<^verbatim>\<open>SetupConfig\<close>, \<^verbatim>\<open>SetupProps\<close>). Its defects: a device identity key of 4096 bit RSA cannot
    be read, a key that could not be made permanent is reported as created, an error about the profile or a start that takes too long leaves
    swtpm running, a certificate too long for one request is sent in one, lengths that wrap in \<open>CMD_GET_INFO\<close>.

  \<^item> CUSE device: the ioctls that both front ends have in the same form agree with the command of the control channel in the whole answer and
    the effect (\<^verbatim>\<open>CuseEquiv\<close>); every request is answered once but for named cases, at most one file is open and the locality is an allowed
    one in every run, and a queued command is processed as it was written unless another write comes (\<^verbatim>\<open>CuseRun\<close>); uploads and downloads in pieces are exact (\<^verbatim>\<open>CuseBlob\<close>). Its defects: a reply that is
    never sent, a refused write that changes the queued command, a response freed but not forgotten, an upload that was
    given up and comes back, a cache that is stale, an offset that is dropped.
  \<^item> swtpm_ioctl: state saved on one host and loaded on another arrives in libtpms, hash data arrives in order, and
    saving from the device ends exactly for blobs of at most 67584 bytes (\<^verbatim>\<open>IoctlLink\<close>, \<^verbatim>\<open>IoctlDevice\<close>).
  \<^item> Algorithms: stopping the tests early does not change their result, and a profile from which the disabled algorithms
    were removed passes the check at the start of a TPM that reports nothing beyond it without a change of the OpenSSL configuration (\<^verbatim>\<open>AlgosProps\<close>). Defects: HMAC with SHA1 is
    not tested once there is an attribute, and prefixes count as duplicates.
  \<^item> swtpm_bios: every request is one TPM command of the right length, and a TPM that answers gets exactly the commands that
    were asked for in order, with the exit status that follows from its answers or, after a short answer, from a byte that is not initialized (\<^verbatim>\<open>Bios\<close>).

  \<^bold>\<open>Not modelled.\<close> The \<open>getopt\<close> loops of swtpm.c, swtpm_chardev.c and main.c, which hand each option to the
  handlers of \<^verbatim>\<open>Common\<close>; the log options and logging; the capabilities it prints; of
  cuse_tpm.c the command line and the callbacks it registers; daemonizing, seccomp, the VTPM proxy
  ioctl and other pure system glue; of swtpm_setup the command line, the change of user, the capabilities it prints,
  the configuration files it creates and the profile files; of swtpm_ioctl the command line and connecting;
  of swtpm_bios the text it prints; the tools swtpm_cert and swtpm-localca, which are programs of their own around GnuTLS and
  other processes.
\<close>

subsection \<open>Storage as a map\<close>

text \<open>
  What loading each state blob gives, as a map from names to plain data; a name without data
  loads with \<open>TPM_RETRY\<close>.
\<close>

definition loads ::
  "crypto \<Rightarrow> 's nvram_backend_ops \<Rightarrow> u32 \<Rightarrow> 's nvstate \<Rightarrow> (string \<Rightarrow> bytes option) \<Rightarrow> bool"
where
  "loads cr ops n nv m \<longleftrightarrow>
     (\<forall>name\<in>{TPM_PERMANENT_ALL_NAME, TPM_VOLATILESTATE_NAME, TPM_SAVESTATE_NAME}.
        fst (SWTPM_NVRAM_LoadData cr ops nv n name) =
          Some (case m name of None \<Rightarrow> Inl TPM_RETRY | Some d \<Rightarrow> Inr d))"

lemma loads_state_name:
  "loads cr ops n nv m \<longleftrightarrow> (\<forall>name. state_name name \<longrightarrow>
     fst (SWTPM_NVRAM_LoadData cr ops nv n name) =
       Some (case m name of None \<Rightarrow> Inl TPM_RETRY | Some d \<Rightarrow> Inr d))"
  unfolding loads_def state_name_def by blast

lemma dir_loads:
  "dir.nv_inv nv \<Longrightarrow> dir_calm (nv_backend nv) \<Longrightarrow>
   loads cr nvram_dir_ops n nv m \<longleftrightarrow> dir.nv_implements cr nv n m"
  by (auto simp: loads_state_name dir.nv_implements_def dir.LoadData_fst)

lemma lin_loads:
  "fs.lin.nv_inv nv \<Longrightarrow> fs.lin_calm (nv_backend nv) \<Longrightarrow>
   loads cr (nvram_linear_ops nvram_linear_file_ops) n nv m \<longleftrightarrow> fs.lin.nv_implements cr nv n m"
  by (auto simp: loads_state_name fs.lin.nv_implements_def fs.lin.LoadData_fst)

text \<open>
  C1. The directory backend implements a map: when a directory's blobs load as \<open>m\<close>, any sequence of
  stores and deletes through the NVRAM layer succeeds and afterwards the blobs load as the
  sequence applied to \<open>m\<close>, whatever keys encrypt and authenticate the files.
\<close>

theorem dir_store_is_map:
  assumes "crypto_ok cr" "globals_wf (nv_globals nv)"
    and "dir_inv (nv_tpmstate nv) (nv_backend nv)" "dir_calm (nv_backend nv)"
    and "loads cr nvram_dir_ops n nv m" "list_all (nv_op_ok state_name (2 ^ 30)) cmds"
  shows "\<exists>nv'. nv_run cr nvram_dir_ops n nv cmds = Some nv' \<and>
    loads cr nvram_dir_ops n nv' (nv_spec m cmds)"
proof -
  have i: "dir.nv_inv nv" using assms(2,3) by (simp add: dir.nv_inv_def)
  then have im: "dir.nv_implements cr nv n m" using assms(4,5) dir_loads by blast
  have "\<exists>nv'. nv_run cr nvram_dir_ops n nv cmds = Some nv' \<and> dir.nv_inv nv' \<and>
      dir_calm (nv_backend nv') \<and> dir.nv_implements cr nv' n (nv_spec m cmds)"
    by (rule dir.run_refines [OF assms(1) i assms(4) im _ _ assms(6)]) simp_all
  then show ?thesis using dir_loads by blast
qed

text \<open>The linear backend over a file satisfies the same theorem.\<close>

lemma linear_run:
  assumes "crypto_ok cr" "globals_wf (nv_globals nv)"
    and "fs.lin_inv (nv_tpmstate nv) (nv_backend nv)" "fs.lin_calm (nv_backend nv)"
    and "loads cr (nvram_linear_ops nvram_linear_file_ops) n nv m" "list_all (nv_op_ok state_name (2 ^ 29)) cmds"
  shows "\<exists>nv'. nv_run cr (nvram_linear_ops nvram_linear_file_ops) n nv cmds = Some nv' \<and>
    loads cr (nvram_linear_ops nvram_linear_file_ops) n nv' (nv_spec m cmds)"
proof -
  have i: "fs.lin.nv_inv nv" using assms(2,3) by (simp add: fs.lin.nv_inv_def)
  then have im: "fs.lin.nv_implements cr nv n m" using assms(4,5) lin_loads by blast
  have "\<exists>nv'. nv_run cr (nvram_linear_ops nvram_linear_file_ops) n nv cmds = Some nv' \<and> fs.lin.nv_inv nv' \<and>
      fs.lin_calm (nv_backend nv') \<and> fs.lin.nv_implements cr nv' n (nv_spec m cmds)"
    by (rule fs.lin.run_refines [OF assms(1) i assms(4) im _ _ assms(6)]) (auto simp: fs.lin_data_def)
  then show ?thesis using lin_loads by blast
qed

text \<open>
  C9. The linear backend implements the same map: after \<open>SWTPM_NVRAM_Prepare_Linear\<close> on an empty
  regular file, any sequence of stores and deletes succeeds and the blobs load as the sequence
  applied to the empty map, whatever the file's earlier sections were and however they had to be moved.
\<close>

theorem linear_store_is_map:
  assumes "crypto_ok cr" "globals_wf g" "\<not> g_tpmstate_make_backup ts" "\<not> g_tpmstate_do_fsync ts"
    and "\<not> initialized s" "\<forall>k. alloc_ok s k" "\<not> mapped (store s)" "mfaults (store s) = []"
    and "kind (store s) = REG" "file_bytes (store s) = []"
    and "0 < sc_pagesize (store s)" "sc_pagesize (store s) \<le> 2 ^ 20"
    and "list_all (nv_op_ok state_name (2 ^ 29)) cmds"
  shows "\<exists>s0 nv'. SWTPM_NVRAM_Prepare_Linear nvram_linear_file_ops ts s (backend_uri ts) = (0, s0) \<and>
    nv_run cr (nvram_linear_ops nvram_linear_file_ops) n
      \<lparr>nv_tpmstate = ts, nv_globals = g, g_nvram_backend_ops = Some (nvram_linear_ops nvram_linear_file_ops),
       nv_backend = s0\<rparr> cmds = Some nv' \<and>
    loads cr (nvram_linear_ops nvram_linear_file_ops) n nv' (nv_spec (\<lambda>_. None) cmds)"
proof (rule prepare_fresh [OF assms(3-6) refl assms(7-12), of "backend_uri ts"])
  fix s0
  assume p: "SWTPM_NVRAM_Prepare_Linear nvram_linear_file_ops ts s (backend_uri ts) = (0, s0)"
    and i: "fs.lin_inv ts s0" and c: "fs.lin_calm s0"
    and e: "\<And>n name. state_name name \<Longrightarrow> fs.lin_content ts s0 n name = None"
  let ?nv = "\<lparr>nv_tpmstate = ts, nv_globals = g,
    g_nvram_backend_ops = Some (nvram_linear_ops nvram_linear_file_ops), nv_backend = s0\<rparr>"
  have "fs.lin.nv_inv ?nv" using i assms(2) by (simp add: fs.lin.nv_inv_def)
  moreover have "fs.lin.nv_implements cr ?nv n (\<lambda>_. None)"
    using e by (simp add: fs.lin.nv_implements_def fs.lin.nv_view_def)
  ultimately have "loads cr (nvram_linear_ops nvram_linear_file_ops) n ?nv (\<lambda>_. None)"
    using c lin_loads by simp
  from linear_run [OF assms(1) _ _ _ this assms(13)] p i c assms(2) show ?thesis by simp
qed

definition example_nv :: "'s \<Rightarrow> 's nvram_backend_ops \<Rightarrow> tpmstate \<Rightarrow> 's nvstate" where
  "example_nv b ops ts =
     \<lparr>nv_tpmstate = ts, nv_globals = example_globals 16 32, g_nvram_backend_ops = Some ops, nv_backend = b\<rparr>"

lemma example_dir_loads:
  "loads example_crypto nvram_dir_ops n
     (example_nv (example_dir Map.empty []) nvram_dir_ops (example_settings False)) (\<lambda>_. None)"
  by (subst dir_loads)
    (simp_all add: dir.nv_inv_def dir.nv_implements_def dir.nv_view_def dir_inv_example example_globals_wf
      example_nv_def dir_calm_def example_dir_def dir_content_def)

theorem dir_store_is_map_witness:
  "\<exists>nv'. nv_run example_crypto nvram_dir_ops 0
       (example_nv (example_dir Map.empty []) nvram_dir_ops (example_settings False))
       [NvStore TPM_PERMANENT_ALL_NAME [1, 2], NvStore TPM_SAVESTATE_NAME [3], NvDelete TPM_SAVESTATE_NAME] =
       Some nv' \<and>
     fst (SWTPM_NVRAM_LoadData example_crypto nvram_dir_ops nv' 0 TPM_PERMANENT_ALL_NAME) = Some (Inr [1, 2]) \<and>
     fst (SWTPM_NVRAM_LoadData example_crypto nvram_dir_ops nv' 0 TPM_SAVESTATE_NAME) = Some (Inl TPM_RETRY)"
proof -
  have "\<exists>nv'. nv_run example_crypto nvram_dir_ops 0
       (example_nv (example_dir Map.empty []) nvram_dir_ops (example_settings False))
       [NvStore TPM_PERMANENT_ALL_NAME [1, 2], NvStore TPM_SAVESTATE_NAME [3], NvDelete TPM_SAVESTATE_NAME] =
       Some nv' \<and> loads example_crypto nvram_dir_ops 0 nv' (nv_spec (\<lambda>_. None)
       [NvStore TPM_PERMANENT_ALL_NAME [1, 2], NvStore TPM_SAVESTATE_NAME [3], NvDelete TPM_SAVESTATE_NAME])"
    by (rule dir_store_is_map [OF example_crypto_ok _ _ _ example_dir_loads])
      (simp_all add: example_nv_def example_globals_wf dir_inv_example dir_calm_def example_dir_def state_name_def)
  then show ?thesis by (auto simp: loads_def)
qed

theorem linear_store_is_map_witness:
  "\<exists>s0 nv'. SWTPM_NVRAM_Prepare_Linear nvram_linear_file_ops linear_settings fresh_linear
       (backend_uri linear_settings) = (0, s0) \<and>
     nv_run example_crypto (nvram_linear_ops nvram_linear_file_ops) 0
       (example_nv s0 (nvram_linear_ops nvram_linear_file_ops) linear_settings)
       [NvStore TPM_PERMANENT_ALL_NAME [1, 2], NvStore TPM_SAVESTATE_NAME [3], NvDelete TPM_PERMANENT_ALL_NAME] =
       Some nv' \<and>
     fst (SWTPM_NVRAM_LoadData example_crypto (nvram_linear_ops nvram_linear_file_ops) nv' 0 TPM_SAVESTATE_NAME) =
       Some (Inr [3])"
proof -
  have "\<exists>s0 nv'. SWTPM_NVRAM_Prepare_Linear nvram_linear_file_ops linear_settings fresh_linear
       (backend_uri linear_settings) = (0, s0) \<and>
     nv_run example_crypto (nvram_linear_ops nvram_linear_file_ops) 0
       \<lparr>nv_tpmstate = linear_settings, nv_globals = example_globals 16 32,
        g_nvram_backend_ops = Some (nvram_linear_ops nvram_linear_file_ops), nv_backend = s0\<rparr>
       [NvStore TPM_PERMANENT_ALL_NAME [1, 2], NvStore TPM_SAVESTATE_NAME [3], NvDelete TPM_PERMANENT_ALL_NAME] =
       Some nv' \<and> loads example_crypto (nvram_linear_ops nvram_linear_file_ops) 0 nv' (nv_spec (\<lambda>_. None)
       [NvStore TPM_PERMANENT_ALL_NAME [1, 2], NvStore TPM_SAVESTATE_NAME [3], NvDelete TPM_PERMANENT_ALL_NAME])"
    by (rule linear_store_is_map [OF example_crypto_ok])
      (simp_all add: example_globals_wf linear_settings_def fresh_linear_def example_mapping_def state_name_def)
  then show ?thesis by (auto simp: loads_def example_nv_def)
qed

subsection \<open>Migration\<close>

text \<open>
  C3. Migration carries the state: data stored on one host through the NVRAM layer comes out of
  \<open>SWTPM_NVRAM_GetStateBlob\<close> as a blob which \<open>SWTPM_NVRAM_SetStateBlob\<close> on another host with the same
  keys turns into exactly that data in front of libtpms, whether or not the blob is decrypted on the
  way and whichever of the two keys are set.
\<close>

theorem migration_roundtrip:
  assumes "crypto_ok cr" "globals_wf (nv_globals nv)"
    and "dir_inv (nv_tpmstate nv) (nv_backend nv)" "dir_calm (nv_backend nv)"
    and "state_name name" "length d \<le> 2 ^ 30" "tpmlib_blobtype_to_statetype blobtype = Some st"
    and "filekey g = filekey (nv_globals nv)" "migrationkey g = migrationkey (nv_globals nv)"
  shows "\<exists>nv1 nv2 blob enc. SWTPM_NVRAM_StoreData cr nvram_dir_ops nv d n name = (0, nv1) \<and>
    SWTPM_NVRAM_GetStateBlob cr nvram_dir_ops nv1 n name decrypt = (Some (Inr blob), enc, nv2) \<and>
    enc = (\<not> decrypt \<and> SWTPM_NVRAM_Has_FileKey (nv_globals nv)) \<and>
    SWTPM_NVRAM_SetStateBlob cr lib t g blob enc blobtype = TPMLIB_SetState lib t st (Some d)"
proof -
  have i: "dir.nv_inv nv" using assms(2,3) by (simp add: dir.nv_inv_def)
  obtain rc nv1 where st: "SWTPM_NVRAM_StoreData cr nvram_dir_ops nv d n name = (rc, nv1)" by fastforce
  have len: "length d + 2000 < 2 ^ 31" "length d + 5000 < 2 ^ 31" using assms(6) by simp_all
  note v = dir.StoreData_view [OF assms(1) i assms(5) len(1) _ st]
  have rc: "rc = 0" "dir_calm (nv_backend nv1)" using v(4) assms(4) by simp_all
  have i1: "dir.nv_inv nv1" "dir.nv_view cr nv1 n name = Inr d" using v(1,2) rc(1) by simp_all
  have keys: "filekey g = filekey (nv_globals nv1)" "migrationkey g = migrationkey (nv_globals nv1)"
    using v(6,7) assms(8,9) by simp_all
  show ?thesis
    by (rule dir.GetStateBlob_migrates [OF assms(1) i1(1) rc(2) assms(5) i1(2) len(2) assms(7), of decrypt])
      (use st rc(1) v(6) keys in \<open>auto simp: SWTPM_NVRAM_Has_FileKey_def SWTPM_NVRAM_FileKey_Size_def\<close>)
qed

theorem migration_roundtrip_witness:
  "\<exists>nv1 nv2 blob enc. SWTPM_NVRAM_StoreData example_crypto nvram_dir_ops
       (example_nv (example_dir Map.empty []) nvram_dir_ops (example_settings False)) [5, 6, 7] 0
       TPM_PERMANENT_ALL_NAME = (0, nv1) \<and>
     SWTPM_NVRAM_GetStateBlob example_crypto nvram_dir_ops nv1 0 TPM_PERMANENT_ALL_NAME False =
       (Some (Inr blob), enc, nv2) \<and> enc \<and>
     SWTPM_NVRAM_SetStateBlob example_crypto
       \<lparr>TPMLIB_VolatileAll_Store = (\<lambda>t. Inl 9), TPMLIB_SetState = (\<lambda>t st d. (0, d))\<rparr> None
       (example_globals 16 32) blob enc 1 = (0, Some [5, 6, 7])"
proof -
  let ?nv = "example_nv (example_dir Map.empty []) nvram_dir_ops (example_settings False)"
  let ?lib = "\<lparr>TPMLIB_VolatileAll_Store = (\<lambda>t. Inl 9), TPMLIB_SetState = (\<lambda>t st d. (0, d))\<rparr>"
  have "\<exists>nv1 nv2 blob enc. SWTPM_NVRAM_StoreData example_crypto nvram_dir_ops ?nv [5, 6, 7] 0
       TPM_PERMANENT_ALL_NAME = (0, nv1) \<and>
     SWTPM_NVRAM_GetStateBlob example_crypto nvram_dir_ops nv1 0 TPM_PERMANENT_ALL_NAME False =
       (Some (Inr blob), enc, nv2) \<and> enc = (\<not> False \<and> SWTPM_NVRAM_Has_FileKey (nv_globals ?nv)) \<and>
     SWTPM_NVRAM_SetStateBlob example_crypto ?lib None (example_globals 16 32) blob enc 1 =
       TPMLIB_SetState ?lib None TPMLIB_STATE_PERMANENT (Some [5, 6, 7])"
    by (rule migration_roundtrip [OF example_crypto_ok])
      (simp_all add: example_nv_def example_globals_wf dir_inv_example dir_calm_def example_dir_def
        state_name_def tpmlib_blobtype_to_statetype_def)
  moreover have "SWTPM_NVRAM_Has_FileKey (nv_globals ?nv)"
    by (simp add: SWTPM_NVRAM_Has_FileKey_def SWTPM_NVRAM_FileKey_Size_def example_nv_def example_globals_def)
  ultimately show ?thesis by simp
qed

end
